(* ===== verification/Cresta_Prelude.thy ===== *)
theory Cresta_Prelude
  imports Complex_Main
begin

text \<open>
  Shared vocabulary of the development: the value types of the Python backend
  (identifiers, decimals, instants, calendar dates, JSON payloads and their digests), the
  rounding modes of \<open>decimal.Decimal\<close> the code uses, ASCII string helpers, and keyed
  tables. A database table is a list of rows in insertion order; \<open>row_find\<close> is a
  primary-key lookup, \<open>row_upd\<close> an ORM attribute update of the row with that key. The
  locale \<open>db_table\<close> states what a client may rely on when a table is one field of a
  larger state; every table of the schema interprets it.
\<close>

named_theorems row_simps \<open>facts on keyed row lists\<close>
named_theorems dec_simps \<open>facts on decimal rounding\<close>
named_theorems frame_simps \<open>which tables an operation leaves alone\<close>

section \<open>Value types\<close>

type_synonym uuid = nat
type_synonym decimal = rat
type_synonym instant = int   \<comment> \<open>microseconds since the epoch, UTC\<close>
type_synonym date = int      \<comment> \<open>days since 1970-01-01\<close>

text \<open>JSON payloads, and SHA-256 as a symbolic (collision free) digest of a payload.\<close>

datatype json =
    JNull
  | JBool bool
  | JInt int
  | JStr string
  | JDec decimal   \<comment> \<open>\<open>str\<close> of a Decimal at its column's scale\<close>
  | JDate date     \<comment> \<open>ISO text of a date\<close>
  | JTime instant  \<comment> \<open>ISO text of a datetime\<close>
  | JArr "json list"
  | JObj "(string \<times> json) list"
  | JHash json     \<comment> \<open>hexadecimal text of the SHA-256 of a document\<close>

datatype digest = Sha256 json

primrec digest_json :: "digest \<Rightarrow> json" where
  "digest_json (Sha256 j) = JHash j"

text \<open>Decimal text of an identifier: what an f-string interpolates.\<close>

fun uuid_text :: "uuid \<Rightarrow> string" where
  "uuid_text n =
     (if n < 10 then [char_of (48 + n)] else uuid_text (n div 10) @ [char_of (48 + n mod 10)])"

declare uuid_text.simps [simp del]

definition json_uuid :: "uuid \<Rightarrow> json" where
  "json_uuid i = JStr (uuid_text i)"

definition json_opt :: "('v \<Rightarrow> json) \<Rightarrow> 'v option \<Rightarrow> json" where
  "json_opt f x = (case x of None \<Rightarrow> JNull | Some v \<Rightarrow> f v)"

section \<open>Decimals\<close>

definition round_half_even :: "decimal \<Rightarrow> int" where
  "round_half_even x =
     (let f = \<lfloor>x\<rfloor>; r = x - of_int f
      in if r < 1 / 2 then f
         else if 1 / 2 < r then f + 1
         else if even f then f else f + 1)"

definition round_half_up :: "decimal \<Rightarrow> int" where
  "round_half_up x = (if 0 \<le> x then \<lfloor>x + 1 / 2\<rfloor> else - \<lfloor>1 / 2 - x\<rfloor>)"

definition round_down :: "decimal \<Rightarrow> int" where
  "round_down x = (if 0 \<le> x then \<lfloor>x\<rfloor> else - \<lfloor>- x\<rfloor>)"

definition quantize :: "(decimal \<Rightarrow> int) \<Rightarrow> nat \<Rightarrow> decimal \<Rightarrow> decimal" where
  "quantize rnd places x = of_int (rnd (x * 10 ^ places)) / 10 ^ places"

text \<open>\<open>value.quantize(Decimal("0.0001"))\<close> under the default context.\<close>

definition quantize4 :: "decimal \<Rightarrow> decimal" where
  "quantize4 = quantize round_half_even 4"

definition quantize4_half_up :: "decimal \<Rightarrow> decimal" where
  "quantize4_half_up = quantize round_half_up 4"

definition quantized :: "nat \<Rightarrow> decimal \<Rightarrow> bool" where
  "quantized places x \<longleftrightarrow> of_int \<lfloor>x * 10 ^ places\<rfloor> = x * 10 ^ places"

lemma round_half_even_of_int [dec_simps]: "round_half_even (of_int n) = n"
  by (simp add: round_half_even_def)

lemma round_half_up_of_int [dec_simps]: "round_half_up (of_int n) = n"
proof -
  have "\<lfloor>of_int n + 1 / 2 :: rat\<rfloor> = n" and "\<lfloor>1 / 2 - of_int n :: rat\<rfloor> = - n"
    by linarith+
  then show ?thesis by (simp add: round_half_up_def)
qed

lemma round_down_of_int [dec_simps]: "round_down (of_int n) = n"
  by (simp add: round_down_def flip: of_int_minus)

lemma round_half_even_mono: "x \<le> y \<Longrightarrow> round_half_even x \<le> round_half_even y"
proof -
  assume le: "x \<le> y"
  then have fl: "\<lfloor>x\<rfloor> \<le> \<lfloor>y\<rfloor>" by (rule floor_mono)
  show ?thesis
  proof (cases "\<lfloor>x\<rfloor> = \<lfloor>y\<rfloor>")
    case True
    with le show ?thesis by (auto simp: round_half_even_def Let_def)
  next
    case False
    with fl have "\<lfloor>x\<rfloor> + 1 \<le> \<lfloor>y\<rfloor>" by simp
    then show ?thesis by (auto simp: round_half_even_def Let_def)
  qed
qed

lemma round_half_up_mono: "x \<le> y \<Longrightarrow> round_half_up x \<le> round_half_up y"
proof -
  assume le: "x \<le> y"
  have mono: "\<lfloor>x + 1 / 2\<rfloor> \<le> \<lfloor>y + 1 / 2\<rfloor>" "\<lfloor>1 / 2 - y\<rfloor> \<le> \<lfloor>1 / 2 - x\<rfloor>"
    using le by (auto intro!: floor_mono)
  have cross: "- \<lfloor>1 / 2 - x\<rfloor> \<le> \<lfloor>y + 1 / 2\<rfloor>" if "x < 0" "0 \<le> y"
    using that by linarith
  show ?thesis using mono cross le by (simp add: round_half_up_def)
qed

lemma quantize_mono:
  assumes "\<And>x y. x \<le> y \<Longrightarrow> rnd x \<le> rnd y" and "x \<le> y"
  shows "quantize rnd p x \<le> quantize rnd p y"
proof -
  have "x * 10 ^ p \<le> y * 10 ^ p" using assms(2) by simp
  then have "rnd (x * 10 ^ p) \<le> rnd (y * 10 ^ p)" by (rule assms(1))
  then show ?thesis by (simp add: quantize_def divide_right_mono)
qed

lemma quantize_fixed:
  assumes "\<And>n. rnd (of_int n) = n" and "quantized p x"
  shows "quantize rnd p x = x"
proof -
  have "rnd (x * 10 ^ p) = \<lfloor>x * 10 ^ p\<rfloor>"
    using assms(1) [of "\<lfloor>x * 10 ^ p\<rfloor>"] assms(2) by (simp only: quantized_def)
  then have "quantize rnd p x = x * 10 ^ p / 10 ^ p"
    using assms(2) by (simp only: quantize_def quantized_def)
  then show ?thesis by simp
qed

lemma quantized_quantize: "quantized p (quantize rnd p x)"
  by (simp add: quantized_def quantize_def)

lemma quantize4_mono: "x \<le> y \<Longrightarrow> quantize4 x \<le> quantize4 y"
  unfolding quantize4_def by (rule quantize_mono [OF round_half_even_mono])

lemma quantize4_half_up_mono: "x \<le> y \<Longrightarrow> quantize4_half_up x \<le> quantize4_half_up y"
  unfolding quantize4_half_up_def by (rule quantize_mono [OF round_half_up_mono])

lemmas quantize4_fixed = quantize_fixed [where p = 4, OF round_half_even_of_int, folded quantize4_def]
lemmas quantize4_half_up_fixed =
  quantize_fixed [where p = 4, OF round_half_up_of_int, folded quantize4_half_up_def]

lemma quantized_quantize4 [simp]: "quantized 4 (quantize4 x)" "quantized 4 (quantize4_half_up x)"
  by (simp_all add: quantize4_def quantize4_half_up_def quantized_quantize)

lemma quantized_0 [simp]: "quantized p 0"
  by (simp add: quantized_def)

lemma quantize4_idem [simp]: "quantize4 (quantize4 x) = quantize4 x"
  by (simp add: quantize4_fixed)

lemma quantize4_nonneg: "0 \<le> x \<Longrightarrow> 0 \<le> quantize4 x"
  using quantize4_mono [where x = 0 and y = x] quantize4_fixed [where x = 0] by simp

lemma quantize4_half_up_nonneg: "0 \<le> x \<Longrightarrow> 0 \<le> quantize4_half_up x"
  using quantize4_half_up_mono [where x = 0 and y = x] quantize4_half_up_fixed [where x = 0]
  by simp

section \<open>Calendar and strings\<close>

definition seconds :: "int \<Rightarrow> instant" where
  "seconds n = n * 1000000"

definition kst_offset :: instant where
  "kst_offset = seconds (9 * 3600)"

definition kst_date :: "instant \<Rightarrow> date" where
  "kst_date t = (t + kst_offset) div seconds 86400"

text \<open>Seconds since midnight in Seoul, and the weekday (Monday is 0).\<close>

definition kst_second_of_day :: "instant \<Rightarrow> int" where
  "kst_second_of_day t = ((t + kst_offset) mod seconds 86400) div 1000000"

definition weekday :: "date \<Rightarrow> int" where
  "weekday d = (d + 3) mod 7"

definition char_upper :: "char \<Rightarrow> char" where
  "char_upper c =
     (let n = of_char c :: nat in if 97 \<le> n \<and> n \<le> 122 then char_of (n - 32) else c)"

definition str_upper :: "string \<Rightarrow> string" where
  "str_upper s = map char_upper s"

definition is_ws :: "char \<Rightarrow> bool" where
  "is_ws c = (let n = of_char c :: nat in n = 32 \<or> (9 \<le> n \<and> n \<le> 13) \<or> (28 \<le> n \<and> n \<le> 31))"

definition str_strip :: "string \<Rightarrow> string" where
  "str_strip s = rev (dropWhile is_ws (rev (dropWhile is_ws s)))"

definition is_digit :: "char \<Rightarrow> bool" where
  "is_digit c = (let n = of_char c :: nat in 48 \<le> n \<and> n \<le> 57)"

definition str_isdigit :: "string \<Rightarrow> bool" where
  "str_isdigit s = (s \<noteq> [] \<and> list_all is_digit s)"

section \<open>Keyed rows\<close>

definition row_find :: "('r \<Rightarrow> 'k) \<Rightarrow> 'k \<Rightarrow> 'r list \<Rightarrow> 'r option" where
  "row_find key k rs = find (\<lambda>r. key r = k) rs"

definition row_upd :: "('r \<Rightarrow> 'k) \<Rightarrow> 'k \<Rightarrow> ('r \<Rightarrow> 'r) \<Rightarrow> 'r list \<Rightarrow> 'r list" where
  "row_upd key k f rs = map (\<lambda>r. if key r = k then f r else r) rs"

text \<open>The first row in descending order of a sort column (\<open>ORDER BY c DESC\<close>, first row).\<close>

fun first_desc :: "('r \<Rightarrow> int) \<Rightarrow> 'r list \<Rightarrow> 'r option" where
  "first_desc c [] = None"
| "first_desc c (r # rs) =
     (case first_desc c rs of None \<Rightarrow> Some r | Some s \<Rightarrow> if c r < c s then Some s else Some r)"

lemma row_find_Some: "row_find key k rs = Some r \<Longrightarrow> r \<in> set rs \<and> key r = k"
  by (auto simp: row_find_def find_Some_iff)

lemma row_find_None_iff: "row_find key k rs = None \<longleftrightarrow> k \<notin> key ` set rs"
  by (auto simp: row_find_def find_None_iff)

lemma row_find_simps [simp]:
  "row_find key k [] = None"
  "row_find key k (r # rs) = (if key r = k then Some r else row_find key k rs)"
  by (simp_all add: row_find_def)

lemma row_find_append [row_simps]:
  "row_find key k (rs @ ss) =
     (case row_find key k rs of None \<Rightarrow> row_find key k ss | Some r \<Rightarrow> Some r)"
  by (induction rs) auto

lemma find_append:
  "find P (rs @ ss) = (case find P rs of None \<Rightarrow> find P ss | Some r \<Rightarrow> Some r)"
  by (induction rs) auto

lemma row_find_snoc_new: "key r \<notin> key ` set rs \<Longrightarrow> row_find key (key r) (rs @ [r]) = Some r"
  by (induction rs) auto

lemma row_find_row_upd [row_simps]:
  "(\<And>r. key (f r) = key r) \<Longrightarrow>
   row_find key j (row_upd key k f rs) =
     (if j = k then map_option f (row_find key k rs) else row_find key j rs)"
  by (induction rs) (auto simp: row_upd_def)

lemma row_find_row_upd_const:
  assumes "row_find key k rs = Some r" "key r' = k"
  shows "row_find key j (row_upd key k (\<lambda>_. r') rs) = (if j = k then Some r' else row_find key j rs)"
proof (cases "j = k")
  case True
  with assms show ?thesis
    by (induction rs) (auto simp: row_upd_def split: if_splits)
next
  case False
  have "row_find key j (row_upd key k (\<lambda>_. r') rs) = row_find key j rs"
    using False assms(2) by (induction rs) (auto simp: row_upd_def)
  with False show ?thesis by simp
qed

lemma row_find_distinct:
  "distinct (map key rs) \<Longrightarrow> r \<in> set rs \<Longrightarrow> row_find key (key r) rs = Some r"
  by (induction rs) (auto simp: image_iff)

lemma row_find_filter:
  "distinct (map key rs) \<Longrightarrow> row_find key k rs = Some r \<Longrightarrow> filter (\<lambda>s. key s = k) rs = [r]"
  by (induction rs) (auto simp: filter_empty_conv image_iff split: if_splits)

lemma map_key_row_upd [row_simps]:
  "(\<And>r. g (f r) = g r) \<Longrightarrow> map g (row_upd key k f rs) = map g rs"
  by (simp add: row_upd_def)

lemma map_row_upd_same:
  "(\<And>r. r \<in> set rs \<Longrightarrow> key r = k \<Longrightarrow> g (f r) = g r) \<Longrightarrow> map g (row_upd key k f rs) = map g rs"
  by (induction rs) (auto simp: row_upd_def)

lemma row_upd_absent [row_simps]: "k \<notin> key ` set rs \<Longrightarrow> row_upd key k f rs = rs"
  by (induction rs) (auto simp: row_upd_def)

lemma row_upd_Nil [simp]: "row_upd key k f [] = []"
  by (simp add: row_upd_def)

lemma set_row_updE:
  assumes "s \<in> set (row_upd key k f rs)"
  obtains "s \<in> set rs" "key s \<noteq> k" | r where "r \<in> set rs" "key r = k" "s = f r"
  using assms by (auto simp: row_upd_def split: if_splits)

lemma ball_row_upd:
  assumes "\<forall>r \<in> set rs. P r" and "\<And>r. r \<in> set rs \<Longrightarrow> key r = k \<Longrightarrow> P r \<Longrightarrow> P (f r)"
  shows "\<forall>r \<in> set (row_upd key k f rs). P r"
  using assms by (auto simp: row_upd_def)

lemma row_upd_row_upd [row_simps]:
  "(\<And>r. key (f r) = key r) \<Longrightarrow> row_upd key k g (row_upd key k f rs) = row_upd key k (\<lambda>r. g (f r)) rs"
  by (simp add: row_upd_def)

lemma ball_row_upd_unique:
  assumes "distinct (map key rs)" "row_find key k rs = Some c" "\<forall>r \<in> set rs. P r" "P (f c)"
  shows "\<forall>r \<in> set (row_upd key k f rs). P r"
proof (rule ball_row_upd [OF assms(3)])
  fix r
  assume "r \<in> set rs" "key r = k"
  with assms(1,2) row_find_distinct [of key rs r] have "r = c" by simp
  with assms(4) show "P (f r)" by simp
qed

lemma row_find_cong_static:
  assumes "map g rs = map g ss" and "\<And>r. key r = h (g r)"
  shows "map_option g (row_find key k rs) = map_option g (row_find key k ss)"
proof -
  have "list_all2 (\<lambda>r s. g r = g s) rs ss"
    using assms(1) by (simp add: list_all2_map1 list_all2_map2 flip: list.rel_eq)
  then show ?thesis
    by (induction rule: list_all2_induct) (auto simp: assms(2))
qed

lemma filter_row_upd_outside:
  "(\<And>r. r \<in> set rs \<Longrightarrow> key r = k \<Longrightarrow> \<not> P r \<and> \<not> P (f r)) \<Longrightarrow>
   filter P (row_upd key k f rs) = filter P rs"
  by (induction rs) (auto simp: row_upd_def)

lemma row_upd_unique:
  "distinct (map key rs) \<Longrightarrow> row_find key k rs = Some r \<Longrightarrow>
   row_upd key k f rs = row_upd key k (\<lambda>_. f r) rs"
  by (induction rs) (auto simp: row_upd_def image_iff split: if_splits)

lemma sum_list_row_upd:
  fixes g :: "'r \<Rightarrow> 'n::ab_group_add"
  assumes "distinct (map key rs)" and "row_find key k rs = Some r"
  shows "sum_list (map g (row_upd key k f rs)) = sum_list (map g rs) - g r + g (f r)"
  using assms
proof (induction rs)
  case Nil
  then show ?case by simp
next
  case (Cons s rs)
  show ?case
  proof (cases "key s = k")
    case True
    with Cons.prems have "k \<notin> key ` set rs" and "s = r" by auto
    moreover have "row_upd key k f (s # rs) = f s # row_upd key k f rs"
      using True by (simp add: row_upd_def)
    ultimately show ?thesis by (simp add: row_upd_absent)
  next
    case False
    with Cons show ?thesis by (simp add: row_upd_def algebra_simps)
  qed
qed

lemma first_desc_Some: "first_desc c rs = Some r \<Longrightarrow> r \<in> set rs \<and> (\<forall>s \<in> set rs. c s \<le> c r)"
proof (induction rs arbitrary: r)
  case Nil
  then show ?case by simp
next
  case (Cons s rs)
  show ?case
  proof (cases "first_desc c rs")
    case None
    with Cons.prems have "rs = []"
      by (cases rs) (auto split: option.splits if_splits)
    with Cons.prems show ?thesis by simp
  next
    case (Some t)
    with Cons.IH have "t \<in> set rs" and "\<forall>u \<in> set rs. c u \<le> c t" by blast+
    with Some Cons.prems show ?thesis by (fastforce split: if_splits)
  qed
qed

lemma first_desc_None [simp]: "first_desc c rs = None \<longleftrightarrow> rs = []"
  by (cases rs) (auto split: option.splits if_splits)

section \<open>Tables inside a state\<close>

text \<open>
  What a component may assume of a table it shares with others: reading back after a
  whole-table update gives the updated rows. Everything else about inserts and keyed
  updates follows here once for all tables.
\<close>

locale db_table =
  fixes rows :: "'d \<Rightarrow> 'r list"
    and set_rows :: "('r list \<Rightarrow> 'r list) \<Rightarrow> 'd \<Rightarrow> 'd"
    and key :: "'r \<Rightarrow> 'k"
  assumes rows_set_rows: "rows (set_rows f d) = f (rows d)"
begin

lemma get_insert_new:
  "key r \<notin> key ` set (rows d) \<Longrightarrow>
   row_find key (key r) (rows (set_rows (\<lambda>rs. rs @ [r]) d)) = Some r"
  by (simp add: rows_set_rows row_find_snoc_new)

lemma get_insert_other:
  "k \<noteq> key r \<Longrightarrow>
   row_find key k (rows (set_rows (\<lambda>rs. rs @ [r]) d)) = row_find key k (rows d)"
  by (simp add: rows_set_rows row_find_append split: option.split)

lemma get_update:
  "(\<And>r. key (f r) = key r) \<Longrightarrow>
   row_find key j (rows (set_rows (row_upd key k f) d)) =
     (if j = k then map_option f (row_find key k (rows d)) else row_find key j (rows d))"
  by (simp add: rows_set_rows row_find_row_upd)

lemma distinct_insert:
  "distinct (map key (rows d)) \<Longrightarrow> key r \<notin> key ` set (rows d) \<Longrightarrow>
   distinct (map key (rows (set_rows (\<lambda>rs. rs @ [r]) d)))"
  by (simp add: rows_set_rows)

lemma distinct_update:
  "(\<And>r. key (f r) = key r) \<Longrightarrow>
   distinct (map key (rows (set_rows (row_upd key k f) d))) = distinct (map key (rows d))"
  by (simp add: rows_set_rows map_key_row_upd)

lemma all_update:
  "(\<forall>r \<in> set (rows d). P r) \<Longrightarrow> (\<And>r. r \<in> set (rows d) \<Longrightarrow> key r = k \<Longrightarrow> P r \<Longrightarrow> P (f r)) \<Longrightarrow>
   \<forall>r \<in> set (rows (set_rows (row_upd key k f) d)). P r"
  unfolding rows_set_rows by (rule ball_row_upd)

end

section \<open>Idempotent creation\<close>

text \<open>
  The contract shared by the services that persist one row per idempotency key: a successful
  call leaves its row stored under the key with a matching fingerprint, and a call that finds
  a stored row returns it or raises, without writing. \<open>'x\<close> collects what may differ
  between two calls with the same request (clock, settings, interfering transactions).
\<close>

locale idempotent_create =
  fixes create :: "'x \<Rightarrow> 'req \<Rightarrow> 'd \<Rightarrow> ('e + 'o) \<times> 'd"
    and stored :: "'req \<Rightarrow> 'd \<Rightarrow> 'o option"
    and matches :: "'req \<Rightarrow> 'o \<Rightarrow> bool"
    and valid :: "'req \<Rightarrow> bool"
    and good :: "'x \<Rightarrow> 'd \<Rightarrow> bool"
  assumes stored_after: "valid rq \<Longrightarrow> good x d \<Longrightarrow> create x rq d = (Inr r, d') \<Longrightarrow>
      stored rq d' = Some r \<and> matches rq r"
    and stored_returned:
      "valid rq \<Longrightarrow> stored rq d = Some r \<Longrightarrow> matches rq r \<Longrightarrow> create y rq d = (Inr r, d)"
    and stored_conflict:
      "valid rq \<Longrightarrow> stored rq d = Some r \<Longrightarrow> \<not> matches rq r \<Longrightarrow> \<exists>e. create y rq d = (Inl e, d)"
begin

lemma replay:
  "valid rq \<Longrightarrow> good x d \<Longrightarrow> create x rq d = (Inr r, d') \<Longrightarrow> create y rq d' = (Inr r, d')"
  using stored_after stored_returned by blast

text \<open>However often the request is repeated, the state stays the one after the first call.\<close>

lemma replay_many:
  assumes "valid rq" "good x d" "create x rq d = (Inr r, d')"
  shows "foldl (\<lambda>s y. snd (create y rq s)) d' ys = d'"
  by (induction ys) (simp_all add: replay [OF assms])

lemma stored_never_overwritten:
  assumes "valid rq" "stored rq d = Some r"
  shows "snd (create y rq d) = d"
proof (cases "matches rq r")
  case True
  then show ?thesis using stored_returned [OF assms True, of y] by simp
next
  case False
  then show ?thesis using stored_conflict [OF assms False, of y] by auto
qed

end

end
