(* ===== verification/Cresta_Schema.thy ===== *)
theory Cresta_Schema
  imports Cresta_Prelude
begin

text \<open>
  The tables of \<open>app/models.py\<close> the trading core reads and writes, one record per
  SQLAlchemy class, the CHECK constraints of each table as a bool-valued predicate
  (\<open>..._ck\<close>), and the database state \<open>db\<close> with one row list per table. Column
  names keep the source's names behind a table prefix (\<open>o_\<close> orders, \<open>p_\<close>
  positions, \<open>f_\<close> fills, \<open>g_\<close> gates, and so on). Status columns whose CHECK
  constraint enumerates the values are datatypes; the other text columns are strings.
  Columns that only record the wall clock of a write (\<open>created_at\<close>,
  \<open>updated_at\<close> where nothing assigns or reads them) are left out.
  Identifiers are drawn from the counter \<open>uuid_seed\<close>, which plays the role of the
  generator \<open>uuid7\<close>: each draw is a value no row carries yet.
\<close>

section \<open>Enumerations\<close>

datatype order_status =
    OS_CREATED | OS_VALIDATING | OS_SUBMITTING | OS_ACKNOWLEDGED | OS_OPEN
  | OS_PARTIALLY_FILLED | OS_FILLED | OS_CANCEL_PENDING | OS_CANCELLED
  | OS_REPLACE_PENDING | OS_REPLACED | OS_REJECTED | OS_UNKNOWN | OS_RECONCILING

primrec order_status_text :: "order_status \<Rightarrow> string" where
  "order_status_text OS_CREATED = ''CREATED''"
| "order_status_text OS_VALIDATING = ''VALIDATING''"
| "order_status_text OS_SUBMITTING = ''SUBMITTING''"
| "order_status_text OS_ACKNOWLEDGED = ''ACKNOWLEDGED''"
| "order_status_text OS_OPEN = ''OPEN''"
| "order_status_text OS_PARTIALLY_FILLED = ''PARTIALLY_FILLED''"
| "order_status_text OS_FILLED = ''FILLED''"
| "order_status_text OS_CANCEL_PENDING = ''CANCEL_PENDING''"
| "order_status_text OS_CANCELLED = ''CANCELLED''"
| "order_status_text OS_REPLACE_PENDING = ''REPLACE_PENDING''"
| "order_status_text OS_REPLACED = ''REPLACED''"
| "order_status_text OS_REJECTED = ''REJECTED''"
| "order_status_text OS_UNKNOWN = ''UNKNOWN''"
| "order_status_text OS_RECONCILING = ''RECONCILING''"

datatype gate_status = GS_STARTING | GS_RECONCILING | GS_READY | GS_DEGRADED | GS_HALTED

datatype position_state = PS_OPEN | PS_CLOSED

datatype position_origin = CRESTA_MANAGED | EXTERNAL | MIXED

section \<open>Ledger rows\<close>

record order_intent =
  i_id :: uuid
  i_order_group_id :: uuid
  i_account_alias :: string
  i_environment :: string
  i_symbol :: string
  i_market :: string
  i_side :: string
  i_action :: string
  i_requested_quantity :: int
  i_correlation_id :: string
  i_version :: int

definition order_intent_ck :: "order_intent \<Rightarrow> bool" where
  "order_intent_ck i \<longleftrightarrow> 0 < i_requested_quantity i \<and> i_side i \<in> {''BUY'', ''SELL''}"

record trading_order =
  o_id :: uuid
  o_intent_id :: uuid
  o_order_group_id :: uuid
  o_parent_order_id :: "uuid option"
  o_account_alias :: string
  o_environment :: string
  o_symbol :: string
  o_market :: string
  o_side :: string
  o_order_type :: string
  o_limit_price :: "decimal option"
  o_requested_quantity :: int
  o_filled_quantity :: int
  o_cancelled_quantity :: int
  o_remaining_quantity :: int
  o_status :: order_status
  o_client_order_id :: uuid
  o_idempotency_key :: string
  o_request_hash :: digest
  o_broker_order_id :: "string option"
  o_replacement_sequence :: int
  o_unfilled_policy :: string
  o_fill_timeout_seconds :: int
  o_max_reprice_attempts :: int
  o_reprice_attempts :: int
  o_next_action_at :: "instant option"
  o_trading_date :: date
  o_correlation_id :: string
  o_version :: int
  o_created_at :: instant

definition order_quantity_ck :: "trading_order \<Rightarrow> bool" where
  "order_quantity_ck r \<longleftrightarrow>
     0 < o_requested_quantity r \<and> 0 \<le> o_filled_quantity r \<and> 0 \<le> o_cancelled_quantity r \<and>
     0 \<le> o_remaining_quantity r \<and>
     o_requested_quantity r =
       o_filled_quantity r + o_cancelled_quantity r + o_remaining_quantity r"

definition trading_order_ck :: "trading_order \<Rightarrow> bool" where
  "trading_order_ck r \<longleftrightarrow>
     order_quantity_ck r \<and>
     o_side r \<in> {''BUY'', ''SELL''} \<and> o_order_type r \<in> {''LIMIT'', ''MARKET''} \<and>
     o_unfilled_policy r \<in> {''NONE'', ''CANCEL''} \<and>
     0 \<le> o_fill_timeout_seconds r \<and>
     0 \<le> o_reprice_attempts r \<and> 0 \<le> o_max_reprice_attempts r \<and>
     o_reprice_attempts r \<le> o_max_reprice_attempts r"

record order_event =
  oe_id :: uuid
  oe_order_id :: uuid
  oe_event_type :: string
  oe_source :: string
  oe_source_key :: string
  oe_payload_hash :: digest
  oe_payload_json :: json
  oe_correlation_id :: string
  oe_occurred_at :: instant

record fill =
  f_id :: uuid
  f_order_id :: uuid
  f_broker_fill_key :: string
  f_quantity :: int
  f_price :: decimal
  f_fee :: decimal
  f_tax :: decimal
  f_filled_at :: instant

definition fill_ck :: "fill \<Rightarrow> bool" where
  "fill_ck r \<longleftrightarrow> 0 < f_quantity r \<and> 0 < f_price r \<and> 0 \<le> f_fee r \<and> 0 \<le> f_tax r"

record position =
  p_id :: uuid
  p_account_alias :: string
  p_symbol :: string
  p_quantity :: int
  p_available_quantity :: int
  p_managed_quantity :: int
  p_average_price :: decimal
  p_managed_average_price :: decimal
  p_state :: position_state
  p_origin :: position_origin
  p_version :: int

definition position_ck :: "position \<Rightarrow> bool" where
  "position_ck r \<longleftrightarrow>
     0 \<le> p_quantity r \<and>
     0 \<le> p_available_quantity r \<and> p_available_quantity r \<le> p_quantity r \<and>
     0 \<le> p_managed_quantity r \<and> p_managed_quantity r \<le> p_quantity r \<and>
     0 \<le> p_managed_average_price r \<and>
     (p_state r \<noteq> PS_OPEN \<or>
      (p_origin r = EXTERNAL \<and> p_managed_quantity r = 0) \<or>
      (p_origin r = CRESTA_MANAGED \<and> p_managed_quantity r = p_quantity r \<and> 0 < p_quantity r) \<or>
      (p_origin r = MIXED \<and> 0 < p_managed_quantity r \<and> p_managed_quantity r < p_quantity r))"

text \<open>\<open>Position(account_alias=..., symbol=...)\<close>: the column defaults.\<close>

definition new_position :: "uuid \<Rightarrow> string \<Rightarrow> string \<Rightarrow> position" where
  "new_position i alias sb =
     \<lparr>p_id = i, p_account_alias = alias, p_symbol = sb, p_quantity = 0,
      p_available_quantity = 0, p_managed_quantity = 0, p_average_price = 0,
      p_managed_average_price = 0, p_state = PS_CLOSED, p_origin = CRESTA_MANAGED,
      p_version = 1\<rparr>"

record position_event =
  pe_id :: uuid
  pe_position_id :: uuid
  pe_cause_type :: string
  pe_cause_id :: uuid
  pe_before_json :: json
  pe_after_json :: json
  pe_correlation_id :: string

record trading_gate =
  g_account_alias :: string
  g_environment :: string
  g_status :: gate_status
  g_reason :: "string option"
  g_version :: int

record audit_log =
  al_actor_type :: string
  al_actor_id :: "string option"
  al_action :: string
  al_target :: "uuid option"
  al_result :: string
  al_request_ip :: "string option"
  al_user_agent :: "string option"
  al_correlation_id :: string
  al_metadata_json :: json

section \<open>Market data rows\<close>

record market_snapshot =
  m_id :: uuid
  m_symbol :: string
  m_market :: string
  m_last_price :: decimal
  m_best_bid_price :: "decimal option"
  m_best_bid_quantity :: "int option"
  m_best_ask_price :: "decimal option"
  m_best_ask_quantity :: "int option"
  m_trading_status :: string
  m_quality :: string
  m_event_at :: instant
  m_received_at :: instant

record market_stream_state =
  ms_market :: string
  ms_symbol :: string
  ms_current_snapshot_id :: "uuid option"
  ms_quality :: string

record watchlist_item =
  w_id :: uuid
  w_user_id :: uuid
  w_market :: string
  w_symbol :: string

record broker_worker_state =
  bw_account_alias :: string
  bw_environment :: string
  bw_fencing_token :: int
  bw_state :: string
  bw_websocket_connected :: bool
  bw_subscriptions_ready :: bool
  bw_last_heartbeat_at :: instant
  bw_last_reconciliation_at :: "instant option"
  bw_last_reconciliation_run_id :: "uuid option"
  bw_last_error_code :: "string option"
  bw_started_at :: instant

section \<open>Guard and risk rows\<close>

datatype rule_result = PASSED | BLOCKED

record guard_rule =
  gr_code :: string
  gr_result :: rule_result

record guard_evaluation =
  ge_id :: uuid
  ge_execution_id :: uuid
  ge_phase :: string
  ge_subject_type :: string
  ge_subject_id :: uuid
  ge_result :: rule_result
  ge_rule_results :: "guard_rule list"
  ge_halt_scope :: "string option"
  ge_snapshot_id :: "uuid option"
  ge_position_version :: "int option"
  ge_execution_policy_version_id :: "uuid option"
  ge_risk_policy_version_id :: "uuid option"
  ge_evaluated_at :: instant
  ge_valid_until :: "instant option"

datatype risk_event_state = RE_ACTIVE | RE_RESOLVED

record risk_event =
  re_id :: uuid
  re_scope :: string
  re_rule_code :: string
  re_severity :: string
  re_state :: risk_event_state
  re_account_alias :: string
  re_symbol :: "string option"
  re_input_snapshot_id :: "uuid option"
  re_input_json :: json
  re_resolution :: "string option"
  re_resolved_at :: "instant option"
  re_correlation_id :: string
  re_created_at :: instant
  re_updated_at :: instant

datatype stop_state = ES_ACTIVE | ES_RELEASED

record emergency_stop =
  es_id :: uuid
  es_account_alias :: string
  es_level :: string
  es_state :: stop_state
  es_reason :: string
  es_activation_key :: string
  es_release_key :: "string option"
  es_activated_by :: uuid
  es_released_by :: "uuid option"
  es_activated_at :: instant
  es_released_at :: "instant option"
  es_version :: int

section \<open>Policies, decisions and approvals\<close>

datatype config_state = CV_DRAFT | CV_VALIDATED | CV_ACTIVE | CV_SUPERSEDED

record configuration_version =
  cv_id :: uuid
  cv_scope :: string
  cv_target_id :: string
  cv_category :: string
  cv_sequence :: int
  cv_state :: config_state
  cv_payload_json :: json
  cv_payload_hash :: digest
  cv_reason :: string
  cv_created_by :: string
  cv_base_active_version_id :: "uuid option"
  cv_validated_at :: "instant option"
  cv_activated_at :: "instant option"

datatype execution_mode = AUTOMATIC | MANUAL_APPROVAL | DISABLED

record decision =
  dc_id :: uuid
  dc_purpose :: string
  dc_input_snapshot_id :: uuid
  dc_symbol :: string
  dc_market :: string
  dc_action :: string
  dc_core_output_json :: json
  dc_valid_until :: instant

datatype execution_state =
    DX_ROUTING | DX_NO_ACTION | DX_DISABLED | DX_GUARD_BLOCKED | DX_SHADOW_RECORDED
  | DX_APPROVAL_PENDING | DX_EXPIRED | DX_REJECTED | DX_INVALIDATED | DX_ORDER_CREATED
  | DX_FAILED_SAFE

primrec execution_state_text :: "execution_state \<Rightarrow> string" where
  "execution_state_text DX_ROUTING = ''ROUTING''"
| "execution_state_text DX_NO_ACTION = ''NO_ACTION''"
| "execution_state_text DX_DISABLED = ''DISABLED''"
| "execution_state_text DX_GUARD_BLOCKED = ''GUARD_BLOCKED''"
| "execution_state_text DX_SHADOW_RECORDED = ''SHADOW_RECORDED''"
| "execution_state_text DX_APPROVAL_PENDING = ''APPROVAL_PENDING''"
| "execution_state_text DX_EXPIRED = ''EXPIRED''"
| "execution_state_text DX_REJECTED = ''REJECTED''"
| "execution_state_text DX_INVALIDATED = ''INVALIDATED''"
| "execution_state_text DX_ORDER_CREATED = ''ORDER_CREATED''"
| "execution_state_text DX_FAILED_SAFE = ''FAILED_SAFE''"

record decision_execution =
  de_id :: uuid
  de_execution_key :: digest
  de_decision_id :: uuid
  de_user_id :: uuid
  de_account_alias :: string
  de_symbol :: string
  de_market :: string
  de_action :: string
  de_mode :: execution_mode
  de_stage :: string
  de_state :: execution_state
  de_result_code :: "string option"
  de_execution_policy_version_id :: "uuid option"
  de_risk_policy_version_id :: "uuid option"
  de_guard_evaluation_id :: "uuid option"
  de_approval_id :: "uuid option"
  de_order_intent_id :: "uuid option"
  de_correlation_id :: string

datatype approval_state = AP_PENDING | AP_APPROVED | AP_REJECTED | AP_EXPIRED | AP_INVALIDATED

text \<open>\<open>scope_snapshot_json\<close>: the document \<open>_scope_snapshot\<close> writes, field by field.\<close>

record approval_scope =
  sc_decision_id :: uuid
  sc_reference_snapshot_id :: uuid
  sc_symbol :: string
  sc_market :: string
  sc_action :: string
  sc_reference_price :: "decimal option"
  sc_quantity :: int
  sc_position_id :: "uuid option"
  sc_position_version :: "int option"
  sc_valid_until :: instant
  sc_captured_at :: instant

record approval =
  ap_id :: uuid
  ap_execution_id :: uuid
  ap_decision_id :: uuid
  ap_user_id :: uuid
  ap_state :: approval_state
  ap_scope :: approval_scope
  ap_expires_at :: instant
  ap_actor_id :: "uuid option"
  ap_order_id :: "uuid option"
  ap_result_code :: "string option"
  ap_version :: int

section \<open>Stop triggers, leases, reconciliation and calendar rows\<close>

datatype stop_trigger_state =
  ST_PENDING | ST_SHADOW_RECORDED | ST_EXIT_PENDING | ST_SUPERSEDED | ST_FULFILLED

record stop_trigger =
  sg_id :: uuid
  sg_account_alias :: string
  sg_position_id :: uuid
  sg_position_version :: int
  sg_symbol :: string
  sg_market :: string
  sg_risk_policy_version_id :: "uuid option"
  sg_stop_price :: decimal
  sg_trigger_price :: "decimal option"
  sg_snapshot_id :: "uuid option"
  sg_state :: stop_trigger_state
  sg_result_code :: "string option"
  sg_guard_evaluation_id :: "uuid option"
  sg_risk_event_id :: "uuid option"
  sg_correlation_id :: string

record broker_lease =
  bl_account_alias :: string
  bl_owner_id :: string
  bl_fencing_token :: int
  bl_expires_at :: instant
  bl_version :: int

datatype run_state = RR_RUNNING | RR_SUCCEEDED | RR_MISMATCH | RR_FAILED

record reconciliation_run =
  rr_id :: uuid
  rr_account_alias :: string
  rr_trigger :: string
  rr_state :: run_state
  rr_started_at :: instant
  rr_completed_at :: "instant option"
  rr_snapshot_at :: "instant option"
  rr_mismatch_count :: int
  rr_critical_mismatch_count :: int
  rr_correlation_id :: string
  rr_result_summary_json :: json

record reconciliation_mismatch =
  rm_run_id :: uuid
  rm_code :: string
  rm_symbol :: "string option"
  rm_severity :: string
  rm_open :: bool
  rm_broker_value_json :: json
  rm_internal_value_json :: json
  rm_resolved_at :: "instant option"

datatype override_state = CO_ACTIVE | CO_REVOKED

record calendar_override =
  co_id :: uuid
  co_market_date :: date
  co_state :: override_state
  co_reason :: string
  co_source_reference :: string
  co_created_by :: uuid
  co_revoked_by :: "uuid option"
  co_revoked_at :: "instant option"

record venue_evaluation =
  ve_id :: uuid
  ve_owner_id :: uuid
  ve_symbol :: string
  ve_side :: string
  ve_quantity :: int
  ve_order_type :: string
  ve_urgency :: string
  ve_environment :: string
  ve_execution_stage :: string
  ve_session :: string
  ve_trading_day_status :: string
  ve_calendar_reason :: string
  ve_calendar_policy_version :: string
  ve_calendar_override_id :: "uuid option"
  ve_nxt_eligible :: bool
  ve_nxt_eligibility_status :: string
  ve_sor_supported :: bool
  ve_selected_venue :: string
  ve_state :: string
  ve_order_creation_allowed :: bool
  ve_krx_snapshot_id :: "uuid option"
  ve_nxt_snapshot_id :: "uuid option"
  ve_input_json :: json
  ve_input_hash :: digest
  ve_reason_codes :: "string list"
  ve_policy_version :: string
  ve_evaluated_at :: instant

section \<open>Settings\<close>

text \<open>The fields of \<open>app/config.py\<close> the trading core consults.\<close>

record settings =
  st_environment :: string
  st_live_trading_enabled :: bool
  st_execution_stage :: string

section \<open>The database\<close>

record db =
  uuid_seed :: nat
  order_intents :: "order_intent list"
  orders :: "trading_order list"
  order_events :: "order_event list"
  fills :: "fill list"
  positions :: "position list"
  position_events :: "position_event list"
  trading_gates :: "trading_gate list"
  audit_logs :: "audit_log list"
  market_snapshots :: "market_snapshot list"
  market_stream_states :: "market_stream_state list"
  watchlist_items :: "watchlist_item list"
  broker_worker_states :: "broker_worker_state list"
  guard_evaluations :: "guard_evaluation list"
  risk_events :: "risk_event list"
  emergency_stops :: "emergency_stop list"
  configuration_versions :: "configuration_version list"
  decision_executions :: "decision_execution list"
  approvals :: "approval list"
  stop_triggers :: "stop_trigger list"
  broker_leases :: "broker_lease list"
  reconciliation_runs :: "reconciliation_run list"
  reconciliation_mismatches :: "reconciliation_mismatch list"
  calendar_overrides :: "calendar_override list"
  venue_evaluations :: "venue_evaluation list"
  decisions :: "decision list"

definition empty_db :: db where
  "empty_db =
     \<lparr>uuid_seed = 1, order_intents = [], orders = [], order_events = [], fills = [],
      positions = [], position_events = [], trading_gates = [], audit_logs = [],
      market_snapshots = [], market_stream_states = [], watchlist_items = [],
      broker_worker_states = [], guard_evaluations = [], risk_events = [],
      emergency_stops = [], configuration_versions = [], decision_executions = [],
      approvals = [], stop_triggers = [], broker_leases = [], reconciliation_runs = [],
      reconciliation_mismatches = [], calendar_overrides = [], venue_evaluations = [],
      decisions = []\<rparr>"

definition uuid7_draw :: "db \<Rightarrow> uuid \<times> db" where
  "uuid7_draw d = (uuid_seed d, d\<lparr>uuid_seed := uuid_seed d + 1\<rparr>)"

definition order_get :: "db \<Rightarrow> uuid \<Rightarrow> trading_order option" where
  "order_get d i = row_find o_id i (orders d)"

definition order_by_key :: "db \<Rightarrow> string \<Rightarrow> trading_order option" where
  "order_by_key d k = row_find o_idempotency_key k (orders d)"

definition gate_get :: "db \<Rightarrow> string \<Rightarrow> trading_gate option" where
  "gate_get d a = row_find g_account_alias a (trading_gates d)"

text \<open>The unique row of an account and a symbol (\<open>uq_positions_account_symbol\<close>).\<close>

definition p_key :: "position \<Rightarrow> string \<times> string" where
  "p_key p = (p_account_alias p, p_symbol p)"

definition position_get :: "db \<Rightarrow> string \<Rightarrow> string \<Rightarrow> position option" where
  "position_get d a s = row_find p_key (a, s) (positions d)"

definition snapshot_get :: "db \<Rightarrow> uuid \<Rightarrow> market_snapshot option" where
  "snapshot_get d i = row_find m_id i (market_snapshots d)"

definition stream_get :: "db \<Rightarrow> string \<Rightarrow> string \<Rightarrow> market_stream_state option" where
  "stream_get d m s = row_find (\<lambda>r. (ms_market r, ms_symbol r)) (m, s) (market_stream_states d)"

definition worker_state_get :: "db \<Rightarrow> string \<Rightarrow> broker_worker_state option" where
  "worker_state_get d a = row_find bw_account_alias a (broker_worker_states d)"

section \<open>The tables as interfaces\<close>

interpretation orders_tbl: db_table orders orders_update o_id
  by unfold_locales simp

interpretation positions_tbl: db_table positions positions_update p_key
  by unfold_locales simp

interpretation fills_tbl: db_table fills fills_update f_id
  by unfold_locales simp

interpretation gates_tbl: db_table trading_gates trading_gates_update g_account_alias
  by unfold_locales simp

interpretation risk_events_tbl: db_table risk_events risk_events_update re_id
  by unfold_locales simp

interpretation emergency_stops_tbl: db_table emergency_stops emergency_stops_update es_account_alias
  by unfold_locales simp

interpretation guard_evaluations_tbl: db_table guard_evaluations guard_evaluations_update ge_id
  by unfold_locales simp

interpretation configuration_versions_tbl: db_table configuration_versions configuration_versions_update cv_id
  by unfold_locales simp

interpretation executions_tbl: db_table decision_executions decision_executions_update de_id
  by unfold_locales simp

interpretation approvals_tbl: db_table approvals approvals_update ap_id
  by unfold_locales simp

interpretation stop_triggers_tbl: db_table stop_triggers stop_triggers_update sg_id
  by unfold_locales simp

interpretation calendar_overrides_tbl: db_table calendar_overrides calendar_overrides_update co_id
  by unfold_locales simp

section \<open>Record equality and shared facts\<close>

lemma order_get_mem: "order_get d i = Some r \<Longrightarrow> r \<in> set (orders d) \<and> o_id r = i"
  unfolding order_get_def by (rule row_find_Some)

lemma order_by_key_mem:
  "order_by_key d k = Some r \<Longrightarrow> r \<in> set (orders d) \<and> o_idempotency_key r = k"
  unfolding order_by_key_def by (rule row_find_Some)

lemma position_get_mem:
  "position_get d a s = Some p \<Longrightarrow>
   p \<in> set (positions d) \<and> p_account_alias p = a \<and> p_symbol p = s"
  unfolding position_get_def by (drule row_find_Some) (simp add: p_key_def)

lemma gate_get_mem: "gate_get d a = Some g \<Longrightarrow> g \<in> set (trading_gates d) \<and> g_account_alias g = a"
  unfolding gate_get_def by (rule row_find_Some)

lemma uuid7_draw_simps [simp]:
  "fst (uuid7_draw d) = uuid_seed d"
  "snd (uuid7_draw d) = d\<lparr>uuid_seed := uuid_seed d + 1\<rparr>"
  by (simp_all add: uuid7_draw_def)

end
