(* ===== verification/Paper_Broker.thy ===== *)
theory Paper_Broker
  imports Cresta_Schema
begin

text \<open>
  The deterministic paper broker of \<open>app/trading/paper.py\<close>: order creation with an
  idempotency key, fills (duplicates, late fills after a cancel or a replacement), the
  position ledger, cancel and replace. Each operation takes the database and returns the
  result or the raised error together with the database after the call; a raise leaves the
  database as it was, since nothing is committed. The argument \<open>env\<close> of
  \<open>create_paper_order\<close> is the effect of transactions that commit between the lookup
  of the idempotency key and the flush of the new row, the case the source handles in its
  \<open>except IntegrityError\<close> branch.
\<close>

section \<open>Requests and errors\<close>

datatype paper_error =
    PaperBrokerError string bool  \<comment> \<open>code, retryable\<close>
  | PaperBrokerConflict string
  | IntegrityError                \<comment> \<open>a CHECK constraint fails at flush\<close>
  | ValueError string

record paper_order_request =
  pr_symbol :: string
  pr_side :: string
  pr_quantity :: int
  pr_order_type :: string
  pr_limit_price :: "decimal option"
  pr_idempotency_key :: string
  pr_correlation_id :: string
  pr_market :: string
  pr_account_alias :: string
  pr_action :: string
  pr_trading_date :: "date option"

type_synonym 'a paper_result = "(paper_error + 'a) \<times> db"

abbreviation perr :: "string \<Rightarrow> paper_error" where
  "perr code \<equiv> PaperBrokerError code False"

definition active_symbol_lock_states :: "order_status list" where
  "active_symbol_lock_states = [OS_UNKNOWN, OS_RECONCILING]"

definition active_sell_states :: "order_status list" where
  "active_sell_states =
     [OS_CREATED, OS_VALIDATING, OS_SUBMITTING, OS_ACKNOWLEDGED, OS_OPEN,
      OS_PARTIALLY_FILLED, OS_CANCEL_PENDING, OS_REPLACE_PENDING, OS_UNKNOWN, OS_RECONCILING]"

definition price_json :: "decimal option \<Rightarrow> json" where
  "price_json p = (case p of None \<Rightarrow> JNull | Some x \<Rightarrow> JDec (quantize4 x))"

definition paper_request_hash :: "paper_order_request \<Rightarrow> date \<Rightarrow> digest" where
  "paper_request_hash rq td =
     Sha256 (JObj
       [(''account_alias'', JStr (pr_account_alias rq)),
        (''action'', JStr (pr_action rq)),
        (''limit_price'', price_json (pr_limit_price rq)),
        (''market'', JStr (pr_market rq)),
        (''order_type'', JStr (pr_order_type rq)),
        (''quantity'', JInt (pr_quantity rq)),
        (''side'', JStr (pr_side rq)),
        (''symbol'', JStr (pr_symbol rq)),
        (''trading_date'', JDate td)])"

section \<open>Events and status\<close>

definition paper_event ::
  "instant \<Rightarrow> trading_order \<Rightarrow> string \<Rightarrow> string option \<Rightarrow> json \<Rightarrow> instant option \<Rightarrow> db \<Rightarrow> db" where
  "paper_event now od etype skey payload occurred d =
     (let (k, d1) = (case skey of
            Some (c # cs) \<Rightarrow> (c # cs, d)
          | _ \<Rightarrow> (let (u, d') = uuid7_draw d in (uuid_text u, d')));
          (i, d2) = uuid7_draw d1
      in d2\<lparr>order_events := order_events d2 @
            [\<lparr>oe_id = i, oe_order_id = o_id od, oe_event_type = etype, oe_source = ''PAPER'',
              oe_source_key = k, oe_payload_hash = Sha256 payload, oe_payload_json = payload,
              oe_correlation_id = o_correlation_id od,
              oe_occurred_at = (case occurred of None \<Rightarrow> now | Some t \<Rightarrow> t)\<rparr>]\<rparr>)"

definition status_payload :: "order_status \<Rightarrow> order_status \<Rightarrow> json" where
  "status_payload a b =
     JObj [(''from'', JStr (order_status_text a)), (''to'', JStr (order_status_text b))]"

definition order_upd :: "uuid \<Rightarrow> (trading_order \<Rightarrow> trading_order) \<Rightarrow> db \<Rightarrow> db" where
  "order_upd i f d = orders_update (row_upd o_id i f) d"

definition with_status :: "order_status \<Rightarrow> trading_order \<Rightarrow> trading_order" where
  "with_status st r = r\<lparr>o_status := st, o_version := o_version r + 1\<rparr>"

definition paper_set_status :: "instant \<Rightarrow> uuid \<Rightarrow> order_status \<Rightarrow> db \<Rightarrow> db" where
  "paper_set_status now i st d =
     (case order_get d i of
        None \<Rightarrow> d
      | Some r \<Rightarrow>
          paper_event now r ''STATUS_CHANGED'' None (status_payload (o_status r) st) None
            (order_upd i (with_status st) d))"

section \<open>The trading gate\<close>

definition gate_status_of :: "string \<Rightarrow> gate_status option" where
  "gate_status_of s =
     (if s = ''STARTING'' then Some GS_STARTING
      else if s = ''RECONCILING'' then Some GS_RECONCILING
      else if s = ''READY'' then Some GS_READY
      else if s = ''DEGRADED'' then Some GS_DEGRADED
      else if s = ''HALTED'' then Some GS_HALTED
      else None)"

definition set_paper_gate :: "string \<Rightarrow> string \<Rightarrow> db \<Rightarrow> trading_gate paper_result" where
  "set_paper_gate status reason d =
     (case gate_status_of status of
        None \<Rightarrow> (Inl (ValueError ''Unsupported trading gate status''), d)
      | Some st \<Rightarrow>
          (case gate_get d ''PAPER'' of
             None \<Rightarrow>
               (let g = \<lparr>g_account_alias = ''PAPER'', g_environment = ''MOCK'', g_status = st,
                         g_reason = Some reason, g_version = 1\<rparr>
                in (Inr g, d\<lparr>trading_gates := trading_gates d @ [g]\<rparr>))
           | Some g \<Rightarrow>
               (let g' = g\<lparr>g_status := st, g_reason := Some reason, g_version := g_version g + 1\<rparr>
                in (Inr g', trading_gates_update (row_upd g_account_alias ''PAPER'' (\<lambda>_. g')) d))))"

section \<open>Creating an order\<close>

definition symbol_locked :: "db \<Rightarrow> string \<Rightarrow> string \<Rightarrow> bool" where
  "symbol_locked d a s \<longleftrightarrow>
     list_ex (\<lambda>r. o_account_alias r = a \<and> o_symbol r = s \<and>
                  o_status r \<in> set active_symbol_lock_states) (orders d)"

definition reserved_sell_quantity :: "db \<Rightarrow> string \<Rightarrow> string \<Rightarrow> int" where
  "reserved_sell_quantity d a s =
     sum_list (map o_remaining_quantity
       (filter (\<lambda>r. o_account_alias r = a \<and> o_symbol r = s \<and> o_side r = ''SELL'' \<and>
                    o_status r \<in> set active_sell_states) (orders d)))"

definition paper_validate_request ::
  "settings \<Rightarrow> paper_order_request \<Rightarrow> db \<Rightarrow> paper_error option" where
  "paper_validate_request st rq d =
     (if str_upper (st_environment st) \<noteq> ''MOCK'' \<or> st_live_trading_enabled st
        then Some (perr ''PAPER_ENVIRONMENT_REQUIRED'')
      else if pr_account_alias rq \<noteq> ''PAPER'' then Some (perr ''PAPER_ACCOUNT_REQUIRED'')
      else if pr_market rq \<noteq> ''KRX'' then Some (perr ''UNSUPPORTED_IN_MOCK'')
      else if pr_side rq \<notin> {''BUY'', ''SELL''} then Some (perr ''INVALID_ORDER_SIDE'')
      else if pr_order_type rq \<notin> {''LIMIT'', ''MARKET''} then Some (perr ''INVALID_ORDER_TYPE'')
      else if pr_quantity rq \<le> 0 then Some (perr ''INVALID_ORDER_QUANTITY'')
      else if \<not> str_isdigit (pr_symbol rq) \<or> length (pr_symbol rq) \<noteq> 6
        then Some (perr ''INVALID_SYMBOL'')
      else if pr_idempotency_key rq = [] \<or> 128 < length (pr_idempotency_key rq)
        then Some (perr ''INVALID_IDEMPOTENCY_KEY'')
      else if pr_order_type rq = ''LIMIT'' \<and>
              (case pr_limit_price rq of None \<Rightarrow> True | Some x \<Rightarrow> x \<le> 0)
        then Some (perr ''INVALID_LIMIT_PRICE'')
      else if pr_order_type rq = ''MARKET'' \<and> pr_limit_price rq \<noteq> None
        then Some (perr ''MARKET_PRICE_NOT_ALLOWED'')
      else if (case gate_get d (pr_account_alias rq) of
                 None \<Rightarrow> True | Some g \<Rightarrow> g_status g \<noteq> GS_READY)
        then Some (PaperBrokerError ''TRADING_GATE_CLOSED'' True)
      else if symbol_locked d (pr_account_alias rq) (pr_symbol rq)
        then Some (perr ''SYMBOL_RECONCILIATION_REQUIRED'')
      else if pr_side rq = ''SELL'' \<and>
              (case position_get d (pr_account_alias rq) (pr_symbol rq) of
                 None \<Rightarrow> True
               | Some p \<Rightarrow>
                   p_quantity p - reserved_sell_quantity d (pr_account_alias rq) (pr_symbol rq)
                     < pr_quantity rq)
        then Some (perr ''INSUFFICIENT_POSITION'')
      else None)"

definition paper_submit :: "instant \<Rightarrow> uuid \<Rightarrow> bool \<Rightarrow> db \<Rightarrow> db" where
  "paper_submit now i response_lost d =
     (let d1 = paper_set_status now i OS_VALIDATING d;
          d2 = paper_set_status now i OS_SUBMITTING d1
      in if response_lost then paper_set_status now i OS_UNKNOWN d2
         else
           (let (u, d3) = uuid7_draw d2;
                d4 = order_upd i (\<lambda>r. r\<lparr>o_broker_order_id := Some (''PAPER-'' @ uuid_text u)\<rparr>) d3;
                d5 = paper_set_status now i OS_ACKNOWLEDGED d4
            in paper_set_status now i OS_OPEN d5))"

definition paper_new_order ::
  "instant \<Rightarrow> paper_order_request \<Rightarrow> date \<Rightarrow> uuid \<Rightarrow> uuid \<Rightarrow> uuid \<Rightarrow> uuid \<Rightarrow> trading_order" where
  "paper_new_order now rq td i client intent grp =
     \<lparr>o_id = i, o_intent_id = intent, o_order_group_id = grp, o_parent_order_id = None,
      o_account_alias = pr_account_alias rq, o_environment = ''MOCK'', o_symbol = pr_symbol rq,
      o_market = pr_market rq, o_side = pr_side rq, o_order_type = pr_order_type rq,
      o_limit_price = pr_limit_price rq, o_requested_quantity = pr_quantity rq,
      o_filled_quantity = 0, o_cancelled_quantity = 0, o_remaining_quantity = pr_quantity rq,
      o_status = OS_CREATED, o_client_order_id = client,
      o_idempotency_key = pr_idempotency_key rq, o_request_hash = paper_request_hash rq td,
      o_broker_order_id = None, o_replacement_sequence = 0, o_unfilled_policy = ''NONE'',
      o_fill_timeout_seconds = 0, o_max_reprice_attempts = 0, o_reprice_attempts = 0,
      o_next_action_at = None, o_trading_date = td, o_correlation_id = pr_correlation_id rq,
      o_version = 1, o_created_at = now\<rparr>"

definition paper_insert_order ::
  "instant \<Rightarrow> bool \<Rightarrow> paper_order_request \<Rightarrow> date \<Rightarrow> db \<Rightarrow> uuid \<times> db" where
  "paper_insert_order now response_lost rq td d =
     (let (intent, d1) = uuid7_draw d;
          (grp, d2) = uuid7_draw d1;
          (i, d3) = uuid7_draw d2;
          (client, d4) = uuid7_draw d3;
          row = paper_new_order now rq td i client intent grp;
          d5 = d4\<lparr>order_intents := order_intents d4 @
                 [\<lparr>i_id = intent, i_order_group_id = grp, i_account_alias = pr_account_alias rq,
                   i_environment = ''MOCK'', i_symbol = pr_symbol rq, i_market = pr_market rq,
                   i_side = pr_side rq, i_action = pr_action rq,
                   i_requested_quantity = pr_quantity rq,
                   i_correlation_id = pr_correlation_id rq, i_version = 1\<rparr>],
                orders := orders d4 @ [row]\<rparr>;
          d6 = paper_event now row ''ORDER_CREATED'' None (JObj [(''status'', JStr ''CREATED'')]) None d5
      in (i, paper_submit now i response_lost d6))"

definition create_paper_order ::
  "(db \<Rightarrow> db) \<Rightarrow> settings \<Rightarrow> instant \<Rightarrow> bool \<Rightarrow> paper_order_request \<Rightarrow> db \<Rightarrow> trading_order paper_result"
  where
  "create_paper_order env st now response_lost rq d =
     (let td = (case pr_trading_date rq of None \<Rightarrow> kst_date now | Some t \<Rightarrow> t);
          fingerprint = paper_request_hash rq td
      in case order_by_key d (pr_idempotency_key rq) of
           Some existing \<Rightarrow>
             if o_request_hash existing \<noteq> fingerprint
             then (Inl (PaperBrokerConflict ''IDEMPOTENCY_CONFLICT''), d)
             else (Inr existing, d)
         | None \<Rightarrow>
             (case paper_validate_request st rq d of
                Some e \<Rightarrow> (Inl e, d)
              | None \<Rightarrow>
                  (let d' = env d
                   in case order_by_key d' (pr_idempotency_key rq) of
                        Some raced \<Rightarrow>
                          if o_request_hash raced = fingerprint then (Inr raced, d')
                          else (Inl (PaperBrokerConflict ''IDEMPOTENCY_CONFLICT''), d')
                      | None \<Rightarrow>
                          (let (i, d'') = paper_insert_order now response_lost rq td d'
                           in case order_get d'' i of
                                Some r \<Rightarrow> (Inr r, d'')
                              | None \<Rightarrow> (Inl (perr ''ORDER_NOT_FOUND''), d'')))))"

section \<open>Fills\<close>

definition position_snapshot_json :: "position \<Rightarrow> json" where
  "position_snapshot_json p =
     JObj [(''average_price'', JDec (p_average_price p)),
           (''managed_average_price'', JDec (p_managed_average_price p)),
           (''quantity'', JInt (p_quantity p)),
           (''available_quantity'', JInt (p_available_quantity p)),
           (''managed_quantity'', JInt (p_managed_quantity p)),
           (''state'', JStr (if p_state p = PS_OPEN then ''OPEN'' else ''CLOSED'')),
           (''origin'', JStr (case p_origin p of CRESTA_MANAGED \<Rightarrow> ''CRESTA_MANAGED''
              | EXTERNAL \<Rightarrow> ''EXTERNAL'' | MIXED \<Rightarrow> ''MIXED'')),
           (''version'', JInt (p_version p))]"

text \<open>The arithmetic of \<open>_apply_position\<close> on one row.\<close>

definition position_after_fill :: "string \<Rightarrow> int \<Rightarrow> decimal \<Rightarrow> position \<Rightarrow> position" where
  "position_after_fill side q price p =
     (let (quantity, avg) =
            (if side = ''BUY''
             then (let nq = p_quantity p + q
                   in (nq, quantize4_half_up
                             ((p_average_price p * of_int (p_quantity p) + price * of_int q) / of_int nq)))
             else (let nq = p_quantity p - q
                   in (nq, if nq = 0 then 0 else p_average_price p)))
      in p\<lparr>p_quantity := quantity, p_average_price := avg,
           p_available_quantity := quantity, p_managed_quantity := quantity,
           p_managed_average_price := avg, p_origin := CRESTA_MANAGED,
           p_state := (if quantity \<noteq> 0 then PS_OPEN else PS_CLOSED),
           p_version := p_version p + 1\<rparr>)"

definition paper_ensure_position :: "trading_order \<Rightarrow> db \<Rightarrow> paper_error + (position \<times> db)" where
  "paper_ensure_position od d =
     (case position_get d (o_account_alias od) (o_symbol od) of
        Some p \<Rightarrow> Inr (p, d)
      | None \<Rightarrow>
          if o_side od = ''SELL'' then Inl (perr ''INSUFFICIENT_POSITION'')
          else (let (u, d1) = uuid7_draw d;
                    p = new_position u (o_account_alias od) (o_symbol od)
                in Inr (p, d1\<lparr>positions := positions d1 @ [p]\<rparr>)))"

definition paper_apply_position :: "trading_order \<Rightarrow> fill \<Rightarrow> db \<Rightarrow> paper_error + db" where
  "paper_apply_position od fl d =
     (case paper_ensure_position od d of
        Inl e \<Rightarrow> Inl e
      | Inr (p, d1) \<Rightarrow>
          if o_side od \<noteq> ''BUY'' \<and> p_quantity p < f_quantity fl
          then Inl (perr ''INSUFFICIENT_POSITION'')
          else
            (let p' = position_after_fill (o_side od) (f_quantity fl) (f_price fl) p;
                 (u, d2) = uuid7_draw (positions_update (row_upd p_key (p_key p) (\<lambda>_. p')) d1)
             in Inr (d2\<lparr>position_events := position_events d2 @
                      [\<lparr>pe_id = u, pe_position_id = p_id p, pe_cause_type = ''FILL'',
                        pe_cause_id = f_id fl, pe_before_json = position_snapshot_json p,
                        pe_after_json = position_snapshot_json p',
                        pe_correlation_id = o_correlation_id od\<rparr>]\<rparr>)))"

definition replacement_child :: "uuid \<Rightarrow> db \<Rightarrow> trading_order option" where
  "replacement_child i d =
     first_desc o_replacement_sequence (filter (\<lambda>r. o_parent_order_id r = Some i) (orders d))"

definition absorb :: "int \<Rightarrow> trading_order \<Rightarrow> trading_order" where
  "absorb q r =
     r\<lparr>o_remaining_quantity := o_remaining_quantity r - q,
       o_cancelled_quantity := o_cancelled_quantity r + q\<rparr>"

definition child_status_after_absorb :: "int \<Rightarrow> int \<Rightarrow> trading_order \<Rightarrow> order_status" where
  "child_status_after_absorb absorbed late c =
     (if absorbed < late then OS_RECONCILING
      else if o_filled_quantity c = o_requested_quantity c then OS_FILLED
      else if o_remaining_quantity c = 0 then OS_CANCELLED
      else if 0 < o_filled_quantity c then OS_PARTIALLY_FILLED
      else OS_OPEN)"

definition adjust_replacement_child_for_late_fill :: "instant \<Rightarrow> uuid \<Rightarrow> int \<Rightarrow> db \<Rightarrow> db" where
  "adjust_replacement_child_for_late_fill now i late d =
     (case replacement_child i d of
        None \<Rightarrow> d
      | Some c \<Rightarrow>
          (let absorbed = min late (o_remaining_quantity c);
               c' = absorb absorbed c;
               d1 = order_upd (o_id c) (absorb absorbed) d;
               d2 = paper_set_status now (o_id c) (child_status_after_absorb absorbed late c') d1
           in paper_event now c' ''PARENT_LATE_FILL_ADJUSTED'' None
                (JObj [(''absorbed_quantity'', JInt absorbed),
                       (''late_fill_quantity'', JInt late),
                       (''parent_order_id'', JStr (uuid_text i))]) None d2))"

text \<open>The quantities of the order itself: a fill takes from the remaining quantity first
  and reclaims the rest from what a cancel or a replacement had already written off.\<close>

definition take_fill :: "int \<Rightarrow> trading_order \<Rightarrow> trading_order" where
  "take_fill q r =
     (let from_remaining = min q (o_remaining_quantity r)
      in r\<lparr>o_remaining_quantity := o_remaining_quantity r - from_remaining,
           o_cancelled_quantity := o_cancelled_quantity r - (q - from_remaining),
           o_filled_quantity := o_filled_quantity r + q\<rparr>)"

definition status_after_fill :: "order_status \<Rightarrow> trading_order \<Rightarrow> order_status" where
  "status_after_fill previous r =
     (if o_filled_quantity r = o_requested_quantity r then OS_FILLED
      else if previous \<in> {OS_CANCEL_PENDING, OS_REPLACE_PENDING, OS_CANCELLED, OS_REPLACED}
        then previous
      else if 0 < o_remaining_quantity r then OS_PARTIALLY_FILLED
      else OS_CANCELLED)"

definition fill_error :: "trading_order \<Rightarrow> int \<Rightarrow> decimal \<Rightarrow> decimal \<Rightarrow> decimal \<Rightarrow> db \<Rightarrow> paper_error option"
  where
  "fill_error od q price fee tax d =
     (if q \<le> 0 \<or> price \<le> 0 then Some (perr ''INVALID_FILL'')
      else if fee < 0 \<or> tax < 0 then Some (perr ''INVALID_FILL_COST'')
      else if o_remaining_quantity od + o_cancelled_quantity od < q
        then Some (perr ''FILL_QUANTITY_EXCEEDED'')
      else if o_side od = ''SELL'' \<and>
              (case position_get d (o_account_alias od) (o_symbol od) of
                 None \<Rightarrow> True | Some p \<Rightarrow> p_quantity p < q)
        then Some (perr ''INSUFFICIENT_POSITION'')
      else None)"

definition paper_book_fill ::
  "instant \<Rightarrow> trading_order \<Rightarrow> fill \<Rightarrow> db \<Rightarrow> paper_error + db" where
  "paper_book_fill now od fl d =
     (let i = o_id od;
          q = f_quantity fl;
          d1 = d\<lparr>fills := fills d @ [fl]\<rparr>;
          d2 = order_upd i (take_fill q) d1;
          d3 = (if o_status od = OS_REPLACED
                then adjust_replacement_child_for_late_fill now i q d2 else d2)
      in case paper_apply_position od fl d3 of
           Inl e \<Rightarrow> Inl e
         | Inr d4 \<Rightarrow>
             (let d5 = paper_set_status now i (status_after_fill (o_status od) (take_fill q od)) d4
              in Inr (paper_event now od ''FILL_APPLIED'' (Some (''fill:'' @ f_broker_fill_key fl))
                   (JObj [(''fill_id'', JStr (uuid_text (f_id fl))), (''price'', JDec (f_price fl)),
                          (''quantity'', JInt q)]) (Some (f_filled_at fl)) d5)))"

definition apply_paper_fill ::
  "instant \<Rightarrow> uuid \<Rightarrow> string \<Rightarrow> int \<Rightarrow> decimal \<Rightarrow> decimal \<Rightarrow> decimal \<Rightarrow> instant option \<Rightarrow> db \<Rightarrow>
   (trading_order \<times> bool) paper_result" where
  "apply_paper_fill now i source_key q price fee tax filled_at d =
     (case row_find f_broker_fill_key source_key (fills d) of
        Some dup \<Rightarrow>
          if f_order_id dup \<noteq> i \<or> f_quantity dup \<noteq> q \<or> f_price dup \<noteq> quantize4 price
          then (Inl (PaperBrokerConflict ''FILL_SOURCE_CONFLICT''), d)
          else (case order_get d (f_order_id dup) of
                  None \<Rightarrow> (Inl (perr ''ORDER_NOT_FOUND''), d)
                | Some r \<Rightarrow> (Inr (r, False), d))
      | None \<Rightarrow>
          (case order_get d i of
             None \<Rightarrow> (Inl (perr ''ORDER_NOT_FOUND''), d)
           | Some od \<Rightarrow>
               (case fill_error od q price fee tax d of
                  Some e \<Rightarrow> (Inl e, d)
                | None \<Rightarrow>
                    (let (u, d1) = uuid7_draw d;
                         fl = \<lparr>f_id = u, f_order_id = i, f_broker_fill_key = source_key,
                               f_quantity = q, f_price = quantize4 price, f_fee = quantize4 fee,
                               f_tax = quantize4 tax,
                               f_filled_at = (case filled_at of None \<Rightarrow> now | Some t \<Rightarrow> t)\<rparr>
                     in if \<not> fill_ck fl then (Inl IntegrityError, d)
                        else case paper_book_fill now od fl d1 of
                               Inl e \<Rightarrow> (Inl e, d)
                             | Inr d2 \<Rightarrow>
                                 (case order_get d2 i of
                                    None \<Rightarrow> (Inl (perr ''ORDER_NOT_FOUND''), d2)
                                  | Some r \<Rightarrow> (Inr (r, True), d2))))))"

section \<open>Cancel and replace\<close>

text \<open>The shared shape of a status request: find the row, test its status, set the next one.\<close>

definition paper_request_transition :: "order_status \<Rightarrow> instant \<Rightarrow> uuid \<Rightarrow> db \<Rightarrow> trading_order paper_result"
  where
  "paper_request_transition target now i d =
     (case order_get d i of
        None \<Rightarrow> (Inl (perr ''ORDER_NOT_FOUND''), d)
      | Some r \<Rightarrow>
          if o_status r \<notin> {OS_OPEN, OS_PARTIALLY_FILLED}
          then (Inl (PaperBrokerConflict ''INVALID_ORDER_TRANSITION''), d)
          else (Inr (with_status target r), paper_set_status now i target d))"

definition request_paper_cancel :: "instant \<Rightarrow> uuid \<Rightarrow> db \<Rightarrow> trading_order paper_result" where
  "request_paper_cancel = paper_request_transition OS_CANCEL_PENDING"

definition request_paper_replace :: "instant \<Rightarrow> uuid \<Rightarrow> db \<Rightarrow> trading_order paper_result" where
  "request_paper_replace = paper_request_transition OS_REPLACE_PENDING"

definition cancel_remaining :: "trading_order \<Rightarrow> trading_order" where
  "cancel_remaining r =
     r\<lparr>o_remaining_quantity := 0,
       o_cancelled_quantity := o_cancelled_quantity r + o_remaining_quantity r\<rparr>"

definition confirm_paper_cancel :: "instant \<Rightarrow> uuid \<Rightarrow> db \<Rightarrow> trading_order paper_result" where
  "confirm_paper_cancel now i d =
     (case order_get d i of
        None \<Rightarrow> (Inl (perr ''ORDER_NOT_FOUND''), d)
      | Some r \<Rightarrow>
          if o_status r = OS_FILLED then (Inr r, d)
          else if o_status r \<noteq> OS_CANCEL_PENDING
            then (Inl (PaperBrokerConflict ''INVALID_ORDER_TRANSITION''), d)
          else (Inr (with_status OS_CANCELLED (cancel_remaining r)),
                paper_set_status now i OS_CANCELLED (order_upd i cancel_remaining d)))"

definition replace_fingerprint :: "uuid \<Rightarrow> decimal \<Rightarrow> int \<Rightarrow> digest" where
  "replace_fingerprint parent price q =
     Sha256 (JObj [(''parent_order_id'', JStr (uuid_text parent)),
                   (''price'', JDec (quantize4 price)), (''quantity'', JInt q)])"

definition replacement_order ::
  "instant \<Rightarrow> trading_order \<Rightarrow> decimal \<Rightarrow> string \<Rightarrow> uuid \<Rightarrow> uuid \<Rightarrow> trading_order" where
  "replacement_order now original price key i client =
     \<lparr>o_id = i, o_intent_id = o_intent_id original,
      o_order_group_id = o_order_group_id original, o_parent_order_id = Some (o_id original),
      o_account_alias = o_account_alias original, o_environment = o_environment original,
      o_symbol = o_symbol original, o_market = o_market original, o_side = o_side original,
      o_order_type = ''LIMIT'', o_limit_price = Some price,
      o_requested_quantity = o_remaining_quantity original, o_filled_quantity = 0,
      o_cancelled_quantity = 0, o_remaining_quantity = o_remaining_quantity original,
      o_status = OS_CREATED, o_client_order_id = client, o_idempotency_key = key,
      o_request_hash = replace_fingerprint (o_id original) price (o_remaining_quantity original),
      o_broker_order_id = None,
      o_replacement_sequence = o_replacement_sequence original + 1, o_unfilled_policy = ''NONE'',
      o_fill_timeout_seconds = 0, o_max_reprice_attempts = 0, o_reprice_attempts = 0,
      o_next_action_at = None, o_trading_date = o_trading_date original,
      o_correlation_id = o_correlation_id original, o_version = 1, o_created_at = now\<rparr>"

definition paper_insert_replacement ::
  "instant \<Rightarrow> trading_order \<Rightarrow> decimal \<Rightarrow> string \<Rightarrow> db \<Rightarrow> uuid \<times> db" where
  "paper_insert_replacement now original price key d =
     (let d1 = paper_set_status now (o_id original) OS_REPLACED
                 (order_upd (o_id original) cancel_remaining d);
          (i, d2) = uuid7_draw d1;
          (client, d3) = uuid7_draw d2;
          row = replacement_order now original price key i client;
          d4 = d3\<lparr>orders := orders d3 @ [row]\<rparr>;
          d5 = paper_event now row ''ORDER_CREATED'' None
                 (JObj [(''parent_order_id'', JStr (uuid_text (o_id original)))]) None d4
      in (i, paper_submit now i False d5))"

definition replace_paper_order ::
  "instant \<Rightarrow> uuid \<Rightarrow> decimal \<Rightarrow> string \<Rightarrow> db \<Rightarrow> trading_order paper_result" where
  "replace_paper_order now i new_limit_price key d =
     (case order_by_key d key of
        Some existing \<Rightarrow>
          if o_request_hash existing \<noteq>
             replace_fingerprint i new_limit_price (o_requested_quantity existing)
          then (Inl (PaperBrokerConflict ''IDEMPOTENCY_CONFLICT''), d)
          else (Inr existing, d)
      | None \<Rightarrow>
          (case order_get d i of
             None \<Rightarrow> (Inl (perr ''ORDER_NOT_FOUND''), d)
           | Some original \<Rightarrow>
               if o_status original = OS_FILLED
                 then (Inl (PaperBrokerConflict ''ORDER_ALREADY_FILLED''), d)
               else if o_status original \<noteq> OS_REPLACE_PENDING \<or> o_remaining_quantity original \<le> 0
                 then (Inl (PaperBrokerConflict ''INVALID_ORDER_TRANSITION''), d)
               else if new_limit_price \<le> 0 then (Inl (perr ''INVALID_LIMIT_PRICE''), d)
               else
                 (let (j, d') = paper_insert_replacement now original new_limit_price key d
                  in case order_get d' j of
                       Some r \<Rightarrow> (Inr r, d')
                     | None \<Rightarrow> (Inl (perr ''ORDER_NOT_FOUND''), d'))))"

end
