(* ===== verification/Paper_Ledger.thy ===== *)
theory Paper_Ledger
  imports Paper_Broker
begin

text \<open>
  The well-formedness of the paper ledger and its preservation by every operation of
  \<open>Paper_Broker\<close>: unique keys, the CHECK constraints of the schema, the agreement of
  each order's filled quantity with the fills booked on it, and the agreement of each
  position with the signed sum of the fills on its symbol.
\<close>

section \<open>What an update of an order row leaves alone\<close>

definition order_static :: "trading_order \<Rightarrow> uuid \<times> string \<times> string \<times> string \<times> string \<times> uuid option" where
  "order_static r =
     (o_id r, o_side r, o_account_alias r, o_symbol r, o_idempotency_key r, o_parent_order_id r)"

lemma order_static_updates [simp]:
  "order_static (with_status st r) = order_static r"
  "order_static (absorb q r) = order_static r"
  "order_static (take_fill q r) = order_static r"
  "order_static (cancel_remaining r) = order_static r"
  "order_static (r\<lparr>o_broker_order_id := b\<rparr>) = order_static r"
  by (simp_all add: order_static_def with_status_def absorb_def take_fill_def cancel_remaining_def Let_def)

lemma order_static_ids: "order_static r = order_static s \<Longrightarrow> o_id r = o_id s"
  by (simp add: order_static_def)

lemma o_id_updates [simp]:
  "o_id (with_status st r) = o_id r"
  "o_id (absorb q r) = o_id r"
  "o_id (take_fill q r) = o_id r"
  "o_id (cancel_remaining r) = o_id r"
  by (rule order_static_ids, simp)+

section \<open>Frame facts\<close>

lemma paper_event_frame [simp]:
  "orders (paper_event now od et sk pl oc d) = orders d"
  "fills (paper_event now od et sk pl oc d) = fills d"
  "positions (paper_event now od et sk pl oc d) = positions d"
  "trading_gates (paper_event now od et sk pl oc d) = trading_gates d"
  by (auto simp: paper_event_def uuid7_draw_def Let_def split: option.splits list.splits)

lemma paper_event_seed:
  "uuid_seed (paper_event now od et None pl oc d) = uuid_seed d + 2"
  "uuid_seed d \<le> uuid_seed (paper_event now od et sk pl oc d)"
  by (auto simp: paper_event_def uuid7_draw_def Let_def split: option.splits list.splits)

lemma order_upd_frame [simp]:
  "orders (order_upd i f d) = row_upd o_id i f (orders d)"
  "fills (order_upd i f d) = fills d"
  "positions (order_upd i f d) = positions d"
  "trading_gates (order_upd i f d) = trading_gates d"
  "uuid_seed (order_upd i f d) = uuid_seed d"
  by (simp_all add: order_upd_def)

lemma paper_set_status_frame [simp]:
  "orders (paper_set_status now i st d) = row_upd o_id i (with_status st) (orders d)"
  "fills (paper_set_status now i st d) = fills d"
  "positions (paper_set_status now i st d) = positions d"
  "trading_gates (paper_set_status now i st d) = trading_gates d"
proof -
  show "orders (paper_set_status now i st d) = row_upd o_id i (with_status st) (orders d)"
  proof (cases "order_get d i")
    case None
    then have "i \<notin> o_id ` set (orders d)"
      by (simp add: order_get_def row_find_None_iff)
    with None show ?thesis by (simp add: paper_set_status_def row_upd_absent)
  qed (simp add: paper_set_status_def)
qed (simp_all add: paper_set_status_def split: option.splits)

lemma paper_set_status_seed:
  "uuid_seed (paper_set_status now i st d) =
     uuid_seed d + (if i \<in> o_id ` set (orders d) then 2 else 0)"
  using row_find_None_iff [of o_id i "orders d"]
  by (auto simp: paper_set_status_def paper_event_seed(1) order_get_def split: option.splits)

lemma event_status_seed:
  "uuid_seed d \<le> uuid_seed (paper_event now od et sk pl oc (paper_set_status now' i st d))"
  by (rule order.trans [OF _ paper_event_seed(2)]) (simp add: paper_set_status_seed)

definition submitted :: "bool \<Rightarrow> uuid \<Rightarrow> trading_order \<Rightarrow> trading_order" where
  "submitted lost u r =
     (if lost then with_status OS_UNKNOWN (with_status OS_SUBMITTING (with_status OS_VALIDATING r))
      else with_status OS_OPEN (with_status OS_ACKNOWLEDGED
        ((with_status OS_SUBMITTING (with_status OS_VALIDATING r))
           \<lparr>o_broker_order_id := Some (''PAPER-'' @ uuid_text u)\<rparr>)))"

lemma submitted_static [simp]: "order_static (submitted lost u r) = order_static r"
  by (simp add: submitted_def)

lemma o_id_submitted [simp]: "o_id (submitted lost u r) = o_id r"
  by (rule order_static_ids) simp

text \<open>The identifier drawn for the broker order number.\<close>

definition submit_draw :: "instant \<Rightarrow> uuid \<Rightarrow> db \<Rightarrow> uuid" where
  "submit_draw now i d =
     uuid_seed (paper_set_status now i OS_SUBMITTING (paper_set_status now i OS_VALIDATING d))"

lemma paper_submit_orders [simp]:
  "orders (paper_submit now i lost d) = row_upd o_id i (submitted lost (submit_draw now i d)) (orders d)"
  by (cases lost) (simp_all add: paper_submit_def uuid7_draw_def Let_def row_upd_row_upd
      submitted_def [abs_def] submit_draw_def)

lemma paper_submit_frame [simp]:
  "fills (paper_submit now i lost d) = fills d"
  "positions (paper_submit now i lost d) = positions d"
  "trading_gates (paper_submit now i lost d) = trading_gates d"
  by (simp_all add: paper_submit_def uuid7_draw_def Let_def)

lemma paper_submit_seed: "uuid_seed d \<le> uuid_seed (paper_submit now i lost d)"
  by (simp add: paper_submit_def uuid7_draw_def Let_def paper_set_status_seed)

section \<open>The ledger invariant\<close>

definition status_ok :: "trading_order \<Rightarrow> bool" where
  "status_ok r \<longleftrightarrow>
     (o_status r = OS_FILLED \<longrightarrow> o_filled_quantity r = o_requested_quantity r) \<and>
     (o_status r \<in> {OS_CANCELLED, OS_REPLACED} \<longrightarrow> o_remaining_quantity r = 0)"

definition order_row_ok :: "trading_order \<Rightarrow> bool" where
  "order_row_ok r \<longleftrightarrow> trading_order_ck r \<and> status_ok r"

definition order_fill_total :: "fill list \<Rightarrow> uuid \<Rightarrow> int" where
  "order_fill_total fs i = sum_list (map f_quantity (filter (\<lambda>f. f_order_id f = i) fs))"

definition signed_fill :: "trading_order list \<Rightarrow> string \<Rightarrow> string \<Rightarrow> fill \<Rightarrow> int" where
  "signed_fill os a s f =
     (case row_find o_id (f_order_id f) os of
        None \<Rightarrow> 0
      | Some r \<Rightarrow>
          if o_account_alias r = a \<and> o_symbol r = s
          then (if o_side r = ''BUY'' then f_quantity f else - f_quantity f) else 0)"

definition net_fill :: "trading_order list \<Rightarrow> fill list \<Rightarrow> string \<Rightarrow> string \<Rightarrow> int" where
  "net_fill os fs a s = sum_list (map (signed_fill os a s) fs)"

definition held :: "position list \<Rightarrow> string \<Rightarrow> string \<Rightarrow> int" where
  "held ps a s = (case row_find p_key (a, s) ps of None \<Rightarrow> 0 | Some p \<Rightarrow> p_quantity p)"

definition paper_position_ok :: "position \<Rightarrow> bool" where
  "paper_position_ok p \<longleftrightarrow>
     position_ck p \<and> p_available_quantity p = p_quantity p \<and> p_managed_quantity p = p_quantity p \<and>
     p_managed_average_price p = p_average_price p \<and>
     (p_state p = PS_OPEN \<longleftrightarrow> p_quantity p \<noteq> 0) \<and> (p_quantity p = 0 \<longrightarrow> p_average_price p = 0)"

definition orders_wf :: "nat \<Rightarrow> trading_order list \<Rightarrow> bool" where
  "orders_wf seed os \<longleftrightarrow>
     distinct (map o_id os) \<and> distinct (map o_idempotency_key os) \<and>
     (\<forall>r \<in> set os. order_row_ok r \<and> o_id r < seed \<and>
        (\<forall>j. o_parent_order_id r = Some j \<longrightarrow> j < o_id r))"

definition fills_wf :: "trading_order list \<Rightarrow> fill list \<Rightarrow> bool" where
  "fills_wf os fs \<longleftrightarrow>
     distinct (map f_broker_fill_key fs) \<and>
     (\<forall>f \<in> set fs. fill_ck f \<and> f_order_id f \<in> o_id ` set os) \<and>
     (\<forall>r \<in> set os. o_filled_quantity r = order_fill_total fs (o_id r))"

definition positions_wf :: "trading_order list \<Rightarrow> fill list \<Rightarrow> position list \<Rightarrow> bool" where
  "positions_wf os fs ps \<longleftrightarrow>
     distinct (map p_key ps) \<and> (\<forall>p \<in> set ps. paper_position_ok p) \<and>
     (\<forall>a s. held ps a s = net_fill os fs a s)"

definition paper_inv :: "db \<Rightarrow> bool" where
  "paper_inv d \<longleftrightarrow>
     orders_wf (uuid_seed d) (orders d) \<and> fills_wf (orders d) (fills d) \<and>
     positions_wf (orders d) (fills d) (positions d)"

lemma paper_inv_empty: "paper_inv empty_db"
  by (simp add: paper_inv_def orders_wf_def fills_wf_def positions_wf_def empty_db_def held_def
      net_fill_def)

section \<open>Changing the order table\<close>

lemma net_fill_static:
  assumes "map order_static os = map order_static os'"
  shows "net_fill os fs a s = net_fill os' fs a s"
proof -
  have "signed_fill os a s f = signed_fill os' a s f" for f
  proof -
    have "map_option order_static (row_find o_id (f_order_id f) os) =
          map_option order_static (row_find o_id (f_order_id f) os')"
      by (rule row_find_cong_static [where h = fst, OF assms]) (simp add: order_static_def)
    then show ?thesis
      by (auto simp: signed_fill_def order_static_def split: option.splits)
  qed
  then have "map (signed_fill os a s) fs = map (signed_fill os' a s) fs" by simp
  then show ?thesis by (simp only: net_fill_def)
qed

lemma static_keys:
  assumes "map order_static os = map order_static os'"
  shows "map o_id os = map o_id os'" "map o_idempotency_key os = map o_idempotency_key os'"
    "o_id ` set os = o_id ` set os'"
proof -
  have "map fst (map order_static os) = map fst (map order_static os')"
    by (simp only: assms)
  then show ids: "map o_id os = map o_id os'"
    by (simp add: order_static_def comp_def)
  have "set (map o_id os) = set (map o_id os')" by (simp only: ids)
  then show "o_id ` set os = o_id ` set os'" by simp
  let ?k = "\<lambda>(_, _, _, _, k, _). k"
  have "map ?k (map order_static os) = map ?k (map order_static os')"
    by (simp only: assms)
  then show "map o_idempotency_key os = map o_idempotency_key os'"
    by (simp add: order_static_def comp_def)
qed

text \<open>Updating one row with a function that keeps its static part, its filled quantity and
  its row invariant keeps the ledger.\<close>

lemma map_static_row_upd [simp]:
  "(\<And>r. order_static (f r) = order_static r) \<Longrightarrow>
   map order_static (row_upd o_id i f os) = map order_static os"
  by (rule map_key_row_upd)

lemma orders_wf_row_upd:
  assumes wf: "orders_wf seed os" and st: "\<And>r. order_static (f r) = order_static r"
    and ok: "\<And>r. row_find o_id i os = Some r \<Longrightarrow> order_row_ok r \<Longrightarrow> order_row_ok (f r)"
    and le: "seed \<le> seed'"
  shows "orders_wf seed' (row_upd o_id i f os)"
proof -
  let ?os = "row_upd o_id i f os"
  have eq: "map order_static ?os = map order_static os" using st by simp
  have dist: "distinct (map o_id os)" using wf by (simp add: orders_wf_def)
  have "order_row_ok r \<and> o_id r < seed' \<and> (\<forall>j. o_parent_order_id r = Some j \<longrightarrow> j < o_id r)"
    if "r \<in> set ?os" for r
  proof -
    from that show ?thesis
    proof (rule set_row_updE)
      assume "r \<in> set os"
      with wf le show ?thesis by (auto simp: orders_wf_def)
    next
      fix t
      assume t: "t \<in> set os" "o_id t = i" "r = f t"
      with row_find_distinct [OF dist] have "row_find o_id i os = Some t" by blast
      with ok t wf have "order_row_ok r" by (simp add: orders_wf_def)
      moreover have "o_id r = o_id t" "o_parent_order_id r = o_parent_order_id t"
        using st [of t] t by (simp_all add: order_static_def)
      ultimately show ?thesis using wf le t by (auto simp: orders_wf_def)
    qed
  qed
  with wf show ?thesis
    unfolding orders_wf_def static_keys(1,2) [OF eq] by blast
qed

lemma fills_wf_row_upd:
  assumes wf: "fills_wf os fs" and st: "\<And>r. order_static (f r) = order_static r"
    and fl: "\<And>r. o_filled_quantity (f r) = o_filled_quantity r"
  shows "fills_wf (row_upd o_id i f os) fs"
proof -
  have "o_id ` set (row_upd o_id i f os) = o_id ` set os"
    using static_keys(3) map_static_row_upd st by blast
  moreover have "o_filled_quantity r = order_fill_total fs (o_id r)"
    if "r \<in> set (row_upd o_id i f os)" for r
    using that wf st fl
    by (rule_tac set_row_updE [OF that]) (auto simp: fills_wf_def order_static_def)
  ultimately show ?thesis using wf by (auto simp: fills_wf_def)
qed

lemma positions_wf_static:
  assumes "positions_wf os fs ps" "map order_static os' = map order_static os"
  shows "positions_wf os' fs ps"
  using assms net_fill_static [OF assms(2)] by (simp add: positions_wf_def)

lemma paper_inv_order_update:
  assumes inv: "paper_inv d"
    and "orders d' = row_upd o_id i f (orders d)" "fills d' = fills d" "positions d' = positions d"
    and "uuid_seed d \<le> uuid_seed d'"
    and st: "\<And>r. order_static (f r) = order_static r"
    and fl: "\<And>r. o_filled_quantity (f r) = o_filled_quantity r"
    and ok: "\<And>r. order_get d i = Some r \<Longrightarrow> order_row_ok r \<Longrightarrow> order_row_ok (f r)"
  shows "paper_inv d'"
proof -
  have "orders_wf (uuid_seed d') (orders d')"
    using inv ok assms(2,5) st by (auto simp: paper_inv_def order_get_def intro: orders_wf_row_upd)
  moreover have "fills_wf (orders d') (fills d')"
    using inv assms(2,3) st fl by (simp add: paper_inv_def fills_wf_row_upd)
  moreover have "map order_static (orders d') = map order_static (orders d)"
    using assms(2) st by simp
  with inv have "positions_wf (orders d') (fills d') (positions d')"
    unfolding paper_inv_def assms(3,4) by (blast intro: positions_wf_static)
  ultimately show ?thesis by (simp add: paper_inv_def)
qed

lemma paper_inv_frame:
  assumes "paper_inv d" "orders d' = orders d" "fills d' = fills d" "positions d' = positions d"
    and "uuid_seed d \<le> uuid_seed d'"
  shows "paper_inv d'"
  using paper_inv_order_update [OF assms(1) _ assms(3-5), of 0 "\<lambda>r. r"] assms(2)
  by (simp add: row_upd_def)

lemma net_fill_append_order:
  assumes "fills_wf os fs" "o_id row \<notin> o_id ` set os"
  shows "net_fill (os @ [row]) fs a s = net_fill os fs a s"
proof -
  have "signed_fill (os @ [row]) a s f = signed_fill os a s f" if "f \<in> set fs" for f
  proof -
    from that assms(1) have "f_order_id f \<in> o_id ` set os" by (simp add: fills_wf_def)
    then have "row_find o_id (f_order_id f) os \<noteq> None" by (simp add: row_find_None_iff)
    then show ?thesis by (auto simp: signed_fill_def row_find_append)
  qed
  then show ?thesis by (simp add: net_fill_def cong: map_cong)
qed

lemma order_fill_total_unknown:
  "fills_wf os fs \<Longrightarrow> i \<notin> o_id ` set os \<Longrightarrow> order_fill_total fs i = 0"
  unfolding order_fill_total_def fills_wf_def
  by (subst filter_False) auto

lemma paper_inv_insert_order:
  assumes inv: "paper_inv d"
    and tabs: "orders d' = orders d @ [row]" "fills d' = fills d" "positions d' = positions d"
    and ids: "uuid_seed d \<le> o_id row" "o_id row < uuid_seed d'"
    and key: "order_by_key d (o_idempotency_key row) = None"
    and row: "order_row_ok row" "o_filled_quantity row = 0"
      "\<And>j. o_parent_order_id row = Some j \<Longrightarrow> j < o_id row"
  shows "paper_inv d'"
proof -
  have seed: "\<forall>r \<in> set (orders d). o_id r < uuid_seed d"
    and fw: "fills_wf (orders d) (fills d)" and pw: "positions_wf (orders d) (fills d) (positions d)"
    using inv by (auto simp: paper_inv_def orders_wf_def)
  then have fresh: "o_id row \<notin> o_id ` set (orders d)" using ids by force
  have kfresh: "o_idempotency_key row \<notin> o_idempotency_key ` set (orders d)"
    using key by (simp add: order_by_key_def row_find_None_iff)
  have "orders_wf (uuid_seed d') (orders d')"
    using inv tabs(1) fresh kfresh ids row by (fastforce simp: paper_inv_def orders_wf_def)
  moreover have "fills_wf (orders d') (fills d')"
    using fw fresh row order_fill_total_unknown [OF fw fresh] tabs(1,2) by (auto simp: fills_wf_def)
  moreover have "positions_wf (orders d') (fills d') (positions d')"
    using pw tabs net_fill_append_order [OF fw fresh] by (simp add: positions_wf_def)
  ultimately show ?thesis by (simp add: paper_inv_def)
qed

section \<open>Creating, cancelling and replacing keep the ledger\<close>

lemmas row_defs = with_status_def absorb_def take_fill_def cancel_remaining_def

lemma order_row_okD:
  assumes "order_row_ok r"
  shows "0 < o_requested_quantity r" "0 \<le> o_filled_quantity r" "0 \<le> o_cancelled_quantity r"
    "0 \<le> o_remaining_quantity r"
    "o_filled_quantity r + o_cancelled_quantity r + o_remaining_quantity r = o_requested_quantity r"
    "o_status r = OS_FILLED \<Longrightarrow> o_filled_quantity r = o_requested_quantity r"
    "o_status r \<in> {OS_CANCELLED, OS_REPLACED} \<Longrightarrow> o_remaining_quantity r = 0"
    "o_side r \<in> {''BUY'', ''SELL''}"
  using assms unfolding order_row_ok_def trading_order_ck_def order_quantity_ck_def status_ok_def
  by (blast | simp)+

lemma order_row_ok_with_status:
  "order_row_ok r \<Longrightarrow>
   (st = OS_FILLED \<Longrightarrow> o_filled_quantity r = o_requested_quantity r) \<Longrightarrow>
   (st \<in> {OS_CANCELLED, OS_REPLACED} \<Longrightarrow> o_remaining_quantity r = 0) \<Longrightarrow>
   order_row_ok (with_status st r)"
  by (auto simp: order_row_ok_def with_status_def trading_order_ck_def order_quantity_ck_def status_ok_def)

lemma o_filled_updates [simp]:
  "o_filled_quantity (with_status st r) = o_filled_quantity r"
  "o_filled_quantity (absorb q r) = o_filled_quantity r"
  "o_filled_quantity (cancel_remaining r) = o_filled_quantity r"
  "o_filled_quantity (submitted lost u r) = o_filled_quantity r"
  by (simp_all add: row_defs submitted_def)

lemma order_row_ok_broker_id [simp]: "order_row_ok (r\<lparr>o_broker_order_id := b\<rparr>) = order_row_ok r"
  by (simp add: order_row_ok_def trading_order_ck_def order_quantity_ck_def status_ok_def)

lemma order_row_ok_submitted: "order_row_ok r \<Longrightarrow> order_row_ok (submitted lost u r)"
  unfolding submitted_def by (auto intro!: order_row_ok_with_status)

lemma order_row_ok_quantities:
  assumes "order_row_ok r" "0 \<le> a" "0 \<le> b" "0 \<le> c" "c + b + a = o_requested_quantity r"
    and "o_status r = OS_FILLED \<Longrightarrow> c = o_requested_quantity r"
    and "o_status r \<in> {OS_CANCELLED, OS_REPLACED} \<Longrightarrow> a = 0"
  shows "order_row_ok
    (r\<lparr>o_remaining_quantity := a, o_cancelled_quantity := b, o_filled_quantity := c\<rparr>)"
proof -
  let ?r = "r\<lparr>o_remaining_quantity := a, o_cancelled_quantity := b, o_filled_quantity := c\<rparr>"
  have "order_quantity_ck ?r"
    unfolding order_quantity_ck_def using order_row_okD(1) [OF assms(1)] assms(2-5) by simp
  moreover have "status_ok ?r"
    unfolding status_ok_def using assms(6,7) by simp
  ultimately show ?thesis
    using assms(1) unfolding order_row_ok_def trading_order_ck_def by simp
qed

lemma order_row_ok_cancel_remaining:
  assumes "order_row_ok r"
  shows "order_row_ok (cancel_remaining r)"
proof -
  note D = order_row_okD [OF assms]
  have "order_row_ok (r\<lparr>o_remaining_quantity := 0,
      o_cancelled_quantity := o_cancelled_quantity r + o_remaining_quantity r,
      o_filled_quantity := o_filled_quantity r\<rparr>)"
    by (rule order_row_ok_quantities) (use D assms in auto)
  then show ?thesis by (simp add: cancel_remaining_def)
qed

lemma order_row_ok_absorb:
  assumes "order_row_ok r" "0 \<le> q" "q \<le> o_remaining_quantity r"
  shows "order_row_ok (absorb q r)"
proof -
  note D = order_row_okD [OF assms(1)]
  have "order_row_ok (r\<lparr>o_remaining_quantity := o_remaining_quantity r - q,
      o_cancelled_quantity := o_cancelled_quantity r + q,
      o_filled_quantity := o_filled_quantity r\<rparr>)"
    by (rule order_row_ok_quantities) (use D assms in auto)
  then show ?thesis by (simp add: absorb_def)
qed

lemma order_row_ok_take_fill:
  assumes "order_row_ok r" "0 < q" "q \<le> o_remaining_quantity r + o_cancelled_quantity r"
  shows "order_row_ok (take_fill q r)"
proof -
  note D = order_row_okD [OF assms(1)]
  let ?m = "min q (o_remaining_quantity r)"
  have "order_row_ok (r\<lparr>o_remaining_quantity := o_remaining_quantity r - ?m,
      o_cancelled_quantity := o_cancelled_quantity r - (q - ?m),
      o_filled_quantity := o_filled_quantity r + q\<rparr>)"
    by (rule order_row_ok_quantities) (use D assms in auto)
  then show ?thesis by (simp add: take_fill_def Let_def)
qed

lemma paper_submit_inv: "paper_inv d \<Longrightarrow> paper_inv (paper_submit now i lost d)"
  using paper_submit_seed
  by (rule_tac paper_inv_order_update [where f = "submitted lost (submit_draw now i d)" and i = i])
    (auto intro: order_row_ok_submitted)

lemma paper_set_status_inv:
  assumes "paper_inv d"
    and "\<And>r. order_get d i = Some r \<Longrightarrow> order_row_ok r \<Longrightarrow> order_row_ok (with_status st r)"
  shows "paper_inv (paper_set_status now i st d)"
  using assms(2)
  by (intro paper_inv_order_update [OF assms(1), where f = "with_status st" and i = i])
    (auto simp: paper_set_status_seed)

lemma validated_request:
  assumes "paper_validate_request st rq d = None"
  shows "0 < pr_quantity rq" "pr_side rq \<in> {''BUY'', ''SELL''}" "pr_order_type rq \<in> {''LIMIT'', ''MARKET''}"
  using assms by (auto simp: paper_validate_request_def split: if_splits)

lemma new_order_ok:
  "0 < pr_quantity rq \<Longrightarrow> pr_side rq \<in> {''BUY'', ''SELL''} \<Longrightarrow> pr_order_type rq \<in> {''LIMIT'', ''MARKET''} \<Longrightarrow>
   order_row_ok (paper_new_order now rq td i c it g)"
  by (auto simp: paper_new_order_def order_row_ok_def trading_order_ck_def order_quantity_ck_def
      status_ok_def)

lemma paper_insert_order_inv:
  assumes inv: "paper_inv d" and val: "paper_validate_request st rq d0 = None"
    and key: "order_by_key d (pr_idempotency_key rq) = None"
  shows "paper_inv (snd (paper_insert_order now lost rq td d))"
proof -
  note ok = new_order_ok [OF validated_request [OF val]]
  let ?u = "uuid_seed d"
  let ?row = "paper_new_order now rq td (Suc (Suc ?u)) (Suc (Suc (Suc ?u))) ?u (Suc ?u)"
  have "paper_inv (paper_event now ?row et None pl None
      (d\<lparr>uuid_seed := Suc (Suc (Suc (Suc ?u))), order_intents := it, orders := orders d @ [?row]\<rparr>))" for et pl it
    by (rule paper_inv_insert_order [OF inv, where row = ?row])
      (use ok key in \<open>simp_all add: paper_event_seed(1) paper_new_order_def\<close>)
  then show ?thesis
    unfolding paper_insert_order_def
    by (simp add: uuid7_draw_def Let_def paper_submit_inv)
qed

lemma create_paper_order_inv:
  assumes "paper_inv d" "paper_inv (env d)"
  shows "paper_inv (snd (create_paper_order env st now lost rq d))"
proof -
  let ?td = "case pr_trading_date rq of None \<Rightarrow> kst_date now | Some t \<Rightarrow> t"
  have "paper_inv (snd (paper_insert_order now lost rq ?td (env d)))"
    if "paper_validate_request st rq d = None" "order_by_key (env d) (pr_idempotency_key rq) = None"
    using paper_insert_order_inv [OF assms(2) that] .
  with assms show ?thesis
    by (simp add: create_paper_order_def Let_def case_prod_beta split: option.split)
qed

lemma set_paper_gate_inv: "paper_inv d \<Longrightarrow> paper_inv (snd (set_paper_gate status reason d))"
  by (rule paper_inv_frame [of d])
    (auto simp: set_paper_gate_def Let_def split: option.splits)

lemma paper_request_transition_inv:
  "paper_inv d \<Longrightarrow> target \<in> {OS_CANCEL_PENDING, OS_REPLACE_PENDING} \<Longrightarrow>
   paper_inv (snd (paper_request_transition target now i d))"
  by (auto simp: paper_request_transition_def split: option.splits
      intro!: paper_set_status_inv order_row_ok_with_status)

lemma order_update_then_status_inv:
  assumes inv: "paper_inv d" and st: "\<And>r. order_static (f r) = order_static r"
    and fl: "\<And>r. o_filled_quantity (f r) = o_filled_quantity r"
    and ok: "\<And>r. order_get d i = Some r \<Longrightarrow> order_row_ok r \<Longrightarrow> order_row_ok (with_status s (f r))"
  shows "paper_inv (paper_set_status now i s (order_upd i f d))"
proof (rule paper_inv_order_update [OF inv, where f = "\<lambda>r. with_status s (f r)" and i = i])
  have "o_id (f r) = o_id r" for r using st by (rule order_static_ids)
  then show "orders (paper_set_status now i s (order_upd i f d)) =
      row_upd o_id i (\<lambda>r. with_status s (f r)) (orders d)"
    by (simp add: row_upd_row_upd)
qed (use st fl ok in \<open>auto simp: paper_set_status_seed\<close>)

lemma cancel_remaining_status_ok:
  "order_row_ok r \<Longrightarrow> s \<in> {OS_CANCELLED, OS_REPLACED} \<Longrightarrow>
   order_row_ok (with_status s (cancel_remaining r))"
  by (rule order_row_ok_with_status, erule order_row_ok_cancel_remaining)
    (auto simp: cancel_remaining_def)

lemma confirm_paper_cancel_inv:
  "paper_inv d \<Longrightarrow> paper_inv (snd (confirm_paper_cancel now i d))"
  by (auto simp: confirm_paper_cancel_def split: option.splits
      intro!: order_update_then_status_inv cancel_remaining_status_ok)

lemma replacement_order_ok:
  "order_row_ok r \<Longrightarrow> 0 < o_remaining_quantity r \<Longrightarrow>
   order_row_ok (replacement_order now r price key i client)"
  by (auto simp: replacement_order_def order_row_ok_def trading_order_ck_def order_quantity_ck_def
      status_ok_def)

lemma order_get_facts:
  assumes "paper_inv d" "order_get d i = Some r"
  shows "order_row_ok r" "o_id r = i" "i < uuid_seed d" "r \<in> set (orders d)"
  using assms order_get_mem [OF assms(2)] by (auto simp: paper_inv_def orders_wf_def)

lemma paper_insert_replacement_inv:
  assumes inv: "paper_inv d" and get: "order_get d i = Some r" and rem: "0 < o_remaining_quantity r"
    and key: "order_by_key d key = None"
  shows "paper_inv (snd (paper_insert_replacement now r price key d))"
proof -
  note r = order_get_facts [OF inv get]
  let ?d1 = "paper_set_status now i OS_REPLACED (order_upd i cancel_remaining d)"
  have inv1: "paper_inv ?d1"
    using inv by (auto intro!: order_update_then_status_inv cancel_remaining_status_ok)
  have seed1: "uuid_seed d \<le> uuid_seed ?d1" by (simp add: paper_set_status_seed)
  have "map order_static (orders ?d1) = map order_static (orders d)"
    by simp
  then have "o_idempotency_key ` set (orders ?d1) = o_idempotency_key ` set (orders d)"
    using static_keys(2) by (metis set_map)
  with key have key1: "order_by_key ?d1 key = None"
    by (simp add: order_by_key_def row_find_None_iff)
  let ?row = "replacement_order now r price key (uuid_seed ?d1) (uuid_seed ?d1 + 1)"
  have "paper_inv (paper_event now ?row et None pl None
      (?d1\<lparr>uuid_seed := uuid_seed ?d1 + 2, orders := orders ?d1 @ [?row]\<rparr>))" for et pl
    by (rule paper_inv_insert_order [OF inv1, where row = ?row])
      (use r rem key1 seed1 replacement_order_ok [OF r(1) rem] in
        \<open>simp_all add: paper_event_seed(1) replacement_order_def\<close>)
  then show ?thesis
    using r(2) by (simp add: paper_insert_replacement_def uuid7_draw_def Let_def paper_submit_inv)
qed

lemma replace_paper_order_inv:
  assumes "paper_inv d"
  shows "paper_inv (snd (replace_paper_order now i price key d))"
  using assms paper_insert_replacement_inv [OF assms]
  by (simp add: replace_paper_order_def case_prod_beta split: option.split)

section \<open>Fills keep the ledger\<close>

lemma position_after_fill_ok:
  assumes ok: "paper_position_ok p" and q: "0 < q" and price: "0 < price"
    and sell: "side \<noteq> ''BUY'' \<Longrightarrow> q \<le> p_quantity p"
  shows "paper_position_ok (position_after_fill side q price p)"
    and "p_quantity (position_after_fill side q price p) =
         p_quantity p + (if side = ''BUY'' then q else - q)"
    and "p_key (position_after_fill side q price p) = p_key p"
proof -
  have nonneg: "0 \<le> p_quantity p" "0 \<le> p_average_price p"
    using ok by (auto simp: paper_position_ok_def position_ck_def)
  have "0 \<le> quantize4_half_up
      ((p_average_price p * of_int (p_quantity p) + price * of_int q) / of_int (p_quantity p + q))"
    using nonneg q price by (intro quantize4_half_up_nonneg divide_nonneg_nonneg add_nonneg_nonneg) auto
  with ok nonneg q sell show "paper_position_ok (position_after_fill side q price p)"
    by (cases "side = ''BUY''")
      (auto simp: position_after_fill_def Let_def paper_position_ok_def position_ck_def)
  show "p_quantity (position_after_fill side q price p) =
      p_quantity p + (if side = ''BUY'' then q else - q)"
    "p_key (position_after_fill side q price p) = p_key p"
    by (simp_all add: position_after_fill_def Let_def p_key_def)
qed

lemma new_position_ok [simp]: "paper_position_ok (new_position u a s)" "p_key (new_position u a s) = (a, s)"
  "p_quantity (new_position u a s) = 0"
  by (simp_all add: new_position_def paper_position_ok_def position_ck_def p_key_def)

lemma held_row_upd:
  assumes "row_find p_key k ps = Some p" "p_key p' = k"
  shows "held (row_upd p_key k (\<lambda>_. p') ps) a s = (if (a, s) = k then p_quantity p' else held ps a s)"
  using row_find_row_upd_const [OF assms] by (simp add: held_def)

lemma paper_apply_position_result:
  assumes res: "paper_apply_position od fl d = Inr d'"
    and dist: "distinct (map p_key (positions d))"
    and ok: "\<forall>p \<in> set (positions d). paper_position_ok p" and ck: "fill_ck fl"
  shows "orders d' = orders d" "fills d' = fills d" "uuid_seed d \<le> uuid_seed d'"
    and "distinct (map p_key (positions d'))" "\<forall>p \<in> set (positions d'). paper_position_ok p"
    and "\<And>a s. held (positions d') a s = held (positions d) a s +
      (if a = o_account_alias od \<and> s = o_symbol od
       then (if o_side od = ''BUY'' then f_quantity fl else - f_quantity fl) else 0)"
proof -
  let ?k = "(o_account_alias od, o_symbol od)"
  obtain p d1 where ens: "paper_ensure_position od d = Inr (p, d1)"
    and nlt: "o_side od \<noteq> ''BUY'' \<Longrightarrow> f_quantity fl \<le> p_quantity p"
    using res by (auto simp: paper_apply_position_def split: sum.splits if_splits)
  have d1: "orders d1 = orders d" "fills d1 = fills d" "uuid_seed d \<le> uuid_seed d1"
    "distinct (map p_key (positions d1))" "\<forall>p \<in> set (positions d1). paper_position_ok p"
    "row_find p_key ?k (positions d1) = Some p" "p_key p = ?k" "paper_position_ok p"
    "held (positions d1) a s = held (positions d) a s" for a s
    using ens dist ok row_find_Some [of p_key ?k "positions d"]
      row_find_None_iff [of p_key ?k "positions d"]
    by (auto simp: paper_ensure_position_def position_get_def uuid7_draw_def Let_def held_def
        row_find_append split: option.splits if_splits)
  let ?p' = "position_after_fill (o_side od) (f_quantity fl) (f_price fl) p"
  have pos: "0 < f_quantity fl" "0 < f_price fl" using ck by (simp_all add: fill_ck_def)
  note p' = position_after_fill_ok [OF d1(8) pos nlt, of "o_side od"]
  have "\<not> (o_side od \<noteq> ''BUY'' \<and> p_quantity p < f_quantity fl)" using nlt by auto
  then have d': "orders d' = orders d1" "fills d' = fills d1" "uuid_seed d' = uuid_seed d1 + 1"
    "positions d' = row_upd p_key ?k (\<lambda>_. ?p') (positions d1)"
    using res ens d1(7) by (auto simp: paper_apply_position_def uuid7_draw_def Let_def)
  show "orders d' = orders d" "fills d' = fills d" "uuid_seed d \<le> uuid_seed d'"
    using d' d1 by simp_all
  have keys: "map p_key (positions d') = map p_key (positions d1)"
    unfolding d'(4) using p'(3) d1(7) by (auto simp: row_upd_def)
  then show "distinct (map p_key (positions d'))" using d1(4) by simp
  show "\<forall>p \<in> set (positions d'). paper_position_ok p"
    unfolding d'(4) by (rule ball_row_upd [OF d1(5)]) (use p'(1) in simp)
  show "held (positions d') a s = held (positions d) a s +
      (if a = o_account_alias od \<and> s = o_symbol od
       then (if o_side od = ''BUY'' then f_quantity fl else - f_quantity fl) else 0)" for a s
    unfolding d'(4) using held_row_upd [OF d1(6)] p'(2,3) d1(6,7) d1(9) [symmetric]
    by (auto simp: held_def)
qed

lemma replacement_child_facts:
  assumes "replacement_child i d = Some c"
  shows "c \<in> set (orders d)" "o_parent_order_id c = Some i"
  using assms by (auto simp: replacement_child_def dest!: first_desc_Some)

text \<open>The late-fill adjustment rewrites one row, the child, which is not the parent.\<close>

lemma adjust_child_orders:
  assumes wf: "orders_wf seed (orders d)" and late: "0 < late"
  obtains c f where "orders (adjust_replacement_child_for_late_fill now i late d) = row_upd o_id c f (orders d)"
    "c \<noteq> i" "\<And>r. order_static (f r) = order_static r"
    "\<And>r. o_filled_quantity (f r) = o_filled_quantity r"
    "\<And>r. row_find o_id c (orders d) = Some r \<Longrightarrow> order_row_ok r \<Longrightarrow> order_row_ok (f r)"
proof (cases "replacement_child i d")
  case None
  show ?thesis
  proof (rule that [of "Suc i" "\<lambda>r. r"])
    show "orders (adjust_replacement_child_for_late_fill now i late d) = row_upd o_id (Suc i) (\<lambda>r. r) (orders d)"
      using None by (simp add: adjust_replacement_child_for_late_fill_def row_upd_def)
  qed auto
next
  case (Some c)
  note c = replacement_child_facts [OF Some]
  let ?a = "min late (o_remaining_quantity c)"
  let ?f = "\<lambda>r. with_status (child_status_after_absorb ?a late (absorb ?a c)) (absorb ?a r)"
  have "o_id c \<noteq> i" using wf c by (auto simp: orders_wf_def)
  moreover have "order_row_ok (?f r)" if "row_find o_id (o_id c) (orders d) = Some r" "order_row_ok r" for r
  proof -
    have "r = c" using wf c row_find_distinct [of o_id "orders d" c] that by (simp add: orders_wf_def)
    moreover have "order_row_ok (absorb ?a c)"
      using that \<open>r = c\<close> late order_row_okD(4) [of c] by (intro order_row_ok_absorb) auto
    ultimately show ?thesis
      using that by (intro order_row_ok_with_status)
        (auto simp: child_status_after_absorb_def split: if_splits)
  qed
  ultimately show ?thesis
    using Some by (intro that [of "o_id c" ?f])
      (simp_all add: adjust_replacement_child_for_late_fill_def Let_def row_upd_row_upd)
qed

lemma adjust_child_frame [simp]:
  "fills (adjust_replacement_child_for_late_fill now i late d) = fills d"
  "positions (adjust_replacement_child_for_late_fill now i late d) = positions d"
  by (simp_all add: adjust_replacement_child_for_late_fill_def Let_def split: option.split)

lemma adjust_child_seed:
  "uuid_seed d \<le> uuid_seed (adjust_replacement_child_for_late_fill now i late d)"
  by (simp add: adjust_replacement_child_for_late_fill_def Let_def paper_event_seed(1)
      paper_set_status_seed split: option.split)

text \<open>One booked fill: the fill row, the order's quantities, the position, the status.\<close>

lemma fills_wf_take_fill:
  assumes wf: "orders_wf seed os" "fills_wf os fs" and get: "row_find o_id i os = Some od"
    and fl: "f_order_id fl = i" "fill_ck fl" "f_broker_fill_key fl \<notin> f_broker_fill_key ` set fs"
  shows "fills_wf (row_upd o_id i (take_fill (f_quantity fl)) os) (fs @ [fl])"
proof -
  let ?os = "row_upd o_id i (take_fill (f_quantity fl)) os"
  have ids: "o_id ` set ?os = o_id ` set os" by (rule static_keys(3)) simp
  have "i \<in> o_id ` set os" using row_find_Some [OF get] by auto
  moreover have "o_filled_quantity r = order_fill_total (fs @ [fl]) (o_id r)" if "r \<in> set ?os" for r
    using that wf(2) fl(1)
    by (rule_tac set_row_updE [OF that]) (auto simp: fills_wf_def order_fill_total_def take_fill_def Let_def)
  ultimately show ?thesis
    using wf(2) fl ids by (auto simp: fills_wf_def)
qed

lemma net_fill_snoc:
  "row_find o_id (f_order_id fl) os = Some od \<Longrightarrow>
   net_fill os (fs @ [fl]) a s = net_fill os fs a s +
     (if a = o_account_alias od \<and> s = o_symbol od
      then (if o_side od = ''BUY'' then f_quantity fl else - f_quantity fl) else 0)"
  by (auto simp: net_fill_def signed_fill_def)

lemma status_after_fill_ok:
  assumes "order_row_ok od" "order_row_ok (take_fill q od)" "0 < q"
  shows "order_row_ok (with_status (status_after_fill (o_status od) (take_fill q od)) (take_fill q od))"
proof (rule order_row_ok_with_status [OF assms(2)])
  let ?st = "status_after_fill (o_status od) (take_fill q od)"
  note D = order_row_okD [OF assms(1)] and E = order_row_okD [OF assms(2)]
  show "o_filled_quantity (take_fill q od) = o_requested_quantity (take_fill q od)" if "?st = OS_FILLED"
    using that D E by (auto simp: status_after_fill_def split: if_splits)
  have "o_remaining_quantity (take_fill q od) = 0" if "o_remaining_quantity od = 0"
    using that assms(3) by (simp add: take_fill_def Let_def)
  then show "o_remaining_quantity (take_fill q od) = 0" if "?st \<in> {OS_CANCELLED, OS_REPLACED}"
    using that D(7) E(4) by (auto simp: status_after_fill_def split: if_splits)
qed

lemma paper_book_fill_inv:
  assumes inv: "paper_inv d" and get: "order_get d i = Some od"
    and fl: "f_order_id fl = i" "fill_ck fl" "f_broker_fill_key fl \<notin> f_broker_fill_key ` set (fills d)"
    and q: "f_quantity fl \<le> o_remaining_quantity od + o_cancelled_quantity od"
    and res: "paper_book_fill now od fl d = Inr d'"
  shows "paper_inv d' \<and> (\<exists>r. order_get d' i = Some r)"
proof -
  note od = order_get_facts [OF inv get]
  let ?q = "f_quantity fl"
  have qpos: "0 < ?q" using fl(2) by (simp add: fill_ck_def)
  let ?d2 = "order_upd i (take_fill ?q) (d\<lparr>fills := fills d @ [fl]\<rparr>)"
  let ?d3 = "if o_status od = OS_REPLACED then adjust_replacement_child_for_late_fill now i ?q ?d2 else ?d2"
  let ?st = "status_after_fill (o_status od) (take_fill ?q od)"
  obtain d4 where d4: "paper_apply_position od fl ?d3 = Inr d4"
    and d': "orders d' = row_upd o_id i (with_status ?st) (orders d4)" "fills d' = fills d4"
      "positions d' = positions d4" "uuid_seed d4 \<le> uuid_seed d'"
    using res od(2) event_status_seed
    by (auto simp: paper_book_fill_def Let_def simp del: append_Cons split: sum.splits)
  have wf: "orders_wf (uuid_seed d) (orders d)" "fills_wf (orders d) (fills d)"
    "positions_wf (orders d) (fills d) (positions d)" and find: "row_find o_id i (orders d) = Some od"
    using inv get by (auto simp: paper_inv_def order_get_def)
  have take_ok: "order_row_ok (take_fill ?q od)" by (rule order_row_ok_take_fill [OF od(1) qpos q])
  have w2: "orders_wf (uuid_seed d) (orders ?d2)" "fills_wf (orders ?d2) (fills ?d2)"
    using orders_wf_row_upd [OF wf(1), of "take_fill ?q" i "uuid_seed d"] take_ok find
      fills_wf_take_fill [OF wf(1,2) find fl] by auto
  have find2: "row_find o_id i (orders ?d2) = Some (take_fill ?q od)"
    using find by (simp add: row_find_row_upd)
  obtain c f where d3: "orders ?d3 = row_upd o_id c f (orders ?d2)" "c \<noteq> i"
    "\<And>r. order_static (f r) = order_static r" "\<And>r. o_filled_quantity (f r) = o_filled_quantity r"
    "\<And>r. row_find o_id c (orders ?d2) = Some r \<Longrightarrow> order_row_ok r \<Longrightarrow> order_row_ok (f r)"
  proof (cases "o_status od = OS_REPLACED")
    case True
    show ?thesis
      by (rule adjust_child_orders [OF w2(1) qpos, of now i]) (use True that in auto)
  next
    case False
    show ?thesis
      by (rule that [of "Suc i" "\<lambda>r. r"]) (use False in \<open>simp_all add: row_upd_def\<close>)
  qed
  have idf: "o_id (f r) = o_id r" for r using d3(3) by (rule order_static_ids)
  have frame3: "fills ?d3 = fills d @ [fl]" "positions ?d3 = positions d" "uuid_seed d \<le> uuid_seed ?d3"
    using adjust_child_seed [of ?d2 now i ?q] by auto
  have w3: "orders_wf (uuid_seed d) (orders ?d3)" "fills_wf (orders ?d3) (fills d @ [fl])"
    unfolding d3(1) using orders_wf_row_upd [OF w2(1) d3(3), of c] d3(5)
      fills_wf_row_upd [OF w2(2) d3(3,4), of c] by auto
  have find3: "row_find o_id i (orders ?d3) = Some (take_fill ?q od)"
    unfolding d3(1) using find2 d3(2) idf by (simp add: row_find_row_upd)
  note P = paper_apply_position_result [OF d4, unfolded frame3, OF _ _ fl(2)]
  have pw: "distinct (map p_key (positions d))" "\<forall>p \<in> set (positions d). paper_position_ok p"
    using wf(3) by (simp_all add: positions_wf_def)
  note P = P [OF pw]
  have find4: "order_get d4 i = Some (take_fill ?q od)" using P(1) find3 by (simp add: order_get_def)
  have static: "map order_static (orders ?d3) = map order_static (orders d)"
    unfolding d3(1) using d3(3) by simp
  have "held (positions d4) a s = net_fill (orders d4) (fills d4) a s" for a s
    unfolding P(1,2,6) net_fill_static [OF static]
    using wf(3) find fl(1) net_fill_snoc [of fl "orders d" od] by (simp add: positions_wf_def)
  then have inv4: "paper_inv d4"
    using w3 P orders_wf_row_upd [OF w3(1), of "\<lambda>r. r" 0 "uuid_seed d4"] frame3(3)
    by (simp add: paper_inv_def positions_wf_def row_upd_def)
  have "paper_inv d'"
    by (rule paper_inv_order_update [OF inv4 d'])
      (use find4 status_after_fill_ok [OF od(1) take_ok qpos] in auto)
  moreover have "\<exists>r. order_get d' i = Some r"
    using d'(1) find4 by (simp add: order_get_def row_find_row_upd)
  ultimately show ?thesis ..
qed

lemma apply_paper_fill_inv:
  assumes "paper_inv d"
  shows "paper_inv (snd (apply_paper_fill now i key q price fee tax filled_at d))"
proof (cases "row_find f_broker_fill_key key (fills d)")
  case (Some dup)
  then show ?thesis using assms by (simp add: apply_paper_fill_def split: option.split)
next
  case None
  show ?thesis
  proof (cases "order_get d i")
    case None
    with \<open>row_find f_broker_fill_key key (fills d) = None\<close> assms show ?thesis
      by (simp add: apply_paper_fill_def)
  next
    case (Some od)
    let ?d1 = "d\<lparr>uuid_seed := uuid_seed d + 1\<rparr>"
    let ?fl = "\<lparr>f_id = uuid_seed d, f_order_id = i, f_broker_fill_key = key, f_quantity = q,
      f_price = quantize4 price, f_fee = quantize4 fee, f_tax = quantize4 tax,
      f_filled_at = (case filled_at of None \<Rightarrow> now | Some t \<Rightarrow> t)\<rparr>"
    have inv1: "paper_inv ?d1" by (rule paper_inv_frame [OF assms]) simp_all
    have "order_get ?d1 i = Some od" using Some by (simp add: order_get_def)
    moreover have "key \<notin> f_broker_fill_key ` set (fills d)" using None by (simp add: row_find_None_iff)
    moreover have "q \<le> o_remaining_quantity od + o_cancelled_quantity od"
      if "fill_error od q price fee tax d = None"
      using that by (auto simp: fill_error_def split: if_splits)
    ultimately show ?thesis
      using assms None Some paper_book_fill_inv [OF inv1, of i od ?fl now]
      by (auto simp: apply_paper_fill_def uuid7_draw_def Let_def split: option.split sum.split)
  qed
qed

section \<open>Reachable ledgers\<close>

text \<open>Any sequence of calls from the empty database. Order creation may be interleaved with
  transactions that lead to another reachable database before its flush.\<close>

inductive paper_reachable :: "db \<Rightarrow> bool" where
  start: "paper_reachable empty_db"
| gate: "paper_reachable d \<Longrightarrow> paper_reachable (snd (set_paper_gate status reason d))"
| create: "paper_reachable d \<Longrightarrow> paper_reachable (env d) \<Longrightarrow>
    paper_reachable (snd (create_paper_order env st now lost rq d))"
| fill: "paper_reachable d \<Longrightarrow>
    paper_reachable (snd (apply_paper_fill now i key q price fee tax filled_at d))"
| cancel: "paper_reachable d \<Longrightarrow> paper_reachable (snd (request_paper_cancel now i d))"
| confirm: "paper_reachable d \<Longrightarrow> paper_reachable (snd (confirm_paper_cancel now i d))"
| request_replace: "paper_reachable d \<Longrightarrow> paper_reachable (snd (request_paper_replace now i d))"
| replace: "paper_reachable d \<Longrightarrow> paper_reachable (snd (replace_paper_order now i price key d))"

lemmas paper_op_invs =
  paper_inv_empty set_paper_gate_inv create_paper_order_inv apply_paper_fill_inv
  confirm_paper_cancel_inv replace_paper_order_inv

lemma paper_reachable_inv: "paper_reachable d \<Longrightarrow> paper_inv d"
  by (induction rule: paper_reachable.induct)
    (simp_all add: paper_op_invs request_paper_cancel_def request_paper_replace_def
      paper_request_transition_inv)

end
