(* ===== verification/Paper_Properties.thy ===== *)
theory Paper_Properties
  imports Paper_Ledger
begin

text \<open>
  What the paper broker promises, stated over the operations of \<open>Paper_Broker\<close> and
  proved from the ledger invariant of \<open>Paper_Ledger\<close>, with a small scenario (one
  account, one symbol) that instantiates the hypotheses.
\<close>

section \<open>Functional behaviour of creation and booking\<close>

lemma create_paper_order_new:
  assumes inv: "paper_inv (env d)" and nokey: "order_by_key d (pr_idempotency_key rq) = None"
    and val: "paper_validate_request st rq d = None"
    and norace: "order_by_key (env d) (pr_idempotency_key rq) = None"
  obtains u d' where "create_paper_order env st now lost rq d =
        (Inr (submitted lost u (paper_new_order now rq
            (case pr_trading_date rq of None \<Rightarrow> kst_date now | Some t \<Rightarrow> t)
            (Suc (Suc (uuid_seed (env d)))) (Suc (Suc (Suc (uuid_seed (env d)))))
            (uuid_seed (env d)) (Suc (uuid_seed (env d))))), d')"
    "orders d' = orders (env d) @ [submitted lost u (paper_new_order now rq
            (case pr_trading_date rq of None \<Rightarrow> kst_date now | Some t \<Rightarrow> t)
            (Suc (Suc (uuid_seed (env d)))) (Suc (Suc (Suc (uuid_seed (env d)))))
            (uuid_seed (env d)) (Suc (uuid_seed (env d))))]"
    "fills d' = fills (env d)" "positions d' = positions (env d)"
proof -
  let ?e = "env d" and ?td = "case pr_trading_date rq of None \<Rightarrow> kst_date now | Some t \<Rightarrow> t"
  let ?u = "uuid_seed ?e"
  let ?i = "Suc (Suc ?u)"
  let ?row = "paper_new_order now rq ?td ?i (Suc (Suc (Suc ?u))) ?u (Suc ?u)"
  let ?d' = "snd (paper_insert_order now lost rq ?td ?e)"
  have fresh: "?i \<notin> o_id ` set (orders ?e)"
    using inv by (auto simp: paper_inv_def orders_wf_def)
  obtain v where sub: "orders ?d' = row_upd o_id ?i (submitted lost v) (orders ?e @ [?row])"
    and fr: "fst (paper_insert_order now lost rq ?td ?e) = ?i" "fills ?d' = fills ?e"
      "positions ?d' = positions ?e"
    by (simp add: paper_insert_order_def uuid7_draw_def Let_def)
  have oid: "o_id ?row = ?i" by (simp add: paper_new_order_def)
  have tab: "orders ?d' = orders ?e @ [submitted lost v ?row]"
    unfolding sub using fresh oid row_upd_absent [OF fresh, of "submitted lost v"]
    by (simp add: row_upd_def)
  then have "order_get ?d' ?i = Some (submitted lost v ?row)"
    using fresh oid by (simp add: order_get_def row_find_append row_find_None_iff [THEN iffD2])
  then have "create_paper_order env st now lost rq d = (Inr (submitted lost v ?row), ?d')"
    using nokey val norace fr(1) by (simp add: create_paper_order_def Let_def case_prod_beta)
  then show thesis using tab fr(2,3) by (rule that)
qed

lemma apply_paper_fill_booked:
  assumes "apply_paper_fill now i key q price fee tax filled_at d = (Inr (r, True), d')"
  obtains od fl where "order_get d i = Some od" "row_find f_broker_fill_key key (fills d) = None"
    "fill_error od q price fee tax d = None" "fill_ck fl" "f_order_id fl = i" "f_quantity fl = q"
    "f_broker_fill_key fl = key" "f_price fl = quantize4 price"
    "paper_book_fill now od fl (d\<lparr>uuid_seed := uuid_seed d + 1\<rparr>) = Inr d'"
    "order_get d' i = Some r"
  using assms
  by (auto simp: apply_paper_fill_def uuid7_draw_def Let_def split: option.splits if_splits sum.splits)

lemma paper_book_fill_fills: "paper_book_fill now od fl d = Inr d' \<Longrightarrow> fills d' = fills d @ [fl]"
  by (auto simp: paper_book_fill_def paper_apply_position_def paper_ensure_position_def
      uuid7_draw_def Let_def split: sum.splits option.splits if_splits)

lemma paper_apply_position_orders: "paper_apply_position od fl d = Inr d' \<Longrightarrow> orders d' = orders d"
  by (auto simp: paper_apply_position_def paper_ensure_position_def uuid7_draw_def Let_def
      split: sum.splits option.splits if_splits)

text \<open>The order table after a booked fill, row by row.\<close>

lemma paper_book_fill_order:
  assumes get: "order_get d (o_id od) = Some od" and res: "paper_book_fill now od fl d = Inr d'"
    and wf: "orders_wf seed (orders d)" and q: "0 < f_quantity fl"
  shows "order_get d' (o_id od) =
    Some (with_status (status_after_fill (o_status od) (take_fill (f_quantity fl) od))
       (take_fill (f_quantity fl) od))"
    and "o_status od = OS_REPLACED \<Longrightarrow> replacement_child (o_id od) d = Some c \<Longrightarrow>
      order_get d' (o_id c) =
        Some (with_status (child_status_after_absorb (min (f_quantity fl) (o_remaining_quantity c))
                (f_quantity fl) (absorb (min (f_quantity fl) (o_remaining_quantity c)) c))
             (absorb (min (f_quantity fl) (o_remaining_quantity c)) c))"
proof -
  let ?i = "o_id od" and ?q = "f_quantity fl"
  let ?d2 = "order_upd ?i (take_fill ?q) (d\<lparr>fills := fills d @ [fl]\<rparr>)"
  let ?d3 = "if o_status od = OS_REPLACED then adjust_replacement_child_for_late_fill now ?i ?q ?d2 else ?d2"
  obtain d4 where d4: "paper_apply_position od fl ?d3 = Inr d4"
    and d': "orders d' = row_upd o_id ?i
      (with_status (status_after_fill (o_status od) (take_fill ?q od))) (orders ?d3)"
    using res paper_apply_position_orders
    by (auto simp: paper_book_fill_def Let_def simp del: append_Cons split: sum.splits)
  have find: "row_find o_id ?i (orders d) = Some od" using get by (simp add: order_get_def)
  have children: "replacement_child j ?d2 = replacement_child j d"
    if "\<And>r. r \<in> set (orders d) \<Longrightarrow> o_id r = ?i \<Longrightarrow> o_parent_order_id r \<noteq> Some j" for j
  proof -
    have "filter (\<lambda>r. o_parent_order_id r = Some j) (row_upd o_id ?i (take_fill ?q) (orders d)) =
        filter (\<lambda>r. o_parent_order_id r = Some j) (orders d)"
      using that by (intro filter_row_upd_outside) (auto simp: take_fill_def Let_def)
    then show ?thesis by (simp add: replacement_child_def)
  qed
  have own: "replacement_child ?i ?d2 = replacement_child ?i d"
    by (rule children) (use wf in \<open>auto simp: orders_wf_def\<close>)
  let ?f = "\<lambda>c. \<lambda>r. with_status (child_status_after_absorb (min ?q (o_remaining_quantity c)) ?q
      (absorb (min ?q (o_remaining_quantity c)) c)) (absorb (min ?q (o_remaining_quantity c)) r)"
  have child_ne: "o_id c \<noteq> ?i" if "replacement_child ?i d = Some c" for c
    using replacement_child_facts [OF that] wf by (auto simp: orders_wf_def)
  have o3: "orders ?d3 = (case replacement_child ?i d of
      None \<Rightarrow> row_upd o_id ?i (take_fill ?q) (orders d)
    | Some c \<Rightarrow> if o_status od = OS_REPLACED
        then row_upd o_id (o_id c) (?f c) (row_upd o_id ?i (take_fill ?q) (orders d))
        else row_upd o_id ?i (take_fill ?q) (orders d))"
    using own by (auto simp: adjust_replacement_child_for_late_fill_def Let_def row_upd_row_upd
        split: option.split)
  show "order_get d' ?i = Some (with_status (status_after_fill (o_status od) (take_fill ?q od))
      (take_fill ?q od))"
    using d' o3 find child_ne by (auto simp: order_get_def row_find_row_upd split: option.splits)
  assume rep: "o_status od = OS_REPLACED" and c: "replacement_child ?i d = Some c"
  have "row_find o_id (o_id c) (orders d) = Some c"
    using replacement_child_facts [OF c] wf by (auto simp: orders_wf_def intro: row_find_distinct)
  then show "order_get d' (o_id c) = Some (with_status (child_status_after_absorb
      (min ?q (o_remaining_quantity c)) ?q (absorb (min ?q (o_remaining_quantity c)) c))
      (absorb (min ?q (o_remaining_quantity c)) c))"
    using d' o3 rep c child_ne [OF c] by (auto simp: order_get_def row_find_row_upd)
qed

lemma held_nonneg:
  assumes "positions_wf os fs ps"
  shows "0 \<le> held ps a s"
proof (cases "row_find p_key (a, s) ps")
  case (Some p)
  with row_find_Some [OF Some] assms have "position_ck p"
    by (simp add: positions_wf_def paper_position_ok_def)
  with Some show ?thesis by (simp add: held_def position_ck_def)
qed (simp add: held_def)

text \<open>A fill that passes the checks is booked: nothing after the checks can raise.\<close>

lemma apply_paper_fill_succeeds:
  assumes inv: "paper_inv d" and get: "order_get d i = Some od"
    and new: "row_find f_broker_fill_key key (fills d) = None"
    and ok: "fill_error od q price fee tax d = None" and price: "0 < quantize4 price"
  shows "\<exists>r d'. apply_paper_fill now i key q price fee tax filled_at d = (Inr (r, True), d')"
proof -
  let ?d1 = "d\<lparr>uuid_seed := uuid_seed d + 1\<rparr>"
  let ?fl = "\<lparr>f_id = uuid_seed d, f_order_id = i, f_broker_fill_key = key, f_quantity = q,
      f_price = quantize4 price, f_fee = quantize4 fee, f_tax = quantize4 tax,
      f_filled_at = (case filled_at of None \<Rightarrow> now | Some t \<Rightarrow> t)\<rparr>"
  have args: "0 < q" "0 \<le> fee" "0 \<le> tax" "q \<le> o_remaining_quantity od + o_cancelled_quantity od"
    and sell: "o_side od = ''SELL'' \<Longrightarrow>
      (case position_get d (o_account_alias od) (o_symbol od) of None \<Rightarrow> False | Some p \<Rightarrow> q \<le> p_quantity p)"
    using ok by (auto simp: fill_error_def split: if_splits option.splits)
  have ck: "fill_ck ?fl" using args price by (simp add: fill_ck_def quantize4_nonneg)
  have inv1: "paper_inv ?d1" by (rule paper_inv_frame [OF inv]) simp_all
  have side: "o_side od \<in> {''BUY'', ''SELL''}"
    using order_row_okD(8) [OF order_get_facts(1) [OF inv get]] .
  have app: "\<exists>d4. paper_apply_position od ?fl x = Inr d4" if "positions x = positions d" for x
    using side sell that
    by (auto simp: paper_apply_position_def paper_ensure_position_def position_get_def uuid7_draw_def
        Let_def split: option.splits)
  let ?d2 = "order_upd (o_id od) (take_fill q) (?d1\<lparr>fills := fills ?d1 @ [?fl]\<rparr>)"
  have "positions (if o_status od = OS_REPLACED
      then adjust_replacement_child_for_late_fill now (o_id od) q ?d2 else ?d2) = positions d"
    by simp
  from app [OF this] have "\<exists>d'. paper_book_fill now od ?fl ?d1 = Inr d'"
    by (auto simp: paper_book_fill_def Let_def)
  then obtain d' where res: "paper_book_fill now od ?fl ?d1 = Inr d'" ..
  have "order_get ?d1 i = Some od" "f_broker_fill_key ?fl \<notin> f_broker_fill_key ` set (fills ?d1)"
    using get new by (simp_all add: order_get_def row_find_None_iff)
  then obtain r where "order_get d' i = Some r"
    using paper_book_fill_inv [OF inv1 _ _ ck _ _ res, of i] args(4) by auto
  then show ?thesis
    using get new ok ck res by (simp add: apply_paper_fill_def uuid7_draw_def Let_def)
qed

text \<open>The broker's create operation keeps the contract of idempotent creation.\<close>

definition paper_create_call ::
  "(db \<Rightarrow> db) \<times> settings \<times> instant \<times> bool \<Rightarrow> paper_order_request \<times> date \<Rightarrow> db \<Rightarrow> trading_order paper_result" where
  "paper_create_call x rt d =
     (case (x, rt) of ((env, st, now, lost), (rq, td)) \<Rightarrow>
        create_paper_order env st now lost (rq\<lparr>pr_trading_date := Some td\<rparr>) d)"

lemma paper_create_stored:
  assumes inv: "paper_inv (env d)" and td: "pr_trading_date rq = Some td"
    and res: "create_paper_order env st now lost rq d = (Inr r, d')"
  shows "order_by_key d' (pr_idempotency_key rq) = Some r \<and> o_request_hash r = paper_request_hash rq td"
proof (cases "order_by_key d (pr_idempotency_key rq) = None \<and> order_by_key (env d) (pr_idempotency_key rq) = None")
  case False
  with res td show ?thesis
    by (auto simp: create_paper_order_def Let_def split: option.splits if_splits)
next
  case True
  with res td have val: "paper_validate_request st rq d = None"
    by (auto simp: create_paper_order_def Let_def split: option.splits)
  obtain u where new: "orders d' = orders (env d) @ [r]"
    "r = submitted lost u (paper_new_order now rq td
       (Suc (Suc (uuid_seed (env d)))) (Suc (Suc (Suc (uuid_seed (env d)))))
       (uuid_seed (env d)) (Suc (uuid_seed (env d))))"
    by (rule create_paper_order_new [of env d rq st now lost, OF inv
          conjunct1 [OF True] val conjunct2 [OF True]]) (use res td in auto)
  then have "o_idempotency_key r = pr_idempotency_key rq" "o_request_hash r = paper_request_hash rq td"
    by (simp_all add: submitted_def with_status_def paper_new_order_def)
  with True new(1) show ?thesis by (simp add: order_by_key_def row_find_append)
qed

interpretation paper_creation: idempotent_create paper_create_call
  "\<lambda>(rq, td) d. order_by_key d (pr_idempotency_key rq)"
  "\<lambda>(rq, td) r. o_request_hash r = paper_request_hash (rq\<lparr>pr_trading_date := Some td\<rparr>) td"
  "\<lambda>_. True" "\<lambda>(env, _) d. paper_inv (env d)"
proof unfold_locales
  fix rt :: "paper_order_request \<times> date" and x d r d'
  assume "(case x of (env, _) \<Rightarrow> \<lambda>d. paper_inv (env d)) d" "paper_create_call x rt d = (Inr r, d')"
  then show "(case rt of (rq, td) \<Rightarrow> \<lambda>d. order_by_key d (pr_idempotency_key rq)) d' = Some r \<and>
      (case rt of (rq, td) \<Rightarrow> \<lambda>r. o_request_hash r = paper_request_hash (rq\<lparr>pr_trading_date := Some td\<rparr>) td) r"
    using paper_create_stored [where rq = "(fst rt)\<lparr>pr_trading_date := Some (snd rt)\<rparr>"]
    by (fastforce simp: paper_create_call_def split: prod.splits)
qed (auto simp: paper_create_call_def create_paper_order_def split: prod.splits)

section \<open>A scenario\<close>

definition demo_settings :: settings where
  "demo_settings =
     \<lparr>st_environment = ''MOCK'', st_live_trading_enabled = False, st_execution_stage = ''SHADOW''\<rparr>"

definition demo_request :: "string \<Rightarrow> int \<Rightarrow> string \<Rightarrow> paper_order_request" where
  "demo_request side q key =
     \<lparr>pr_symbol = ''005930'', pr_side = side, pr_quantity = q, pr_order_type = ''LIMIT'',
      pr_limit_price = Some 70000, pr_idempotency_key = key, pr_correlation_id = ''c'',
      pr_market = ''KRX'', pr_account_alias = ''PAPER'', pr_action = ''USER_REQUEST'',
      pr_trading_date = Some 20000\<rparr>"

definition demo_ready :: db where
  "demo_ready = snd (set_paper_gate ''READY'' ''ok'' empty_db)"

definition demo_open :: "(paper_error + trading_order) \<times> db" where
  "demo_open = create_paper_order (\<lambda>d. d) demo_settings 0 False (demo_request ''BUY'' 10 ''k1'') demo_ready"

lemma demo_ready_reachable: "paper_reachable demo_ready"
  unfolding demo_ready_def by (intro paper_reachable.intros)

lemma demo_open_reachable: "paper_reachable (snd demo_open)"
  unfolding demo_open_def by (intro paper_reachable.intros demo_ready_reachable)

lemma demo_ready_tables:
  "orders demo_ready = []" "fills demo_ready = []" "positions demo_ready = []"
  "trading_gates demo_ready = [\<lparr>g_account_alias = ''PAPER'', g_environment = ''MOCK'',
     g_status = GS_READY, g_reason = Some ''ok'', g_version = 1\<rparr>]" "uuid_seed demo_ready = 1"
  by (simp_all add: demo_ready_def set_paper_gate_def gate_status_of_def gate_get_def empty_db_def Let_def)

lemma demo_valid: "paper_validate_request demo_settings (demo_request ''BUY'' 10 ''k1'') demo_ready = None"
  by (simp add: paper_validate_request_def demo_settings_def demo_request_def gate_get_def
      symbol_locked_def demo_ready_tables str_upper_def char_upper_def str_isdigit_def is_digit_def)

lemma demo_open_row:
  obtains r where "demo_open = (Inr r, snd demo_open)" "orders (snd demo_open) = [r]"
    "fills (snd demo_open) = []" "positions (snd demo_open) = []"
    "o_status r = OS_OPEN" "o_id r = 3" "o_requested_quantity r = 10" "o_remaining_quantity r = 10"
    "o_cancelled_quantity r = 0" "o_filled_quantity r = 0" "o_side r = ''BUY''"
    "o_account_alias r = ''PAPER''" "o_symbol r = ''005930''"
proof (rule create_paper_order_new [of "\<lambda>d. d" demo_ready "demo_request ''BUY'' 10 ''k1''" demo_settings 0 False])
  show "paper_inv demo_ready" by (rule paper_reachable_inv [OF demo_ready_reachable])
  show "order_by_key demo_ready (pr_idempotency_key (demo_request ''BUY'' 10 ''k1'')) = None"
    by (simp add: order_by_key_def demo_ready_tables)
  then show "order_by_key demo_ready (pr_idempotency_key (demo_request ''BUY'' 10 ''k1'')) = None" .
qed (rule demo_valid, rule that, auto simp: demo_open_def demo_ready_tables demo_request_def submitted_def
    with_status_def paper_new_order_def)

definition demo_fill :: "(paper_error + (trading_order \<times> bool)) \<times> db" where
  "demo_fill = apply_paper_fill 0 3 ''f1'' 4 70000 0 0 None (snd demo_open)"

lemma demo_fill_reachable: "paper_reachable (snd demo_fill)"
  unfolding demo_fill_def by (intro paper_reachable.intros demo_open_reachable)

lemma quantize4_70000 [simp]: "quantize4 70000 = 70000"
  by (rule quantize4_fixed) (simp add: quantized_def)

lemma demo_fill_result:
  obtains r where "demo_fill = (Inr (r, True), snd demo_fill)"
proof (rule demo_open_row)
  fix r
  assume row: "demo_open = (Inr r, snd demo_open)" "orders (snd demo_open) = [r]" "fills (snd demo_open) = []"
    "positions (snd demo_open) = []" "o_id r = 3" "o_remaining_quantity r = 10" "o_cancelled_quantity r = 0"
    "o_side r = ''BUY''"
  have "\<exists>r d'. demo_fill = (Inr (r, True), d')"
    unfolding demo_fill_def
    by (rule apply_paper_fill_succeeds [OF paper_reachable_inv [OF demo_open_reachable], of 3 r])
      (use row in \<open>simp_all add: order_get_def fill_error_def\<close>)
  then obtain r' d' where e: "demo_fill = (Inr (r', True), d')" by blast
  have "demo_fill = (Inr (r', True), snd demo_fill)" by (simp add: e)
  then show thesis by (rule that)
qed

text \<open>A replaced order with its replacement in a given status.\<close>

definition demo_parent :: trading_order where
  "demo_parent = (paper_new_order 0 (demo_request ''BUY'' 10 ''k1'') 20000 3 4 1 2)
     \<lparr>o_status := OS_REPLACED, o_remaining_quantity := 0, o_cancelled_quantity := 10\<rparr>"

definition demo_child :: "order_status \<Rightarrow> trading_order" where
  "demo_child st = (replacement_order 0 (demo_parent\<lparr>o_remaining_quantity := 10\<rparr>) 71000 ''k2'' 10 11)
     \<lparr>o_status := st\<rparr>"

definition demo_replaced :: "order_status \<Rightarrow> db" where
  "demo_replaced st = demo_ready\<lparr>uuid_seed := 20, orders := [demo_parent, demo_child st]\<rparr>"

lemmas demo_rows = demo_parent_def demo_child_def replacement_order_def paper_new_order_def demo_request_def

lemma demo_replaced_inv:
  "st \<in> {OS_OPEN, OS_CANCEL_PENDING} \<Longrightarrow> paper_inv (demo_replaced st)"
  by (auto simp: paper_inv_def orders_wf_def fills_wf_def positions_wf_def demo_replaced_def
      demo_ready_tables demo_rows order_row_ok_def trading_order_ck_def order_quantity_ck_def status_ok_def
      order_fill_total_def net_fill_def held_def)

lemma demo_replaced_tables:
  "order_get (demo_replaced st) 3 = Some demo_parent"
  "replacement_child 3 (demo_replaced st) = Some (demo_child st)"
  "o_status demo_parent = OS_REPLACED" "o_id (demo_child st) = 10" "o_status (demo_child st) = st"
  "o_remaining_quantity (demo_child st) = 10" "o_filled_quantity (demo_child st) = 0"
  "o_requested_quantity (demo_child st) = 10"
  "fills (demo_replaced st) = []"
  by (simp_all add: order_get_def replacement_child_def demo_replaced_def demo_ready_tables demo_rows)

lemma demo_late_fill:
  assumes "st \<in> {OS_OPEN, OS_CANCEL_PENDING}"
  obtains r d' where
    "apply_paper_fill 0 3 ''late'' 4 70000 0 0 None (demo_replaced st) = (Inr (r, True), d')"
proof -
  have "fill_error demo_parent 4 70000 0 0 (demo_replaced st) = None"
    by (simp add: fill_error_def demo_rows)
  with apply_paper_fill_succeeds [OF demo_replaced_inv [OF assms] demo_replaced_tables(1),
      of "''late''" 4 70000 0 0 0 None] demo_replaced_tables(9) that
  show thesis by auto
qed

section \<open>Properties\<close>

text \<open>C1. In every reachable paper ledger the quantities of an order add up: what was requested
  is what was filled, written off and still open, none of them negative, and the filled
  quantity is exactly the sum of the fills booked on that order.\<close>

theorem paper_orders_conserve:
  assumes "paper_reachable d" and "r \<in> set (orders d)"
  shows "o_requested_quantity r =
           o_filled_quantity r + o_cancelled_quantity r + o_remaining_quantity r \<and>
         0 \<le> o_filled_quantity r \<and> 0 \<le> o_cancelled_quantity r \<and> 0 \<le> o_remaining_quantity r \<and>
         o_filled_quantity r = order_fill_total (fills d) (o_id r)"
proof -
  have "paper_inv d" by (rule paper_reachable_inv [OF assms(1)])
  with assms(2) have "order_row_ok r" "o_filled_quantity r = order_fill_total (fills d) (o_id r)"
    by (simp_all add: paper_inv_def orders_wf_def fills_wf_def)
  with order_row_okD [OF this(1)] show ?thesis by simp
qed

theorem paper_orders_conserve_witness:
  "\<exists>r \<in> set (orders (snd demo_open)). paper_reachable (snd demo_open) \<and> o_requested_quantity r = 10 \<and>
     10 = o_filled_quantity r + o_cancelled_quantity r + o_remaining_quantity r"
proof (rule demo_open_row)
  fix r
  assume "orders (snd demo_open) = [r]" "o_requested_quantity r = 10"
  with paper_orders_conserve [OF demo_open_reachable, of r] demo_open_reachable show ?thesis by simp
qed

text \<open>C2. In every reachable paper ledger the quantity held in an account and a symbol is the
  signed sum of all fills on it, bought minus sold, and it is never negative.\<close>

theorem paper_position_is_net_of_fills:
  assumes "paper_reachable d"
  shows "held (positions d) a s = net_fill (orders d) (fills d) a s \<and> 0 \<le> held (positions d) a s"
proof -
  have pw: "positions_wf (orders d) (fills d) (positions d)"
    using paper_reachable_inv [OF assms] by (simp add: paper_inv_def)
  then have "0 \<le> held (positions d) a s" by (rule held_nonneg)
  with pw show ?thesis by (simp add: positions_wf_def)
qed

theorem paper_position_is_net_of_fills_witness:
  "paper_reachable (snd demo_fill) \<and>
   held (positions (snd demo_fill)) ''PAPER'' ''005930'' =
     net_fill (orders (snd demo_fill)) (fills (snd demo_fill)) ''PAPER'' ''005930''"
  using demo_fill_reachable
    paper_position_is_net_of_fills [OF demo_fill_reachable, of "''PAPER''" "''005930''"]
  by simp



text \<open>A fill is booked at most once: after a fill was applied, the same source key with the
  same order, quantity and price returns the order with the flag False and changes
  nothing, whatever fee, tax or time the repeated message carries.\<close>

theorem paper_fill_replay:
  assumes "apply_paper_fill now i key q price fee tax filled_at d = (Inr (r, True), d')"
  shows "apply_paper_fill now' i key q price fee' tax' filled_at' d' = (Inr (r, False), d')"
proof (rule apply_paper_fill_booked [OF assms])
  fix od fl
  assume fl: "row_find f_broker_fill_key key (fills d) = None" "f_order_id fl = i" "f_quantity fl = q"
    "f_broker_fill_key fl = key" "f_price fl = quantize4 price" "order_get d' i = Some r"
    and "paper_book_fill now od fl (d\<lparr>uuid_seed := uuid_seed d + 1\<rparr>) = Inr d'"
  then have "fills d' = fills d @ [fl]" by (auto dest: paper_book_fill_fills)
  with fl(1,4) have "row_find f_broker_fill_key key (fills d') = Some fl"
    by (simp add: row_find_append)
  with fl show ?thesis by (simp add: apply_paper_fill_def)
qed

theorem paper_fill_replay_witness:
  "\<exists>r. demo_fill = (Inr (r, True), snd demo_fill) \<and>
     apply_paper_fill 5 3 ''f1'' 4 70000 9 9 None (snd demo_fill) = (Inr (r, False), snd demo_fill)"
proof (rule demo_fill_result)
  fix r
  assume r: "demo_fill = (Inr (r, True), snd demo_fill)"
  show ?thesis
    using r paper_fill_replay [OF r [unfolded demo_fill_def], of 5 9 9 None] by (auto simp: demo_fill_def)
qed

text \<open>Order creation is idempotent under its key, also when another transaction wins the race
  between the lookup and the flush: repeating a request that returned an order returns the
  same order and writes nothing, however often and under whatever clock and interference.\<close>

theorem paper_create_replay:
  assumes "paper_reachable (env d)" and "pr_trading_date rq = Some td"
    and "create_paper_order env st now lost rq d = (Inr r, d')"
  shows "create_paper_order env' st' now' lost' rq d' = (Inr r, d') \<and>
    foldl (\<lambda>s (env, st, now, lost). snd (create_paper_order env st now lost rq s)) d' calls = d'"
proof -
  have rq: "rq\<lparr>pr_trading_date := Some td\<rparr> = rq" using assms(2) by simp
  note inv = paper_reachable_inv [OF assms(1)]
  show ?thesis
    using paper_creation.replay [where rq = "(rq, td)" and x = "(env, st, now, lost)" and d = d and
        r = r and d' = d' and y = "(env', st', now', lost')"]
      paper_creation.replay_many [where rq = "(rq, td)" and x = "(env, st, now, lost)" and d = d and
        r = r and d' = d' and ys = calls] inv assms(3)
    by (simp add: rq paper_create_call_def case_prod_unfold)
qed

theorem paper_create_replay_witness:
  "\<exists>r. demo_open = (Inr r, snd demo_open) \<and>
     create_paper_order (\<lambda>d. d) demo_settings 7 True (demo_request ''BUY'' 10 ''k1'') (snd demo_open) =
       (Inr r, snd demo_open)"
proof (rule demo_open_row)
  fix r
  assume r: "demo_open = (Inr r, snd demo_open)"
  have "pr_trading_date (demo_request ''BUY'' 10 ''k1'') = Some 20000" by (simp add: demo_request_def)
  from paper_create_replay [OF demo_ready_reachable this r [unfolded demo_open_def]] r
  show ?thesis by (auto simp: demo_open_def)
qed

text \<open>C3. A late fill on a replaced order is netted against its replacement. When the child can
  absorb it, the shares the two orders together have bought or may still buy do not change;
  when it cannot, the child is put into reconciliation and the symbol is locked, so that no
  further order on it is accepted.\<close>

theorem paper_late_fill_netted:
  assumes inv: "paper_inv d" and get: "order_get d i = Some od" "o_status od = OS_REPLACED"
    and child: "replacement_child i d = Some c"
    and res: "apply_paper_fill now i key q price fee tax filled_at d = (Inr (r, True), d')"
  shows "\<exists>c'. order_get d' (o_id c) = Some c' \<and>
    (if q \<le> o_remaining_quantity c
     then o_filled_quantity r + o_filled_quantity c' + o_remaining_quantity c' =
          o_filled_quantity od + o_filled_quantity c + o_remaining_quantity c
     else o_status c' = OS_RECONCILING \<and> symbol_locked d' (o_account_alias c) (o_symbol c))"
proof (rule apply_paper_fill_booked [OF res])
  fix od' fl
  assume od': "order_get d i = Some od'" and fl: "fill_error od' q price fee tax d = None"
    "f_quantity fl = q" and book: "paper_book_fill now od' fl (d\<lparr>uuid_seed := uuid_seed d + 1\<rparr>) = Inr d'"
    and r: "order_get d' i = Some r"
  let ?d1 = "d\<lparr>uuid_seed := uuid_seed d + 1\<rparr>" and ?a = "min q (o_remaining_quantity c)"
  have [simp]: "od' = od" using od' get by simp
  have i: "o_id od = i" using order_get_facts [OF inv get(1)] by simp
  have q: "0 < f_quantity fl" using fl by (auto simp: fill_error_def split: if_splits)
  have wf: "orders_wf (uuid_seed d) (orders ?d1)" using inv by (simp add: paper_inv_def)
  have get1: "order_get ?d1 (o_id od) = Some od" "replacement_child (o_id od) ?d1 = Some c"
    using get child i by (simp_all add: order_get_def replacement_child_def)
  note book' = book [unfolded \<open>od' = od\<close>]
  let ?c' = "with_status (child_status_after_absorb ?a q (absorb ?a c)) (absorb ?a c)"
  have r': "o_filled_quantity r = o_filled_quantity od + q"
    using paper_book_fill_order(1) [OF get1(1) book' wf q] r i fl(2)
    by (auto simp: take_fill_def Let_def)
  have c': "order_get d' (o_id c) = Some ?c'"
    using paper_book_fill_order(2) [OF get1(1) book' wf q get(2) get1(2)] fl(2) by simp
  have fields: "o_filled_quantity ?c' = o_filled_quantity c"
    "o_remaining_quantity ?c' = o_remaining_quantity c - ?a"
    "o_account_alias ?c' = o_account_alias c" "o_symbol ?c' = o_symbol c"
    by (simp_all add: with_status_def absorb_def)
  have "symbol_locked d' (o_account_alias c) (o_symbol c)" if "o_status ?c' = OS_RECONCILING"
    using that order_get_mem [OF c'] fields(3,4)
    by (auto simp: symbol_locked_def active_symbol_lock_states_def list_ex_iff)
  moreover have "o_status ?c' = OS_RECONCILING" if "\<not> q \<le> o_remaining_quantity c"
    using that by (simp add: with_status_def child_status_after_absorb_def)
  ultimately show ?thesis using c' r' fields by auto
qed

theorem paper_late_fill_netted_witness:
  "\<exists>r d' c'. apply_paper_fill 0 3 ''late'' 4 70000 0 0 None (demo_replaced OS_OPEN) = (Inr (r, True), d') \<and>
     order_get d' 10 = Some c' \<and> o_filled_quantity r + o_filled_quantity c' + o_remaining_quantity c' = 10"
proof (rule demo_late_fill [of OS_OPEN])
  fix r d'
  assume res: "apply_paper_fill 0 3 ''late'' 4 70000 0 0 None (demo_replaced OS_OPEN) = (Inr (r, True), d')"
  have "o_filled_quantity demo_parent = 0" by (simp add: demo_rows)
  with paper_late_fill_netted [OF demo_replaced_inv demo_replaced_tables(1) demo_replaced_tables(3)
      demo_replaced_tables(2) res] res
  show ?thesis by (auto simp: demo_replaced_tables)
qed simp

text \<open>While the gate of the account is not READY, or while an order of the symbol is UNKNOWN or
  RECONCILING, no request creates an order: the call raises (or returns the order the key
  already stands for) and the database is unchanged.\<close>

theorem paper_closed_gate_creates_nothing:
  assumes "(\<forall>g. gate_get d (pr_account_alias rq) = Some g \<longrightarrow> g_status g \<noteq> GS_READY) \<or>
           symbol_locked d (pr_account_alias rq) (pr_symbol rq)"
  shows "snd (create_paper_order env st now lost rq d) = d \<and>
    (order_by_key d (pr_idempotency_key rq) = None \<longrightarrow>
      (\<exists>e. fst (create_paper_order env st now lost rq d) = Inl e))"
proof -
  have "paper_validate_request st rq d \<noteq> None"
    using assms by (auto simp: paper_validate_request_def split: option.splits)
  then show ?thesis
    by (auto simp: create_paper_order_def Let_def split: option.splits)
qed

theorem paper_closed_gate_creates_nothing_witness:
  "snd (create_paper_order (\<lambda>d. d) demo_settings 0 False (demo_request ''BUY'' 10 ''k1'') empty_db) = empty_db \<and>
   (\<exists>e. fst (create_paper_order (\<lambda>d. d) demo_settings 0 False (demo_request ''BUY'' 10 ''k1'') empty_db) = Inl e)"
proof -
  have gate: "gate_get empty_db a = None" for a by (simp add: gate_get_def empty_db_def)
  have key: "order_by_key empty_db k = None" for k by (simp add: order_by_key_def empty_db_def)
  show ?thesis
    using paper_closed_gate_creates_nothing [of empty_db "demo_request ''BUY'' 10 ''k1''" "\<lambda>d. d"
        demo_settings 0 False] gate key by simp
qed

text \<open>A sell order is accepted only if the position covers it beyond what the active sell
  orders already reserve: the reservations including the new order stay within the position.\<close>

theorem paper_sell_never_oversells:
  assumes "paper_validate_request st rq d = None" and "pr_side rq = ''SELL''"
  shows "reserved_sell_quantity d (pr_account_alias rq) (pr_symbol rq) + pr_quantity rq
           \<le> held (positions d) (pr_account_alias rq) (pr_symbol rq)"
  using assms
  by (auto simp: paper_validate_request_def position_get_def held_def split: if_splits option.splits)

definition demo_holding :: db where
  "demo_holding = demo_ready\<lparr>positions :=
     [position_after_fill ''BUY'' 5 70000 (new_position 7 ''PAPER'' ''005930'')]\<rparr>"

theorem paper_sell_never_oversells_witness:
  "paper_validate_request demo_settings (demo_request ''SELL'' 3 ''k9'') demo_holding = None \<and>
   reserved_sell_quantity demo_holding ''PAPER'' ''005930'' + 3 \<le> held (positions demo_holding) ''PAPER'' ''005930''"
proof -
  have held5: "p_quantity (position_after_fill ''BUY'' 5 70000 (new_position 7 ''PAPER'' ''005930'')) = 5"
    "p_key (position_after_fill ''BUY'' 5 70000 (new_position 7 ''PAPER'' ''005930'')) = (''PAPER'', ''005930'')"
    by (simp_all add: position_after_fill_def new_position_def p_key_def Let_def)
  have val: "paper_validate_request demo_settings (demo_request ''SELL'' 3 ''k9'') demo_holding = None"
    by (simp add: paper_validate_request_def demo_settings_def demo_request_def gate_get_def
        symbol_locked_def demo_ready_tables str_upper_def char_upper_def str_isdigit_def is_digit_def
        demo_holding_def position_get_def held5 reserved_sell_quantity_def)
  show ?thesis
    using val paper_sell_never_oversells [OF val] by (simp add: demo_request_def)
qed

text \<open>The average price after a bought fill lies between the previous average price and the
  price of the fill: rounding to four places never leaves that interval.\<close>

theorem paper_average_price_bounds:
  assumes "0 \<le> p_quantity p" "0 < q" "quantized 4 (p_average_price p)" "quantized 4 price"
    and "p_quantity p = 0 \<Longrightarrow> p_average_price p = 0"
  shows "p_average_price (position_after_fill ''BUY'' q price p) \<in>
    (if p_quantity p = 0 then {price} else
      {min (p_average_price p) price .. max (p_average_price p) price})"
proof -
  let ?a = "p_average_price p" and ?n = "of_int (p_quantity p) :: rat" and ?q = "of_int q :: rat"
  let ?x = "(?a * ?n + price * ?q) / (?n + ?q)"
  have pos: "0 \<le> ?n" "0 < ?q" using assms by simp_all
  have avg: "p_average_price (position_after_fill ''BUY'' q price p) = quantize4_half_up ?x"
    by (simp add: position_after_fill_def Let_def)
  have "min ?a price * (?n + ?q) \<le> ?a * ?n + price * ?q"
    using pos by (simp add: distrib_left add_mono mult_right_mono)
  then have lo: "min ?a price \<le> ?x" using pos by (simp add: pos_le_divide_eq)
  have "?a * ?n + price * ?q \<le> max ?a price * (?n + ?q)"
    using pos by (simp add: distrib_left add_mono mult_right_mono)
  then have hi: "?x \<le> max ?a price" using pos by (simp add: pos_divide_le_eq)
  have fx: "quantize4_half_up (min ?a price) = min ?a price" "quantize4_half_up (max ?a price) = max ?a price"
    "quantize4_half_up price = price"
    using assms(3,4) by (auto simp: min_def max_def quantize4_half_up_fixed)
  show ?thesis
  proof (cases "p_quantity p = 0")
    case True
    with assms(2,5) fx(3) avg show ?thesis by simp
  next
    case False
    with quantize4_half_up_mono [OF lo] quantize4_half_up_mono [OF hi] fx avg show ?thesis by simp
  qed
qed

theorem paper_average_price_bounds_witness:
  "p_average_price (position_after_fill ''BUY'' 2 70001 (position_after_fill ''BUY'' 1 70000
      (new_position 7 ''PAPER'' ''005930''))) \<in> {70000 .. 70001}"
proof -
  let ?p = "position_after_fill ''BUY'' 1 70000 (new_position 7 ''PAPER'' ''005930'')"
  have quant: "quantized 4 70000" "quantized 4 70001" by (simp_all add: quantized_def)
  have p: "p_quantity ?p = 1" "p_average_price ?p = 70000"
    using quantize4_half_up_fixed [OF quant(1)] by (simp_all add: position_after_fill_def new_position_def Let_def)
  show ?thesis using paper_average_price_bounds [of ?p 2 70001] quant p by simp
qed

text \<open>A pending cancel (or replace) of a replacement order does not survive a late fill of its
  parent: the child falls back to OPEN or PARTIALLY_FILLED, and the confirmation of the cancel
  that follows is refused as an invalid transition.\<close>

theorem paper_late_fill_drops_pending_cancel:
  assumes inv: "paper_inv d" and get: "order_get d i = Some od" "o_status od = OS_REPLACED"
    and child: "replacement_child i d = Some c" "o_status c = OS_CANCEL_PENDING"
    and q: "q < o_remaining_quantity c"
    and res: "apply_paper_fill now i key q price fee tax filled_at d = (Inr (r, True), d')"
  shows "confirm_paper_cancel now' (o_id c) d' =
    (Inl (PaperBrokerConflict ''INVALID_ORDER_TRANSITION''), d')"
proof (rule apply_paper_fill_booked [OF res])
  fix od' fl
  assume od': "order_get d i = Some od'" and fl: "fill_error od' q price fee tax d = None"
    "f_quantity fl = q" and book: "paper_book_fill now od' fl (d\<lparr>uuid_seed := uuid_seed d + 1\<rparr>) = Inr d'"
  let ?d1 = "d\<lparr>uuid_seed := uuid_seed d + 1\<rparr>" and ?a = "min q (o_remaining_quantity c)"
  have [simp]: "od' = od" using od' get by simp
  have i: "o_id od = i" using order_get_facts [OF inv get(1)] by simp
  have qpos: "0 < f_quantity fl" using fl by (auto simp: fill_error_def split: if_splits)
  have wf: "orders_wf (uuid_seed d) (orders ?d1)" using inv by (simp add: paper_inv_def)
  have get1: "order_get ?d1 (o_id od) = Some od" "replacement_child (o_id od) ?d1 = Some c"
    using get child i by (simp_all add: order_get_def replacement_child_def)
  have c': "order_get d' (o_id c) =
      Some (with_status (child_status_after_absorb ?a q (absorb ?a c)) (absorb ?a c))"
    using paper_book_fill_order(2) [OF get1(1) book [unfolded \<open>od' = od\<close>] wf qpos get(2) get1(2)] fl(2)
    by simp
  have "order_row_ok c"
    using replacement_child_facts [OF child(1)] inv by (simp add: paper_inv_def orders_wf_def)
  then have "o_filled_quantity c \<noteq> o_requested_quantity c"
    using order_row_okD [of c] q qpos fl(2) by auto
  then have "child_status_after_absorb ?a q (absorb ?a c) \<in> {OS_OPEN, OS_PARTIALLY_FILLED}"
    using q by (auto simp: child_status_after_absorb_def absorb_def)
  with c' show ?thesis by (auto simp: confirm_paper_cancel_def with_status_def)
qed

theorem paper_late_fill_drops_pending_cancel_witness:
  "\<exists>r d'. apply_paper_fill 0 3 ''late'' 4 70000 0 0 None (demo_replaced OS_CANCEL_PENDING) = (Inr (r, True), d') \<and>
     confirm_paper_cancel 1 10 d' = (Inl (PaperBrokerConflict ''INVALID_ORDER_TRANSITION''), d')"
proof (rule demo_late_fill [of OS_CANCEL_PENDING])
  fix r d'
  assume res: "apply_paper_fill 0 3 ''late'' 4 70000 0 0 None (demo_replaced OS_CANCEL_PENDING) = (Inr (r, True), d')"
  with paper_late_fill_drops_pending_cancel [OF demo_replaced_inv demo_replaced_tables(1) demo_replaced_tables(3)
      demo_replaced_tables(2) _ _ res, where now' = 1]
  show ?thesis by (auto simp: demo_replaced_tables)
qed simp

end
