(* ===== verification/Order_Creation.thy ===== *)
theory Order_Creation
  imports Paper_Ledger
begin

text \<open>
  The shared order creation service of \<open>app/order_creation.py\<close>: it validates a request
  and persists one intent and one order in CREATED for the broker worker, exactly once per
  idempotency key. As in \<open>Paper_Broker\<close>, \<open>env\<close> is the effect of transactions
  that commit between the key lookup and the flush. The flush also fails when the row breaks a
  CHECK constraint, and the service then reports the same conflict.
\<close>

section \<open>Requests\<close>

datatype order_creation_error = OrderCreationError string int

record order_request =
  or_symbol :: string
  or_market :: string
  or_side :: string
  or_action :: string
  or_order_type :: string
  or_limit_price :: "decimal option"
  or_quantity :: int
  or_idempotency_key :: string
  or_request_payload :: json
  or_correlation_id :: string

definition kiwoom_account :: string where
  "kiwoom_account = ''KIWOOM_MOCK_PRIMARY''"

definition creation_hash :: "json \<Rightarrow> digest" where
  "creation_hash payload = Sha256 payload"

definition validate_order_request :: "order_request \<Rightarrow> order_creation_error option" where
  "validate_order_request rq =
     (if or_quantity rq \<le> 0 then Some (OrderCreationError ''ORDER_QUANTITY_INVALID'' 400)
      else if or_side rq \<notin> {''BUY'', ''SELL''} then Some (OrderCreationError ''ORDER_SIDE_INVALID'' 400)
      else if or_market rq \<notin> {''KRX'', ''NXT''} then Some (OrderCreationError ''ORDER_MARKET_INVALID'' 400)
      else if or_order_type rq = ''LIMIT'' \<and> or_limit_price rq = None
        then Some (OrderCreationError ''LIMIT_PRICE_REQUIRED'' 400)
      else if or_order_type rq = ''MARKET'' \<and> or_limit_price rq \<noteq> None
        then Some (OrderCreationError ''MARKET_PRICE_NOT_ALLOWED'' 400)
      else None)"

definition unfilled_policy :: "order_request \<Rightarrow> string \<times> int \<times> int" where
  "unfilled_policy rq =
     (if or_side rq = ''BUY'' \<and> or_action rq = ''BUY'' then (''CANCEL'', 10, 0) else (''NONE'', 0, 0))"

section \<open>Creating the order\<close>

definition created_order :: "instant \<Rightarrow> order_request \<Rightarrow> uuid \<Rightarrow> uuid \<Rightarrow> uuid \<Rightarrow> uuid \<Rightarrow> trading_order" where
  "created_order now rq i client intent grp =
     (let (policy, timeout, attempts) = unfilled_policy rq
      in \<lparr>o_id = i, o_intent_id = intent, o_order_group_id = grp, o_parent_order_id = None,
          o_account_alias = kiwoom_account, o_environment = ''MOCK'', o_symbol = or_symbol rq,
          o_market = or_market rq, o_side = or_side rq, o_order_type = or_order_type rq,
          o_limit_price = or_limit_price rq, o_requested_quantity = or_quantity rq,
          o_filled_quantity = 0, o_cancelled_quantity = 0, o_remaining_quantity = or_quantity rq,
          o_status = OS_CREATED, o_client_order_id = client,
          o_idempotency_key = or_idempotency_key rq,
          o_request_hash = creation_hash (or_request_payload rq), o_broker_order_id = None,
          o_replacement_sequence = 0, o_unfilled_policy = policy, o_fill_timeout_seconds = timeout,
          o_max_reprice_attempts = attempts, o_reprice_attempts = 0, o_next_action_at = None,
          o_trading_date = kst_date now, o_correlation_id = or_correlation_id rq, o_version = 1,
          o_created_at = now\<rparr>)"

definition created_intent :: "order_request \<Rightarrow> uuid \<Rightarrow> uuid \<Rightarrow> order_intent" where
  "created_intent rq i grp =
     \<lparr>i_id = i, i_order_group_id = grp, i_account_alias = kiwoom_account, i_environment = ''MOCK'',
      i_symbol = or_symbol rq, i_market = or_market rq, i_side = or_side rq, i_action = or_action rq,
      i_requested_quantity = or_quantity rq, i_correlation_id = or_correlation_id rq, i_version = 1\<rparr>"

definition creation_event :: "instant \<Rightarrow> trading_order \<Rightarrow> string \<Rightarrow> json \<Rightarrow> uuid \<Rightarrow> order_event" where
  "creation_event now od etype payload i =
     \<lparr>oe_id = i, oe_order_id = o_id od, oe_event_type = etype, oe_source = ''CRESTA'',
      oe_source_key = uuid_text (o_id od) @ '':'' @ etype, oe_payload_hash = Sha256 payload,
      oe_payload_json = payload, oe_correlation_id = o_correlation_id od, oe_occurred_at = now\<rparr>"

definition creation_audit ::
  "string \<Rightarrow> string \<Rightarrow> string option \<Rightarrow> string option \<Rightarrow> order_request \<Rightarrow> uuid \<Rightarrow> audit_log" where
  "creation_audit user action ip ua rq i =
     \<lparr>al_actor_type = ''USER'', al_actor_id = Some user, al_action = action, al_target = Some i,
      al_result = ''PASSED'', al_request_ip = ip,
      al_user_agent = (case ua of None \<Rightarrow> None | Some s \<Rightarrow> if s = [] then None else Some (take 256 s)),
      al_correlation_id = or_correlation_id rq,
      al_metadata_json = JObj [(''action'', JStr (or_action rq)), (''order_type'', JStr (or_order_type rq)),
        (''quantity'', JInt (or_quantity rq)), (''side'', JStr (or_side rq)), (''symbol'', JStr (or_symbol rq))]\<rparr>"

record creation_context =
  cc_env :: "db \<Rightarrow> db"
  cc_user :: string
  cc_audit_action :: string
  cc_request_ip :: "string option"
  cc_user_agent :: "string option"
  cc_now :: instant

definition insert_created_order :: "creation_context \<Rightarrow> order_request \<Rightarrow> db \<Rightarrow> trading_order \<times> db" where
  "insert_created_order cc rq d =
     (let (intent, d1) = uuid7_draw d;
          (grp, d2) = uuid7_draw d1;
          (i, d3) = uuid7_draw d2;
          (client, d4) = uuid7_draw d3;
          (ev, d5) = uuid7_draw d4;
          row = created_order (cc_now cc) rq i client intent grp
      in (row, d5\<lparr>order_intents := order_intents d5 @ [created_intent rq intent grp],
                 orders := orders d5 @ [row],
                 order_events := order_events d5 @
                   [creation_event (cc_now cc) row ''ORDER_CREATED''
                      (JObj [(''action'', JStr (or_action rq)), (''status'', JStr ''CREATED'')]) ev],
                 audit_logs := audit_logs d5 @
                   [creation_audit (cc_user cc) (cc_audit_action cc) (cc_request_ip cc)
                      (cc_user_agent cc) rq i]\<rparr>))"

definition create_order ::
  "creation_context \<Rightarrow> order_request \<Rightarrow> db \<Rightarrow> (order_creation_error + trading_order) \<times> db" where
  "create_order cc rq d =
     (case validate_order_request rq of
        Some e \<Rightarrow> (Inl e, d)
      | None \<Rightarrow>
          (let fingerprint = creation_hash (or_request_payload rq)
           in case order_by_key d (or_idempotency_key rq) of
                Some existing \<Rightarrow>
                  if o_request_hash existing \<noteq> fingerprint
                  then (Inl (OrderCreationError ''IDEMPOTENCY_CONFLICT'' 409), d)
                  else (Inr existing, d)
              | None \<Rightarrow>
                  (let d' = cc_env cc d
                   in case order_by_key d' (or_idempotency_key rq) of
                        Some raced \<Rightarrow>
                          if o_request_hash raced = fingerprint then (Inr raced, d')
                          else (Inl (OrderCreationError ''IDEMPOTENCY_CONFLICT'' 409), d')
                      | None \<Rightarrow>
                          (let (row, d'') = insert_created_order cc rq d'
                           in if \<not> trading_order_ck row
                              then (Inl (OrderCreationError ''IDEMPOTENCY_CONFLICT'' 409), d')
                              else (Inr row, d'')))))"

section \<open>Facts\<close>

definition orders_inv :: "db \<Rightarrow> bool" where
  "orders_inv d \<longleftrightarrow> orders_wf (uuid_seed d) (orders d)"

lemma created_order_sel [simp]:
  "o_id (created_order now rq i c it g) = i"
  "o_idempotency_key (created_order now rq i c it g) = or_idempotency_key rq"
  "o_request_hash (created_order now rq i c it g) = creation_hash (or_request_payload rq)"
  "o_parent_order_id (created_order now rq i c it g) = None"
  "o_status (created_order now rq i c it g) = OS_CREATED"
  "o_side (created_order now rq i c it g) = or_side rq"
  "o_symbol (created_order now rq i c it g) = or_symbol rq"
  "o_account_alias (created_order now rq i c it g) = kiwoom_account"
  "o_environment (created_order now rq i c it g) = ''MOCK''"
  "o_requested_quantity (created_order now rq i c it g) = or_quantity rq"
  "o_remaining_quantity (created_order now rq i c it g) = or_quantity rq"
  "o_filled_quantity (created_order now rq i c it g) = 0"
  "o_cancelled_quantity (created_order now rq i c it g) = 0"
  "o_intent_id (created_order now rq i c it g) = it"
  "o_limit_price (created_order now rq i c it g) = or_limit_price rq"
  "o_broker_order_id (created_order now rq i c it g) = None"
  "o_unfilled_policy (created_order now rq i c it g) = fst (unfilled_policy rq)"
  "o_fill_timeout_seconds (created_order now rq i c it g) = fst (snd (unfilled_policy rq))"
  by (simp_all add: created_order_def split: prod.split)

lemma insert_created_order_tables:
  "fst (insert_created_order cc rq d) = created_order (cc_now cc) rq
     (Suc (Suc (uuid_seed d))) (Suc (Suc (Suc (uuid_seed d)))) (uuid_seed d) (Suc (uuid_seed d))"
  "orders (snd (insert_created_order cc rq d)) = orders d @ [fst (insert_created_order cc rq d)]"
  "uuid_seed (snd (insert_created_order cc rq d)) = Suc (Suc (Suc (Suc (Suc (uuid_seed d)))))"
  "fills (snd (insert_created_order cc rq d)) = fills d"
  "positions (snd (insert_created_order cc rq d)) = positions d"
  "order_intents (snd (insert_created_order cc rq d)) =
     order_intents d @ [created_intent rq (uuid_seed d) (Suc (uuid_seed d))]"
  by (simp_all add: insert_created_order_def uuid7_draw_def Let_def)

lemma create_order_cases:
  obtains (invalid) e where "validate_order_request rq = Some e" "create_order cc rq d = (Inl e, d)"
  | (existing) r where "validate_order_request rq = None" "order_by_key d (or_idempotency_key rq) = Some r"
      "create_order cc rq d =
        ((if o_request_hash r = creation_hash (or_request_payload rq) then Inr r
          else Inl (OrderCreationError ''IDEMPOTENCY_CONFLICT'' 409)), d)"
  | (raced) r where "validate_order_request rq = None" "order_by_key d (or_idempotency_key rq) = None"
      "order_by_key (cc_env cc d) (or_idempotency_key rq) = Some r"
      "create_order cc rq d =
        ((if o_request_hash r = creation_hash (or_request_payload rq) then Inr r
          else Inl (OrderCreationError ''IDEMPOTENCY_CONFLICT'' 409)), cc_env cc d)"
  | (refused) "order_by_key d (or_idempotency_key rq) = None"
      "create_order cc rq d = (Inl (OrderCreationError ''IDEMPOTENCY_CONFLICT'' 409), cc_env cc d)"
  | (created) "validate_order_request rq = None" "order_by_key d (or_idempotency_key rq) = None"
      "order_by_key (cc_env cc d) (or_idempotency_key rq) = None"
      "trading_order_ck (fst (insert_created_order cc rq (cc_env cc d)))"
      "create_order cc rq d =
        (Inr (fst (insert_created_order cc rq (cc_env cc d))), snd (insert_created_order cc rq (cc_env cc d)))"
  by (cases "validate_order_request rq"; cases "order_by_key d (or_idempotency_key rq)";
      cases "order_by_key (cc_env cc d) (or_idempotency_key rq)";
      cases "trading_order_ck (fst (insert_created_order cc rq (cc_env cc d)))")
    (auto simp: create_order_def Let_def case_prod_beta)

lemma orders_wf_snoc:
  assumes wf: "orders_wf seed os" and ids: "seed \<le> o_id row" "o_id row < seed'"
    and key: "o_idempotency_key row \<notin> o_idempotency_key ` set os"
    and row: "order_row_ok row" "o_parent_order_id row = None"
  shows "orders_wf seed' (os @ [row])"
proof -
  have "o_id row \<notin> o_id ` set os" using wf ids(1) by (auto simp: orders_wf_def)
  with assms show ?thesis by (fastforce simp: orders_wf_def)
qed

lemma create_order_inv:
  assumes "orders_inv d" "orders_inv (cc_env cc d)"
  shows "orders_inv (snd (create_order cc rq d))"
proof (cases rule: create_order_cases [of rq cc d])
  case created
  let ?e = "cc_env cc d"
  let ?row = "fst (insert_created_order cc rq ?e)"
  have "order_row_ok ?row"
    using created(4) by (simp add: order_row_ok_def status_ok_def insert_created_order_tables)
  moreover have "o_idempotency_key ?row \<notin> o_idempotency_key ` set (orders ?e)"
    using created(3) by (simp add: order_by_key_def row_find_None_iff insert_created_order_tables)
  ultimately have "orders_wf (uuid_seed (snd (insert_created_order cc rq ?e))) (orders ?e @ [?row])"
    using assms(2) by (intro orders_wf_snoc [of "uuid_seed ?e"])
      (simp_all add: orders_inv_def insert_created_order_tables)
  with created(5) show ?thesis
    by (simp add: orders_inv_def insert_created_order_tables(2))
qed (use assms in auto)

interpretation creation: idempotent_create create_order
  "\<lambda>rq d. order_by_key d (or_idempotency_key rq)"
  "\<lambda>rq r. o_request_hash r = creation_hash (or_request_payload rq)"
  "\<lambda>rq. validate_order_request rq = None" "\<lambda>_ _. True"
proof unfold_locales
  fix cc rq d r d'
  assume val: "validate_order_request rq = None" and res: "create_order cc rq d = (Inr r, d')"
  show "order_by_key d' (or_idempotency_key rq) = Some r \<and>
      o_request_hash r = creation_hash (or_request_payload rq)"
  proof (cases rule: create_order_cases [of rq cc d])
    case created
    then have "orders d' = orders (cc_env cc d) @ [r]"
      using res insert_created_order_tables(2) by auto
    moreover have "o_idempotency_key r = or_idempotency_key rq"
      "o_request_hash r = creation_hash (or_request_payload rq)"
      using created(5) res by (auto simp: insert_created_order_tables)
    ultimately show ?thesis using created(3) by (simp add: order_by_key_def row_find_append)
  qed (use res val in \<open>auto split: if_splits\<close>)
qed (auto simp: create_order_def)

section \<open>Properties\<close>

definition sample_request :: "string \<Rightarrow> order_request" where
  "sample_request key =
     \<lparr>or_symbol = ''005930'', or_market = ''KRX'', or_side = ''BUY'', or_action = ''BUY'',
      or_order_type = ''LIMIT'', or_limit_price = Some 70000, or_quantity = 3,
      or_idempotency_key = key, or_request_payload = JInt 7, or_correlation_id = ''corr''\<rparr>"

definition sample_context :: "instant \<Rightarrow> creation_context" where
  "sample_context now = \<lparr>cc_env = \<lambda>d. d, cc_user = ''u'', cc_audit_action = ''TEST'',
     cc_request_ip = None, cc_user_agent = None, cc_now = now\<rparr>"

lemma sample_request_valid: "validate_order_request (sample_request key) = None"
  by (simp add: validate_order_request_def sample_request_def)

text \<open>A valid request under a key that is not taken, with no interference, creates its order.\<close>

lemma create_order_new:
  assumes "validate_order_request rq = None" "order_by_key (cc_env cc d) (or_idempotency_key rq) = None"
    "order_by_key d (or_idempotency_key rq) = None" "or_order_type rq \<in> {''LIMIT'', ''MARKET''}"
  shows "create_order cc rq d =
    (Inr (fst (insert_created_order cc rq (cc_env cc d))), snd (insert_created_order cc rq (cc_env cc d)))"
proof -
  have "trading_order_ck (fst (insert_created_order cc rq (cc_env cc d)))"
    using assms(1,4)
    by (auto simp: insert_created_order_tables trading_order_ck_def order_quantity_ck_def
        created_order_def unfilled_policy_def validate_order_request_def split: if_splits)
  with assms show ?thesis by (simp add: create_order_def Let_def case_prod_beta)
qed

lemma empty_db_order_by_key [simp]: "order_by_key empty_db k = None"
  by (simp add: order_by_key_def empty_db_def)

lemma sample_created:
  "create_order (sample_context now) (sample_request key) empty_db =
     (Inr (fst (insert_created_order (sample_context now) (sample_request key) empty_db)),
      snd (insert_created_order (sample_context now) (sample_request key) empty_db))"
proof -
  have env: "cc_env (sample_context now) = (\<lambda>d. d)" by (simp add: sample_context_def)
  have ty: "or_order_type (sample_request key) = ''LIMIT''" by (simp add: sample_request_def)
  show ?thesis
    using create_order_new [of "sample_request key" "sample_context now" empty_db]
    by (simp add: env ty sample_request_valid)
qed

lemma create_order_exactly_once_facts:
  assumes "create_order cc rq d = (Inr r, d')"
  shows "create_order cc' rq d' = (Inr r, d')"
    and "foldl (\<lambda>s x. snd (create_order x rq s)) d' ccs = d'"
    and "orders_inv d' \<Longrightarrow>
      filter (\<lambda>row. o_idempotency_key row = or_idempotency_key rq) (orders d') = [r]"
proof -
  have val: "validate_order_request rq = None"
    using assms by (auto simp: create_order_def split: option.splits)
  show "create_order cc' rq d' = (Inr r, d')"
    by (rule creation.replay [OF val _ assms]) simp
  show "foldl (\<lambda>s x. snd (create_order x rq s)) d' ccs = d'"
    by (rule creation.replay_many [OF val _ assms]) simp
  assume "orders_inv d'"
  then have "distinct (map o_idempotency_key (orders d'))" by (simp add: orders_inv_def orders_wf_def)
  moreover have "order_by_key d' (or_idempotency_key rq) = Some r"
    using creation.stored_after [OF val _ assms] by simp
  ultimately show "filter (\<lambda>row. o_idempotency_key row = or_idempotency_key rq) (orders d') = [r]"
    unfolding order_by_key_def by (rule row_find_filter)
qed

text \<open>C8. Order creation is exactly-once per idempotency key: after a successful call, repeating
  the request with any later clock, user agent or interfering transactions, any number of times,
  returns the same row and leaves the database as it is, and in a well formed order table that
  row is the only one under its key.\<close>
theorem create_order_exactly_once:
  assumes "create_order cc rq d = (Inr r, d')"
  shows "(create_order cc' rq d' = (Inr r, d')) \<and>
    (foldl (\<lambda>s x. snd (create_order x rq s)) d' ccs = d') \<and>
    (orders_inv d' \<longrightarrow> filter (\<lambda>row. o_idempotency_key row = or_idempotency_key rq) (orders d') = [r])"
  by (intro conjI impI; rule create_order_exactly_once_facts [OF assms]; assumption)

theorem create_order_exactly_once_witness:
  "\<exists>r d'. create_order (sample_context 5) (sample_request ''k'') empty_db = (Inr r, d') \<and>
     create_order (sample_context 9) (sample_request ''k'') d' = (Inr r, d') \<and>
     filter (\<lambda>row. o_idempotency_key row = ''k'') (orders d') = [r]"
proof -
  let ?ins = "insert_created_order (sample_context 5) (sample_request ''k'') empty_db"
  have key: "or_idempotency_key (sample_request ''k'') = ''k''" by (simp add: sample_request_def)
  have "orders_inv empty_db" "cc_env (sample_context 5) empty_db = empty_db"
    by (simp_all add: orders_inv_def orders_wf_def empty_db_def sample_context_def)
  then have "orders_inv (snd ?ins)"
    using create_order_inv [of empty_db "sample_context 5" "sample_request ''k''"]
    by (simp add: sample_created)
  then show ?thesis
    using sample_created [of 5 "''k''"] key
      create_order_exactly_once [OF sample_created [of 5 "''k''"]] by metis
qed

lemma create_order_effect_facts:
  assumes "orders_inv d" "orders_inv (cc_env cc d)" "create_order cc rq d = (res, d')"
  shows "orders_inv d'"
    and "d' = d \<or> d' = cc_env cc d \<or>
      (\<exists>row it. res = Inr row \<and> orders d' = orders (cc_env cc d) @ [row] \<and>
         order_intents d' = order_intents (cc_env cc d) @ [it] \<and> i_id it = o_intent_id row \<and>
         i_requested_quantity it = o_requested_quantity row \<and>
         trading_order_ck row \<and> o_status row = OS_CREATED \<and> o_environment row = ''MOCK'' \<and>
         o_account_alias row = kiwoom_account \<and> o_broker_order_id row = None \<and>
         o_requested_quantity row = or_quantity rq \<and> o_remaining_quantity row = or_quantity rq \<and>
         0 < or_quantity rq \<and> o_filled_quantity row = 0 \<and>
         o_fill_timeout_seconds row = (if or_side rq = ''BUY'' \<and> or_action rq = ''BUY'' then 10 else 0))"
proof -
  show "orders_inv d'" using create_order_inv [OF assms(1,2)] assms(3) by (metis snd_conv)
  show "d' = d \<or> d' = cc_env cc d \<or> (\<exists>row it. res = Inr row \<and> orders d' = orders (cc_env cc d) @ [row] \<and>
         order_intents d' = order_intents (cc_env cc d) @ [it] \<and> i_id it = o_intent_id row \<and>
         i_requested_quantity it = o_requested_quantity row \<and>
         trading_order_ck row \<and> o_status row = OS_CREATED \<and> o_environment row = ''MOCK'' \<and>
         o_account_alias row = kiwoom_account \<and> o_broker_order_id row = None \<and>
         o_requested_quantity row = or_quantity rq \<and> o_remaining_quantity row = or_quantity rq \<and>
         0 < or_quantity rq \<and> o_filled_quantity row = 0 \<and>
         o_fill_timeout_seconds row = (if or_side rq = ''BUY'' \<and> or_action rq = ''BUY'' then 10 else 0))"
  proof (cases rule: create_order_cases [of rq cc d])
    case created
    have "0 < or_quantity rq"
      using created(1) by (auto simp: validate_order_request_def split: if_splits)
    with created assms(3) show ?thesis
      by (auto simp: insert_created_order_tables created_intent_def unfilled_policy_def)
  qed (use assms(3) in auto)
qed

text \<open>What a call may do: it keeps the order table well formed (unique ids and keys, quantities
  conserved, schema constraints), and either writes nothing of its own or appends exactly one
  order, in CREATED, for the account and environment of the MOCK broker, with the requested
  quantity all remaining, no broker id, and its intent. A BUY entry carries the ten second
  cancel policy and every other order none.\<close>
theorem create_order_effect:
  assumes "orders_inv d" "orders_inv (cc_env cc d)" "create_order cc rq d = (res, d')"
  shows "(orders_inv d') \<and>
    (d' = d \<or> d' = cc_env cc d \<or>
      (\<exists>row it. res = Inr row \<and> orders d' = orders (cc_env cc d) @ [row] \<and>
         order_intents d' = order_intents (cc_env cc d) @ [it] \<and> i_id it = o_intent_id row \<and>
         i_requested_quantity it = o_requested_quantity row \<and>
         trading_order_ck row \<and> o_status row = OS_CREATED \<and> o_environment row = ''MOCK'' \<and>
         o_account_alias row = kiwoom_account \<and> o_broker_order_id row = None \<and>
         o_requested_quantity row = or_quantity rq \<and> o_remaining_quantity row = or_quantity rq \<and>
         0 < or_quantity rq \<and> o_filled_quantity row = 0 \<and>
         o_fill_timeout_seconds row = (if or_side rq = ''BUY'' \<and> or_action rq = ''BUY'' then 10 else 0)))"
  by (intro conjI impI; rule create_order_effect_facts [OF assms]; assumption)

theorem create_order_effect_witness:
  "orders_inv (snd (create_order (sample_context 5) (sample_request ''k'') empty_db))"
  using create_order_effect [of empty_db "sample_context 5" "sample_request ''k''"
      "fst (create_order (sample_context 5) (sample_request ''k'') empty_db)"
      "snd (create_order (sample_context 5) (sample_request ''k'') empty_db)"]
  by (simp add: orders_inv_def orders_wf_def empty_db_def sample_context_def)

end
