(* ===== verification/Emergency_Stop.thy ===== *)
theory Emergency_Stop
  imports Order_Creation
begin

text \<open>
  The entry pause of \<open>app/emergency_stop.py\<close>: one row per account, activated and
  released under idempotency keys. The module is a two state machine; \<open>stop_reachable\<close>
  are the databases any sequence of calls can produce from one without a stop row.
\<close>

section \<open>Operations\<close>

datatype emergency_stop_error = EmergencyStopError string int

record stop_call =
  sr_user :: uuid
  sr_reason :: string
  sr_key :: string
  sr_correlation_id :: string
  sr_request_ip :: string
  sr_user_agent :: string
  sr_now :: instant

definition current_emergency_stop :: "db \<Rightarrow> string \<Rightarrow> emergency_stop option" where
  "current_emergency_stop d alias = row_find es_account_alias alias (emergency_stops d)"

definition active_pause_entry :: "db \<Rightarrow> string \<Rightarrow> emergency_stop option" where
  "active_pause_entry d alias =
     find (\<lambda>r. es_account_alias r = alias \<and> es_state r = ES_ACTIVE \<and> es_level r = ''PAUSE_ENTRY'')
       (emergency_stops d)"

definition stop_text :: "string \<Rightarrow> nat \<Rightarrow> nat \<Rightarrow> string \<Rightarrow> emergency_stop_error + string" where
  "stop_text v lo hi code =
     (let n = str_strip v
      in if \<not> (lo \<le> length n \<and> length n \<le> hi) then Inl (EmergencyStopError code 422) else Inr n)"

definition stop_call_texts :: "stop_call \<Rightarrow> emergency_stop_error + string \<times> string" where
  "stop_call_texts rq =
     (case stop_text (sr_reason rq) 5 500 ''EMERGENCY_STOP_REASON_INVALID'' of
        Inl e \<Rightarrow> Inl e
      | Inr reason \<Rightarrow>
          (case stop_text (sr_key rq) 16 128 ''IDEMPOTENCY_KEY_INVALID'' of
             Inl e \<Rightarrow> Inl e
           | Inr key \<Rightarrow> Inr (reason, key)))"

definition stop_audit :: "string \<Rightarrow> stop_call \<Rightarrow> uuid \<Rightarrow> json \<Rightarrow> audit_log" where
  "stop_audit action rq target meta =
     \<lparr>al_actor_type = ''USER'', al_actor_id = Some (uuid_text (sr_user rq)), al_action = action,
      al_target = Some target, al_result = ''SUCCESS'', al_request_ip = Some (sr_request_ip rq),
      al_user_agent = Some (sr_user_agent rq), al_correlation_id = sr_correlation_id rq,
      al_metadata_json = meta\<rparr>"

definition new_stop :: "stop_call \<Rightarrow> string \<Rightarrow> string \<Rightarrow> uuid \<Rightarrow> emergency_stop" where
  "new_stop rq reason key i =
     \<lparr>es_id = i, es_account_alias = kiwoom_account, es_level = ''PAUSE_ENTRY'', es_state = ES_ACTIVE,
      es_reason = reason, es_activation_key = key, es_release_key = None,
      es_activated_by = sr_user rq, es_released_by = None, es_activated_at = sr_now rq,
      es_released_at = None, es_version = 1\<rparr>"

definition reactivated_stop :: "stop_call \<Rightarrow> string \<Rightarrow> string \<Rightarrow> emergency_stop \<Rightarrow> emergency_stop" where
  "reactivated_stop rq reason key r =
     r\<lparr>es_state := ES_ACTIVE, es_reason := reason, es_activation_key := key, es_release_key := None,
       es_activated_by := sr_user rq, es_activated_at := sr_now rq, es_released_by := None,
       es_released_at := None, es_version := es_version r + 1\<rparr>"

definition released_stop :: "stop_call \<Rightarrow> string \<Rightarrow> string \<Rightarrow> emergency_stop \<Rightarrow> emergency_stop" where
  "released_stop rq reason key r =
     r\<lparr>es_state := ES_RELEASED, es_reason := reason, es_release_key := Some key,
       es_released_by := Some (sr_user rq), es_released_at := Some (sr_now rq),
       es_version := es_version r + 1\<rparr>"

definition activation_audit :: "stop_call \<Rightarrow> uuid \<Rightarrow> audit_log" where
  "activation_audit rq i = stop_audit ''PAUSE_ENTRY_ACTIVATED'' rq i
     (JObj [(''account_alias'', JStr kiwoom_account), (''level'', JStr ''PAUSE_ENTRY'')])"

definition activate_pause_entry ::
  "stop_call \<Rightarrow> db \<Rightarrow> (emergency_stop_error + emergency_stop) \<times> db" where
  "activate_pause_entry rq d =
     (case stop_call_texts rq of
        Inl e \<Rightarrow> (Inl e, d)
      | Inr (reason, key) \<Rightarrow>
          (case current_emergency_stop d kiwoom_account of
             None \<Rightarrow>
               (let (i, d1) = uuid7_draw d; row = new_stop rq reason key i
                in (Inr row, d1\<lparr>emergency_stops := emergency_stops d1 @ [row],
                               audit_logs := audit_logs d1 @ [activation_audit rq i]\<rparr>))
           | Some current \<Rightarrow>
               if es_state current = ES_ACTIVE then
                 if es_activation_key current = key then (Inr current, d)
                 else (Inl (EmergencyStopError ''EMERGENCY_STOP_ALREADY_ACTIVE'' 409), d)
               else
                 (let row = reactivated_stop rq reason key current
                  in (Inr row, d\<lparr>emergency_stops :=
                                   row_upd es_account_alias kiwoom_account (\<lambda>_. row) (emergency_stops d),
                                 audit_logs := audit_logs d @ [activation_audit rq (es_id current)]\<rparr>))))"

definition release_pause_entry ::
  "stop_call \<Rightarrow> db \<Rightarrow> (emergency_stop_error + emergency_stop) \<times> db" where
  "release_pause_entry rq d =
     (case stop_call_texts rq of
        Inl e \<Rightarrow> (Inl e, d)
      | Inr (reason, key) \<Rightarrow>
          (case current_emergency_stop d kiwoom_account of
             None \<Rightarrow> (Inl (EmergencyStopError ''EMERGENCY_STOP_NOT_ACTIVE'' 409), d)
           | Some current \<Rightarrow>
               if es_state current = ES_RELEASED then
                 if es_release_key current = Some key then (Inr current, d)
                 else (Inl (EmergencyStopError ''EMERGENCY_STOP_NOT_ACTIVE'' 409), d)
               else
                 (let row = released_stop rq reason key current
                  in (Inr row, d\<lparr>emergency_stops :=
                                   row_upd es_account_alias kiwoom_account (\<lambda>_. row) (emergency_stops d),
                                 audit_logs := audit_logs d @
                                   [stop_audit ''PAUSE_ENTRY_RELEASED'' rq (es_id current)
                                     (JObj [(''account_alias'', JStr kiwoom_account),
                                            (''reason'', JStr reason)])]\<rparr>))))"

section \<open>The state machine\<close>

inductive stop_reachable :: "db \<Rightarrow> bool" where
  start: "emergency_stops d = [] \<Longrightarrow> stop_reachable d"
| activate: "stop_reachable d \<Longrightarrow> stop_reachable (snd (activate_pause_entry rq d))"
| release: "stop_reachable d \<Longrightarrow> stop_reachable (snd (release_pause_entry rq d))"
| other: "stop_reachable d \<Longrightarrow> emergency_stops d' = emergency_stops d \<Longrightarrow> stop_reachable d'"

text \<open>The row of the account: odd versions are active, even ones released, and the release columns
  are filled exactly in the released state.\<close>

definition stop_row_ok :: "emergency_stop \<Rightarrow> bool" where
  "stop_row_ok r \<longleftrightarrow>
     es_account_alias r = kiwoom_account \<and> es_level r = ''PAUSE_ENTRY'' \<and> 1 \<le> es_version r \<and>
     (odd (es_version r) \<longleftrightarrow> es_state r = ES_ACTIVE) \<and>
     (es_state r = ES_ACTIVE \<longleftrightarrow> es_release_key r = None) \<and>
     (es_released_by r = None \<longleftrightarrow> es_release_key r = None) \<and>
     (es_released_at r = None \<longleftrightarrow> es_release_key r = None) \<and>
     16 \<le> length (es_activation_key r) \<and> 5 \<le> length (es_reason r)"

definition stop_inv :: "db \<Rightarrow> bool" where
  "stop_inv d \<longleftrightarrow> emergency_stops d = [] \<or> (\<exists>r. emergency_stops d = [r] \<and> stop_row_ok r)"

lemma stop_call_texts_Inr:
  "stop_call_texts rq = Inr (reason, key) \<Longrightarrow>
   reason = str_strip (sr_reason rq) \<and> key = str_strip (sr_key rq) \<and>
   5 \<le> length reason \<and> 16 \<le> length key"
  by (auto simp: stop_call_texts_def stop_text_def Let_def split: sum.splits if_splits)

lemma stop_state_cases: "es_state r = ES_RELEASED \<longleftrightarrow> es_state r \<noteq> ES_ACTIVE"
  by (cases "es_state r") auto

lemma new_stop_ok: "16 \<le> length key \<Longrightarrow> 5 \<le> length reason \<Longrightarrow> stop_row_ok (new_stop rq reason key i)"
  by (simp add: stop_row_ok_def new_stop_def)

lemma reactivated_stop_ok:
  "stop_row_ok r \<Longrightarrow> es_state r \<noteq> ES_ACTIVE \<Longrightarrow> 16 \<le> length key \<Longrightarrow> 5 \<le> length reason \<Longrightarrow>
   stop_row_ok (reactivated_stop rq reason key r)"
  by (simp add: stop_row_ok_def reactivated_stop_def)

lemma released_stop_ok:
  "stop_row_ok r \<Longrightarrow> es_state r = ES_ACTIVE \<Longrightarrow> 5 \<le> length reason \<Longrightarrow>
   stop_row_ok (released_stop rq reason key r)"
  by (simp add: stop_row_ok_def released_stop_def)

lemma stop_inv_cases:
  assumes "stop_inv d"
  obtains (none) "emergency_stops d = []" "current_emergency_stop d kiwoom_account = None"
  | (row) r where "emergency_stops d = [r]" "stop_row_ok r"
      "current_emergency_stop d kiwoom_account = Some r"
      "\<And>r'. row_upd es_account_alias kiwoom_account (\<lambda>_. r') (emergency_stops d) = [r']"
  using assms that
  by (auto simp: stop_inv_def stop_row_ok_def current_emergency_stop_def row_upd_def)

lemma stop_inv_row: "emergency_stops d = [r] \<Longrightarrow> stop_row_ok r \<Longrightarrow> stop_inv d"
  by (auto simp: stop_inv_def)

lemma activate_effect:
  assumes inv: "stop_inv d" and ok: "stop_call_texts rq = Inr (reason, key)"
  obtains (replay) r where "emergency_stops d = [r]" "es_state r = ES_ACTIVE" "es_activation_key r = key"
      "activate_pause_entry rq d = (Inr r, d)"
  | (refused) r where "emergency_stops d = [r]" "es_state r = ES_ACTIVE" "es_activation_key r \<noteq> key"
      "activate_pause_entry rq d = (Inl (EmergencyStopError ''EMERGENCY_STOP_ALREADY_ACTIVE'' 409), d)"
  | (change) r d' where "activate_pause_entry rq d = (Inr r, d')" "emergency_stops d' = [r]"
      "es_state r = ES_ACTIVE" "es_activation_key r = key" "stop_row_ok r"
      "\<forall>r0 \<in> set (emergency_stops d). es_version r = es_version r0 + 1"
  using inv
proof (cases rule: stop_inv_cases)
  case none
  with ok stop_call_texts_Inr [OF ok] that(3) show thesis
    by (auto simp: activate_pause_entry_def uuid7_draw_def Let_def new_stop_ok)
      (simp add: new_stop_def)
next
  case (row r)
  show thesis
  proof (cases "es_state r = ES_ACTIVE")
    case True
    with row ok that(1,2) show thesis by (auto simp: activate_pause_entry_def)
  next
    case False
    have "stop_row_ok (reactivated_stop rq reason key r)"
      using row(2) False stop_call_texts_Inr [OF ok] by (intro reactivated_stop_ok) auto
    with False row ok that(3) show thesis
      by (auto simp: activate_pause_entry_def Let_def) (simp add: reactivated_stop_def)
  qed
qed

lemma release_effect:
  assumes inv: "stop_inv d" and ok: "stop_call_texts rq = Inr (reason, key)"
  obtains (replay) r where "emergency_stops d = [r]" "es_state r = ES_RELEASED" "es_release_key r = Some key"
      "release_pause_entry rq d = (Inr r, d)"
  | (refused) "\<forall>r \<in> set (emergency_stops d). es_state r = ES_RELEASED \<and> es_release_key r \<noteq> Some key"
      "release_pause_entry rq d = (Inl (EmergencyStopError ''EMERGENCY_STOP_NOT_ACTIVE'' 409), d)"
  | (change) r0 r d' where "emergency_stops d = [r0]" "es_state r0 = ES_ACTIVE"
      "release_pause_entry rq d = (Inr r, d')" "emergency_stops d' = [r]"
      "es_state r = ES_RELEASED" "es_release_key r = Some key" "stop_row_ok r"
      "es_version r = es_version r0 + 1"
  using inv
proof (cases rule: stop_inv_cases)
  case none
  with ok that(2) show thesis by (simp add: release_pause_entry_def)
next
  case (row r)
  show thesis
  proof (cases "es_state r = ES_RELEASED")
    case True
    with row ok that(1,2) show thesis by (cases "es_release_key r = Some key") (auto simp: release_pause_entry_def)
  next
    case False
    then have act: "es_state r = ES_ACTIVE" by (simp add: stop_state_cases)
    have "stop_row_ok (released_stop rq reason key r)"
      using row(2) act stop_call_texts_Inr [OF ok] by (intro released_stop_ok) auto
    with False act row ok that(3) [of r] show thesis
      by (auto simp: release_pause_entry_def Let_def) (simp add: released_stop_def)
  qed
qed

lemma activate_inv: "stop_inv d \<Longrightarrow> stop_inv (snd (activate_pause_entry rq d))"
proof (cases "stop_call_texts rq")
  case (Inr p)
  assume inv: "stop_inv d"
  obtain reason key where "stop_call_texts rq = Inr (reason, key)" using Inr by (cases p) auto
  with inv show ?thesis by (cases rule: activate_effect) (use inv in \<open>auto intro: stop_inv_row\<close>)
qed (simp add: activate_pause_entry_def)

lemma release_inv: "stop_inv d \<Longrightarrow> stop_inv (snd (release_pause_entry rq d))"
proof (cases "stop_call_texts rq")
  case (Inr p)
  assume inv: "stop_inv d"
  obtain reason key where "stop_call_texts rq = Inr (reason, key)" using Inr by (cases p) auto
  with inv show ?thesis by (cases rule: release_effect) (use inv in \<open>auto intro: stop_inv_row\<close>)
qed (simp add: release_pause_entry_def)

lemma stop_reachable_inv: "stop_reachable d \<Longrightarrow> stop_inv d"
proof (induction rule: stop_reachable.induct)
  case (other d d')
  then show ?case by (simp add: stop_inv_def)
qed (simp_all add: activate_inv release_inv stop_inv_def [of d for d, THEN iffD2])

lemma active_pause_entry_row:
  "stop_row_ok r \<Longrightarrow> emergency_stops d = [r] \<Longrightarrow>
   active_pause_entry d kiwoom_account = (if es_state r = ES_ACTIVE then Some r else None)"
  by (simp add: active_pause_entry_def stop_row_ok_def)

section \<open>Properties\<close>

definition demo_stop_call :: "string \<Rightarrow> stop_call" where
  "demo_stop_call key = \<lparr>sr_user = 7, sr_reason = ''operator request'', sr_key = key,
     sr_correlation_id = ''c'', sr_request_ip = ''ip'', sr_user_agent = ''ua'', sr_now = 0\<rparr>"

lemma demo_stop_texts:
  "stop_call_texts (demo_stop_call ''0123456789abcdef'') = Inr (''operator request'', ''0123456789abcdef'')"
  "stop_call_texts (demo_stop_call ''fedcba9876543210'') = Inr (''operator request'', ''fedcba9876543210'')"
  by code_simp+

lemma emergency_stop_machine_facts:
  assumes "stop_reachable d"
  shows "length (emergency_stops d) \<le> 1"
    and "\<forall>r \<in> set (emergency_stops d). stop_row_ok r"
    and "active_pause_entry d kiwoom_account =
      (case emergency_stops d of r # _ \<Rightarrow> if odd (es_version r) then Some r else None | [] \<Rightarrow> None)"
  using stop_reachable_inv [OF assms]
  by (auto simp: stop_inv_def active_pause_entry_def stop_row_ok_def)



lemma emergency_stop_round_trip_facts:
  assumes reach: "stop_reachable d" and act: "activate_pause_entry rq d = (Inr r, d')"
    and rel: "stop_call_texts rel = Inr (reason, key)"
  shows "active_pause_entry d' kiwoom_account = Some r"
    and "activate_pause_entry rq d' = (Inr r, d')"
    and "stop_call_texts rq' = Inr (reason', key') \<Longrightarrow> key' \<noteq> str_strip (sr_key rq) \<Longrightarrow>
      activate_pause_entry rq' d' = (Inl (EmergencyStopError ''EMERGENCY_STOP_ALREADY_ACTIVE'' 409), d')"
    and "\<exists>r'' d''. release_pause_entry rel d' = (Inr r'', d'') \<and> es_version r'' = es_version r + 1 \<and>
      active_pause_entry d'' kiwoom_account = None \<and> release_pause_entry rel d'' = (Inr r'', d'')"
proof -
  have inv: "stop_inv d" using reach by (rule stop_reachable_inv)
  obtain rs k where ok: "stop_call_texts rq = Inr (rs, k)"
    using act by (auto simp: activate_pause_entry_def split: sum.splits)
  have k: "k = str_strip (sr_key rq)" using stop_call_texts_Inr [OF ok] by simp
  have inv': "stop_inv d'" using activate_inv [OF inv, of rq] act by simp
  have st: "emergency_stops d' = [r] \<and> es_state r = ES_ACTIVE \<and> es_activation_key r = k"
    using inv ok by (cases rule: activate_effect) (use act in auto)
  then have row: "stop_row_ok r" using inv' by (auto simp: stop_inv_def)
  show "active_pause_entry d' kiwoom_account = Some r" using st row by (simp add: active_pause_entry_row)
  show "activate_pause_entry rq d' = (Inr r, d')"
    using row st ok
    by (simp add: activate_pause_entry_def current_emergency_stop_def stop_row_ok_def)
  show "activate_pause_entry rq' d' = (Inl (EmergencyStopError ''EMERGENCY_STOP_ALREADY_ACTIVE'' 409), d')"
    if ok': "stop_call_texts rq' = Inr (reason', key')" and ne: "key' \<noteq> str_strip (sr_key rq)"
    using row st ok' ne k
    by (simp add: activate_pause_entry_def current_emergency_stop_def stop_row_ok_def)
  from inv' rel show "\<exists>r'' d''. release_pause_entry rel d' = (Inr r'', d'') \<and>
      es_version r'' = es_version r + 1 \<and> active_pause_entry d'' kiwoom_account = None \<and>
      release_pause_entry rel d'' = (Inr r'', d'')"
  proof (cases rule: release_effect)
    case (change r0 r1 d1)
    moreover have "release_pause_entry rel d1 = (Inr r1, d1)"
      using change rel by (simp add: release_pause_entry_def current_emergency_stop_def stop_row_ok_def)
    ultimately show ?thesis using st by (auto simp: active_pause_entry_row)
  qed (use st in auto)
qed

text \<open>An accepted activation pauses entries at once, and stays in force: repeating the call with
  the same key returns the row and writes nothing, a call with another key is refused and writes
  nothing, and only a release ends the pause; after that release, repeating the release with its
  key is again a no-op.\<close>
theorem emergency_stop_round_trip:
  assumes reach: "stop_reachable d" and act: "activate_pause_entry rq d = (Inr r, d')"
    and rel: "stop_call_texts rel = Inr (reason, key)"
  shows "(active_pause_entry d' kiwoom_account = Some r) \<and>
    (activate_pause_entry rq d' = (Inr r, d')) \<and>
    (stop_call_texts rq' = Inr (reason', key') \<longrightarrow> key' \<noteq> str_strip (sr_key rq) \<longrightarrow> activate_pause_entry rq' d' = (Inl (EmergencyStopError ''EMERGENCY_STOP_ALREADY_ACTIVE'' 409), d')) \<and>
    (\<exists>r'' d''. release_pause_entry rel d' = (Inr r'', d'') \<and> es_version r'' = es_version r + 1 \<and>
      active_pause_entry d'' kiwoom_account = None \<and> release_pause_entry rel d'' = (Inr r'', d''))"
  by (intro conjI impI; rule emergency_stop_round_trip_facts [OF assms]; assumption)

theorem emergency_stop_round_trip_witness:
  "\<exists>r d'. activate_pause_entry (demo_stop_call ''0123456789abcdef'') empty_db = (Inr r, d') \<and>
     active_pause_entry d' kiwoom_account = Some r \<and>
     fst (activate_pause_entry (demo_stop_call ''fedcba9876543210'') d') =
       Inl (EmergencyStopError ''EMERGENCY_STOP_ALREADY_ACTIVE'' 409)"
proof -
  let ?rq = "demo_stop_call ''0123456789abcdef''" and ?rq' = "demo_stop_call ''fedcba9876543210''"
  have reach: "stop_reachable empty_db" by (rule stop_reachable.start) (simp add: empty_db_def)
  obtain r d' where act: "activate_pause_entry ?rq empty_db = (Inr r, d')"
    by (simp add: activate_pause_entry_def demo_stop_texts(1) current_emergency_stop_def
        empty_db_def uuid7_draw_def Let_def)
  have ne: "''fedcba9876543210'' \<noteq> str_strip (sr_key ?rq)"
    using stop_call_texts_Inr [OF demo_stop_texts(1)] by simp
  show ?thesis
    using act emergency_stop_round_trip [OF reach act demo_stop_texts(2), of ?rq' _ "''fedcba9876543210''"]
      demo_stop_texts(2) ne by (metis fst_conv)
qed

end
