(* ===== verification/Policy_Config.thy ===== *)
theory Policy_Config
  imports Cresta_Schema "HOL-Library.Monad_Syntax"
begin

text \<open>
  Versioned user configuration: \<open>app/execution_policy.py\<close> and \<open>app/risk_policy.py\<close> over
  the table \<open>configuration_versions\<close>, with the payload models of \<open>app/schemas.py\<close>. The
  two modules are the same code for two categories; the operations are written once over the
  category and instantiated twice. \<open>payload_json\<close> holds the document that
  \<open>_canonical\<close> writes; the decoders accept those documents and re-run the model's field
  and order validation (the coercions pydantic would apply to documents no code writes are not
  modelled, such documents are refused).
\<close>

section \<open>Payloads\<close>

record execution_policy =
  xp_buy :: execution_mode
  xp_partial_sell :: execution_mode
  xp_full_sell :: execution_mode
  xp_take_profit :: execution_mode
  xp_fixed_stop_loss :: execution_mode
  xp_trailing_stop :: execution_mode
  xp_end_of_day_liquidation :: execution_mode
  xp_emergency_exit :: execution_mode

primrec execution_mode_text :: "execution_mode \<Rightarrow> string" where
  "execution_mode_text AUTOMATIC = ''AUTOMATIC''"
| "execution_mode_text MANUAL_APPROVAL = ''MANUAL_APPROVAL''"
| "execution_mode_text DISABLED = ''DISABLED''"

definition json_mode :: "json \<Rightarrow> execution_mode option" where
  "json_mode j =
     (if j = JStr ''AUTOMATIC'' then Some AUTOMATIC
      else if j = JStr ''MANUAL_APPROVAL'' then Some MANUAL_APPROVAL
      else if j = JStr ''DISABLED'' then Some DISABLED else None)"

definition json_int :: "json \<Rightarrow> int option" where
  "json_int j = (case j of JInt n \<Rightarrow> Some n | _ \<Rightarrow> None)"

definition json_int_opt :: "json \<Rightarrow> int option option" where
  "json_int_opt j = (case j of JInt n \<Rightarrow> Some (Some n) | JNull \<Rightarrow> Some None | _ \<Rightarrow> None)"

definition json_dec :: "json \<Rightarrow> decimal option" where
  "json_dec j = (case j of JDec x \<Rightarrow> Some x | _ \<Rightarrow> None)"

definition json_str :: "json \<Rightarrow> string option" where
  "json_str j = (case j of JStr s \<Rightarrow> Some s | _ \<Rightarrow> None)"

definition safe_default_execution_policy :: execution_policy where
  "safe_default_execution_policy =
     \<lparr>xp_buy = MANUAL_APPROVAL, xp_partial_sell = MANUAL_APPROVAL, xp_full_sell = MANUAL_APPROVAL,
      xp_take_profit = MANUAL_APPROVAL, xp_fixed_stop_loss = AUTOMATIC, xp_trailing_stop = AUTOMATIC,
      xp_end_of_day_liquidation = AUTOMATIC, xp_emergency_exit = AUTOMATIC\<rparr>"

definition execution_policy_json :: "execution_policy \<Rightarrow> json" where
  "execution_policy_json p =
     (let f = \<lambda>m. JStr (execution_mode_text m)
      in JObj [(''buy'', f (xp_buy p)), (''emergency_exit'', f (xp_emergency_exit p)),
        (''end_of_day_liquidation'', f (xp_end_of_day_liquidation p)),
        (''fixed_stop_loss'', f (xp_fixed_stop_loss p)), (''full_sell'', f (xp_full_sell p)),
        (''partial_sell'', f (xp_partial_sell p)), (''take_profit'', f (xp_take_profit p)),
        (''trailing_stop'', f (xp_trailing_stop p))])"

definition execution_policy_keys :: "string list" where
  "execution_policy_keys =
     [''buy'', ''partial_sell'', ''full_sell'', ''take_profit'', ''fixed_stop_loss'', ''trailing_stop'',
      ''end_of_day_liquidation'', ''emergency_exit'']"

definition json_fields :: "string list \<Rightarrow> json \<Rightarrow> (string \<rightharpoonup> json) option" where
  "json_fields allowed j =
     (case j of
        JObj kvs \<Rightarrow> if list_all (\<lambda>(k, _). k \<in> set allowed) kvs then Some (map_of kvs) else None
      | _ \<Rightarrow> None)"

definition execution_policy_of_json :: "json \<Rightarrow> execution_policy option" where
  "execution_policy_of_json j =
     do { m \<leftarrow> json_fields execution_policy_keys j;
          buy \<leftarrow> m ''buy'' \<bind> json_mode;
          partial \<leftarrow> m ''partial_sell'' \<bind> json_mode;
          full \<leftarrow> m ''full_sell'' \<bind> json_mode;
          profit \<leftarrow> m ''take_profit'' \<bind> json_mode;
          stop \<leftarrow> m ''fixed_stop_loss'' \<bind> json_mode;
          trail \<leftarrow> m ''trailing_stop'' \<bind> json_mode;
          eod \<leftarrow> m ''end_of_day_liquidation'' \<bind> json_mode;
          emergency \<leftarrow> m ''emergency_exit'' \<bind> json_mode;
          Some \<lparr>xp_buy = buy, xp_partial_sell = partial, xp_full_sell = full, xp_take_profit = profit,
            xp_fixed_stop_loss = stop, xp_trailing_stop = trail, xp_end_of_day_liquidation = eod,
            xp_emergency_exit = emergency\<rparr> }"

record risk_policy =
  rp_entry_order_amount :: "int option"
  rp_max_single_order_amount :: int
  rp_max_position_amount_per_symbol :: int
  rp_max_total_position_amount :: int
  rp_max_open_positions :: int
  rp_max_daily_entries :: int
  rp_fixed_stop_loss_pct :: decimal
  rp_quote_stale_seconds :: int
  rp_max_spread_pct :: decimal
  rp_max_price_deviation_pct :: decimal
  rp_daily_loss_limit_pct :: decimal
  rp_daily_loss_basis :: string
  rp_max_consecutive_losses :: int

definition safe_default_risk_policy :: risk_policy where
  "safe_default_risk_policy =
     \<lparr>rp_entry_order_amount = None, rp_max_single_order_amount = 1000000,
      rp_max_position_amount_per_symbol = 1000000, rp_max_total_position_amount = 3000000,
      rp_max_open_positions = 3, rp_max_daily_entries = 5, rp_fixed_stop_loss_pct = - 2,
      rp_quote_stale_seconds = 2, rp_max_spread_pct = 3 / 10, rp_max_price_deviation_pct = 1 / 2,
      rp_daily_loss_limit_pct = 5, rp_daily_loss_basis = ''REALIZED_PLUS_UNREALIZED'',
      rp_max_consecutive_losses = 3\<rparr>"

definition risk_policy_valid :: "risk_policy \<Rightarrow> bool" where
  "risk_policy_valid p \<longleftrightarrow>
     (case rp_entry_order_amount p of
        None \<Rightarrow> True
      | Some a \<Rightarrow> 10000 \<le> a \<and> a \<le> 100000000 \<and> a \<le> rp_max_single_order_amount p) \<and>
     10000 \<le> rp_max_single_order_amount p \<and> rp_max_single_order_amount p \<le> 100000000 \<and>
     10000 \<le> rp_max_position_amount_per_symbol p \<and> rp_max_position_amount_per_symbol p \<le> 100000000 \<and>
     10000 \<le> rp_max_total_position_amount p \<and> rp_max_total_position_amount p \<le> 100000000 \<and>
     1 \<le> rp_max_open_positions p \<and> rp_max_open_positions p \<le> 3 \<and>
     1 \<le> rp_max_daily_entries p \<and> rp_max_daily_entries p \<le> 20 \<and>
     - 20 \<le> rp_fixed_stop_loss_pct p \<and> rp_fixed_stop_loss_pct p \<le> - 1 / 10 \<and>
     1 \<le> rp_quote_stale_seconds p \<and> rp_quote_stale_seconds p \<le> 30 \<and>
     1 / 100 \<le> rp_max_spread_pct p \<and> rp_max_spread_pct p \<le> 5 \<and>
     1 / 100 \<le> rp_max_price_deviation_pct p \<and> rp_max_price_deviation_pct p \<le> 5 \<and>
     1 / 10 \<le> rp_daily_loss_limit_pct p \<and> rp_daily_loss_limit_pct p \<le> 20 \<and>
     rp_daily_loss_basis p \<in> {''REALIZED_ONLY'', ''REALIZED_PLUS_UNREALIZED''} \<and>
     1 \<le> rp_max_consecutive_losses p \<and> rp_max_consecutive_losses p \<le> 10 \<and>
     rp_max_single_order_amount p \<le> rp_max_position_amount_per_symbol p \<and>
     rp_max_position_amount_per_symbol p \<le> rp_max_total_position_amount p"

definition risk_policy_json :: "risk_policy \<Rightarrow> json" where
  "risk_policy_json p =
     JObj [(''daily_loss_basis'', JStr (rp_daily_loss_basis p)),
       (''daily_loss_limit_pct'', JDec (rp_daily_loss_limit_pct p)),
       (''entry_order_amount'', case rp_entry_order_amount p of None \<Rightarrow> JNull | Some a \<Rightarrow> JInt a),
       (''fixed_stop_loss_pct'', JDec (rp_fixed_stop_loss_pct p)),
       (''max_consecutive_losses'', JInt (rp_max_consecutive_losses p)),
       (''max_daily_entries'', JInt (rp_max_daily_entries p)),
       (''max_open_positions'', JInt (rp_max_open_positions p)),
       (''max_position_amount_per_symbol'', JInt (rp_max_position_amount_per_symbol p)),
       (''max_price_deviation_pct'', JDec (rp_max_price_deviation_pct p)),
       (''max_single_order_amount'', JInt (rp_max_single_order_amount p)),
       (''max_spread_pct'', JDec (rp_max_spread_pct p)),
       (''max_total_position_amount'', JInt (rp_max_total_position_amount p)),
       (''quote_stale_seconds'', JInt (rp_quote_stale_seconds p))]"

definition risk_policy_keys :: "string list" where
  "risk_policy_keys =
     [''entry_order_amount'', ''max_single_order_amount'', ''max_position_amount_per_symbol'',
      ''max_total_position_amount'', ''max_open_positions'', ''max_daily_entries'',
      ''fixed_stop_loss_pct'', ''quote_stale_seconds'', ''max_spread_pct'', ''max_price_deviation_pct'',
      ''daily_loss_limit_pct'', ''daily_loss_basis'', ''max_consecutive_losses'']"

text \<open>A field with a default may be absent.\<close>

definition field_or :: "'v \<Rightarrow> (json \<Rightarrow> 'v option) \<Rightarrow> (string \<rightharpoonup> json) \<Rightarrow> string \<Rightarrow> 'v option" where
  "field_or dflt dec m k = (case m k of None \<Rightarrow> Some dflt | Some j \<Rightarrow> dec j)"

definition risk_policy_of_json :: "json \<Rightarrow> risk_policy option" where
  "risk_policy_of_json j =
     do { m \<leftarrow> json_fields risk_policy_keys j;
          entry \<leftarrow> field_or None json_int_opt m ''entry_order_amount'';
          single \<leftarrow> m ''max_single_order_amount'' \<bind> json_int;
          per_symbol \<leftarrow> m ''max_position_amount_per_symbol'' \<bind> json_int;
          total \<leftarrow> m ''max_total_position_amount'' \<bind> json_int;
          open_positions \<leftarrow> m ''max_open_positions'' \<bind> json_int;
          entries \<leftarrow> m ''max_daily_entries'' \<bind> json_int;
          stop \<leftarrow> m ''fixed_stop_loss_pct'' \<bind> json_dec;
          stale \<leftarrow> m ''quote_stale_seconds'' \<bind> json_int;
          spread \<leftarrow> m ''max_spread_pct'' \<bind> json_dec;
          deviation \<leftarrow> m ''max_price_deviation_pct'' \<bind> json_dec;
          loss \<leftarrow> field_or 5 json_dec m ''daily_loss_limit_pct'';
          basis \<leftarrow> field_or ''REALIZED_PLUS_UNREALIZED'' json_str m ''daily_loss_basis'';
          consecutive \<leftarrow> field_or 3 json_int m ''max_consecutive_losses'';
          let p = \<lparr>rp_entry_order_amount = entry, rp_max_single_order_amount = single,
            rp_max_position_amount_per_symbol = per_symbol, rp_max_total_position_amount = total,
            rp_max_open_positions = open_positions, rp_max_daily_entries = entries,
            rp_fixed_stop_loss_pct = stop, rp_quote_stale_seconds = stale, rp_max_spread_pct = spread,
            rp_max_price_deviation_pct = deviation, rp_daily_loss_limit_pct = loss,
            rp_daily_loss_basis = basis, rp_max_consecutive_losses = consecutive\<rparr>;
          if risk_policy_valid p then Some p else None }"

lemma json_mode_text [simp]: "json_mode (JStr (execution_mode_text m)) = Some m"
  by (cases m) (simp_all add: json_mode_def)

lemma execution_policy_decode: "execution_policy_of_json (execution_policy_json p) = Some p"
  by (simp add: execution_policy_of_json_def execution_policy_json_def json_fields_def
      execution_policy_keys_def Let_def)

lemma risk_policy_decode: "risk_policy_valid p \<Longrightarrow> risk_policy_of_json (risk_policy_json p) = Some p"
  by (cases p, cases "rp_entry_order_amount p")
    (simp_all add: risk_policy_of_json_def risk_policy_json_def json_fields_def risk_policy_keys_def
      Let_def field_or_def json_int_def json_int_opt_def json_dec_def json_str_def)

lemma risk_policy_of_json_valid: "risk_policy_of_json j = Some p \<Longrightarrow> risk_policy_valid p"
  by (auto simp: risk_policy_of_json_def Let_def split: Option.bind_splits if_splits)


section \<open>Versions\<close>

datatype config_error = ConfigurationError string int | PayloadInvalid

record config_call =
  cf_user :: uuid
  cf_correlation_id :: string
  cf_request_ip :: string
  cf_user_agent :: string
  cf_now :: instant

definition config_scope :: string where
  "config_scope = ''USER_DEFAULT''"

definition config_of :: "string \<Rightarrow> string \<Rightarrow> configuration_version \<Rightarrow> bool" where
  "config_of cat target v \<longleftrightarrow>
     cv_scope v = config_scope \<and> cv_target_id v = target \<and> cv_category v = cat"

definition config_active :: "string \<Rightarrow> db \<Rightarrow> string \<Rightarrow> configuration_version option" where
  "config_active cat d target =
     find (\<lambda>v. config_of cat target v \<and> cv_state v = CV_ACTIVE) (configuration_versions d)"

definition config_next_sequence :: "string \<Rightarrow> db \<Rightarrow> string \<Rightarrow> int" where
  "config_next_sequence cat d target =
     (case map cv_sequence (filter (config_of cat target) (configuration_versions d)) of
        [] \<Rightarrow> 0
      | x # xs \<Rightarrow> fold max xs x) + 1"

definition config_create_draft ::
  "string \<Rightarrow> config_call \<Rightarrow> json \<Rightarrow> string \<Rightarrow> db \<Rightarrow> (config_error + configuration_version) \<times> db" where
  "config_create_draft cat cf payload reason d =
     (let normalized = str_strip reason; target = uuid_text (cf_user cf)
      in if normalized = [] then (Inl (ConfigurationError ''CONFIGURATION_REASON_REQUIRED'' 400), d)
         else (let (i, d1) = uuid7_draw d;
                   v = \<lparr>cv_id = i, cv_scope = config_scope, cv_target_id = target, cv_category = cat,
                     cv_sequence = config_next_sequence cat d target, cv_state = CV_DRAFT,
                     cv_payload_json = payload, cv_payload_hash = Sha256 payload,
                     cv_reason = normalized, cv_created_by = target,
                     cv_base_active_version_id = map_option cv_id (config_active cat d target),
                     cv_validated_at = None, cv_activated_at = None\<rparr>
               in (Inr v, d1\<lparr>configuration_versions := configuration_versions d1 @ [v]\<rparr>)))"

definition config_lookup :: "string \<Rightarrow> config_call \<Rightarrow> uuid \<Rightarrow> db \<Rightarrow> config_error + configuration_version" where
  "config_lookup cat cf vid d =
     (case row_find cv_id vid (configuration_versions d) of
        None \<Rightarrow> Inl (ConfigurationError ''CONFIGURATION_VERSION_NOT_FOUND'' 404)
      | Some v \<Rightarrow>
          if cv_target_id v \<noteq> uuid_text (cf_user cf) \<or> cv_category v \<noteq> cat
          then Inl (ConfigurationError ''CONFIGURATION_VERSION_NOT_FOUND'' 404) else Inr v)"

definition config_upd :: "uuid \<Rightarrow> (configuration_version \<Rightarrow> configuration_version) \<Rightarrow> db \<Rightarrow> db" where
  "config_upd vid f d = d\<lparr>configuration_versions := row_upd cv_id vid f (configuration_versions d)\<rparr>"

definition config_validate ::
  "string \<Rightarrow> (json \<Rightarrow> bool) \<Rightarrow> config_call \<Rightarrow> uuid \<Rightarrow> db \<Rightarrow> (config_error + configuration_version) \<times> db" where
  "config_validate cat parses cf vid d =
     (case config_lookup cat cf vid d of
        Inl e \<Rightarrow> (Inl e, d)
      | Inr v \<Rightarrow>
          if cv_state v = CV_VALIDATED then (Inr v, d)
          else if cv_state v \<noteq> CV_DRAFT then (Inl (ConfigurationError ''CONFIGURATION_STATE_INVALID'' 409), d)
          else if \<not> parses (cv_payload_json v) then (Inl PayloadInvalid, d)
          else (let v' = v\<lparr>cv_state := CV_VALIDATED, cv_validated_at := Some (cf_now cf)\<rparr>
                in (Inr v', config_upd vid (\<lambda>_. v') d)))"

definition activation_config_audit :: "string \<Rightarrow> config_call \<Rightarrow> configuration_version \<Rightarrow> audit_log" where
  "activation_config_audit cat cf v =
     \<lparr>al_actor_type = ''USER'', al_actor_id = Some (uuid_text (cf_user cf)),
      al_action = cat @ ''_ACTIVATED'', al_target = Some (cv_id v), al_result = ''PASSED'',
      al_request_ip = Some (cf_request_ip cf), al_user_agent = Some (cf_user_agent cf),
      al_correlation_id = cf_correlation_id cf,
      al_metadata_json = JObj [(''sequence'', JInt (cv_sequence v)),
        (''payload_hash'', digest_json (cv_payload_hash v))]\<rparr>"

definition superseded :: "configuration_version \<Rightarrow> configuration_version" where
  "superseded v = v\<lparr>cv_state := CV_SUPERSEDED\<rparr>"

definition config_activate ::
  "string \<Rightarrow> config_call \<Rightarrow> uuid \<Rightarrow> db \<Rightarrow> (config_error + configuration_version) \<times> db" where
  "config_activate cat cf vid d =
     (case config_lookup cat cf vid d of
        Inl e \<Rightarrow> (Inl e, d)
      | Inr v \<Rightarrow>
          if cv_state v = CV_ACTIVE then (Inr v, d)
          else if cv_state v \<noteq> CV_VALIDATED then (Inl (ConfigurationError ''CONFIGURATION_NOT_VALIDATED'' 409), d)
          else
            (let current = config_active cat d (uuid_text (cf_user cf))
             in if cv_base_active_version_id v \<noteq> map_option cv_id current
                then (Inl (ConfigurationError ''CONFIGURATION_VERSION_CONFLICT'' 409), d)
                else
                  (let d1 = (case current of None \<Rightarrow> d | Some c \<Rightarrow> config_upd (cv_id c) superseded d);
                       v' = v\<lparr>cv_state := CV_ACTIVE, cv_activated_at := Some (cf_now cf)\<rparr>;
                       d2 = config_upd vid (\<lambda>_. v') d1
                   in (Inr v', d2\<lparr>audit_logs := audit_logs d2 @ [activation_config_audit cat cf v']\<rparr>))))"

definition config_history :: "string \<Rightarrow> db \<Rightarrow> string \<Rightarrow> configuration_version list" where
  "config_history cat d target =
     take 50 (rev (sort_key cv_sequence (filter (config_of cat target) (configuration_versions d))))"

subsection \<open>The execution policy module\<close>

definition active_policy :: "db \<Rightarrow> uuid \<Rightarrow> configuration_version option" where
  "active_policy d user = config_active ''EXECUTION_POLICY'' d (uuid_text user)"

definition policy_payload :: "configuration_version option \<Rightarrow> execution_policy option" where
  "policy_payload v =
     (case v of None \<Rightarrow> Some safe_default_execution_policy
      | Some v \<Rightarrow> execution_policy_of_json (cv_payload_json v))"

definition create_draft ::
  "config_call \<Rightarrow> execution_policy \<Rightarrow> string \<Rightarrow> db \<Rightarrow> (config_error + configuration_version) \<times> db" where
  "create_draft cf policy reason d =
     config_create_draft ''EXECUTION_POLICY'' cf (execution_policy_json policy) reason d"

definition validate_draft :: "config_call \<Rightarrow> uuid \<Rightarrow> db \<Rightarrow> (config_error + configuration_version) \<times> db" where
  "validate_draft cf vid d =
     config_validate ''EXECUTION_POLICY'' (\<lambda>j. execution_policy_of_json j \<noteq> None) cf vid d"

definition activate_version :: "config_call \<Rightarrow> uuid \<Rightarrow> db \<Rightarrow> (config_error + configuration_version) \<times> db" where
  "activate_version cf vid d = config_activate ''EXECUTION_POLICY'' cf vid d"

definition policy_history :: "db \<Rightarrow> uuid \<Rightarrow> configuration_version list" where
  "policy_history d user = config_history ''EXECUTION_POLICY'' d (uuid_text user)"

subsection \<open>The risk policy module\<close>

text \<open>The lookup key is text: callers pass a user id, the stop trigger passes the account alias.\<close>

definition active_risk_policy :: "db \<Rightarrow> string \<Rightarrow> configuration_version option" where
  "active_risk_policy d target = config_active ''RISK_POLICY'' d target"

definition risk_policy_payload :: "configuration_version option \<Rightarrow> risk_policy option" where
  "risk_policy_payload v =
     (case v of None \<Rightarrow> Some safe_default_risk_policy
      | Some v \<Rightarrow> risk_policy_of_json (cv_payload_json v))"

definition create_risk_draft ::
  "config_call \<Rightarrow> risk_policy \<Rightarrow> string \<Rightarrow> db \<Rightarrow> (config_error + configuration_version) \<times> db" where
  "create_risk_draft cf policy reason d =
     config_create_draft ''RISK_POLICY'' cf (risk_policy_json policy) reason d"

definition validate_risk_draft :: "config_call \<Rightarrow> uuid \<Rightarrow> db \<Rightarrow> (config_error + configuration_version) \<times> db" where
  "validate_risk_draft cf vid d =
     config_validate ''RISK_POLICY'' (\<lambda>j. risk_policy_of_json j \<noteq> None) cf vid d"

definition activate_risk_version :: "config_call \<Rightarrow> uuid \<Rightarrow> db \<Rightarrow> (config_error + configuration_version) \<times> db" where
  "activate_risk_version cf vid d = config_activate ''RISK_POLICY'' cf vid d"

definition risk_history :: "db \<Rightarrow> uuid \<Rightarrow> configuration_version list" where
  "risk_history d user = config_history ''RISK_POLICY'' d (uuid_text user)"

end
