(* ===== verification/Policy_Properties.thy ===== *)
theory Policy_Properties
  imports Policy_Config
begin

text \<open>
  Invariant of the configuration version table and what the two policy services promise: one
  active version per user and category, immutable payloads, optimistic concurrency between
  drafts, and the draft, validate, activate life cycle, proved once in the locale
  \<open>config_category\<close> and interpreted for both categories.
\<close>

section \<open>Invariant\<close>

definition cv_slot :: "configuration_version \<Rightarrow> string \<times> string \<times> int" where
  "cv_slot v = (cv_target_id v, cv_category v, cv_sequence v)"

definition one_active :: "configuration_version list \<Rightarrow> bool" where
  "one_active vs \<longleftrightarrow>
     (\<forall>v \<in> set vs. \<forall>w \<in> set vs. cv_state v = CV_ACTIVE \<longrightarrow> cv_state w = CV_ACTIVE \<longrightarrow>
        cv_target_id v = cv_target_id w \<longrightarrow> cv_category v = cv_category w \<longrightarrow> cv_id v = cv_id w)"

lemma one_activeI:
  "(\<And>v w. v \<in> set vs \<Longrightarrow> w \<in> set vs \<Longrightarrow> cv_state v = CV_ACTIVE \<Longrightarrow> cv_state w = CV_ACTIVE \<Longrightarrow>
     cv_target_id v = cv_target_id w \<Longrightarrow> cv_category v = cv_category w \<Longrightarrow> cv_id v = cv_id w) \<Longrightarrow>
   one_active vs"
  unfolding one_active_def by blast

lemma one_activeD:
  "one_active vs \<Longrightarrow> v \<in> set vs \<Longrightarrow> w \<in> set vs \<Longrightarrow> cv_state v = CV_ACTIVE \<Longrightarrow> cv_state w = CV_ACTIVE \<Longrightarrow>
     cv_target_id v = cv_target_id w \<Longrightarrow> cv_category v = cv_category w \<Longrightarrow> cv_id v = cv_id w"
  unfolding one_active_def by blast

definition version_ok :: "configuration_version \<Rightarrow> bool" where
  "version_ok v \<longleftrightarrow>
     cv_scope v = config_scope \<and> 1 \<le> cv_sequence v \<and> cv_reason v \<noteq> [] \<and>
     cv_payload_hash v = Sha256 (cv_payload_json v) \<and>
     (cv_state v = CV_DRAFT \<longleftrightarrow> cv_validated_at v = None) \<and>
     (cv_state v \<in> {CV_ACTIVE, CV_SUPERSEDED} \<longleftrightarrow> cv_activated_at v \<noteq> None)"

definition config_inv :: "db \<Rightarrow> bool" where
  "config_inv d \<longleftrightarrow>
     distinct (map cv_id (configuration_versions d)) \<and>
     distinct (map cv_slot (configuration_versions d)) \<and>
     (\<forall>v \<in> set (configuration_versions d). cv_id v < uuid_seed d \<and> version_ok v) \<and>
     one_active (configuration_versions d)"

lemma config_invD:
  assumes "config_inv d"
  shows "distinct (map cv_id (configuration_versions d))" "distinct (map cv_slot (configuration_versions d))"
    "one_active (configuration_versions d)"
    "v \<in> set (configuration_versions d) \<Longrightarrow> version_ok v"
    "v \<in> set (configuration_versions d) \<Longrightarrow> cv_id v < uuid_seed d"
  using assms unfolding config_inv_def by blast+

lemma version_ok_scope: "version_ok v \<Longrightarrow> config_of cat t v \<longleftrightarrow> cv_target_id v = t \<and> cv_category v = cat"
  by (simp add: version_ok_def config_of_def)

lemma fold_max_ge: "y \<in> insert x (set xs) \<Longrightarrow> y \<le> fold max xs (x::int)"
  by (metis Max.set_eq_fold Max_ge finite_set list.set(2))

lemma config_next_sequence_fresh:
  assumes "\<forall>v \<in> set (configuration_versions d). 1 \<le> cv_sequence v"
  shows "1 \<le> config_next_sequence cat d t"
    and "v \<in> set (configuration_versions d) \<Longrightarrow> config_of cat t v \<Longrightarrow>
      cv_sequence v < config_next_sequence cat d t"
proof -
  define xs where "xs = map cv_sequence (filter (config_of cat t) (configuration_versions d))"
  have pos: "\<forall>x \<in> set xs. 1 \<le> x" using assms by (auto simp: xs_def)
  have ns: "config_next_sequence cat d t = (case xs of [] \<Rightarrow> 0 | x # ys \<Rightarrow> fold max ys x) + 1"
    by (simp add: config_next_sequence_def xs_def)
  show "1 \<le> config_next_sequence cat d t"
  proof (cases xs)
    case (Cons x ys)
    with pos fold_max_ge [of x x ys] show ?thesis by (simp add: ns)
  qed (simp add: ns)
  assume "v \<in> set (configuration_versions d)" "config_of cat t v"
  then have "cv_sequence v \<in> set xs" by (simp add: xs_def)
  then show "cv_sequence v < config_next_sequence cat d t"
    using fold_max_ge [of "cv_sequence v"] by (cases xs) (auto simp: ns)
qed

lemma config_active_Some:
  "config_active cat d t = Some c \<Longrightarrow>
   c \<in> set (configuration_versions d) \<and> config_of cat t c \<and> cv_state c = CV_ACTIVE"
  by (auto simp: config_active_def find_Some_iff)

lemma config_active_None:
  "config_active cat d t = None \<Longrightarrow> v \<in> set (configuration_versions d) \<Longrightarrow> config_of cat t v \<Longrightarrow>
   cv_state v \<noteq> CV_ACTIVE"
  by (auto simp: config_active_def find_None_iff)

lemma config_lookup_Inr:
  "config_lookup cat cf vid d = Inr v \<Longrightarrow>
   row_find cv_id vid (configuration_versions d) = Some v \<and> v \<in> set (configuration_versions d) \<and>
   cv_id v = vid \<and> cv_target_id v = uuid_text (cf_user cf) \<and> cv_category v = cat"
  by (auto simp: config_lookup_def dest: row_find_Some split: option.splits if_splits)

lemma config_inv_snoc:
  assumes inv: "config_inv d" and "version_ok v" "cv_state v = CV_DRAFT" "cv_id v = uuid_seed d"
    and slot: "cv_slot v \<notin> cv_slot ` set (configuration_versions d)"
  shows "config_inv (d\<lparr>uuid_seed := uuid_seed d + 1, configuration_versions := configuration_versions d @ [v]\<rparr>)"
proof -
  have new: "cv_id v \<notin> cv_id ` set (configuration_versions d)"
    using config_invD(5) [OF inv] assms(4) by fastforce
  have "one_active (configuration_versions d @ [v])"
  proof (rule one_activeI)
    fix u w
    assume "u \<in> set (configuration_versions d @ [v])" "w \<in> set (configuration_versions d @ [v])"
      and a: "cv_state u = CV_ACTIVE" "cv_state w = CV_ACTIVE"
        "cv_target_id u = cv_target_id w" "cv_category u = cv_category w"
    with assms(3) have "u \<in> set (configuration_versions d)" "w \<in> set (configuration_versions d)" by auto
    from one_activeD [OF config_invD(3) [OF inv] this a] show "cv_id u = cv_id w" .
  qed
  moreover have "\<forall>w \<in> set (configuration_versions d @ [v]). cv_id w < uuid_seed d + 1 \<and> version_ok w"
    using config_invD(4,5) [OF inv] assms(2,4) by fastforce
  ultimately show ?thesis
    using new slot config_invD(1,2) [OF inv] by (simp add: config_inv_def)
qed

lemma create_draft_inv:
  assumes "config_inv d"
  shows "config_inv (snd (config_create_draft cat cf payload reason d))"
proof (cases "str_strip reason = []")
  case False
  let ?t = "uuid_text (cf_user cf)"
  let ?v = "\<lparr>cv_id = uuid_seed d, cv_scope = config_scope, cv_target_id = ?t, cv_category = cat,
     cv_sequence = config_next_sequence cat d ?t, cv_state = CV_DRAFT,
     cv_payload_json = payload, cv_payload_hash = Sha256 payload,
     cv_reason = str_strip reason, cv_created_by = ?t,
     cv_base_active_version_id = map_option cv_id (config_active cat d ?t),
     cv_validated_at = None, cv_activated_at = None\<rparr>"
  have pos: "\<forall>v \<in> set (configuration_versions d). 1 \<le> cv_sequence v"
    using config_invD(4) [OF assms] by (simp add: version_ok_def)
  note fresh = config_next_sequence_fresh [OF pos]
  have "cv_slot ?v \<notin> cv_slot ` set (configuration_versions d)"
  proof
    assume "cv_slot ?v \<in> cv_slot ` set (configuration_versions d)"
    then obtain v where "v \<in> set (configuration_versions d)"
      "cv_target_id v = ?t" "cv_category v = cat" "cv_sequence v = config_next_sequence cat d ?t"
      by (auto simp: cv_slot_def)
    moreover from this have "config_of cat ?t v"
      using config_invD(4) [OF assms] by (simp add: version_ok_scope)
    ultimately show False using fresh(2) by fastforce
  qed
  moreover have "version_ok ?v" using False fresh(1) by (simp add: version_ok_def)
  ultimately have "config_inv (d\<lparr>uuid_seed := uuid_seed d + 1, configuration_versions := configuration_versions d @ [?v]\<rparr>)"
    by (intro config_inv_snoc [OF assms]) simp_all
  with False show ?thesis by (simp add: config_create_draft_def uuid7_draw_def Let_def)
qed (use assms in \<open>simp add: config_create_draft_def\<close>)

text \<open>Replacing one row, keeping its identity.\<close>

lemma config_inv_upd:
  assumes inv: "config_inv d" and row: "row_find cv_id vid (configuration_versions d) = Some v"
    and same: "cv_id v' = cv_id v" "cv_slot v' = cv_slot v" and ok: "version_ok v'"
    and act: "one_active (row_upd cv_id vid (\<lambda>_. v') (configuration_versions d))"
  shows "config_inv (config_upd vid (\<lambda>_. v') d)"
proof -
  let ?vs = "configuration_versions d" and ?us = "row_upd cv_id vid (\<lambda>_. v') (configuration_versions d)"
  have d: "distinct (map cv_id ?vs)" using config_invD(1) [OF inv] .
  have v: "cv_id v = vid" "v \<in> set ?vs" using row_find_Some [OF row] by auto
  have uniq: "w = v" if "w \<in> set ?vs" "cv_id w = vid" for w
    using row_find_distinct [OF d that(1)] row that(2) by simp
  have keys: "map cv_id ?us = map cv_id ?vs" "map cv_slot ?us = map cv_slot ?vs"
    by (rule map_row_upd_same, use uniq same v in blast)+
  have "cv_id w < uuid_seed d \<and> version_ok w" if "w \<in> set ?us" for w
    using that by (cases rule: set_row_updE) (use config_invD(4,5) [OF inv] ok same(1) v in auto)
  with d config_invD(2) [OF inv] keys act show ?thesis by (simp add: config_inv_def config_upd_def)
qed

lemma one_active_upd_inactive:
  assumes "one_active vs" "cv_state v' \<noteq> CV_ACTIVE"
  shows "one_active (row_upd cv_id vid (\<lambda>_. v') vs)"
proof (rule one_activeI)
  fix u w
  assume u: "u \<in> set (row_upd cv_id vid (\<lambda>_. v') vs)" and w: "w \<in> set (row_upd cv_id vid (\<lambda>_. v') vs)"
    and a: "cv_state u = CV_ACTIVE" "cv_state w = CV_ACTIVE"
      "cv_target_id u = cv_target_id w" "cv_category u = cv_category w"
  have "u \<in> set vs" "w \<in> set vs"
    using u w a assms(2) by (auto elim!: set_row_updE)
  from one_activeD [OF assms(1) this a] show "cv_id u = cv_id w" .
qed

lemma config_validate_inv:
  assumes "config_inv d"
  shows "config_inv (snd (config_validate cat parses cf vid d))"
proof (cases "config_lookup cat cf vid d")
  case (Inr v)
  note v = config_lookup_Inr [OF Inr]
  let ?v' = "v\<lparr>cv_state := CV_VALIDATED, cv_validated_at := Some (cf_now cf)\<rparr>"
  have "config_inv (config_upd vid (\<lambda>_. ?v') d)" if "cv_state v = CV_DRAFT"
  proof (rule config_inv_upd [OF assms])
    show "row_find cv_id vid (configuration_versions d) = Some v" using v by simp
    show "version_ok ?v'" using config_invD(4) [OF assms, of v] v that by (simp add: version_ok_def)
    show "one_active (row_upd cv_id vid (\<lambda>_. ?v') (configuration_versions d))"
      using config_invD(3) [OF assms] by (rule one_active_upd_inactive) simp
  qed (simp_all add: cv_slot_def)
  with Inr assms show ?thesis by (simp add: config_validate_def Let_def)
qed (use assms in \<open>simp add: config_validate_def\<close>)

section \<open>Activation\<close>

text \<open>The database after an accepted activation of \<open>v\<close>.\<close>

definition activated :: "instant \<Rightarrow> configuration_version \<Rightarrow> configuration_version" where
  "activated now v = v\<lparr>cv_state := CV_ACTIVE, cv_activated_at := Some now\<rparr>"

lemma config_activate_new:
  assumes "config_lookup cat cf vid d = Inr v" "cv_state v = CV_VALIDATED"
    "cv_base_active_version_id v = map_option cv_id (config_active cat d (uuid_text (cf_user cf)))"
  shows "config_activate cat cf vid d =
    (Inr (activated (cf_now cf) v),
     (let d2 = config_upd vid (\<lambda>_. activated (cf_now cf) v)
        (case config_active cat d (uuid_text (cf_user cf)) of
           None \<Rightarrow> d | Some c \<Rightarrow> config_upd (cv_id c) superseded d)
      in d2\<lparr>audit_logs := audit_logs d2 @ [activation_config_audit cat cf (activated (cf_now cf) v)]\<rparr>))"
  using assms by (simp add: config_activate_def activated_def Let_def)

lemma supersede_inv:
  assumes inv: "config_inv d" and c: "config_active cat d t = Some c"
  shows "config_inv (config_upd (cv_id c) superseded d)"
    and "v \<in> set (configuration_versions (config_upd (cv_id c) superseded d)) \<Longrightarrow>
      cv_target_id v = t \<Longrightarrow> cv_category v = cat \<Longrightarrow> cv_state v \<noteq> CV_ACTIVE"
proof -
  let ?vs = "configuration_versions d"
  note act = config_active_Some [OF c]
  have d: "distinct (map cv_id ?vs)" using config_invD(1) [OF inv] .
  have row: "row_find cv_id (cv_id c) ?vs = Some c" using row_find_distinct [OF d] act by blast
  have eq: "config_upd (cv_id c) superseded d = config_upd (cv_id c) (\<lambda>_. superseded c) d"
    using row_upd_unique [OF d row] by (simp add: config_upd_def)
  show "config_inv (config_upd (cv_id c) superseded d)"
    unfolding eq
  proof (rule config_inv_upd [OF inv row])
    show "version_ok (superseded c)"
      using config_invD(4) [OF inv, of c] act by (simp add: version_ok_def superseded_def)
    show "one_active (row_upd cv_id (cv_id c) (\<lambda>_. superseded c) ?vs)"
      using config_invD(3) [OF inv] by (rule one_active_upd_inactive) (simp add: superseded_def)
  qed (simp_all add: superseded_def cv_slot_def)
  assume v: "v \<in> set (configuration_versions (config_upd (cv_id c) superseded d))"
    "cv_target_id v = t" "cv_category v = cat"
  from v(1) have "v \<in> set (row_upd cv_id (cv_id c) superseded ?vs)" by (simp add: config_upd_def)
  then show "cv_state v \<noteq> CV_ACTIVE"
  proof (cases rule: set_row_updE)
    case 1
    then show ?thesis
      using one_activeD [OF config_invD(3) [OF inv], of v c] v(2,3) act by (auto simp: config_of_def)
  qed (simp add: superseded_def)
qed

lemma one_active_activate:
  assumes "one_active vs" "\<And>w. w \<in> set vs \<Longrightarrow> cv_target_id w = cv_target_id v' \<Longrightarrow>
      cv_category w = cv_category v' \<Longrightarrow> cv_state w \<noteq> CV_ACTIVE"
    and "cv_id v' = vid"
  shows "one_active (row_upd cv_id vid (\<lambda>_. v') vs)"
proof (rule one_activeI)
  fix u w
  assume u: "u \<in> set (row_upd cv_id vid (\<lambda>_. v') vs)" and w: "w \<in> set (row_upd cv_id vid (\<lambda>_. v') vs)"
    and a: "cv_state u = CV_ACTIVE" "cv_state w = CV_ACTIVE"
      "cv_target_id u = cv_target_id w" "cv_category u = cv_category w"
  from u w show "cv_id u = cv_id w"
    by (elim set_row_updE) (use assms(2,3) a one_activeD [OF assms(1) _ _ a] in auto)
qed

lemma config_active_not_validated:
  assumes inv: "config_inv d" and look: "config_lookup cat cf vid d = Inr v"
    and st: "cv_state v = CV_VALIDATED" and c: "config_active cat d t = Some c"
  shows "cv_id c \<noteq> vid"
proof
  assume "cv_id c = vid"
  then have "c = v"
    using config_active_Some [OF c] config_lookup_Inr [OF look]
      row_find_distinct [OF config_invD(1) [OF inv], of c] by simp
  then show False using config_active_Some [OF c] st by simp
qed

lemma config_activate_step_inv:
  assumes inv: "config_inv d" and look: "config_lookup cat cf vid d = Inr v"
    and st: "cv_state v = CV_VALIDATED"
  defines "d1 \<equiv> (case config_active cat d (uuid_text (cf_user cf)) of
           None \<Rightarrow> d | Some c \<Rightarrow> config_upd (cv_id c) superseded d)"
  shows "config_inv (config_upd vid (\<lambda>_. activated (cf_now cf) v) d1)"
    and "row_find cv_id vid (configuration_versions d1) = Some v"
proof -
  note v = config_lookup_Inr [OF look]
  have ok: "version_ok v" using config_invD(4) [OF inv] v by simp
  have inv1: "config_inv d1"
    using inv supersede_inv(1) [OF inv] by (auto simp: d1_def split: option.split)
  show row: "row_find cv_id vid (configuration_versions d1) = Some v"
    using v config_active_not_validated [OF inv look st, of "uuid_text (cf_user cf)"]
    by (auto simp: d1_def config_upd_def superseded_def row_find_row_upd split: option.split)
  have none: "cv_state w \<noteq> CV_ACTIVE"
    if "w \<in> set (configuration_versions d1)" "cv_target_id w = uuid_text (cf_user cf)" "cv_category w = cat" for w
  proof (cases "config_active cat d (uuid_text (cf_user cf))")
    case None
    with that show ?thesis
      using config_active_None [OF None, of w] config_invD(4) [OF inv, of w]
      by (simp add: d1_def version_ok_scope)
  next
    case (Some c)
    with that show ?thesis using supersede_inv(2) [OF inv Some] by (auto simp: d1_def)
  qed
  show "config_inv (config_upd vid (\<lambda>_. activated (cf_now cf) v) d1)"
  proof (rule config_inv_upd [OF inv1 row])
    show "version_ok (activated (cf_now cf) v)" using ok st by (simp add: version_ok_def activated_def)
    show "one_active (row_upd cv_id vid (\<lambda>_. activated (cf_now cf) v) (configuration_versions d1))"
      using config_invD(3) [OF inv1]
      by (rule one_active_activate) (use none v in \<open>simp_all add: activated_def\<close>)
  qed (simp_all add: activated_def cv_slot_def)
qed

lemma config_inv_audit [simp]: "config_inv (d\<lparr>audit_logs := a\<rparr>) = config_inv d"
  by (simp add: config_inv_def)

lemma config_activate_inv:
  assumes inv: "config_inv d"
  shows "config_inv (snd (config_activate cat cf vid d))"
proof (cases "config_lookup cat cf vid d")
  case (Inr v)
  show ?thesis
  proof (cases "cv_state v = CV_VALIDATED \<and>
      cv_base_active_version_id v = map_option cv_id (config_active cat d (uuid_text (cf_user cf)))")
    case True
    then show ?thesis
      using config_activate_new [OF Inr] config_activate_step_inv(1) [OF inv Inr] by (simp add: Let_def)
  next
    case False
    then have "snd (config_activate cat cf vid d) = d"
      using Inr by (auto simp: config_activate_def Let_def)
    with inv show ?thesis by simp
  qed
qed (use inv in \<open>simp add: config_activate_def\<close>)

section \<open>Steps\<close>

inductive config_step :: "db \<Rightarrow> db \<Rightarrow> bool" where
  draft: "config_step d (snd (create_draft cf p reason d))"
| validate: "config_step d (snd (validate_draft cf vid d))"
| activate: "config_step d (snd (activate_version cf vid d))"
| risk_draft: "config_step d (snd (create_risk_draft cf rp reason d))"
| risk_validate: "config_step d (snd (validate_risk_draft cf vid d))"
| risk_activate: "config_step d (snd (activate_risk_version cf vid d))"
| other: "configuration_versions d' = configuration_versions d \<Longrightarrow> uuid_seed d \<le> uuid_seed d' \<Longrightarrow>
    config_step d d'"

lemmas policy_ops = create_draft_def validate_draft_def activate_version_def create_risk_draft_def
  validate_risk_draft_def activate_risk_version_def

lemma config_step_inv: "config_step d d' \<Longrightarrow> config_inv d \<Longrightarrow> config_inv d'"
proof (induction rule: config_step.induct)
  case (other d' d)
  then show ?case unfolding config_inv_def by fastforce
qed (simp_all add: policy_ops create_draft_inv config_validate_inv config_activate_inv)

lemma config_steps_inv: "config_step\<^sup>*\<^sup>* d d' \<Longrightarrow> config_inv d \<Longrightarrow> config_inv d'"
  by (induction rule: rtranclp_induct) (auto intro: config_step_inv)

text \<open>The columns no operation changes.\<close>

definition cv_static :: "configuration_version \<Rightarrow> uuid \<times> string \<times> string \<times> int \<times> json \<times> digest \<times> uuid option" where
  "cv_static v = (cv_id v, cv_target_id v, cv_category v, cv_sequence v, cv_payload_json v,
     cv_payload_hash v, cv_base_active_version_id v)"

lemma config_upd_static:
  assumes "\<And>v. v \<in> set (configuration_versions d) \<Longrightarrow> cv_id v = vid \<Longrightarrow> cv_static (f v) = cv_static v"
  shows "map cv_static (configuration_versions (config_upd vid f d)) = map cv_static (configuration_versions d)"
  using assms by (simp add: config_upd_def map_row_upd_same)

lemma validate_static:
  assumes "config_inv d"
  shows "map cv_static (configuration_versions (snd (config_validate cat parses cf vid d))) =
    map cv_static (configuration_versions d)"
proof (cases "config_lookup cat cf vid d")
  case (Inr v)
  have "w = v" if "w \<in> set (configuration_versions d)" "cv_id w = vid" for w
    using row_find_distinct [OF config_invD(1) [OF assms] that(1)] config_lookup_Inr [OF Inr] that(2) by simp
  then show ?thesis
    using Inr by (auto simp: config_validate_def Let_def cv_static_def intro!: config_upd_static)
qed (simp add: config_validate_def)

lemma activate_static:
  assumes inv: "config_inv d"
  shows "map cv_static (configuration_versions (snd (config_activate cat cf vid d))) =
    map cv_static (configuration_versions d)"
proof (cases "config_lookup cat cf vid d")
  case (Inr v)
  define d1 where "d1 = (case config_active cat d (uuid_text (cf_user cf)) of
           None \<Rightarrow> d | Some c \<Rightarrow> config_upd (cv_id c) superseded d)"
  have s1: "map cv_static (configuration_versions d1) = map cv_static (configuration_versions d)"
    by (auto simp: d1_def superseded_def cv_static_def intro!: config_upd_static split: option.split)
  show ?thesis
  proof (cases "cv_state v = CV_VALIDATED \<and>
      cv_base_active_version_id v = map_option cv_id (config_active cat d (uuid_text (cf_user cf)))")
    case True
    have row: "row_find cv_id vid (configuration_versions d1) = Some v"
      unfolding d1_def using config_activate_step_inv(2) [OF inv Inr] True by simp
    have "config_inv d1"
      using inv supersede_inv(1) [OF inv] by (auto simp: d1_def split: option.split)
    then have "w = v" if "w \<in> set (configuration_versions d1)" "cv_id w = vid" for w
      using row_find_distinct [OF config_invD(1) that(1)] row that(2) by simp
    then have "map cv_static (configuration_versions (config_upd vid (\<lambda>_. activated (cf_now cf) v) d1)) =
        map cv_static (configuration_versions d1)"
      by (intro config_upd_static) (auto simp: activated_def cv_static_def)
    then show ?thesis using config_activate_new [OF Inr] True s1 by (simp add: Let_def d1_def)
  next
    case False
    then show ?thesis using Inr by (auto simp: config_activate_def Let_def)
  qed
qed (simp add: config_activate_def)

lemma create_static:
  "\<exists>vs. map cv_static (configuration_versions (snd (config_create_draft cat cf payload reason d))) =
    map cv_static (configuration_versions d) @ vs"
  by (auto simp: config_create_draft_def uuid7_draw_def Let_def)

lemma config_step_static:
  "config_step d d' \<Longrightarrow> config_inv d \<Longrightarrow>
   \<exists>vs. map cv_static (configuration_versions d') = map cv_static (configuration_versions d) @ vs"
  by (induction rule: config_step.induct)
    (simp_all add: policy_ops create_static validate_static activate_static)

lemma config_steps_static:
  assumes "config_step\<^sup>*\<^sup>* d d'" "config_inv d"
  shows "\<exists>vs. map cv_static (configuration_versions d') = map cv_static (configuration_versions d) @ vs"
  using assms(1)
proof (induction rule: rtranclp_induct)
  case (step d1 d2)
  then show ?case
    using config_step_static [of d1 d2] config_steps_inv [of d d1] assms(2) by fastforce
qed simp

section \<open>The life cycle of a version\<close>

lemma config_active_unique:
  assumes inv: "config_inv d" and v: "v \<in> set (configuration_versions d)" "cv_state v = CV_ACTIVE"
    "cv_target_id v = t" "cv_category v = cat"
  shows "config_active cat d t = Some v"
proof (cases "config_active cat d t")
  case None
  then show ?thesis
    using config_active_None [OF None v(1)] config_invD(4) [OF inv v(1)] v by (simp add: version_ok_scope)
next
  case (Some c)
  note c = config_active_Some [OF Some]
  have "cv_id c = cv_id v"
    using one_activeD [OF config_invD(3) [OF inv], of c v] c v by (simp add: config_of_def)
  then have "c = v" using row_find_distinct [OF config_invD(1) [OF inv]] c v(1) by (metis option.inject)
  with Some show ?thesis by simp
qed

text \<open>What a category supplies: documents that parse back to the policy they were written from.\<close>

locale config_category =
  fixes cat :: string
    and encode :: "'p \<Rightarrow> json"
    and decode :: "json \<Rightarrow> 'p option"
    and valid :: "'p \<Rightarrow> bool"
  assumes decode_encode: "valid p \<Longrightarrow> decode (encode p) = Some p"
begin

text \<open>Without interleaved activations a draft goes through and its payload is read back.\<close>

lemma lifecycle:
  assumes inv: "config_inv d" and p: "valid p" and reason: "str_strip reason \<noteq> []"
    and parses: "\<And>j. parses j = (decode j \<noteq> None)"
  obtains v d1 v2 d2 v3 d3 where
    "config_create_draft cat cf (encode p) reason d = (Inr v, d1)"
    "config_validate cat parses cf (cv_id v) d1 = (Inr v2, d2)"
    "config_activate cat cf (cv_id v) d2 = (Inr v3, d3)"
    "config_active cat d3 (uuid_text (cf_user cf)) = Some v3"
    "decode (cv_payload_json v3) = Some p"
    "\<And>c. config_active cat d (uuid_text (cf_user cf)) = Some c \<Longrightarrow>
      superseded c \<in> set (configuration_versions d3)"
proof -
  let ?t = "uuid_text (cf_user cf)"
  obtain v d1 where cr: "config_create_draft cat cf (encode p) reason d = (Inr v, d1)"
    and v: "cv_id v = uuid_seed d" "cv_target_id v = ?t" "cv_category v = cat" "cv_state v = CV_DRAFT"
      "cv_payload_json v = encode p" "cv_base_active_version_id v = map_option cv_id (config_active cat d ?t)"
      "configuration_versions d1 = configuration_versions d @ [v]"
    using reason by (simp add: config_create_draft_def uuid7_draw_def Let_def)
  have inv1: "config_inv d1" using create_draft_inv [OF inv, of cat cf "encode p" reason] cr by simp
  have look: "config_lookup cat cf (cv_id v) d1 = Inr v"
    using row_find_distinct [OF config_invD(1) [OF inv1], of v] v(2,3,7) by (simp add: config_lookup_def)
  let ?v2 = "v\<lparr>cv_state := CV_VALIDATED, cv_validated_at := Some (cf_now cf)\<rparr>"
  let ?d2 = "config_upd (cv_id v) (\<lambda>_. ?v2) d1"
  have val: "config_validate cat parses cf (cv_id v) d1 = (Inr ?v2, ?d2)"
    using look v(4,5) p decode_encode by (simp add: config_validate_def Let_def parses)
  have inv2: "config_inv ?d2"
    using config_validate_inv [OF inv1, of cat parses cf "cv_id v"] val by simp
  have fresh: "cv_id v \<notin> cv_id ` set (configuration_versions d)"
    using config_invD(5) [OF inv] v(1) by fastforce
  have rows2: "configuration_versions ?d2 = configuration_versions d @ [?v2]"
    using row_upd_absent [OF fresh] v(7) by (simp add: config_upd_def row_upd_def)
  have look2: "config_lookup cat cf (cv_id v) ?d2 = Inr ?v2"
    using row_find_distinct [OF config_invD(1) [OF inv2], of ?v2] v(2,3)
    by (simp add: config_lookup_def rows2)
  have act2: "config_active cat ?d2 ?t = config_active cat d ?t"
    by (simp add: config_active_def rows2 find_append split: option.split)
  let ?v3 = "activated (cf_now cf) ?v2"
  obtain d3 where act: "config_activate cat cf (cv_id v) ?d2 = (Inr ?v3, d3)"
    and rows3: "configuration_versions d3 = configuration_versions (config_upd (cv_id v) (\<lambda>_. ?v3)
        (case config_active cat d ?t of None \<Rightarrow> ?d2 | Some c \<Rightarrow> config_upd (cv_id c) superseded ?d2))"
    using config_activate_new [OF look2] v(6) act2 by (simp add: Let_def)
  have inv3: "config_inv d3"
    using config_activate_inv [OF inv2, of cat cf "cv_id v"] act by simp
  have "row_find cv_id (cv_id v) (configuration_versions
      (case config_active cat d ?t of None \<Rightarrow> ?d2 | Some c \<Rightarrow> config_upd (cv_id c) superseded ?d2)) = Some ?v2"
    using config_activate_step_inv(2) [OF inv2 look2] act2 by simp
  then have "?v3 \<in> set (configuration_versions d3)"
    unfolding rows3 config_upd_def using row_find_Some by (fastforce simp: row_upd_def image_iff)
  then have active: "config_active cat d3 ?t = Some ?v3"
    using inv3 v(2,3) by (intro config_active_unique) (simp_all add: activated_def)
  have "superseded c \<in> set (configuration_versions d3)" if c: "config_active cat d ?t = Some c" for c
  proof -
    have "c \<in> set (configuration_versions d)" using config_active_Some [OF c] by simp
    moreover from this have "cv_id c \<noteq> cv_id v" using fresh by (metis image_eqI)
    ultimately show ?thesis
      unfolding rows3 using c rows2 by (force simp: config_upd_def row_upd_def superseded_def)
  qed
  then show thesis
    using that [OF cr val act active] v(5) p decode_encode by (simp add: activated_def)
qed

end

interpretation execution_config: config_category "''EXECUTION_POLICY''" execution_policy_json
  execution_policy_of_json "\<lambda>_. True"
  by unfold_locales (rule execution_policy_decode)

interpretation risk_config: config_category "''RISK_POLICY''" risk_policy_json
  risk_policy_of_json risk_policy_valid
  by unfold_locales (rule risk_policy_decode)

section \<open>Properties\<close>

lemma fresh_config_inv: "configuration_versions d = [] \<Longrightarrow> config_inv d"
  by (simp add: config_inv_def one_active_def)

definition demo_config_call :: config_call where
  "demo_config_call = \<lparr>cf_user = 7, cf_correlation_id = ''c'', cf_request_ip = ''ip'',
     cf_user_agent = ''ua'', cf_now = 0\<rparr>"

lemma safe_default_risk_policy_valid: "risk_policy_valid safe_default_risk_policy"
  by (simp add: risk_policy_valid_def safe_default_risk_policy_def)

lemma policy_versions_stable_facts:
  assumes "configuration_versions d0 = []" "config_step\<^sup>*\<^sup>* d0 d" "config_step\<^sup>*\<^sup>* d d'"
  shows "one_active (configuration_versions d)"
    and "distinct (map cv_slot (configuration_versions d))"
    and "\<forall>v \<in> set (configuration_versions d). version_ok v"
    and "\<forall>v \<in> set (configuration_versions d). \<exists>v' \<in> set (configuration_versions d'). cv_static v' = cv_static v"
proof -
  have inv: "config_inv d" using config_steps_inv [OF assms(2)] fresh_config_inv [OF assms(1)] by simp
  show "one_active (configuration_versions d)" "distinct (map cv_slot (configuration_versions d))"
    "\<forall>v \<in> set (configuration_versions d). version_ok v"
    using config_invD [OF inv] by auto
  obtain vs where eq: "map cv_static (configuration_versions d') = map cv_static (configuration_versions d) @ vs"
    using config_steps_static [OF assms(3) inv] by blast
  show "\<forall>v \<in> set (configuration_versions d). \<exists>v' \<in> set (configuration_versions d'). cv_static v' = cv_static v"
  proof
    fix v
    assume "v \<in> set (configuration_versions d)"
    then have "cv_static v \<in> set (map cv_static (configuration_versions d'))" unfolding eq by simp
    then show "\<exists>v' \<in> set (configuration_versions d'). cv_static v' = cv_static v" by auto
  qed
qed

text \<open>C10. However the two policy services are called by any users, at every moment each user has at
  most one active version per category, version numbers are unique per user and category, no
  validated or active version lacks its time stamp, and the identity, owner, number, payload and
  payload hash of a stored version never change again.\<close>
theorem policy_versions_stable:
  assumes "configuration_versions d0 = []" "config_step\<^sup>*\<^sup>* d0 d" "config_step\<^sup>*\<^sup>* d d'"
  shows "(one_active (configuration_versions d)) \<and>
    (distinct (map cv_slot (configuration_versions d))) \<and>
    (\<forall>v \<in> set (configuration_versions d). version_ok v) \<and>
    (\<forall>v \<in> set (configuration_versions d). \<exists>v' \<in> set (configuration_versions d'). cv_static v' = cv_static v)"
  by (intro conjI impI; rule policy_versions_stable_facts [OF assms]; assumption)

theorem policy_versions_stable_witness:
  "one_active (configuration_versions
     (snd (create_risk_draft demo_config_call safe_default_risk_policy ''first'' empty_db)))"
proof -
  let ?d = "snd (create_risk_draft demo_config_call safe_default_risk_policy ''first'' empty_db)"
  have "config_step\<^sup>*\<^sup>* empty_db ?d" by (rule r_into_rtranclp) (rule config_step.risk_draft)
  with policy_versions_stable [of empty_db ?d ?d] show ?thesis by (simp add: empty_db_def)
qed

text \<open>A valid risk policy goes through draft, validation and activation when no other activation
  of the same user intervenes; afterwards the policy the guards read for that user is exactly the
  one that was submitted, and the version active before is SUPERSEDED, not lost.\<close>
theorem risk_policy_lifecycle:
  assumes "config_inv d" "risk_policy_valid p" "str_strip reason \<noteq> []"
  shows "\<exists>v d1 v2 d2 v3 d3.
    create_risk_draft cf p reason d = (Inr v, d1) \<and>
    validate_risk_draft cf (cv_id v) d1 = (Inr v2, d2) \<and>
    activate_risk_version cf (cv_id v) d2 = (Inr v3, d3) \<and>
    active_risk_policy d3 (uuid_text (cf_user cf)) = Some v3 \<and>
    risk_policy_payload (active_risk_policy d3 (uuid_text (cf_user cf))) = Some p \<and>
    (\<forall>c. active_risk_policy d (uuid_text (cf_user cf)) = Some c \<longrightarrow>
       superseded c \<in> set (configuration_versions d3))"
  unfolding create_risk_draft_def validate_risk_draft_def activate_risk_version_def
    active_risk_policy_def risk_policy_payload_def
  by (rule risk_config.lifecycle [OF assms refl, of cf]) auto

theorem risk_policy_lifecycle_witness:
  "\<exists>v d1. create_risk_draft demo_config_call safe_default_risk_policy ''first'' empty_db = (Inr v, d1)"
proof -
  have "config_inv empty_db" by (rule fresh_config_inv) (simp add: empty_db_def)
  moreover have "str_strip ''first'' \<noteq> []" by code_simp
  ultimately show ?thesis
    using risk_policy_lifecycle [OF _ safe_default_risk_policy_valid, of empty_db "''first''" demo_config_call]
    by blast
qed

text \<open>Two drafts of one user and category based on the same active version cannot both win:
  once one of them is activated, activating the other is refused with
  CONFIGURATION_VERSION_CONFLICT and changes nothing.\<close>
theorem stale_draft_refused:
  assumes inv: "config_inv d"
    and v: "config_lookup cat cf vid d = Inr v" "cv_state v = CV_VALIDATED"
    and w: "config_lookup cat cf wid d = Inr w" "cv_state w = CV_VALIDATED" "wid \<noteq> vid"
    and base: "cv_base_active_version_id w = cv_base_active_version_id v"
    and act: "config_activate cat cf vid d = (Inr v', d')"
  shows "config_activate cat cf wid d' = (Inl (ConfigurationError ''CONFIGURATION_VERSION_CONFLICT'' 409), d')"
proof -
  let ?t = "uuid_text (cf_user cf)"
  let ?d1 = "case config_active cat d ?t of None \<Rightarrow> d | Some c \<Rightarrow> config_upd (cv_id c) superseded d"
  note vl = config_lookup_Inr [OF v(1)] and wl = config_lookup_Inr [OF w(1)]
  have b: "cv_base_active_version_id v = map_option cv_id (config_active cat d ?t)"
    using act v by (auto simp: config_activate_def Let_def split: if_splits)
  have d': "d' = (let d2 = config_upd vid (\<lambda>_. activated (cf_now cf) v) ?d1
      in d2\<lparr>audit_logs := audit_logs d2 @ [activation_config_audit cat cf (activated (cf_now cf) v)]\<rparr>)"
    using config_activate_new [OF v b] act by simp
  have inv': "config_inv d'" using config_activate_inv [OF inv, of cat cf vid] act by simp
  have rv: "row_find cv_id vid (configuration_versions ?d1) = Some v"
    by (rule config_activate_step_inv(2) [OF inv v])
  have rw: "row_find cv_id wid (configuration_versions ?d1) = Some w"
    by (rule config_activate_step_inv(2) [OF inv w(1,2)])
  have cv': "cv_id (activated (cf_now cf) v) = vid" using vl by (simp add: activated_def)
  have "row_find cv_id vid (configuration_versions d') = Some (activated (cf_now cf) v)"
    using row_find_row_upd_const [OF rv cv', of vid] by (simp add: d' Let_def config_upd_def)
  then have "activated (cf_now cf) v \<in> set (configuration_versions d')" by (rule row_find_Some [THEN conjunct1])
  then have active: "config_active cat d' ?t = Some (activated (cf_now cf) v)"
    using vl inv' by (intro config_active_unique) (simp_all add: activated_def)
  have "row_find cv_id wid (configuration_versions d') = Some w"
    using row_find_row_upd_const [OF rv cv', of wid] rw w(3) by (simp add: d' Let_def config_upd_def)
  then have "config_lookup cat cf wid d' = Inr w" using wl by (simp add: config_lookup_def)
  moreover have "cv_base_active_version_id w \<noteq> Some vid"
    using base b config_active_not_validated [OF inv v] by auto
  ultimately show ?thesis using active w(2) cv' by (simp add: config_activate_def)
qed

definition demo_version :: "uuid \<Rightarrow> configuration_version" where
  "demo_version i = \<lparr>cv_id = i, cv_scope = config_scope, cv_target_id = uuid_text 7,
     cv_category = ''RISK_POLICY'', cv_sequence = int i, cv_state = CV_VALIDATED,
     cv_payload_json = JNull, cv_payload_hash = Sha256 JNull, cv_reason = ''r'', cv_created_by = uuid_text 7,
     cv_base_active_version_id = None, cv_validated_at = Some 0, cv_activated_at = None\<rparr>"

theorem stale_draft_refused_witness:
  "\<exists>v' d'. config_activate ''RISK_POLICY'' demo_config_call 2
       (empty_db\<lparr>uuid_seed := 9, configuration_versions := [demo_version 2, demo_version 3]\<rparr>) = (Inr v', d') \<and>
     fst (config_activate ''RISK_POLICY'' demo_config_call 3 d') =
       Inl (ConfigurationError ''CONFIGURATION_VERSION_CONFLICT'' 409)"
proof -
  let ?d = "empty_db\<lparr>uuid_seed := 9, configuration_versions := [demo_version 2, demo_version 3]\<rparr>"
  have inv: "config_inv ?d"
    by (simp add: config_inv_def demo_version_def one_active_def version_ok_def cv_slot_def)
  have look: "config_lookup ''RISK_POLICY'' demo_config_call 2 ?d = Inr (demo_version 2)"
    "config_lookup ''RISK_POLICY'' demo_config_call 3 ?d = Inr (demo_version 3)"
    by (simp_all add: config_lookup_def demo_version_def demo_config_call_def)
  have none: "config_active ''RISK_POLICY'' ?d (uuid_text (cf_user demo_config_call)) = None"
    by (simp add: config_active_def demo_version_def)
  have st: "cv_state (demo_version i) = CV_VALIDATED" "cv_base_active_version_id (demo_version i) = None" for i
    by (simp_all add: demo_version_def)
  obtain v' d' where act: "config_activate ''RISK_POLICY'' demo_config_call 2 ?d = (Inr v', d')"
    using config_activate_new [OF look(1) st(1)] st(2) none by simp
  show ?thesis
    using act stale_draft_refused [OF inv look(1) st(1) look(2) st(1) _ _ act] st(2) by simp
qed

end
