(* ===== verification/Market_Session.thy ===== *)
theory Market_Session
  imports Order_Creation
begin

text \<open>
  Trading days, sessions and venues: \<open>app/market_calendar.py\<close>, \<open>app/calendar_overrides.py\<close>
  and \<open>app/venue_selection.py\<close>. The Korean public holidays come from the third-party
  package \<open>holidays\<close> and are the parameter \<open>hol\<close>: the dates of a year, or
  \<open>None\<close> when the package raises.
\<close>

section \<open>Civil dates\<close>

text \<open>Year, month and day of a day number (proleptic Gregorian), and back.\<close>

definition civil_of :: "date \<Rightarrow> int \<times> int \<times> int" where
  "civil_of d =
     (let z = d + 719468; era = z div 146097; doe = z mod 146097;
          yoe = (doe - doe div 1460 + doe div 36524 - doe div 146096) div 365;
          doy = doe - (365 * yoe + yoe div 4 - yoe div 100);
          mp = (5 * doy + 2) div 153;
          dd = doy - (153 * mp + 2) div 5 + 1;
          m = (if mp < 10 then mp + 3 else mp - 9)
      in (yoe + era * 400 + (if m \<le> 2 then 1 else 0), m, dd))"

definition date_of :: "int \<Rightarrow> int \<Rightarrow> int \<Rightarrow> date" where
  "date_of y m dd =
     (let y' = (if m \<le> 2 then y - 1 else y); era = y' div 400; yoe = y' mod 400;
          doy = (153 * (if 2 < m then m - 3 else m + 9) + 2) div 5 + dd - 1;
          doe = yoe * 365 + yoe div 4 - yoe div 100 + doy
      in era * 146097 + doe - 719468)"

section \<open>Trading days\<close>

record trading_day =
  td_status :: string
  td_reason :: string
  td_policy_version :: string
  td_override_id :: "uuid option"

definition trading_day_of :: "string \<Rightarrow> string \<Rightarrow> uuid option \<Rightarrow> trading_day" where
  "trading_day_of status reason ov =
     \<lparr>td_status = status, td_reason = reason, td_policy_version = ''krx-calendar-v2'', td_override_id = ov\<rparr>"

text \<open>The loop of \<open>_year_end_closure\<close>: step back over weekends and holidays.\<close>

function year_end_from :: "date list \<Rightarrow> date \<Rightarrow> date" where
  "year_end_from hs c = (if 5 \<le> weekday c \<or> c \<in> set hs then year_end_from hs (c - 1) else c)"
  by auto

lemma weekday_pred: "5 \<le> weekday c \<Longrightarrow> weekday (c - 1) = weekday c - 1"
  by (simp add: weekday_def) presburger

lemma weekday_range: "0 \<le> weekday c" "weekday c < 7"
  by (simp_all add: weekday_def)

termination year_end_from
proof (relation "measures [\<lambda>(hs, c). card {h \<in> set hs. h \<le> c}, \<lambda>(hs, c). nat (weekday c)]")
  fix hs :: "date list" and c :: date
  assume step: "5 \<le> weekday c \<or> c \<in> set hs"
  show "((hs, c - 1), (hs, c)) \<in>
      measures [\<lambda>(hs, c). card {h \<in> set hs. h \<le> c}, \<lambda>(hs, c). nat (weekday c)]"
  proof (cases "c \<in> set hs")
    case True
    then have "{h \<in> set hs. h \<le> c - 1} \<subset> {h \<in> set hs. h \<le> c}" by force
    then have "card {h \<in> set hs. h \<le> c - 1} < card {h \<in> set hs. h \<le> c}"
      by (intro psubset_card_mono) auto
    then show ?thesis by simp
  next
    case False
    then have "{h \<in> set hs. h \<le> c - 1} = {h \<in> set hs. h \<le> c}"
      by (auto simp: order_le_less)
    moreover have "nat (weekday (c - 1)) < nat (weekday c)"
      using step False weekday_pred by simp
    ultimately show ?thesis by simp
  qed
qed simp

declare year_end_from.simps [simp del]

definition year_end_closure :: "(int \<Rightarrow> date list option) \<Rightarrow> int \<Rightarrow> date option" where
  "year_end_closure hol year =
     (case hol year of None \<Rightarrow> None | Some hs \<Rightarrow> Some (year_end_from hs (date_of year 12 31)))"

definition evaluate_krx_trading_day :: "(int \<Rightarrow> date list option) \<Rightarrow> date \<Rightarrow> trading_day" where
  "evaluate_krx_trading_day hol day =
     (let (year, month, dd) = civil_of day
      in if 5 \<le> weekday day then trading_day_of ''CLOSED'' ''WEEKEND'' None
         else if month = 5 \<and> dd = 1 then trading_day_of ''CLOSED'' ''LABOR_DAY'' None
         else (case hol year of
                 None \<Rightarrow> trading_day_of ''UNKNOWN'' ''CALENDAR_UNAVAILABLE'' None
               | Some hs \<Rightarrow>
                   if day \<in> set hs then trading_day_of ''CLOSED'' ''PUBLIC_HOLIDAY'' None
                   else if Some day = year_end_closure hol year
                     then trading_day_of ''CLOSED'' ''YEAR_END_CLOSURE'' None
                   else trading_day_of ''OPEN'' ''WEEKDAY'' None))"

section \<open>Operational closures\<close>

datatype calendar_override_error = CalendarOverrideError string int

record override_call =
  oc_user :: uuid
  oc_market_date :: date
  oc_reason :: string
  oc_source_reference :: string
  oc_correlation_id :: string
  oc_request_ip :: string
  oc_user_agent :: string
  oc_now :: instant

definition active_calendar_override :: "db \<Rightarrow> date \<Rightarrow> calendar_override option" where
  "active_calendar_override d day =
     find (\<lambda>r. co_market_date r = day \<and> co_state r = CO_ACTIVE) (calendar_overrides d)"

definition resolve_trading_day ::
  "(int \<Rightarrow> date list option) \<Rightarrow> db \<Rightarrow> date \<Rightarrow> trading_day \<times> calendar_override option" where
  "resolve_trading_day hol d day =
     (case active_calendar_override d day of
        Some r \<Rightarrow> (trading_day_of ''CLOSED'' ''OPERATIONAL_CLOSURE'' (Some (co_id r)), Some r)
      | None \<Rightarrow> (evaluate_krx_trading_day hol day, None))"

definition override_audit :: "string \<Rightarrow> uuid \<Rightarrow> string \<Rightarrow> string \<Rightarrow> string \<Rightarrow> uuid \<Rightarrow> json \<Rightarrow> audit_log" where
  "override_audit action user cid ip ua target meta =
     \<lparr>al_actor_type = ''USER'', al_actor_id = Some (uuid_text user), al_action = action,
      al_target = Some target, al_result = ''SUCCESS'', al_request_ip = Some ip, al_user_agent = Some ua,
      al_correlation_id = cid, al_metadata_json = meta\<rparr>"

text \<open>\<open>env\<close> is what other transactions commit before this one does: a second active row for
  the date makes the unique index fail at commit.\<close>

definition create_calendar_override ::
  "(db \<Rightarrow> db) \<Rightarrow> override_call \<Rightarrow> db \<Rightarrow> (calendar_override_error + calendar_override) \<times> db" where
  "create_calendar_override env oc d =
     (let current = kst_date (oc_now oc); day = oc_market_date oc;
          reason = str_strip (oc_reason oc); src = str_strip (oc_source_reference oc)
      in if day < current \<or> current + 730 < day
           then (Inl (CalendarOverrideError ''CALENDAR_OVERRIDE_DATE_OUT_OF_RANGE'' 422), d)
         else if \<not> (5 \<le> length reason \<and> length reason \<le> 200)
           then (Inl (CalendarOverrideError ''CALENDAR_OVERRIDE_REASON_INVALID'' 422), d)
         else if \<not> (3 \<le> length src \<and> length src \<le> 200)
           then (Inl (CalendarOverrideError ''CALENDAR_OVERRIDE_SOURCE_INVALID'' 422), d)
         else if active_calendar_override d day \<noteq> None
           then (Inl (CalendarOverrideError ''CALENDAR_OVERRIDE_ALREADY_ACTIVE'' 409), d)
         else
           (let d' = env d
            in if active_calendar_override d' day \<noteq> None
               then (Inl (CalendarOverrideError ''CALENDAR_OVERRIDE_ALREADY_ACTIVE'' 409), d')
               else
                 (let (i, d1) = uuid7_draw d';
                      r = \<lparr>co_id = i, co_market_date = day, co_state = CO_ACTIVE, co_reason = reason,
                        co_source_reference = src, co_created_by = oc_user oc, co_revoked_by = None,
                        co_revoked_at = None\<rparr>
                  in (Inr r, d1\<lparr>calendar_overrides := calendar_overrides d1 @ [r],
                       audit_logs := audit_logs d1 @
                         [override_audit ''MARKET_CALENDAR_OVERRIDE_CREATED'' (oc_user oc)
                           (oc_correlation_id oc) (oc_request_ip oc) (oc_user_agent oc) i
                           (JObj [(''market_date'', JDate day),
                                  (''override_type'', JStr ''OPERATIONAL_CLOSURE'')])]\<rparr>))))"

definition revoke_calendar_override ::
  "override_call \<Rightarrow> uuid \<Rightarrow> db \<Rightarrow> (calendar_override_error + calendar_override) \<times> db" where
  "revoke_calendar_override oc i d =
     (case find (\<lambda>r. co_id r = i \<and> co_state r = CO_ACTIVE) (calendar_overrides d) of
        None \<Rightarrow> (Inl (CalendarOverrideError ''CALENDAR_OVERRIDE_NOT_FOUND'' 404), d)
      | Some r \<Rightarrow>
          (let r' = r\<lparr>co_state := CO_REVOKED, co_revoked_by := Some (oc_user oc), co_revoked_at := Some (oc_now oc)\<rparr>
           in (Inr r', d\<lparr>calendar_overrides := row_upd co_id i (\<lambda>_. r') (calendar_overrides d),
                audit_logs := audit_logs d @
                  [override_audit ''MARKET_CALENDAR_OVERRIDE_REVOKED'' (oc_user oc)
                    (oc_correlation_id oc) (oc_request_ip oc) (oc_user_agent oc) i
                    (JObj [(''market_date'', JDate (co_market_date r))])]\<rparr>)))"

section \<open>Sessions\<close>

definition clock :: "int \<Rightarrow> int \<Rightarrow> int \<Rightarrow> int" where
  "clock h m s = h * 3600 + m * 60 + s"

definition classify_session ::
  "(int \<Rightarrow> date list option) \<Rightarrow> instant \<Rightarrow> trading_day option \<Rightarrow> string" where
  "classify_session hol now day =
     (let dec = (case day of None \<Rightarrow> evaluate_krx_trading_day hol (kst_date now) | Some t \<Rightarrow> t);
          t = kst_second_of_day now
      in if td_status dec \<noteq> ''OPEN'' then ''CLOSED''
         else if clock 8 0 0 \<le> t \<and> t < clock 8 50 0 then ''NXT_PRE''
         else if clock 8 50 0 \<le> t \<and> t < clock 9 0 0 then ''KRX_OPENING_AUCTION''
         else if clock 9 0 0 \<le> t \<and> t < clock 9 0 30 then ''KRX_ONLY''
         else if clock 9 0 30 \<le> t \<and> t < clock 15 20 0 then ''DUAL_CONTINUOUS''
         else if clock 15 20 0 \<le> t \<and> t < clock 15 30 0 then ''KRX_CLOSING_AUCTION''
         else if clock 15 30 0 \<le> t \<and> t < clock 15 40 0 then ''NXT_AFTER_AUCTION''
         else if clock 15 40 0 \<le> t \<and> t < clock 20 0 0 then ''NXT_AFTER''
         else ''CLOSED'')"

section \<open>Venue selection\<close>

record venue_quote =
  q_market :: string
  q_snapshot_id :: uuid
  q_bid_price :: "decimal option"
  q_bid_quantity :: "int option"
  q_ask_price :: "decimal option"
  q_ask_quantity :: "int option"
  q_trading_status :: string
  q_quality :: string
  q_event_at :: instant

definition quote_from_snapshot :: "market_snapshot option \<Rightarrow> venue_quote option" where
  "quote_from_snapshot s =
     map_option (\<lambda>m. \<lparr>q_market = m_market m, q_snapshot_id = m_id m, q_bid_price = m_best_bid_price m,
       q_bid_quantity = m_best_bid_quantity m, q_ask_price = m_best_ask_price m,
       q_ask_quantity = m_best_ask_quantity m, q_trading_status = m_trading_status m,
       q_quality = m_quality m, q_event_at = m_event_at m\<rparr>) s"

definition side_price :: "string \<Rightarrow> venue_quote \<Rightarrow> decimal option" where
  "side_price side q = (if side = ''BUY'' then q_ask_price q else q_bid_price q)"

definition side_quantity :: "string \<Rightarrow> venue_quote \<Rightarrow> int option" where
  "side_quantity side q = (if side = ''BUY'' then q_ask_quantity q else q_bid_quantity q)"

definition quote_valid :: "venue_quote option \<Rightarrow> string \<Rightarrow> instant \<Rightarrow> int \<Rightarrow> bool" where
  "quote_valid qo side now max_age =
     (case qo of
        None \<Rightarrow> False
      | Some q \<Rightarrow>
          q_quality q = ''NORMAL'' \<and> q_trading_status q = ''TRADING'' \<and>
          q_event_at q \<le> now \<and> now - q_event_at q \<le> seconds max_age \<and>
          (case side_price side q of None \<Rightarrow> False | Some p \<Rightarrow> 0 < p) \<and>
          (case side_quantity side q of None \<Rightarrow> False | Some n \<Rightarrow> 0 < n))"

text \<open>\<open>_choose_dual\<close> asserts that both quotes have the price and quantity of the side.\<close>

definition choose_dual :: "venue_quote \<Rightarrow> venue_quote \<Rightarrow> string \<Rightarrow> string \<Rightarrow> (string \<times> string) option" where
  "choose_dual krx nxt side urgency =
     (case (side_price side krx, side_price side nxt, side_quantity side krx, side_quantity side nxt) of
        (Some kp, Some np, Some kq, Some nq) \<Rightarrow>
          Some (if urgency = ''EMERGENCY'' \<and> kq \<noteq> nq then
                  (if nq < kq then (''KRX'', ''EMERGENCY_LIQUIDITY_KRX'')
                   else (''NXT'', ''EMERGENCY_LIQUIDITY_NXT''))
                else if kp \<noteq> np then
                  (if (if side = ''BUY'' then kp < np else np < kp)
                   then (''KRX'', ''BETTER_EXECUTABLE_PRICE_KRX'')
                   else (''NXT'', ''BETTER_EXECUTABLE_PRICE_NXT''))
                else if kq \<noteq> nq then
                  (if nq < kq then (''KRX'', ''GREATER_DISPLAYED_LIQUIDITY_KRX'')
                   else (''NXT'', ''GREATER_DISPLAYED_LIQUIDITY_NXT''))
                else (''KRX'', ''DETERMINISTIC_KRX_TIE_BREAK''))
      | _ \<Rightarrow> None)"

record venue_result =
  vr_session :: string
  vr_day :: trading_day
  vr_selected_venue :: string
  vr_state :: string
  vr_reason_codes :: "string list"
  vr_krx_quote_valid :: bool
  vr_nxt_quote_valid :: bool

record venue_input =
  vi_side :: string
  vi_urgency :: string
  vi_environment :: string
  vi_nxt_eligibility_status :: string
  vi_sor_supported :: bool
  vi_krx_quote :: "venue_quote option"
  vi_nxt_quote :: "venue_quote option"
  vi_max_age_seconds :: int

text \<open>The decision of \<open>select_venue\<close> from the day's status, the session and the validity of
  the two quotes: venue, state and reason codes. \<open>None\<close> stands for the failing
  \<open>assert\<close> (\<open>venue_choice_total\<close>: it cannot fail).\<close>

definition venue_choice ::
  "string \<Rightarrow> string \<Rightarrow> bool \<Rightarrow> bool \<Rightarrow> venue_input \<Rightarrow> (string \<times> string \<times> string list) option" where
  "venue_choice status session krx_valid nxt_valid vi =
     (let wait = (\<lambda>reason. Some (''WAIT'', ''WAIT'', [reason]));
          mock_note = (if vi_environment vi = ''MOCK'' then [''MOCK_NXT_EXECUTION_UNAVAILABLE''] else [])
      in if status = ''UNKNOWN'' then wait ''CALENDAR_UNAVAILABLE''
         else if session = ''CLOSED'' then wait ''SESSION_CLOSED''
         else if session \<in> {''KRX_OPENING_AUCTION'', ''KRX_CLOSING_AUCTION''} then wait ''AUCTION_TRADING_DISABLED''
         else if session = ''NXT_AFTER_AUCTION'' then wait ''NXT_AFTER_AUCTION_DISABLED''
         else if session \<in> {''NXT_PRE'', ''NXT_AFTER''} then
           (if vi_nxt_eligibility_status vi = ''UNKNOWN'' then wait ''NXT_ELIGIBILITY_UNVERIFIED''
            else if vi_nxt_eligibility_status vi \<noteq> ''VERIFIED'' then wait ''NXT_SYMBOL_INELIGIBLE''
            else if \<not> nxt_valid then wait ''NO_FRESH_EXECUTABLE_NXT_QUOTE''
            else Some (''NXT'', ''SELECTED'', ''NXT_ONLY_SESSION'' # mock_note))
         else if session = ''KRX_ONLY'' then
           (if \<not> krx_valid then wait ''NO_FRESH_EXECUTABLE_KRX_QUOTE''
            else Some (''KRX'', ''SELECTED'', [''KRX_ONLY_SESSION'']))
         else if krx_valid \<and> nxt_valid then
           (if vi_sor_supported vi \<and> vi_environment vi = ''REAL''
            then Some (''SOR'', ''SELECTED'', [''BROKER_SOR_AVAILABLE''])
            else (case (vi_krx_quote vi, vi_nxt_quote vi) of
                    (Some k, Some n) \<Rightarrow>
                      map_option (\<lambda>(venue, reason). (venue, ''SELECTED'', [reason]))
                        (choose_dual k n (vi_side vi) (vi_urgency vi))
                  | _ \<Rightarrow> None))
         else if krx_valid then Some (''KRX'', ''SELECTED'', [''SINGLE_FRESH_VENUE'', ''ONLY_KRX_QUOTE_VALID''])
         else if nxt_valid
           then Some (''NXT'', ''SELECTED'', [''SINGLE_FRESH_VENUE'', ''ONLY_NXT_QUOTE_VALID''] @ mock_note)
         else wait ''NO_FRESH_EXECUTABLE_QUOTE'')"

definition select_venue ::
  "(int \<Rightarrow> date list option) \<Rightarrow> instant \<Rightarrow> trading_day option \<Rightarrow> venue_input \<Rightarrow> venue_result option" where
  "select_venue hol now trading_day vi =
     (let day = (case trading_day of None \<Rightarrow> evaluate_krx_trading_day hol (kst_date now) | Some t \<Rightarrow> t);
          session = classify_session hol now (Some day);
          krx_valid = quote_valid (vi_krx_quote vi) (vi_side vi) now (vi_max_age_seconds vi);
          nxt_valid = (vi_nxt_eligibility_status vi = ''VERIFIED'' \<and>
            quote_valid (vi_nxt_quote vi) (vi_side vi) now (vi_max_age_seconds vi))
      in map_option (\<lambda>(venue, state, reasons).
            \<lparr>vr_session = session, vr_day = day, vr_selected_venue = venue, vr_state = state,
             vr_reason_codes = reasons, vr_krx_quote_valid = krx_valid, vr_nxt_quote_valid = nxt_valid\<rparr>)
         (venue_choice (td_status day) session krx_valid nxt_valid vi))"

definition quote_record :: "venue_quote option \<Rightarrow> bool \<Rightarrow> json" where
  "quote_record qo valid =
     json_opt (\<lambda>q. JObj [(''ask_price'', json_opt JDec (q_ask_price q)),
       (''ask_quantity'', json_opt JInt (q_ask_quantity q)), (''bid_price'', json_opt JDec (q_bid_price q)),
       (''bid_quantity'', json_opt JInt (q_bid_quantity q)), (''event_at'', JTime (q_event_at q)),
       (''market'', JStr (q_market q)), (''snapshot_id'', json_uuid (q_snapshot_id q)),
       (''valid'', JBool valid)]) qo"

record venue_request =
  vq_owner :: uuid
  vq_symbol :: string
  vq_side :: string
  vq_quantity :: int
  vq_order_type :: string
  vq_urgency :: string
  vq_environment :: string
  vq_nxt_eligibility_status :: string
  vq_sor_supported :: bool
  vq_max_age_seconds :: int

definition venue_input_json :: "venue_request \<Rightarrow> instant \<Rightarrow> venue_result \<Rightarrow> venue_quote option \<Rightarrow> venue_quote option \<Rightarrow> json" where
  "venue_input_json vq now r k n =
     JObj [(''calendar_override_id'', json_opt json_uuid (td_override_id (vr_day r))),
       (''calendar_policy_version'', JStr (td_policy_version (vr_day r))),
       (''calendar_reason'', JStr (td_reason (vr_day r))), (''environment'', JStr (vq_environment vq)),
       (''evaluated_at'', JTime now), (''execution_stage'', JStr ''SHADOW''),
       (''nxt_eligibility_status'', JStr (vq_nxt_eligibility_status vq)),
       (''nxt_eligible'', JBool (vq_nxt_eligibility_status vq = ''VERIFIED'')),
       (''order_type'', JStr (vq_order_type vq)), (''policy_version'', JStr ''venue-selection-v2''),
       (''quantity'', JInt (vq_quantity vq)),
       (''quotes'', JObj [(''KRX'', quote_record k (vr_krx_quote_valid r)),
                          (''NXT'', quote_record n (vr_nxt_quote_valid r))]),
       (''schema_version'', JStr ''venue-selection-input-v1''), (''session'', JStr (vr_session r)),
       (''side'', JStr (vq_side vq)), (''sor_supported'', JBool (vq_sor_supported vq)),
       (''symbol'', JStr (vq_symbol vq)), (''trading_day_status'', JStr (td_status (vr_day r))),
       (''urgency'', JStr (vq_urgency vq))]"

definition venue_input_of :: "venue_request \<Rightarrow> market_snapshot option \<Rightarrow> market_snapshot option \<Rightarrow> venue_input" where
  "venue_input_of vq krx nxt =
     \<lparr>vi_side = vq_side vq, vi_urgency = vq_urgency vq, vi_environment = vq_environment vq,
      vi_nxt_eligibility_status = vq_nxt_eligibility_status vq, vi_sor_supported = vq_sor_supported vq,
      vi_krx_quote = quote_from_snapshot krx, vi_nxt_quote = quote_from_snapshot nxt,
      vi_max_age_seconds = vq_max_age_seconds vq\<rparr>"

definition evaluate_and_store_venue_selection ::
  "(int \<Rightarrow> date list option) \<Rightarrow> instant \<Rightarrow> venue_request \<Rightarrow> market_snapshot option \<Rightarrow> market_snapshot option \<Rightarrow>
     db \<Rightarrow> (venue_evaluation \<times> db) option" where
  "evaluate_and_store_venue_selection hol now vq krx nxt d =
     (let (day, override) = resolve_trading_day hol d (kst_date now)
      in map_option (\<lambda>r.
           (let (i, d1) = uuid7_draw d;
                input = venue_input_json vq now r (quote_from_snapshot krx) (quote_from_snapshot nxt);
                ev = \<lparr>ve_id = i, ve_owner_id = vq_owner vq, ve_symbol = vq_symbol vq, ve_side = vq_side vq,
                  ve_quantity = vq_quantity vq, ve_order_type = vq_order_type vq, ve_urgency = vq_urgency vq,
                  ve_environment = vq_environment vq, ve_execution_stage = ''SHADOW'',
                  ve_session = vr_session r, ve_trading_day_status = td_status (vr_day r),
                  ve_calendar_reason = td_reason (vr_day r),
                  ve_calendar_policy_version = td_policy_version (vr_day r),
                  ve_calendar_override_id = map_option co_id override,
                  ve_nxt_eligible = (vq_nxt_eligibility_status vq = ''VERIFIED''),
                  ve_nxt_eligibility_status = vq_nxt_eligibility_status vq,
                  ve_sor_supported = vq_sor_supported vq, ve_selected_venue = vr_selected_venue r,
                  ve_state = vr_state r, ve_order_creation_allowed = False,
                  ve_krx_snapshot_id = map_option m_id krx, ve_nxt_snapshot_id = map_option m_id nxt,
                  ve_input_json = input, ve_input_hash = Sha256 input,
                  ve_reason_codes = vr_reason_codes r, ve_policy_version = ''venue-selection-v2'',
                  ve_evaluated_at = now\<rparr>
            in (ev, d1\<lparr>venue_evaluations := venue_evaluations d1 @ [ev]\<rparr>)))
         (select_venue hol now (Some day) (venue_input_of vq krx nxt)))"

end
