(* ===== verification/Market_Properties.thy ===== *)
theory Market_Properties
  imports Market_Session
begin

text \<open>
  What the calendar, the operational closures and the venue selection promise.
\<close>

section \<open>Calendar\<close>

lemma year_end_from_props:
  "year_end_from hs c \<le> c" "weekday (year_end_from hs c) < 5" "year_end_from hs c \<notin> set hs"
  "year_end_from hs c < e \<Longrightarrow> e \<le> c \<Longrightarrow> 5 \<le> weekday e \<or> e \<in> set hs"
proof (induction hs c rule: year_end_from.induct)
  case (1 hs c)
  show "year_end_from hs c \<le> c" using 1(1) by (subst year_end_from.simps) auto
  show "weekday (year_end_from hs c) < 5" using 1(2) by (subst year_end_from.simps) auto
  show "year_end_from hs c \<notin> set hs" using 1(3) by (subst year_end_from.simps) auto
  assume "year_end_from hs c < e" "e \<le> c"
  then show "5 \<le> weekday e \<or> e \<in> set hs"
    using 1(4) by (cases "e = c") (auto simp: year_end_from.simps [of hs c] split: if_splits)
qed

text \<open>C11. The year-end closure is the last business day of the year: it is no later than December 31,
  a weekday that is not a public holiday, and every later day of the year is a weekend day or a
  holiday. The loop that finds it ends for every holiday table.\<close>
theorem year_end_closure_is_last_business_day:
  assumes "hol year = Some hs"
  shows "\<exists>c. year_end_closure hol year = Some c \<and> c \<le> date_of year 12 31 \<and> weekday c < 5 \<and> c \<notin> set hs \<and>
    (\<forall>e. c < e \<and> e \<le> date_of year 12 31 \<longrightarrow> 5 \<le> weekday e \<or> e \<in> set hs)"
  using assms year_end_from_props [of hs "date_of year 12 31"] by (auto simp: year_end_closure_def)

theorem year_end_closure_is_last_business_day_witness:
  "\<exists>c. year_end_closure (\<lambda>_. Some [date_of 2026 12 31]) 2026 = Some c \<and> c \<noteq> date_of 2026 12 31"
  using year_end_closure_is_last_business_day [of "\<lambda>_. Some [date_of 2026 12 31]" 2026] by auto

section \<open>Operational closures\<close>

definition overrides_inv :: "db \<Rightarrow> bool" where
  "overrides_inv d \<longleftrightarrow>
     distinct (map co_id (calendar_overrides d)) \<and>
     (\<forall>r \<in> set (calendar_overrides d). co_id r < uuid_seed d) \<and>
     distinct (map co_market_date (filter (\<lambda>r. co_state r = CO_ACTIVE) (calendar_overrides d)))"

lemma active_override_None:
  "active_calendar_override d day = None \<Longrightarrow> r \<in> set (calendar_overrides d) \<Longrightarrow> co_state r = CO_ACTIVE \<Longrightarrow>
   co_market_date r \<noteq> day"
  by (auto simp: active_calendar_override_def find_None_iff)

lemma create_override_inv:
  assumes "overrides_inv d" "overrides_inv (env d)"
  shows "overrides_inv (snd (create_calendar_override env oc d))"
proof -
  let ?e = "env d" and ?day = "oc_market_date oc"
  have new: "overrides_inv (?e\<lparr>uuid_seed := uuid_seed ?e + 1, calendar_overrides := calendar_overrides ?e @ [r],
      audit_logs := a\<rparr>)"
    if "active_calendar_override ?e ?day = None" "co_id r = uuid_seed ?e" "co_market_date r = ?day" for r a
    using assms(2) that active_override_None [OF that(1)]
    by (force simp: overrides_inv_def less_Suc_eq)
  show ?thesis
    using assms new by (auto simp: create_calendar_override_def uuid7_draw_def Let_def)
qed

lemma filter_row_upd_remove:
  assumes "distinct (map key rs)" "key r' = k" "\<not> P r'"
  shows "filter P (row_upd key k (\<lambda>_. r') rs) = filter (\<lambda>x. P x \<and> key x \<noteq> k) rs"
  using assms by (induction rs) (auto simp: row_upd_def)

lemma revoke_override_inv:
  assumes inv: "overrides_inv d"
  shows "overrides_inv (snd (revoke_calendar_override oc i d))"
proof (cases "find (\<lambda>r. co_id r = i \<and> co_state r = CO_ACTIVE) (calendar_overrides d)")
  case None
  with inv show ?thesis by (simp add: revoke_calendar_override_def)
next
  case (Some r)
  let ?P = "\<lambda>r. co_state r = CO_ACTIVE" and ?rs = "calendar_overrides d"
  let ?r' = "r\<lparr>co_state := CO_REVOKED, co_revoked_by := Some (oc_user oc), co_revoked_at := Some (oc_now oc)\<rparr>"
  have r: "co_id r = i" "r \<in> set ?rs" using Some by (auto simp: find_Some_iff)
  have d: "distinct (map co_id ?rs)" using inv by (simp add: overrides_inv_def)
  have "map co_id (row_upd co_id i (\<lambda>_. ?r') ?rs) = map co_id ?rs"
    using r by (intro map_row_upd_same) simp
  moreover have "\<forall>x \<in> set (row_upd co_id i (\<lambda>_. ?r') ?rs). co_id x < uuid_seed d"
    using inv r by (intro ball_row_upd) (auto simp: overrides_inv_def)
  moreover have "filter ?P (row_upd co_id i (\<lambda>_. ?r') ?rs) = filter (\<lambda>x. ?P x \<and> co_id x \<noteq> i) ?rs"
    using filter_row_upd_remove [OF d, of ?r' i ?P] r by simp
  moreover have "distinct (map co_market_date (filter (\<lambda>x. ?P x \<and> co_id x \<noteq> i) ?rs))"
    using inv distinct_map_filter [of co_market_date "filter ?P ?rs" "\<lambda>x. co_id x \<noteq> i"]
    by (simp add: overrides_inv_def)
  ultimately show ?thesis
    using inv Some d by (simp add: revoke_calendar_override_def overrides_inv_def Let_def)
qed

lemma operational_closure_round_trip_facts:
  assumes inv: "overrides_inv d" "overrides_inv (env d)"
    and cr: "create_calendar_override env oc d = (Inr r, d')"
  shows "overrides_inv d'"
    and "resolve_trading_day hol d' (oc_market_date oc) =
      (trading_day_of ''CLOSED'' ''OPERATIONAL_CLOSURE'' (Some (co_id r)), Some r)"
    and "\<exists>e. create_calendar_override env' oc d' = (Inl e, d')"
    and "\<exists>r' d''. revoke_calendar_override oc' (co_id r) d' = (Inr r', d'') \<and> overrides_inv d'' \<and>
      resolve_trading_day hol d'' (oc_market_date oc) = (evaluate_krx_trading_day hol (oc_market_date oc), None)"
proof -
  let ?e = "env d" and ?day = "oc_market_date oc"
  show inv': "overrides_inv d'" using create_override_inv [of d env, OF inv, of oc] cr by simp
  have none: "active_calendar_override ?e ?day = None" and rows: "calendar_overrides d' = calendar_overrides ?e @ [r]"
    and r: "co_market_date r = ?day" "co_state r = CO_ACTIVE" "co_id r = uuid_seed ?e"
    using cr by (auto simp: create_calendar_override_def uuid7_draw_def Let_def split: if_splits)
  have act: "active_calendar_override d' ?day = Some r"
    using none r by (simp add: active_calendar_override_def rows find_append)
  then show "resolve_trading_day hol d' ?day =
      (trading_day_of ''CLOSED'' ''OPERATIONAL_CLOSURE'' (Some (co_id r)), Some r)"
    by (simp add: resolve_trading_day_def)
  show "\<exists>e. create_calendar_override env' oc d' = (Inl e, d')"
    using act by (simp add: create_calendar_override_def Let_def)
  have fresh: "co_id r \<notin> co_id ` set (calendar_overrides ?e)"
    using inv(2) r(3) by (auto simp: overrides_inv_def)
  have find: "find (\<lambda>x. co_id x = co_id r \<and> co_state x = CO_ACTIVE) (calendar_overrides d') = Some r"
  proof -
    have "find (\<lambda>x. co_id x = co_id r \<and> co_state x = CO_ACTIVE) (calendar_overrides ?e) = None"
      using fresh by (auto simp: find_None_iff image_iff)
    then show ?thesis using r(2) by (simp add: rows find_append)
  qed
  let ?r' = "r\<lparr>co_state := CO_REVOKED, co_revoked_by := Some (oc_user oc'), co_revoked_at := Some (oc_now oc')\<rparr>"
  obtain d'' where rev: "revoke_calendar_override oc' (co_id r) d' = (Inr ?r', d'')"
    and rows'': "calendar_overrides d'' = calendar_overrides ?e @ [?r']"
    using find row_upd_absent [OF fresh] by (simp add: revoke_calendar_override_def Let_def rows row_upd_def)
  have "active_calendar_override d'' ?day = None"
    using none by (simp add: active_calendar_override_def rows'' find_append)
  then show "\<exists>r' d''. revoke_calendar_override oc' (co_id r) d' = (Inr r', d'') \<and> overrides_inv d'' \<and>
      resolve_trading_day hol d'' ?day = (evaluate_krx_trading_day hol ?day, None)"
    using rev revoke_override_inv [OF inv', of oc' "co_id r"] by (auto simp: resolve_trading_day_def)
qed

text \<open>An operational closure closes its day: after it is accepted the day resolves to CLOSED with
  reason OPERATIONAL_CLOSURE whatever the exchange calendar says, a second closure of the day is
  refused, at most one closure per day is ever active, and revoking it gives the day back to the
  exchange calendar.\<close>
theorem operational_closure_round_trip:
  assumes inv: "overrides_inv d" "overrides_inv (env d)"
    and cr: "create_calendar_override env oc d = (Inr r, d')"
  shows "(overrides_inv d') \<and>
    (resolve_trading_day hol d' (oc_market_date oc) =
      (trading_day_of ''CLOSED'' ''OPERATIONAL_CLOSURE'' (Some (co_id r)), Some r)) \<and>
    (\<exists>e. create_calendar_override env' oc d' = (Inl e, d')) \<and>
    (\<exists>r' d''. revoke_calendar_override oc' (co_id r) d' = (Inr r', d'') \<and> overrides_inv d'' \<and>
      resolve_trading_day hol d'' (oc_market_date oc) = (evaluate_krx_trading_day hol (oc_market_date oc), None))"
  by (intro conjI impI; rule operational_closure_round_trip_facts [OF assms]; assumption)

definition demo_override_call :: override_call where
  "demo_override_call = \<lparr>oc_user = 7, oc_market_date = 3, oc_reason = ''outage'', oc_source_reference = ''KRX notice'',
     oc_correlation_id = ''c'', oc_request_ip = ''ip'', oc_user_agent = ''ua'', oc_now = 0\<rparr>"

lemma demo_override_texts:
  "str_strip (oc_reason demo_override_call) = ''outage''"
  "str_strip (oc_source_reference demo_override_call) = ''KRX notice''"
  by code_simp+

lemma demo_override_created:
  "\<exists>r d'. create_calendar_override (\<lambda>d. d) demo_override_call empty_db = (Inr r, d')"
  by (simp add: create_calendar_override_def demo_override_texts active_calendar_override_def empty_db_def
      uuid7_draw_def Let_def kst_date_def kst_offset_def seconds_def)
    (simp add: demo_override_call_def)

theorem operational_closure_round_trip_witness:
  "\<exists>r d'. create_calendar_override (\<lambda>d. d) demo_override_call empty_db = (Inr r, d') \<and>
     fst (resolve_trading_day (\<lambda>_. Some []) d' 3) = trading_day_of ''CLOSED'' ''OPERATIONAL_CLOSURE'' (Some (co_id r))"
proof -
  obtain r d' where cr: "create_calendar_override (\<lambda>d. d) demo_override_call empty_db = (Inr r, d')"
    using demo_override_created by blast
  have "overrides_inv empty_db" by (simp add: overrides_inv_def empty_db_def)
  moreover have "oc_market_date demo_override_call = 3" by (simp add: demo_override_call_def)
  ultimately show ?thesis
    using cr operational_closure_round_trip [of empty_db "\<lambda>d. d", OF _ _ cr, of "\<lambda>_. Some []"] by auto
qed

section \<open>Venue selection\<close>

lemma quote_valid_SomeE:
  assumes "quote_valid qo side now age"
  obtains q p n where "qo = Some q" "side_price side q = Some p" "side_quantity side q = Some n" "0 < p" "0 < n"
  using assms by (auto simp: quote_valid_def split: option.splits)

lemma choose_dual_total:
  assumes "quote_valid (Some k) side now age" "quote_valid (Some n) side now age"
  obtains r where "choose_dual k n side urgency = Some r" "fst r \<in> {''KRX'', ''NXT''}"
proof -
  obtain kp kq where "side_price side k = Some kp" "side_quantity side k = Some kq"
    using assms(1) by (auto elim: quote_valid_SomeE)
  moreover obtain np nq where "side_price side n = Some np" "side_quantity side n = Some nq"
    using assms(2) by (auto elim: quote_valid_SomeE)
  ultimately show thesis using that by (auto simp: choose_dual_def)
qed

text \<open>The assertions of \<open>select_venue\<close> and \<open>_choose_dual\<close> never fail.\<close>

lemma dual_choice_total:
  assumes "quote_valid (vi_krx_quote vi) (vi_side vi) now age" "quote_valid (vi_nxt_quote vi) (vi_side vi) now age"
  obtains k n v rs where "vi_krx_quote vi = Some k" "vi_nxt_quote vi = Some n"
    "choose_dual k n (vi_side vi) (vi_urgency vi) = Some (v, rs)" "v = ''KRX'' \<or> v = ''NXT''"
proof -
  obtain k n where q: "vi_krx_quote vi = Some k" "vi_nxt_quote vi = Some n"
    using assms by (cases "vi_krx_quote vi"; cases "vi_nxt_quote vi") (auto simp: quote_valid_def)
  obtain r where "choose_dual k n (vi_side vi) (vi_urgency vi) = Some r" "fst r \<in> {''KRX'', ''NXT''}"
    using choose_dual_total [of k "vi_side vi" now age n] assms q by metis
  with q that show thesis by (cases r) auto
qed

lemma venue_choice_total:
  assumes "kv = quote_valid (vi_krx_quote vi) (vi_side vi) now age"
    "nv = (vi_nxt_eligibility_status vi = ''VERIFIED'' \<and> quote_valid (vi_nxt_quote vi) (vi_side vi) now age)"
  shows "venue_choice st ss kv nv vi \<noteq> None"
proof (cases "kv \<and> nv")
  case True
  with assms obtain k n v rs where "vi_krx_quote vi = Some k" "vi_nxt_quote vi = Some n"
    "choose_dual k n (vi_side vi) (vi_urgency vi) = Some (v, rs)" by (auto elim: dual_choice_total)
  then show ?thesis by (simp add: venue_choice_def Let_def)
next
  case False
  then show ?thesis by (auto simp: venue_choice_def Let_def)
qed

lemma choose_dual_venue: "choose_dual k n sd ur = Some (v, rs) \<Longrightarrow> v = ''KRX'' \<or> v = ''NXT''"
  by (auto simp: choose_dual_def split: option.splits if_splits)

lemma session_values:
  "classify_session hol now (Some dd) = ''CLOSED'' \<or> (td_status dd = ''OPEN'' \<and>
     classify_session hol now (Some dd) \<in> {''NXT_PRE'', ''KRX_OPENING_AUCTION'', ''KRX_ONLY'', ''DUAL_CONTINUOUS'',
       ''KRX_CLOSING_AUCTION'', ''NXT_AFTER_AUCTION'', ''NXT_AFTER''})"
  by (simp add: classify_session_def Let_def)

text \<open>What \<open>venue_choice\<close> may return in each session.\<close>

lemma venue_choice_wait_sessions:
  "ss \<in> {''CLOSED'', ''KRX_OPENING_AUCTION'', ''KRX_CLOSING_AUCTION'', ''NXT_AFTER_AUCTION''} \<Longrightarrow>
   venue_choice st ss kv nv vi = Some (v, state, rs) \<Longrightarrow> v = ''WAIT'' \<and> state = ''WAIT''"
  by (auto simp: venue_choice_def Let_def split: if_splits)

lemma venue_choice_nxt_sessions:
  "ss \<in> {''NXT_PRE'', ''NXT_AFTER''} \<Longrightarrow> venue_choice st ss kv nv vi = Some (v, state, rs) \<Longrightarrow>
   (v = ''WAIT'' \<and> state = ''WAIT'') \<or> (v = ''NXT'' \<and> state = ''SELECTED'' \<and> nv)"
  by (auto simp: venue_choice_def Let_def split: if_splits)

lemma venue_choice_krx_session:
  "venue_choice st ''KRX_ONLY'' kv nv vi = Some (v, state, rs) \<Longrightarrow>
   (v = ''WAIT'' \<and> state = ''WAIT'') \<or> (v = ''KRX'' \<and> state = ''SELECTED'' \<and> kv)"
  by (auto simp: venue_choice_def Let_def split: if_splits)

lemma venue_choice_dual_session:
  "venue_choice st ''DUAL_CONTINUOUS'' kv nv vi = Some (v, state, rs) \<Longrightarrow>
   (v = ''WAIT'' \<and> state = ''WAIT'') \<or> (v = ''KRX'' \<and> state = ''SELECTED'' \<and> kv) \<or>
   (v = ''NXT'' \<and> state = ''SELECTED'' \<and> nv) \<or>
   (v = ''SOR'' \<and> state = ''SELECTED'' \<and> nv \<and> vi_sor_supported vi \<and> vi_environment vi = ''REAL'')"
  by (auto simp: venue_choice_def Let_def dest!: choose_dual_venue split: if_splits option.splits)

text \<open>A venue is selected only when it can execute: nothing is selected unless the day is open;
  KRX needs a fresh executable KRX quote and a KRX session, NXT needs a verified symbol, a fresh
  executable NXT quote and an NXT session, and SOR is chosen only in a real environment that
  supports it. The selection is total, and its state says SELECTED exactly when a venue was
  chosen.\<close>
theorem venue_selection_executable:
  "\<exists>r. select_venue hol now day vi = Some r \<and>
     vr_day r = (case day of None \<Rightarrow> evaluate_krx_trading_day hol (kst_date now) | Some t \<Rightarrow> t) \<and>
     vr_session r = classify_session hol now (Some (vr_day r)) \<and>
     (vr_state r = ''SELECTED'' \<longleftrightarrow> vr_selected_venue r \<noteq> ''WAIT'') \<and>
     (td_status (vr_day r) \<noteq> ''OPEN'' \<longrightarrow> vr_selected_venue r = ''WAIT'') \<and>
     (vr_selected_venue r = ''KRX'' \<longrightarrow>
        quote_valid (vi_krx_quote vi) (vi_side vi) now (vi_max_age_seconds vi) \<and>
        vr_session r \<in> {''KRX_ONLY'', ''DUAL_CONTINUOUS''}) \<and>
     (vr_selected_venue r = ''NXT'' \<longrightarrow>
        vi_nxt_eligibility_status vi = ''VERIFIED'' \<and>
        quote_valid (vi_nxt_quote vi) (vi_side vi) now (vi_max_age_seconds vi) \<and>
        vr_session r \<in> {''NXT_PRE'', ''DUAL_CONTINUOUS'', ''NXT_AFTER''}) \<and>
     (vr_selected_venue r = ''SOR'' \<longrightarrow>
        vi_sor_supported vi \<and> vi_environment vi = ''REAL'' \<and> vi_nxt_eligibility_status vi = ''VERIFIED'')"
proof -
  define dd where "dd = (case day of None \<Rightarrow> evaluate_krx_trading_day hol (kst_date now) | Some t \<Rightarrow> t)"
  define ss where "ss = classify_session hol now (Some dd)"
  define kv where "kv = quote_valid (vi_krx_quote vi) (vi_side vi) now (vi_max_age_seconds vi)"
  define nv where "nv = (vi_nxt_eligibility_status vi = ''VERIFIED'' \<and>
     quote_valid (vi_nxt_quote vi) (vi_side vi) now (vi_max_age_seconds vi))"
  obtain v state rs where ch: "venue_choice (td_status dd) ss kv nv vi = Some (v, state, rs)"
    using venue_choice_total [OF kv_def nv_def] by (metis option.exhaust prod_cases3)
  let ?r = "\<lparr>vr_session = ss, vr_day = dd, vr_selected_venue = v, vr_state = state, vr_reason_codes = rs,
     vr_krx_quote_valid = kv, vr_nxt_quote_valid = nv\<rparr>"
  have sel: "select_venue hol now day vi = Some ?r"
    using ch by (simp add: select_venue_def Let_def flip: dd_def ss_def kv_def nv_def)
  have ss: "ss = ''CLOSED'' \<or> (td_status dd = ''OPEN'' \<and> ss \<in> {''NXT_PRE'', ''KRX_OPENING_AUCTION'',
     ''KRX_ONLY'', ''DUAL_CONTINUOUS'', ''KRX_CLOSING_AUCTION'', ''NXT_AFTER_AUCTION'', ''NXT_AFTER''})"
    unfolding ss_def by (rule session_values)
  have "(v = ''WAIT'' \<and> state = ''WAIT'') \<or> (state = ''SELECTED'' \<and> td_status dd = ''OPEN'' \<and>
     ((v = ''KRX'' \<and> kv \<and> ss \<in> {''KRX_ONLY'', ''DUAL_CONTINUOUS''}) \<or>
      (v = ''NXT'' \<and> nv \<and> ss \<in> {''NXT_PRE'', ''DUAL_CONTINUOUS'', ''NXT_AFTER''}) \<or>
      (v = ''SOR'' \<and> nv \<and> vi_sor_supported vi \<and> vi_environment vi = ''REAL'')))"
    using ss
  proof (elim disjE conjE insertE emptyE)
    assume "ss = ''KRX_ONLY''" "td_status dd = ''OPEN''"
    then show ?thesis using venue_choice_krx_session ch by simp blast
  next
    assume "ss = ''DUAL_CONTINUOUS''" "td_status dd = ''OPEN''"
    then show ?thesis using venue_choice_dual_session ch by simp blast
  qed (use venue_choice_wait_sessions [OF _ ch] venue_choice_nxt_sessions [OF _ ch] in auto)
  with sel show ?thesis unfolding kv_def nv_def by (auto simp: dd_def ss_def)
qed

definition demo_quote :: "string \<Rightarrow> uuid \<Rightarrow> decimal \<Rightarrow> int \<Rightarrow> venue_quote" where
  "demo_quote m i price n = \<lparr>q_market = m, q_snapshot_id = i, q_bid_price = Some (price - 10),
     q_bid_quantity = Some n, q_ask_price = Some price, q_ask_quantity = Some n,
     q_trading_status = ''TRADING'', q_quality = ''NORMAL'', q_event_at = 0\<rparr>"

definition demo_venue_input :: venue_input where
  "demo_venue_input = \<lparr>vi_side = ''BUY'', vi_urgency = ''NORMAL'', vi_environment = ''MOCK'',
     vi_nxt_eligibility_status = ''VERIFIED'', vi_sor_supported = False,
     vi_krx_quote = Some (demo_quote ''KRX'' 1 70000 10), vi_nxt_quote = Some (demo_quote ''NXT'' 2 69900 20),
     vi_max_age_seconds = 2\<rparr>"

theorem venue_selection_executable_witness:
  "\<exists>r. select_venue (\<lambda>_. Some []) 0 (Some (trading_day_of ''CLOSED'' ''PUBLIC_HOLIDAY'' None)) demo_venue_input = Some r \<and>
     vr_selected_venue r = ''WAIT''"
proof -
  let ?day = "trading_day_of ''CLOSED'' ''PUBLIC_HOLIDAY'' None"
  obtain r where r: "select_venue (\<lambda>_. Some []) 0 (Some ?day) demo_venue_input = Some r" "vr_day r = ?day"
    "td_status (vr_day r) \<noteq> ''OPEN'' \<longrightarrow> vr_selected_venue r = ''WAIT''"
    using venue_selection_executable [of "\<lambda>_. Some []" 0 "Some ?day" demo_venue_input] by auto
  have "td_status ?day = ''CLOSED''" by (simp add: trading_day_of_def)
  with r show ?thesis by simp
qed

text \<open>When both venues can execute, the one chosen is the better one: outside an emergency no
  quote of the other venue has a better price for the side, at equal prices the other venue does
  not show more quantity, and a full tie goes to KRX; in an emergency the other venue never shows
  more quantity.\<close>
theorem venue_choice_best_execution:
  assumes valid: "quote_valid (Some k) side now age" "quote_valid (Some n) side now age"
    and pick: "choose_dual k n side urgency = Some (v, why)"
    and sides: "chosen = (if v = ''KRX'' then k else n)" "other = (if v = ''KRX'' then n else k)"
  shows "\<exists>cp op cq oq. side_price side chosen = Some cp \<and> side_price side other = Some op \<and>
     side_quantity side chosen = Some cq \<and> side_quantity side other = Some oq \<and>
     (urgency = ''EMERGENCY'' \<longrightarrow> oq \<le> cq) \<and>
     (urgency \<noteq> ''EMERGENCY'' \<longrightarrow>
        (if side = ''BUY'' then cp \<le> op else op \<le> cp) \<and> (cp = op \<longrightarrow> oq \<le> cq)) \<and>
     (cp = op \<and> cq = oq \<longrightarrow> v = ''KRX'')"
proof -
  obtain kp kq where k: "side_price side k = Some kp" "side_quantity side k = Some kq"
    using valid(1) by (auto elim: quote_valid_SomeE)
  obtain np nq where n: "side_price side n = Some np" "side_quantity side n = Some nq"
    using valid(2) by (auto elim: quote_valid_SomeE)
  define buy where "buy \<longleftrightarrow> side = ''BUY''"
  define urgent where "urgent \<longleftrightarrow> urgency = ''EMERGENCY''"
  show ?thesis
    using pick k n unfolding sides choose_dual_def buy_def [symmetric] urgent_def [symmetric]
    by (auto split: if_splits)
qed

theorem venue_choice_best_execution_witness:
  "choose_dual (demo_quote ''KRX'' 1 70000 10) (demo_quote ''NXT'' 2 69900 20) ''BUY'' ''NORMAL'' =
     Some (''NXT'', ''BETTER_EXECUTABLE_PRICE_NXT'') \<and>
   (\<exists>cp op. side_price ''BUY'' (demo_quote ''NXT'' 2 69900 20) = Some cp \<and>
      side_price ''BUY'' (demo_quote ''KRX'' 1 70000 10) = Some op \<and> cp \<le> op)"
proof -
  have valid: "quote_valid (Some (demo_quote ''KRX'' 1 70000 10)) ''BUY'' 0 2"
    "quote_valid (Some (demo_quote ''NXT'' 2 69900 20)) ''BUY'' 0 2"
    by (simp_all add: quote_valid_def demo_quote_def side_price_def side_quantity_def seconds_def)
  have pick: "choose_dual (demo_quote ''KRX'' 1 70000 10) (demo_quote ''NXT'' 2 69900 20) ''BUY'' ''NORMAL'' =
     Some (''NXT'', ''BETTER_EXECUTABLE_PRICE_NXT'')"
    by (simp add: choose_dual_def demo_quote_def side_price_def side_quantity_def)
  show ?thesis using pick venue_choice_best_execution [OF valid pick refl refl] by auto
qed

end
