(* ===== verification/Risk_Guard.thy ===== *)
theory Risk_Guard
  imports Paper_Ledger Order_Creation "HOL-Library.Product_Lexorder"
begin

text \<open>
  The read side of the risk guard: \<open>app/risk_calc.py\<close> (exposure, loss, entry count, spread
  and connection), the shared guard helpers of \<open>app/guard.py\<close> and the ledger of
  \<open>app/risk_events.py\<close>. A SQL aggregate is a fold over the joined rows.
\<close>

section \<open>Guard helpers\<close>

definition guard_rule_of :: "string \<Rightarrow> bool \<Rightarrow> guard_rule" where
  "guard_rule_of code passed = \<lparr>gr_code = code, gr_result = (if passed then PASSED else BLOCKED)\<rparr>"

definition blocked_rules :: "guard_rule list \<Rightarrow> guard_rule list" where
  "blocked_rules rules = filter (\<lambda>r. gr_result r = BLOCKED) rules"

definition guard_result :: "guard_rule list \<Rightarrow> rule_result" where
  "guard_result rules = (if blocked_rules rules \<noteq> [] then BLOCKED else PASSED)"

fun blocking_code :: "guard_rule list \<Rightarrow> string" where
  "blocking_code [] = ''BLOCKED''"
| "blocking_code (r # rs) = (if gr_result r = BLOCKED then gr_code r else blocking_code rs)"

definition is_cresta_managed :: "position option \<Rightarrow> bool" where
  "is_cresta_managed p = (case p of None \<Rightarrow> False | Some r \<Rightarrow> 0 < p_managed_quantity r)"

record guard_subject =
  gs_execution_id :: uuid
  gs_subject_type :: string
  gs_subject_id :: uuid
  gs_snapshot_id :: "uuid option"
  gs_position_version :: "int option"
  gs_execution_policy_version_id :: "uuid option"
  gs_risk_policy_version_id :: "uuid option"
  gs_halt_scope :: "string option"
  gs_valid_until :: "instant option"
  gs_now :: instant

definition guard_row :: "guard_subject \<Rightarrow> guard_rule list \<Rightarrow> uuid \<Rightarrow> guard_evaluation" where
  "guard_row gs rules i =
     \<lparr>ge_id = i, ge_execution_id = gs_execution_id gs, ge_phase = ''PRE_ORDER'',
      ge_subject_type = gs_subject_type gs, ge_subject_id = gs_subject_id gs,
      ge_result = guard_result rules, ge_rule_results = rules,
      ge_halt_scope = (if blocked_rules rules \<noteq> [] then gs_halt_scope gs else None),
      ge_snapshot_id = gs_snapshot_id gs, ge_position_version = gs_position_version gs,
      ge_execution_policy_version_id = gs_execution_policy_version_id gs,
      ge_risk_policy_version_id = gs_risk_policy_version_id gs,
      ge_evaluated_at = gs_now gs, ge_valid_until = gs_valid_until gs\<rparr>"

definition persist_guard_evaluation :: "guard_subject \<Rightarrow> guard_rule list \<Rightarrow> db \<Rightarrow> guard_evaluation \<times> db" where
  "persist_guard_evaluation gs rules d =
     (let (i, d1) = uuid7_draw d; g = guard_row gs rules i
      in (g, d1\<lparr>guard_evaluations := guard_evaluations d1 @ [g]\<rparr>))"

section \<open>Risk events\<close>

record risk_event_input =
  ri_scope :: string
  ri_rule_code :: string
  ri_severity :: string
  ri_account_alias :: string
  ri_symbol :: "string option"
  ri_input :: json
  ri_correlation_id :: string
  ri_input_snapshot_id :: "uuid option"

definition create_risk_event :: "instant \<Rightarrow> risk_event_input \<Rightarrow> db \<Rightarrow> risk_event \<times> db" where
  "create_risk_event now ri d =
     (let (i, d1) = uuid7_draw d;
          e = \<lparr>re_id = i, re_scope = ri_scope ri, re_rule_code = ri_rule_code ri,
            re_severity = ri_severity ri, re_state = RE_ACTIVE, re_account_alias = ri_account_alias ri,
            re_symbol = ri_symbol ri, re_input_snapshot_id = ri_input_snapshot_id ri,
            re_input_json = ri_input ri, re_resolution = None, re_resolved_at = None,
            re_correlation_id = ri_correlation_id ri, re_created_at = now, re_updated_at = now\<rparr>
      in (e, d1\<lparr>risk_events := risk_events d1 @ [e]\<rparr>))"

definition resolved_event :: "string \<Rightarrow> instant \<Rightarrow> risk_event \<Rightarrow> risk_event" where
  "resolved_event resolution now e =
     e\<lparr>re_state := RE_RESOLVED, re_resolution := Some resolution, re_resolved_at := Some now,
       re_updated_at := now\<rparr>"

definition resolve_risk_event :: "uuid \<Rightarrow> string \<Rightarrow> instant \<Rightarrow> db \<Rightarrow> risk_event option \<times> db" where
  "resolve_risk_event i resolution now d =
     (case row_find re_id i (risk_events d) of
        None \<Rightarrow> (None, d)
      | Some e \<Rightarrow>
          if re_state e = RE_RESOLVED then (Some e, d)
          else (let e' = resolved_event resolution now e
                in (Some e', d\<lparr>risk_events := row_upd re_id i (\<lambda>_. e') (risk_events d)\<rparr>)))"

definition active_risk_events :: "db \<Rightarrow> string option \<Rightarrow> string option \<Rightarrow> risk_event list" where
  "active_risk_events d scope alias =
     take 200 (rev (sort_key re_created_at
       (filter (\<lambda>e. re_state e = RE_ACTIVE \<and> (case scope of None \<Rightarrow> True | Some s \<Rightarrow> re_scope e = s) \<and>
          (case alias of None \<Rightarrow> True | Some a \<Rightarrow> re_account_alias e = a)) (risk_events d))))"

section \<open>Risk calculations\<close>

definition latest_price :: "db \<Rightarrow> string \<Rightarrow> string \<Rightarrow> decimal option" where
  "latest_price d sb market =
     (case stream_get d market sb of
        None \<Rightarrow> None
      | Some s \<Rightarrow>
          (case ms_current_snapshot_id s of
             None \<Rightarrow> None
           | Some i \<Rightarrow>
               (case snapshot_get d i of
                  None \<Rightarrow> None
                | Some m \<Rightarrow> if m_quality m \<noteq> ''NORMAL'' then None else Some (m_last_price m))))"

definition spread_pct :: "market_snapshot option \<Rightarrow> decimal option" where
  "spread_pct s =
     (case s of
        None \<Rightarrow> None
      | Some m \<Rightarrow>
          (case (m_best_bid_price m, m_best_ask_price m) of
             (Some bid, Some ask) \<Rightarrow>
               (let midpoint = (bid + ask) / 2
                in if midpoint \<le> 0 then None else Some (quantize4 ((ask - bid) / midpoint * 100)))
           | _ \<Rightarrow> None))"

text \<open>\<open>Fill JOIN TradingOrder\<close> restricted to the SELL orders of an account.\<close>

definition sell_fills :: "db \<Rightarrow> string \<Rightarrow> (fill \<times> trading_order) list" where
  "sell_fills d alias =
     concat (map (\<lambda>f. map (Pair f)
       (filter (\<lambda>od. o_id od = f_order_id f \<and> o_account_alias od = alias \<and> o_side od = ''SELL'')
          (orders d))) (fills d))"

definition position_cost :: "db \<Rightarrow> string \<Rightarrow> string \<Rightarrow> decimal" where
  "position_cost d alias sb =
     (case position_get d alias sb of None \<Rightarrow> 0 | Some p \<Rightarrow> p_average_price p)"

definition daily_realized_loss :: "db \<Rightarrow> string \<Rightarrow> instant \<Rightarrow> decimal" where
  "daily_realized_loss d alias now =
     sum_list (map (\<lambda>(f, od). (f_price f - position_cost d alias (o_symbol od)) * of_int (f_quantity f))
       (filter (\<lambda>(f, od). o_trading_date od = kst_date now) (sell_fills d alias)))"

definition open_positions :: "db \<Rightarrow> string \<Rightarrow> position list" where
  "open_positions d alias =
     filter (\<lambda>p. p_account_alias p = alias \<and> p_state p = PS_OPEN \<and> 0 < p_quantity p) (positions d)"

definition unrealized_loss :: "db \<Rightarrow> string \<Rightarrow> decimal" where
  "unrealized_loss d alias =
     sum_list (map (\<lambda>p. case latest_price d (p_symbol p) ''KRX'' of
          None \<Rightarrow> 0
        | Some price \<Rightarrow> (price - p_average_price p) * of_int (p_quantity p)) (open_positions d alias))"

definition daily_loss_pct :: "db \<Rightarrow> string \<Rightarrow> string \<Rightarrow> instant \<Rightarrow> decimal \<Rightarrow> decimal" where
  "daily_loss_pct d alias basis now denominator =
     (let realized = daily_realized_loss d alias now;
          total = (if basis = ''REALIZED_PLUS_UNREALIZED'' then realized + unrealized_loss d alias else realized)
      in if denominator \<le> 0 then 0
         else (let pct = - total / denominator * 100 in if 0 < pct then pct else 0))"

text \<open>\<open>price or average_price\<close>: a zero price is falsy.\<close>

definition position_value :: "db \<Rightarrow> position \<Rightarrow> decimal" where
  "position_value d p =
     (case latest_price d (p_symbol p) ''KRX'' of
        None \<Rightarrow> p_average_price p
      | Some price \<Rightarrow> if price = 0 then p_average_price p else price) * of_int (p_quantity p)"

definition open_position_exposure :: "db \<Rightarrow> string \<Rightarrow> (string \<Rightarrow> decimal) \<times> decimal" where
  "open_position_exposure d alias =
     (\<lambda>s. sum_list (map (position_value d) (filter (\<lambda>p. p_symbol p = s) (open_positions d alias))),
      sum_list (map (position_value d) (open_positions d alias)))"

definition open_position_count :: "db \<Rightarrow> string \<Rightarrow> int" where
  "open_position_count d alias = int (length (open_positions d alias))"

definition daily_entry_count :: "db \<Rightarrow> string \<Rightarrow> instant \<Rightarrow> int" where
  "daily_entry_count d alias now =
     int (length (filter (\<lambda>od. o_account_alias od = alias \<and> o_side od = ''BUY'' \<and>
        o_trading_date od = kst_date now) (orders d)))"

definition consecutive_loss_count :: "db \<Rightarrow> string \<Rightarrow> int" where
  "consecutive_loss_count d alias =
     int (length (takeWhile (\<lambda>(f, od). f_price f < position_cost d alias (o_symbol od))
       (take 50 (rev (sort_key (\<lambda>(f, od). (f_filled_at f, f_id f)) (sell_fills d alias))))))"

definition broker_connection_ok :: "db \<Rightarrow> string \<Rightarrow> instant \<Rightarrow> bool \<times> string" where
  "broker_connection_ok d alias now =
     (case worker_state_get d alias of
        None \<Rightarrow> (False, ''BROKER_WORKER_UNKNOWN'')
      | Some w \<Rightarrow>
          if bw_state w \<noteq> ''READY'' then (False, ''BROKER_NOT_READY'')
          else if \<not> bw_websocket_connected w then (False, ''BROKER_WEBSOCKET_DISCONNECTED'')
          else if \<not> bw_subscriptions_ready w then (False, ''BROKER_SUBSCRIPTIONS_NOT_READY'')
          else if seconds 30 < now - bw_last_heartbeat_at w then (False, ''BROKER_HEARTBEAT_STALE'')
          else if (case gate_get d alias of None \<Rightarrow> True | Some g \<Rightarrow> g_status g \<noteq> GS_READY)
            then (False, ''BROKER_GATE_NOT_READY'')
          else (True, ''OK''))"

section \<open>Facts\<close>

lemma blocking_code_first:
  "blocked_rules rules = r # rest \<Longrightarrow> blocking_code rules = gr_code r"
  by (induction rules) (auto simp: blocked_rules_def)

lemma guard_result_BLOCKED: "guard_result rules = BLOCKED \<longleftrightarrow> (\<exists>r \<in> set rules. gr_result r = BLOCKED)"
  by (auto simp: guard_result_def blocked_rules_def filter_empty_conv)

lemma rule_result_not [simp]: "x \<noteq> PASSED \<longleftrightarrow> x = BLOCKED" "x \<noteq> BLOCKED \<longleftrightarrow> x = PASSED"
  by (cases x; simp)+

lemma guard_result_PASSED: "guard_result rules = PASSED \<longleftrightarrow> (\<forall>r \<in> set rules. gr_result r = PASSED)"
  by (auto simp: guard_result_def blocked_rules_def filter_empty_conv)

lemma guard_rule_of_sel [simp]:
  "gr_result (guard_rule_of c b) = PASSED \<longleftrightarrow> b" "gr_result (guard_rule_of c b) = BLOCKED \<longleftrightarrow> \<not> b"
  "gr_code (guard_rule_of c b) = c"
  by (simp_all add: guard_rule_of_def)

lemma persist_guard_simps [simp]:
  "fst (persist_guard_evaluation gs rules d) = guard_row gs rules (uuid_seed d)"
  "snd (persist_guard_evaluation gs rules d) = d\<lparr>uuid_seed := uuid_seed d + 1,
     guard_evaluations := guard_evaluations d @ [guard_row gs rules (uuid_seed d)]\<rparr>"
  by (simp_all add: persist_guard_evaluation_def uuid7_draw_def Let_def)

lemma sell_fills_mem:
  "(f, od) \<in> set (sell_fills d alias) \<Longrightarrow>
   f \<in> set (fills d) \<and> od \<in> set (orders d) \<and> f_order_id f = o_id od \<and> o_account_alias od = alias \<and>
   o_side od = ''SELL''"
  by (auto simp: sell_fills_def)

lemma daily_loss_pct_nonneg: "0 \<le> daily_loss_pct d alias basis now den"
  by (simp add: daily_loss_pct_def Let_def)

section \<open>Properties\<close>

lemma position_cost_closed:
  assumes "\<forall>p \<in> set (positions d). p_account_alias p = alias \<longrightarrow> p_state p = PS_CLOSED \<and> p_average_price p = 0"
  shows "position_cost d alias s = 0"
  using assms position_get_mem [of d "alias" s] by (auto simp: position_cost_def split: option.split)

lemma sell_fill_priced:
  assumes "\<forall>f \<in> set (fills d). fill_ck f" "(f, od) \<in> set (sell_fills d alias)"
  shows "0 < f_price f" "0 < f_quantity f"
  using assms sell_fills_mem [of f od d "alias"] by (auto simp: fill_ck_def)

definition demo_sell_order :: trading_order where
  "demo_sell_order = (created_order 0 ((sample_request ''s'')\<lparr>or_side := ''SELL'', or_quantity := 10\<rparr>) 1 2 3 4)
     \<lparr>o_filled_quantity := 10, o_remaining_quantity := 0, o_status := OS_FILLED\<rparr>"

definition demo_exit_db :: db where
  "demo_exit_db = empty_db\<lparr>orders := [demo_sell_order],
     fills := [\<lparr>f_id = 5, f_order_id = 1, f_broker_fill_key = ''k'', f_quantity = 10, f_price = 35000,
       f_fee = 0, f_tax = 0, f_filled_at = 0\<rparr>],
     positions := [position_after_fill ''SELL'' 10 35000
       ((new_position 6 kiwoom_account ''005930'')\<lparr>p_quantity := 10, p_average_price := 70000, p_state := PS_OPEN\<rparr>)]\<rparr>"

lemma demo_exit_positions:
  "\<forall>p \<in> set (positions demo_exit_db). p_account_alias p = kiwoom_account \<longrightarrow>
     p_state p = PS_CLOSED \<and> p_average_price p = 0"
  "\<forall>f \<in> set (fills demo_exit_db). fill_ck f"
  by (simp_all add: demo_exit_db_def position_after_fill_def new_position_def fill_ck_def Let_def)

lemma loss_limits_blind_after_exit_facts:
  assumes closed: "\<forall>p \<in> set (positions d). p_account_alias p = alias \<longrightarrow>
      p_state p = PS_CLOSED \<and> p_average_price p = 0"
    and fills: "\<forall>f \<in> set (fills d). fill_ck f"
  shows "daily_loss_pct d alias basis now den = 0" "consecutive_loss_count d alias = 0"
proof -
  have cost: "position_cost d alias s = 0" for s by (rule position_cost_closed [OF closed])
  have "open_positions d alias = []"
    using closed by (auto simp: open_positions_def filter_empty_conv)
  then have none: "unrealized_loss d alias = 0" by (simp add: unrealized_loss_def)
  have "0 \<le> daily_realized_loss d alias now"
    unfolding daily_realized_loss_def cost
    by (rule sum_list_nonneg) (auto intro!: mult_nonneg_nonneg dest: sell_fill_priced [OF fills])
  then have "\<not> 0 < - daily_realized_loss d alias now / den * 100" if "0 < den"
    using that by (simp add: divide_less_0_iff mult_less_0_iff)
  then show "daily_loss_pct d alias basis now den = 0"
    by (auto simp: daily_loss_pct_def none Let_def)
  let ?rows = "take 50 (rev (sort_key (\<lambda>(f, od). (f_filled_at f, f_id f)) (sell_fills d alias)))"
  have mem: "x \<in> set ?rows \<Longrightarrow> x \<in> set (sell_fills d alias)" for x
    by (drule in_set_takeD) simp
  have "\<not> f_price f < 0" if "(f, od) \<in> set ?rows" for f od
    using sell_fill_priced(1) [OF fills mem [OF that]] by simp
  then have "takeWhile (\<lambda>(f, od). f_price f < 0) ?rows = []"
    by (cases ?rows) auto
  then show "consecutive_loss_count d alias = 0"
    by (simp add: consecutive_loss_count_def cost)
qed



lemma guard_evaluation_reports_first_block_facts:
  "ge_result (fst (persist_guard_evaluation gs rules d)) = BLOCKED \<longleftrightarrow> (\<exists>r \<in> set rules. gr_result r = BLOCKED)"
  "ge_rule_results (fst (persist_guard_evaluation gs rules d)) = rules"
  "(\<exists>r \<in> set rules. gr_result r = BLOCKED) \<longleftrightarrow>
   (\<exists>pre r post. rules = pre @ r # post \<and> (\<forall>x \<in> set pre. gr_result x = PASSED) \<and> gr_result r = BLOCKED \<and>
      gr_code r = blocking_code rules)"
proof -
  show "ge_result (fst (persist_guard_evaluation gs rules d)) = BLOCKED \<longleftrightarrow> (\<exists>r \<in> set rules. gr_result r = BLOCKED)"
    by (simp add: guard_row_def guard_result_BLOCKED)
  show "ge_rule_results (fst (persist_guard_evaluation gs rules d)) = rules" by (simp add: guard_row_def)
  have "blocking_code rules = gr_code r"
    if "rules = pre @ r # post" "\<forall>x \<in> set pre. gr_result x = PASSED" "gr_result r = BLOCKED" for pre r post
    by (rule blocking_code_first [of _ _ "blocked_rules post"])
      (use that in \<open>auto simp: blocked_rules_def filter_empty_conv\<close>)
  note code = this
  show "(\<exists>r \<in> set rules. gr_result r = BLOCKED) \<longleftrightarrow>
   (\<exists>pre r post. rules = pre @ r # post \<and> (\<forall>x \<in> set pre. gr_result x = PASSED) \<and> gr_result r = BLOCKED \<and>
      gr_code r = blocking_code rules)"
  proof
    assume "\<exists>r \<in> set rules. gr_result r = BLOCKED"
    then obtain pre r post where s: "rules = pre @ r # post" "gr_result r = BLOCKED"
      "\<forall>x \<in> set pre. gr_result x \<noteq> BLOCKED"
      using split_list_first_prop [of rules "\<lambda>r. gr_result r = BLOCKED"] by blast
    then have "\<forall>x \<in> set pre. gr_result x = PASSED" by simp
    with s(1,2) code [OF s(1)] show "\<exists>pre r post. rules = pre @ r # post \<and>
       (\<forall>x \<in> set pre. gr_result x = PASSED) \<and> gr_result r = BLOCKED \<and> gr_code r = blocking_code rules"
      by metis
  qed auto
qed

text \<open>The guard blocks exactly when some rule is blocked, the stored row says so with every rule
  result, and the reported code is the one of the first blocked rule.\<close>
theorem guard_evaluation_reports_first_block:
  "(ge_result (fst (persist_guard_evaluation gs rules d)) = BLOCKED \<longleftrightarrow> (\<exists>r \<in> set rules. gr_result r = BLOCKED)) \<and>
    (ge_rule_results (fst (persist_guard_evaluation gs rules d)) = rules) \<and>
    ((\<exists>r \<in> set rules. gr_result r = BLOCKED) \<longleftrightarrow>
   (\<exists>pre r post. rules = pre @ r # post \<and> (\<forall>x \<in> set pre. gr_result x = PASSED) \<and> gr_result r = BLOCKED \<and>
      gr_code r = blocking_code rules))"
  by (intro conjI impI; rule guard_evaluation_reports_first_block_facts; assumption)

definition demo_rules :: "guard_rule list" where
  "demo_rules = [guard_rule_of ''A'' True, guard_rule_of ''B'' False]"

theorem guard_evaluation_reports_first_block_witness:
  "\<exists>pre r post. demo_rules = pre @ r # post \<and> gr_result r = BLOCKED \<and> gr_code r = blocking_code demo_rules"
proof -
  have "\<exists>r \<in> set demo_rules. gr_result r = BLOCKED" by (simp add: demo_rules_def)
  then show ?thesis using guard_evaluation_reports_first_block [of _ demo_rules] by blast
qed

lemma risk_event_resolved_once_facts:
  assumes uniq: "distinct (map re_id (risk_events d))"
    and res: "resolve_risk_event i resolution now d = (Some e, d')"
  shows "re_state e = RE_RESOLVED"
    and "resolve_risk_event i resolution' now' d' = (Some e, d')"
    and "j \<noteq> i \<Longrightarrow> row_find re_id j (risk_events d') = row_find re_id j (risk_events d)"
    and "\<forall>x \<in> set (active_risk_events d' scope alias). re_id x \<noteq> i"
proof -
  obtain e0 where e0: "row_find re_id i (risk_events d) = Some e0"
    using res by (auto simp: resolve_risk_event_def split: option.splits)
  have id: "re_id e0 = i" using row_find_Some [OF e0] by simp
  have cases: "(re_state e0 = RE_RESOLVED \<and> e = e0 \<and> d' = d) \<or>
     (e = resolved_event resolution now e0 \<and>
      d' = d\<lparr>risk_events := row_upd re_id i (\<lambda>_. e) (risk_events d)\<rparr>)"
    using res e0 by (auto simp: resolve_risk_event_def Let_def split: if_splits)
  have eid: "re_id (resolved_event resolution now e0) = i" using id by (simp add: resolved_event_def)
  show st: "re_state e = RE_RESOLVED" using cases by (auto simp: resolved_event_def)
  have find: "row_find re_id j (risk_events d') = (if j = i then Some e else row_find re_id j (risk_events d))" for j
    using cases row_find_row_upd_const [OF e0 eid, of j] e0 by auto
  show "resolve_risk_event i resolution' now' d' = (Some e, d')"
    using find [of i] st by (simp add: resolve_risk_event_def)
  show "j \<noteq> i \<Longrightarrow> row_find re_id j (risk_events d') = row_find re_id j (risk_events d)"
    using find by simp
  have "distinct (map re_id (risk_events d'))"
    using cases uniq eid by (auto simp: map_row_upd_same id)
  then have "x = e" if "x \<in> set (risk_events d')" "re_id x = i" for x
    using row_find_distinct [OF _ that(1), of re_id] that(2) find [of i] by simp
  with st show "\<forall>x \<in> set (active_risk_events d' scope alias). re_id x \<noteq> i"
    by (auto simp: active_risk_events_def dest!: in_set_takeD)
qed

text \<open>A risk event is resolved at most once: the first resolution and its time stay, later calls
  return the row unchanged, every other event is untouched, and a resolved event no longer counts
  among the active ones that block entries.\<close>
theorem risk_event_resolved_once:
  assumes uniq: "distinct (map re_id (risk_events d))"
    and res: "resolve_risk_event i resolution now d = (Some e, d')"
  shows "(re_state e = RE_RESOLVED) \<and>
    (resolve_risk_event i resolution' now' d' = (Some e, d')) \<and>
    (j \<noteq> i \<longrightarrow> row_find re_id j (risk_events d') = row_find re_id j (risk_events d)) \<and>
    (\<forall>x \<in> set (active_risk_events d' scope alias). re_id x \<noteq> i)"
  by (intro conjI impI; rule risk_event_resolved_once_facts [OF assms]; assumption)

definition demo_event_db :: db where
  "demo_event_db = snd (create_risk_event 3 \<lparr>ri_scope = ''DAILY_LOSS'', ri_rule_code = ''R'', ri_severity = ''HIGH'',
     ri_account_alias = kiwoom_account, ri_symbol = None, ri_input = JNull, ri_correlation_id = ''c'',
     ri_input_snapshot_id = None\<rparr> empty_db)"

theorem risk_event_resolved_once_witness:
  "\<exists>e d'. resolve_risk_event 1 ''DONE'' 4 demo_event_db = (Some e, d') \<and>
     resolve_risk_event 1 ''AGAIN'' 9 d' = (Some e, d')"
proof -
  have "distinct (map re_id (risk_events demo_event_db))"
    by (simp add: demo_event_db_def create_risk_event_def uuid7_draw_def Let_def empty_db_def)
  moreover obtain e d' where "resolve_risk_event 1 ''DONE'' 4 demo_event_db = (Some e, d')"
    by (simp add: resolve_risk_event_def demo_event_db_def create_risk_event_def uuid7_draw_def Let_def empty_db_def)
  ultimately show ?thesis using risk_event_resolved_once by blast
qed

end
