(* ===== verification/Decision_Guards.thy ===== *)
theory Decision_Guards
  imports Risk_Guard Policy_Config Emergency_Stop Market_Session
begin

text \<open>
  The hard guards of \<open>app/decision_execution.py\<close>: the rules a BUY and a decision-driven SELL
  must pass, the sell plan that bounds a SELL by the Cresta-managed and sellable quantity, and the
  price and quantity helpers shared with \<open>app/approvals.py\<close>. \<open>hol\<close> is the holiday
  table of \<open>Market_Session\<close>.
\<close>

section \<open>Constants and policy lookup\<close>

definition no_actions :: "string list" where
  "no_actions = [''WAIT'', ''REJECT'', ''RISK_BLOCK'', ''HOLD'']"

definition supported_actions :: "string list" where
  "supported_actions = [''BUY'', ''PARTIAL_SELL'', ''FULL_SELL'', ''FIXED_STOP'']"

definition sell_actions :: "string list" where
  "sell_actions = [''PARTIAL_SELL'', ''FULL_SELL'']"

definition active_order_states :: "order_status list" where
  "active_order_states =
     [OS_CREATED, OS_VALIDATING, OS_SUBMITTING, OS_ACKNOWLEDGED, OS_OPEN, OS_PARTIALLY_FILLED,
      OS_CANCEL_PENDING, OS_REPLACE_PENDING, OS_UNKNOWN, OS_RECONCILING]"

definition tradable_sessions :: "string \<Rightarrow> string list" where
  "tradable_sessions market =
     (if market = ''KRX'' then [''KRX_ONLY'', ''DUAL_CONTINUOUS'']
      else if market = ''NXT'' then [''NXT_PRE'', ''DUAL_CONTINUOUS'', ''NXT_AFTER''] else [])"

definition order_enabled_stages :: "string list" where
  "order_enabled_stages = [''APPROVAL_ONLY'', ''MOCK_AUTOMATIC'']"

definition mode_for :: "string \<Rightarrow> execution_policy \<Rightarrow> execution_mode" where
  "mode_for action p =
     (if action = ''BUY'' then xp_buy p
      else if action = ''PARTIAL_SELL'' then xp_partial_sell p
      else if action = ''FULL_SELL'' then xp_full_sell p
      else if action = ''FIXED_STOP'' then xp_fixed_stop_loss p else DISABLED)"

definition execution_key :: "decision \<Rightarrow> string \<Rightarrow> uuid option \<Rightarrow> uuid option \<Rightarrow> digest" where
  "execution_key dc action xp rp =
     Sha256 (JArr [json_uuid (dc_id dc), JStr action,
       (case xp of None \<Rightarrow> JStr ''SAFE_DEFAULT'' | Some i \<Rightarrow> json_uuid i),
       (case rp of None \<Rightarrow> JStr ''SAFE_RISK_DEFAULT'' | Some i \<Rightarrow> json_uuid i)])"

section \<open>Prices and quantities\<close>

definition marketable_buy_price :: "market_snapshot option \<Rightarrow> decimal option" where
  "marketable_buy_price s = (case s of None \<Rightarrow> None | Some m \<Rightarrow> m_best_ask_price m)"

definition marketable_sell_price :: "market_snapshot option \<Rightarrow> decimal option" where
  "marketable_sell_price s = (case s of None \<Rightarrow> None | Some m \<Rightarrow> m_best_bid_price m)"

definition buy_quantity :: "int option \<Rightarrow> decimal option \<Rightarrow> int" where
  "buy_quantity amount price =
     (case (amount, price) of
        (Some a, Some p) \<Rightarrow> if p \<le> 0 then 0 else round_down (of_int a / p)
      | _ \<Rightarrow> 0)"

section \<open>The BUY guard\<close>

definition snapshot_current :: "db \<Rightarrow> decision \<Rightarrow> market_snapshot \<Rightarrow> bool" where
  "snapshot_current d dc m =
     (case stream_get d (dc_market dc) (dc_symbol dc) of
        None \<Rightarrow> False
      | Some s \<Rightarrow> ms_current_snapshot_id s = Some (m_id m) \<and> m_quality m = ''NORMAL'' \<and> ms_quality s = ''NORMAL'')"

definition watched :: "db \<Rightarrow> uuid \<Rightarrow> string \<Rightarrow> string \<Rightarrow> bool" where
  "watched d user market sb =
     list_ex (\<lambda>w. w_user_id w = user \<and> w_market w = market \<and> w_symbol w = sb) (watchlist_items d)"

definition gate_ready :: "db \<Rightarrow> string \<Rightarrow> bool" where
  "gate_ready d a = (case gate_get d a of None \<Rightarrow> False | Some g \<Rightarrow> g_status g = GS_READY)"

definition buy_guard_rules ::
  "settings \<Rightarrow> instant \<Rightarrow> uuid \<Rightarrow> decision \<Rightarrow> risk_policy \<Rightarrow> market_snapshot option \<Rightarrow> db \<Rightarrow> guard_rule list" where
  "buy_guard_rules st now user dc rp snapshot d =
     (let fresh = (case snapshot of None \<Rightarrow> False
            | Some m \<Rightarrow> snapshot_current d dc m \<and> now - m_received_at m \<le> seconds (rp_quote_stale_seconds rp));
          entry = (case rp_entry_order_amount rp of None \<Rightarrow> 0 | Some a \<Rightarrow> of_int a);
          (per_symbol, total) = open_position_exposure d kiwoom_account;
          spread = spread_pct snapshot
      in [guard_rule_of ''ENVIRONMENT_NOT_MOCK'' (str_upper (st_environment st) = ''MOCK''),
          guard_rule_of ''DECISION_EXPIRED'' (now \<le> dc_valid_until dc),
          guard_rule_of ''SNAPSHOT_MISSING'' (snapshot \<noteq> None),
          guard_rule_of ''MARKET_DATA_STALE'' fresh,
          guard_rule_of ''SYMBOL_NOT_WATCHED'' (watched d user (dc_market dc) (dc_symbol dc)),
          guard_rule_of ''BROKER_NOT_READY'' (gate_ready d kiwoom_account),
          guard_rule_of ''EMERGENCY_STOP_ACTIVE'' (active_pause_entry d kiwoom_account = None),
          guard_rule_of ''ORDER_SIZE_NOT_CONFIGURED'' (rp_entry_order_amount rp \<noteq> None),
          guard_rule_of ''TOTAL_EXPOSURE_LIMIT'' (total + entry \<le> of_int (rp_max_total_position_amount rp)),
          guard_rule_of ''SYMBOL_EXPOSURE_LIMIT''
            (per_symbol (dc_symbol dc) + entry \<le> of_int (rp_max_position_amount_per_symbol rp)),
          guard_rule_of ''OPEN_POSITIONS_LIMIT'' (open_position_count d kiwoom_account < rp_max_open_positions rp),
          guard_rule_of ''DAILY_ENTRIES_LIMIT'' (daily_entry_count d kiwoom_account now < rp_max_daily_entries rp),
          guard_rule_of ''DAILY_LOSS_LIMIT''
            (daily_loss_pct d kiwoom_account (rp_daily_loss_basis rp) now
               (of_int (rp_max_total_position_amount rp)) < rp_daily_loss_limit_pct rp),
          guard_rule_of ''CONSECUTIVE_LOSS_LIMIT''
            (consecutive_loss_count d kiwoom_account < rp_max_consecutive_losses rp),
          guard_rule_of ''SPREAD_LIMIT''
            (case spread of None \<Rightarrow> False | Some x \<Rightarrow> x \<le> rp_max_spread_pct rp),
          guard_rule_of ''BROKER_CONNECTION_OK'' (fst (broker_connection_ok d kiwoom_account now)),
          guard_rule_of ''NO_ACTIVE_DAILY_LOSS_EVENT''
            (active_risk_events d (Some ''DAILY_LOSS'') (Some kiwoom_account) = [])])"

section \<open>The SELL plan and guard\<close>

text \<open>\<open>Decimal(str(value))\<close> of a JSON value; a string is read as a fixed-point literal (the
  producers write \<open>"0.5"\<close>; exponents are not read).\<close>

definition digits_value :: "string \<Rightarrow> int" where
  "digits_value s = foldl (\<lambda>a c. 10 * a + (of_char c - 48)) 0 s"

definition unsigned_decimal :: "string \<Rightarrow> decimal option" where
  "unsigned_decimal s =
     (let ip = takeWhile (\<lambda>c. c \<noteq> CHR ''.'') s; rest = dropWhile (\<lambda>c. c \<noteq> CHR ''.'') s; fp = drop 1 rest
      in if list_all is_digit ip \<and> list_all is_digit fp \<and> ip @ fp \<noteq> []
         then Some (of_int (digits_value (ip @ fp)) / 10 ^ length fp) else None)"

definition decimal_of_text :: "string \<Rightarrow> decimal option" where
  "decimal_of_text s =
     (case str_strip s of
        [] \<Rightarrow> None
      | c # cs \<Rightarrow>
          if c = CHR ''-'' then map_option uminus (unsigned_decimal cs)
          else if c = CHR ''+'' then unsigned_decimal cs else unsigned_decimal (c # cs))"

definition json_decimal :: "json \<Rightarrow> decimal option" where
  "json_decimal j =
     (case j of JDec x \<Rightarrow> Some x | JInt n \<Rightarrow> Some (of_int n) | JStr s \<Rightarrow> decimal_of_text s | _ \<Rightarrow> None)"

definition sell_ratio :: "decision \<Rightarrow> decimal option" where
  "sell_ratio dc =
     (if dc_action dc \<noteq> ''PARTIAL_SELL'' then None
      else (case dc_core_output_json dc of
              JObj kvs \<Rightarrow>
                (case map_of kvs ''sell_ratio'' of
                   None \<Rightarrow> None
                 | Some j \<Rightarrow>
                     (case json_decimal j of
                        None \<Rightarrow> None
                      | Some r \<Rightarrow> if 1 / 100 \<le> r \<and> r \<le> 1 then Some r else None))
            | _ \<Rightarrow> None))"

definition reserved_managed_sells :: "db \<Rightarrow> string \<Rightarrow> string \<Rightarrow> int" where
  "reserved_managed_sells d a s =
     sum_list (map o_remaining_quantity
       (filter (\<lambda>r. o_account_alias r = a \<and> o_symbol r = s \<and> o_side r = ''SELL'' \<and>
          o_status r \<in> set active_order_states) (orders d)))"

definition sellable_managed_quantity :: "db \<Rightarrow> position option \<Rightarrow> int" where
  "sellable_managed_quantity d po =
     (case po of
        None \<Rightarrow> 0
      | Some p \<Rightarrow>
          max 0 (min (max 0 (p_managed_quantity p)) (max 0 (p_available_quantity p)) -
                 reserved_managed_sells d (p_account_alias p) (p_symbol p)))"

definition has_active_symbol_order :: "db \<Rightarrow> decision \<Rightarrow> bool" where
  "has_active_symbol_order d dc =
     list_ex (\<lambda>r. o_account_alias r = kiwoom_account \<and> o_symbol r = dc_symbol dc \<and>
       o_status r \<in> set active_order_states) (orders d)"

record sell_plan =
  sp_position :: "position option"
  sp_snapshot :: "market_snapshot option"
  sp_sellable_quantity :: int
  sp_quantity :: int
  sp_price :: "decimal option"
  sp_sell_ratio :: "decimal option"

definition make_sell_plan :: "db \<Rightarrow> decision \<Rightarrow> market_snapshot option \<Rightarrow> sell_plan" where
  "make_sell_plan d dc snapshot =
     (let pos = position_get d kiwoom_account (dc_symbol dc);
          sellable = sellable_managed_quantity d pos;
          ratio = sell_ratio dc;
          q = (if dc_action dc = ''FULL_SELL'' then sellable
               else (case ratio of None \<Rightarrow> 0 | Some r \<Rightarrow> round_down (of_int sellable * r)))
      in \<lparr>sp_position = pos, sp_snapshot = snapshot, sp_sellable_quantity = sellable, sp_quantity = q,
          sp_price = marketable_sell_price snapshot, sp_sell_ratio = ratio\<rparr>)"

record sell_expectation =
  sx_position_id :: "uuid option"
  sx_position_version :: "int option"
  sx_requested_quantity :: "int option"

definition no_expectation :: sell_expectation where
  "no_expectation = \<lparr>sx_position_id = None, sx_position_version = None, sx_requested_quantity = None\<rparr>"

definition sell_guard_rules ::
  "(int \<Rightarrow> date list option) \<Rightarrow> settings \<Rightarrow> instant \<Rightarrow> decision \<Rightarrow> risk_policy \<Rightarrow> sell_plan \<Rightarrow> sell_expectation \<Rightarrow>
     db \<Rightarrow> guard_rule list" where
  "sell_guard_rules hol st now dc rp plan sx d =
     (let pos = sp_position plan;
          quantity = (case sx_requested_quantity sx of None \<Rightarrow> sp_quantity plan | Some q \<Rightarrow> q);
          fresh = (case sp_snapshot plan of None \<Rightarrow> False
            | Some m \<Rightarrow> snapshot_current d dc m \<and> m_trading_status m = ''TRADING'' \<and>
                m_received_at m \<le> now \<and> now - m_received_at m \<le> seconds (rp_quote_stale_seconds rp));
          session = classify_session hol now None
      in [guard_rule_of ''ENVIRONMENT_NOT_MOCK'' (str_upper (st_environment st) = ''MOCK''),
          guard_rule_of ''DECISION_EXPIRED'' (now \<le> dc_valid_until dc),
          guard_rule_of ''POSITION_FOUND''
            (case pos of None \<Rightarrow> False | Some p \<Rightarrow> p_state p = PS_OPEN \<and> 0 < p_quantity p),
          guard_rule_of ''POSITION_ID_MATCH''
            (case sx_position_id sx of None \<Rightarrow> True
             | Some i \<Rightarrow> (case pos of None \<Rightarrow> False | Some p \<Rightarrow> p_id p = i)),
          guard_rule_of ''POSITION_VERSION_MATCH''
            (case sx_position_version sx of None \<Rightarrow> True
             | Some v \<Rightarrow> (case pos of None \<Rightarrow> False | Some p \<Rightarrow> p_version p = v)),
          guard_rule_of ''POSITION_MANAGED_QUANTITY_POSITIVE''
            (case pos of None \<Rightarrow> False | Some p \<Rightarrow> 0 < p_managed_quantity p),
          guard_rule_of ''SELL_RATIO_VALID'' (dc_action dc \<noteq> ''PARTIAL_SELL'' \<or> sp_sell_ratio plan \<noteq> None),
          guard_rule_of ''NO_ACTIVE_OR_UNKNOWN_ORDER'' (\<not> has_active_symbol_order d dc),
          guard_rule_of ''QUANTITY_BELOW_ONE'' (1 \<le> quantity),
          guard_rule_of ''SELL_QUANTITY_AVAILABLE'' (1 \<le> quantity \<and> quantity \<le> sp_sellable_quantity plan),
          guard_rule_of ''BROKER_READY'' (gate_ready d kiwoom_account),
          guard_rule_of ''NOT_RECONCILING''
            (case gate_get d kiwoom_account of None \<Rightarrow> False | Some g \<Rightarrow> g_status g \<noteq> GS_RECONCILING),
          guard_rule_of ''MARKET_DATA_FRESH'' fresh,
          guard_rule_of ''MARKETABLE_SELL_PRICE_AVAILABLE''
            (case sp_price plan of None \<Rightarrow> False | Some p \<Rightarrow> 0 < p),
          guard_rule_of ''MARKET_SESSION_TRADABLE'' (session \<in> set (tradable_sessions (dc_market dc)))])"

section \<open>Facts\<close>

lemma round_down_nonneg_le: "0 \<le> x \<Longrightarrow> 0 \<le> round_down x \<and> of_int (round_down x) \<le> x"
  by (simp add: round_down_def)

lemma buy_quantity_bound:
  assumes "buy_quantity amount (Some p) = q" "0 < q"
  obtains a where "amount = Some a" "0 < p" "of_int q * p \<le> of_int a"
proof -
  from assms obtain a where a: "amount = Some a" "0 < p" "q = round_down (of_int a / p)"
    by (auto simp: buy_quantity_def split: option.splits if_splits)
  have "0 \<le> of_int a / p"
    using assms(2) a(2,3) by (cases "0 \<le> (of_int a / p :: rat)") (auto simp: round_down_def)
  then have "of_int q \<le> of_int a / p" using round_down_nonneg_le a(3) by blast
  then have "of_int q * p \<le> of_int a" using a(2) by (simp add: pos_le_divide_eq)
  with a that show thesis by blast
qed

lemma sellable_nonneg: "0 \<le> sellable_managed_quantity d po"
  by (simp add: sellable_managed_quantity_def split: option.split)

lemma sell_ratio_bounds: "sell_ratio dc = Some r \<Longrightarrow> 1 / 100 \<le> r \<and> r \<le> 1"
  by (auto simp: sell_ratio_def split: if_splits json.splits option.splits)

lemma sell_plan_quantity:
  "0 \<le> sp_quantity (make_sell_plan d dc s)" "sp_quantity (make_sell_plan d dc s) \<le> sp_sellable_quantity (make_sell_plan d dc s)"
proof -
  let ?n = "sellable_managed_quantity d (position_get d kiwoom_account (dc_symbol dc))"
  have n: "0 \<le> ?n" by (rule sellable_nonneg)
  have part: "0 \<le> round_down (of_int ?n * r) \<and> round_down (of_int ?n * r) \<le> ?n"
    if r: "sell_ratio dc = Some r" for r
  proof -
    have b: "0 \<le> r" "r \<le> 1" using sell_ratio_bounds [OF r] by simp_all
    then have "0 \<le> of_int ?n * r" "of_int ?n * r \<le> (of_int ?n :: rat)"
      using n by (simp_all add: mult_left_le)
    then have "0 \<le> round_down (of_int ?n * r)" "of_int (round_down (of_int ?n * r)) \<le> (of_int ?n :: rat)"
      using round_down_nonneg_le order_trans by blast+
    then show ?thesis by simp
  qed
  show "0 \<le> sp_quantity (make_sell_plan d dc s)"
    "sp_quantity (make_sell_plan d dc s) \<le> sp_sellable_quantity (make_sell_plan d dc s)"
    using n part by (auto simp: make_sell_plan_def Let_def split: option.split)
qed

lemma make_sell_plan_sel [simp]:
  "sp_position (make_sell_plan d dc s) = position_get d kiwoom_account (dc_symbol dc)"
  "sp_snapshot (make_sell_plan d dc s) = s"
  "sp_price (make_sell_plan d dc s) = marketable_sell_price s"
  "sp_sellable_quantity (make_sell_plan d dc s) =
     sellable_managed_quantity d (position_get d kiwoom_account (dc_symbol dc))"
  "sp_sell_ratio (make_sell_plan d dc s) = sell_ratio dc"
  by (simp_all add: make_sell_plan_def Let_def)

text \<open>What a passed BUY guard guarantees, and a passed SELL guard.\<close>

lemma buy_guard_passed:
  assumes "guard_result (buy_guard_rules st now user dc rp snapshot d) = PASSED"
  shows "str_upper (st_environment st) = ''MOCK''" "now \<le> dc_valid_until dc"
    "watched d user (dc_market dc) (dc_symbol dc)" "gate_ready d kiwoom_account"
    "active_pause_entry d kiwoom_account = None" "rp_entry_order_amount rp \<noteq> None"
    "snd (open_position_exposure d kiwoom_account) +
       (case rp_entry_order_amount rp of None \<Rightarrow> 0 | Some a \<Rightarrow> of_int a) \<le> of_int (rp_max_total_position_amount rp)"
    "fst (open_position_exposure d kiwoom_account) (dc_symbol dc) +
       (case rp_entry_order_amount rp of None \<Rightarrow> 0 | Some a \<Rightarrow> of_int a) \<le> of_int (rp_max_position_amount_per_symbol rp)"
    "open_position_count d kiwoom_account < rp_max_open_positions rp"
    "daily_entry_count d kiwoom_account now < rp_max_daily_entries rp"
    "fst (broker_connection_ok d kiwoom_account now)"
  using assms unfolding guard_result_PASSED buy_guard_rules_def Let_def
  by (simp_all add: case_prod_beta)

lemma sell_guard_passed:
  assumes "guard_result (sell_guard_rules hol st now dc rp plan sx d) = PASSED"
  defines "q \<equiv> (case sx_requested_quantity sx of None \<Rightarrow> sp_quantity plan | Some n \<Rightarrow> n)"
  shows "str_upper (st_environment st) = ''MOCK''" "now \<le> dc_valid_until dc"
    "\<exists>p. sp_position plan = Some p \<and> p_state p = PS_OPEN \<and> 0 < p_managed_quantity p \<and>
       (\<forall>i. sx_position_id sx = Some i \<longrightarrow> p_id p = i) \<and> (\<forall>v. sx_position_version sx = Some v \<longrightarrow> p_version p = v)"
    "\<not> has_active_symbol_order d dc" "1 \<le> q" "q \<le> sp_sellable_quantity plan" "gate_ready d kiwoom_account"
    "\<exists>x. sp_price plan = Some x \<and> 0 < x"
    "classify_session hol now None \<in> set (tradable_sessions (dc_market dc))"
  using assms(1) unfolding guard_result_PASSED sell_guard_rules_def Let_def q_def
  by (auto split: option.splits)

end
