(* ===== verification/Approvals.thy ===== *)
theory Approvals
  imports Decision_Guards
begin

text \<open>
  The approval life cycle of \<open>app/approvals.py\<close>: a PENDING approval is created for a routed
  decision, and a user approves or rejects it, or it expires. Approving re-runs the guard on the
  latest snapshot and checks the price deviation before it creates the order. Order creation is
  called with no interference between its lookup and its flush (\<open>cc_env\<close> is the identity):
  both run in the transaction that holds the approval row lock.
\<close>

section \<open>Row updates\<close>

datatype approval_error = ApprovalError string int | ApprovalPolicyInvalid

definition execution_upd :: "uuid \<Rightarrow> (decision_execution \<Rightarrow> decision_execution) \<Rightarrow> db \<Rightarrow> db" where
  "execution_upd i f d = d\<lparr>decision_executions := row_upd de_id i f (decision_executions d)\<rparr>"

definition approval_upd :: "uuid \<Rightarrow> (approval \<Rightarrow> approval) \<Rightarrow> db \<Rightarrow> db" where
  "approval_upd i f d = d\<lparr>approvals := row_upd ap_id i f (approvals d)\<rparr>"

definition execution_get :: "db \<Rightarrow> uuid \<Rightarrow> decision_execution option" where
  "execution_get d i = row_find de_id i (decision_executions d)"

definition approval_get :: "db \<Rightarrow> uuid \<Rightarrow> approval option" where
  "approval_get d i = row_find ap_id i (approvals d)"

definition decision_get :: "db \<Rightarrow> uuid \<Rightarrow> decision option" where
  "decision_get d i = row_find dc_id i (decisions d)"

definition add_audit :: "audit_log \<Rightarrow> db \<Rightarrow> db" where
  "add_audit a d = d\<lparr>audit_logs := audit_logs d @ [a]\<rparr>"

definition approval_audit ::
  "string \<Rightarrow> uuid \<Rightarrow> string \<Rightarrow> uuid \<Rightarrow> string \<Rightarrow> string \<Rightarrow> json \<Rightarrow> audit_log" where
  "approval_audit actor user action target result cid meta =
     \<lparr>al_actor_type = actor, al_actor_id = Some (uuid_text user), al_action = action,
      al_target = Some target, al_result = result, al_request_ip = None, al_user_agent = None,
      al_correlation_id = cid, al_metadata_json = meta\<rparr>"

section \<open>Creation\<close>

definition scope_snapshot ::
  "decision \<Rightarrow> decimal option \<Rightarrow> int \<Rightarrow> instant \<Rightarrow> position option \<Rightarrow> approval_scope" where
  "scope_snapshot dc price quantity now pos =
     \<lparr>sc_decision_id = dc_id dc, sc_reference_snapshot_id = dc_input_snapshot_id dc,
      sc_symbol = dc_symbol dc, sc_market = dc_market dc, sc_action = dc_action dc,
      sc_reference_price = price, sc_quantity = quantity, sc_position_id = map_option p_id pos,
      sc_position_version = map_option p_version pos, sc_valid_until = dc_valid_until dc,
      sc_captured_at = now\<rparr>"

text \<open>Reference price, quantity and position of the approval, by action.\<close>

definition approval_terms ::
  "risk_policy \<Rightarrow> decision \<Rightarrow> db \<Rightarrow> (decimal option \<times> int \<times> position option) option" where
  "approval_terms rp dc d =
     (let snapshot = snapshot_get d (dc_input_snapshot_id dc)
      in if dc_action dc = ''BUY'' then
           (let price = marketable_buy_price snapshot
            in Some (price, buy_quantity (rp_entry_order_amount rp) price, None))
         else if dc_action dc \<in> set sell_actions then
           (let plan = make_sell_plan d dc snapshot
            in Some (marketable_sell_price snapshot, sp_quantity plan, sp_position plan))
         else None)"

definition create_approval ::
  "instant \<Rightarrow> decision_execution \<Rightarrow> decision \<Rightarrow> uuid \<Rightarrow> db \<Rightarrow> (approval_error + approval) \<times> db" where
  "create_approval now ex dc user d =
     (case risk_policy_payload (active_risk_policy d (uuid_text user)) of
        None \<Rightarrow> (Inl ApprovalPolicyInvalid, d)
      | Some rp \<Rightarrow>
          (case approval_terms rp dc d of
             None \<Rightarrow> (Inl (ApprovalError ''ACTION_NOT_IMPLEMENTED'' 409), d)
           | Some (price, quantity, pos) \<Rightarrow>
               if quantity \<le> 0 then (Inl (ApprovalError ''APPROVAL_QUANTITY_INVALID'' 409), d)
               else
                 (let (i, d1) = uuid7_draw d;
                      ap = \<lparr>ap_id = i, ap_execution_id = de_id ex, ap_decision_id = dc_id dc, ap_user_id = user,
                        ap_state = AP_PENDING, ap_scope = scope_snapshot dc price quantity now pos,
                        ap_expires_at = dc_valid_until dc, ap_actor_id = None, ap_order_id = None,
                        ap_result_code = None, ap_version = 1\<rparr>;
                      d2 = d1\<lparr>approvals := approvals d1 @ [ap]\<rparr>;
                      d3 = execution_upd (de_id ex)
                        (\<lambda>e. e\<lparr>de_state := DX_APPROVAL_PENDING, de_approval_id := Some i\<rparr>) d2
                  in (Inr ap, add_audit (approval_audit ''SYSTEM'' user ''APPROVAL_PENDING'' i ''PENDING''
                        (de_correlation_id ex)
                        (JObj [(''decision_id'', json_uuid (dc_id dc)), (''execution_id'', json_uuid (de_id ex))])) d3))))"

section \<open>Approving\<close>

definition latest_snapshot_for_approval :: "db \<Rightarrow> decision \<Rightarrow> market_snapshot option" where
  "latest_snapshot_for_approval d dc =
     (case stream_get d (dc_market dc) (dc_symbol dc) of
        None \<Rightarrow> None
      | Some s \<Rightarrow> (case ms_current_snapshot_id s of None \<Rightarrow> None | Some i \<Rightarrow> snapshot_get d i))"

definition price_deviation_ok :: "decimal option \<Rightarrow> decimal option \<Rightarrow> decimal \<Rightarrow> bool" where
  "price_deviation_ok reference current max_pct =
     (case (reference, current) of
        (Some r, Some c) \<Rightarrow> 0 < r \<and> \<bar>c - r\<bar> / r * 100 \<le> max_pct
      | _ \<Rightarrow> False)"

definition approval_rules ::
  "(int \<Rightarrow> date list option) \<Rightarrow> settings \<Rightarrow> instant \<Rightarrow> uuid \<Rightarrow> risk_policy \<Rightarrow> approval \<Rightarrow> decision \<Rightarrow> db \<Rightarrow>
     guard_rule list \<times> decimal option" where
  "approval_rules hol st now user rp ap dc d =
     (let snapshot = latest_snapshot_for_approval d dc; scope = ap_scope ap; quantity = sc_quantity scope;
          (rules, price) =
            (if dc_action dc = ''BUY''
             then (buy_guard_rules st now user dc rp snapshot d, marketable_buy_price snapshot)
             else if dc_action dc \<in> set sell_actions
             then (sell_guard_rules hol st now dc rp (make_sell_plan d dc snapshot)
                     \<lparr>sx_position_id = sc_position_id scope, sx_position_version = sc_position_version scope,
                      sx_requested_quantity = Some quantity\<rparr> d,
                   marketable_sell_price snapshot)
             else ([guard_rule_of ''ACTION_NOT_IMPLEMENTED'' False], None));
          rules1 = (if price_deviation_ok (sc_reference_price scope) price (rp_max_price_deviation_pct rp)
                    then rules else rules @ [guard_rule_of ''PRICE_DEVIATION_EXCEEDED'' False]);
          rules2 = (if quantity \<le> 0 then rules1 @ [guard_rule_of ''ORDER_SIZE_NOT_CONFIGURED'' False] else rules1)
      in (rules2, price))"

record approve_call =
  av_approval_id :: uuid
  av_user :: uuid
  av_correlation_id :: string
  av_idempotency_key :: string
  av_now :: instant

definition approval_order_request ::
  "approve_call \<Rightarrow> approval \<Rightarrow> decision \<Rightarrow> decimal option \<Rightarrow> uuid option \<Rightarrow> order_request" where
  "approval_order_request av ap dc price snapshot_id =
     (let side = (if dc_action dc = ''BUY'' then ''BUY'' else ''SELL''); scope = ap_scope ap
      in \<lparr>or_symbol = dc_symbol dc, or_market = dc_market dc, or_side = side, or_action = dc_action dc,
          or_order_type = ''LIMIT'', or_limit_price = price, or_quantity = sc_quantity scope,
          or_idempotency_key = av_idempotency_key av,
          or_request_payload = JObj [(''action'', JStr (dc_action dc)), (''approval_id'', json_uuid (ap_id ap)),
            (''approval_snapshot_id'', json_opt json_uuid snapshot_id), (''decision_id'', json_uuid (dc_id dc)),
            (''environment'', JStr ''MOCK''), (''idempotency_key'', JStr (av_idempotency_key av)),
            (''limit_price'', json_opt JDec price), (''market'', JStr (dc_market dc)),
            (''order_type'', JStr ''LIMIT''), (''position_id'', json_opt json_uuid (sc_position_id scope)),
            (''position_version'', json_opt JInt (sc_position_version scope)),
            (''quantity'', JInt (sc_quantity scope)),
            (''reference_snapshot_id'', json_uuid (dc_input_snapshot_id dc)), (''side'', JStr side),
            (''symbol'', JStr (dc_symbol dc))],
          or_correlation_id = av_correlation_id av\<rparr>)"

definition approval_context :: "approve_call \<Rightarrow> creation_context" where
  "approval_context av = \<lparr>cc_env = \<lambda>d. d, cc_user = uuid_text (av_user av),
     cc_audit_action = ''APPROVAL_ORDER_CREATED'', cc_request_ip = None, cc_user_agent = None,
     cc_now = av_now av\<rparr>"

definition approval_closed :: "approval_state \<Rightarrow> string \<Rightarrow> approval \<Rightarrow> approval" where
  "approval_closed s code ap = ap\<lparr>ap_state := s, ap_result_code := Some code, ap_version := ap_version ap + 1\<rparr>"

definition approval_refs :: "uuid option \<Rightarrow> uuid option \<Rightarrow> decision_execution \<Rightarrow> decision \<Rightarrow> json" where
  "approval_refs order_id snapshot_id ex dc =
     JObj ((''approval_snapshot_id'', json_opt json_uuid snapshot_id) # (''execution_id'', json_uuid (de_id ex)) #
       (case order_id of None \<Rightarrow> [] | Some i \<Rightarrow> [(''order_id'', json_uuid i)]) @
       [(''reference_snapshot_id'', json_uuid (dc_input_snapshot_id dc))])"

text \<open>The three ends of \<open>approve\<close> after its guard evaluation.\<close>

definition approval_invalidated ::
  "approve_call \<Rightarrow> approval \<Rightarrow> decision_execution \<Rightarrow> decision \<Rightarrow> string \<Rightarrow> uuid \<Rightarrow> uuid option \<Rightarrow> db \<Rightarrow> db" where
  "approval_invalidated av ap ex dc code guard_id snapshot_id d =
     add_audit (approval_audit ''USER'' (av_user av) ''APPROVAL_INVALIDATED'' (ap_id ap) code
         (av_correlation_id av) (approval_refs None snapshot_id ex dc))
       (execution_upd (de_id ex)
          (\<lambda>e. e\<lparr>de_state := DX_INVALIDATED, de_result_code := Some code, de_guard_evaluation_id := Some guard_id\<rparr>)
          (approval_upd (ap_id ap) (approval_closed AP_INVALIDATED code) d))"

definition approval_failed :: "approval \<Rightarrow> decision_execution \<Rightarrow> string \<Rightarrow> db \<Rightarrow> db" where
  "approval_failed ap ex code d =
     execution_upd (de_id ex) (\<lambda>e. e\<lparr>de_state := DX_FAILED_SAFE, de_result_code := Some code\<rparr>)
       (approval_upd (ap_id ap) (approval_closed AP_INVALIDATED code) d)"

definition approval_approved :: "approve_call \<Rightarrow> trading_order \<Rightarrow> approval \<Rightarrow> approval" where
  "approval_approved av od ap =
     ap\<lparr>ap_state := AP_APPROVED, ap_actor_id := Some (av_user av), ap_order_id := Some (o_id od),
        ap_version := ap_version ap + 1\<rparr>"

definition approval_succeeded ::
  "approve_call \<Rightarrow> approval \<Rightarrow> decision_execution \<Rightarrow> decision \<Rightarrow> trading_order \<Rightarrow> uuid \<Rightarrow> uuid option \<Rightarrow> db \<Rightarrow> db" where
  "approval_succeeded av ap ex dc od guard_id snapshot_id d =
     add_audit (approval_audit ''USER'' (av_user av) ''APPROVAL_APPROVED'' (ap_id ap) ''ORDER_CREATED''
         (av_correlation_id av) (approval_refs (Some (o_id od)) snapshot_id ex dc))
       (execution_upd (de_id ex)
          (\<lambda>e. e\<lparr>de_state := DX_ORDER_CREATED, de_result_code := Some ''ORDER_CREATED'',
                de_guard_evaluation_id := Some guard_id, de_order_intent_id := Some (o_intent_id od)\<rparr>)
          (approval_upd (ap_id ap) (\<lambda>_. approval_approved av od ap) d))"

definition approval_guard_subject ::
  "instant \<Rightarrow> approval \<Rightarrow> decision_execution \<Rightarrow> decision \<Rightarrow> uuid option \<Rightarrow> guard_rule list \<Rightarrow> guard_subject" where
  "approval_guard_subject now ap ex dc snapshot_id rules =
     \<lparr>gs_execution_id = de_id ex, gs_subject_type = ''APPROVAL'', gs_subject_id = ap_id ap,
      gs_snapshot_id = snapshot_id, gs_position_version = sc_position_version (ap_scope ap),
      gs_execution_policy_version_id = de_execution_policy_version_id ex,
      gs_risk_policy_version_id = de_risk_policy_version_id ex,
      gs_halt_scope = (if guard_result rules = BLOCKED \<and> dc_action dc = ''BUY'' then Some ''ENTRY_HALT'' else None),
      gs_valid_until = Some (dc_valid_until dc), gs_now = now\<rparr>"

definition approve_evaluated ::
  "(int \<Rightarrow> date list option) \<Rightarrow> settings \<Rightarrow> approve_call \<Rightarrow> risk_policy \<Rightarrow> approval \<Rightarrow> decision \<Rightarrow> decision_execution \<Rightarrow>
     db \<Rightarrow> (approval_error + approval) \<times> db" where
  "approve_evaluated hol st av rp ap dc ex d =
     (let (rules, price) = approval_rules hol st (av_now av) (av_user av) rp ap dc d;
          sid = map_option m_id (latest_snapshot_for_approval d dc);
          (guard, d1) = persist_guard_evaluation (approval_guard_subject (av_now av) ap ex dc sid rules) rules d
      in if guard_result rules = BLOCKED
         then (let code = blocking_code rules
               in (Inl (ApprovalError code 409), approval_invalidated av ap ex dc code (ge_id guard) sid d1))
         else
           (case create_order (approval_context av) (approval_order_request av ap dc price sid) d1 of
              (Inl (OrderCreationError code status), d2) \<Rightarrow>
                (Inl (ApprovalError code status), approval_failed ap ex code d2)
            | (Inr od, d2) \<Rightarrow>
                (Inr (approval_approved av od ap), approval_succeeded av ap ex dc od (ge_id guard) sid d2)))"

definition approve ::
  "(int \<Rightarrow> date list option) \<Rightarrow> settings \<Rightarrow> approve_call \<Rightarrow> db \<Rightarrow> (approval_error + approval) \<times> db" where
  "approve hol st av d =
     (case approval_get d (av_approval_id av) of
        None \<Rightarrow> (Inl (ApprovalError ''APPROVAL_NOT_FOUND'' 404), d)
      | Some ap \<Rightarrow>
          if ap_state ap = AP_APPROVED then (Inr ap, d)
          else if ap_state ap \<noteq> AP_PENDING then (Inl (ApprovalError ''APPROVAL_NOT_PENDING'' 409), d)
          else if ap_expires_at ap \<le> av_now av
            then (Inl (ApprovalError ''APPROVAL_EXPIRED'' 409),
                  approval_upd (ap_id ap) (approval_closed AP_EXPIRED ''APPROVAL_EXPIRED'') d)
          else (case decision_get d (ap_decision_id ap) of
                  None \<Rightarrow> (Inl (ApprovalError ''DECISION_NOT_FOUND'' 404), d)
                | Some dc \<Rightarrow>
                    (case execution_get d (ap_execution_id ap) of
                       None \<Rightarrow> (Inl (ApprovalError ''EXECUTION_NOT_FOUND'' 404), d)
                     | Some ex \<Rightarrow>
                         (case risk_policy_payload (active_risk_policy d (uuid_text (av_user av))) of
                            None \<Rightarrow> (Inl ApprovalPolicyInvalid, d)
                          | Some rp \<Rightarrow> approve_evaluated hol st av rp ap dc ex d))))"

section \<open>Rejecting and expiring\<close>

definition reject :: "uuid \<Rightarrow> uuid \<Rightarrow> string \<Rightarrow> db \<Rightarrow> (approval_error + approval) \<times> db" where
  "reject aid user cid d =
     (case approval_get d aid of
        None \<Rightarrow> (Inl (ApprovalError ''APPROVAL_NOT_FOUND'' 404), d)
      | Some ap \<Rightarrow>
          if ap_state ap = AP_REJECTED then (Inr ap, d)
          else if ap_state ap \<noteq> AP_PENDING then (Inl (ApprovalError ''APPROVAL_NOT_PENDING'' 409), d)
          else
            (let ap' = (approval_closed AP_REJECTED ''USER_REJECTED'' ap)\<lparr>ap_actor_id := Some user\<rparr>;
                 d1 = approval_upd aid (\<lambda>_. ap') d;
                 d2 = execution_upd (ap_execution_id ap)
                   (\<lambda>e. e\<lparr>de_state := DX_REJECTED, de_result_code := Some ''USER_REJECTED''\<rparr>) d1
             in (Inr ap', add_audit (approval_audit ''USER'' user ''APPROVAL_REJECTED'' aid ''REJECTED'' cid (JObj [])) d2)))"

definition is_stale :: "instant \<Rightarrow> approval \<Rightarrow> bool" where
  "is_stale now ap \<longleftrightarrow> ap_state ap = AP_PENDING \<and> ap_expires_at ap \<le> now"

definition expire_one :: "approval \<Rightarrow> db \<Rightarrow> db" where
  "expire_one ap d =
     execution_upd (ap_execution_id ap)
       (\<lambda>e. if de_state e = DX_APPROVAL_PENDING
            then e\<lparr>de_state := DX_EXPIRED, de_result_code := Some ''APPROVAL_EXPIRED''\<rparr> else e)
       (approval_upd (ap_id ap) (approval_closed AP_EXPIRED ''APPROVAL_EXPIRED'') d)"

definition expire_stale :: "instant \<Rightarrow> db \<Rightarrow> nat \<times> db" where
  "expire_stale now d =
     (let stale = filter (is_stale now) (approvals d) in (length stale, fold expire_one stale d))"

text \<open>The newest fifty: rows are inserted in order of \<open>created_at\<close>.\<close>

definition list_pending :: "db \<Rightarrow> uuid \<Rightarrow> approval list" where
  "list_pending d user =
     take 50 (rev (filter (\<lambda>a. ap_user_id a = user \<and> ap_state a = AP_PENDING) (approvals d)))"

definition list_recent :: "db \<Rightarrow> uuid \<Rightarrow> approval list" where
  "list_recent d user = take 50 (rev (filter (\<lambda>a. ap_user_id a = user) (approvals d)))"

end
