(* ===== verification/Decision_Execution.thy ===== *)
theory Decision_Execution
  imports Approvals
begin

text \<open>
  \<open>route_trading_decision\<close> of \<open>app/decision_execution.py\<close>: one idempotent routing of a
  TRADING decision through its guard to no action, a recorded shadow, a pending approval or a
  CREATED order. An exception that leaves the function (an invalid policy document, an
  \<open>ApprovalError\<close>) reaches the caller, which rolls the transaction back; the model then
  returns the database it was given.
\<close>

datatype routing_error = RoutePolicyInvalid | RouteApprovalError approval_error

record route_call =
  rt_user :: uuid
  rt_correlation_id :: string
  rt_now :: instant

text \<open>The two active policy versions, their payloads, and the execution key.\<close>

record route_config =
  rc_config_id :: "uuid option"
  rc_policy :: execution_policy
  rc_risk_config_id :: "uuid option"
  rc_risk_policy :: risk_policy

definition route_policies :: "uuid \<Rightarrow> db \<Rightarrow> route_config option" where
  "route_policies user d =
     (let config = active_policy d user; risk_config = active_risk_policy d (uuid_text user)
      in case (policy_payload config, risk_policy_payload risk_config) of
           (Some p, Some rp) \<Rightarrow>
             Some \<lparr>rc_config_id = map_option cv_id config, rc_policy = p,
               rc_risk_config_id = map_option cv_id risk_config, rc_risk_policy = rp\<rparr>
         | _ \<Rightarrow> None)"

definition normalized_action :: "decision \<Rightarrow> string" where
  "normalized_action dc = (if dc_action dc \<in> set no_actions then ''NO_ACTION'' else dc_action dc)"

definition route_key :: "decision \<Rightarrow> route_config \<Rightarrow> digest" where
  "route_key dc rc = execution_key dc (normalized_action dc) (rc_config_id rc) (rc_risk_config_id rc)"

definition routed_execution :: "settings \<Rightarrow> route_call \<Rightarrow> decision \<Rightarrow> route_config \<Rightarrow> uuid \<Rightarrow> decision_execution" where
  "routed_execution st rt dc rc i =
     \<lparr>de_id = i, de_execution_key = route_key dc rc, de_decision_id = dc_id dc, de_user_id = rt_user rt,
      de_account_alias = kiwoom_account, de_symbol = dc_symbol dc, de_market = dc_market dc,
      de_action = normalized_action dc, de_mode = mode_for (dc_action dc) (rc_policy rc),
      de_stage = st_execution_stage st, de_state = DX_ROUTING, de_result_code = None,
      de_execution_policy_version_id = rc_config_id rc, de_risk_policy_version_id = rc_risk_config_id rc,
      de_guard_evaluation_id = None, de_approval_id = None, de_order_intent_id = None,
      de_correlation_id = rt_correlation_id rt\<rparr>"

definition set_execution :: "execution_state \<Rightarrow> string \<Rightarrow> decision_execution \<Rightarrow> decision_execution" where
  "set_execution s code ex = ex\<lparr>de_state := s, de_result_code := Some code\<rparr>"

section \<open>Automatic orders\<close>

definition routing_context :: "route_call \<Rightarrow> string \<Rightarrow> creation_context" where
  "routing_context rt action = \<lparr>cc_env = \<lambda>d. d, cc_user = uuid_text (rt_user rt), cc_audit_action = action,
     cc_request_ip = None, cc_user_agent = None, cc_now = rt_now rt\<rparr>"

definition auto_buy_request :: "route_call \<Rightarrow> decision \<Rightarrow> decimal \<Rightarrow> int \<Rightarrow> order_request" where
  "auto_buy_request rt dc price quantity =
     (let key = ''auto-buy:'' @ uuid_text (dc_id dc)
      in \<lparr>or_symbol = dc_symbol dc, or_market = dc_market dc, or_side = ''BUY'', or_action = ''BUY'',
          or_order_type = ''LIMIT'', or_limit_price = Some price, or_quantity = quantity,
          or_idempotency_key = key,
          or_request_payload = JObj [(''action'', JStr ''BUY''), (''decision_id'', json_uuid (dc_id dc)),
            (''environment'', JStr ''MOCK''), (''idempotency_key'', JStr key), (''limit_price'', JDec price),
            (''market'', JStr (dc_market dc)), (''order_type'', JStr ''LIMIT''), (''quantity'', JInt quantity),
            (''side'', JStr ''BUY''), (''symbol'', JStr (dc_symbol dc))],
          or_correlation_id = rt_correlation_id rt\<rparr>)"

definition auto_sell_request :: "route_call \<Rightarrow> decision \<Rightarrow> position \<Rightarrow> decimal \<Rightarrow> int \<Rightarrow> order_request" where
  "auto_sell_request rt dc p price quantity =
     (let key = ''auto-sell:'' @ uuid_text (dc_id dc) @ '':'' @ dc_action dc
      in \<lparr>or_symbol = dc_symbol dc, or_market = dc_market dc, or_side = ''SELL'', or_action = dc_action dc,
          or_order_type = ''LIMIT'', or_limit_price = Some price, or_quantity = quantity,
          or_idempotency_key = key,
          or_request_payload = JObj [(''action'', JStr (dc_action dc)), (''decision_id'', json_uuid (dc_id dc)),
            (''environment'', JStr ''MOCK''), (''idempotency_key'', JStr key), (''limit_price'', JDec price),
            (''market'', JStr (dc_market dc)), (''order_type'', JStr ''LIMIT''),
            (''position_id'', json_uuid (p_id p)), (''position_version'', JInt (p_version p)),
            (''quantity'', JInt quantity), (''reference_snapshot_id'', json_uuid (dc_input_snapshot_id dc)),
            (''side'', JStr ''SELL''), (''symbol'', JStr (dc_symbol dc))],
          or_correlation_id = rt_correlation_id rt\<rparr>)"

text \<open>The outcome of order creation on the execution row.\<close>

definition record_order :: "uuid \<Rightarrow> (order_creation_error + trading_order) \<times> db \<Rightarrow> db" where
  "record_order i r =
     (case r of
        (Inl (OrderCreationError code status), d) \<Rightarrow> execution_upd i (set_execution DX_FAILED_SAFE code) d
      | (Inr od, d) \<Rightarrow>
          execution_upd i (\<lambda>e. (set_execution DX_ORDER_CREATED ''ORDER_CREATED'' e)
            \<lparr>de_order_intent_id := Some (o_intent_id od)\<rparr>) d)"

definition create_buy_order :: "route_call \<Rightarrow> decision \<Rightarrow> risk_policy \<Rightarrow> uuid \<Rightarrow> db \<Rightarrow> db" where
  "create_buy_order rt dc rp i d =
     (let price = marketable_buy_price (snapshot_get d (dc_input_snapshot_id dc));
          quantity = buy_quantity (rp_entry_order_amount rp) price
      in case price of
           None \<Rightarrow> execution_upd i (set_execution DX_GUARD_BLOCKED ''ORDER_SIZE_NOT_CONFIGURED'') d
         | Some p \<Rightarrow>
             if quantity \<le> 0
             then execution_upd i (set_execution DX_GUARD_BLOCKED ''ORDER_SIZE_NOT_CONFIGURED'') d
             else record_order i
               (create_order (routing_context rt ''AUTOMATIC_BUY_ORDER_CREATED'') (auto_buy_request rt dc p quantity) d))"

definition create_sell_order :: "route_call \<Rightarrow> decision \<Rightarrow> sell_plan \<Rightarrow> uuid \<Rightarrow> db \<Rightarrow> db" where
  "create_sell_order rt dc plan i d =
     (case (sp_position plan, sp_price plan) of
        (Some p, Some price) \<Rightarrow>
          if sp_quantity plan \<le> 0
          then execution_upd i (set_execution DX_GUARD_BLOCKED ''SELL_QUANTITY_AVAILABLE'') d
          else record_order i
            (create_order (routing_context rt ''AUTOMATIC_DECISION_SELL_ORDER_CREATED'')
               (auto_sell_request rt dc p price (sp_quantity plan)) d)
      | _ \<Rightarrow> execution_upd i (set_execution DX_GUARD_BLOCKED ''SELL_QUANTITY_AVAILABLE'') d)"

section \<open>Routing\<close>

definition route_rules ::
  "(int \<Rightarrow> date list option) \<Rightarrow> settings \<Rightarrow> route_call \<Rightarrow> decision \<Rightarrow> risk_policy \<Rightarrow> db \<Rightarrow>
     guard_rule list \<times> sell_plan option" where
  "route_rules hol st rt dc rp d =
     (let snapshot = snapshot_get d (dc_input_snapshot_id dc)
      in if dc_action dc \<notin> set supported_actions then ([guard_rule_of ''ACTION_NOT_IMPLEMENTED'' False], None)
         else if dc_action dc = ''BUY''
           then (buy_guard_rules st (rt_now rt) (rt_user rt) dc rp snapshot d, None)
         else if dc_action dc \<in> set sell_actions then
           (let plan = make_sell_plan d dc snapshot
            in (sell_guard_rules hol st (rt_now rt) dc rp plan no_expectation d, Some plan))
         else ([guard_rule_of ''ACTION_NOT_IMPLEMENTED'' False], None))"

definition route_guard_subject ::
  "instant \<Rightarrow> decision \<Rightarrow> route_config \<Rightarrow> sell_plan option \<Rightarrow> uuid \<Rightarrow> guard_subject" where
  "route_guard_subject now dc rc plan i =
     \<lparr>gs_execution_id = i, gs_subject_type = ''DECISION_EXECUTION'', gs_subject_id = i,
      gs_snapshot_id = Some (dc_input_snapshot_id dc),
      gs_position_version = (case plan of None \<Rightarrow> None | Some sp \<Rightarrow> map_option p_version (sp_position sp)),
      gs_execution_policy_version_id = rc_config_id rc, gs_risk_policy_version_id = rc_risk_config_id rc,
      gs_halt_scope = (if dc_action dc = ''BUY'' then Some ''ENTRY_HALT'' else None),
      gs_valid_until = Some (dc_valid_until dc), gs_now = now\<rparr>"

text \<open>After the guard: block, record the shadow, ask for approval, or create the order.\<close>

definition route_guarded ::
  "settings \<Rightarrow> route_call \<Rightarrow> decision \<Rightarrow> route_config \<Rightarrow> guard_rule list \<Rightarrow> sell_plan option \<Rightarrow> uuid \<Rightarrow> db \<Rightarrow>
     routing_error + db" where
  "route_guarded st rt dc rc rules plan i d =
     (let mode = mode_for (dc_action dc) (rc_policy rc);
          shadow = Inr (execution_upd i (set_execution DX_SHADOW_RECORDED ''SHADOW_ONLY'') d)
      in if guard_result rules = BLOCKED
           then Inr (execution_upd i (set_execution DX_GUARD_BLOCKED (blocking_code rules)) d)
         else if dc_action dc \<in> set (''BUY'' # sell_actions) \<and> st_execution_stage st \<in> set order_enabled_stages then
           (if mode = MANUAL_APPROVAL then
              (case execution_get d i of
                 None \<Rightarrow> Inr d
               | Some ex \<Rightarrow>
                   (case create_approval (rt_now rt) ex dc (rt_user rt) d of
                      (Inl e, _) \<Rightarrow> Inl (RouteApprovalError e)
                    | (Inr ap, d1) \<Rightarrow> Inr d1))
            else if mode = AUTOMATIC \<and> dc_action dc = ''BUY'' then Inr (create_buy_order rt dc (rc_risk_policy rc) i d)
            else if mode = AUTOMATIC
              then (case plan of None \<Rightarrow> shadow | Some sp \<Rightarrow> Inr (create_sell_order rt dc sp i d))
            else shadow)
         else shadow)"

definition route_body ::
  "(int \<Rightarrow> date list option) \<Rightarrow> settings \<Rightarrow> route_call \<Rightarrow> decision \<Rightarrow> route_config \<Rightarrow> uuid \<Rightarrow> db \<Rightarrow>
     routing_error + db" where
  "route_body hol st rt dc rc i d =
     (if normalized_action dc = ''NO_ACTION'' then Inr (execution_upd i (set_execution DX_NO_ACTION (dc_action dc)) d)
      else if mode_for (dc_action dc) (rc_policy rc) = DISABLED
        then Inr (execution_upd i (set_execution DX_DISABLED ''ACTION_DISABLED'') d)
      else
        (let (rules, plan) = route_rules hol st rt dc (rc_risk_policy rc) d;
             (guard, d1) = persist_guard_evaluation (route_guard_subject (rt_now rt) dc rc plan i) rules d
         in route_guarded st rt dc rc rules plan i
              (execution_upd i (\<lambda>e. e\<lparr>de_guard_evaluation_id := Some (ge_id guard)\<rparr>) d1)))"

definition routing_audit :: "settings \<Rightarrow> route_call \<Rightarrow> decision \<Rightarrow> decision_execution \<Rightarrow> audit_log" where
  "routing_audit st rt dc ex =
     approval_audit ''SYSTEM'' (rt_user rt) ''DECISION_EXECUTION_ROUTED'' (de_id ex)
       (execution_state_text (de_state ex)) (rt_correlation_id rt)
       (JObj [(''action'', JStr (normalized_action dc)), (''decision_id'', json_uuid (dc_id dc)),
          (''result_code'', json_opt JStr (de_result_code ex)), (''stage'', JStr (st_execution_stage st))])"

definition route_trading_decision ::
  "(int \<Rightarrow> date list option) \<Rightarrow> settings \<Rightarrow> route_call \<Rightarrow> decision \<Rightarrow> db \<Rightarrow>
     (routing_error + decision_execution option) \<times> db" where
  "route_trading_decision hol st rt dc d =
     (if dc_purpose dc \<noteq> ''TRADING'' then (Inr None, d)
      else case route_policies (rt_user rt) d of
        None \<Rightarrow> (Inl RoutePolicyInvalid, d)
      | Some rc \<Rightarrow>
          (case row_find de_execution_key (route_key dc rc) (decision_executions d) of
             Some existing \<Rightarrow> (Inr (Some existing), d)
           | None \<Rightarrow>
               (let (i, d1) = uuid7_draw d;
                    d2 = d1\<lparr>decision_executions := decision_executions d1 @ [routed_execution st rt dc rc i]\<rparr>
                in case route_body hol st rt dc rc i d2 of
                     Inl e \<Rightarrow> (Inl e, d)
                   | Inr d3 \<Rightarrow>
                       (case execution_get d3 i of
                          None \<Rightarrow> (Inr None, d3)
                        | Some ex \<Rightarrow> (Inr (Some ex), add_audit (routing_audit st rt dc ex) d3)))))"

end
