(* ===== verification/Trading_Scenario.thy ===== *)
theory Trading_Scenario
  imports Decision_Guards
begin

text \<open>
  A concrete database in which a BUY decision passes every rule of the entry guard: one watched
  symbol with a fresh quote, a ready gate and worker, and a configured risk policy. The
  properties of the decision path are instantiated on it.
\<close>

definition scenario_snapshot :: market_snapshot where
  "scenario_snapshot = \<lparr>m_id = 4, m_symbol = ''005930'', m_market = ''KRX'', m_last_price = 70000,
     m_best_bid_price = Some 69900, m_best_bid_quantity = Some 10, m_best_ask_price = Some 70000,
     m_best_ask_quantity = Some 10, m_trading_status = ''TRADING'', m_quality = ''NORMAL'',
     m_event_at = 0, m_received_at = 0\<rparr>"

definition scenario_policy :: risk_policy where
  "scenario_policy = safe_default_risk_policy\<lparr>rp_entry_order_amount := Some 1000000\<rparr>"

definition scenario_version :: configuration_version where
  "scenario_version = \<lparr>cv_id = 2, cv_scope = config_scope, cv_target_id = uuid_text 7,
     cv_category = ''RISK_POLICY'', cv_sequence = 1, cv_state = CV_ACTIVE,
     cv_payload_json = risk_policy_json scenario_policy, cv_payload_hash = Sha256 (risk_policy_json scenario_policy),
     cv_reason = ''r'', cv_created_by = uuid_text 7, cv_base_active_version_id = None,
     cv_validated_at = Some 0, cv_activated_at = Some 0\<rparr>"

definition scenario_settings :: "string \<Rightarrow> settings" where
  "scenario_settings stage =
     \<lparr>st_environment = ''MOCK'', st_live_trading_enabled = False, st_execution_stage = stage\<rparr>"

definition scenario_decision :: decision where
  "scenario_decision = \<lparr>dc_id = 3, dc_purpose = ''TRADING'', dc_input_snapshot_id = 4, dc_symbol = ''005930'',
     dc_market = ''KRX'', dc_action = ''BUY'', dc_core_output_json = JNull, dc_valid_until = 100\<rparr>"

definition scenario_db :: db where
  "scenario_db = empty_db\<lparr>uuid_seed := 20, market_snapshots := [scenario_snapshot],
     market_stream_states := [\<lparr>ms_market = ''KRX'', ms_symbol = ''005930'', ms_current_snapshot_id = Some 4,
       ms_quality = ''NORMAL''\<rparr>],
     watchlist_items := [\<lparr>w_id = 8, w_user_id = 7, w_market = ''KRX'', w_symbol = ''005930''\<rparr>],
     trading_gates := [\<lparr>g_account_alias = kiwoom_account, g_environment = ''MOCK'', g_status = GS_READY,
       g_reason = None, g_version = 1\<rparr>],
     broker_worker_states := [\<lparr>bw_account_alias = kiwoom_account, bw_environment = ''MOCK'', bw_fencing_token = 1,
       bw_state = ''READY'', bw_websocket_connected = True, bw_subscriptions_ready = True,
       bw_last_heartbeat_at = 0, bw_last_reconciliation_at = None, bw_last_reconciliation_run_id = None,
       bw_last_error_code = None, bw_started_at = 0\<rparr>],
     configuration_versions := [scenario_version], decisions := [scenario_decision]\<rparr>"

lemma scenario_policy_valid: "risk_policy_valid scenario_policy"
  by (simp add: risk_policy_valid_def scenario_policy_def safe_default_risk_policy_def)

lemma scenario_payload:
  "configuration_versions d = [scenario_version] \<Longrightarrow>
   risk_policy_payload (active_risk_policy d (uuid_text 7)) = Some scenario_policy"
  using risk_policy_decode [OF scenario_policy_valid]
  by (simp add: active_risk_policy_def config_active_def config_of_def scenario_version_def risk_policy_payload_def)

lemma scenario_no_execution_policy:
  "configuration_versions d = [scenario_version] \<Longrightarrow> active_policy d user = None"
  by (simp add: active_policy_def config_active_def config_of_def scenario_version_def)

lemma scenario_floors: "\<lfloor>2000000 / 1399 :: rat\<rfloor> = 1429" "\<lfloor>100 / 7 :: rat\<rfloor> = 14"
  by (simp_all add: floor_eq_iff)

lemma scenario_spread: "spread_pct (Some scenario_snapshot) = Some (143 / 1000)"
  by (simp add: scenario_floors spread_pct_def scenario_snapshot_def quantize4_def quantize_def round_half_even_def Let_def)

lemma mock_upper: "str_upper ''MOCK'' = ''MOCK''"
  by code_simp

text \<open>The tables the guard reads, on any database that agrees with the scenario on them.\<close>

definition scenario_like :: "db \<Rightarrow> bool" where
  "scenario_like d \<longleftrightarrow>
     market_snapshots d = market_snapshots scenario_db \<and> market_stream_states d = market_stream_states scenario_db \<and>
     watchlist_items d = watchlist_items scenario_db \<and> trading_gates d = trading_gates scenario_db \<and>
     broker_worker_states d = broker_worker_states scenario_db \<and> emergency_stops d = [] \<and> positions d = [] \<and>
     orders d = [] \<and> fills d = [] \<and> risk_events d = []"

lemma scenario_like_refl: "scenario_like scenario_db"
  by (simp add: scenario_like_def scenario_db_def empty_db_def)

lemma scenario_snapshot_get: "scenario_like d \<Longrightarrow> snapshot_get d 4 = Some scenario_snapshot"
  by (simp add: scenario_like_def snapshot_get_def scenario_db_def scenario_snapshot_def)

lemma scenario_current: "scenario_like d \<Longrightarrow> snapshot_current d scenario_decision scenario_snapshot"
  by (simp add: scenario_like_def snapshot_current_def stream_get_def scenario_db_def scenario_decision_def
      scenario_snapshot_def)

lemma scenario_connection:
  "scenario_like d \<Longrightarrow> fst (broker_connection_ok d kiwoom_account 0)" "scenario_like d \<Longrightarrow> gate_ready d kiwoom_account"
  by (simp_all add: scenario_like_def broker_connection_ok_def worker_state_get_def gate_get_def gate_ready_def
      scenario_db_def seconds_def)

lemma scenario_book:
  assumes "scenario_like d"
  shows "open_positions d kiwoom_account = []" "daily_entry_count d kiwoom_account now = 0"
    "sell_fills d kiwoom_account = []" "active_pause_entry d kiwoom_account = None"
    "active_risk_events d sc al = []" "watched d 7 ''KRX'' ''005930''"
  using assms
  by (simp_all add: scenario_like_def open_positions_def daily_entry_count_def sell_fills_def
      active_pause_entry_def active_risk_events_def watched_def scenario_db_def)

lemma scenario_buy_guard:
  assumes "scenario_like d"
  shows "guard_result (buy_guard_rules (scenario_settings stage) 0 7 scenario_decision scenario_policy
    (Some scenario_snapshot) d) = PASSED"
proof -
  note b = scenario_book [OF assms]
  have book: "open_position_exposure d kiwoom_account = (\<lambda>_. 0, 0)" "open_position_count d kiwoom_account = 0"
    "consecutive_loss_count d kiwoom_account = 0"
    "daily_loss_pct d kiwoom_account bs 0 den = 0" for bs den
    using b by (simp_all add: open_position_exposure_def open_position_count_def consecutive_loss_count_def
        daily_loss_pct_def daily_realized_loss_def unrealized_loss_def Let_def)
  show ?thesis
    unfolding guard_result_PASSED buy_guard_rules_def Let_def
    using scenario_current [OF assms] scenario_connection [OF assms] scenario_spread b book mock_upper
    by (simp add: scenario_policy_def safe_default_risk_policy_def scenario_settings_def
        scenario_decision_def scenario_snapshot_def seconds_def)
qed

lemma scenario_buy_quantity: "buy_quantity (rp_entry_order_amount scenario_policy) (Some 70000) = 14"
  by (simp add: buy_quantity_def scenario_policy_def round_down_def scenario_floors)

lemma scenario_prices:
  "marketable_buy_price (Some scenario_snapshot) = Some 70000"
  "marketable_sell_price (Some scenario_snapshot) = Some 69900"
  by (simp_all add: marketable_buy_price_def marketable_sell_price_def scenario_snapshot_def)

end
