(* ===== verification/Approval_Properties.thy ===== *)
theory Approval_Properties
  imports Approvals Trading_Scenario
begin

text \<open>
  The approval state machine: every approval leaves PENDING at most once and never changes again,
  and an order is created only by an approval that passed its guard at that moment.
\<close>

section \<open>Frames\<close>

lemma insert_created_order_frame [simp]:
  "fills (snd (insert_created_order cc rq d)) = fills d"
  "positions (snd (insert_created_order cc rq d)) = positions d"
  "trading_gates (snd (insert_created_order cc rq d)) = trading_gates d"
  "market_snapshots (snd (insert_created_order cc rq d)) = market_snapshots d"
  "market_stream_states (snd (insert_created_order cc rq d)) = market_stream_states d"
  "watchlist_items (snd (insert_created_order cc rq d)) = watchlist_items d"
  "broker_worker_states (snd (insert_created_order cc rq d)) = broker_worker_states d"
  "guard_evaluations (snd (insert_created_order cc rq d)) = guard_evaluations d"
  "risk_events (snd (insert_created_order cc rq d)) = risk_events d"
  "emergency_stops (snd (insert_created_order cc rq d)) = emergency_stops d"
  "configuration_versions (snd (insert_created_order cc rq d)) = configuration_versions d"
  "decision_executions (snd (insert_created_order cc rq d)) = decision_executions d"
  "approvals (snd (insert_created_order cc rq d)) = approvals d"
  "stop_triggers (snd (insert_created_order cc rq d)) = stop_triggers d"
  "decisions (snd (insert_created_order cc rq d)) = decisions d"
  "broker_leases (snd (insert_created_order cc rq d)) = broker_leases d"
  "calendar_overrides (snd (insert_created_order cc rq d)) = calendar_overrides d"
  by (simp_all add: insert_created_order_def uuid7_draw_def Let_def)

text \<open>Order creation inside another transaction: no interference, so a failure writes nothing.\<close>

lemma create_order_nested:
  assumes "cc_env cc = (\<lambda>d. d)" "create_order cc rq d = (res, d')"
  obtains (refused) e where "res = Inl e" "d' = d"
  | (existing) r where "res = Inr r" "d' = d" "order_by_key d (or_idempotency_key rq) = Some r"
      "o_request_hash r = creation_hash (or_request_payload rq)" "validate_order_request rq = None"
  | (created) "res = Inr (fst (insert_created_order cc rq d))" "d' = snd (insert_created_order cc rq d)"
      "order_by_key d (or_idempotency_key rq) = None" "validate_order_request rq = None"
proof (cases rule: create_order_cases [of rq cc d])
  case (existing r)
  then show thesis using that(1,2) assms by (auto split: if_splits)
qed (use that assms in \<open>auto split: if_splits\<close>)

definition approval_frame :: "db \<Rightarrow> db \<Rightarrow> bool" where
  "approval_frame d d' \<longleftrightarrow> approvals d' = approvals d \<and> decision_executions d' = decision_executions d \<and>
     uuid_seed d \<le> uuid_seed d'"

lemma create_order_approval_frame:
  assumes "cc_env cc = (\<lambda>d. d)" "create_order cc rq d = (res, d')"
  shows "approval_frame d d'"
  using assms
proof (cases rule: create_order_nested)
  case created
  then show ?thesis
    by (simp add: approval_frame_def insert_created_order_tables(3))
qed (simp_all add: approval_frame_def)

lemma approval_context_env [simp]: "cc_env (approval_context av) = (\<lambda>d. d)"
  by (simp add: approval_context_def)

lemma upd_tables [simp]:
  "approvals (execution_upd i f d) = approvals d" "orders (execution_upd i f d) = orders d"
  "uuid_seed (execution_upd i f d) = uuid_seed d"
  "decision_executions (execution_upd i f d) = row_upd de_id i f (decision_executions d)"
  "approvals (approval_upd i g d) = row_upd ap_id i g (approvals d)" "orders (approval_upd i g d) = orders d"
  "uuid_seed (approval_upd i g d) = uuid_seed d" "decision_executions (approval_upd i g d) = decision_executions d"
  "approvals (add_audit a d) = approvals d" "orders (add_audit a d) = orders d"
  "uuid_seed (add_audit a d) = uuid_seed d" "decision_executions (add_audit a d) = decision_executions d"
  by (simp_all add: execution_upd_def approval_upd_def add_audit_def)

section \<open>The cases of approve\<close>

lemma approve_cases:
  obtains (noop) res where "approve hol st av d = (res, d)"
      "\<And>r. res = Inr r \<Longrightarrow> approval_get d (av_approval_id av) = Some r \<and> ap_state r = AP_APPROVED"
  | (expired) ap where "approval_get d (av_approval_id av) = Some ap" "ap_state ap = AP_PENDING"
      "ap_expires_at ap \<le> av_now av"
      "approve hol st av d = (Inl (ApprovalError ''APPROVAL_EXPIRED'' 409),
         approval_upd (ap_id ap) (approval_closed AP_EXPIRED ''APPROVAL_EXPIRED'') d)"
  | (evaluated) ap dc ex rp where "approval_get d (av_approval_id av) = Some ap" "ap_state ap = AP_PENDING"
      "av_now av < ap_expires_at ap" "decision_get d (ap_decision_id ap) = Some dc"
      "execution_get d (ap_execution_id ap) = Some ex"
      "risk_policy_payload (active_risk_policy d (uuid_text (av_user av))) = Some rp"
      "approve hol st av d = approve_evaluated hol st av rp ap dc ex d"
proof (cases "approval_get d (av_approval_id av)")
  case None
  then show thesis using that(1) by (simp add: approve_def)
next
  case (Some ap)
  show thesis
  proof (cases "ap_state ap = AP_PENDING")
    case False
    then show thesis using that(1) Some by (cases "ap_state ap = AP_APPROVED") (simp_all add: approve_def)
  next
    case pending: True
    show thesis
    proof (cases "ap_expires_at ap \<le> av_now av")
      case True
      then show thesis using that(2) Some pending by (simp add: approve_def)
    next
      case live: False
      show thesis
      proof (cases "decision_get d (ap_decision_id ap)")
        case None
        then show thesis using that(1) Some pending live by (simp add: approve_def)
      next
        case dc: (Some dc)
        show thesis
          using that Some pending live dc
          by (cases "execution_get d (ap_execution_id ap)";
              cases "risk_policy_payload (active_risk_policy d (uuid_text (av_user av)))")
            (simp_all add: approve_def)
      qed
    qed
  qed
qed

lemma approve_evaluated_cases:
  fixes hol st av rp ap dc ex d
  defines "rules \<equiv> fst (approval_rules hol st (av_now av) (av_user av) rp ap dc d)"
    and "price \<equiv> snd (approval_rules hol st (av_now av) (av_user av) rp ap dc d)"
    and "sid \<equiv> map_option m_id (latest_snapshot_for_approval d dc)"
  defines "d1 \<equiv> snd (persist_guard_evaluation (approval_guard_subject (av_now av) ap ex dc sid rules) rules d)"
  obtains (blocked) "guard_result rules = BLOCKED"
      "approve_evaluated hol st av rp ap dc ex d = (Inl (ApprovalError (blocking_code rules) 409),
         approval_invalidated av ap ex dc (blocking_code rules) (uuid_seed d) sid d1)"
  | (failed) code status d2 where "guard_result rules = PASSED"
      "create_order (approval_context av) (approval_order_request av ap dc price sid) d1 =
         (Inl (OrderCreationError code status), d2)"
      "approve_evaluated hol st av rp ap dc ex d = (Inl (ApprovalError code status), approval_failed ap ex code d2)"
  | (succeeded) od d2 where "guard_result rules = PASSED"
      "create_order (approval_context av) (approval_order_request av ap dc price sid) d1 = (Inr od, d2)"
      "approve_evaluated hol st av rp ap dc ex d =
         (Inr (approval_approved av od ap), approval_succeeded av ap ex dc od (uuid_seed d) sid d2)"
proof -
  obtain res d2 where co: "create_order (approval_context av) (approval_order_request av ap dc price sid) d1 = (res, d2)"
    by fastforce
  have eval: "approve_evaluated hol st av rp ap dc ex d =
    (if guard_result rules = BLOCKED
     then (Inl (ApprovalError (blocking_code rules) 409),
           approval_invalidated av ap ex dc (blocking_code rules) (uuid_seed d) sid d1)
     else (case (res, d2) of
             (Inl (OrderCreationError code status), d2) \<Rightarrow> (Inl (ApprovalError code status), approval_failed ap ex code d2)
           | (Inr od, d2) \<Rightarrow> (Inr (approval_approved av od ap), approval_succeeded av ap ex dc od (uuid_seed d) sid d2)))"
    unfolding co [symmetric] approve_evaluated_def rules_def price_def sid_def d1_def
    by (simp add: case_prod_beta Let_def guard_row_def split: prod.split sum.split)
  show thesis
  proof (cases "guard_result rules = BLOCKED")
    case True
    with eval that(1) show thesis by simp
  next
    case False
    then have pass: "guard_result rules = PASSED" by simp
    show thesis
    proof (cases res)
      case (Inl e)
      then show thesis using that(2) pass False eval co by (cases e) simp
    next
      case (Inr od)
      then show thesis using that(3) pass False eval co by simp
    qed
  qed
qed

section \<open>The state machine\<close>

definition approvals_inv :: "db \<Rightarrow> bool" where
  "approvals_inv d \<longleftrightarrow>
     distinct (map ap_id (approvals d)) \<and> (\<forall>a \<in> set (approvals d). ap_id a < uuid_seed d)"

inductive approval_step :: "db \<Rightarrow> db \<Rightarrow> bool" where
  create: "approval_step d (snd (create_approval now ex dc user d))"
| approve: "approval_step d (snd (approve hol st av d))"
| reject: "approval_step d (snd (reject aid user cid d))"
| expire: "approval_step d (snd (expire_stale now d))"
| other: "approvals d' = approvals d \<Longrightarrow> uuid_seed d \<le> uuid_seed d' \<Longrightarrow> approval_step d d'"

text \<open>Closing a pending row: the other rows and all identifiers stay.\<close>

definition closes :: "db \<Rightarrow> db \<Rightarrow> bool" where
  "closes d d' \<longleftrightarrow>
     map ap_id (approvals d') = map ap_id (approvals d) \<and> uuid_seed d \<le> uuid_seed d' \<and>
     (\<forall>a \<in> set (approvals d). ap_state a \<noteq> AP_PENDING \<longrightarrow> a \<in> set (approvals d'))"

lemma closes_refl: "approval_frame d d' \<Longrightarrow> closes d d'"
  by (simp add: closes_def approval_frame_def)

lemma closes_upd:
  assumes inv: "approvals_inv d" and row: "approval_get d i = Some ap" "ap_state ap = AP_PENDING"
    and f: "\<And>a. ap_id (f a) = ap_id a \<or> ap_id (f a) = i"
    and tables: "approvals d' = row_upd ap_id i f (approvals d)" "uuid_seed d \<le> uuid_seed d'"
  shows "closes d d'"
proof -
  have row': "row_find ap_id i (approvals d) = Some ap" using row(1) by (simp add: approval_get_def)
  have uniq: "a = ap" if "a \<in> set (approvals d)" "ap_id a = i" for a
    using row_find_distinct [of ap_id "approvals d" a] inv row' that by (simp add: approvals_inv_def)
  have ids: "map ap_id (approvals d') = map ap_id (approvals d)"
    unfolding tables(1) using f by (intro map_row_upd_same) auto
  have "a \<in> set (approvals d')" if "a \<in> set (approvals d)" "ap_state a \<noteq> AP_PENDING" for a
  proof -
    have "ap_id a \<noteq> i" using uniq that row(2) by blast
    then show ?thesis unfolding tables(1) row_upd_def using that(1) by force
  qed
  with ids tables(2) show ?thesis by (simp add: closes_def)
qed

lemma approvals_inv_closes: "approvals_inv d \<Longrightarrow> closes d d' \<Longrightarrow> approvals_inv d'"
proof -
  assume inv: "approvals_inv d" and c: "closes d d'"
  have ids: "map ap_id (approvals d') = map ap_id (approvals d)" using c by (simp add: closes_def)
  have img: "ap_id ` set (approvals d') = ap_id ` set (approvals d)"
    unfolding list.set_map [symmetric] ids by (rule refl)
  have "ap_id a < uuid_seed d'" if a: "a \<in> set (approvals d')" for a
  proof -
    have "ap_id a \<in> ap_id ` set (approvals d)" using img a by blast
    then obtain b where "b \<in> set (approvals d)" "ap_id a = ap_id b" by auto
    then show ?thesis using inv c by (fastforce simp: approvals_inv_def closes_def)
  qed
  with inv ids show ?thesis by (simp add: approvals_inv_def)
qed

lemma approval_get_id: "approval_get d i = Some ap \<Longrightarrow> ap_id ap = i \<and> ap \<in> set (approvals d)"
  unfolding approval_get_def by (drule row_find_Some) blast

lemma closed_sel [simp]:
  "ap_id (approval_closed s c a) = ap_id a" "ap_id (approval_approved av od a) = ap_id a"
  "ap_state (approval_closed s c a) = s" "ap_state (approval_approved av od a) = AP_APPROVED"
  by (simp_all add: approval_closed_def approval_approved_def)

lemma approve_closes:
  assumes inv: "approvals_inv d"
  shows "closes d (snd (approve hol st av d))"
proof (cases rule: approve_cases [where hol = hol and st = st and av = av and d = d])
  case (noop res)
  then show ?thesis by (simp add: closes_def)
next
  case (expired ap)
  then show ?thesis
    using approval_get_id [OF expired(1)]
    by (intro closes_upd [OF inv expired(1,2), where f = "approval_closed AP_EXPIRED ''APPROVAL_EXPIRED''"]) auto
next
  case (evaluated ap dc ex rp)
  let ?i = "av_approval_id av"
  have i: "ap_id ap = ?i" using approval_get_id [OF evaluated(1)] by simp
  note upd = closes_upd [OF inv evaluated(1,2)]
  show ?thesis
  proof (cases rule: approve_evaluated_cases [where hol = hol and st = st and av = av and rp = rp and ap = ap
        and dc = dc and ex = ex and d = d])
    case blocked
    show ?thesis
      unfolding evaluated(7) blocked(2)
      by (intro upd [where f = "approval_closed AP_INVALIDATED
            (blocking_code (fst (approval_rules hol st (av_now av) (av_user av) rp ap dc d)))"])
        (auto simp: approval_invalidated_def i)
  next
    case (failed code status d2)
    show ?thesis
      unfolding evaluated(7) failed(3)
      using create_order_approval_frame [OF _ failed(2)]
      by (intro upd [where f = "approval_closed AP_INVALIDATED code"])
        (auto simp: approval_failed_def approval_frame_def i)
  next
    case (succeeded od d2)
    show ?thesis
      unfolding evaluated(7) succeeded(3)
      using create_order_approval_frame [OF _ succeeded(2)]
      by (intro upd [where f = "\<lambda>_. approval_approved av od ap"])
        (auto simp: approval_succeeded_def approval_frame_def i)
  qed
qed

lemma reject_closes:
  assumes inv: "approvals_inv d"
  shows "closes d (snd (reject aid user cid d))"
proof (cases "\<exists>ap. approval_get d aid = Some ap \<and> ap_state ap = AP_PENDING")
  case True
  then obtain ap where ap: "approval_get d aid = Some ap" "ap_state ap = AP_PENDING" by blast
  show ?thesis
    using ap approval_get_id [OF ap(1)]
    by (intro closes_upd [OF inv ap, where f = "\<lambda>_. (approval_closed AP_REJECTED ''USER_REJECTED'' ap)\<lparr>ap_actor_id := Some user\<rparr>"])
      (auto simp: reject_def Let_def)
next
  case False
  then have "snd (reject aid user cid d) = d" by (auto simp: reject_def split: option.split)
  then show ?thesis by (simp add: closes_def)
qed

lemma expire_one_tables:
  "approvals (expire_one x d) = row_upd ap_id (ap_id x) (approval_closed AP_EXPIRED ''APPROVAL_EXPIRED'') (approvals d)"
  "uuid_seed (expire_one x d) = uuid_seed d" "orders (expire_one x d) = orders d"
  by (simp_all add: expire_one_def)

lemma fold_expire_tables:
  "map ap_id (approvals (fold expire_one xs d)) = map ap_id (approvals d)"
  "uuid_seed (fold expire_one xs d) = uuid_seed d"
  "a \<in> set (approvals d) \<Longrightarrow> ap_id a \<notin> ap_id ` set xs \<Longrightarrow> a \<in> set (approvals (fold expire_one xs d))"
proof (induction xs arbitrary: d)
  case (Cons x xs)
  { case 1 show ?case using Cons(1) [of "expire_one x d"] by (simp add: expire_one_tables map_row_upd_same) }
  { case 2 show ?case using Cons(2) [of "expire_one x d"] by (simp add: expire_one_tables) }
  { case 3
    then have "a \<in> set (approvals (expire_one x d))"
      by (auto simp: expire_one_tables row_upd_def)
    then show ?case using Cons(3) [of "expire_one x d"] 3 by simp }
qed simp_all

lemma expire_closes:
  assumes inv: "approvals_inv d"
  shows "closes d (snd (expire_stale now d))"
proof -
  let ?xs = "filter (is_stale now) (approvals d)"
  have "ap_id a \<notin> ap_id ` set ?xs" if a: "a \<in> set (approvals d)" "ap_state a \<noteq> AP_PENDING" for a
  proof
    assume "ap_id a \<in> ap_id ` set ?xs"
    then obtain x where x: "x \<in> set (approvals d)" "is_stale now x" "ap_id x = ap_id a" by auto
    have "distinct (map ap_id (approvals d))" using inv by (simp add: approvals_inv_def)
    then have "x = a" using row_find_distinct [of ap_id "approvals d"] x a by (metis option.inject)
    with x a show False by (simp add: is_stale_def)
  qed
  then show ?thesis
    using fold_expire_tables(1,2) [of ?xs d] fold_expire_tables(3) [where xs = ?xs and d = d] by (auto simp: closes_def expire_stale_def Let_def)
qed

lemma create_approval_adds:
  assumes inv: "approvals_inv d"
  shows "approvals_inv (snd (create_approval now ex dc user d)) \<and>
    set (approvals d) \<subseteq> set (approvals (snd (create_approval now ex dc user d)))"
  using inv
  by (auto simp: create_approval_def approvals_inv_def uuid7_draw_def Let_def less_Suc_eq
      split: option.split prod.split)

lemma approval_step_keeps:
  assumes "approval_step d d'" "approvals_inv d"
  shows "approvals_inv d' \<and> (\<forall>a \<in> set (approvals d). ap_state a \<noteq> AP_PENDING \<longrightarrow> a \<in> set (approvals d'))"
  using assms
proof (induction rule: approval_step.induct)
  case (create d now ex dc user)
  then show ?case using create_approval_adds [OF create] by blast
next
  case (other d' d)
  then show ?case by (auto simp: approvals_inv_def)
qed (use approve_closes reject_closes expire_closes approvals_inv_closes in \<open>simp_all add: closes_def\<close>)

lemma approval_steps_keep:
  assumes "approval_step\<^sup>*\<^sup>* d d'" "approvals_inv d"
  shows "approvals_inv d' \<and> (\<forall>a \<in> set (approvals d). ap_state a \<noteq> AP_PENDING \<longrightarrow> a \<in> set (approvals d'))"
  using assms(1)
proof (induction rule: rtranclp_induct)
  case base
  then show ?case using assms(2) by simp
next
  case (step d1 d2)
  then show ?case using approval_step_keeps [OF step(2)] by blast
qed

section \<open>What an accepted approval has checked\<close>

lemma guard_result_append:
  "guard_result (xs @ ys) = PASSED \<longleftrightarrow> guard_result xs = PASSED \<and> guard_result ys = PASSED"
  by (auto simp: guard_result_PASSED)

lemma guard_result_Cons [simp]:
  "guard_result (guard_rule_of c b # rs) = PASSED \<longleftrightarrow> b \<and> guard_result rs = PASSED" "guard_result [] = PASSED"
  by (simp_all add: guard_result_PASSED)

lemma approval_rules_passed:
  assumes "guard_result (fst (approval_rules hol st now user rp ap dc d)) = PASSED"
  defines "price \<equiv> snd (approval_rules hol st now user rp ap dc d)"
    and "snap \<equiv> latest_snapshot_for_approval d dc"
  shows "price_deviation_ok (sc_reference_price (ap_scope ap)) price (rp_max_price_deviation_pct rp)"
    and "0 < sc_quantity (ap_scope ap)"
    and "(dc_action dc = ''BUY'' \<and> price = marketable_buy_price snap \<and>
          guard_result (buy_guard_rules st now user dc rp snap d) = PASSED) \<or>
         (dc_action dc \<in> set sell_actions \<and> price = marketable_sell_price snap \<and>
          guard_result (sell_guard_rules hol st now dc rp (make_sell_plan d dc snap)
            \<lparr>sx_position_id = sc_position_id (ap_scope ap), sx_position_version = sc_position_version (ap_scope ap),
             sx_requested_quantity = Some (sc_quantity (ap_scope ap))\<rparr> d) = PASSED)"
  using assms unfolding approval_rules_def price_def snap_def
  by (auto simp: Let_def guard_result_append sell_actions_def split: if_splits)

lemma price_deviation_okD:
  assumes "price_deviation_ok r c m"
  obtains x y where "r = Some x" "c = Some y" "0 < x" "\<bar>y - x\<bar> \<le> m / 100 * x"
proof -
  from assms obtain x y where xy: "r = Some x" "c = Some y" "0 < x" "\<bar>y - x\<bar> / x * 100 \<le> m"
    by (auto simp: price_deviation_ok_def split: option.splits)
  then have "\<bar>y - x\<bar> \<le> m / 100 * x" by (simp add: field_simps)
  with xy that show thesis by blast
qed

text \<open>The orders of the database before and after: unchanged, or one more.\<close>

lemma approve_orders:
  assumes "approve hol st av d = (res, d')"
  obtains (same) "orders d' = orders d"
  | (created) ap dc rp price where
      "approval_get d (av_approval_id av) = Some ap" "ap_state ap = AP_PENDING" "av_now av < ap_expires_at ap"
      "decision_get d (ap_decision_id ap) = Some dc"
      "risk_policy_payload (active_risk_policy d (uuid_text (av_user av))) = Some rp"
      "guard_result (fst (approval_rules hol st (av_now av) (av_user av) rp ap dc d)) = PASSED"
      "price = snd (approval_rules hol st (av_now av) (av_user av) rp ap dc d)"
      "\<exists>od. orders d' = orders d @ [od] \<and> res = Inr (approval_approved av od ap) \<and>
         o_status od = OS_CREATED \<and> o_limit_price od = price \<and> o_symbol od = dc_symbol dc \<and>
         o_side od = (if dc_action dc = ''BUY'' then ''BUY'' else ''SELL'') \<and>
         o_requested_quantity od = sc_quantity (ap_scope ap)"
proof (cases rule: approve_cases [where hol = hol and st = st and av = av and d = d])
  case (noop res')
  then show thesis using that(1) assms by simp
next
  case (expired ap)
  then show thesis using that(1) assms by auto
next
  case (evaluated ap dc ex rp)
  show thesis
  proof (cases rule: approve_evaluated_cases [where hol = hol and st = st and av = av and rp = rp and ap = ap
        and dc = dc and ex = ex and d = d])
    case blocked
    then show thesis using that(1) assms evaluated(7) by (auto simp: approval_invalidated_def)
  next
    case (failed code status d2)
    show thesis
    proof (cases rule: create_order_nested [OF approval_context_env failed(2)])
      case (1 e)
      then show thesis using that(1) assms evaluated(7) failed(3) by (auto simp: approval_failed_def)
    qed simp_all
  next
    case (succeeded od d2)
    show thesis
    proof (cases rule: create_order_nested [OF approval_context_env succeeded(2)])
      case (2 r)
      then show thesis using that(1) assms evaluated(7) succeeded(3) by (auto simp: approval_succeeded_def)
    next
      case created: 3
      show thesis
        by (rule that(2) [OF evaluated(1-4,6) succeeded(1) refl])
          (use created assms evaluated(7) succeeded(3) in
            \<open>auto simp: approval_succeeded_def insert_created_order_tables approval_order_request_def Let_def\<close>)
    qed simp_all
  qed
qed

section \<open>Properties\<close>

lemma approval_terminal_facts:
  assumes steps: "approval_step\<^sup>*\<^sup>* d d'" and inv: "approvals_inv d"
    and row: "approval_get d i = Some ap" "ap_state ap \<noteq> AP_PENDING"
  shows "approval_get d' i = Some ap"
    and "snd (approve hol st (av\<lparr>av_approval_id := i\<rparr>) d') = d'"
    and "snd (reject i user cid d') = d'"
proof -
  note keep = approval_steps_keep [OF steps inv]
  have "ap \<in> set (approvals d')" "ap_id ap = i" using keep approval_get_id [OF row(1)] row(2) by auto
  then show get: "approval_get d' i = Some ap"
    using keep row_find_distinct [of ap_id "approvals d'" ap] by (simp add: approval_get_def approvals_inv_def)
  show "snd (approve hol st (av\<lparr>av_approval_id := i\<rparr>) d') = d'"
    using get row(2) by (simp add: approve_def)
  show "snd (reject i user cid d') = d'" using get row(2) by (simp add: reject_def)
qed

text \<open>An approval leaves PENDING at most once: once it is APPROVED, REJECTED, EXPIRED or
  INVALIDATED its row never changes again, whatever calls follow; approving an APPROVED one again
  returns it and writes nothing, so an approval produces at most one order.\<close>
theorem approval_terminal:
  assumes steps: "approval_step\<^sup>*\<^sup>* d d'" and inv: "approvals_inv d"
    and row: "approval_get d i = Some ap" "ap_state ap \<noteq> AP_PENDING"
  shows "(approval_get d' i = Some ap) \<and>
    (snd (approve hol st (av\<lparr>av_approval_id := i\<rparr>) d') = d') \<and>
    (snd (reject i user cid d') = d')"
  by (intro conjI impI; rule approval_terminal_facts [OF assms]; assumption)

definition demo_scope :: approval_scope where
  "demo_scope = \<lparr>sc_decision_id = 3, sc_reference_snapshot_id = 4, sc_symbol = ''005930'', sc_market = ''KRX'',
     sc_action = ''BUY'', sc_reference_price = Some 70000, sc_quantity = 2, sc_position_id = None,
     sc_position_version = None, sc_valid_until = 100, sc_captured_at = 0\<rparr>"

definition demo_approval :: "approval_state \<Rightarrow> approval" where
  "demo_approval s = \<lparr>ap_id = 5, ap_execution_id = 6, ap_decision_id = 3, ap_user_id = 7, ap_state = s,
     ap_scope = demo_scope, ap_expires_at = 100, ap_actor_id = None, ap_order_id = None,
     ap_result_code = None, ap_version = 1\<rparr>"

definition demo_approval_db :: "approval_state \<Rightarrow> db" where
  "demo_approval_db s = empty_db\<lparr>uuid_seed := 9, approvals := [demo_approval s]\<rparr>"

lemma demo_approval_facts:
  "approvals_inv (demo_approval_db s)" "approval_get (demo_approval_db s) 5 = Some (demo_approval s)"
  "ap_state (demo_approval s) = s" "ap_expires_at (demo_approval s) = 100"
  by (simp_all add: approvals_inv_def demo_approval_db_def demo_approval_def approval_get_def)

theorem approval_terminal_witness:
  "approval_get (snd (expire_stale 500 (demo_approval_db AP_REJECTED))) 5 = Some (demo_approval AP_REJECTED)"
proof -
  have st: "ap_state (demo_approval AP_REJECTED) \<noteq> AP_PENDING" by (simp add: demo_approval_facts)
  have "approval_step\<^sup>*\<^sup>* (demo_approval_db AP_REJECTED) (snd (expire_stale 500 (demo_approval_db AP_REJECTED)))"
    by (rule r_into_rtranclp) (rule approval_step.expire)
  then show ?thesis using approval_terminal [OF _ demo_approval_facts(1,2) st] by blast
qed


definition approving_db :: db where
  "approving_db = scenario_db\<lparr>approvals := [demo_approval AP_PENDING],
     decision_executions := [\<lparr>de_id = 6, de_execution_key = Sha256 JNull, de_decision_id = 3, de_user_id = 7,
       de_account_alias = kiwoom_account, de_symbol = ''005930'', de_market = ''KRX'', de_action = ''BUY'',
       de_mode = MANUAL_APPROVAL, de_stage = ''APPROVAL_ONLY'', de_state = DX_APPROVAL_PENDING,
       de_result_code = None, de_execution_policy_version_id = None, de_risk_policy_version_id = Some 2,
       de_guard_evaluation_id = None, de_approval_id = Some 5, de_order_intent_id = None,
       de_correlation_id = ''c''\<rparr>]\<rparr>"

definition approving_call :: approve_call where
  "approving_call = \<lparr>av_approval_id = 5, av_user = 7, av_correlation_id = ''c'', av_idempotency_key = ''k'', av_now = 0\<rparr>"

lemma approving_like: "scenario_like approving_db"
  using scenario_like_refl by (simp add: scenario_like_def approving_db_def)

lemma approving_rules:
  "approval_rules hol (scenario_settings ''APPROVAL_ONLY'') 0 7 scenario_policy (demo_approval AP_PENDING)
     scenario_decision approving_db =
   (buy_guard_rules (scenario_settings ''APPROVAL_ONLY'') 0 7 scenario_decision scenario_policy
      (Some scenario_snapshot) approving_db, Some 70000)"
proof -
  have "latest_snapshot_for_approval approving_db scenario_decision = Some scenario_snapshot"
    using scenario_snapshot_get [OF approving_like]
    by (simp add: latest_snapshot_for_approval_def stream_get_def approving_db_def scenario_db_def scenario_decision_def)
  moreover have "price_deviation_ok (Some 70000) (Some 70000) (rp_max_price_deviation_pct scenario_policy)"
    by (simp add: price_deviation_ok_def scenario_policy_def safe_default_risk_policy_def)
  ultimately show ?thesis
    by (simp add: approval_rules_def scenario_prices demo_approval_def demo_scope_def Let_def)
      (simp add: scenario_decision_def)
qed

lemma approving_creates: "orders (snd (approve hol (scenario_settings ''APPROVAL_ONLY'') approving_call approving_db)) \<noteq> []"
proof -
  let ?st = "scenario_settings ''APPROVAL_ONLY''"
  have none: "orders approving_db = []" using approving_like by (simp add: scenario_like_def)
  have cf: "configuration_versions approving_db = [scenario_version]"
    by (simp add: approving_db_def scenario_db_def)
  have get: "approval_get approving_db 5 = Some (demo_approval AP_PENDING)"
    "decision_get approving_db 3 = Some scenario_decision"
    by (simp_all add: approval_get_def decision_get_def approving_db_def demo_approval_def scenario_db_def
        scenario_decision_def)
  have ap: "ap_state (demo_approval AP_PENDING) = AP_PENDING" "ap_expires_at (demo_approval AP_PENDING) = 100"
    "ap_decision_id (demo_approval AP_PENDING) = 3" "ap_execution_id (demo_approval AP_PENDING) = 6"
    by (simp_all add: demo_approval_def)
  have av: "av_approval_id approving_call = 5" "av_now approving_call = 0" "av_user approving_call = 7"
    by (simp_all add: approving_call_def)
  obtain ex where ex: "execution_get approving_db 6 = Some ex"
    by (simp add: execution_get_def approving_db_def)
  have eq: "approve hol ?st approving_call approving_db =
    approve_evaluated hol ?st approving_call scenario_policy (demo_approval AP_PENDING) scenario_decision ex approving_db"
    using get ex scenario_payload [OF cf] by (simp add: approve_def ap av)
  show ?thesis
    unfolding eq
  proof (cases rule: approve_evaluated_cases [where hol = hol and st = ?st and av = approving_call
        and rp = scenario_policy and ap = "demo_approval AP_PENDING" and dc = scenario_decision and ex = ex
        and d = approving_db])
    case blocked
    then show "orders (snd (approve_evaluated hol ?st approving_call scenario_policy (demo_approval AP_PENDING)
        scenario_decision ex approving_db)) \<noteq> []"
      using scenario_buy_guard [OF approving_like] by (simp add: av approving_rules)
  next
    case (failed code status d2)
    let ?rq = "approval_order_request approving_call (demo_approval AP_PENDING) scenario_decision (Some 70000)
       (map_option m_id (latest_snapshot_for_approval approving_db scenario_decision))"
    have "validate_order_request ?rq = None"
      by (simp add: validate_order_request_def approval_order_request_def Let_def scenario_decision_def
          demo_approval_def demo_scope_def)
    moreover have "or_order_type ?rq = ''LIMIT''" by (simp add: approval_order_request_def Let_def)
    ultimately have False
      using failed(2) create_order_new [of ?rq "approval_context approving_call"] none
      by (simp add: av approving_rules order_by_key_def)
    then show "orders (snd (approve_evaluated hol ?st approving_call scenario_policy (demo_approval AP_PENDING)
        scenario_decision ex approving_db)) \<noteq> []" ..
  next
    case (succeeded od d2)
    have "orders d2 \<noteq> []"
    proof (cases rule: create_order_nested [OF approval_context_env succeeded(2)])
      case (2 r)
      then show ?thesis using none by (simp add: order_by_key_def)
    qed (simp_all add: insert_created_order_tables)
    then show "orders (snd (approve_evaluated hol ?st approving_call scenario_policy (demo_approval AP_PENDING)
        scenario_decision ex approving_db)) \<noteq> []"
      using succeeded(3) by (simp add: approval_succeeded_def)
  qed
qed


lemma late_approve_strands_execution_facts:
  assumes inv: "approvals_inv d" "distinct (map ap_execution_id (approvals d))"
    and row: "approval_get d (av_approval_id av) = Some ap" "ap_state ap = AP_PENDING"
      "ap_expires_at ap \<le> av_now av"
    and after: "d' = snd (approve hol st av d)"
  shows "\<exists>ap'. approval_get d' (av_approval_id av) = Some ap' \<and> ap_state ap' = AP_EXPIRED"
    and "execution_get (snd (expire_stale later d')) (ap_execution_id ap) = execution_get d (ap_execution_id ap)"
proof -
  note id = approval_get_id [OF row(1)]
  let ?f = "approval_closed AP_EXPIRED ''APPROVAL_EXPIRED''"
  have d': "d' = approval_upd (ap_id ap) ?f d" using row by (simp add: after approve_def)
  have "row_find ap_id (av_approval_id av) (approvals d') = Some (?f ap)"
    using row(1) id by (simp add: d' row_find_row_upd approval_get_def)
  then show "\<exists>ap'. approval_get d' (av_approval_id av) = Some ap' \<and> ap_state ap' = AP_EXPIRED"
    by (auto simp: approval_get_def)
  have other: "ap_execution_id x \<noteq> ap_execution_id ap" if x: "x \<in> set (filter (is_stale later) (approvals d'))" for x
  proof -
    from x have "x \<in> set (row_upd ap_id (ap_id ap) ?f (approvals d))" "ap_state x = AP_PENDING"
      by (auto simp: d' is_stale_def)
    then have "x \<in> set (approvals d)" "ap_id x \<noteq> ap_id ap" by (auto elim!: set_row_updE)
    moreover have "x = ap" if "ap_execution_id x = ap_execution_id ap"
      using row_find_distinct [OF inv(2)] \<open>x \<in> set (approvals d)\<close> id that by (metis option.inject)
    ultimately show ?thesis by auto
  qed
  have "execution_get (fold expire_one xs e) j = execution_get e j"
    if "\<forall>x \<in> set xs. ap_execution_id x \<noteq> j" for xs e j
    using that
  proof (induction xs arbitrary: e)
    case (Cons x xs)
    have "execution_get (expire_one x e) j = execution_get e j"
      using Cons(2) by (simp add: expire_one_def execution_get_def row_find_row_upd)
    with Cons show ?case by simp
  qed simp
  from this [of "filter (is_stale later) (approvals d')" "ap_execution_id ap" d'] other
  have "execution_get (snd (expire_stale later d')) (ap_execution_id ap) = execution_get d' (ap_execution_id ap)"
    by (auto simp: expire_stale_def Let_def)
  then show "execution_get (snd (expire_stale later d')) (ap_execution_id ap) = execution_get d (ap_execution_id ap)"
    by (simp add: d' execution_get_def)
qed

text \<open>An approve call that comes too late closes the approval but forgets its execution: the
  execution row keeps its state, and since the approval is no longer pending the periodic expiry
  never updates it either, so an execution waiting for approval stays APPROVAL_PENDING for good.\<close>
theorem late_approve_strands_execution:
  assumes inv: "approvals_inv d" "distinct (map ap_execution_id (approvals d))"
    and row: "approval_get d (av_approval_id av) = Some ap" "ap_state ap = AP_PENDING"
      "ap_expires_at ap \<le> av_now av"
    and after: "d' = snd (approve hol st av d)"
  shows "(\<exists>ap'. approval_get d' (av_approval_id av) = Some ap' \<and> ap_state ap' = AP_EXPIRED) \<and>
    (execution_get (snd (expire_stale later d')) (ap_execution_id ap) = execution_get d (ap_execution_id ap))"
  by (intro conjI impI; rule late_approve_strands_execution_facts [OF assms]; assumption)

definition demo_late_call :: approve_call where
  "demo_late_call = \<lparr>av_approval_id = 5, av_user = 7, av_correlation_id = ''c'', av_idempotency_key = ''k'', av_now = 200\<rparr>"

theorem late_approve_strands_execution_witness:
  "\<exists>ap'. approval_get (snd (approve (\<lambda>_. Some []) (scenario_settings ''APPROVAL_ONLY'') demo_late_call (demo_approval_db AP_PENDING))) 5 =
     Some ap' \<and> ap_state ap' = AP_EXPIRED"
proof -
  have id: "av_approval_id demo_late_call = 5" and now: "av_now demo_late_call = 200"
    by (simp_all add: demo_late_call_def)
  have dist: "distinct (map ap_execution_id (approvals (demo_approval_db AP_PENDING)))"
    by (simp add: demo_approval_db_def)
  show ?thesis
    using late_approve_strands_execution [of "demo_approval_db AP_PENDING" demo_late_call "demo_approval AP_PENDING"
        _ "\<lambda>_. Some []" "scenario_settings ''APPROVAL_ONLY''", OF _ _ _ _ _ refl] dist
    by (simp add: id now demo_approval_facts)
qed

end
