(* ===== verification/Execution_Properties.thy ===== *)
theory Execution_Properties
  imports Decision_Execution Approval_Properties Policy_Properties
begin

text \<open>
  What routing a decision may do: at most one order, only after its guard passed and within the
  limits of the risk policy and the managed position, exactly one execution per decision and
  policy versions, and nothing but a record in the SHADOW stage.
\<close>

section \<open>The guards do not read the execution table\<close>

lemma query_frame [simp]:
  "stream_get (d\<lparr>uuid_seed := a, decision_executions := b\<rparr>) m s = stream_get d m s"
  "snapshot_get (d\<lparr>uuid_seed := a, decision_executions := b\<rparr>) i = snapshot_get d i"
  "watched (d\<lparr>uuid_seed := a, decision_executions := b\<rparr>) u m s = watched d u m s"
  "gate_get (d\<lparr>uuid_seed := a, decision_executions := b\<rparr>) al = gate_get d al"
  "active_pause_entry (d\<lparr>uuid_seed := a, decision_executions := b\<rparr>) al = active_pause_entry d al"
  "position_get (d\<lparr>uuid_seed := a, decision_executions := b\<rparr>) al s = position_get d al s"
  "open_positions (d\<lparr>uuid_seed := a, decision_executions := b\<rparr>) al = open_positions d al"
  "daily_entry_count (d\<lparr>uuid_seed := a, decision_executions := b\<rparr>) al now = daily_entry_count d al now"
  "sell_fills (d\<lparr>uuid_seed := a, decision_executions := b\<rparr>) al = sell_fills d al"
  "worker_state_get (d\<lparr>uuid_seed := a, decision_executions := b\<rparr>) al = worker_state_get d al"
  "active_risk_events (d\<lparr>uuid_seed := a, decision_executions := b\<rparr>) sc ao = active_risk_events d sc ao"
  "reserved_managed_sells (d\<lparr>uuid_seed := a, decision_executions := b\<rparr>) al s = reserved_managed_sells d al s"
  "has_active_symbol_order (d\<lparr>uuid_seed := a, decision_executions := b\<rparr>) dc = has_active_symbol_order d dc"
  by (simp_all add: stream_get_def snapshot_get_def watched_def gate_get_def active_pause_entry_def
      position_get_def open_positions_def daily_entry_count_def sell_fills_def worker_state_get_def
      active_risk_events_def reserved_managed_sells_def has_active_symbol_order_def)

lemma derived_frame [simp]:
  "latest_price (d\<lparr>uuid_seed := a, decision_executions := b\<rparr>) s m = latest_price d s m"
  "position_cost (d\<lparr>uuid_seed := a, decision_executions := b\<rparr>) al s = position_cost d al s"
  "snapshot_current (d\<lparr>uuid_seed := a, decision_executions := b\<rparr>) dc x = snapshot_current d dc x"
  "gate_ready (d\<lparr>uuid_seed := a, decision_executions := b\<rparr>) al = gate_ready d al"
  "broker_connection_ok (d\<lparr>uuid_seed := a, decision_executions := b\<rparr>) al now = broker_connection_ok d al now"
  "open_position_count (d\<lparr>uuid_seed := a, decision_executions := b\<rparr>) al = open_position_count d al"
  "sellable_managed_quantity (d\<lparr>uuid_seed := a, decision_executions := b\<rparr>) po = sellable_managed_quantity d po"
  by (simp_all add: latest_price_def position_cost_def snapshot_current_def gate_ready_def broker_connection_ok_def
      open_position_count_def sellable_managed_quantity_def cong: option.case_cong)

lemma exposure_frame [simp]:
  "position_value (d\<lparr>uuid_seed := a, decision_executions := b\<rparr>) = position_value d"
  "open_position_exposure (d\<lparr>uuid_seed := a, decision_executions := b\<rparr>) al = open_position_exposure d al"
  "unrealized_loss (d\<lparr>uuid_seed := a, decision_executions := b\<rparr>) al = unrealized_loss d al"
  "daily_realized_loss (d\<lparr>uuid_seed := a, decision_executions := b\<rparr>) al now = daily_realized_loss d al now"
  "daily_loss_pct (d\<lparr>uuid_seed := a, decision_executions := b\<rparr>) al bs now den = daily_loss_pct d al bs now den"
  "consecutive_loss_count (d\<lparr>uuid_seed := a, decision_executions := b\<rparr>) al = consecutive_loss_count d al"
proof -
  show v: "position_value (d\<lparr>uuid_seed := a, decision_executions := b\<rparr>) = position_value d"
    by (rule ext) (simp add: position_value_def cong: option.case_cong)
  show "open_position_exposure (d\<lparr>uuid_seed := a, decision_executions := b\<rparr>) al = open_position_exposure d al"
    by (simp add: open_position_exposure_def v)
  show r: "daily_realized_loss (d\<lparr>uuid_seed := a, decision_executions := b\<rparr>) al now = daily_realized_loss d al now" for al now
    by (simp add: daily_realized_loss_def cong: option.case_cong)
  show u: "unrealized_loss (d\<lparr>uuid_seed := a, decision_executions := b\<rparr>) al = unrealized_loss d al" for al
    by (simp add: unrealized_loss_def cong: option.case_cong)
  show "daily_loss_pct (d\<lparr>uuid_seed := a, decision_executions := b\<rparr>) al bs now den = daily_loss_pct d al bs now den"
    by (simp add: daily_loss_pct_def r u Let_def)
  show "consecutive_loss_count (d\<lparr>uuid_seed := a, decision_executions := b\<rparr>) al = consecutive_loss_count d al"
    by (simp add: consecutive_loss_count_def)
qed

lemma guard_frame [simp]:
  "buy_guard_rules st now u dc rp s (d\<lparr>uuid_seed := a, decision_executions := b\<rparr>) = buy_guard_rules st now u dc rp s d"
  "make_sell_plan (d\<lparr>uuid_seed := a, decision_executions := b\<rparr>) dc s = make_sell_plan d dc s"
  "sell_guard_rules hol st now dc rp plan sx (d\<lparr>uuid_seed := a, decision_executions := b\<rparr>) =
     sell_guard_rules hol st now dc rp plan sx d"
  "route_rules hol st rt dc rp (d\<lparr>uuid_seed := a, decision_executions := b\<rparr>) = route_rules hol st rt dc rp d"
proof -
  show b: "buy_guard_rules st now u dc rp s (d\<lparr>uuid_seed := a, decision_executions := b\<rparr>) = buy_guard_rules st now u dc rp s d" for st now u dc rp s
    by (simp add: buy_guard_rules_def Let_def cong: option.case_cong)
  show m: "make_sell_plan (d\<lparr>uuid_seed := a, decision_executions := b\<rparr>) dc s = make_sell_plan d dc s" for dc s
    by (simp add: make_sell_plan_def Let_def)
  show s: "sell_guard_rules hol st now dc rp plan sx (d\<lparr>uuid_seed := a, decision_executions := b\<rparr>) =
     sell_guard_rules hol st now dc rp plan sx d" for hol st now dc rp plan sx
    by (simp add: sell_guard_rules_def Let_def cong: option.case_cong)
  show "route_rules hol st rt dc rp (d\<lparr>uuid_seed := a, decision_executions := b\<rparr>) = route_rules hol st rt dc rp d"
    by (simp add: route_rules_def b m s Let_def)
qed

section \<open>Effects on the order table\<close>

lemma routing_context_env [simp]: "cc_env (routing_context rt a) = (\<lambda>d. d)"
  by (simp add: routing_context_def)

lemma persist_guard_tables [simp]:
  "orders (snd (persist_guard_evaluation gs rules d)) = orders d"
  "positions (snd (persist_guard_evaluation gs rules d)) = positions d"
  by simp_all

lemma record_order_orders: "orders (record_order i (res, d)) = orders d"
  by (cases res) (simp_all add: record_order_def split: order_creation_error.split)

lemma nested_orders:
  assumes "cc_env cc = (\<lambda>d. d)"
  obtains (same) "orders (record_order i (create_order cc rq d)) = orders d"
  | (new) "orders (record_order i (create_order cc rq d)) = orders d @ [fst (insert_created_order cc rq d)]"
      "validate_order_request rq = None"
proof -
  obtain res d' where co: "create_order cc rq d = (res, d')" by fastforce
  show thesis
  proof (cases rule: create_order_nested [OF assms co])
    case 3
    then show thesis using that(2) co by (simp add: record_order_orders insert_created_order_tables(2))
  qed (use that(1) co in \<open>simp_all add: record_order_orders\<close>)
qed

definition order_matches :: "order_request \<Rightarrow> trading_order \<Rightarrow> bool" where
  "order_matches rq od \<longleftrightarrow>
     o_status od = OS_CREATED \<and> o_side od = or_side rq \<and> o_symbol od = or_symbol rq \<and>
     o_requested_quantity od = or_quantity rq \<and> o_limit_price od = or_limit_price rq \<and> 0 < or_quantity rq"

lemma order_matches_created:
  "validate_order_request rq = None \<Longrightarrow> order_matches rq (fst (insert_created_order cc rq d))"
  by (auto simp: order_matches_def insert_created_order_tables validate_order_request_def split: if_splits)

lemma create_approval_orders: "orders (snd (create_approval now ex dc user d)) = orders d"
  by (auto simp: create_approval_def uuid7_draw_def Let_def split: option.split prod.split)

lemma buy_order_cases:
  obtains (same) "orders (create_buy_order rt dc rp i d) = orders d"
  | (new) p q od where "orders (create_buy_order rt dc rp i d) = orders d @ [od]"
      "marketable_buy_price (snapshot_get d (dc_input_snapshot_id dc)) = Some p"
      "q = buy_quantity (rp_entry_order_amount rp) (Some p)" "order_matches (auto_buy_request rt dc p q) od"
proof (cases "marketable_buy_price (snapshot_get d (dc_input_snapshot_id dc))")
  case None
  then show thesis using that(1) by (simp add: create_buy_order_def)
next
  case (Some p)
  let ?q = "buy_quantity (rp_entry_order_amount rp) (Some p)"
  show thesis
  proof (cases rule: nested_orders [OF routing_context_env,
        of i rt "''AUTOMATIC_BUY_ORDER_CREATED''" "auto_buy_request rt dc p ?q" d])
    case same: 1
    then show thesis using that(1) Some by (cases "?q \<le> 0") (simp_all add: create_buy_order_def)
  next
    case new: 2
    then show thesis
      using that Some order_matches_created [OF new(2)] by (cases "?q \<le> 0") (simp_all add: create_buy_order_def)
  qed
qed

lemma sell_order_cases:
  obtains (same) "orders (create_sell_order rt dc plan i d) = orders d"
  | (new) p price od where "orders (create_sell_order rt dc plan i d) = orders d @ [od]"
      "sp_position plan = Some p" "sp_price plan = Some price"
      "order_matches (auto_sell_request rt dc p price (sp_quantity plan)) od"
proof (cases "sp_position plan"; cases "sp_price plan")
  fix p price
  assume pp: "sp_position plan = Some p" "sp_price plan = Some price"
  show thesis
  proof (cases rule: nested_orders [OF routing_context_env,
        of i rt "''AUTOMATIC_DECISION_SELL_ORDER_CREATED''" "auto_sell_request rt dc p price (sp_quantity plan)" d])
    case same: 1
    then show thesis using that(1) pp by (cases "sp_quantity plan \<le> 0") (simp_all add: create_sell_order_def)
  next
    case new: 2
    then show thesis
      using that pp order_matches_created [OF new(2)]
      by (cases "sp_quantity plan \<le> 0") (simp_all add: create_sell_order_def)
  qed
qed (use that(1) in \<open>simp_all add: create_sell_order_def\<close>)

lemma route_policies_valid: "route_policies user d = Some rc \<Longrightarrow> risk_policy_valid (rc_risk_policy rc)"
  using risk_policy_of_json_valid safe_default_risk_policy_valid
  by (auto simp: route_policies_def risk_policy_payload_def Let_def split: option.splits)

text \<open>The database the routing body works on, and its guard.\<close>

definition routing_db :: "settings \<Rightarrow> route_call \<Rightarrow> decision \<Rightarrow> route_config \<Rightarrow> db \<Rightarrow> db" where
  "routing_db st rt dc rc d =
     d\<lparr>uuid_seed := uuid_seed d + 1,
       decision_executions := decision_executions d @ [routed_execution st rt dc rc (uuid_seed d)]\<rparr>"

lemma route_unfold:
  "route_trading_decision hol st rt dc d =
     (if dc_purpose dc \<noteq> ''TRADING'' then (Inr None, d)
      else case route_policies (rt_user rt) d of
        None \<Rightarrow> (Inl RoutePolicyInvalid, d)
      | Some rc \<Rightarrow>
          (case row_find de_execution_key (route_key dc rc) (decision_executions d) of
             Some existing \<Rightarrow> (Inr (Some existing), d)
           | None \<Rightarrow>
               (case route_body hol st rt dc rc (uuid_seed d) (routing_db st rt dc rc d) of
                     Inl e \<Rightarrow> (Inl e, d)
                   | Inr d3 \<Rightarrow>
                       (case execution_get d3 (uuid_seed d) of
                          None \<Rightarrow> (Inr None, d3)
                        | Some ex \<Rightarrow> (Inr (Some ex), add_audit (routing_audit st rt dc ex) d3)))))"
  by (simp add: route_trading_decision_def routing_db_def uuid7_draw_def Let_def split: option.split sum.split)

lemma route_orders_body:
  assumes "route_trading_decision hol st rt dc d = (res, d')" "orders d' \<noteq> orders d"
  obtains rc d3 where "dc_purpose dc = ''TRADING''" "route_policies (rt_user rt) d = Some rc"
    "route_body hol st rt dc rc (uuid_seed d) (routing_db st rt dc rc d) = Inr d3" "orders d' = orders d3"
  using assms by (auto simp: route_unfold split: if_splits option.splits sum.splits)

lemma route_body_orders:
  assumes "route_body hol st rt dc rc i d2 = Inr d3" "orders d3 \<noteq> orders d2"
  obtains rules plan d4 where "route_rules hol st rt dc (rc_risk_policy rc) d2 = (rules, plan)"
    "guard_result rules = PASSED" "st_execution_stage st \<in> set order_enabled_stages"
    "mode_for (dc_action dc) (rc_policy rc) = AUTOMATIC"
    "orders d4 = orders d2" "snapshot_get d4 = snapshot_get d2"
    "dc_action dc = ''BUY'' \<and> d3 = create_buy_order rt dc (rc_risk_policy rc) i d4 \<or>
     dc_action dc \<noteq> ''BUY'' \<and> dc_action dc \<in> set sell_actions \<and>
       (\<exists>sp. plan = Some sp \<and> d3 = create_sell_order rt dc sp i d4)"
proof -
  obtain rules plan where rr: "route_rules hol st rt dc (rc_risk_policy rc) d2 = (rules, plan)" by fastforce
  define d4 where "d4 = execution_upd i (\<lambda>e. e\<lparr>de_guard_evaluation_id := Some (uuid_seed d2)\<rparr>)
    (snd (persist_guard_evaluation (route_guard_subject (rt_now rt) dc rc plan i) rules d2))"
  have o4: "orders d4 = orders d2" by (simp add: d4_def)
  have s4: "snapshot_get d4 = snapshot_get d2"
    by (rule ext) (simp add: d4_def snapshot_get_def execution_upd_def)
  have appr: "orders d1 = orders d4" if "create_approval now ex dc user d4 = (r, d1)" for now ex user r d1
    using create_approval_orders [of now ex dc user d4] that by simp
  have body: "route_guarded st rt dc rc rules plan i d4 = Inr d3"
    using assms rr by (auto simp: route_body_def d4_def case_prod_beta Let_def guard_row_def split: if_splits)
  have "guard_result rules = PASSED \<and> st_execution_stage st \<in> set order_enabled_stages \<and>
      mode_for (dc_action dc) (rc_policy rc) = AUTOMATIC \<and>
      (dc_action dc = ''BUY'' \<and> d3 = create_buy_order rt dc (rc_risk_policy rc) i d4 \<or>
     dc_action dc \<noteq> ''BUY'' \<and> dc_action dc \<in> set sell_actions \<and>
       (\<exists>sp. plan = Some sp \<and> d3 = create_sell_order rt dc sp i d4))"
    using body assms(2) o4
    by (auto simp: route_guarded_def Let_def split: if_splits option.splits sum.splits prod.splits dest: appr)
  with rr o4 s4 that show thesis by blast
qed

section \<open>One execution per decision and policy versions\<close>

text \<open>What routing does to the execution table after the row is added: it updates that row only,
  never its identity or key.\<close>

definition row_only :: "uuid \<Rightarrow> db \<Rightarrow> db \<Rightarrow> bool" where
  "row_only i d d' \<longleftrightarrow> configuration_versions d' = configuration_versions d \<and>
     (\<exists>f. (\<forall>e. de_id (f e) = de_id e \<and> de_execution_key (f e) = de_execution_key e \<and>
        de_decision_id (f e) = de_decision_id e) \<and>
        decision_executions d' = row_upd de_id i f (decision_executions d))"

lemma row_only_upd:
  assumes "decision_executions d' = row_upd de_id i f (decision_executions d)"
    "configuration_versions d' = configuration_versions d"
    "\<And>e. de_id (f e) = de_id e" "\<And>e. de_execution_key (f e) = de_execution_key e"
    "\<And>e. de_decision_id (f e) = de_decision_id e"
  shows "row_only i d d'"
  using assms unfolding row_only_def by blast

lemma row_upd_ident: "row_upd key i (\<lambda>e. e) rs = rs"
  by (induction rs) (simp_all add: row_upd_def)

lemma row_only_refl:
  "decision_executions d' = decision_executions d \<Longrightarrow> configuration_versions d' = configuration_versions d \<Longrightarrow> row_only i d d'"
  by (rule row_only_upd [where f = "\<lambda>e. e"]) (simp_all add: row_upd_ident)

lemma row_upd_compose:
  "(\<And>e. key (f e) = key e) \<Longrightarrow> row_upd key i g (row_upd key i f rs) = row_upd key i (g \<circ> f) rs"
  by (induction rs) (simp_all add: row_upd_def)

lemma row_only_trans: "row_only i d d' \<Longrightarrow> row_only i d' d'' \<Longrightarrow> row_only i d d''"
  unfolding row_only_def
  by (elim conjE exE, intro conjI exI [of _ "_ \<circ> _"]) (simp_all add: row_upd_compose)

lemma execution_upd_config [simp]: "configuration_versions (execution_upd i f d) = configuration_versions d"
  by (simp add: execution_upd_def)

lemma row_only_set: "row_only i d (execution_upd i (set_execution s c) d)"
  by (rule row_only_upd [where f = "set_execution s c"]) (simp_all add: set_execution_def)

lemma row_only_record:
  assumes "cc_env cc = (\<lambda>d. d)"
  shows "row_only i d (record_order i (create_order cc rq d))"
proof -
  obtain res d' where co: "create_order cc rq d = (res, d')" by fastforce
  have "row_only i d d'"
    by (cases rule: create_order_nested [OF assms co]) (simp_all add: row_only_refl)
  moreover have "row_only i d' (record_order i (res, d'))"
    by (cases res) (auto simp: record_order_def set_execution_def intro!: row_only_upd split: order_creation_error.split)
  ultimately show ?thesis using co row_only_trans by simp
qed

lemma row_only_orders:
  "row_only i d (create_buy_order rt dc rp i d)" "row_only i d (create_sell_order rt dc plan i d)"
  by (auto simp: create_buy_order_def create_sell_order_def Let_def row_only_set
      intro!: row_only_record split: option.split)

lemma row_only_approval:
  assumes "create_approval now ex dc user d = (r, d')" "de_id ex = i"
  shows "row_only i d d'"
  using assms
  by (auto simp: create_approval_def uuid7_draw_def Let_def row_only_refl add_audit_def execution_upd_def
      intro!: row_only_upd split: option.splits prod.splits if_splits)

lemma execution_get_id: "execution_get d i = Some ex \<Longrightarrow> de_id ex = i"
  using row_find_Some by (fastforce simp: execution_get_def)

lemma row_only_guarded:
  assumes "route_guarded st rt dc rc rules plan i d = Inr d'"
  shows "row_only i d d'"
  using assms
  by (auto simp: route_guarded_def Let_def row_only_set row_only_orders row_only_refl
      dest: row_only_approval [OF _ execution_get_id] split: if_splits option.splits sum.splits prod.splits)

lemma row_only_body:
  assumes "route_body hol st rt dc rc i d = Inr d'"
  shows "row_only i d d'"
proof -
  have g: "row_only i d (execution_upd i (\<lambda>e. e\<lparr>de_guard_evaluation_id := Some k\<rparr>)
      (snd (persist_guard_evaluation gs rules d)))" for k gs rules
    by (rule row_only_upd [where f = "\<lambda>e. e\<lparr>de_guard_evaluation_id := Some k\<rparr>"]) simp_all
  show ?thesis
    using assms
    by (auto simp: route_body_def Let_def case_prod_beta row_only_set split: if_splits
        intro: row_only_trans [OF g row_only_guarded])
qed

definition execution_ids_fresh :: "db \<Rightarrow> bool" where
  "execution_ids_fresh d \<longleftrightarrow> (\<forall>e \<in> set (decision_executions d). de_id e < uuid_seed d)"

lemma row_upd_snoc_fresh:
  "\<forall>e \<in> set rs. key e \<noteq> i \<Longrightarrow> key r = i \<Longrightarrow> row_upd key i f (rs @ [r]) = rs @ [f r]"
  by (induction rs) (simp_all add: row_upd_def)

text \<open>The execution a routing of this user's decision finds.\<close>

definition stored_execution :: "uuid \<times> decision \<Rightarrow> db \<Rightarrow> decision_execution option" where
  "stored_execution rq d =
     (case route_policies (fst rq) d of
        None \<Rightarrow> None
      | Some rc \<Rightarrow> row_find de_execution_key (route_key (snd rq) rc) (decision_executions d))"

definition route_new ::
  "(int \<Rightarrow> date list option) \<times> settings \<times> string \<times> instant \<Rightarrow> uuid \<times> decision \<Rightarrow> db \<Rightarrow>
     (routing_error option + decision_execution) \<times> db" where
  "route_new x rq d =
     (case x of (hol, st, cid, now) \<Rightarrow>
       (case route_trading_decision hol st \<lparr>rt_user = fst rq, rt_correlation_id = cid, rt_now = now\<rparr> (snd rq) d of
          (Inl e, d') \<Rightarrow> (Inl (Some e), d')
        | (Inr None, d') \<Rightarrow> (Inl None, d')
        | (Inr (Some ex), d') \<Rightarrow> (Inr ex, d')))"

lemma route_policies_config:
  "configuration_versions d' = configuration_versions d \<Longrightarrow> route_policies u d' = route_policies u d"
  by (simp add: route_policies_def active_policy_def active_risk_policy_def config_active_def config_of_def)

lemma route_stores:
  assumes r: "route_trading_decision hol st rt dc d = (Inr (Some ex), d')" and fresh: "execution_ids_fresh d"
  shows "stored_execution (rt_user rt, dc) d' = Some ex \<and> dc_purpose dc = ''TRADING'' \<and> de_decision_id ex = dc_id dc \<or>
    stored_execution (rt_user rt, dc) d = Some ex \<and> d' = d"
proof -
  from r obtain rc where tr: "dc_purpose dc = ''TRADING''" and rc: "route_policies (rt_user rt) d = Some rc"
    by (auto simp: route_unfold split: if_splits option.splits)
  show ?thesis
  proof (cases "row_find de_execution_key (route_key dc rc) (decision_executions d)")
    case (Some e)
    then show ?thesis using r tr rc by (simp add: route_unfold stored_execution_def)
  next
    case None
    let ?i = "uuid_seed d" and ?row = "routed_execution st rt dc rc (uuid_seed d)"
    from r tr rc None obtain d3 where body: "route_body hol st rt dc rc ?i (routing_db st rt dc rc d) = Inr d3"
      and ex: "execution_get d3 ?i = Some ex" and d': "d' = add_audit (routing_audit st rt dc ex) d3"
      by (auto simp: route_unfold split: sum.splits option.splits)
    have row: "de_id ?row = ?i" "de_execution_key ?row = route_key dc rc" "de_decision_id ?row = dc_id dc"
      by (simp_all add: routed_execution_def)
    have old: "\<forall>e \<in> set (decision_executions d). de_id e \<noteq> ?i"
      using fresh by (auto simp: execution_ids_fresh_def)
    obtain f where f: "\<And>e. de_id (f e) = de_id e" "\<And>e. de_execution_key (f e) = de_execution_key e"
      "\<And>e. de_decision_id (f e) = de_decision_id e"
      and cv: "configuration_versions d3 = configuration_versions d"
      and tab: "decision_executions d3 = decision_executions d @ [f ?row]"
      using row_only_body [OF body] row_upd_snoc_fresh [OF old row(1)]
      unfolding row_only_def routing_db_def by simp blast
    have "row_find de_id ?i (decision_executions d) = None"
      using old by (auto simp: row_find_None_iff)
    then have ex': "ex = f ?row" using ex tab f(1) row(1) by (simp add: execution_get_def row_find_append)
    have "route_policies (rt_user rt) d' = Some rc" 
      using route_policies_config [of d' d] cv rc by (simp add: d' add_audit_def)
    moreover have "decision_executions d' = decision_executions d @ [ex]" using tab ex' by (simp add: d')
    moreover have "de_execution_key ex = route_key dc rc" "de_decision_id ex = dc_id dc"
      unfolding ex' f row by (rule refl)+
    ultimately show ?thesis
      using None tr by (simp add: stored_execution_def row_find_append)
  qed
qed

interpretation routing: idempotent_create route_new stored_execution "\<lambda>_ _. True"
  "\<lambda>rq. dc_purpose (snd rq) = ''TRADING''" "\<lambda>_. execution_ids_fresh"
proof
  fix x rq d r d'
  assume v: "dc_purpose (snd rq) = ''TRADING''" and good: "execution_ids_fresh d" and run: "route_new x rq d = (Inr r, d')"
  obtain hol st cid now where x: "x = (hol, st, cid, now)" by (cases x)
  let ?rt = "\<lparr>rt_user = fst rq, rt_correlation_id = cid, rt_now = now\<rparr>"
  have "route_trading_decision hol st ?rt (snd rq) d = (Inr (Some r), d')"
    using run x by (auto simp: route_new_def split: prod.splits sum.splits option.splits)
  from route_stores [OF this good] show "stored_execution rq d' = Some r \<and> True" by auto
next
  fix rq d r y
  assume "dc_purpose (snd rq) = ''TRADING''" "stored_execution rq d = Some r"
  then show "route_new y rq d = (Inr r, d)"
    by (auto simp: route_new_def stored_execution_def route_unfold split: prod.splits option.splits)
qed auto

lemma shadow_body:
  assumes "st_execution_stage st \<notin> {''APPROVAL_ONLY'', ''MOCK_AUTOMATIC''}"
  obtains s c d1 where "route_body hol st rt dc rc i d = Inr (execution_upd i (set_execution s c) d1)"
    "s \<in> {DX_NO_ACTION, DX_DISABLED, DX_GUARD_BLOCKED, DX_SHADOW_RECORDED}"
    "orders d1 = orders d" "order_intents d1 = order_intents d" "approvals d1 = approvals d"
proof -
  have stage: "st_execution_stage st \<notin> set order_enabled_stages" using assms by (simp add: order_enabled_stages_def)
  obtain rules plan where rr: "route_rules hol st rt dc (rc_risk_policy rc) d = (rules, plan)" by fastforce
  let ?gs = "route_guard_subject (rt_now rt) dc rc plan i"
  let ?d1 = "execution_upd i (\<lambda>e. e\<lparr>de_guard_evaluation_id := Some (ge_id (fst (persist_guard_evaluation ?gs rules d)))\<rparr>)
    (snd (persist_guard_evaluation ?gs rules d))"
  have t: "orders ?d1 = orders d" "order_intents ?d1 = order_intents d" "approvals ?d1 = approvals d"
    by (simp_all add: execution_upd_def)
  consider "normalized_action dc = ''NO_ACTION''"
    | "normalized_action dc \<noteq> ''NO_ACTION''" "mode_for (dc_action dc) (rc_policy rc) = DISABLED"
    | "normalized_action dc \<noteq> ''NO_ACTION''" "mode_for (dc_action dc) (rc_policy rc) \<noteq> DISABLED" by blast
  then show thesis
  proof cases
    case 3
    have "route_body hol st rt dc rc i d = route_guarded st rt dc rc rules plan i ?d1"
      using 3 rr by (simp add: route_body_def case_prod_beta Let_def)
    then show thesis
      using that [of DX_GUARD_BLOCKED "blocking_code rules" ?d1] that [of DX_SHADOW_RECORDED "''SHADOW_ONLY''" ?d1]
        stage t
      by (cases "guard_result rules") (simp_all add: route_guarded_def Let_def)
  qed (use that [of DX_NO_ACTION "dc_action dc" d] that [of DX_DISABLED "''ACTION_DISABLED''" d] in
    \<open>simp_all add: route_body_def\<close>)
qed

lemma execution_upd_state:
  "execution_get (execution_upd i (set_execution s c) d) i = Some ex \<Longrightarrow> de_state ex = s"
  by (auto simp: execution_get_def set_execution_def row_find_row_upd)

text \<open>The scenario with an active execution policy that buys automatically.\<close>

definition automatic_policy :: execution_policy where
  "automatic_policy = safe_default_execution_policy\<lparr>xp_buy := AUTOMATIC\<rparr>"

definition automatic_version :: configuration_version where
  "automatic_version = \<lparr>cv_id = 9, cv_scope = config_scope, cv_target_id = uuid_text 7,
     cv_category = ''EXECUTION_POLICY'', cv_sequence = 1, cv_state = CV_ACTIVE,
     cv_payload_json = execution_policy_json automatic_policy,
     cv_payload_hash = Sha256 (execution_policy_json automatic_policy),
     cv_reason = ''r'', cv_created_by = uuid_text 7, cv_base_active_version_id = None,
     cv_validated_at = Some 0, cv_activated_at = Some 0\<rparr>"

definition automatic_db :: db where
  "automatic_db = scenario_db\<lparr>configuration_versions := [scenario_version, automatic_version]\<rparr>"

definition automatic_call :: route_call where
  "automatic_call = \<lparr>rt_user = 7, rt_correlation_id = ''c'', rt_now = 0\<rparr>"

definition automatic_config :: route_config where
  "automatic_config = \<lparr>rc_config_id = Some 9, rc_policy = automatic_policy, rc_risk_config_id = Some 2,
     rc_risk_policy = scenario_policy\<rparr>"

lemma automatic_like:
  "scenario_like automatic_db" "orders automatic_db = []" "decision_executions automatic_db = []"
  "uuid_seed automatic_db = 20"
  by (simp_all add: scenario_like_def automatic_db_def scenario_db_def empty_db_def)

lemma automatic_policies: "route_policies 7 automatic_db = Some automatic_config"
  using risk_policy_decode [OF scenario_policy_valid] execution_policy_decode [of automatic_policy]
  by (simp add: route_policies_def active_policy_def active_risk_policy_def config_active_def config_of_def
      automatic_db_def scenario_version_def automatic_version_def policy_payload_def risk_policy_payload_def
      automatic_config_def Let_def)

lemma automatic_rules:
  "scenario_like d \<Longrightarrow> route_rules hol (scenario_settings stage) automatic_call scenario_decision scenario_policy d =
   (buy_guard_rules (scenario_settings stage) 0 7 scenario_decision scenario_policy (Some scenario_snapshot) d, None)"
  using scenario_snapshot_get [of d]
  by (simp add: route_rules_def supported_actions_def Let_def automatic_call_def) (simp add: scenario_decision_def)

lemma automatic_request:
  "validate_order_request (auto_buy_request automatic_call scenario_decision 70000 14) = None"
  "or_order_type (auto_buy_request automatic_call scenario_decision 70000 14) = ''LIMIT''"
  by (simp_all add: auto_buy_request_def validate_order_request_def Let_def scenario_decision_def)

lemma automatic_buy:
  assumes "scenario_like d"
  shows "\<exists>od. orders (create_buy_order automatic_call scenario_decision scenario_policy i d) = [od]"
proof -
  let ?rq = "auto_buy_request automatic_call scenario_decision 70000 14"
  let ?cc = "routing_context automatic_call ''AUTOMATIC_BUY_ORDER_CREATED''"
  have none: "orders d = []" using assms by (simp add: scenario_like_def)
  have "create_buy_order automatic_call scenario_decision scenario_policy i d = record_order i (create_order ?cc ?rq d)"
    using scenario_snapshot_get [OF assms] scenario_buy_quantity scenario_prices
    by (simp add: create_buy_order_def Let_def) (simp add: scenario_decision_def)
  moreover have "create_order ?cc ?rq d = (Inr (fst (insert_created_order ?cc ?rq d)), snd (insert_created_order ?cc ?rq d))"
    using create_order_new [of ?rq ?cc d] automatic_request none by (simp add: order_by_key_def)
  ultimately show ?thesis using none by (simp add: record_order_orders insert_created_order_tables(2))
qed

lemma automatic_orders:
  "\<exists>od. orders (snd (route_trading_decision hol (scenario_settings ''MOCK_AUTOMATIC'') automatic_call
     scenario_decision automatic_db)) = [od]"
proof -
  let ?st = "scenario_settings ''MOCK_AUTOMATIC''" and ?dc = scenario_decision and ?rc = automatic_config
  let ?d2 = "routing_db ?st automatic_call ?dc ?rc automatic_db"
  define rules where "rules = buy_guard_rules ?st 0 7 ?dc scenario_policy (Some scenario_snapshot) ?d2"
  define d4 where "d4 = execution_upd 20 (\<lambda>e. e\<lparr>de_guard_evaluation_id := Some (uuid_seed ?d2)\<rparr>)
    (snd (persist_guard_evaluation (route_guard_subject 0 ?dc ?rc None 20) rules ?d2))"
  have like2: "scenario_like ?d2" using automatic_like(1) by (simp add: scenario_like_def routing_db_def)
  then have like4: "scenario_like d4" by (simp add: scenario_like_def d4_def execution_upd_def)
  have dc: "dc_action ?dc = ''BUY''" "dc_purpose ?dc = ''TRADING''" "normalized_action ?dc = ''BUY''"
    by (simp_all add: scenario_decision_def normalized_action_def no_actions_def)
  have mode: "mode_for (dc_action ?dc) (rc_policy ?rc) = AUTOMATIC"
    by (simp add: dc mode_for_def automatic_config_def automatic_policy_def)
  have pass: "guard_result rules = PASSED" unfolding rules_def by (rule scenario_buy_guard [OF like2])
  have stage: "st_execution_stage ?st \<in> set order_enabled_stages"
    by (simp add: scenario_settings_def order_enabled_stages_def)
  have rp: "rc_risk_policy ?rc = scenario_policy" and now: "rt_now automatic_call = 0" "rt_user automatic_call = 7"
    by (simp_all add: automatic_config_def automatic_call_def)
  have "route_body hol ?st automatic_call ?dc ?rc 20 ?d2 = route_guarded ?st automatic_call ?dc ?rc rules None 20 d4"
    using mode automatic_rules [OF like2]
    by (simp add: route_body_def rp dc now case_prod_beta Let_def d4_def rules_def guard_row_def)
  also have "\<dots> = Inr (create_buy_order automatic_call ?dc scenario_policy 20 d4)"
    using mode pass stage by (simp add: route_guarded_def rp dc Let_def)
  finally have body: "route_body hol ?st automatic_call ?dc ?rc 20 ?d2 =
    Inr (create_buy_order automatic_call ?dc scenario_policy 20 d4)" .
  have "orders (snd (route_trading_decision hol ?st automatic_call ?dc automatic_db)) =
    orders (create_buy_order automatic_call ?dc scenario_policy 20 d4)"
    using automatic_policies automatic_like body by (simp add: route_unfold dc now split: option.split)
  then show ?thesis using automatic_buy [OF like4, of 20] by simp
qed

lemma shadow_example:
  "\<exists>ex. route_trading_decision hol (scenario_settings ''SHADOW'') automatic_call
     (scenario_decision\<lparr>dc_action := ''HOLD''\<rparr>) automatic_db =
     (Inr (Some ex), snd (route_trading_decision hol (scenario_settings ''SHADOW'') automatic_call
     (scenario_decision\<lparr>dc_action := ''HOLD''\<rparr>) automatic_db))"
proof -
  let ?dc = "scenario_decision\<lparr>dc_action := ''HOLD''\<rparr>"
  have "normalized_action ?dc = ''NO_ACTION''" by (simp add: normalized_action_def no_actions_def)
  moreover have "dc_purpose ?dc = ''TRADING''" "rt_user automatic_call = 7"
    by (simp_all add: scenario_decision_def automatic_call_def)
  moreover have "decision_executions (routing_db (scenario_settings ''SHADOW'') automatic_call ?dc automatic_config automatic_db)
     = [routed_execution (scenario_settings ''SHADOW'') automatic_call ?dc automatic_config 20]"
    by (simp add: routing_db_def automatic_like)
  moreover have "de_id (routed_execution s c x rc i) = i" for s c x rc i by (simp add: routed_execution_def)
  ultimately show ?thesis
    using automatic_policies automatic_like
    by (simp add: route_unfold route_body_def execution_get_def row_upd_def set_execution_def)
qed

section \<open>Properties\<close>

lemma routed_buy_limits:
  assumes rc: "route_policies user d = Some rc" and rp: "rp = rc_risk_policy rc"
    and pass: "guard_result (buy_guard_rules st (rt_now rt) (rt_user rt) dc rp snap d) = PASSED"
    and ne: "orders (create_buy_order rt dc rp i d4) \<noteq> orders d4"
  shows "\<exists>od price. orders (create_buy_order rt dc rp i d4) = orders d4 @ [od] \<and>
    o_status od = OS_CREATED \<and> o_limit_price od = Some price \<and> 1 \<le> o_requested_quantity od \<and> o_side od = ''BUY'' \<and>
    active_pause_entry d kiwoom_account = None \<and> gate_ready d kiwoom_account \<and>
    open_position_count d kiwoom_account < rp_max_open_positions rp \<and>
    daily_entry_count d kiwoom_account (rt_now rt) < rp_max_daily_entries rp \<and>
    of_int (o_requested_quantity od) * price \<le> of_int (rp_max_single_order_amount rp) \<and>
    snd (open_position_exposure d kiwoom_account) + of_int (o_requested_quantity od) * price
      \<le> of_int (rp_max_total_position_amount rp) \<and>
    fst (open_position_exposure d kiwoom_account) (dc_symbol dc) + of_int (o_requested_quantity od) * price
      \<le> of_int (rp_max_position_amount_per_symbol rp)"
proof -
  note g = buy_guard_passed [OF pass]
  show ?thesis
  proof (cases rule: buy_order_cases [of rt dc rp i d4])
    case same
    with ne show ?thesis by simp
  next
    case new: (new p q od)
    have m: "o_status od = OS_CREATED" "o_side od = ''BUY''" "o_requested_quantity od = q" "o_limit_price od = Some p"
      "0 < q" using new(4) by (simp_all add: order_matches_def auto_buy_request_def Let_def)
    obtain a where a: "rp_entry_order_amount rp = Some a" "of_int q * p \<le> of_int a"
      using buy_quantity_bound [OF new(3) [symmetric] m(5)] by blast
    have le: "a \<le> rp_max_single_order_amount rp"
      using route_policies_valid [OF rc] a(1) rp by (simp add: risk_policy_valid_def)
    have lim: "of_int q * p \<le> of_int (rp_max_single_order_amount rp)"
      using a(2) le by (meson of_int_le_iff order_trans)
    show ?thesis
      by (rule exI [of _ od], rule exI [of _ p]) (use new(1) m g a lim in auto)
  qed
qed

lemma routed_sell_limits:
  assumes sp: "sp = make_sell_plan d dc (snapshot_get d (dc_input_snapshot_id dc))"
    and pass: "guard_result (sell_guard_rules hol st (rt_now rt) dc rp sp no_expectation d) = PASSED"
    and ne: "orders (create_sell_order rt dc sp i d4) \<noteq> orders d4"
  shows "\<exists>od price. orders (create_sell_order rt dc sp i d4) = orders d4 @ [od] \<and>
    o_status od = OS_CREATED \<and> o_limit_price od = Some price \<and> 1 \<le> o_requested_quantity od \<and> o_side od = ''SELL'' \<and>
    \<not> has_active_symbol_order d dc \<and> gate_ready d kiwoom_account \<and>
    (\<exists>p. position_get d kiwoom_account (dc_symbol dc) = Some p \<and> p_state p = PS_OPEN \<and>
       o_requested_quantity od \<le> min (p_managed_quantity p) (max 0 (p_available_quantity p)) -
         reserved_managed_sells d kiwoom_account (dc_symbol dc))"
proof -
  note g = sell_guard_passed [OF pass [unfolded sp]]
  show ?thesis
  proof (cases rule: sell_order_cases [of rt dc sp i d4])
    case same
    with ne show ?thesis by simp
  next
    case new: (new p price od)
    have m: "o_status od = OS_CREATED" "o_side od = ''SELL''" "o_requested_quantity od = sp_quantity sp"
      "o_limit_price od = Some price" "0 < sp_quantity sp"
      using new(4) by (simp_all add: order_matches_def auto_sell_request_def Let_def)
    have pos: "position_get d kiwoom_account (dc_symbol dc) = Some p" using new(2) sp by simp
    have al: "p_account_alias p = kiwoom_account" "p_symbol p = dc_symbol dc"
      using position_get_mem [OF pos] by simp_all
    have "sp_quantity sp \<le> sellable_managed_quantity d (Some p)"
      using g(6) pos sp by (simp add: no_expectation_def)
    then have "sp_quantity sp \<le> min (p_managed_quantity p) (max 0 (p_available_quantity p)) -
          reserved_managed_sells d kiwoom_account (dc_symbol dc)"
      using m(5) al g(3) pos unfolding sellable_managed_quantity_def by auto
    then show ?thesis using new(1) m g pos by auto
  qed
qed



lemma routing_exactly_once_facts:
  assumes "route_trading_decision hol st rt dc d = (Inr (Some ex), d')" "execution_ids_fresh d"
    "rt_user rt' = rt_user rt"
  shows "route_trading_decision hol' st' rt' dc d' = (Inr (Some ex), d')"
    and "foldl (\<lambda>s (h, t, cid, now). snd (route_trading_decision h t
           \<lparr>rt_user = rt_user rt, rt_correlation_id = cid, rt_now = now\<rparr> dc s)) d' calls = d'"
proof -
  let ?rq = "(rt_user rt, dc)"
  have tr: "dc_purpose (snd ?rq) = ''TRADING''" using assms(1) by (auto simp: route_unfold split: if_splits)
  have new: "route_new (hol, st, rt_correlation_id rt, rt_now rt) ?rq d = (Inr ex, d')"
    using assms(1) by (cases rt) (simp add: route_new_def)
  have again: "route_new (h, t, cid, now) ?rq d' = (Inr ex, d')" for h t cid now
    using routing.replay [of ?rq, OF tr assms(2) new] .
  have rec: "\<lparr>rt_user = rt_user rt, rt_correlation_id = rt_correlation_id rt', rt_now = rt_now rt'\<rparr> = rt'"
    using assms(3) by (cases rt') simp
  have eq: "route_trading_decision h t \<lparr>rt_user = rt_user rt, rt_correlation_id = cid, rt_now = now\<rparr> dc d' =
      (Inr (Some ex), d')" for h t cid now
    using again [of h t cid now] by (auto simp: route_new_def split: prod.splits sum.splits option.splits)
  show "route_trading_decision hol' st' rt' dc d' = (Inr (Some ex), d')"
    using eq [of hol' st' "rt_correlation_id rt'" "rt_now rt'"] unfolding rec .
  show "foldl (\<lambda>s (h, t, cid, now). snd (route_trading_decision h t
           \<lparr>rt_user = rt_user rt, rt_correlation_id = cid, rt_now = now\<rparr> dc s)) d' calls = d'"
    by (induction calls) (simp_all add: case_prod_beta eq)
qed

text \<open>C7. A decision is routed once per user and pair of active policy versions: after a routing
  that produced an execution, every later routing of the decision for that user, with any clock,
  stage, holiday calendar and correlation id, any number of times, returns that execution and
  changes nothing, so no second order or approval can come from it.\<close>
theorem routing_exactly_once:
  assumes "route_trading_decision hol st rt dc d = (Inr (Some ex), d')" "execution_ids_fresh d"
    "rt_user rt' = rt_user rt"
  shows "(route_trading_decision hol' st' rt' dc d' = (Inr (Some ex), d')) \<and>
    (foldl (\<lambda>s (h, t, cid, now). snd (route_trading_decision h t
           \<lparr>rt_user = rt_user rt, rt_correlation_id = cid, rt_now = now\<rparr> dc s)) d' calls = d')"
  by (intro conjI impI; rule routing_exactly_once_facts [OF assms]; assumption)

theorem routing_exactly_once_witness:
  "\<exists>ex d'. route_trading_decision (\<lambda>_. Some []) (scenario_settings ''SHADOW'') automatic_call
       (scenario_decision\<lparr>dc_action := ''HOLD''\<rparr>) automatic_db = (Inr (Some ex), d') \<and>
     route_trading_decision (\<lambda>_. None) (scenario_settings ''MOCK_AUTOMATIC'') (automatic_call\<lparr>rt_now := 50\<rparr>)
       (scenario_decision\<lparr>dc_action := ''HOLD''\<rparr>) d' = (Inr (Some ex), d')"
proof -
  have fresh: "execution_ids_fresh automatic_db" by (simp add: execution_ids_fresh_def automatic_like)
  have user: "rt_user (automatic_call\<lparr>rt_now := 50\<rparr>) = rt_user automatic_call" by simp
  from shadow_example [of "\<lambda>_. Some []"] routing_exactly_once [OF _ fresh user] show ?thesis by metis
qed

lemma shadow_stage_records_only_facts:
  assumes stage: "st_execution_stage st \<notin> {''APPROVAL_ONLY'', ''MOCK_AUTOMATIC''}"
    and run: "route_trading_decision hol st rt dc d = (res, d')"
  shows "orders d' = orders d" and "order_intents d' = order_intents d" and "approvals d' = approvals d"
    and "res = Inr (Some ex) \<Longrightarrow> stored_execution (rt_user rt, dc) d = None \<Longrightarrow>
      de_state ex \<in> {DX_NO_ACTION, DX_DISABLED, DX_GUARD_BLOCKED, DX_SHADOW_RECORDED}"
proof -
  have t: "orders (routing_db st rt dc rc d) = orders d" "order_intents (routing_db st rt dc rc d) = order_intents d"
    "approvals (routing_db st rt dc rc d) = approvals d" for rc
    by (simp_all add: routing_db_def)
  have upd: "order_intents (add_audit a (execution_upd i f x)) = order_intents x"
    "order_intents (execution_upd i f x) = order_intents x" for a i f x
    by (simp_all add: add_audit_def execution_upd_def)
  have "orders d' = orders d \<and> order_intents d' = order_intents d \<and> approvals d' = approvals d \<and>
    (res = Inr (Some ex) \<longrightarrow> stored_execution (rt_user rt, dc) d = None \<longrightarrow>
      de_state ex \<in> {DX_NO_ACTION, DX_DISABLED, DX_GUARD_BLOCKED, DX_SHADOW_RECORDED})"
  proof (cases "route_policies (rt_user rt) d")
    case None
    then show ?thesis using run by (auto simp: route_unfold split: if_splits)
  next
    case (Some rc)
    obtain s c d1 where b: "route_body hol st rt dc rc (uuid_seed d) (routing_db st rt dc rc d) =
        Inr (execution_upd (uuid_seed d) (set_execution s c) d1)"
      and s: "s \<in> {DX_NO_ACTION, DX_DISABLED, DX_GUARD_BLOCKED, DX_SHADOW_RECORDED}"
      and o: "orders d1 = orders d" "order_intents d1 = order_intents d" "approvals d1 = approvals d"
      using shadow_body [OF stage, of hol rt dc rc "uuid_seed d" "routing_db st rt dc rc d"] t by metis
    show ?thesis
      using run Some b s o upd
      by (auto simp: route_unfold stored_execution_def split: if_splits option.splits dest: execution_upd_state)
  qed
  then show "orders d' = orders d" "order_intents d' = order_intents d" "approvals d' = approvals d"
    "res = Inr (Some ex) \<Longrightarrow> stored_execution (rt_user rt, dc) d = None \<Longrightarrow>
      de_state ex \<in> {DX_NO_ACTION, DX_DISABLED, DX_GUARD_BLOCKED, DX_SHADOW_RECORDED}" by blast+
qed

text \<open>Outside the two order-enabled stages routing only records: whatever the policy, mode and
  guard say, no order, order intent or approval is added or changed, and a newly routed decision ends as
  NO_ACTION, DISABLED, GUARD_BLOCKED or SHADOW_RECORDED.\<close>
theorem shadow_stage_records_only:
  assumes stage: "st_execution_stage st \<notin> {''APPROVAL_ONLY'', ''MOCK_AUTOMATIC''}"
    and run: "route_trading_decision hol st rt dc d = (res, d')"
  shows "(orders d' = orders d) \<and>
    (order_intents d' = order_intents d) \<and>
    (approvals d' = approvals d) \<and>
    (res = Inr (Some ex) \<longrightarrow> stored_execution (rt_user rt, dc) d = None \<longrightarrow> de_state ex \<in> {DX_NO_ACTION, DX_DISABLED, DX_GUARD_BLOCKED, DX_SHADOW_RECORDED})"
  by (intro conjI impI; rule shadow_stage_records_only_facts [OF assms]; assumption)

theorem shadow_stage_records_only_witness:
  "orders (snd (route_trading_decision (\<lambda>_. Some []) (scenario_settings ''SHADOW'') automatic_call
     scenario_decision automatic_db)) = []"
proof -
  have st: "st_execution_stage (scenario_settings ''SHADOW'') \<notin> {''APPROVAL_ONLY'', ''MOCK_AUTOMATIC''}"
    by (simp add: scenario_settings_def)
  show ?thesis
    using shadow_stage_records_only [OF st prod.collapse [symmetric], of "\<lambda>_. Some []" automatic_call
        scenario_decision automatic_db] automatic_like(2) by simp
qed

end
