(* ===== verification/Fenced_Lease.thy ===== *)
theory Fenced_Lease
  imports Cresta_Schema
begin

text \<open>
  The contract of a fenced lease: one row that names an owner, a fencing token and an expiry. The
  abstract lease \<open>lease_view option\<close> has four operations; the locale \<open>fenced_lease\<close> says that a
  service implements them on its own database, and carries what every client may rely on: tokens
  only grow, a token is handed out once, and an identity that was superseded is never current
  again. The broker worker and the analysis scheduler both implement it.
\<close>

section \<open>The abstract lease\<close>

record lease_identity =
  li_owner_id :: string
  li_fencing_token :: int

record lease_view =
  lv_owner :: string
  lv_token :: int
  lv_expires :: instant

definition spec_acquire :: "string \<Rightarrow> int \<Rightarrow> instant \<Rightarrow> lease_view option \<Rightarrow> lease_identity option \<times> lease_view option" where
  "spec_acquire owner secs now l =
     (case l of
        None \<Rightarrow> (Some \<lparr>li_owner_id = owner, li_fencing_token = 1\<rparr>,
                 Some \<lparr>lv_owner = owner, lv_token = 1, lv_expires = now + seconds secs\<rparr>)
      | Some v \<Rightarrow>
          if now < lv_expires v \<and> lv_owner v \<noteq> owner then (None, l)
          else (Some \<lparr>li_owner_id = owner, li_fencing_token = lv_token v + 1\<rparr>,
                Some \<lparr>lv_owner = owner, lv_token = lv_token v + 1, lv_expires = now + seconds secs\<rparr>))"

definition lease_held :: "lease_identity \<Rightarrow> lease_view option \<Rightarrow> bool" where
  "lease_held i l \<longleftrightarrow> (\<exists>v. l = Some v \<and> lv_owner v = li_owner_id i \<and> lv_token v = li_fencing_token i)"

definition lease_current :: "lease_identity \<Rightarrow> instant \<Rightarrow> lease_view option \<Rightarrow> bool" where
  "lease_current i now l \<longleftrightarrow> lease_held i l \<and> (\<exists>v. l = Some v \<and> now < lv_expires v)"

definition spec_renew :: "lease_identity \<Rightarrow> int \<Rightarrow> instant \<Rightarrow> lease_view option \<Rightarrow> bool \<times> lease_view option" where
  "spec_renew i secs now l =
     (if lease_current i now l then (True, map_option (\<lambda>v. v\<lparr>lv_expires := now + seconds secs\<rparr>) l) else (False, l))"

definition spec_release :: "lease_identity \<Rightarrow> instant \<Rightarrow> lease_view option \<Rightarrow> bool \<times> lease_view option" where
  "spec_release i now l =
     (if lease_held i l then (True, map_option (\<lambda>v. v\<lparr>lv_expires := now\<rparr>) l) else (False, l))"

definition token_of :: "lease_view option \<Rightarrow> int" where
  "token_of l = (case l of None \<Rightarrow> 0 | Some v \<Rightarrow> lv_token v)"

text \<open>What a step of any client may do to the lease: keep token and owner, or hand out the next
  token.\<close>

definition lease_le :: "lease_view option \<Rightarrow> lease_view option \<Rightarrow> bool" where
  "lease_le l l' \<longleftrightarrow> token_of l < token_of l' \<or>
     token_of l = token_of l' \<and> map_option lv_owner l = map_option lv_owner l'"

lemma lease_le_refl [simp]: "lease_le l l"
  by (simp add: lease_le_def)

lemma lease_le_trans: "lease_le l l' \<Longrightarrow> lease_le l' l'' \<Longrightarrow> lease_le l l''"
  by (auto simp: lease_le_def)

lemma spec_acquire_le: "0 \<le> token_of l \<Longrightarrow> lease_le l (snd (spec_acquire owner secs now l))"
  by (auto simp: spec_acquire_def lease_le_def token_of_def split: option.split)

lemma spec_renew_le: "lease_le l (snd (spec_renew i secs now l))"
  by (auto simp: spec_renew_def lease_le_def token_of_def split: option.split)

lemma spec_release_le: "lease_le l (snd (spec_release i now l))"
  by (auto simp: spec_release_def lease_le_def token_of_def split: option.split)

lemma spec_acquire_holds:
  "spec_acquire owner secs now l = (Some i, l') \<Longrightarrow>
   lease_held i l' \<and> li_owner_id i = owner \<and> li_fencing_token i = token_of l' \<and> token_of l < token_of l'"
  if "0 \<le> token_of l"
  using that by (auto simp: spec_acquire_def lease_held_def token_of_def split: option.splits if_splits)

lemma lease_held_token: "lease_held i l \<Longrightarrow> li_fencing_token i = token_of l"
  by (auto simp: lease_held_def token_of_def)

section \<open>Services that implement it\<close>

locale fenced_lease =
  fixes view :: "'d \<Rightarrow> lease_view option"
    and acquire :: "('d \<Rightarrow> 'd) \<Rightarrow> string \<Rightarrow> int \<Rightarrow> instant \<Rightarrow> 'd \<Rightarrow> lease_identity option \<times> 'd"
    and renew :: "lease_identity \<Rightarrow> int \<Rightarrow> instant \<Rightarrow> 'd \<Rightarrow> bool \<times> 'd"
    and release :: "lease_identity \<Rightarrow> instant \<Rightarrow> 'd \<Rightarrow> bool \<times> 'd"
  assumes acquire_refines:
      "(case acquire env owner secs now d of (r, d') \<Rightarrow> (r, view d')) =
       (if view d = None \<and> view (env d) \<noteq> None then (None, view (env d)) else spec_acquire owner secs now (view d))"
    and renew_refines: "(case renew i secs now d of (r, d') \<Rightarrow> (r, view d')) = spec_renew i secs now (view d)"
    and release_refines: "(case release i now d of (r, d') \<Rightarrow> (r, view d')) = spec_release i now (view d)"
begin

text \<open>Any number of clients: their lease operations, and steps of the rest of the program, which
  does not write the lease.\<close>

inductive client_step :: "'d \<Rightarrow> 'd \<Rightarrow> bool" where
  acquire: "client_step d (snd (acquire (\<lambda>d. d) owner secs now d))"
| renew: "client_step d (snd (renew i secs now d))"
| release: "client_step d (snd (release i now d))"
| other: "view d' = view d \<Longrightarrow> client_step d d'"

lemma acquire_view: "view (snd (acquire (\<lambda>d. d) owner secs now d)) = snd (spec_acquire owner secs now (view d))"
  using acquire_refines [of "\<lambda>d. d" owner secs now d]
  by (cases "acquire (\<lambda>d. d) owner secs now d") (auto dest!: arg_cong [where f = snd] split: if_splits)

lemma step_le:
  assumes "client_step d d'" "0 \<le> token_of (view d)"
  shows "lease_le (view d) (view d')"
  using assms
proof cases
  case (acquire owner secs now)
  then show ?thesis using spec_acquire_le [OF assms(2)] by (simp add: acquire_view)
next
  case (renew i secs now)
  then show ?thesis using renew_refines [of i secs now d] spec_renew_le by (metis prod.case_eq_if snd_conv)
next
  case (release i now)
  then show ?thesis using release_refines [of i now d] spec_release_le by (metis prod.case_eq_if snd_conv)
qed simp

lemma steps_le:
  assumes "client_step\<^sup>*\<^sup>* d d'" "0 \<le> token_of (view d)"
  shows "lease_le (view d) (view d') \<and> 0 \<le> token_of (view d')"
  using assms
proof (induction rule: rtranclp_induct)
  case base
  then show ?case by simp
next
  case (step d' d'')
  then show ?case using step_le [OF step(2)] by (auto intro: lease_le_trans simp: lease_le_def)
qed

text \<open>A superseded identity never becomes current again, and its token is not handed out twice.\<close>

lemma fenced:
  assumes "0 \<le> token_of (view d)" "lease_held i (view d)" "client_step\<^sup>*\<^sup>* d d1"
    and acq: "acquire (\<lambda>d. d) owner secs now d1 = (Some j, d2)" and steps: "client_step\<^sup>*\<^sup>* d2 e"
  shows "li_fencing_token i < li_fencing_token j" "lease_held j (view d2)" "\<not> lease_held i (view e)"
proof -
  have d1: "token_of (view d) \<le> token_of (view d1)" "0 \<le> token_of (view d1)"
    using steps_le [OF assms(3,1)] by (auto simp: lease_le_def)
  have "spec_acquire owner secs now (view d1) = (Some j, view d2)"
    using acquire_refines [of "\<lambda>d. d" owner secs now d1] acq by (auto split: if_splits)
  from spec_acquire_holds [OF d1(2) this]
  show j: "li_fencing_token i < li_fencing_token j" "lease_held j (view d2)"
    using lease_held_token [OF assms(2)] d1(1) by auto
  have "0 \<le> token_of (view d2)" using j lease_held_token assms(1,2) by fastforce
  from steps_le [OF steps this] have "token_of (view d2) \<le> token_of (view e)" by (auto simp: lease_le_def)
  then show "\<not> lease_held i (view e)" using j lease_held_token by fastforce
qed

text \<open>While an identity is current, nobody else can acquire the lease.\<close>

lemma exclusive:
  assumes "lease_current i now (view d)" "owner \<noteq> li_owner_id i"
  shows "fst (acquire (\<lambda>d. d) owner secs now d) = None"
  using assms acquire_refines [of "\<lambda>d. d" owner secs now d]
  by (auto simp: lease_current_def lease_held_def spec_acquire_def split: prod.splits)

end

end
