(* ===== verification/Worker_Lease.thy ===== *)
theory Worker_Lease
  imports Fenced_Lease Order_Creation
begin

text \<open>
  \<open>app/broker/worker_state.py\<close> and \<open>app/analysis_scheduler_state.py\<close>: the leases of the broker
  worker and of the analysis scheduler, and the state rows their holders publish. \<open>env\<close> is what
  concurrent transactions commit between the lookup of a missing lease row and the commit of its
  insertion; every other lookup locks the row it finds.
\<close>

section \<open>Broker worker\<close>

definition broker_lease_get :: "db \<Rightarrow> broker_lease option" where
  "broker_lease_get d = row_find bl_account_alias kiwoom_account (broker_leases d)"

definition broker_lease_upd :: "(broker_lease \<Rightarrow> broker_lease) \<Rightarrow> db \<Rightarrow> db" where
  "broker_lease_upd f d = d\<lparr>broker_leases := row_upd bl_account_alias kiwoom_account f (broker_leases d)\<rparr>"

definition worker_state_upd :: "(broker_worker_state \<Rightarrow> broker_worker_state) \<Rightarrow> db \<Rightarrow> db" where
  "worker_state_upd f d =
     d\<lparr>broker_worker_states := row_upd bw_account_alias kiwoom_account f (broker_worker_states d)\<rparr>"

definition acquire_lease ::
  "(db \<Rightarrow> db) \<Rightarrow> string \<Rightarrow> int \<Rightarrow> instant \<Rightarrow> db \<Rightarrow> lease_identity option \<times> db" where
  "acquire_lease env owner secs now d =
     (case broker_lease_get d of
        Some lease \<Rightarrow>
          if now < bl_expires_at lease \<and> bl_owner_id lease \<noteq> owner then (None, d)
          else (Some \<lparr>li_owner_id = owner, li_fencing_token = bl_fencing_token lease + 1\<rparr>,
                broker_lease_upd (\<lambda>l. l\<lparr>bl_owner_id := owner, bl_fencing_token := bl_fencing_token l + 1,
                  bl_expires_at := now + seconds secs, bl_version := bl_version l + 1\<rparr>) d)
      | None \<Rightarrow>
          (let e = env d
           in if broker_lease_get e \<noteq> None then (None, e)
              else (Some \<lparr>li_owner_id = owner, li_fencing_token = 1\<rparr>,
                    e\<lparr>broker_leases := broker_leases e @
                      [\<lparr>bl_account_alias = kiwoom_account, bl_owner_id = owner, bl_fencing_token = 1,
                        bl_expires_at = now + seconds secs, bl_version = 1\<rparr>]\<rparr>)))"

definition lease_row_held :: "lease_identity \<Rightarrow> broker_lease \<Rightarrow> bool" where
  "lease_row_held i l \<longleftrightarrow> bl_owner_id l = li_owner_id i \<and> bl_fencing_token l = li_fencing_token i"

definition lease_is_current :: "db \<Rightarrow> lease_identity \<Rightarrow> instant \<Rightarrow> bool" where
  "lease_is_current d i now =
     (case broker_lease_get d of None \<Rightarrow> False | Some l \<Rightarrow> lease_row_held i l \<and> now < bl_expires_at l)"

text \<open>The heartbeat is only written to a state row that carries the caller's token.\<close>

definition own_state_upd :: "lease_identity \<Rightarrow> (broker_worker_state \<Rightarrow> broker_worker_state) \<Rightarrow> db \<Rightarrow> db" where
  "own_state_upd i f d =
     (case worker_state_get d kiwoom_account of
        None \<Rightarrow> d
      | Some w \<Rightarrow> if bw_fencing_token w = li_fencing_token i then worker_state_upd f d else d)"

definition renew_lease :: "lease_identity \<Rightarrow> int \<Rightarrow> instant \<Rightarrow> db \<Rightarrow> bool \<times> db" where
  "renew_lease i secs now d =
     (if lease_is_current d i now
      then (True, own_state_upd i (\<lambda>w. w\<lparr>bw_last_heartbeat_at := now\<rparr>)
              (broker_lease_upd (\<lambda>l. l\<lparr>bl_expires_at := now + seconds secs, bl_version := bl_version l + 1\<rparr>) d))
      else (False, d))"

definition release_lease :: "lease_identity \<Rightarrow> instant \<Rightarrow> db \<Rightarrow> bool \<times> db" where
  "release_lease i now d =
     (case broker_lease_get d of
        None \<Rightarrow> (False, d)
      | Some l \<Rightarrow>
          if \<not> lease_row_held i l then (False, d)
          else (True, broker_lease_upd (\<lambda>l. l\<lparr>bl_expires_at := now, bl_version := bl_version l + 1\<rparr>)
                  (own_state_upd i (\<lambda>w. w\<lparr>bw_state := ''STOPPED'', bw_websocket_connected := False,
                     bw_subscriptions_ready := False, bw_last_heartbeat_at := now\<rparr>) d)))"

record worker_update =
  wu_state :: string
  wu_websocket_connected :: bool
  wu_subscriptions_ready :: bool
  wu_gate :: "(gate_status \<times> string option) option"
  wu_error_code :: "string option"
  wu_reconciliation_run_id :: "uuid option"

definition new_worker_state :: "lease_identity \<Rightarrow> worker_update \<Rightarrow> instant \<Rightarrow> broker_worker_state" where
  "new_worker_state i u now =
     \<lparr>bw_account_alias = kiwoom_account, bw_environment = ''MOCK'', bw_fencing_token = li_fencing_token i,
      bw_state = wu_state u, bw_websocket_connected = wu_websocket_connected u,
      bw_subscriptions_ready = wu_subscriptions_ready u, bw_last_heartbeat_at = now,
      bw_last_reconciliation_at = None, bw_last_reconciliation_run_id = None,
      bw_last_error_code = None, bw_started_at = now\<rparr>"

definition published_state :: "lease_identity \<Rightarrow> worker_update \<Rightarrow> instant \<Rightarrow> broker_worker_state \<Rightarrow> broker_worker_state" where
  "published_state i u now w =
     (let w1 = w\<lparr>bw_state := wu_state u, bw_fencing_token := li_fencing_token i,
            bw_websocket_connected := wu_websocket_connected u,
            bw_subscriptions_ready := wu_subscriptions_ready u, bw_last_heartbeat_at := now,
            bw_last_error_code := wu_error_code u\<rparr>
      in case wu_reconciliation_run_id u of
           None \<Rightarrow> w1
         | Some run \<Rightarrow> w1\<lparr>bw_last_reconciliation_run_id := Some run, bw_last_reconciliation_at := Some now\<rparr>)"

text \<open>\<open>TradingGate\<close> is created on first use and versioned afterwards.\<close>

definition set_gate :: "gate_status \<Rightarrow> string option \<Rightarrow> db \<Rightarrow> db" where
  "set_gate s reason d =
     (case gate_get d kiwoom_account of
        None \<Rightarrow> d\<lparr>trading_gates := trading_gates d @
          [\<lparr>g_account_alias = kiwoom_account, g_environment = ''MOCK'', g_status = s, g_reason = reason,
            g_version = 1\<rparr>]\<rparr>
      | Some g \<Rightarrow> d\<lparr>trading_gates := row_upd g_account_alias kiwoom_account
          (\<lambda>g. g\<lparr>g_status := s, g_reason := reason, g_version := g_version g + 1\<rparr>) (trading_gates d)\<rparr>)"

definition update_worker_state :: "lease_identity \<Rightarrow> worker_update \<Rightarrow> instant \<Rightarrow> db \<Rightarrow> bool \<times> db" where
  "update_worker_state i u now d =
     (if \<not> lease_is_current d i now then (False, d)
      else
        (let d1 = (case worker_state_get d kiwoom_account of
                     None \<Rightarrow> d\<lparr>broker_worker_states := broker_worker_states d @ [new_worker_state i u now]\<rparr>
                   | Some _ \<Rightarrow> d);
             d2 = worker_state_upd (published_state i u now) d1
         in (True, case wu_gate u of None \<Rightarrow> d2 | Some (s, reason) \<Rightarrow> set_gate s reason d2)))"

record broker_status =
  bs_state :: string
  bs_gate :: "(gate_status \<times> string option) option"
  bs_fencing_token :: "int option"
  bs_lease_valid :: bool
  bs_websocket_connected :: bool
  bs_subscriptions_ready :: bool
  bs_last_heartbeat_at :: "instant option"
  bs_last_reconciliation_at :: "instant option"
  bs_last_reconciliation_run_id :: "uuid option"
  bs_last_error_code :: "string option"

definition get_broker_status :: "db \<Rightarrow> instant \<Rightarrow> broker_status" where
  "get_broker_status d now =
     (let valid = (case broker_lease_get d of None \<Rightarrow> False | Some l \<Rightarrow> now < bl_expires_at l);
          state = worker_state_get d kiwoom_account;
          gate = gate_get d kiwoom_account
      in \<lparr>bs_state = (case state of
              None \<Rightarrow> ''NOT_STARTED''
            | Some w \<Rightarrow> if \<not> valid \<and> bw_state w \<noteq> ''STOPPED'' then ''STALE'' else bw_state w),
          bs_gate = map_option (\<lambda>g. (g_status g, g_reason g)) gate,
          bs_fencing_token = map_option bw_fencing_token state,
          bs_lease_valid = valid,
          bs_websocket_connected = (case state of None \<Rightarrow> False | Some w \<Rightarrow> bw_websocket_connected w \<and> valid),
          bs_subscriptions_ready = (case state of None \<Rightarrow> False | Some w \<Rightarrow> bw_subscriptions_ready w \<and> valid),
          bs_last_heartbeat_at = map_option bw_last_heartbeat_at state,
          bs_last_reconciliation_at = Option.bind state bw_last_reconciliation_at,
          bs_last_reconciliation_run_id = Option.bind state bw_last_reconciliation_run_id,
          bs_last_error_code = Option.bind state bw_last_error_code\<rparr>)"

section \<open>Analysis scheduler\<close>

record scheduler_lease =
  sl_scheduler_name :: string
  sl_owner_id :: string
  sl_fencing_token :: int
  sl_expires_at :: instant
  sl_version :: int

record scheduler_state =
  ss_scheduler_name :: string
  ss_state :: string
  ss_fencing_token :: int
  ss_last_slot_key :: "string option"
  ss_last_heartbeat_at :: instant
  ss_last_tick_at :: "instant option"
  ss_last_completed_at :: "instant option"
  ss_next_due_at :: "instant option"
  ss_processed_count :: int
  ss_decision_count :: int
  ss_skipped_count :: int
  ss_failed_count :: int
  ss_last_error_code :: "string option"
  ss_started_at :: instant

text \<open>The two tables of the scheduler, which no other service writes.\<close>

record scheduler_db =
  scheduler_leases :: "scheduler_lease list"
  scheduler_states :: "scheduler_state list"

definition scheduler_name :: string where
  "scheduler_name = ''PERIODIC_AI''"

definition scheduler_lease_get :: "scheduler_db \<Rightarrow> scheduler_lease option" where
  "scheduler_lease_get d = row_find sl_scheduler_name scheduler_name (scheduler_leases d)"

definition scheduler_state_get :: "scheduler_db \<Rightarrow> scheduler_state option" where
  "scheduler_state_get d = row_find ss_scheduler_name scheduler_name (scheduler_states d)"

definition scheduler_lease_upd :: "(scheduler_lease \<Rightarrow> scheduler_lease) \<Rightarrow> scheduler_db \<Rightarrow> scheduler_db" where
  "scheduler_lease_upd f d = d\<lparr>scheduler_leases := row_upd sl_scheduler_name scheduler_name f (scheduler_leases d)\<rparr>"

definition scheduler_state_upd :: "(scheduler_state \<Rightarrow> scheduler_state) \<Rightarrow> scheduler_db \<Rightarrow> scheduler_db" where
  "scheduler_state_upd f d = d\<lparr>scheduler_states := row_upd ss_scheduler_name scheduler_name f (scheduler_states d)\<rparr>"

definition acquire_scheduler_lease ::
  "(scheduler_db \<Rightarrow> scheduler_db) \<Rightarrow> string \<Rightarrow> int \<Rightarrow> instant \<Rightarrow> scheduler_db \<Rightarrow> lease_identity option \<times> scheduler_db" where
  "acquire_scheduler_lease env owner secs now d =
     (case scheduler_lease_get d of
        Some lease \<Rightarrow>
          if now < sl_expires_at lease \<and> sl_owner_id lease \<noteq> owner then (None, d)
          else (Some \<lparr>li_owner_id = owner, li_fencing_token = sl_fencing_token lease + 1\<rparr>,
                scheduler_lease_upd (\<lambda>l. l\<lparr>sl_owner_id := owner, sl_fencing_token := sl_fencing_token l + 1,
                  sl_expires_at := now + seconds secs, sl_version := sl_version l + 1\<rparr>) d)
      | None \<Rightarrow>
          (let e = env d
           in if scheduler_lease_get e \<noteq> None then (None, e)
              else (Some \<lparr>li_owner_id = owner, li_fencing_token = 1\<rparr>,
                    e\<lparr>scheduler_leases := scheduler_leases e @
                      [\<lparr>sl_scheduler_name = scheduler_name, sl_owner_id = owner, sl_fencing_token = 1,
                        sl_expires_at = now + seconds secs, sl_version = 1\<rparr>]\<rparr>)))"

definition scheduler_row_held :: "lease_identity \<Rightarrow> scheduler_lease \<Rightarrow> bool" where
  "scheduler_row_held i l \<longleftrightarrow> sl_owner_id l = li_owner_id i \<and> sl_fencing_token l = li_fencing_token i"

definition scheduler_lease_current :: "scheduler_db \<Rightarrow> lease_identity \<Rightarrow> instant \<Rightarrow> bool" where
  "scheduler_lease_current d i now =
     (case scheduler_lease_get d of None \<Rightarrow> False | Some l \<Rightarrow> scheduler_row_held i l \<and> now < sl_expires_at l)"

definition own_scheduler_state_upd :: "lease_identity \<Rightarrow> (scheduler_state \<Rightarrow> scheduler_state) \<Rightarrow> scheduler_db \<Rightarrow> scheduler_db" where
  "own_scheduler_state_upd i f d =
     (case scheduler_state_get d of
        None \<Rightarrow> d
      | Some s \<Rightarrow> if ss_fencing_token s = li_fencing_token i then scheduler_state_upd f d else d)"

definition renew_scheduler_lease :: "lease_identity \<Rightarrow> int \<Rightarrow> instant \<Rightarrow> scheduler_db \<Rightarrow> bool \<times> scheduler_db" where
  "renew_scheduler_lease i secs now d =
     (if scheduler_lease_current d i now
      then (True, own_scheduler_state_upd i (\<lambda>s. s\<lparr>ss_last_heartbeat_at := now\<rparr>)
              (scheduler_lease_upd (\<lambda>l. l\<lparr>sl_expires_at := now + seconds secs, sl_version := sl_version l + 1\<rparr>) d))
      else (False, d))"

definition release_scheduler_lease :: "lease_identity \<Rightarrow> instant \<Rightarrow> scheduler_db \<Rightarrow> bool \<times> scheduler_db" where
  "release_scheduler_lease i now d =
     (case scheduler_lease_get d of
        None \<Rightarrow> (False, d)
      | Some l \<Rightarrow>
          if \<not> scheduler_row_held i l then (False, d)
          else (True, scheduler_lease_upd (\<lambda>l. l\<lparr>sl_expires_at := now, sl_version := sl_version l + 1\<rparr>)
                  (own_scheduler_state_upd i (\<lambda>s. s\<lparr>ss_state := ''STOPPED'', ss_last_heartbeat_at := now\<rparr>) d)))"

record scheduler_update =
  su_state :: string
  su_slot_key :: "string option"
  su_next_due_at :: "instant option"
  su_completed :: bool
  su_processed_count :: int
  su_decision_count :: int
  su_skipped_count :: int
  su_failed_count :: int
  su_error_code :: "string option"

definition new_scheduler_state :: "lease_identity \<Rightarrow> scheduler_update \<Rightarrow> instant \<Rightarrow> scheduler_state" where
  "new_scheduler_state i u now =
     \<lparr>ss_scheduler_name = scheduler_name, ss_state = su_state u, ss_fencing_token = li_fencing_token i,
      ss_last_slot_key = None, ss_last_heartbeat_at = now, ss_last_tick_at = None, ss_last_completed_at = None,
      ss_next_due_at = None, ss_processed_count = 0, ss_decision_count = 0, ss_skipped_count = 0,
      ss_failed_count = 0, ss_last_error_code = None, ss_started_at = now\<rparr>"

definition published_scheduler_state ::
  "lease_identity \<Rightarrow> scheduler_update \<Rightarrow> instant \<Rightarrow> scheduler_state \<Rightarrow> scheduler_state" where
  "published_scheduler_state i u now s =
     (let s1 = s\<lparr>ss_state := su_state u, ss_fencing_token := li_fencing_token i, ss_last_heartbeat_at := now,
            ss_next_due_at := su_next_due_at u, ss_last_error_code := su_error_code u\<rparr>;
          s2 = (case su_slot_key u of
                  None \<Rightarrow> s1
                | Some k \<Rightarrow> s1\<lparr>ss_last_slot_key := Some k, ss_last_tick_at := Some now\<rparr>)
      in if su_completed u
         then s2\<lparr>ss_last_completed_at := Some now, ss_processed_count := su_processed_count u,
                 ss_decision_count := su_decision_count u, ss_skipped_count := su_skipped_count u,
                 ss_failed_count := su_failed_count u\<rparr>
         else s2)"

definition update_scheduler_state :: "lease_identity \<Rightarrow> scheduler_update \<Rightarrow> instant \<Rightarrow> scheduler_db \<Rightarrow> bool \<times> scheduler_db" where
  "update_scheduler_state i u now d =
     (if \<not> scheduler_lease_current d i now then (False, d)
      else
        (let d1 = (case scheduler_state_get d of
                     None \<Rightarrow> d\<lparr>scheduler_states := scheduler_states d @ [new_scheduler_state i u now]\<rparr>
                   | Some _ \<Rightarrow> d)
         in (True, scheduler_state_upd (published_scheduler_state i u now) d1)))"

record scheduler_status =
  hs_state :: string
  hs_lease_valid :: bool
  hs_last_heartbeat_at :: "instant option"
  hs_last_tick_at :: "instant option"
  hs_last_completed_at :: "instant option"
  hs_next_due_at :: "instant option"
  hs_processed_count :: int
  hs_decision_count :: int
  hs_skipped_count :: int
  hs_failed_count :: int
  hs_last_error_code :: "string option"

definition get_scheduler_status :: "scheduler_db \<Rightarrow> instant \<Rightarrow> scheduler_status" where
  "get_scheduler_status d now =
     (let valid = (case scheduler_lease_get d of None \<Rightarrow> False | Some l \<Rightarrow> now < sl_expires_at l);
          state = scheduler_state_get d;
          count = (\<lambda>f. case state of None \<Rightarrow> 0 | Some s \<Rightarrow> f s)
      in \<lparr>hs_state = (case state of
              None \<Rightarrow> ''NOT_STARTED''
            | Some s \<Rightarrow> if \<not> valid \<and> ss_state s \<noteq> ''STOPPED'' then ''STALE'' else ss_state s),
          hs_lease_valid = valid,
          hs_last_heartbeat_at = map_option ss_last_heartbeat_at state,
          hs_last_tick_at = Option.bind state ss_last_tick_at,
          hs_last_completed_at = Option.bind state ss_last_completed_at,
          hs_next_due_at = Option.bind state ss_next_due_at,
          hs_processed_count = count ss_processed_count, hs_decision_count = count ss_decision_count,
          hs_skipped_count = count ss_skipped_count, hs_failed_count = count ss_failed_count,
          hs_last_error_code = Option.bind state ss_last_error_code\<rparr>)"

section \<open>Both implement the fenced lease\<close>

definition broker_lease_view :: "db \<Rightarrow> lease_view option" where
  "broker_lease_view d = map_option (\<lambda>l. \<lparr>lv_owner = bl_owner_id l, lv_token = bl_fencing_token l,
     lv_expires = bl_expires_at l\<rparr>) (broker_lease_get d)"

definition scheduler_lease_view :: "scheduler_db \<Rightarrow> lease_view option" where
  "scheduler_lease_view d = map_option (\<lambda>l. \<lparr>lv_owner = sl_owner_id l, lv_token = sl_fencing_token l,
     lv_expires = sl_expires_at l\<rparr>) (scheduler_lease_get d)"

lemma broker_lease_get_frame [simp]:
  "broker_lease_get (worker_state_upd f d) = broker_lease_get d"
  "broker_lease_get (own_state_upd i f d) = broker_lease_get d"
  "broker_lease_get (set_gate s r d) = broker_lease_get d"
  by (simp_all add: broker_lease_get_def worker_state_upd_def own_state_upd_def set_gate_def split: option.split)

lemma broker_lease_get_upd:
  "(\<And>l. bl_account_alias (f l) = bl_account_alias l) \<Longrightarrow>
   broker_lease_get (broker_lease_upd f d) = map_option f (broker_lease_get d)"
  by (simp add: broker_lease_get_def broker_lease_upd_def row_find_row_upd)

lemma broker_current_view: "lease_is_current d i now \<longleftrightarrow> lease_current i now (broker_lease_view d)"
  by (auto simp: lease_is_current_def lease_current_def lease_held_def broker_lease_view_def lease_row_held_def
      split: option.split)

interpretation broker: fenced_lease broker_lease_view acquire_lease renew_lease release_lease
proof
  fix env :: "db \<Rightarrow> db" and owner :: string and secs now :: int and d :: db
  show "(case acquire_lease env owner secs now d of (r, d') \<Rightarrow> (r, broker_lease_view d')) =
      (if broker_lease_view d = None \<and> broker_lease_view (env d) \<noteq> None then (None, broker_lease_view (env d))
       else spec_acquire owner secs now (broker_lease_view d))"
    by (auto simp: acquire_lease_def broker_lease_view_def spec_acquire_def broker_lease_get_upd Let_def
        split: option.split)
      (simp_all add: broker_lease_get_def row_find_append)
next
  fix i :: lease_identity and secs now :: int and d :: db
  show "(case renew_lease i secs now d of (r, d') \<Rightarrow> (r, broker_lease_view d')) = spec_renew i secs now (broker_lease_view d)"
    by (simp add: renew_lease_def spec_renew_def broker_current_view)
      (simp add: broker_lease_view_def broker_lease_get_upd option.map_comp comp_def)
  show "(case release_lease i now d of (r, d') \<Rightarrow> (r, broker_lease_view d')) = spec_release i now (broker_lease_view d)"
    by (auto simp: release_lease_def spec_release_def broker_lease_view_def lease_held_def lease_row_held_def
        broker_lease_get_upd split: option.split)
qed

lemma scheduler_lease_get_frame [simp]:
  "scheduler_lease_get (scheduler_state_upd f d) = scheduler_lease_get d"
  "scheduler_lease_get (own_scheduler_state_upd i f d) = scheduler_lease_get d"
  by (simp_all add: scheduler_lease_get_def scheduler_state_upd_def own_scheduler_state_upd_def split: option.split)

lemma scheduler_lease_get_upd:
  "(\<And>l. sl_scheduler_name (f l) = sl_scheduler_name l) \<Longrightarrow>
   scheduler_lease_get (scheduler_lease_upd f d) = map_option f (scheduler_lease_get d)"
  by (simp add: scheduler_lease_get_def scheduler_lease_upd_def row_find_row_upd)

lemma scheduler_current_view: "scheduler_lease_current d i now \<longleftrightarrow> lease_current i now (scheduler_lease_view d)"
  by (auto simp: scheduler_lease_current_def lease_current_def lease_held_def scheduler_lease_view_def
      scheduler_row_held_def split: option.split)

interpretation scheduler: fenced_lease scheduler_lease_view acquire_scheduler_lease renew_scheduler_lease release_scheduler_lease
proof
  fix env :: "scheduler_db \<Rightarrow> scheduler_db" and owner :: string and secs now :: int and d :: scheduler_db
  show "(case acquire_scheduler_lease env owner secs now d of (r, d') \<Rightarrow> (r, scheduler_lease_view d')) =
      (if scheduler_lease_view d = None \<and> scheduler_lease_view (env d) \<noteq> None then (None, scheduler_lease_view (env d))
       else spec_acquire owner secs now (scheduler_lease_view d))"
    by (auto simp: acquire_scheduler_lease_def scheduler_lease_view_def spec_acquire_def scheduler_lease_get_upd Let_def
        split: option.split)
      (simp_all add: scheduler_lease_get_def row_find_append)
next
  fix i :: lease_identity and secs now :: int and d :: scheduler_db
  show "(case renew_scheduler_lease i secs now d of (r, d') \<Rightarrow> (r, scheduler_lease_view d')) =
      spec_renew i secs now (scheduler_lease_view d)"
    by (simp add: renew_scheduler_lease_def spec_renew_def scheduler_current_view)
      (simp add: scheduler_lease_view_def scheduler_lease_get_upd option.map_comp comp_def)
  show "(case release_scheduler_lease i now d of (r, d') \<Rightarrow> (r, scheduler_lease_view d')) =
      spec_release i now (scheduler_lease_view d)"
    by (auto simp: release_scheduler_lease_def spec_release_def scheduler_lease_view_def lease_held_def
        scheduler_row_held_def scheduler_lease_get_upd split: option.split)
qed

section \<open>Properties\<close>

text \<open>What can happen to the database of the broker worker: lease operations and state updates of any
  number of worker processes, and every other part of the program, none of which writes leases.\<close>

inductive worker_step :: "db \<Rightarrow> db \<Rightarrow> bool" where
  acquire: "worker_step d (snd (acquire_lease (\<lambda>d. d) owner secs now d))"
| renew: "worker_step d (snd (renew_lease i secs now d))"
| release: "worker_step d (snd (release_lease i now d))"
| update: "worker_step d (snd (update_worker_state i u now d))"
| other: "broker_leases d' = broker_leases d \<Longrightarrow> worker_step d d'"

lemma update_worker_view: "broker_lease_view (snd (update_worker_state i u now d)) = broker_lease_view d"
  by (auto simp: update_worker_state_def broker_lease_view_def Let_def split: option.split)
    (simp_all add: broker_lease_get_def)

lemma broker_lease_view_cong: "broker_leases d' = broker_leases d \<Longrightarrow> broker_lease_view d' = broker_lease_view d"
  by (simp add: broker_lease_view_def broker_lease_get_def)

lemma worker_step_client: "worker_step d d' \<Longrightarrow> broker.client_step d d'"
  by (induction rule: worker_step.induct)
    (auto intro: broker.client_step.intros update_worker_view broker_lease_view_cong)

lemma worker_steps_client: "worker_step\<^sup>*\<^sup>* d d' \<Longrightarrow> broker.client_step\<^sup>*\<^sup>* d d'"
  using mono_rtranclp [of worker_step broker.client_step] worker_step_client by blast

lemma not_held_powerless:
  assumes "\<not> lease_held i (broker_lease_view e)"
  shows "\<not> lease_is_current e i now" "renew_lease i secs now e = (False, e)"
    "update_worker_state i u now e = (False, e)" "release_lease i now e = (False, e)"
proof -
  show nc: "\<not> lease_is_current e i now" using assms by (simp add: broker_current_view lease_current_def)
  then show "renew_lease i secs now e = (False, e)" "update_worker_state i u now e = (False, e)"
    by (simp_all add: renew_lease_def update_worker_state_def)
  show "release_lease i now e = (False, e)"
    using assms by (auto simp: release_lease_def lease_held_def lease_row_held_def broker_lease_view_def split: option.split)
qed

lemma acquired_held:
  assumes "acquire_lease env owner secs now d0 = (Some i, d)" "\<forall>l \<in> set (broker_leases d0). 0 < bl_fencing_token l"
  shows "lease_held i (broker_lease_view d)" "0 \<le> token_of (broker_lease_view d)" "li_owner_id i = owner"
proof -
  have "0 \<le> token_of (broker_lease_view d0)"
  proof (cases "broker_lease_get d0")
    case (Some l)
    then have "0 < bl_fencing_token l" using assms(2) row_find_Some by (fastforce simp: broker_lease_get_def)
    then show ?thesis using Some by (simp add: token_of_def broker_lease_view_def)
  qed (simp add: token_of_def broker_lease_view_def)
  moreover have "spec_acquire owner secs now (broker_lease_view d0) = (Some i, broker_lease_view d)"
    using broker.acquire_refines [of env owner secs now d0] assms(1) by (auto split: if_splits)
  ultimately show "lease_held i (broker_lease_view d)" "0 \<le> token_of (broker_lease_view d)" "li_owner_id i = owner"
    using spec_acquire_holds by fastforce+
qed

text \<open>C14. Both leases are the same fenced lease. Seen through owner, token and expiry, each operation
  of the broker worker and of the analysis scheduler returns what the abstract lease returns and leaves the row the
  abstract lease leaves; only a first acquisition that loses the race of inserting the row
  returns nothing instead.\<close>
theorem leases_refine_fenced_lease:
  "((case acquire_lease env owner secs now d of (r, d') \<Rightarrow> (r, broker_lease_view d')) =
      (if broker_lease_view d = None \<and> broker_lease_view (env d) \<noteq> None then (None, broker_lease_view (env d))
       else spec_acquire owner secs now (broker_lease_view d))) \<and>
   ((case renew_lease i secs now d of (r, d') \<Rightarrow> (r, broker_lease_view d')) = spec_renew i secs now (broker_lease_view d)) \<and>
   ((case release_lease i now d of (r, d') \<Rightarrow> (r, broker_lease_view d')) = spec_release i now (broker_lease_view d)) \<and>
   lease_is_current d i now = lease_current i now (broker_lease_view d) \<and>
   ((case acquire_scheduler_lease senv owner secs now s of (r, s') \<Rightarrow> (r, scheduler_lease_view s')) =
      (if scheduler_lease_view s = None \<and> scheduler_lease_view (senv s) \<noteq> None then (None, scheduler_lease_view (senv s))
       else spec_acquire owner secs now (scheduler_lease_view s))) \<and>
   ((case renew_scheduler_lease i secs now s of (r, s') \<Rightarrow> (r, scheduler_lease_view s')) =
      spec_renew i secs now (scheduler_lease_view s)) \<and>
   ((case release_scheduler_lease i now s of (r, s') \<Rightarrow> (r, scheduler_lease_view s')) =
      spec_release i now (scheduler_lease_view s))"
  by (intro conjI; rule broker.acquire_refines broker.renew_refines broker.release_refines broker_current_view
      scheduler.acquire_refines scheduler.renew_refines scheduler.release_refines)

text \<open>C15. Fencing: once another process has acquired the broker lease, the identity that was given out
  before is dead for good. Its token is smaller, it is never current again, and it can neither
  renew nor release the lease nor publish a worker state, whatever happens and whatever clocks
  the processes have.\<close>
theorem superseded_worker_is_fenced:
  assumes pos: "\<forall>l \<in> set (broker_leases d0). 0 < bl_fencing_token l"
    and first: "acquire_lease env owner secs t0 d0 = (Some i, d)" "worker_step\<^sup>*\<^sup>* d d1"
    and snd: "acquire_lease (\<lambda>d. d) owner' secs' t1 d1 = (Some j, d2)" "worker_step\<^sup>*\<^sup>* d2 e"
  shows "li_fencing_token i < li_fencing_token j \<and> \<not> lease_is_current e i now \<and>
    renew_lease i secs'' now e = (False, e) \<and> update_worker_state i u now e = (False, e) \<and>
    release_lease i now e = (False, e)"
proof -
  note h = acquired_held [OF first(1) pos]
  note f = broker.fenced [OF h(2,1) worker_steps_client [OF first(2)] snd(1) worker_steps_client [OF snd(2)]]
  show ?thesis using f(1) not_held_powerless [OF f(3)] by simp
qed

definition two_workers_db :: db where
  "two_workers_db = snd (acquire_lease (\<lambda>d. d) ''worker-a'' 30 0 empty_db)"

theorem superseded_worker_is_fenced_witness:
  "\<exists>j e. acquire_lease (\<lambda>d. d) ''worker-b'' 30 (seconds 31) two_workers_db = (Some j, e) \<and>
     \<not> lease_is_current e \<lparr>li_owner_id = ''worker-a'', li_fencing_token = 1\<rparr> 0"
proof -
  let ?i = "\<lparr>li_owner_id = ''worker-a'', li_fencing_token = 1\<rparr>"
  have a: "acquire_lease (\<lambda>d. d) ''worker-a'' 30 0 empty_db = (Some ?i, two_workers_db)"
    by (simp add: two_workers_db_def acquire_lease_def broker_lease_get_def empty_db_def)
  obtain j e where b: "acquire_lease (\<lambda>d. d) ''worker-b'' 30 (seconds 31) two_workers_db = (Some j, e)"
    by (simp add: two_workers_db_def acquire_lease_def broker_lease_get_def empty_db_def seconds_def)
  have pos: "\<forall>l \<in> set (broker_leases empty_db). 0 < bl_fencing_token l" by (simp add: empty_db_def)
  show ?thesis using superseded_worker_is_fenced [OF pos a rtranclp.rtrancl_refl b rtranclp.rtrancl_refl] b by blast
qed

end
