(* ===== verification/Order_Sender.thy ===== *)
theory Order_Sender
  imports Worker_Lease "HOL-Library.Product_Lexorder"
begin

text \<open>
  \<open>app/broker/order_sender.py\<close>: transmission of CREATED orders and cancellation of expired entry
  orders. The broker client is a parameter: a function from the request to what the call does
  (acknowledge, reject, leave the outcome unknown, fail in the adapter, or raise something else).
  \<open>sn_env\<close> is what other transactions commit while the call is in flight, after the sender has
  committed SUBMITTING or CANCEL_PENDING and before it writes the outcome; \<open>sn_finish_now\<close> is the
  clock at that moment and \<open>sn_locked\<close> tells which rows other transactions hold (SKIP LOCKED). The
  requests handed to the client are recorded in the state of the sender.
\<close>

section \<open>Data\<close>

datatype sender_error = KiwoomOrderSenderError string | ClientException

datatype client_outcome =
    Acknowledged string
  | OrderRejected "string option" "string option"
  | OutcomeUnknown
  | AdapterError
  | OtherException

record kiwoom_order_request =
  kr_symbol :: string
  kr_side :: string
  kr_quantity :: int
  kr_order_type :: string
  kr_limit_price :: "decimal option"
  kr_market :: string

record kiwoom_cancel_request =
  kc_original_order_id :: string
  kc_symbol :: string
  kc_quantity :: int
  kc_market :: string

record send_result =
  sr_order_id :: uuid
  sr_status :: order_status
  sr_broker_order_id :: "string option"
  sr_sent :: bool

record cancel_result =
  cr_order_id :: uuid
  cr_status :: order_status
  cr_requested_quantity :: int
  cr_sent :: bool

record send_call =
  sn_place :: "kiwoom_order_request \<Rightarrow> client_outcome"
  sn_cancel :: "kiwoom_cancel_request \<Rightarrow> client_outcome"
  sn_identity :: lease_identity
  sn_now :: instant
  sn_env :: "db \<Rightarrow> db"
  sn_finish_now :: instant
  sn_locked :: "uuid \<Rightarrow> bool"

record sender_state =
  sw_db :: db
  sw_placed :: "(uuid \<times> kiwoom_order_request) list"
  sw_cancelled :: "(uuid \<times> kiwoom_cancel_request) list"

section \<open>Events, transitions and the readiness check\<close>

definition sender_event :: "instant \<Rightarrow> trading_order \<Rightarrow> string \<Rightarrow> json \<Rightarrow> db \<Rightarrow> db" where
  "sender_event now od etype payload d =
     (let (i, d1) = uuid7_draw d; (k, d2) = uuid7_draw d1
      in d2\<lparr>order_events := order_events d2 @
            [\<lparr>oe_id = i, oe_order_id = o_id od, oe_event_type = etype, oe_source = ''KIWOOM'',
              oe_source_key = uuid_text k, oe_payload_hash = Sha256 payload, oe_payload_json = payload,
              oe_correlation_id = o_correlation_id od, oe_occurred_at = now\<rparr>]\<rparr>)"

definition sender_transition :: "trading_order \<Rightarrow> order_status \<Rightarrow> instant \<Rightarrow> db \<Rightarrow> db" where
  "sender_transition od s now d =
     sender_event now od ''STATUS_CHANGED'' (status_payload (o_status od) s) (order_upd (o_id od) (with_status s) d)"

definition require_worker_ready :: "lease_identity \<Rightarrow> instant \<Rightarrow> db \<Rightarrow> sender_error option" where
  "require_worker_ready i now d =
     (if \<not> lease_is_current d i now then Some (KiwoomOrderSenderError ''WORKER_LEASE_NOT_CURRENT'')
      else case (worker_state_get d kiwoom_account, gate_get d kiwoom_account) of
        (Some w, Some g) \<Rightarrow>
          if bw_state w = ''READY'' \<and> bw_fencing_token w = li_fencing_token i \<and> bw_websocket_connected w \<and>
             bw_subscriptions_ready w \<and> g_status g = GS_READY
          then None else Some (KiwoomOrderSenderError ''BROKER_NOT_READY'')
      | _ \<Rightarrow> Some (KiwoomOrderSenderError ''BROKER_NOT_READY''))"

definition mark_gate_reconciling :: "string \<Rightarrow> db \<Rightarrow> db" where
  "mark_gate_reconciling reason d = set_gate GS_RECONCILING (Some reason) d"

definition kiwoom_request :: "trading_order \<Rightarrow> sender_error + kiwoom_order_request" where
  "kiwoom_request od =
     (if o_account_alias od \<noteq> kiwoom_account \<or> o_environment od \<noteq> ''MOCK''
      then Inl (KiwoomOrderSenderError ''KIWOOM_MOCK_ORDER_REQUIRED'')
      else Inr \<lparr>kr_symbol = o_symbol od, kr_side = o_side od, kr_quantity = o_remaining_quantity od,
             kr_order_type = o_order_type od, kr_limit_price = o_limit_price od, kr_market = o_market od\<rparr>)"

section \<open>Sending\<close>

record send_finish =
  sf_status :: order_status
  sf_event_type :: string
  sf_broker_order_id :: "string option"
  sf_gate_reason :: "string option"
  sf_code :: "string option"
  sf_message :: "string option"

definition finish_payload :: "send_finish \<Rightarrow> json" where
  "finish_payload f =
     JObj ([(''broker_order_id_present'', JBool (sf_broker_order_id f \<noteq> None))] @
       (case sf_code f of None \<Rightarrow> [] | Some c \<Rightarrow> [(''broker_result_code'', JStr c)]) @
       (case sf_message f of None \<Rightarrow> [] | Some c \<Rightarrow> [(''broker_result_message'', JStr c)]) @
       [(''status'', JStr (order_status_text (sf_status f)))])"

definition finished_order :: "send_finish \<Rightarrow> instant \<Rightarrow> trading_order \<Rightarrow> trading_order" where
  "finished_order f now od =
     (let od1 = (case sf_broker_order_id f of None \<Rightarrow> od | Some b \<Rightarrow> od\<lparr>o_broker_order_id := Some b\<rparr>);
          od2 = with_status (sf_status f) od1
      in if sf_status f = OS_ACKNOWLEDGED \<and> o_unfilled_policy od = ''CANCEL''
         then od2\<lparr>o_next_action_at := Some (now + seconds (o_fill_timeout_seconds od))\<rparr> else od2)"

definition finish_send :: "send_call \<Rightarrow> uuid \<Rightarrow> send_finish \<Rightarrow> db \<Rightarrow> (sender_error + send_result) \<times> db" where
  "finish_send sn i f d =
     (if \<not> lease_is_current d (sn_identity sn) (sn_finish_now sn)
      then (Inl (KiwoomOrderSenderError ''WORKER_LEASE_LOST_AFTER_SEND''), d)
      else case order_get d i of
        None \<Rightarrow> (Inl (KiwoomOrderSenderError ''ORDER_STATE_CHANGED_AFTER_SEND''), d)
      | Some od \<Rightarrow>
          if o_status od \<noteq> OS_SUBMITTING
          then (Inl (KiwoomOrderSenderError ''ORDER_STATE_CHANGED_AFTER_SEND''), d)
          else
            (let od' = finished_order f (sn_now sn) od;
                 d1 = sender_event (sn_now sn) od ''STATUS_CHANGED'' (status_payload OS_SUBMITTING (sf_status f))
                        (order_upd i (finished_order f (sn_now sn)) d);
                 d2 = sender_event (sn_now sn) od (sf_event_type f) (finish_payload f) d1;
                 d3 = (case sf_gate_reason f of None \<Rightarrow> d2 | Some r \<Rightarrow> mark_gate_reconciling r d2)
             in (Inr \<lparr>sr_order_id = i, sr_status = o_status od', sr_broker_order_id = o_broker_order_id od',
                      sr_sent = True\<rparr>, d3)))"

definition send_finish_of :: "client_outcome \<Rightarrow> send_finish option" where
  "send_finish_of r =
     (case r of
        Acknowledged b \<Rightarrow> Some \<lparr>sf_status = OS_ACKNOWLEDGED, sf_event_type = ''ORDER_ACKNOWLEDGED'',
          sf_broker_order_id = Some b, sf_gate_reason = None, sf_code = None, sf_message = None\<rparr>
      | OrderRejected c m \<Rightarrow> Some \<lparr>sf_status = OS_REJECTED, sf_event_type = ''ORDER_REJECTED'',
          sf_broker_order_id = None, sf_gate_reason = None, sf_code = c, sf_message = m\<rparr>
      | OutcomeUnknown \<Rightarrow> Some \<lparr>sf_status = OS_UNKNOWN, sf_event_type = ''ORDER_OUTCOME_UNKNOWN'',
          sf_broker_order_id = None, sf_gate_reason = Some ''ORDER_OUTCOME_UNKNOWN'', sf_code = None, sf_message = None\<rparr>
      | AdapterError \<Rightarrow> Some \<lparr>sf_status = OS_REJECTED, sf_event_type = ''ORDER_VALIDATION_REJECTED'',
          sf_broker_order_id = None, sf_gate_reason = None, sf_code = None, sf_message = None\<rparr>
      | OtherException \<Rightarrow> None)"

definition submitting_db :: "trading_order \<Rightarrow> instant \<Rightarrow> db \<Rightarrow> db" where
  "submitting_db od now d =
     sender_transition (with_status OS_VALIDATING od) OS_SUBMITTING now (sender_transition od OS_VALIDATING now d)"

definition send_locked_order ::
  "send_call \<Rightarrow> trading_order \<Rightarrow> sender_state \<Rightarrow> (sender_error + send_result) \<times> sender_state" where
  "send_locked_order sn od w =
     (case require_worker_ready (sn_identity sn) (sn_now sn) (sw_db w) of
        Some e \<Rightarrow> (Inl e, w)
      | None \<Rightarrow>
          (case kiwoom_request od of
             Inl e \<Rightarrow> (Inl e, w)
           | Inr rq \<Rightarrow>
               (let d1 = sn_env sn (submitting_db od (sn_now sn) (sw_db w));
                    w1 = w\<lparr>sw_db := d1, sw_placed := sw_placed w @ [(o_id od, rq)]\<rparr>
                in case send_finish_of (sn_place sn rq) of
                     None \<Rightarrow> (Inl ClientException, w1)
                   | Some f \<Rightarrow>
                       (let (r, d2) = finish_send sn (o_id od) f d1 in (r, w1\<lparr>sw_db := d2\<rparr>)))))"

definition send_new_order_once ::
  "send_call \<Rightarrow> uuid \<Rightarrow> sender_state \<Rightarrow> (sender_error + send_result) \<times> sender_state" where
  "send_new_order_once sn i w =
     (case order_get (sw_db w) i of
        None \<Rightarrow> (Inl (KiwoomOrderSenderError ''ORDER_NOT_FOUND''), w)
      | Some od \<Rightarrow>
          if o_status od \<noteq> OS_CREATED
          then (Inr \<lparr>sr_order_id = o_id od, sr_status = o_status od, sr_broker_order_id = o_broker_order_id od,
                     sr_sent = False\<rparr>, w)
          else send_locked_order sn od w)"

text \<open>ORDER BY created_at, id LIMIT 1: the first row with the least key.\<close>

definition fifo_key :: "trading_order \<Rightarrow> instant \<times> uuid" where
  "fifo_key od = (o_created_at od, o_id od)"

definition created_orders :: "(uuid \<Rightarrow> bool) \<Rightarrow> db \<Rightarrow> trading_order list" where
  "created_orders locked d =
     filter (\<lambda>od. o_account_alias od = kiwoom_account \<and> o_environment od = ''MOCK'' \<and> o_status od = OS_CREATED \<and>
       \<not> locked (o_id od)) (orders d)"

definition next_created_order :: "(uuid \<Rightarrow> bool) \<Rightarrow> db \<Rightarrow> trading_order option" where
  "next_created_order locked d =
     (case created_orders locked d of [] \<Rightarrow> None | od # ods \<Rightarrow> Some (arg_min_list fifo_key (od # ods)))"

definition send_next_created_order ::
  "send_call \<Rightarrow> sender_state \<Rightarrow> (sender_error + send_result option) \<times> sender_state" where
  "send_next_created_order sn w =
     (case next_created_order (sn_locked sn) (sw_db w) of
        None \<Rightarrow> (Inr None, w)
      | Some od \<Rightarrow> (case send_locked_order sn od w of (r, w') \<Rightarrow> (map_sum id Some r, w')))"

section \<open>Cancelling expired entries\<close>

definition cancel_key :: "trading_order \<Rightarrow> instant \<times> instant \<times> uuid" where
  "cancel_key od = ((case o_next_action_at od of None \<Rightarrow> 0 | Some t \<Rightarrow> t), o_created_at od, o_id od)"

definition expired_buy :: "instant \<Rightarrow> trading_order \<Rightarrow> bool" where
  "expired_buy now od \<longleftrightarrow>
     o_account_alias od = kiwoom_account \<and> o_environment od = ''MOCK'' \<and> o_side od = ''BUY'' \<and>
     o_unfilled_policy od = ''CANCEL'' \<and> o_status od \<in> {OS_ACKNOWLEDGED, OS_OPEN, OS_PARTIALLY_FILLED} \<and>
     0 < o_remaining_quantity od \<and>
     (case o_next_action_at od of None \<Rightarrow> False | Some t \<Rightarrow> t \<le> now)"

definition next_expired_buy :: "(uuid \<Rightarrow> bool) \<Rightarrow> instant \<Rightarrow> db \<Rightarrow> trading_order option" where
  "next_expired_buy locked now d =
     (case filter (\<lambda>od. expired_buy now od \<and> \<not> locked (o_id od)) (orders d) of
        [] \<Rightarrow> None | od # ods \<Rightarrow> Some (arg_min_list cancel_key (od # ods)))"

record cancel_finish =
  cf_status :: order_status
  cf_event_type :: string
  cf_gate_reason :: "string option"
  cf_cancel_order_id :: "string option"
  cf_code :: "string option"
  cf_message :: "string option"

definition cancel_payload :: "int \<Rightarrow> cancel_finish \<Rightarrow> json" where
  "cancel_payload quantity f =
     JObj ((case cf_code f of None \<Rightarrow> [] | Some c \<Rightarrow> [(''broker_result_code'', JStr c)]) @
       (case cf_message f of None \<Rightarrow> [] | Some c \<Rightarrow> [(''broker_result_message'', JStr c)]) @
       [(''cancel_broker_order_id_present'', JBool (cf_cancel_order_id f \<noteq> None)),
        (''requested_quantity'', JInt quantity), (''status'', JStr (order_status_text (cf_status f)))])"

definition finish_cancel ::
  "send_call \<Rightarrow> uuid \<Rightarrow> int \<Rightarrow> cancel_finish \<Rightarrow> db \<Rightarrow> (sender_error + cancel_result) \<times> db" where
  "finish_cancel sn i quantity f d =
     (if \<not> lease_is_current d (sn_identity sn) (sn_finish_now sn)
      then (Inl (KiwoomOrderSenderError ''WORKER_LEASE_LOST_AFTER_CANCEL''), d)
      else case order_get d i of
        None \<Rightarrow> (Inl (KiwoomOrderSenderError ''ORDER_NOT_FOUND''), d)
      | Some od \<Rightarrow>
          if o_status od \<noteq> OS_CANCEL_PENDING
          then (Inr \<lparr>cr_order_id = i, cr_status = o_status od, cr_requested_quantity = quantity, cr_sent = True\<rparr>, d)
          else
            (let d1 = (if cf_status f = OS_CANCEL_PENDING then d else sender_transition od (cf_status f) (sn_now sn) d);
                 d2 = sender_event (sn_now sn) od (cf_event_type f) (cancel_payload quantity f) d1;
                 d3 = (case cf_gate_reason f of None \<Rightarrow> d2 | Some r \<Rightarrow> mark_gate_reconciling r d2)
             in (Inr \<lparr>cr_order_id = i, cr_status = cf_status f, cr_requested_quantity = quantity, cr_sent = True\<rparr>, d3)))"

definition cancel_finish_of :: "client_outcome \<Rightarrow> cancel_finish option" where
  "cancel_finish_of r =
     (case r of
        Acknowledged b \<Rightarrow> Some \<lparr>cf_status = OS_CANCEL_PENDING, cf_event_type = ''ORDER_CANCEL_ACKNOWLEDGED'',
          cf_gate_reason = None, cf_cancel_order_id = Some b, cf_code = None, cf_message = None\<rparr>
      | OrderRejected c m \<Rightarrow> Some \<lparr>cf_status = OS_RECONCILING, cf_event_type = ''ORDER_CANCEL_REJECTED'',
          cf_gate_reason = Some ''ORDER_CANCEL_REJECTED'', cf_cancel_order_id = None, cf_code = c, cf_message = m\<rparr>
      | OutcomeUnknown \<Rightarrow> Some \<lparr>cf_status = OS_UNKNOWN, cf_event_type = ''ORDER_CANCEL_OUTCOME_UNKNOWN'',
          cf_gate_reason = Some ''ORDER_CANCEL_OUTCOME_UNKNOWN'', cf_cancel_order_id = None, cf_code = None, cf_message = None\<rparr>
      | AdapterError \<Rightarrow> Some \<lparr>cf_status = OS_RECONCILING, cf_event_type = ''ORDER_CANCEL_REJECTED'',
          cf_gate_reason = Some ''ORDER_CANCEL_REJECTED'', cf_cancel_order_id = None, cf_code = None, cf_message = None\<rparr>
      | OtherException \<Rightarrow> None)"

definition clear_next_action :: "uuid \<Rightarrow> db \<Rightarrow> db" where
  "clear_next_action i d = order_upd i (\<lambda>od. od\<lparr>o_next_action_at := None\<rparr>) d"

definition cancel_pending_db :: "trading_order \<Rightarrow> instant \<Rightarrow> db \<Rightarrow> db" where
  "cancel_pending_db od now d =
     sender_event now od ''UNFILLED_CANCEL_REQUESTED''
       (JObj [(''policy'', JStr (o_unfilled_policy od)), (''remaining_quantity'', JInt (o_remaining_quantity od))])
       (clear_next_action (o_id od) (sender_transition od OS_CANCEL_PENDING now d))"

definition cancel_next_expired_buy_once ::
  "send_call \<Rightarrow> sender_state \<Rightarrow> (sender_error + cancel_result option) \<times> sender_state" where
  "cancel_next_expired_buy_once sn w =
     (case next_expired_buy (sn_locked sn) (sn_now sn) (sw_db w) of
        None \<Rightarrow> (Inr None, w)
      | Some od \<Rightarrow>
          (case require_worker_ready (sn_identity sn) (sn_now sn) (sw_db w) of
             Some e \<Rightarrow> (Inl e, w)
           | None \<Rightarrow>
               (case o_broker_order_id od of
                  Some (c # cs) \<Rightarrow>
                    (let quantity = o_remaining_quantity od;
                         rq = \<lparr>kc_original_order_id = c # cs, kc_symbol = o_symbol od, kc_quantity = quantity,
                               kc_market = o_market od\<rparr>;
                         d1 = sn_env sn (cancel_pending_db od (sn_now sn) (sw_db w));
                         w1 = w\<lparr>sw_db := d1, sw_cancelled := sw_cancelled w @ [(o_id od, rq)]\<rparr>
                     in case cancel_finish_of (sn_cancel sn rq) of
                          None \<Rightarrow> (Inl ClientException, w1)
                        | Some f \<Rightarrow>
                            (let (r, d2) = finish_cancel sn (o_id od) quantity f d1
                             in (map_sum id Some r, w1\<lparr>sw_db := d2\<rparr>)))
                | _ \<Rightarrow>
                    (let d1 = mark_gate_reconciling ''UNFILLED_ORDER_BROKER_ID_MISSING''
                           (sender_transition od OS_RECONCILING (sn_now sn) (clear_next_action (o_id od) (sw_db w)))
                     in (Inr (Some \<lparr>cr_order_id = o_id od, cr_status = OS_RECONCILING, cr_requested_quantity = 0,
                                    cr_sent = False\<rparr>), w\<lparr>sw_db := d1\<rparr>)))))"

end
