(* ===== verification/Sender_Properties.thy ===== *)
theory Sender_Properties
  imports Order_Sender
begin

text \<open>
  The order sender transmits each order at most once, whatever fails and whichever worker runs it;
  a worker whose lease was taken over transmits nothing; and a ready worker with a broker that
  answers empties the queue in first-in-first-out order.
\<close>

section \<open>Frames\<close>

lemma sender_event_tables [simp]:
  "orders (sender_event now od t p d) = orders d"
  "broker_leases (sender_event now od t p d) = broker_leases d"
  "broker_worker_states (sender_event now od t p d) = broker_worker_states d"
  "trading_gates (sender_event now od t p d) = trading_gates d"
  by (simp_all add: sender_event_def uuid7_draw_def Let_def)

lemma set_gate_tables [simp]:
  "orders (set_gate s r d) = orders d" "broker_leases (set_gate s r d) = broker_leases d"
  "broker_worker_states (set_gate s r d) = broker_worker_states d"
  by (simp_all add: set_gate_def split: option.split)

lemma order_upd_tables [simp]:
  "orders (order_upd i f d) = row_upd o_id i f (orders d)" "broker_leases (order_upd i f d) = broker_leases d"
  "broker_worker_states (order_upd i f d) = broker_worker_states d" "trading_gates (order_upd i f d) = trading_gates d"
  by (simp_all add: order_upd_def)

lemma sender_transition_tables [simp]:
  "orders (sender_transition od s now d) = row_upd o_id (o_id od) (with_status s) (orders d)"
  "broker_leases (sender_transition od s now d) = broker_leases d"
  "broker_worker_states (sender_transition od s now d) = broker_worker_states d"
  "trading_gates (sender_transition od s now d) = trading_gates d"
  by (simp_all add: sender_transition_def)

lemma with_status_sel [simp]:
  "o_id (with_status s od) = o_id od" "o_status (with_status s od) = s"
  "o_account_alias (with_status s od) = o_account_alias od" "o_environment (with_status s od) = o_environment od"
  "o_created_at (with_status s od) = o_created_at od"
  by (simp_all add: with_status_def)

lemma finished_order_sel [simp]:
  "o_id (finished_order f now od) = o_id od" "o_status (finished_order f now od) = sf_status f"
  "o_account_alias (finished_order f now od) = o_account_alias od"
  "o_environment (finished_order f now od) = o_environment od"
  "o_created_at (finished_order f now od) = o_created_at od"
  by (simp_all add: finished_order_def with_status_def Let_def split: option.split)

lemma row_upd_twice:
  "(\<And>r. key (f r) = key r) \<Longrightarrow> row_upd key i g (row_upd key i f rs) = row_upd key i (\<lambda>r. g (f r)) rs"
  by (induction rs) (simp_all add: row_upd_def)

lemma submitting_orders:
  "orders (submitting_db od now d) =
   row_upd o_id (o_id od) (\<lambda>r. with_status OS_SUBMITTING (with_status OS_VALIDATING r)) (orders d)"
  by (simp add: submitting_db_def row_upd_twice)

lemma finish_send_orders:
  "orders (snd (finish_send sn i f d)) = orders d \<or>
   orders (snd (finish_send sn i f d)) = row_upd o_id i (finished_order f (sn_now sn)) (orders d)"
  by (auto simp: finish_send_def mark_gate_reconciling_def Let_def split: option.split)

lemma finish_cancel_orders:
  "orders (snd (finish_cancel sn i q f d)) = orders d \<or>
   orders (snd (finish_cancel sn i q f d)) = row_upd o_id i (with_status (cf_status f)) (orders d)"
  by (auto simp: finish_cancel_def mark_gate_reconciling_def Let_def dest: order_get_mem split: option.split)

section \<open>No order is taken back to CREATED\<close>

text \<open>What the rest of the program does to orders that were once sent: it neither deletes them nor
  resets them to CREATED, and it never adds a row under their id.\<close>

definition was_sent :: "trading_order list \<Rightarrow> uuid \<Rightarrow> bool" where
  "was_sent os i \<longleftrightarrow> i \<in> o_id ` set os \<and> (\<forall>r \<in> set os. o_id r = i \<longrightarrow> o_status r \<noteq> OS_CREATED)"

definition keeps_sent :: "trading_order list \<Rightarrow> trading_order list \<Rightarrow> bool" where
  "keeps_sent os os' \<longleftrightarrow> (\<forall>i. was_sent os i \<longrightarrow> was_sent os' i)"

lemma keeps_sent_refl [simp]: "keeps_sent os os"
  by (simp add: keeps_sent_def)

lemma keeps_sent_trans: "keeps_sent os os' \<Longrightarrow> keeps_sent os' os'' \<Longrightarrow> keeps_sent os os''"
  by (simp add: keeps_sent_def)

lemma row_upd_ids:
  assumes "\<And>r. o_id (f r) = o_id r"
  shows "o_id ` set (row_upd o_id i f os) = o_id ` set os"
proof -
  have "map o_id (row_upd o_id i f os) = map o_id os" using assms by (simp add: row_upd_def)
  from arg_cong [OF this, of set] show ?thesis by simp
qed

lemma keeps_sent_upd:
  assumes "\<And>r. o_id (f r) = o_id r" "\<And>r. o_status r \<noteq> OS_CREATED \<Longrightarrow> o_status (f r) \<noteq> OS_CREATED"
  shows "keeps_sent os (row_upd o_id i f os)"
  unfolding keeps_sent_def was_sent_def row_upd_ids [of f, OF assms(1)] using assms by (auto simp: row_upd_def)

lemma was_sent_now:
  assumes "\<And>r. o_id (f r) = o_id r" "\<And>r. o_status (f r) \<noteq> OS_CREATED" "i \<in> o_id ` set os"
  shows "was_sent (row_upd o_id i f os) i"
  unfolding was_sent_def row_upd_ids [of f, OF assms(1)] using assms by (auto simp: row_upd_def)

lemma keeps_sent_status: "s \<noteq> OS_CREATED \<Longrightarrow> keeps_sent os (row_upd o_id i (with_status s) os)"
  by (rule keeps_sent_upd) simp_all

text \<open>Order creation is such a step.\<close>

lemma create_order_keeps_sent:
  assumes "orders_inv d" "cc_env cc = (\<lambda>d. d)"
  shows "keeps_sent (orders d) (orders (snd (create_order cc rq d)))"
proof -
  have fresh: "\<forall>r \<in> set (orders d). o_id r < uuid_seed d" using assms(1) by (auto simp: orders_inv_def orders_wf_def)
  show ?thesis
  proof (cases rule: create_order_cases [of rq cc d])
    case created
    then show ?thesis
      using fresh assms(2) by (auto simp: keeps_sent_def was_sent_def insert_created_order_tables)
  qed (use assms(2) in simp_all)
qed

section \<open>At most once\<close>

definition sent_inv :: "sender_state \<Rightarrow> bool" where
  "sent_inv w \<longleftrightarrow> distinct (map fst (sw_placed w)) \<and> (\<forall>i \<in> fst ` set (sw_placed w). was_sent (orders (sw_db w)) i)"

lemma sent_inv_keeps:
  assumes "sent_inv w" "sw_placed w' = sw_placed w" "keeps_sent (orders (sw_db w)) (orders (sw_db w'))"
  shows "sent_inv w'"
  using assms by (simp add: sent_inv_def keeps_sent_def)

lemma send_finish_of_status: "send_finish_of r = Some f \<Longrightarrow> sf_status f \<noteq> OS_CREATED"
  by (cases r) (auto simp: send_finish_of_def)

lemma cancel_finish_of_status: "cancel_finish_of r = Some f \<Longrightarrow> cf_status f \<noteq> OS_CREATED"
  by (cases r) (auto simp: cancel_finish_of_def)

lemma finish_send_keeps:
  assumes "sf_status f \<noteq> OS_CREATED"
  shows "keeps_sent (orders d) (orders (snd (finish_send sn i f d)))"
  using finish_send_orders [of sn i f d] keeps_sent_upd [of "finished_order f (sn_now sn)" "orders d" i] assms
  by auto

lemma finish_cancel_keeps:
  assumes "cf_status f \<noteq> OS_CREATED"
  shows "keeps_sent (orders d) (orders (snd (finish_cancel sn i q f d)))"
  using finish_cancel_orders [of sn i q f d] keeps_sent_status [OF assms, of "orders d" i] by auto

lemma send_locked_sent_inv:
  assumes inv: "sent_inv w" and od: "od \<in> set (orders (sw_db w))" "o_status od = OS_CREATED"
    and env: "\<And>d. keeps_sent (orders d) (orders (sn_env sn d))"
  shows "sent_inv (snd (send_locked_order sn od w))"
proof (cases "require_worker_ready (sn_identity sn) (sn_now sn) (sw_db w)")
  case None
  show ?thesis
  proof (cases "kiwoom_request od")
    case (Inr rq)
    let ?d0 = "submitting_db od (sn_now sn) (sw_db w)"
    let ?d1 = "sn_env sn ?d0"
    let ?w1 = "w\<lparr>sw_db := ?d1, sw_placed := sw_placed w @ [(o_id od, rq)]\<rparr>"
    have new: "o_id od \<notin> fst ` set (sw_placed w)" using inv od by (auto simp: sent_inv_def was_sent_def)
    have k0: "keeps_sent (orders (sw_db w)) (orders ?d0)"
      unfolding submitting_orders by (rule keeps_sent_upd) simp_all
    have "was_sent (orders ?d0) (o_id od)"
      unfolding submitting_orders by (rule was_sent_now) (simp_all add: od(1))
    then have sent: "was_sent (orders ?d1) (o_id od)" using env [of ?d0] by (simp add: keeps_sent_def)
    have "keeps_sent (orders (sw_db w)) (orders ?d1)" by (rule keeps_sent_trans [OF k0 env])
    then have inv1: "sent_inv ?w1" using inv new sent by (auto simp: sent_inv_def keeps_sent_def)
    show ?thesis
    proof (cases "send_finish_of (sn_place sn rq)")
      case None': None
      then show ?thesis using None Inr inv1 by (simp add: send_locked_order_def Let_def)
    next
      case (Some f)
      have "sent_inv (?w1\<lparr>sw_db := snd (finish_send sn (o_id od) f ?d1)\<rparr>)"
        by (rule sent_inv_keeps [OF inv1]) (simp_all add: finish_send_keeps [OF send_finish_of_status [OF Some]])
      then show ?thesis using None Inr Some by (simp add: send_locked_order_def Let_def case_prod_beta)
    qed
  qed (use None inv in \<open>simp add: send_locked_order_def\<close>)
qed (use inv in \<open>simp add: send_locked_order_def\<close>)

lemma next_created_mem: "next_created_order locked d = Some od \<Longrightarrow> od \<in> set (created_orders locked d)"
  using arg_min_list_in [of "created_orders locked d" fifo_key]
  by (auto simp: next_created_order_def split: list.splits simp del: arg_min_list.simps)

lemma created_orders_mem:
  "od \<in> set (created_orders locked d) \<Longrightarrow> od \<in> set (orders d) \<and> o_status od = OS_CREATED \<and>
   o_account_alias od = kiwoom_account \<and> o_environment od = ''MOCK'' \<and> \<not> locked (o_id od)"
  by (simp add: created_orders_def)

lemma cancel_sent_inv:
  assumes inv: "sent_inv w" and env: "\<And>d. keeps_sent (orders d) (orders (sn_env sn d))"
  shows "sent_inv (snd (cancel_next_expired_buy_once sn w))"
proof -
  have c0: "keeps_sent (orders d) (orders (clear_next_action i d))" for i d
    unfolding clear_next_action_def by (simp add: keeps_sent_upd)
  have c1: "keeps_sent (orders d) (orders (cancel_pending_db od now d))" for od now d
    unfolding cancel_pending_db_def
    by (simp add: clear_next_action_def) (rule keeps_sent_trans [OF keeps_sent_status keeps_sent_upd]; simp)
  have c2: "keeps_sent (orders d) (row_upd o_id i (with_status OS_RECONCILING) (orders (clear_next_action j d)))" for i j d
    by (rule keeps_sent_trans [OF c0 keeps_sent_status]) simp
  note k = keeps_sent_trans [OF c1 env] keeps_sent_trans [OF keeps_sent_trans [OF c1 env] finish_cancel_keeps]
  show ?thesis
    by (auto simp: cancel_next_expired_buy_once_def mark_gate_reconciling_def Let_def case_prod_beta inv
        intro!: sent_inv_keeps [OF inv] k c2 dest: cancel_finish_of_status split: option.split list.split)
qed

text \<open>Any number of workers, order creation and the rest of the program, interleaved in any order.\<close>

inductive sender_step :: "sender_state \<Rightarrow> sender_state \<Rightarrow> bool" where
  send_once: "(\<And>d. keeps_sent (orders d) (orders (sn_env sn d))) \<Longrightarrow> sender_step w (snd (send_new_order_once sn i w))"
| send_next: "(\<And>d. keeps_sent (orders d) (orders (sn_env sn d))) \<Longrightarrow> sender_step w (snd (send_next_created_order sn w))"
| cancel: "(\<And>d. keeps_sent (orders d) (orders (sn_env sn d))) \<Longrightarrow> sender_step w (snd (cancel_next_expired_buy_once sn w))"
| create: "orders_inv (sw_db w) \<Longrightarrow> cc_env cc = (\<lambda>d. d) \<Longrightarrow>
    sender_step w (w\<lparr>sw_db := snd (create_order cc rq (sw_db w))\<rparr>)"
| other: "keeps_sent (orders (sw_db w)) (orders d) \<Longrightarrow> sender_step w (w\<lparr>sw_db := d\<rparr>)"

lemma sender_step_inv: "sender_step w w' \<Longrightarrow> sent_inv w \<Longrightarrow> sent_inv w'"
proof (induction rule: sender_step.induct)
  case (send_once sn w i)
  then show ?case
    using send_locked_sent_inv [OF _ _ _ send_once(1)] order_get_mem
    by (fastforce simp: send_new_order_once_def split: option.split)
next
  case (send_next sn w)
  show ?case
  proof (cases "next_created_order (sn_locked sn) (sw_db w)")
    case (Some od)
    then have "od \<in> set (orders (sw_db w))" "o_status od = OS_CREATED"
      using created_orders_mem [OF next_created_mem] by blast+
    from send_locked_sent_inv [OF send_next(2) this send_next(1)] Some show ?thesis
      by (simp add: send_next_created_order_def case_prod_beta)
  qed (use send_next in \<open>simp add: send_next_created_order_def\<close>)
next
  case (cancel sn w)
  then show ?case using cancel_sent_inv by blast
next
  case (create w cc rq)
  then show ?case using sent_inv_keeps [OF create(3)] create_order_keeps_sent by simp
next
  case (other w d)
  then show ?case using sent_inv_keeps by simp
qed

lemma sender_steps_inv: "sender_step\<^sup>*\<^sup>* w w' \<Longrightarrow> sent_inv w \<Longrightarrow> sent_inv w'"
  by (induction rule: rtranclp_induct) (auto intro: sender_step_inv)

section \<open>A fenced worker is silent\<close>

lemma not_current_silent:
  assumes "\<not> lease_is_current (sw_db w) (sn_identity sn) (sn_now sn)"
  shows "snd (send_new_order_once sn i w) = w" "snd (send_next_created_order sn w) = w"
    "snd (cancel_next_expired_buy_once sn w) = w"
proof -
  have nr: "require_worker_ready (sn_identity sn) (sn_now sn) (sw_db w) = Some (KiwoomOrderSenderError ''WORKER_LEASE_NOT_CURRENT'')"
    using assms by (simp add: require_worker_ready_def)
  then have l: "snd (send_locked_order sn od w) = w" for od by (simp add: send_locked_order_def)
  show "snd (send_new_order_once sn i w) = w" "snd (send_next_created_order sn w) = w"
    "snd (cancel_next_expired_buy_once sn w) = w"
    using l by (simp_all add: send_new_order_once_def send_next_created_order_def cancel_next_expired_buy_once_def
        nr case_prod_beta split: option.split)
qed

section \<open>The queue empties in order\<close>

lemma fifo_key_inj: "distinct (map o_id os) \<Longrightarrow> inj_on fifo_key (set os)"
  by (auto simp: fifo_key_def inj_on_def distinct_map)

lemma sort_key_arg_min:
  assumes "os \<noteq> []" "distinct (map o_id os)"
  shows "sort_key fifo_key os =
    arg_min_list fifo_key os # sort_key fifo_key (filter (\<lambda>r. o_id r \<noteq> o_id (arg_min_list fifo_key os)) os)"
proof -
  let ?m = "arg_min_list fifo_key os"
  have m: "?m \<in> set os" "\<And>r. r \<in> set os \<Longrightarrow> fifo_key ?m \<le> fifo_key r"
    using arg_min_list_in [OF assms(1), of fifo_key] f_arg_min_list_f [OF assms(1), of fifo_key] by simp_all
  obtain x xs where srt: "sort_key fifo_key os = x # xs"
    using assms(1) by (metis neq_Nil_conv set_empty set_sort)
  have x: "x \<in> set os" "\<And>r. r \<in> set os \<Longrightarrow> fifo_key x \<le> fifo_key r"
    using srt sorted_sort_key [of fifo_key os] set_sort [of fifo_key os] by auto
  have "x = ?m" using fifo_key_inj [OF assms(2)] m x by (meson antisym inj_onD)
  moreover have "filter (\<lambda>r. o_id r \<noteq> o_id x) (x # xs) = xs"
    using srt assms(2) distinct_sort [of fifo_key os] set_sort [of fifo_key os]
    by (auto simp: filter_id_conv distinct_map inj_on_def)
  ultimately show ?thesis using srt filter_sort [of "\<lambda>r. o_id r \<noteq> o_id ?m" fifo_key os] by simp
qed

lemma ready_cong:
  assumes "broker_leases d' = broker_leases d" "broker_worker_states d' = broker_worker_states d"
    "trading_gates d' = trading_gates d"
  shows "require_worker_ready i now d' = require_worker_ready i now d" "lease_is_current d' i t = lease_is_current d i t"
  using assms
  by (simp_all add: require_worker_ready_def lease_is_current_def broker_lease_get_def worker_state_get_def gate_get_def)

text \<open>A worker that stays ready, alone, with a broker that acknowledges every order.\<close>

definition answering :: "send_call \<Rightarrow> db \<Rightarrow> bool" where
  "answering sn d \<longleftrightarrow>
     require_worker_ready (sn_identity sn) (sn_now sn) d = None \<and>
     lease_is_current d (sn_identity sn) (sn_finish_now sn) \<and> sn_env sn = (\<lambda>d. d) \<and> sn_locked sn = (\<lambda>_. False) \<and>
     (\<forall>rq. \<exists>b. sn_place sn rq = Acknowledged b)"

lemma send_one:
  assumes ok: "answering sn (sw_db w)" and ids: "distinct (map o_id (orders (sw_db w)))"
    and od: "next_created_order (\<lambda>_. False) (sw_db w) = Some od"
  shows "answering sn (sw_db (snd (send_next_created_order sn w)))"
    "map o_id (orders (sw_db (snd (send_next_created_order sn w)))) = map o_id (orders (sw_db w))"
    "created_orders (\<lambda>_. False) (sw_db (snd (send_next_created_order sn w))) =
       filter (\<lambda>r. o_id r \<noteq> o_id od) (created_orders (\<lambda>_. False) (sw_db w))"
    "map fst (sw_placed (snd (send_next_created_order sn w))) = map fst (sw_placed w) @ [o_id od]"
proof -
  let ?d0 = "submitting_db od (sn_now sn) (sw_db w)"
  note mem = created_orders_mem [OF next_created_mem [OF od]]
  obtain rq where rq: "kiwoom_request od = Inr rq" using mem by (simp add: kiwoom_request_def)
  obtain b where b: "sn_place sn rq = Acknowledged b" using ok by (auto simp: answering_def)
  obtain f where f: "send_finish_of (sn_place sn rq) = Some f" "sf_status f = OS_ACKNOWLEDGED" "sf_gate_reason f = None"
    by (simp add: send_finish_of_def b)
  define w' where "w' = snd (send_next_created_order sn w)"
  have r0: "broker_leases ?d0 = broker_leases (sw_db w)" "broker_worker_states ?d0 = broker_worker_states (sw_db w)"
    "trading_gates ?d0 = trading_gates (sw_db w)" by (simp_all add: submitting_db_def)
  have cur: "lease_is_current ?d0 (sn_identity sn) (sn_finish_now sn)"
    using ok ready_cong(2) [OF r0] by (simp add: answering_def)
  have get: "order_get ?d0 (o_id od) = Some (with_status OS_SUBMITTING (with_status OS_VALIDATING od))"
    using mem row_find_distinct [OF ids, of od] by (simp add: order_get_def submitting_orders row_find_row_upd)
  have w': "sw_placed w' = sw_placed w @ [(o_id od, rq)]" "sw_db w' = snd (finish_send sn (o_id od) f ?d0)"
    using ok od rq f(1)
    by (simp_all add: w'_def send_next_created_order_def send_locked_order_def answering_def case_prod_beta Let_def)
  have tabs: "orders (sw_db w') = row_upd o_id (o_id od) (finished_order f (sn_now sn)) (orders ?d0)"
    "broker_leases (sw_db w') = broker_leases (sw_db w)" "broker_worker_states (sw_db w') = broker_worker_states (sw_db w)"
    "trading_gates (sw_db w') = trading_gates (sw_db w)"
    using cur get f(3) r0 by (simp_all add: w'(2) finish_send_def Let_def)
  have ord: "orders (sw_db w') = row_upd o_id (o_id od)
      (\<lambda>r. finished_order f (sn_now sn) (with_status OS_SUBMITTING (with_status OS_VALIDATING r))) (orders (sw_db w))"
    unfolding tabs(1) submitting_orders by (rule row_upd_twice) simp
  show "answering sn (sw_db w')" using ok ready_cong [OF tabs(2-4)] by (simp add: answering_def)
  show "map o_id (orders (sw_db w')) = map o_id (orders (sw_db w))" unfolding ord by (simp add: row_upd_def)
  show "map fst (sw_placed w') = map fst (sw_placed w) @ [o_id od]" by (simp add: w'(1))
  have "filter P (row_upd o_id k g os) = filter (\<lambda>r. o_id r \<noteq> k) (filter P os)"
    if "\<And>r. \<not> P (g r)" for P g k and os :: "trading_order list"
    using that by (induction os) (auto simp: row_upd_def)
  then show "created_orders (\<lambda>_. False) (sw_db w') = filter (\<lambda>r. o_id r \<noteq> o_id od) (created_orders (\<lambda>_. False) (sw_db w))"
    unfolding created_orders_def ord by (simp add: f(2))
qed

lemma next_created_arg_min:
  "created_orders locked d \<noteq> [] \<Longrightarrow> next_created_order locked d = Some (arg_min_list fifo_key (created_orders locked d))"
  by (cases "created_orders locked d") (simp_all add: next_created_order_def)

lemma created_distinct: "distinct (map o_id (orders d)) \<Longrightarrow> distinct (map o_id (created_orders locked d))"
  by (simp add: created_orders_def distinct_map_filter)

lemma send_many:
  assumes "answering sn (sw_db w)" "distinct (map o_id (orders (sw_db w)))"
    "length (created_orders (\<lambda>_. False) (sw_db w)) = n"
  shows "created_orders (\<lambda>_. False) (sw_db (((\<lambda>x. snd (send_next_created_order sn x)) ^^ n) w)) = [] \<and>
    map fst (sw_placed (((\<lambda>x. snd (send_next_created_order sn x)) ^^ n) w)) =
      map fst (sw_placed w) @ map o_id (sort_key fifo_key (created_orders (\<lambda>_. False) (sw_db w)))"
  using assms
proof (induction n arbitrary: w)
  case (Suc n)
  let ?c = "created_orders (\<lambda>_. False) (sw_db w)" and ?w = "snd (send_next_created_order sn w)"
  let ?m = "arg_min_list fifo_key ?c"
  have ne: "?c \<noteq> []" using Suc.prems(3) by auto
  note st = send_one [OF Suc.prems(1,2) next_created_arg_min [OF ne]]
  note dist = created_distinct [OF Suc.prems(2), of "\<lambda>_. False"]
  note srt = sort_key_arg_min [OF ne dist]
  have "length (filter (\<lambda>r. o_id r \<noteq> o_id ?m) ?c) = n"
    using Suc.prems(3) arg_cong [OF srt, of length] by simp
  then have "length (created_orders (\<lambda>_. False) (sw_db ?w)) = n" using st(3) by simp
  moreover have "distinct (map o_id (orders (sw_db ?w)))" using st(2) Suc.prems(2) by simp
  ultimately show ?case
    using Suc.IH [of ?w] st srt by (simp add: funpow_Suc_right del: funpow.simps)
qed simp

text \<open>A ready worker with two created orders, the younger one inserted first.\<close>

definition demo_sender :: sender_state where
  "demo_sender =
     \<lparr>sw_db = empty_db\<lparr>uuid_seed := 30,
        orders := [created_order 5 (sample_request ''a'') 10 11 12 13, created_order 3 (sample_request ''b'') 14 15 16 17],
        broker_leases := [\<lparr>bl_account_alias = kiwoom_account, bl_owner_id = ''w'', bl_fencing_token = 1,
          bl_expires_at = 100, bl_version = 1\<rparr>],
        trading_gates := [\<lparr>g_account_alias = kiwoom_account, g_environment = ''MOCK'', g_status = GS_READY,
          g_reason = None, g_version = 1\<rparr>],
        broker_worker_states := [\<lparr>bw_account_alias = kiwoom_account, bw_environment = ''MOCK'', bw_fencing_token = 1,
          bw_state = ''READY'', bw_websocket_connected = True, bw_subscriptions_ready = True,
          bw_last_heartbeat_at = 0, bw_last_reconciliation_at = None, bw_last_reconciliation_run_id = None,
          bw_last_error_code = None, bw_started_at = 0\<rparr>]\<rparr>,
      sw_placed = [], sw_cancelled = []\<rparr>"

definition demo_send :: send_call where
  "demo_send = \<lparr>sn_place = \<lambda>rq. Acknowledged ''broker-1'', sn_cancel = \<lambda>rq. OutcomeUnknown,
     sn_identity = \<lparr>li_owner_id = ''w'', li_fencing_token = 1\<rparr>, sn_now = 10, sn_env = \<lambda>d. d,
     sn_finish_now = 20, sn_locked = \<lambda>_. False\<rparr>"

lemma demo_answering: "answering demo_send (sw_db demo_sender)"
  by (simp add: answering_def demo_send_def demo_sender_def require_worker_ready_def lease_is_current_def
      broker_lease_get_def lease_row_held_def worker_state_get_def gate_get_def)

lemma created_order_at [simp]: "o_created_at (created_order now rq i c it g) = now"
  by (simp add: created_order_def split: prod.split)

lemma demo_created:
  "created_orders (\<lambda>_. False) (sw_db demo_sender) =
     [created_order 5 (sample_request ''a'') 10 11 12 13, created_order 3 (sample_request ''b'') 14 15 16 17]"
  "distinct (map o_id (orders (sw_db demo_sender)))"
  by (simp_all add: created_orders_def demo_sender_def)

section \<open>Properties\<close>



text \<open>A worker that lost the broker lease is silent: after another process acquired it, sending by
  id, sending the next order and cancelling an expired entry all leave the database and the transmitted
  requests as they are.\<close>
theorem superseded_worker_sends_nothing:
  assumes pos: "\<forall>l \<in> set (broker_leases d0). 0 < bl_fencing_token l"
    and first: "acquire_lease env owner secs t0 d0 = (Some i, d)" "worker_step\<^sup>*\<^sup>* d d1"
    and second: "acquire_lease (\<lambda>d. d) owner' secs' t1 d1 = (Some j, d2)" "worker_step\<^sup>*\<^sup>* d2 (sw_db w)"
    and id: "sn_identity sn = i"
  shows "snd (send_new_order_once sn k w) = w \<and> snd (send_next_created_order sn w) = w \<and>
    snd (cancel_next_expired_buy_once sn w) = w"
proof -
  note h = acquired_held [OF first(1) pos]
  note f = broker.fenced [OF h(2,1) worker_steps_client [OF first(2)] second(1) worker_steps_client [OF second(2)]]
  show ?thesis using not_current_silent not_held_powerless(1) [OF f(3)] id by simp
qed

theorem superseded_worker_sends_nothing_witness:
  "\<exists>j e. acquire_lease (\<lambda>d. d) ''worker-b'' 30 (seconds 31) two_workers_db = (Some j, e) \<and>
     snd (send_next_created_order (demo_send\<lparr>sn_identity := \<lparr>li_owner_id = ''worker-a'', li_fencing_token = 1\<rparr>\<rparr>)
       \<lparr>sw_db = e, sw_placed = [], sw_cancelled = []\<rparr>) = \<lparr>sw_db = e, sw_placed = [], sw_cancelled = []\<rparr>"
proof -
  let ?i = "\<lparr>li_owner_id = ''worker-a'', li_fencing_token = 1\<rparr>"
  have a: "acquire_lease (\<lambda>d. d) ''worker-a'' 30 0 empty_db = (Some ?i, two_workers_db)"
    by (simp add: two_workers_db_def acquire_lease_def broker_lease_get_def empty_db_def)
  obtain j e where b: "acquire_lease (\<lambda>d. d) ''worker-b'' 30 (seconds 31) two_workers_db = (Some j, e)"
    by (simp add: two_workers_db_def acquire_lease_def broker_lease_get_def empty_db_def seconds_def)
  have pos: "\<forall>l \<in> set (broker_leases empty_db). 0 < bl_fencing_token l" by (simp add: empty_db_def)
  let ?w = "\<lparr>sw_db = e, sw_placed = [], sw_cancelled = []\<rparr>"
  have e: "worker_step\<^sup>*\<^sup>* e (sw_db ?w)" by simp
  show ?thesis
    using superseded_worker_sends_nothing [OF pos a rtranclp.rtrancl_refl b e, of "demo_send\<lparr>sn_identity := ?i\<rparr>"] b
    by auto
qed

text \<open>C16. Every created order is sent, in order. A ready worker whose lease stays current, facing a
  broker that acknowledges, empties the queue in as many calls as there are CREATED orders, and
  transmits them by creation time and id.\<close>
theorem created_orders_all_sent_in_order:
  assumes "answering sn (sw_db w)" "distinct (map o_id (orders (sw_db w)))"
    "length (created_orders (\<lambda>_. False) (sw_db w)) = n"
  shows "created_orders (\<lambda>_. False) (sw_db (((\<lambda>x. snd (send_next_created_order sn x)) ^^ n) w)) = [] \<and>
    map fst (sw_placed (((\<lambda>x. snd (send_next_created_order sn x)) ^^ n) w)) =
      map fst (sw_placed w) @ map o_id (sort_key fifo_key (created_orders (\<lambda>_. False) (sw_db w)))"
  by (rule send_many [OF assms])

theorem created_orders_all_sent_in_order_witness:
  "map fst (sw_placed (((\<lambda>x. snd (send_next_created_order demo_send x)) ^^ 2) demo_sender)) = [14, 10]"
proof -
  have "length (created_orders (\<lambda>_. False) (sw_db demo_sender)) = 2" by (simp add: demo_created)
  from created_orders_all_sent_in_order [OF demo_answering demo_created(2) this] show ?thesis
    by (simp add: demo_created fifo_key_def) (simp add: demo_sender_def)
qed

end
