(* ===== verification/Stop_Trigger.thy ===== *)
theory Stop_Trigger
  imports Approvals
begin

text \<open>
  The fixed stop-loss of \<open>app/stop_trigger.py\<close>: the stop price, the sell guard of a firing trigger,
  the trigger state machine and its SELL order, the periodic run over all open positions and the recovery of
  pending exits. \<open>fk\<close> says whether the database enforces foreign keys (PostgreSQL does, SQLite
  without the pragma does not): a guard evaluation row refers to \<open>decision_executions\<close>. An
  exception leaves the whole run, which is one transaction, without effect. \<open>sk_wall\<close> is the wall
  clock the module reads when it supersedes stale triggers.
\<close>

section \<open>Prices and quantities\<close>

datatype stop_error = StopIntegrityError | StopPolicyInvalid

record stop_tick =
  sk_now :: instant
  sk_wall :: instant
  sk_correlation_id :: string

definition fixed_stop_auto_sell_stages :: "string list" where
  "fixed_stop_auto_sell_stages = [''APPROVAL_ONLY'', ''MOCK_AUTOMATIC'']"

definition stop_tradable_sessions :: "string list" where
  "stop_tradable_sessions = [''KRX_ONLY'', ''DUAL_CONTINUOUS'']"

definition blocking_order_states :: "order_status list" where
  "blocking_order_states =
     [OS_CREATED, OS_VALIDATING, OS_SUBMITTING, OS_ACKNOWLEDGED, OS_OPEN, OS_PARTIALLY_FILLED, OS_CANCEL_PENDING,
      OS_REPLACE_PENDING, OS_UNKNOWN, OS_RECONCILING]"

definition compute_stop_price :: "decimal \<Rightarrow> decimal \<Rightarrow> decimal" where
  "compute_stop_price average_price stop_loss_pct = quantize4_half_up (average_price * (1 + stop_loss_pct / 100))"

definition should_trigger :: "decimal option \<Rightarrow> decimal \<Rightarrow> bool" where
  "should_trigger bid_price stop_price =
     (case bid_price of None \<Rightarrow> False | Some b \<Rightarrow> 0 < b \<and> b \<le> stop_price)"

definition latest_krx_snapshot :: "db \<Rightarrow> string \<Rightarrow> market_snapshot option" where
  "latest_krx_snapshot d sb =
     (case stream_get d ''KRX'' sb of
        None \<Rightarrow> None
      | Some s \<Rightarrow> (case ms_current_snapshot_id s of None \<Rightarrow> None | Some i \<Rightarrow> snapshot_get d i))"

definition sell_quantity_available :: "db \<Rightarrow> string \<Rightarrow> string \<Rightarrow> int \<Rightarrow> int \<Rightarrow> int" where
  "sell_quantity_available d a sb managed broker_available =
     max 0 (min managed broker_available -
       sum_list (map o_remaining_quantity
         (filter (\<lambda>r. o_account_alias r = a \<and> o_symbol r = sb \<and> o_side r = ''SELL'' \<and>
            o_status r \<in> set active_sell_states) (orders d))))"

definition managed_quantity :: "position \<Rightarrow> int" where
  "managed_quantity p = max 0 (p_managed_quantity p)"

definition managed_average_price :: "position \<Rightarrow> decimal" where
  "managed_average_price p = (if 0 < managed_quantity p then p_managed_average_price p else p_average_price p)"

definition has_blocking_order :: "db \<Rightarrow> string \<Rightarrow> string \<Rightarrow> bool" where
  "has_blocking_order d a sb =
     list_ex (\<lambda>r. o_account_alias r = a \<and> o_symbol r = sb \<and> o_status r \<in> set blocking_order_states) (orders d)"

section \<open>The sell guard of a trigger\<close>

definition stop_guard_rules ::
  "(int \<Rightarrow> date list option) \<Rightarrow> settings \<Rightarrow> instant \<Rightarrow> position \<Rightarrow> stop_trigger \<Rightarrow> market_snapshot option \<Rightarrow>
     risk_policy \<Rightarrow> db \<Rightarrow> guard_rule list" where
  "stop_guard_rules hol st now p tg snapshot rp d =
     (let managed = managed_quantity p;
          sellable = sell_quantity_available d (sg_account_alias tg) (sg_symbol tg) managed (p_available_quantity p);
          fresh = (case snapshot of None \<Rightarrow> False
            | Some m \<Rightarrow> m_quality m = ''NORMAL'' \<and> m_trading_status m = ''TRADING'' \<and> m_received_at m \<le> now \<and>
                now - m_received_at m \<le> seconds (rp_quote_stale_seconds rp));
          session = classify_session hol now None
      in [guard_rule_of ''POSITION_FOUND'' (p_state p = PS_OPEN \<and> 0 < p_quantity p),
          guard_rule_of ''POSITION_VERSION_MATCH'' (p_version p = sg_position_version tg),
          guard_rule_of ''POSITION_MANAGED_QUANTITY_POSITIVE'' (0 < managed),
          guard_rule_of ''SELL_QUANTITY_AVAILABLE'' (managed \<le> sellable),
          guard_rule_of ''BROKER_READY'' (gate_ready d (sg_account_alias tg)),
          guard_rule_of ''NOT_RECONCILING''
            (case gate_get d (sg_account_alias tg) of None \<Rightarrow> False | Some g \<Rightarrow> g_status g \<noteq> GS_RECONCILING),
          guard_rule_of ''NO_ACTIVE_OR_UNKNOWN_ORDER'' (\<not> has_blocking_order d (sg_account_alias tg) (sg_symbol tg)),
          guard_rule_of ''MARKET_DATA_FRESH'' fresh,
          guard_rule_of ''INSTRUMENT_TRADABLE''
            (case snapshot of None \<Rightarrow> False | Some m \<Rightarrow> m_trading_status m = ''TRADING'' \<and> m_quality m = ''NORMAL''),
          guard_rule_of ''MARKET_SESSION_TRADABLE'' (session \<in> set stop_tradable_sessions),
          guard_rule_of ''ENVIRONMENT_NOT_MOCK'' (str_upper (st_environment st) = ''MOCK'')])"

definition trigger_input_record ::
  "position \<Rightarrow> uuid option \<Rightarrow> risk_policy \<Rightarrow> decimal \<Rightarrow> market_snapshot option \<Rightarrow> instant \<Rightarrow> json" where
  "trigger_input_record p pol rp stop_price snapshot now =
     JObj [(''account_alias'', JStr kiwoom_account), (''available_quantity'', JInt (p_available_quantity p)),
       (''bid_price'', json_opt JDec (Option.bind snapshot m_best_bid_price)),
       (''broker_average_price'', JDec (p_average_price p)), (''evaluated_at'', JTime now),
       (''external_quantity'', JInt (p_quantity p - p_managed_quantity p)),
       (''managed_average_price'', JDec (p_managed_average_price p)),
       (''managed_quantity'', JInt (p_managed_quantity p)), (''policy_version'', JStr ''fixed-stop-v1''),
       (''position_id'', json_uuid (p_id p)), (''position_version'', JInt (p_version p)),
       (''risk_policy_version_id'', json_opt json_uuid pol), (''schema_version'', JStr ''fixed-stop-input-v2''),
       (''snapshot_id'', json_opt json_uuid (map_option m_id snapshot)),
       (''stop_loss_pct'', JDec (rp_fixed_stop_loss_pct rp)), (''stop_price'', JDec stop_price),
       (''symbol'', JStr (p_symbol p)), (''total_quantity'', JInt (p_quantity p))]"

definition persist_stop_guard ::
  "bool \<Rightarrow> instant \<Rightarrow> stop_trigger \<Rightarrow> guard_rule list \<Rightarrow> market_snapshot option \<Rightarrow> uuid option \<Rightarrow> db \<Rightarrow>
     stop_error + guard_evaluation \<times> db" where
  "persist_stop_guard fk now tg rules snapshot pol d =
     (if fk \<and> execution_get d (sg_id tg) = None then Inl StopIntegrityError
      else Inr (persist_guard_evaluation
        \<lparr>gs_execution_id = sg_id tg, gs_subject_type = ''STOP_TRIGGER'', gs_subject_id = sg_id tg,
         gs_snapshot_id = map_option m_id snapshot, gs_position_version = Some (sg_position_version tg),
         gs_execution_policy_version_id = None, gs_risk_policy_version_id = pol,
         gs_halt_scope = Some ''ENTRY_HALT'', gs_valid_until = None, gs_now = now\<rparr> rules d))"

section \<open>Trigger rows\<close>

definition trigger_upd :: "uuid \<Rightarrow> (stop_trigger \<Rightarrow> stop_trigger) \<Rightarrow> db \<Rightarrow> db" where
  "trigger_upd i f d = d\<lparr>stop_triggers := row_upd sg_id i f (stop_triggers d)\<rparr>"

definition set_trigger :: "stop_trigger_state \<Rightarrow> string option \<Rightarrow> stop_trigger \<Rightarrow> stop_trigger" where
  "set_trigger s code tg = tg\<lparr>sg_state := s, sg_result_code := code\<rparr>"

definition trigger_active :: "stop_trigger \<Rightarrow> bool" where
  "trigger_active tg \<longleftrightarrow> sg_state tg \<in> {ST_PENDING, ST_SHADOW_RECORDED, ST_EXIT_PENDING}"

definition existing_active_trigger :: "uuid \<Rightarrow> int \<Rightarrow> uuid option \<Rightarrow> db \<Rightarrow> stop_trigger option" where
  "existing_active_trigger pid ver pol d =
     find (\<lambda>tg. sg_position_id tg = pid \<and> sg_position_version tg = ver \<and> sg_risk_policy_version_id tg = pol \<and>
       trigger_active tg) (stop_triggers d)"

definition resolve_trigger_event :: "stop_trigger \<Rightarrow> string \<Rightarrow> instant \<Rightarrow> db \<Rightarrow> db" where
  "resolve_trigger_event tg resolution now d =
     (case sg_risk_event_id tg of None \<Rightarrow> d | Some e \<Rightarrow> snd (resolve_risk_event e resolution now d))"

definition supersede_trigger :: "string \<Rightarrow> instant \<Rightarrow> stop_trigger \<Rightarrow> db \<Rightarrow> db" where
  "supersede_trigger resolution now tg d =
     resolve_trigger_event tg resolution now (trigger_upd (sg_id tg) (\<lambda>t. t\<lparr>sg_state := ST_SUPERSEDED\<rparr>) d)"

definition supersede_stale_triggers :: "uuid \<Rightarrow> uuid option \<Rightarrow> instant \<Rightarrow> db \<Rightarrow> db" where
  "supersede_stale_triggers pid pol now d =
     fold (supersede_trigger ''SUPERSEDED'' now)
       (filter (\<lambda>tg. sg_position_id tg = pid \<and> sg_risk_policy_version_id tg = pol \<and> trigger_active tg) (stop_triggers d)) d"

section \<open>The stop order\<close>

definition should_auto_sell :: "settings \<Rightarrow> market_snapshot option \<Rightarrow> bool" where
  "should_auto_sell st snapshot \<longleftrightarrow>
     st_execution_stage st \<in> set fixed_stop_auto_sell_stages \<and> snapshot \<noteq> None"

definition stop_order_request :: "stop_trigger \<Rightarrow> position \<Rightarrow> decimal \<Rightarrow> decimal \<Rightarrow> string \<Rightarrow> order_request" where
  "stop_order_request tg p price stop_price cid =
     (let key = ''fixed-stop:'' @ uuid_text (sg_id tg); quantity = managed_quantity p
      in \<lparr>or_symbol = p_symbol p, or_market = ''KRX'', or_side = ''SELL'', or_action = ''FIXED_STOP'',
          or_order_type = ''LIMIT'', or_limit_price = Some price, or_quantity = quantity,
          or_idempotency_key = key,
          or_request_payload = JObj [(''action'', JStr ''FIXED_STOP''), (''environment'', JStr ''MOCK''),
            (''idempotency_key'', JStr key), (''limit_price'', JDec price), (''market'', JStr ''KRX''),
            (''order_type'', JStr ''LIMIT''), (''position_id'', json_uuid (p_id p)),
            (''position_version'', JInt (p_version p)), (''quantity'', JInt quantity), (''side'', JStr ''SELL''),
            (''stop_price'', JDec stop_price), (''symbol'', JStr (p_symbol p)),
            (''trigger_id'', json_uuid (sg_id tg))],
          or_correlation_id = cid\<rparr>)"

definition stop_context :: "instant \<Rightarrow> creation_context" where
  "stop_context now = \<lparr>cc_env = \<lambda>d. d, cc_user = ''SYSTEM_FIXED_STOP_TRIGGER'',
     cc_audit_action = ''FIXED_STOP_SELL_ORDER_CREATED'', cc_request_ip = None, cc_user_agent = None, cc_now = now\<rparr>"

definition emit_fixed_stop_order ::
  "stop_trigger \<Rightarrow> position \<Rightarrow> market_snapshot option \<Rightarrow> decimal \<Rightarrow> string \<Rightarrow> instant \<Rightarrow> db \<Rightarrow> db" where
  "emit_fixed_stop_order tg p snapshot stop_price cid now d =
     (case Option.bind snapshot m_best_bid_price of
        None \<Rightarrow> trigger_upd (sg_id tg) (set_trigger ST_EXIT_PENDING (Some ''NO_FRESH_EXECUTABLE_KRX_QUOTE'')) d
      | Some price \<Rightarrow>
          if price \<le> 0
          then trigger_upd (sg_id tg) (set_trigger ST_EXIT_PENDING (Some ''NO_FRESH_EXECUTABLE_KRX_QUOTE'')) d
          else case create_order (stop_context now) (stop_order_request tg p price stop_price cid) d of
            (Inl (OrderCreationError code status), d1) \<Rightarrow>
              trigger_upd (sg_id tg) (set_trigger ST_EXIT_PENDING (Some code)) d1
          | (Inr od, d1) \<Rightarrow>
              resolve_trigger_event tg ''ORDER_CREATED'' now
                (trigger_upd (sg_id tg) (set_trigger ST_FULFILLED (Some ''ORDER_CREATED'')) d1))"

text \<open>A passed guard: sell, or record the shadow.\<close>

definition stop_passed ::
  "settings \<Rightarrow> stop_trigger \<Rightarrow> position \<Rightarrow> market_snapshot option \<Rightarrow> decimal \<Rightarrow> string \<Rightarrow> instant \<Rightarrow> db \<Rightarrow> db" where
  "stop_passed st tg p snapshot stop_price cid now d =
     (if should_auto_sell st snapshot then emit_fixed_stop_order tg p snapshot stop_price cid now d
      else trigger_upd (sg_id tg) (set_trigger ST_SHADOW_RECORDED None) d)"

definition stop_event_input ::
  "string \<Rightarrow> string \<Rightarrow> string \<Rightarrow> json \<Rightarrow> string \<Rightarrow> market_snapshot option \<Rightarrow> risk_event_input" where
  "stop_event_input code a sb input cid snapshot =
     \<lparr>ri_scope = ''FIXED_STOP'', ri_rule_code = code, ri_severity = ''HIGH'', ri_account_alias = a,
      ri_symbol = Some sb, ri_input = input, ri_correlation_id = cid,
      ri_input_snapshot_id = map_option m_id snapshot\<rparr>"

definition stop_blocked :: "stop_trigger \<Rightarrow> string \<Rightarrow> risk_event_input \<Rightarrow> instant \<Rightarrow> db \<Rightarrow> db" where
  "stop_blocked tg code ri now d =
     (let (ev, d1) = create_risk_event now ri d
      in trigger_upd (sg_id tg) (\<lambda>t. set_trigger ST_EXIT_PENDING (Some code) (t\<lparr>sg_risk_event_id := Some (re_id ev)\<rparr>)) d1)"

section \<open>Evaluation\<close>

definition re_evaluate_trigger ::
  "bool \<Rightarrow> (int \<Rightarrow> date list option) \<Rightarrow> settings \<Rightarrow> instant \<Rightarrow> stop_trigger \<Rightarrow> position \<Rightarrow> market_snapshot option \<Rightarrow>
     risk_policy \<Rightarrow> uuid option \<Rightarrow> decimal \<Rightarrow> db \<Rightarrow> stop_error + db" where
  "re_evaluate_trigger fk hol st now tg p snapshot rp pol stop_price d =
     (if p_state p \<noteq> PS_OPEN \<or> p_quantity p \<le> 0 then Inr (supersede_trigger ''POSITION_CLOSED'' now tg d)
      else
        (let rules = stop_guard_rules hol st now p tg snapshot rp d
         in case persist_stop_guard fk now tg rules snapshot pol d of
              Inl e \<Rightarrow> Inl e
            | Inr (g, d1) \<Rightarrow>
                (let d2 = trigger_upd (sg_id tg) (\<lambda>t. t\<lparr>sg_guard_evaluation_id := Some (ge_id g)\<rparr>) d1;
                     code = blocking_code rules
                 in Inr (if guard_result rules = BLOCKED
                      then (case sg_risk_event_id tg of
                              Some _ \<Rightarrow> trigger_upd (sg_id tg) (set_trigger ST_EXIT_PENDING (Some code)) d2
                            | None \<Rightarrow>
                                stop_blocked tg code
                                  (stop_event_input code (sg_account_alias tg) (sg_symbol tg)
                                    (JObj [(''position_id'', json_uuid (p_id p)), (''position_version'', JInt (p_version p)),
                                       (''re_evaluated_at'', JTime now), (''rule_code'', JStr code),
                                       (''stop_price'', JDec stop_price)])
                                    (sg_correlation_id tg) snapshot) now d2)
                      else stop_passed st tg p snapshot stop_price (sg_correlation_id tg) now
                             (resolve_trigger_event tg ''BROKER_RECOVERED'' now d2)))))"

definition new_trigger ::
  "string \<Rightarrow> position \<Rightarrow> uuid option \<Rightarrow> decimal \<Rightarrow> market_snapshot option \<Rightarrow> uuid \<Rightarrow> stop_trigger" where
  "new_trigger cid p pol stop_price snapshot i =
     \<lparr>sg_id = i, sg_account_alias = kiwoom_account, sg_position_id = p_id p, sg_position_version = p_version p,
      sg_symbol = p_symbol p, sg_market = ''KRX'', sg_risk_policy_version_id = pol, sg_stop_price = stop_price,
      sg_trigger_price = Option.bind snapshot m_best_bid_price, sg_snapshot_id = map_option m_id snapshot,
      sg_state = ST_PENDING, sg_result_code = None, sg_guard_evaluation_id = None, sg_risk_event_id = None,
      sg_correlation_id = cid\<rparr>"

text \<open>The UNIQUE constraint of the table; rows without a policy version never collide.\<close>

definition trigger_collides :: "uuid \<Rightarrow> int \<Rightarrow> uuid option \<Rightarrow> db \<Rightarrow> bool" where
  "trigger_collides pid ver pol d \<longleftrightarrow>
     pol \<noteq> None \<and>
     list_ex (\<lambda>tg. sg_position_id tg = pid \<and> sg_position_version tg = ver \<and> sg_risk_policy_version_id tg = pol)
       (stop_triggers d)"

definition fire_trigger ::
  "bool \<Rightarrow> (int \<Rightarrow> date list option) \<Rightarrow> settings \<Rightarrow> stop_tick \<Rightarrow> position \<Rightarrow> market_snapshot option \<Rightarrow>
     risk_policy \<Rightarrow> uuid option \<Rightarrow> decimal \<Rightarrow> db \<Rightarrow> stop_error + db" where
  "fire_trigger fk hol st sk p snapshot rp pol stop_price d =
     (if trigger_collides (p_id p) (p_version p) pol d then Inl StopIntegrityError
      else
        (let (i, d0) = uuid7_draw d;
             tg = new_trigger (sk_correlation_id sk) p pol stop_price snapshot i;
             d1 = d0\<lparr>stop_triggers := stop_triggers d0 @ [tg]\<rparr>;
             rules = stop_guard_rules hol st (sk_now sk) p tg snapshot rp d1
         in case persist_stop_guard fk (sk_now sk) tg rules snapshot pol d1 of
              Inl e \<Rightarrow> Inl e
            | Inr (g, d2) \<Rightarrow>
                (let d3 = trigger_upd i (\<lambda>t. t\<lparr>sg_guard_evaluation_id := Some (ge_id g)\<rparr>) d2
                 in Inr (if guard_result rules = BLOCKED
                      then stop_blocked tg (blocking_code rules)
                             (stop_event_input (blocking_code rules) kiwoom_account (p_symbol p)
                               (trigger_input_record p pol rp stop_price snapshot (sk_now sk))
                               (sk_correlation_id sk) snapshot) (sk_now sk) d3
                      else stop_passed st tg p snapshot stop_price (sk_correlation_id sk) (sk_now sk) d3))))"

definition evaluate_position ::
  "bool \<Rightarrow> (int \<Rightarrow> date list option) \<Rightarrow> settings \<Rightarrow> stop_tick \<Rightarrow> position \<Rightarrow> db \<Rightarrow> stop_error + db" where
  "evaluate_position fk hol st sk p d =
     (let risk_config = active_risk_policy d kiwoom_account; pol = map_option cv_id risk_config
      in case risk_policy_payload risk_config of
           None \<Rightarrow> Inl StopPolicyInvalid
         | Some rp \<Rightarrow>
             (let snapshot = latest_krx_snapshot d (p_symbol p);
                  stop_price = compute_stop_price (managed_average_price p) (rp_fixed_stop_loss_pct rp)
              in case existing_active_trigger (p_id p) (p_version p) pol d of
                   Some tg \<Rightarrow> re_evaluate_trigger fk hol st (sk_now sk) tg p snapshot rp pol stop_price d
                 | None \<Rightarrow>
                     (let d1 = supersede_stale_triggers (p_id p) pol (sk_wall sk) d
                      in if should_trigger (Option.bind snapshot m_best_bid_price) stop_price
                         then fire_trigger fk hol st sk p snapshot rp pol stop_price d1 else Inr d1)))"

primrec stop_fold :: "('x \<Rightarrow> db \<Rightarrow> stop_error + db) \<Rightarrow> 'x list \<Rightarrow> db \<Rightarrow> stop_error + db" where
  "stop_fold f [] d = Inr d"
| "stop_fold f (x # xs) d = (case f x d of Inl e \<Rightarrow> Inl e | Inr d' \<Rightarrow> stop_fold f xs d')"

definition run_fixed_stop_triggers ::
  "bool \<Rightarrow> (int \<Rightarrow> date list option) \<Rightarrow> settings \<Rightarrow> stop_tick \<Rightarrow> string \<Rightarrow> db \<Rightarrow> (stop_error + nat) \<times> db" where
  "run_fixed_stop_triggers fk hol st sk a d =
     (case stop_fold (evaluate_position fk hol st sk) (open_positions d a) d of
        Inl e \<Rightarrow> (Inl e, d)
      | Inr d' \<Rightarrow> (Inr (length (open_positions d a)), d'))"

definition recover_trigger ::
  "bool \<Rightarrow> (int \<Rightarrow> date list option) \<Rightarrow> settings \<Rightarrow> instant \<Rightarrow> risk_policy \<Rightarrow> uuid option \<Rightarrow> stop_trigger \<Rightarrow> db \<Rightarrow>
     stop_error + db" where
  "recover_trigger fk hol st now rp pol tg d =
     (case row_find p_id (sg_position_id tg) (positions d) of
        None \<Rightarrow> Inr (supersede_trigger ''POSITION_CLOSED'' now tg d)
      | Some p \<Rightarrow>
          if p_state p \<noteq> PS_OPEN \<or> p_quantity p \<le> 0 then Inr (supersede_trigger ''POSITION_CLOSED'' now tg d)
          else re_evaluate_trigger fk hol st now tg p (latest_krx_snapshot d (sg_symbol tg)) rp pol
                 (compute_stop_price (managed_average_price p) (rp_fixed_stop_loss_pct rp)) d)"

definition recover_exit_pending ::
  "bool \<Rightarrow> (int \<Rightarrow> date list option) \<Rightarrow> settings \<Rightarrow> instant \<Rightarrow> string \<Rightarrow> db \<Rightarrow> (stop_error + nat) \<times> db" where
  "recover_exit_pending fk hol st now a d =
     (if \<not> gate_ready d a then (Inr 0, d)
      else
        (let triggers = filter (\<lambda>tg. sg_account_alias tg = a \<and> sg_state tg = ST_EXIT_PENDING) (stop_triggers d);
             risk_config = active_risk_policy d a
         in if triggers = [] then (Inr 0, d)
            else case risk_policy_payload risk_config of
              None \<Rightarrow> (Inl StopPolicyInvalid, d)
            | Some rp \<Rightarrow>
                (case stop_fold (recover_trigger fk hol st now rp (map_option cv_id risk_config)) triggers d of
                   Inl e \<Rightarrow> (Inl e, d)
                 | Inr d' \<Rightarrow> (Inr (length triggers), d'))))"

end
