(* ===== verification/Stop_Properties.thy ===== *)
theory Stop_Properties
  imports Stop_Trigger Approval_Properties Policy_Properties
begin

text \<open>
  What the fixed stop may do: its price lies below the average cost, a run adds only SELL orders for exactly the
  managed quantity of an open position under a ready gate in an order-enabled stage; and the two
  reasons why it does not protect a position in the deployed configuration.
\<close>

section \<open>The stop price\<close>

lemma quantize4_half_up_near: "\<bar>quantize4_half_up x - x\<bar> \<le> 1 / 20000"
proof -
  have "\<bar>of_int (round_half_up y) - y\<bar> \<le> 1 / 2" for y :: rat
  proof (rule abs_leI)
    show "of_int (round_half_up y) - y \<le> 1 / 2" unfolding round_half_up_def by (cases "0 \<le> y") (simp_all, linarith+)
    show "- (of_int (round_half_up y) - y) \<le> 1 / 2" unfolding round_half_up_def by (cases "0 \<le> y") (simp_all, linarith+)
  qed
  from this [of "x * 10 ^ 4"] show ?thesis
    by (simp add: quantize4_half_up_def quantize_def abs_le_iff field_simps)
qed

section \<open>Frames\<close>

lemma trigger_upd_tables [simp]:
  "orders (trigger_upd i f d) = orders d" "positions (trigger_upd i f d) = positions d"
  "trading_gates (trigger_upd i f d) = trading_gates d" "market_stream_states (trigger_upd i f d) = market_stream_states d"
  "market_snapshots (trigger_upd i f d) = market_snapshots d"
  "configuration_versions (trigger_upd i f d) = configuration_versions d"
  "stop_triggers (trigger_upd i f d) = row_upd sg_id i f (stop_triggers d)"
  "decision_executions (trigger_upd i f d) = decision_executions d" "uuid_seed (trigger_upd i f d) = uuid_seed d"
  by (simp_all add: trigger_upd_def)

lemma resolve_risk_event_tables [simp]:
  "orders (snd (resolve_risk_event e r now d)) = orders d" "positions (snd (resolve_risk_event e r now d)) = positions d"
  "trading_gates (snd (resolve_risk_event e r now d)) = trading_gates d"
  "market_stream_states (snd (resolve_risk_event e r now d)) = market_stream_states d"
  "market_snapshots (snd (resolve_risk_event e r now d)) = market_snapshots d"
  "configuration_versions (snd (resolve_risk_event e r now d)) = configuration_versions d"
  "stop_triggers (snd (resolve_risk_event e r now d)) = stop_triggers d"
  "decision_executions (snd (resolve_risk_event e r now d)) = decision_executions d"
  "uuid_seed (snd (resolve_risk_event e r now d)) = uuid_seed d"
  by (simp_all add: resolve_risk_event_def Let_def split: option.split)

lemma resolve_trigger_event_tables [simp]:
  "orders (resolve_trigger_event tg r now d) = orders d" "positions (resolve_trigger_event tg r now d) = positions d"
  "trading_gates (resolve_trigger_event tg r now d) = trading_gates d"
  "market_stream_states (resolve_trigger_event tg r now d) = market_stream_states d"
  "market_snapshots (resolve_trigger_event tg r now d) = market_snapshots d"
  "configuration_versions (resolve_trigger_event tg r now d) = configuration_versions d"
  "stop_triggers (resolve_trigger_event tg r now d) = stop_triggers d"
  "decision_executions (resolve_trigger_event tg r now d) = decision_executions d"
  "uuid_seed (resolve_trigger_event tg r now d) = uuid_seed d"
  by (simp_all add: resolve_trigger_event_def split: option.split)

text \<open>An order the stop may add, judged against the positions, gates and quotes of a database.\<close>

definition stop_order_ok :: "settings \<Rightarrow> db \<Rightarrow> trading_order \<Rightarrow> bool" where
  "stop_order_ok st d od \<longleftrightarrow>
     o_side od = ''SELL'' \<and> o_status od = OS_CREATED \<and> o_remaining_quantity od = o_requested_quantity od \<and>
     st_execution_stage st \<in> {''APPROVAL_ONLY'', ''MOCK_AUTOMATIC''} \<and>
     gate_ready d kiwoom_account \<and>
     (\<exists>p \<in> set (positions d). p_state p = PS_OPEN \<and> o_symbol od = p_symbol p \<and>
        o_requested_quantity od = p_managed_quantity p \<and> 0 < p_managed_quantity p \<and>
        p_managed_quantity p \<le> p_available_quantity p) \<and>
     (\<exists>m \<in> set (market_snapshots d). o_limit_price od = m_best_bid_price m \<and> m_trading_status m = ''TRADING'')"

definition stop_tables_eq :: "db \<Rightarrow> db \<Rightarrow> bool" where
  "stop_tables_eq d d' \<longleftrightarrow> positions d' = positions d \<and> trading_gates d' = trading_gates d \<and>
     market_stream_states d' = market_stream_states d \<and> market_snapshots d' = market_snapshots d \<and>
     configuration_versions d' = configuration_versions d"

definition own_triggers :: "db \<Rightarrow> bool" where
  "own_triggers d \<longleftrightarrow> (\<forall>tg \<in> set (stop_triggers d). sg_account_alias tg = kiwoom_account)"

definition stop_rel :: "settings \<Rightarrow> db \<Rightarrow> db \<Rightarrow> bool" where
  "stop_rel st d d' \<longleftrightarrow> stop_tables_eq d d' \<and> own_triggers d' \<and>
     (\<exists>new. orders d' = orders d @ new \<and> (\<forall>od \<in> set new. stop_order_ok st d od))"

lemma stop_order_ok_cong: "stop_tables_eq d d' \<Longrightarrow> stop_order_ok st d' od = stop_order_ok st d od"
  by (simp add: stop_tables_eq_def stop_order_ok_def gate_ready_def gate_get_def)

lemma stop_rel_trans:
  assumes "stop_rel st d d'" "stop_rel st d' d''"
  shows "stop_rel st d d''"
  using assms stop_order_ok_cong [of d d' st] unfolding stop_rel_def stop_tables_eq_def by fastforce

lemma stop_rel_same:
  "stop_tables_eq d d' \<Longrightarrow> own_triggers d' \<Longrightarrow> orders d' = orders d \<Longrightarrow> stop_rel st d d'"
  by (simp add: stop_rel_def)

lemma own_triggers_upd:
  "own_triggers d \<Longrightarrow> (\<And>t. sg_account_alias (f t) = sg_account_alias t) \<Longrightarrow> own_triggers (trigger_upd i f d)"
  by (auto simp: own_triggers_def row_upd_def)

lemma stop_rel_upd:
  assumes "own_triggers d" "\<And>t. sg_account_alias (f t) = sg_account_alias t"
  shows "stop_rel st d (trigger_upd i f d)"
  by (rule stop_rel_same) (simp_all add: stop_tables_eq_def own_triggers_upd [OF assms])

lemma set_trigger_sel [simp]:
  "sg_account_alias (set_trigger s c t) = sg_account_alias t" "sg_id (set_trigger s c t) = sg_id t"
  by (simp_all add: set_trigger_def)

lemma stop_rel_resolve: "own_triggers d \<Longrightarrow> stop_rel st d (resolve_trigger_event tg r now d)"
  by (rule stop_rel_same) (simp_all add: stop_tables_eq_def own_triggers_def)

lemma stop_rel_own: "stop_rel st d d' \<Longrightarrow> own_triggers d'"
  by (simp add: stop_rel_def)

lemma stop_rel_supersede: "own_triggers d \<Longrightarrow> stop_rel st d (supersede_trigger r now tg d)"
  unfolding supersede_trigger_def
  by (rule stop_rel_trans [OF stop_rel_upd stop_rel_resolve]) (auto intro: own_triggers_upd)

lemma stop_rel_fold_supersede: "own_triggers d \<Longrightarrow> stop_rel st d (fold (supersede_trigger r now) tgs d)"
proof (induction tgs arbitrary: d)
  case Nil
  then show ?case by (simp add: stop_rel_def stop_tables_eq_def)
next
  case (Cons tg tgs)
  have one: "stop_rel st d (supersede_trigger r now tg d)" using Cons.prems by (rule stop_rel_supersede)
  show ?case using stop_rel_trans [OF one Cons.IH [OF stop_rel_own [OF one]]] by simp
qed

lemma latest_krx_snapshot_mem: "latest_krx_snapshot d sb = Some m \<Longrightarrow> m \<in> set (market_snapshots d)"
  by (auto simp: latest_krx_snapshot_def snapshot_get_def dest: row_find_Some split: option.splits)

lemma latest_krx_snapshot_cong: "stop_tables_eq d d' \<Longrightarrow> latest_krx_snapshot d' sb = latest_krx_snapshot d sb"
  by (simp add: stop_tables_eq_def latest_krx_snapshot_def stream_get_def snapshot_get_def cong: option.case_cong)

section \<open>What a passed guard gives\<close>

lemma stop_guard_passed:
  assumes "guard_result (stop_guard_rules hol st now p tg snapshot rp d) = PASSED"
  shows "p_state p = PS_OPEN" "0 < p_managed_quantity p" "managed_quantity p = p_managed_quantity p"
    "p_managed_quantity p \<le> p_available_quantity p \<or> (\<exists>r \<in> set (orders d). o_remaining_quantity r < 0)"
    "gate_ready d (sg_account_alias tg)" "\<exists>m. snapshot = Some m \<and> m_trading_status m = ''TRADING''"
proof -
  note g = assms [unfolded guard_result_PASSED stop_guard_rules_def Let_def, simplified]
  show "p_state p = PS_OPEN" "0 < p_managed_quantity p" "managed_quantity p = p_managed_quantity p"
    "gate_ready d (sg_account_alias tg)" "\<exists>m. snapshot = Some m \<and> m_trading_status m = ''TRADING''"
    using g by (auto simp: managed_quantity_def split: option.splits)
  let ?sells = "map o_remaining_quantity (filter (\<lambda>r. o_account_alias r = sg_account_alias tg \<and>
     o_symbol r = sg_symbol tg \<and> o_side r = ''SELL'' \<and> o_status r \<in> set active_sell_states) (orders d))"
  have "managed_quantity p \<le> max 0 (min (managed_quantity p) (p_available_quantity p) - sum_list ?sells)"
    using g by (simp add: sell_quantity_available_def)
  moreover have "0 \<le> sum_list ?sells" if "\<not> (\<exists>r \<in> set (orders d). o_remaining_quantity r < 0)"
    by (rule sum_list_nonneg) (use that in \<open>auto simp: not_less\<close>)
  ultimately show "p_managed_quantity p \<le> p_available_quantity p \<or> (\<exists>r \<in> set (orders d). o_remaining_quantity r < 0)"
    using g by (auto simp: managed_quantity_def)
qed

section \<open>Each step of a run\<close>

definition remaining_nonneg :: "db \<Rightarrow> bool" where
  "remaining_nonneg d \<longleftrightarrow> (\<forall>r \<in> set (orders d). 0 \<le> o_remaining_quantity r)"

definition trigger_inv :: "db \<Rightarrow> bool" where
  "trigger_inv d \<longleftrightarrow> own_triggers d \<and> remaining_nonneg d"

lemma stop_order_ok_remaining: "stop_order_ok st d od \<Longrightarrow> 0 \<le> o_remaining_quantity od"
  by (fastforce simp: stop_order_ok_def)

lemma stop_rel_inv: "stop_rel st d d' \<Longrightarrow> trigger_inv d \<Longrightarrow> trigger_inv d'"
  by (auto simp: stop_rel_def trigger_inv_def remaining_nonneg_def dest: stop_order_ok_remaining)

lemma stop_guard_frame:
  assumes "stop_tables_eq d d'" "orders d' = orders d"
  shows "stop_guard_rules hol st now p tg snapshot rp d' = stop_guard_rules hol st now p tg snapshot rp d"
  using assms
  by (simp add: stop_guard_rules_def stop_tables_eq_def sell_quantity_available_def gate_ready_def gate_get_def
      has_blocking_order_def Let_def)

lemma stop_context_env [simp]: "cc_env (stop_context now) = (\<lambda>d. d)"
  by (simp add: stop_context_def)

lemma emit_rel:
  assumes inv: "trigger_inv d" and p: "p \<in> set (positions d)" and m: "m \<in> set (market_snapshots d)"
    and acc: "sg_account_alias tg = kiwoom_account"
    and pass: "guard_result (stop_guard_rules hol st now p tg (Some m) rp d) = PASSED"
    and stage: "should_auto_sell st (Some m)"
  shows "stop_rel st d (emit_fixed_stop_order tg p (Some m) stop cid now d)"
proof -
  note g = stop_guard_passed [OF pass]
  have own: "own_triggers d" and nn: "\<not> (\<exists>r \<in> set (orders d). o_remaining_quantity r < 0)"
    using inv by (auto simp: trigger_inv_def remaining_nonneg_def)
  have stg: "st_execution_stage st \<in> {''APPROVAL_ONLY'', ''MOCK_AUTOMATIC''}"
    using stage by (auto simp: should_auto_sell_def fixed_stop_auto_sell_stages_def)
  show ?thesis
  proof (cases "m_best_bid_price m")
    case None
    then show ?thesis using own by (simp add: emit_fixed_stop_order_def stop_rel_upd)
  next
    case (Some b)
    let ?rq = "stop_order_request tg p b stop cid"
    obtain res d1 where co: "create_order (stop_context now) ?rq d = (res, d1)" by fastforce
    have rel: "stop_rel st d d1"
    proof (cases rule: create_order_nested [OF stop_context_env co])
      case 3
      have "stop_order_ok st d (fst (insert_created_order (stop_context now) ?rq d))"
        using g acc p stg nn bexI [OF _ m, of "\<lambda>m. Some b = m_best_bid_price m \<and> m_trading_status m = ''TRADING''"] Some
        by (auto simp: stop_order_ok_def insert_created_order_tables stop_order_request_def Let_def)
      moreover have "stop_tables_eq d d1" "own_triggers d1"
        using 3 own by (simp_all add: stop_tables_eq_def own_triggers_def)
      ultimately show ?thesis using 3 by (auto simp: stop_rel_def insert_created_order_tables(2))
    qed (use own in \<open>simp_all add: stop_rel_def stop_tables_eq_def\<close>)
    have "stop_rel st d1 (trigger_upd (sg_id tg) (set_trigger s c) d1)" for s c
      by (rule stop_rel_upd [OF stop_rel_own [OF rel]]) simp
    note upd = stop_rel_trans [OF rel this]
    show ?thesis
    proof (cases res)
      case (Inl e)
      then show ?thesis
        using co Some own upd stop_rel_upd [OF own] by (cases e) (simp add: emit_fixed_stop_order_def)
    next
      case (Inr od)
      have "stop_rel st d (resolve_trigger_event tg ''ORDER_CREATED'' now
          (trigger_upd (sg_id tg) (set_trigger ST_FULFILLED (Some ''ORDER_CREATED'')) d1))"
        by (rule stop_rel_trans [OF upd stop_rel_resolve]) (rule stop_rel_own [OF upd])
      then show ?thesis using co Some Inr own stop_rel_upd [OF own] by (simp add: emit_fixed_stop_order_def)
    qed
  qed
qed

lemma stop_passed_rel:
  assumes "trigger_inv d" "p \<in> set (positions d)" "\<forall>m. snapshot = Some m \<longrightarrow> m \<in> set (market_snapshots d)"
    "sg_account_alias tg = kiwoom_account"
    "guard_result (stop_guard_rules hol st now p tg snapshot rp d) = PASSED"
  shows "stop_rel st d (stop_passed st tg p snapshot stop cid now d)"
proof (cases "should_auto_sell st snapshot")
  case True
  then obtain m where m: "snapshot = Some m" by (auto simp: should_auto_sell_def)
  show ?thesis using emit_rel [of d p m tg hol st now rp] assms True m by (simp add: stop_passed_def)
next
  case False
  then show ?thesis using assms(1) by (simp add: stop_passed_def stop_rel_upd trigger_inv_def)
qed

lemma create_risk_event_tables [simp]:
  "orders (snd (create_risk_event now ri d)) = orders d" "positions (snd (create_risk_event now ri d)) = positions d"
  "trading_gates (snd (create_risk_event now ri d)) = trading_gates d"
  "market_stream_states (snd (create_risk_event now ri d)) = market_stream_states d"
  "market_snapshots (snd (create_risk_event now ri d)) = market_snapshots d"
  "configuration_versions (snd (create_risk_event now ri d)) = configuration_versions d"
  "stop_triggers (snd (create_risk_event now ri d)) = stop_triggers d"
  by (simp_all add: create_risk_event_def uuid7_draw_def Let_def)

lemma stop_blocked_rel:
  assumes "own_triggers d"
  shows "stop_rel st d (stop_blocked tg code ri now d)"
proof -
  have own: "own_triggers (snd (create_risk_event now ri d))" using assms by (simp add: own_triggers_def)
  have "stop_rel st d (snd (create_risk_event now ri d))"
    by (rule stop_rel_same) (simp_all add: stop_tables_eq_def own)
  moreover have "stop_rel st (snd (create_risk_event now ri d)) (stop_blocked tg code ri now d)"
    unfolding stop_blocked_def Let_def case_prod_beta by (rule stop_rel_upd [OF own]) simp
  ultimately show ?thesis by (rule stop_rel_trans)
qed

lemma persist_stop_guard_rel:
  assumes "persist_stop_guard fk now tg rules snapshot pol d = Inr (g, d1)" "own_triggers d"
  shows "stop_rel st d d1" "orders d1 = orders d"
  using assms
  by (auto simp: persist_stop_guard_def persist_guard_evaluation_def uuid7_draw_def Let_def stop_rel_def
      stop_tables_eq_def own_triggers_def split: if_splits)

lemma stop_rel_keeps:
  assumes "stop_rel st d d'" "orders d' = orders d" "trigger_inv d"
  shows "trigger_inv d'" "positions d' = positions d" "market_snapshots d' = market_snapshots d"
    "stop_guard_rules hol st now p tg snapshot rp d' = stop_guard_rules hol st now p tg snapshot rp d"
  using stop_rel_inv [OF assms(1,3)] stop_guard_frame [OF _ assms(2)] assms(1)
  by (auto simp: stop_rel_def stop_tables_eq_def)

lemma re_evaluate_rel:
  assumes run: "re_evaluate_trigger fk hol st now tg p snapshot rp pol stop d = Inr d'"
    and inv: "trigger_inv d" and p: "p \<in> set (positions d)"
    and m: "\<forall>m. snapshot = Some m \<longrightarrow> m \<in> set (market_snapshots d)" and acc: "sg_account_alias tg = kiwoom_account"
  shows "stop_rel st d d'"
proof (cases "p_state p \<noteq> PS_OPEN \<or> p_quantity p \<le> 0")
  case True
  then show ?thesis using run inv stop_rel_supersede by (auto simp: re_evaluate_trigger_def trigger_inv_def)
next
  case False
  have own: "own_triggers d" using inv by (simp add: trigger_inv_def)
  let ?rules = "stop_guard_rules hol st now p tg snapshot rp d"
  obtain g d1 where pg: "persist_stop_guard fk now tg ?rules snapshot pol d = Inr (g, d1)"
    using run False by (auto simp: re_evaluate_trigger_def Let_def split: sum.splits)
  define d2 where "d2 = trigger_upd (sg_id tg) (\<lambda>t. t\<lparr>sg_guard_evaluation_id := Some (ge_id g)\<rparr>) d1"
  note r1 = persist_stop_guard_rel [OF pg own]
  have "stop_rel st d1 d2" unfolding d2_def by (rule stop_rel_upd [OF stop_rel_own [OF r1(1)]]) simp
  note r2 = stop_rel_trans [OF r1(1) this]
  have o2: "orders d2 = orders d" by (simp add: d2_def r1(2))
  note k2 = stop_rel_keeps [OF r2 o2 inv]
  have own2: "own_triggers d2" by (rule stop_rel_own [OF r2])
  have run': "d' = (if guard_result ?rules = BLOCKED
      then (case sg_risk_event_id tg of
              Some _ \<Rightarrow> trigger_upd (sg_id tg) (set_trigger ST_EXIT_PENDING (Some (blocking_code ?rules))) d2
            | None \<Rightarrow> stop_blocked tg (blocking_code ?rules)
                (stop_event_input (blocking_code ?rules) (sg_account_alias tg) (sg_symbol tg)
                  (JObj [(''position_id'', json_uuid (p_id p)), (''position_version'', JInt (p_version p)),
                     (''re_evaluated_at'', JTime now), (''rule_code'', JStr (blocking_code ?rules)),
                     (''stop_price'', JDec stop)]) (sg_correlation_id tg) snapshot) now d2)
      else stop_passed st tg p snapshot stop (sg_correlation_id tg) now
             (resolve_trigger_event tg ''BROKER_RECOVERED'' now d2))"
    unfolding d2_def using run False pg by (auto simp: re_evaluate_trigger_def Let_def)
  have "stop_rel st d2 d'"
  proof (cases "guard_result ?rules")
    case PASSED
    let ?d3 = "resolve_trigger_event tg ''BROKER_RECOVERED'' now d2"
    have r3: "stop_rel st d2 ?d3" by (rule stop_rel_resolve [OF own2])
    note k3 = stop_rel_keeps [OF r3 _ k2(1)]
    have "stop_rel st ?d3 (stop_passed st tg p snapshot stop (sg_correlation_id tg) now ?d3)"
      by (rule stop_passed_rel) (use k2 k3 p m acc PASSED in simp_all)
    from stop_rel_trans [OF r3 this] show ?thesis using run' PASSED by simp
  next
    case BLOCKED
    then show ?thesis
      using run' stop_blocked_rel [OF own2] stop_rel_upd [OF own2] by (auto split: option.splits)
  qed
  then show ?thesis by (rule stop_rel_trans [OF r2])
qed

lemma fire_rel:
  assumes run: "fire_trigger fk hol st sk p snapshot rp pol stop d = Inr d'"
    and inv: "trigger_inv d" and p: "p \<in> set (positions d)"
    and m: "\<forall>m. snapshot = Some m \<longrightarrow> m \<in> set (market_snapshots d)"
  shows "stop_rel st d d'"
proof -
  let ?i = "uuid_seed d"
  let ?tg = "new_trigger (sk_correlation_id sk) p pol stop snapshot ?i"
  let ?d1 = "d\<lparr>uuid_seed := uuid_seed d + 1, stop_triggers := stop_triggers d @ [?tg]\<rparr>"
  let ?rules = "stop_guard_rules hol st (sk_now sk) p ?tg snapshot rp ?d1"
  have acc: "sg_account_alias ?tg = kiwoom_account" by (simp add: new_trigger_def)
  have r1: "stop_rel st d ?d1"
    by (rule stop_rel_same) (use inv acc in \<open>auto simp: stop_tables_eq_def own_triggers_def trigger_inv_def\<close>)
  have inv1: "trigger_inv ?d1" by (rule stop_rel_inv [OF r1 inv])
  then have own1: "own_triggers ?d1" by (simp add: trigger_inv_def)
  obtain g d2 where pg: "persist_stop_guard fk (sk_now sk) ?tg ?rules snapshot pol ?d1 = Inr (g, d2)"
    using run by (auto simp: fire_trigger_def uuid7_draw_def Let_def split: if_splits sum.splits)
  define d3 where "d3 = trigger_upd ?i (\<lambda>t. t\<lparr>sg_guard_evaluation_id := Some (ge_id g)\<rparr>) d2"
  note r2 = persist_stop_guard_rel [OF pg own1]
  have "stop_rel st d2 d3" unfolding d3_def by (rule stop_rel_upd [OF stop_rel_own [OF r2(1)]]) simp
  note r3 = stop_rel_trans [OF r2(1) this]
  have o3: "orders d3 = orders ?d1" by (simp add: d3_def r2(2))
  note k3 = stop_rel_keeps [OF r3 o3 inv1]
  have run': "d' = (if guard_result ?rules = BLOCKED
      then stop_blocked ?tg (blocking_code ?rules)
             (stop_event_input (blocking_code ?rules) kiwoom_account (p_symbol p)
               (trigger_input_record p pol rp stop snapshot (sk_now sk)) (sk_correlation_id sk) snapshot) (sk_now sk) d3
      else stop_passed st ?tg p snapshot stop (sk_correlation_id sk) (sk_now sk) d3)"
    unfolding d3_def using run pg by (auto simp: fire_trigger_def uuid7_draw_def Let_def split: if_splits)
  have "stop_rel st d3 d'"
  proof (cases "guard_result ?rules")
    case PASSED
    have "stop_rel st d3 (stop_passed st ?tg p snapshot stop (sk_correlation_id sk) (sk_now sk) d3)"
      by (rule stop_passed_rel) (use k3 p m acc PASSED in simp_all)
    then show ?thesis using run' PASSED by simp
  next
    case BLOCKED
    then show ?thesis using run' stop_blocked_rel [OF stop_rel_own [OF r3]] by simp
  qed
  then show ?thesis using stop_rel_trans [OF r1 stop_rel_trans [OF r3]] by blast
qed

section \<open>Whole runs\<close>

lemma existing_active_trigger_mem: "existing_active_trigger pid ver pol d = Some tg \<Longrightarrow> tg \<in> set (stop_triggers d)"
  unfolding existing_active_trigger_def by (auto simp: find_Some_iff in_set_conv_nth)

lemma evaluate_rel:
  assumes run: "evaluate_position fk hol st sk p d = Inr d'" and inv: "trigger_inv d" and p: "p \<in> set (positions d)"
  shows "stop_rel st d d'"
proof -
  let ?pol = "map_option cv_id (active_risk_policy d kiwoom_account)" and ?snap = "latest_krx_snapshot d (p_symbol p)"
  obtain rp where rp: "risk_policy_payload (active_risk_policy d kiwoom_account) = Some rp"
    using run by (auto simp: evaluate_position_def Let_def split: option.splits)
  let ?stop = "compute_stop_price (managed_average_price p) (rp_fixed_stop_loss_pct rp)"
  have m: "\<forall>m. ?snap = Some m \<longrightarrow> m \<in> set (market_snapshots d)" using latest_krx_snapshot_mem by blast
  show ?thesis
  proof (cases "existing_active_trigger (p_id p) (p_version p) ?pol d")
    case (Some tg)
    have "re_evaluate_trigger fk hol st (sk_now sk) tg p ?snap rp ?pol ?stop d = Inr d'"
      using run rp Some by (simp add: evaluate_position_def Let_def)
    then show ?thesis
      by (rule re_evaluate_rel [OF _ inv p m])
        (use existing_active_trigger_mem [OF Some] inv in \<open>simp add: trigger_inv_def own_triggers_def\<close>)
  next
    case None
    let ?d1 = "supersede_stale_triggers (p_id p) ?pol (sk_wall sk) d"
    have r1: "stop_rel st d ?d1"
      unfolding supersede_stale_triggers_def by (rule stop_rel_fold_supersede) (use inv in \<open>simp add: trigger_inv_def\<close>)
    have t1: "positions ?d1 = positions d" "market_snapshots ?d1 = market_snapshots d"
      using r1 by (simp_all add: stop_rel_def stop_tables_eq_def)
    have run': "(if should_trigger (Option.bind ?snap m_best_bid_price) ?stop
        then fire_trigger fk hol st sk p ?snap rp ?pol ?stop ?d1 else Inr ?d1) = Inr d'"
      using run rp None by (simp add: evaluate_position_def Let_def)
    show ?thesis
    proof (cases "should_trigger (Option.bind ?snap m_best_bid_price) ?stop")
      case True
      have "stop_rel st ?d1 d'"
        by (rule fire_rel [OF _ stop_rel_inv [OF r1 inv]]) (use run' True t1 p m in auto)
      then show ?thesis by (rule stop_rel_trans [OF r1])
    qed (use run' r1 in simp)
  qed
qed

lemma stop_tables_eq_trans: "stop_tables_eq d d' \<Longrightarrow> stop_tables_eq d' d'' \<Longrightarrow> stop_tables_eq d d''"
  by (simp add: stop_tables_eq_def)

lemma stop_fold_rel:
  assumes "\<And>x e e'. x \<in> set xs \<Longrightarrow> f x e = Inr e' \<Longrightarrow> trigger_inv e \<Longrightarrow> stop_tables_eq d0 e \<Longrightarrow> stop_rel st e e'"
    and "stop_fold f xs d = Inr d'" "trigger_inv d" "stop_tables_eq d0 d"
  shows "stop_rel st d d'"
  using assms
proof (induction xs arbitrary: d)
  case Nil
  then show ?case by (simp add: stop_rel_def stop_tables_eq_def trigger_inv_def)
next
  case (Cons x xs)
  obtain e where e: "f x d = Inr e" "stop_fold f xs e = Inr d'" using Cons.prems(2) by (auto split: sum.splits)
  have r: "stop_rel st d e" using Cons.prems(1) [of x] e Cons.prems(3,4) by simp
  have "stop_rel st e d'"
  proof (rule Cons.IH)
    show "trigger_inv e" by (rule stop_rel_inv [OF r Cons.prems(3)])
    show "stop_tables_eq d0 e" using r Cons.prems(4) stop_tables_eq_trans by (auto simp: stop_rel_def)
  qed (use Cons.prems(1) e in auto)
  then show ?case by (rule stop_rel_trans [OF r])
qed

lemma run_rel:
  assumes "trigger_inv d"
  shows "stop_rel st d (snd (run_fixed_stop_triggers fk hol st sk a d))"
proof (cases "stop_fold (evaluate_position fk hol st sk) (open_positions d a) d")
  case (Inl e)
  then show ?thesis
    using assms by (simp add: run_fixed_stop_triggers_def stop_rel_def stop_tables_eq_def trigger_inv_def)
next
  case (Inr d')
  have "stop_rel st d d'"
  proof (rule stop_fold_rel [OF _ Inr assms])
    fix p e e'
    assume "p \<in> set (open_positions d a)" "evaluate_position fk hol st sk p e = Inr e'" "trigger_inv e" "stop_tables_eq d e"
    then show "stop_rel st e e'" using evaluate_rel by (auto simp: open_positions_def stop_tables_eq_def)
  qed (simp add: stop_tables_eq_def)
  then show ?thesis using Inr by (simp add: run_fixed_stop_triggers_def)
qed

lemma recover_rel:
  assumes "trigger_inv d"
  shows "stop_rel st d (snd (recover_exit_pending fk hol st now kiwoom_account d))"
proof -
  have refl: "stop_rel st d d" using assms by (simp add: stop_rel_def stop_tables_eq_def trigger_inv_def)
  define tgs where "tgs = filter (\<lambda>tg. sg_account_alias tg = kiwoom_account \<and> sg_state tg = ST_EXIT_PENDING) (stop_triggers d)"
  have one: "stop_rel st e e'"
    if "tg \<in> set tgs" "recover_trigger fk hol st now rp pol tg e = Inr e'" "trigger_inv e" "stop_tables_eq d e"
    for tg rp pol e e'
  proof -
    have acc: "sg_account_alias tg = kiwoom_account" and own: "own_triggers e"
      using that by (auto simp: tgs_def trigger_inv_def)
    have m: "\<forall>m. latest_krx_snapshot e (sg_symbol tg) = Some m \<longrightarrow> m \<in> set (market_snapshots e)"
      using latest_krx_snapshot_mem by blast
    show ?thesis
    proof (cases "row_find p_id (sg_position_id tg) (positions e)")
      case None
      then show ?thesis using that(2) stop_rel_supersede [OF own] by (auto simp: recover_trigger_def)
    next
      case (Some p)
      have p: "p \<in> set (positions e)" using row_find_Some [OF Some] by simp
      show ?thesis
        using that(2) Some stop_rel_supersede [OF own] re_evaluate_rel [OF _ that(3) p m acc]
        by (auto simp: recover_trigger_def split: if_splits)
    qed
  qed
  show ?thesis
  proof (cases "gate_ready d kiwoom_account \<and> tgs \<noteq> []")
    case True
    show ?thesis
    proof (cases "risk_policy_payload (active_risk_policy d kiwoom_account)")
      case (Some rp)
      let ?f = "recover_trigger fk hol st now rp (map_option cv_id (active_risk_policy d kiwoom_account))"
      show ?thesis
      proof (cases "stop_fold ?f tgs d")
        case (Inr d')
        have "stop_rel st d d'"
          by (rule stop_fold_rel [OF _ Inr assms]) (use one in \<open>auto simp: stop_tables_eq_def\<close>)
        then show ?thesis using True Some Inr by (simp add: recover_exit_pending_def tgs_def Let_def)
      qed (use True Some refl in \<open>simp add: recover_exit_pending_def tgs_def Let_def\<close>)
    qed (use True refl in \<open>simp add: recover_exit_pending_def tgs_def Let_def\<close>)
  qed (use refl in \<open>auto simp: recover_exit_pending_def tgs_def Let_def\<close>)
qed

section \<open>Foreign keys\<close>

definition no_stop_executions :: "db \<Rightarrow> bool" where
  "no_stop_executions d \<longleftrightarrow>
     (\<forall>tg \<in> set (stop_triggers d). execution_get d (sg_id tg) = None) \<and>
     (\<forall>e \<in> set (decision_executions d). de_id e < uuid_seed d)"

lemma supersede_frame:
  "orders (supersede_trigger r now tg d) = orders d"
  "decision_executions (supersede_trigger r now tg d) = decision_executions d"
  "uuid_seed (supersede_trigger r now tg d) = uuid_seed d"
  "map sg_id (stop_triggers (supersede_trigger r now tg d)) = map sg_id (stop_triggers d)"
  by (simp_all add: supersede_trigger_def row_upd_def)

lemma fold_supersede_frame:
  "orders (fold (supersede_trigger r now) tgs d) = orders d"
  "decision_executions (fold (supersede_trigger r now) tgs d) = decision_executions d"
  "uuid_seed (fold (supersede_trigger r now) tgs d) = uuid_seed d"
  "map sg_id (stop_triggers (fold (supersede_trigger r now) tgs d)) = map sg_id (stop_triggers d)"
  by (induction tgs arbitrary: d) (simp_all add: supersede_frame)

lemma no_stop_executions_cong:
  assumes "no_stop_executions d" "decision_executions d' = decision_executions d" "uuid_seed d' = uuid_seed d"
    "map sg_id (stop_triggers d') = map sg_id (stop_triggers d)"
  shows "no_stop_executions d'"
proof -
  have "sg_id ` set (stop_triggers d') = sg_id ` set (stop_triggers d)"
    using arg_cong [OF assms(4), of set] by simp
  then show ?thesis using assms(1-3) by (force simp: no_stop_executions_def execution_get_def image_def set_eq_iff)
qed

lemma fire_fk:
  assumes "no_stop_executions d"
  shows "fire_trigger True hol st sk p snapshot rp pol stop d = Inl StopIntegrityError"
proof -
  have "row_find de_id (uuid_seed d) (decision_executions d) = None"
    using assms by (auto simp: no_stop_executions_def row_find_None_iff)
  then show ?thesis
    by (simp add: fire_trigger_def uuid7_draw_def persist_stop_guard_def execution_get_def new_trigger_def Let_def)
qed

lemma re_evaluate_fk:
  assumes "no_stop_executions d" "tg \<in> set (stop_triggers d)"
    "re_evaluate_trigger True hol st now tg p snapshot rp pol stop d = Inr d'"
  shows "d' = supersede_trigger ''POSITION_CLOSED'' now tg d"
  using assms
  by (auto simp: re_evaluate_trigger_def persist_stop_guard_def no_stop_executions_def Let_def split: if_splits)

lemma evaluate_fk:
  assumes no: "no_stop_executions d" and run: "evaluate_position True hol st sk p d = Inr d'"
  shows "orders d' = orders d \<and> no_stop_executions d'"
proof -
  have closed: "no_stop_executions (supersede_trigger r now tg d)" for r now tg
    by (rule no_stop_executions_cong [OF no]) (simp_all add: supersede_frame)
  have stale: "no_stop_executions (supersede_stale_triggers pid pol now d)" for pid pol now
    unfolding supersede_stale_triggers_def
    by (rule no_stop_executions_cong [OF no]) (simp_all add: fold_supersede_frame)
  have same: "orders (supersede_stale_triggers pid pol now d) = orders d" for pid pol now
    by (simp add: supersede_stale_triggers_def fold_supersede_frame)
  show ?thesis
    using run closed stale
    by (auto simp: evaluate_position_def Let_def fire_fk [OF stale] supersede_frame same
        dest!: re_evaluate_fk [OF no existing_active_trigger_mem] split: option.splits if_splits)
qed

lemma stop_fold_fk:
  assumes "\<And>x e e'. x \<in> set xs \<Longrightarrow> f x e = Inr e' \<Longrightarrow> P e \<Longrightarrow> orders e' = orders e \<and> P e'"
    and "stop_fold f xs d = Inr d'" "P d"
  shows "orders d' = orders d"
  using assms
proof (induction xs arbitrary: d)
  case (Cons x xs)
  obtain e where e: "f x d = Inr e" "stop_fold f xs e = Inr d'" using Cons.prems(2) by (auto split: sum.splits)
  have k: "orders e = orders d" "P e" using Cons.prems(1) [of x d e] e(1) Cons.prems(3) by simp_all
  have "orders d' = orders e" by (rule Cons.IH [OF _ e(2) k(2)]) (use Cons.prems(1) in auto)
  then show ?case using k(1) by simp
qed simp

lemma run_fk:
  assumes "no_stop_executions d"
  shows "orders (snd (run_fixed_stop_triggers True hol st sk a d)) = orders d"
proof (cases "stop_fold (evaluate_position True hol st sk) (open_positions d a) d")
  case (Inr d')
  have "orders d' = orders d"
    by (rule stop_fold_fk [where P = no_stop_executions, OF _ Inr assms]) (use evaluate_fk in blast)
  then show ?thesis using Inr by (simp add: run_fixed_stop_triggers_def)
qed (simp add: run_fixed_stop_triggers_def)

section \<open>Whose policy\<close>

lemma uuid_text_no_K: "CHR ''K'' \<notin> set (uuid_text n)"
proof (induction n rule: uuid_text.induct)
  case (1 n)
  have "CHR ''K'' \<noteq> char_of (48 + m)" if "m < 10" for m :: nat
  proof
    assume "CHR ''K'' = char_of (48 + m)"
    then have "(of_char CHR ''K'' :: nat) = of_char (char_of (48 + m) :: char)" by simp
    then show False using that by (simp add: of_char_of)
  qed
  note digit = this
  show ?case
    using 1 digit [of n] digit [of "n mod 10"] by (simp add: uuid_text.simps [of n])
qed

lemma uuid_text_not_account: "uuid_text n \<noteq> kiwoom_account"
proof
  assume "uuid_text n = kiwoom_account"
  then show False using uuid_text_no_K [of n] by (simp add: kiwoom_account_def)
qed

definition user_targets :: "db \<Rightarrow> bool" where
  "user_targets d \<longleftrightarrow> (\<forall>v \<in> set (configuration_versions d). \<exists>u. cv_target_id v = uuid_text u)"

lemma user_targets_static:
  assumes "map cv_static (configuration_versions d') = map cv_static (configuration_versions d)" "user_targets d"
  shows "user_targets d'"
proof -
  have "cv_static ` set (configuration_versions d') = cv_static ` set (configuration_versions d)"
    using arg_cong [OF assms(1), of set] by simp
  then have "\<forall>v \<in> set (configuration_versions d'). \<exists>w \<in> set (configuration_versions d). cv_target_id v = cv_target_id w"
    unfolding cv_static_def by (auto simp: image_iff set_eq_iff) blast
  then show ?thesis using assms(2) unfolding user_targets_def by metis
qed

lemma create_user_targets:
  "user_targets d \<Longrightarrow> user_targets (snd (config_create_draft cat cf payload reason d))"
  by (auto simp: user_targets_def config_create_draft_def uuid7_draw_def Let_def)

lemma config_step_targets: "config_step d d' \<Longrightarrow> config_inv d \<Longrightarrow> user_targets d \<Longrightarrow> user_targets d'"
proof (induction rule: config_step.induct)
  case (other d' d)
  then show ?case by (simp add: user_targets_def)
qed (simp_all add: policy_ops create_user_targets user_targets_static validate_static activate_static)

lemma config_steps_targets:
  assumes "configuration_versions d0 = []" "config_step\<^sup>*\<^sup>* d0 d"
  shows "user_targets d \<and> config_inv d"
  using assms(2)
proof (induction rule: rtranclp_induct)
  case base
  then show ?case using fresh_config_inv [OF assms(1)] assms(1) by (simp add: user_targets_def)
next
  case (step y z)
  then show ?case using config_step_targets config_step_inv by blast
qed

lemma account_policy_missing: "user_targets d \<Longrightarrow> active_risk_policy d kiwoom_account = None"
  using uuid_text_not_account
  by (fastforce simp: user_targets_def active_risk_policy_def config_active_def config_of_def find_None_iff)

section \<open>A falling position\<close>

text \<open>Ten managed shares bought at 70000 and quoted at 68500 on a Friday morning.\<close>

definition falling_position :: position where
  "falling_position = \<lparr>p_id = 9, p_account_alias = kiwoom_account, p_symbol = ''005930'', p_quantity = 10,
     p_available_quantity = 10, p_managed_quantity = 10, p_average_price = 70000, p_managed_average_price = 70000,
     p_state = PS_OPEN, p_origin = CRESTA_MANAGED, p_version = 1\<rparr>"

definition falling_tick :: stop_tick where
  "falling_tick = \<lparr>sk_now = 3600000000, sk_wall = 3600000000, sk_correlation_id = ''c''\<rparr>"

definition falling_db :: "decimal \<Rightarrow> db" where
  "falling_db bid = scenario_db\<lparr>positions := [falling_position],
     market_snapshots := [scenario_snapshot\<lparr>m_best_bid_price := Some bid, m_received_at := 3600000000\<rparr>]\<rparr>"

lemma falling_run: "orders (snd (run_fixed_stop_triggers False (\<lambda>_. Some []) (scenario_settings ''MOCK_AUTOMATIC'')
  falling_tick kiwoom_account (falling_db 68500))) \<noteq> []"
  by code_simp

lemma falling_tables [simp]:
  "stop_triggers (falling_db b) = []" "orders (falling_db b) = []" "decision_executions (falling_db b) = []"
  "positions (falling_db b) = [falling_position]" "configuration_versions (falling_db b) = [scenario_version]"
  by (simp_all add: falling_db_def scenario_db_def empty_db_def)

lemma falling_inv: "trigger_inv (falling_db b)" "no_stop_executions (falling_db b)"
  by (simp_all add: trigger_inv_def own_triggers_def remaining_nonneg_def no_stop_executions_def)

section \<open>Properties\<close>

text \<open>For a stop percentage the risk policy admits and an average cost on the four-decimal grid, the
  stop price is never negative and never above the average cost, lies within half a unit of the fourth decimal of
  the exact percentage, and is strictly below the cost as soon as that is more than 0.05; so no quote at
  or above the average cost fires the stop.\<close>
theorem stop_price_bounds:
  assumes pct: "- 20 \<le> pct" "pct \<le> - 1 / 10" and avg: "0 \<le> avg" "quantize4_half_up avg = avg"
  shows "0 \<le> compute_stop_price avg pct \<and> compute_stop_price avg pct \<le> avg \<and>
    \<bar>compute_stop_price avg pct - avg * (1 + pct / 100)\<bar> \<le> 1 / 20000 \<and>
    (1 / 20 < avg \<longrightarrow> compute_stop_price avg pct < avg \<and>
      (\<forall>bid. avg \<le> bid \<longrightarrow> \<not> should_trigger (Some bid) (compute_stop_price avg pct)))"
proof -
  let ?x = "avg * (1 + pct / 100)"
  have f: "0 \<le> 1 + pct / 100" "1 + pct / 100 \<le> 999 / 1000" using pct by (simp_all add: field_simps)
  have x: "0 \<le> ?x" "?x \<le> avg * (999 / 1000)"
    using f(1) avg(1) mult_left_mono [OF f(2) avg(1)] by simp_all
  have near: "\<bar>compute_stop_price avg pct - ?x\<bar> \<le> 1 / 20000"
    unfolding compute_stop_price_def by (rule quantize4_half_up_near)
  have zero: "quantize4_half_up 0 = 0" by code_simp
  have low: "0 \<le> compute_stop_price avg pct"
    using quantize4_half_up_mono [OF x(1)] by (simp add: compute_stop_price_def zero)
  have "?x \<le> avg" using x(2) avg(1) by (simp add: field_simps)
  from quantize4_half_up_mono [OF this] have high: "compute_stop_price avg pct \<le> avg"
    by (simp add: compute_stop_price_def avg(2))
  have "compute_stop_price avg pct < avg" if "1 / 20 < avg"
    using that near x(2) abs_le_iff [of "compute_stop_price avg pct - ?x"] by linarith
  then show ?thesis using low high near by (auto simp: should_trigger_def)
qed

theorem stop_price_bounds_witness:
  "compute_stop_price 70000 (- 2) = 68600 \<and> compute_stop_price 70000 (- 2) < 70000"
proof -
  have "quantize4_half_up 70000 = 70000" "compute_stop_price 70000 (- 2) = 68600" by code_simp+
  then show ?thesis using stop_price_bounds [of "- 2" 70000] by simp
qed

text \<open>C17. A run over the open positions and a recovery of pending exits leave positions, gates,
  market data and configuration alone and touch the order book only by appending orders that the stop may place: a
  SELL, still CREATED and unfilled, in an order-enabled stage under a READY gate, for exactly the
  positive managed quantity of an open position of that symbol that the broker reports as available,
  limited at the best bid of a stored quote whose instrument trades.\<close>
theorem stop_orders_managed_only:
  assumes "trigger_inv d"
  shows "stop_rel st d (snd (run_fixed_stop_triggers fk hol st sk a d)) \<and>
    stop_rel st d (snd (recover_exit_pending fk hol st now kiwoom_account d))"
  using run_rel [OF assms] recover_rel [OF assms] by blast

theorem stop_orders_managed_only_witness:
  "\<exists>od \<in> set (orders (snd (run_fixed_stop_triggers False (\<lambda>_. Some []) (scenario_settings ''MOCK_AUTOMATIC'')
     falling_tick kiwoom_account (falling_db 68500)))).
     stop_order_ok (scenario_settings ''MOCK_AUTOMATIC'') (falling_db 68500) od \<and> o_requested_quantity od = 10"
proof -
  let ?st = "scenario_settings ''MOCK_AUTOMATIC''"
  let ?d' = "snd (run_fixed_stop_triggers False (\<lambda>_. Some []) ?st falling_tick kiwoom_account (falling_db 68500))"
  have "stop_rel ?st (falling_db 68500) ?d'" using stop_orders_managed_only [OF falling_inv(1)] by blast
  then have all: "\<forall>od \<in> set (orders ?d'). stop_order_ok ?st (falling_db 68500) od" by (auto simp: stop_rel_def)
  obtain od where od: "od \<in> set (orders ?d')" using falling_run by (cases "orders ?d'") auto
  then have "o_requested_quantity od = 10" using all by (auto simp: stop_order_ok_def falling_position_def)
  then show ?thesis using od all by blast
qed

lemma recover_fk:
  assumes "no_stop_executions d"
  shows "orders (snd (recover_exit_pending True hol st now a d)) = orders d"
proof -
  have closed: "no_stop_executions (supersede_trigger r now tg e)" if "no_stop_executions e" for r tg e
    by (rule no_stop_executions_cong [OF that]) (simp_all add: supersede_frame)
  have one: "orders e' = orders e \<and> no_stop_executions e' \<and> sg_id ` set (stop_triggers e') = sg_id ` set (stop_triggers e)"
    if "sg_id tg \<in> sg_id ` set (stop_triggers e)" "recover_trigger True hol st now rp pol tg e = Inr e'" "no_stop_executions e"
    for tg e e' rp pol
  proof -
    note mem = that(1)
    obtain s where s: "s \<in> set (stop_triggers e)" "sg_id s = sg_id tg" using mem unfolding image_iff by force
    have "execution_get e (sg_id s) = None" using that(3) s(1) unfolding no_stop_executions_def by blast
    then have "execution_get e (sg_id tg) = None" using s(2) by simp
    then have "e' = supersede_trigger ''POSITION_CLOSED'' now tg e"
      using that(2) by (auto simp: recover_trigger_def re_evaluate_trigger_def persist_stop_guard_def Let_def
          split: option.splits if_splits)
    moreover have "sg_id ` set (stop_triggers (supersede_trigger ''POSITION_CLOSED'' now tg e)) = sg_id ` set (stop_triggers e)"
      using arg_cong [OF supersede_frame(4) [of _ now tg e], of set] by simp
    ultimately show ?thesis using closed [OF that(3)] by (simp add: supersede_frame)
  qed
  define P where "P e \<longleftrightarrow> no_stop_executions e \<and> sg_id ` set (stop_triggers e) = sg_id ` set (stop_triggers d)" for e
  have "orders d' = orders d"
    if "stop_fold (recover_trigger True hol st now rp pol) (filter Q (stop_triggers d)) d = Inr d'" for rp pol Q d'
  proof (rule stop_fold_fk [where P = P, OF _ that])
    show "P d" using assms by (simp add: P_def)
  next
    fix tg e e'
    assume "tg \<in> set (filter Q (stop_triggers d))" and run: "recover_trigger True hol st now rp pol tg e = Inr e'" and P: "P e"
    then have "sg_id tg \<in> sg_id ` set (stop_triggers e)" unfolding P_def by simp
    from one [OF this run] P show "orders e' = orders e \<and> P e'" unfolding P_def by simp
  qed
  then show ?thesis by (auto simp: recover_exit_pending_def Let_def split: option.split sum.split)
qed

text \<open>C18. On a database that enforces foreign keys the stop never sells: as long as no decision execution
  carries the id of a trigger (ids are fresh), neither a run nor a recovery adds an order, and a run over a single
  position whose quote is at or below the stop price fails with an integrity error and is rolled
  back, because its guard evaluation row names the trigger as its decision execution.\<close>
theorem stop_never_sells_with_foreign_keys:
  assumes "no_stop_executions d"
  shows "orders (snd (run_fixed_stop_triggers True hol st sk a d)) = orders d \<and>
    orders (snd (recover_exit_pending True hol st now a d)) = orders d \<and>
    (\<forall>p rp rv. open_positions d a = [p] \<and> active_risk_policy d kiwoom_account = rv \<and> risk_policy_payload rv = Some rp \<and>
      existing_active_trigger (p_id p) (p_version p) (map_option cv_id rv) d = None \<and>
      should_trigger (Option.bind (latest_krx_snapshot d (p_symbol p)) m_best_bid_price)
        (compute_stop_price (managed_average_price p) (rp_fixed_stop_loss_pct rp)) \<longrightarrow>
      run_fixed_stop_triggers True hol st sk a d = (Inl StopIntegrityError, d))"
proof -
  have "no_stop_executions (supersede_stale_triggers pid pol w d)" for pid pol w
    unfolding supersede_stale_triggers_def
    by (rule no_stop_executions_cong [OF assms]) (simp_all add: fold_supersede_frame)
  then show ?thesis
    using run_fk [OF assms] recover_fk [OF assms] fire_fk
    by (simp add: run_fixed_stop_triggers_def evaluate_position_def Let_def)
qed

theorem stop_never_sells_with_foreign_keys_witness:
  "run_fixed_stop_triggers True (\<lambda>_. Some []) (scenario_settings ''MOCK_AUTOMATIC'') falling_tick kiwoom_account
     (falling_db 68500) = (Inl StopIntegrityError, falling_db 68500)"
proof -
  have "open_positions (falling_db 68500) kiwoom_account = [falling_position]"
    "active_risk_policy (falling_db 68500) kiwoom_account = None"
    "existing_active_trigger 9 1 None (falling_db 68500) = None"
    "should_trigger (Option.bind (latest_krx_snapshot (falling_db 68500) ''005930'') m_best_bid_price)
       (compute_stop_price 70000 (- 2))"
    by (simp add: open_positions_def falling_position_def) code_simp+
  then show ?thesis
    using stop_never_sells_with_foreign_keys [OF falling_inv(2), of "\<lambda>_. Some []" "scenario_settings ''MOCK_AUTOMATIC''" falling_tick
        kiwoom_account 68500 0]
    by (simp add: falling_position_def risk_policy_payload_def safe_default_risk_policy_def managed_average_price_def
        managed_quantity_def)
qed

text \<open>The stop percentage a user configures is never used: in every database the policy operations can
  produce, the stop reads the policy of the account alias, finds none and falls back to the default of -2 percent, so
  a quote above that default stop fires nothing, whatever stop the user's active policy sets.\<close>
theorem user_stop_policy_ignored:
  assumes reach: "configuration_versions d0 = []" "config_step\<^sup>*\<^sup>* d0 d"
    and none: "existing_active_trigger (p_id p) (p_version p) None d = None"
    and bid: "\<And>b. Option.bind (latest_krx_snapshot d (p_symbol p)) m_best_bid_price = Some b \<Longrightarrow>
      compute_stop_price (managed_average_price p) (- 2) < b"
  shows "evaluate_position fk hol st sk p d = Inr (supersede_stale_triggers (p_id p) None (sk_wall sk) d)"
proof -
  have rv: "active_risk_policy d kiwoom_account = None"
    using config_steps_targets [OF reach] account_policy_missing by blast
  have "\<not> should_trigger (Option.bind (latest_krx_snapshot d (p_symbol p)) m_best_bid_price)
      (compute_stop_price (managed_average_price p) (- 2))"
    using bid by (auto simp: should_trigger_def split: option.split)
  then show ?thesis
    using none by (simp add: evaluate_position_def rv risk_policy_payload_def safe_default_risk_policy_def Let_def)
qed

definition tight_policy :: risk_policy where
  "tight_policy = safe_default_risk_policy\<lparr>rp_fixed_stop_loss_pct := - 1\<rparr>"

lemma tight_policy_reached:
  obtains d where "config_step\<^sup>*\<^sup>* empty_db d" "risk_policy_payload (active_risk_policy d (uuid_text 7)) = Some tight_policy"
    "stop_triggers d = []" "market_stream_states d = market_stream_states scenario_db"
    "market_snapshots d = market_snapshots (falling_db 69000)"
proof -
  have inv: "config_inv empty_db" by (rule fresh_config_inv) (simp add: empty_db_def)
  have valid: "risk_policy_valid tight_policy"
    by (simp add: risk_policy_valid_def tight_policy_def safe_default_risk_policy_def)
  have reason: "str_strip ''r'' \<noteq> []" by code_simp
  obtain v d1 v2 d2 v3 d3 where
    op: "create_risk_draft demo_config_call tight_policy ''r'' empty_db = (Inr v, d1)"
      "validate_risk_draft demo_config_call (cv_id v) d1 = (Inr v2, d2)"
      "activate_risk_version demo_config_call (cv_id v) d2 = (Inr v3, d3)"
    and act: "config_active ''RISK_POLICY'' d3 (uuid_text (cf_user demo_config_call)) = Some v3"
      "risk_policy_of_json (cv_payload_json v3) = Some tight_policy"
    unfolding create_risk_draft_def validate_risk_draft_def activate_risk_version_def
    by (rule risk_config.lifecycle [OF inv valid reason refl, of demo_config_call]) blast
  let ?d = "d3\<lparr>stop_triggers := [], market_stream_states := market_stream_states scenario_db,
    market_snapshots := market_snapshots (falling_db 69000)\<rparr>"
  have steps: "config_step empty_db d1" "config_step d1 d2" "config_step d2 d3" "config_step d3 ?d"
    using config_step.risk_draft [of empty_db demo_config_call tight_policy "''r''"]
      config_step.risk_validate [of d1 demo_config_call "cv_id v"]
      config_step.risk_activate [of d2 demo_config_call "cv_id v"] op config_step.other [of ?d d3] by simp_all
  have reach: "config_step\<^sup>*\<^sup>* empty_db ?d"
    using steps by (meson converse_rtranclp_into_rtranclp rtranclp.rtrancl_refl)
  show ?thesis
    by (rule that [OF reach]) (use act in \<open>simp_all add: active_risk_policy_def config_active_def risk_policy_payload_def demo_config_call_def\<close>)
qed

theorem user_stop_policy_ignored_witness:
  "\<exists>d rp. risk_policy_payload (active_risk_policy d (uuid_text 7)) = Some rp \<and>
     should_trigger (Some 69000) (compute_stop_price (managed_average_price falling_position) (rp_fixed_stop_loss_pct rp)) \<and>
     Option.bind (latest_krx_snapshot d ''005930'') m_best_bid_price = Some 69000 \<and>
     evaluate_position False (\<lambda>_. Some []) (scenario_settings ''MOCK_AUTOMATIC'') falling_tick falling_position d = Inr d"
proof -
  obtain d where reach: "config_step\<^sup>*\<^sup>* empty_db d"
    and pol: "risk_policy_payload (active_risk_policy d (uuid_text 7)) = Some tight_policy"
    and t: "stop_triggers d = []" "market_stream_states d = market_stream_states scenario_db"
      "market_snapshots d = market_snapshots (falling_db 69000)" by (rule tight_policy_reached)
  have snap: "Option.bind (latest_krx_snapshot d ''005930'') m_best_bid_price = Some 69000"
    by (simp add: latest_krx_snapshot_def stream_get_def snapshot_get_def t scenario_db_def falling_db_def scenario_snapshot_def)
  have price: "compute_stop_price 70000 (- 2) < 69000"
    "should_trigger (Some 69000) (compute_stop_price (managed_average_price falling_position) (rp_fixed_stop_loss_pct tight_policy))"
    "managed_average_price falling_position = 70000" "p_symbol falling_position = ''005930''"
    by code_simp+
  have ev: "evaluate_position False (\<lambda>_. Some []) (scenario_settings ''MOCK_AUTOMATIC'') falling_tick falling_position d =
      Inr (supersede_stale_triggers (p_id falling_position) None (sk_wall falling_tick) d)"
    by (rule user_stop_policy_ignored [OF _ reach])
      (use t snap price in \<open>simp_all add: existing_active_trigger_def empty_db_def\<close>)
  then show ?thesis using pol price snap t(1) by (auto simp: supersede_stale_triggers_def)
qed

end
