(* ===== verification/Account_Projection.thy ===== *)
theory Account_Projection
  imports Worker_Lease "HOL-Library.AList" "HOL-Library.Product_Lexorder"
begin

text \<open>
  \<open>app/account_projection.py\<close>: projection of a broker account snapshot onto orders, fills and
  positions. The sessions of the backend are created with \<open>autoflush=False\<close>, so a query does not
  see rows that were added or changed since the last flush: \<open>px_flushed\<close> is what queries read,
  \<open>px_db\<close> what the mapped objects hold, and a flush makes them equal or raises when a constraint of
  the ledger tables is violated. \<open>hx\<close> is the hexadecimal SHA-256 of a document.
\<close>

section \<open>The broker snapshot\<close>

record broker_open_order =
  bo_broker_order_id :: string
  bo_symbol :: string
  bo_side :: string
  bo_requested_quantity :: int
  bo_filled_quantity :: int
  bo_remaining_quantity :: int
  bo_limit_price :: "decimal option"
  bo_order_time :: string
  bo_market :: string

record broker_fill_summary =
  bf_broker_order_id :: string
  bf_symbol :: string
  bf_side :: string
  bf_quantity :: int
  bf_price :: decimal
  bf_fee :: decimal
  bf_tax :: decimal
  bf_order_time :: string
  bf_market :: string

record broker_position =
  bp_symbol :: string
  bp_quantity :: int
  bp_available_quantity :: int
  bp_average_price :: decimal
  bp_market :: string

record account_snapshot =
  as_open_orders :: "broker_open_order list"
  as_fills :: "broker_fill_summary list"
  as_positions :: "broker_position list"
  as_observed_at :: instant

datatype projection_error = AccountProjectionError string | ProjectionIntegrityError

record projection_result =
  pj_imported_orders :: int
  pj_updated_orders :: int
  pj_imported_fills :: int
  pj_imported_positions :: int
  pj_updated_positions :: int
  pj_closed_positions :: int

record projection_call =
  pc_run_id :: uuid
  pc_correlation_id :: string
  pc_wall :: instant   \<comment> \<open>the clock behind \<open>created_at\<close>\<close>

record projection_session =
  px_flushed :: db
  px_db :: db
  px_orders :: "(string \<times> uuid) list"   \<comment> \<open>the dict of orders by broker id\<close>
  px_occurrences :: "(json \<times> int) list"
  px_counts :: projection_result

section \<open>Session\<close>

definition ledger_ck :: "db \<Rightarrow> bool" where
  "ledger_ck d \<longleftrightarrow>
     list_all order_intent_ck (order_intents d) \<and>
     list_all trading_order_ck (orders d) \<and> distinct (map o_idempotency_key (orders d)) \<and>
     distinct (map (\<lambda>r. (o_environment r, o_account_alias r, o_broker_order_id r))
       (filter (\<lambda>r. o_broker_order_id r \<noteq> None) (orders d))) \<and>
     list_all fill_ck (fills d) \<and> distinct (map f_broker_fill_key (fills d)) \<and>
     list_all position_ck (positions d) \<and> distinct (map p_key (positions d)) \<and>
     distinct (map (\<lambda>e. (oe_source e, oe_source_key e)) (order_events d))"

definition px_flush :: "projection_session \<Rightarrow> projection_error + projection_session" where
  "px_flush s = (if ledger_ck (px_db s) then Inr (s\<lparr>px_flushed := px_db s\<rparr>) else Inl ProjectionIntegrityError)"

primrec try_fold :: "('x \<Rightarrow> 's \<Rightarrow> 'e + 's) \<Rightarrow> 'x list \<Rightarrow> 's \<Rightarrow> 'e + 's" where
  "try_fold f [] s = Inr s"
| "try_fold f (x # xs) s = (case f x s of Inl e \<Rightarrow> Inl e | Inr s' \<Rightarrow> try_fold f xs s')"

definition bump :: "((int \<Rightarrow> int) \<Rightarrow> projection_result \<Rightarrow> projection_result) \<Rightarrow> projection_session \<Rightarrow> projection_session" where
  "bump field s = s\<lparr>px_counts := field (\<lambda>n. n + 1) (px_counts s)\<rparr>"

section \<open>Events\<close>

definition broker_order_payload :: "broker_open_order \<Rightarrow> json" where
  "broker_order_payload b =
     JObj [(''broker_order_id'', JStr (bo_broker_order_id b)), (''filled_quantity'', JInt (bo_filled_quantity b)),
       (''limit_price'', json_opt JDec (bo_limit_price b)), (''market'', JStr (bo_market b)),
       (''order_time'', JStr (bo_order_time b)), (''remaining_quantity'', JInt (bo_remaining_quantity b)),
       (''requested_quantity'', JInt (bo_requested_quantity b)), (''side'', JStr (bo_side b)),
       (''symbol'', JStr (bo_symbol b))]"

definition projection_event_key :: "(json \<Rightarrow> string) \<Rightarrow> trading_order \<Rightarrow> string \<Rightarrow> json \<Rightarrow> string" where
  "projection_event_key hx od ty payload =
     (case o_broker_order_id od of None \<Rightarrow> ''None'' | Some b \<Rightarrow> b) @ '':'' @ ty @ '':'' @ take 32 (hx payload)"

definition add_order_event ::
  "(json \<Rightarrow> string) \<Rightarrow> trading_order \<Rightarrow> string \<Rightarrow> json \<Rightarrow> instant \<Rightarrow> string \<Rightarrow> projection_session \<Rightarrow> projection_session" where
  "add_order_event hx od ty payload at_time cid s =
     (let key = projection_event_key hx od ty payload
      in if list_ex (\<lambda>e. oe_source e = ''KIWOOM_RECONCILE'' \<and> oe_source_key e = key) (order_events (px_flushed s)) then s
         else
           (let (i, d) = uuid7_draw (px_db s)
            in s\<lparr>px_db := d\<lparr>order_events := order_events d @
                 [\<lparr>oe_id = i, oe_order_id = o_id od, oe_event_type = ty, oe_source = ''KIWOOM_RECONCILE'',
                   oe_source_key = key, oe_payload_hash = Sha256 payload, oe_payload_json = payload,
                   oe_correlation_id = cid, oe_occurred_at = at_time\<rparr>]\<rparr>\<rparr>))"

definition projected_position_json :: "position \<Rightarrow> json" where
  "projected_position_json p =
     JObj [(''available_quantity'', JInt (p_available_quantity p)), (''average_price'', JDec (p_average_price p)),
       (''external_quantity'', JInt (p_quantity p - p_managed_quantity p)),
       (''managed_average_price'', JDec (p_managed_average_price p)),
       (''managed_quantity'', JInt (p_managed_quantity p)),
       (''origin'', JStr (case p_origin p of CRESTA_MANAGED \<Rightarrow> ''CRESTA_MANAGED'' | EXTERNAL \<Rightarrow> ''EXTERNAL'' | MIXED \<Rightarrow> ''MIXED'')),
       (''quantity'', JInt (p_quantity p)), (''state'', JStr (if p_state p = PS_OPEN then ''OPEN'' else ''CLOSED'')),
       (''symbol'', JStr (p_symbol p))]"

definition add_position_event :: "projection_call \<Rightarrow> position \<Rightarrow> json \<Rightarrow> projection_session \<Rightarrow> projection_session" where
  "add_position_event pc p prior s =
     (let (i, d) = uuid7_draw (px_db s)
      in s\<lparr>px_db := d\<lparr>position_events := position_events d @
           [\<lparr>pe_id = i, pe_position_id = p_id p, pe_cause_type = ''RECONCILIATION'', pe_cause_id = pc_run_id pc,
             pe_before_json = prior, pe_after_json = projected_position_json p,
             pe_correlation_id = pc_correlation_id pc\<rparr>]\<rparr>\<rparr>)"

section \<open>Open orders\<close>

definition orders_by_broker_id :: "db \<Rightarrow> (string \<times> uuid) list" where
  "orders_by_broker_id d =
     fold (\<lambda>r m. case o_broker_order_id r of None \<Rightarrow> m | Some b \<Rightarrow> if b = [] then m else AList.update b (o_id r) m)
       (filter (\<lambda>r. o_account_alias r = kiwoom_account \<and> o_environment r = ''MOCK'') (orders d)) []"

definition px_order :: "projection_session \<Rightarrow> string \<Rightarrow> trading_order option" where
  "px_order s b = Option.bind (map_of (px_orders s) b) (order_get (px_db s))"

definition put_order :: "trading_order \<Rightarrow> projection_session \<Rightarrow> projection_session" where
  "put_order r s = s\<lparr>px_db := (px_db s)\<lparr>orders := row_upd o_id (o_id r) (\<lambda>_. r) (orders (px_db s))\<rparr>\<rparr>"

definition order_state ::
  "trading_order \<Rightarrow> (string \<times> string \<times> string \<times> string \<times> decimal option) \<times> (int \<times> int \<times> int \<times> int \<times> order_status)" where
  "order_state r =
     ((o_symbol r, o_market r, o_side r, o_order_type r, o_limit_price r),
      (o_requested_quantity r, o_filled_quantity r, o_cancelled_quantity r, o_remaining_quantity r, o_status r))"

definition broker_cancelled :: "broker_open_order \<Rightarrow> int" where
  "broker_cancelled b = bo_requested_quantity b - bo_filled_quantity b - bo_remaining_quantity b"

definition broker_quantities_ok :: "broker_open_order \<Rightarrow> bool" where
  "broker_quantities_ok b \<longleftrightarrow>
     0 < bo_requested_quantity b \<and> 0 \<le> min (bo_filled_quantity b) (min (bo_remaining_quantity b) (broker_cancelled b))"

definition imported_order ::
  "broker_open_order \<Rightarrow> instant \<Rightarrow> instant \<Rightarrow> string \<Rightarrow> uuid \<Rightarrow> uuid \<Rightarrow> uuid \<Rightarrow> uuid \<Rightarrow> trading_order" where
  "imported_order b observed wall cid i client intent grp =
     \<lparr>o_id = i, o_intent_id = intent, o_order_group_id = grp, o_parent_order_id = None,
      o_account_alias = kiwoom_account, o_environment = ''MOCK'', o_symbol = bo_symbol b, o_market = bo_market b,
      o_side = bo_side b, o_order_type = (if bo_limit_price b \<noteq> None then ''LIMIT'' else ''MARKET''),
      o_limit_price = bo_limit_price b, o_requested_quantity = bo_requested_quantity b,
      o_filled_quantity = bo_filled_quantity b, o_cancelled_quantity = broker_cancelled b,
      o_remaining_quantity = bo_remaining_quantity b,
      o_status = (if bo_filled_quantity b \<noteq> 0 then OS_PARTIALLY_FILLED else OS_OPEN),
      o_client_order_id = client,
      o_idempotency_key = ''broker-import:MOCK:'' @ kiwoom_account @ '':'' @ bo_broker_order_id b,
      o_request_hash = Sha256 (broker_order_payload b), o_broker_order_id = Some (bo_broker_order_id b),
      o_replacement_sequence = 0, o_unfilled_policy = ''NONE'', o_fill_timeout_seconds = 0,
      o_max_reprice_attempts = 0, o_reprice_attempts = 0, o_next_action_at = None,
      o_trading_date = kst_date observed, o_correlation_id = cid, o_version = 1, o_created_at = wall\<rparr>"

definition imported_intent :: "broker_open_order \<Rightarrow> string \<Rightarrow> uuid \<Rightarrow> uuid \<Rightarrow> order_intent" where
  "imported_intent b cid i grp =
     \<lparr>i_id = i, i_order_group_id = grp, i_account_alias = kiwoom_account, i_environment = ''MOCK'',
      i_symbol = bo_symbol b, i_market = bo_market b, i_side = bo_side b, i_action = ''BROKER_IMPORTED'',
      i_requested_quantity = bo_requested_quantity b, i_correlation_id = cid, i_version = 1\<rparr>"

definition import_open_order ::
  "(json \<Rightarrow> string) \<Rightarrow> projection_call \<Rightarrow> instant \<Rightarrow> broker_open_order \<Rightarrow> projection_session \<Rightarrow>
     projection_error + projection_session" where
  "import_open_order hx pc observed b s =
     (if \<not> broker_quantities_ok b then Inl (AccountProjectionError ''Invalid broker open-order quantities'')
      else
        (let (intent, d1) = uuid7_draw (px_db s);
             (grp, d2) = uuid7_draw d1;
             d3 = d2\<lparr>order_intents := order_intents d2 @ [imported_intent b (pc_correlation_id pc) intent grp]\<rparr>
         in case px_flush (s\<lparr>px_db := d3\<rparr>) of
              Inl e \<Rightarrow> Inl e
            | Inr s1 \<Rightarrow>
                (let (i, d4) = uuid7_draw (px_db s1);
                     (client, d5) = uuid7_draw d4;
                     row = imported_order b observed (pc_wall pc) (pc_correlation_id pc) i client intent grp
                 in case px_flush (s1\<lparr>px_db := d5\<lparr>orders := orders d5 @ [row]\<rparr>\<rparr>) of
                      Inl e \<Rightarrow> Inl e
                    | Inr s2 \<Rightarrow>
                        Inr ((add_order_event hx row ''BROKER_ORDER_IMPORTED'' (broker_order_payload b) observed
                          (pc_correlation_id pc) s2)\<lparr>px_orders := AList.update (bo_broker_order_id b) i (px_orders s2)\<rparr>))))"

definition projected_order :: "broker_open_order \<Rightarrow> trading_order \<Rightarrow> trading_order" where
  "projected_order b r =
     r\<lparr>o_symbol := bo_symbol b, o_market := bo_market b, o_side := bo_side b,
       o_order_type := (if bo_limit_price b \<noteq> None then ''LIMIT'' else ''MARKET''),
       o_limit_price := bo_limit_price b, o_requested_quantity := bo_requested_quantity b,
       o_filled_quantity := bo_filled_quantity b, o_cancelled_quantity := broker_cancelled b,
       o_remaining_quantity := bo_remaining_quantity b,
       o_status := (if bo_filled_quantity b \<noteq> 0 then OS_PARTIALLY_FILLED else OS_OPEN)\<rparr>"

text \<open>\<open>order.version += 1\<close> when the compared columns changed.\<close>

definition versioned :: "trading_order \<Rightarrow> trading_order \<Rightarrow> trading_order" where
  "versioned r r' = (if order_state r' \<noteq> order_state r then r'\<lparr>o_version := o_version r + 1\<rparr> else r')"

text \<open>Store the new attributes; when compared columns changed, append the event and count the update.\<close>

definition store_order ::
  "(json \<Rightarrow> string) \<Rightarrow> projection_call \<Rightarrow> instant \<Rightarrow> string \<Rightarrow> json \<Rightarrow> trading_order \<Rightarrow> trading_order \<Rightarrow>
     projection_session \<Rightarrow> projection_session" where
  "store_order hx pc observed ty payload r r' s =
     (let s1 = put_order (versioned r r') s
      in if order_state r' \<noteq> order_state r
         then bump pj_updated_orders_update (add_order_event hx r' ty payload observed (pc_correlation_id pc) s1) else s1)"

definition project_open_order ::
  "(json \<Rightarrow> string) \<Rightarrow> projection_call \<Rightarrow> instant \<Rightarrow> broker_open_order \<Rightarrow> projection_session \<Rightarrow>
     projection_error + projection_session" where
  "project_open_order hx pc observed b s =
     (case px_order s (bo_broker_order_id b) of
        None \<Rightarrow> map_sum id (bump pj_imported_orders_update) (import_open_order hx pc observed b s)
      | Some r \<Rightarrow>
          if \<not> broker_quantities_ok b then Inl (AccountProjectionError ''Invalid broker open-order quantities'')
          else Inr (store_order hx pc observed ''BROKER_ORDER_PROJECTED'' (broker_order_payload b) r (projected_order b r) s))"

section \<open>Fills\<close>

definition fill_totals :: "broker_fill_summary list \<Rightarrow> (string \<times> int) list" where
  "fill_totals fs =
     fold (\<lambda>f m. AList.update (bf_broker_order_id f)
       ((case map_of m (bf_broker_order_id f) of None \<Rightarrow> 0 | Some n \<Rightarrow> n) + bf_quantity f) m) fs []"

definition overfilled_order_ids :: "(string \<times> int) list \<Rightarrow> projection_session \<Rightarrow> string list" where
  "overfilled_order_ids totals s =
     map fst (filter (\<lambda>(b, tot). case px_order s b of None \<Rightarrow> False | Some r \<Rightarrow> o_requested_quantity r < tot) totals)"

definition str_zfill :: "nat \<Rightarrow> string \<Rightarrow> string" where
  "str_zfill n s =
     (let pad = replicate (n - length s) (CHR ''0'')
      in case s of c # cs \<Rightarrow> if c = CHR ''+'' \<or> c = CHR ''-'' then c # pad @ cs else pad @ s | [] \<Rightarrow> pad)"

definition last6 :: "string \<Rightarrow> string" where
  "last6 s = drop (length s - 6) s"

definition digit_value :: "char \<Rightarrow> int" where
  "digit_value c = int (of_char c :: nat) - 48"

text \<open>\<open>int\<close> of a text of two characters.\<close>

definition int_of_pair :: "char \<Rightarrow> char \<Rightarrow> int option" where
  "int_of_pair a b =
     (if is_digit a \<and> is_digit b then Some (10 * digit_value a + digit_value b)
      else if (is_ws a \<or> a = CHR ''+'') \<and> is_digit b then Some (digit_value b)
      else if a = CHR ''-'' \<and> is_digit b then Some (- digit_value b)
      else if is_digit a \<and> is_ws b then Some (digit_value a)
      else None)"

definition broker_time :: "instant \<Rightarrow> string \<Rightarrow> projection_error + instant" where
  "broker_time observed raw =
     (case last6 (str_zfill 6 (str_strip raw)) of
        [a, b, c, d, e, f] \<Rightarrow>
          (case (int_of_pair a b, int_of_pair c d, int_of_pair e f) of
             (Some h, Some m, Some sec) \<Rightarrow>
               if 0 \<le> h \<and> h < 24 \<and> 0 \<le> m \<and> m < 60 \<and> 0 \<le> sec \<and> sec < 60
               then Inr (kst_date observed * seconds 86400 + seconds (h * 3600 + m * 60 + sec) - kst_offset)
               else Inl (AccountProjectionError ''Invalid broker order time'')
           | _ \<Rightarrow> Inl (AccountProjectionError ''Invalid broker order time''))
      | _ \<Rightarrow> Inl (AccountProjectionError ''Invalid broker order time''))"

definition fill_identity :: "broker_fill_summary \<Rightarrow> json" where
  "fill_identity f =
     JObj [(''broker_order_id'', JStr (bf_broker_order_id f)), (''fee'', JDec (bf_fee f)),
       (''market'', JStr (bf_market f)), (''order_time'', JStr (bf_order_time f)), (''price'', JDec (bf_price f)),
       (''quantity'', JInt (bf_quantity f)), (''side'', JStr (bf_side f)), (''symbol'', JStr (bf_symbol f)),
       (''tax'', JDec (bf_tax f))]"

text \<open>The text of the identity inside the hashed document is represented by the identity itself.\<close>

definition broker_fill_key :: "(json \<Rightarrow> string) \<Rightarrow> json \<Rightarrow> int \<Rightarrow> string" where
  "broker_fill_key hx identity occurrence =
     ''kiwoom:'' @ hx (JObj [(''identity'', identity), (''occurrence'', JInt occurrence)])"

definition occurrence_of :: "projection_session \<Rightarrow> json \<Rightarrow> int" where
  "occurrence_of s base = (case map_of (px_occurrences s) base of None \<Rightarrow> 0 | Some n \<Rightarrow> n)"

definition project_fill ::
  "(json \<Rightarrow> string) \<Rightarrow> instant \<Rightarrow> string list \<Rightarrow> broker_fill_summary \<Rightarrow> projection_session \<Rightarrow>
     projection_error + projection_session" where
  "project_fill hx observed overfilled f s =
     (case px_order s (bf_broker_order_id f) of
        None \<Rightarrow> Inr s
      | Some r \<Rightarrow>
          if bf_broker_order_id f \<in> set overfilled then Inr s
          else
            (let base = fill_identity f;
                 s1 = s\<lparr>px_occurrences := AList.update base (occurrence_of s base + 1) (px_occurrences s)\<rparr>;
                 key = broker_fill_key hx base (occurrence_of s base)
             in if list_ex (\<lambda>x. f_broker_fill_key x = key) (fills (px_flushed s)) then Inr s1
                else case broker_time observed (bf_order_time f) of
                  Inl e \<Rightarrow> Inl e
                | Inr t \<Rightarrow>
                    (let (i, d) = uuid7_draw (px_db s1)
                     in Inr (bump pj_imported_fills_update (s1\<lparr>px_db := d\<lparr>fills := fills d @
                          [\<lparr>f_id = i, f_order_id = o_id r, f_broker_fill_key = key, f_quantity = bf_quantity f,
                            f_price = bf_price f, f_fee = bf_fee f, f_tax = bf_tax f, f_filled_at = t\<rparr>]\<rparr>\<rparr>)))))"

definition filled_order :: "int \<Rightarrow> trading_order \<Rightarrow> trading_order" where
  "filled_order tot r =
     (if tot = o_requested_quantity r
      then r\<lparr>o_filled_quantity := tot, o_cancelled_quantity := 0, o_remaining_quantity := 0, o_status := OS_FILLED,
             o_next_action_at := None\<rparr>
      else if 0 < tot
      then r\<lparr>o_filled_quantity := tot, o_cancelled_quantity := 0,
             o_remaining_quantity := o_requested_quantity r - tot, o_status := OS_RECONCILING\<rparr>
      else r)"

definition project_fill_total ::
  "(json \<Rightarrow> string) \<Rightarrow> projection_call \<Rightarrow> instant \<Rightarrow> string list \<Rightarrow> string \<times> int \<Rightarrow> projection_session \<Rightarrow>
     projection_session" where
  "project_fill_total hx pc observed open_ids bt s =
     (case px_order s (fst bt) of
        None \<Rightarrow> s
      | Some r \<Rightarrow>
          if fst bt \<in> set open_ids \<or> o_requested_quantity r < snd bt \<or> o_status r = OS_CANCEL_PENDING then s
          else store_order hx pc observed ''BROKER_FILL_PROJECTED''
                 (JObj [(''broker_order_id'', JStr (fst bt)), (''filled_quantity'', JInt (snd bt))])
                 r (filled_order (snd bt) r) s)"

definition cancelled_order :: "int \<Rightarrow> trading_order \<Rightarrow> trading_order" where
  "cancelled_order tot r =
     r\<lparr>o_filled_quantity := tot, o_remaining_quantity := 0, o_cancelled_quantity := o_requested_quantity r - tot,
       o_status := (if tot = o_requested_quantity r then OS_FILLED else OS_CANCELLED), o_next_action_at := None\<rparr>"

definition project_cancel ::
  "(json \<Rightarrow> string) \<Rightarrow> projection_call \<Rightarrow> instant \<Rightarrow> string list \<Rightarrow> (string \<times> int) list \<Rightarrow> string \<times> uuid \<Rightarrow>
     projection_session \<Rightarrow> projection_session" where
  "project_cancel hx pc observed open_ids totals bi s =
     (case order_get (px_db s) (snd bi) of
        None \<Rightarrow> s
      | Some r \<Rightarrow>
          if o_status r \<noteq> OS_CANCEL_PENDING \<or> fst bi \<in> set open_ids then s
          else
            (let tot = (case map_of totals (fst bi) of None \<Rightarrow> o_filled_quantity r | Some n \<Rightarrow> n)
             in if tot < 0 \<or> o_requested_quantity r < tot then s
                else store_order hx pc observed ''BROKER_CANCEL_PROJECTED''
                       (JObj [(''broker_order_id'', JStr (fst bi)),
                          (''cancelled_quantity'', JInt (o_requested_quantity r - tot)),
                          (''filled_quantity'', JInt tot)])
                       r (cancelled_order tot r) s))"

section \<open>Positions\<close>

definition managed_fills :: "db \<Rightarrow> string \<Rightarrow> (fill \<times> string) list" where
  "managed_fills d sb =
     sort_key (\<lambda>(f, side). (f_filled_at f, f_id f))
       (concat (map (\<lambda>f. case order_get d (f_order_id f) of
            None \<Rightarrow> []
          | Some r \<Rightarrow> (case row_find i_id (o_intent_id r) (order_intents d) of
                None \<Rightarrow> []
              | Some it \<Rightarrow>
                  if o_account_alias r = kiwoom_account \<and> o_environment r = ''MOCK'' \<and> o_symbol r = sb \<and>
                     i_action it \<noteq> ''BROKER_IMPORTED''
                  then [(f, o_side r)] else [])) (fills d)))"

definition replay_step :: "fill \<times> string \<Rightarrow> int \<times> decimal \<Rightarrow> int \<times> decimal" where
  "replay_step fs qa =
     (let (f, side) = fs; (quantity, average) = qa
      in if side = ''BUY''
         then (quantity + f_quantity f,
               (average * of_int quantity + f_price f * of_int (f_quantity f)) / of_int (quantity + f_quantity f))
         else if side = ''SELL''
         then (let nq = max 0 (quantity - f_quantity f) in (nq, if nq = 0 then 0 else average))
         else qa)"

definition replay_managed_position :: "db \<Rightarrow> string \<Rightarrow> (int \<times> decimal) option" where
  "replay_managed_position d sb =
     (case managed_fills d sb of [] \<Rightarrow> None | rows \<Rightarrow> Some (fold replay_step rows (0, 0)))"

definition managed_projection :: "position option \<Rightarrow> int \<Rightarrow> (int \<times> decimal) option \<Rightarrow> int \<times> decimal" where
  "managed_projection p broker_quantity replayed =
     (if broker_quantity \<le> 0 then (0, 0)
      else
        (let (quantity, average) =
               (case replayed of
                  None \<Rightarrow> (case p of None \<Rightarrow> (0, 0) | Some q \<Rightarrow> (p_managed_quantity q, p_managed_average_price q))
                | Some qa \<Rightarrow> qa);
             managed = min (max 0 quantity) broker_quantity
         in (managed, if 0 < managed then average else 0)))"

definition position_origin_of :: "int \<Rightarrow> int \<Rightarrow> position_origin" where
  "position_origin_of quantity managed =
     (if managed \<le> 0 then EXTERNAL else if quantity \<le> managed then CRESTA_MANAGED else MIXED)"

definition position_comparison_state ::
  "position \<Rightarrow> (string \<times> int \<times> int \<times> decimal) \<times> (int \<times> decimal \<times> position_state \<times> position_origin)" where
  "position_comparison_state p =
     ((p_symbol p, p_quantity p, p_available_quantity p, p_average_price p),
      (p_managed_quantity p, p_managed_average_price p, p_state p, p_origin p))"

definition put_position :: "position \<Rightarrow> projection_session \<Rightarrow> projection_session" where
  "put_position p s = s\<lparr>px_db := (px_db s)\<lparr>positions := row_upd p_id (p_id p) (\<lambda>_. p) (positions (px_db s))\<rparr>\<rparr>"

definition imported_position :: "broker_position \<Rightarrow> int \<Rightarrow> decimal \<Rightarrow> uuid \<Rightarrow> position" where
  "imported_position b mq ma i =
     \<lparr>p_id = i, p_account_alias = kiwoom_account, p_symbol = bp_symbol b, p_quantity = bp_quantity b,
      p_available_quantity = bp_available_quantity b, p_managed_quantity = mq,
      p_average_price = bp_average_price b, p_managed_average_price = ma,
      p_state = (if bp_quantity b \<noteq> 0 then PS_OPEN else PS_CLOSED),
      p_origin = position_origin_of (bp_quantity b) mq, p_version = 1\<rparr>"

definition projected_position :: "broker_position \<Rightarrow> int \<Rightarrow> decimal \<Rightarrow> position \<Rightarrow> position" where
  "projected_position b mq ma p =
     p\<lparr>p_quantity := bp_quantity b, p_available_quantity := bp_available_quantity b,
       p_average_price := bp_average_price b, p_managed_quantity := mq, p_managed_average_price := ma,
       p_state := (if bp_quantity b \<noteq> 0 then PS_OPEN else PS_CLOSED),
       p_origin := (if bp_quantity b \<noteq> 0 then position_origin_of (bp_quantity b) mq else p_origin p)\<rparr>"

definition internal_positions :: "db \<Rightarrow> (string \<times> uuid) list" where
  "internal_positions d =
     fold (\<lambda>p m. AList.update (p_symbol p) (p_id p) m)
       (filter (\<lambda>p. p_account_alias p = kiwoom_account) (positions d)) []"

definition project_position ::
  "projection_call \<Rightarrow> (string \<times> uuid) list \<Rightarrow> broker_position \<Rightarrow> projection_session \<Rightarrow>
     projection_error + projection_session" where
  "project_position pc internal b s =
     (let position = Option.bind (map_of internal (bp_symbol b)) (\<lambda>i. row_find p_id i (positions (px_db s)));
          (mq, ma) = managed_projection position (bp_quantity b) (replay_managed_position (px_flushed s) (bp_symbol b))
      in case position of
           None \<Rightarrow>
             (let (i, d) = uuid7_draw (px_db s); p = imported_position b mq ma i
              in case px_flush (s\<lparr>px_db := d\<lparr>positions := positions d @ [p]\<rparr>\<rparr>) of
                   Inl e \<Rightarrow> Inl e
                 | Inr s1 \<Rightarrow> Inr (bump pj_imported_positions_update (add_position_event pc p (JObj []) s1)))
         | Some p \<Rightarrow>
             (let p' = projected_position b mq ma p;
                  changed = (position_comparison_state p' \<noteq> position_comparison_state p);
                  p'' = (if changed then p'\<lparr>p_version := p_version p + 1\<rparr> else p');
                  s1 = put_position p'' s
              in Inr (if changed
                   then bump pj_updated_positions_update (add_position_event pc p'' (projected_position_json p) s1)
                   else s1)))"

definition closed_position :: "position \<Rightarrow> position" where
  "closed_position p =
     p\<lparr>p_quantity := 0, p_available_quantity := 0, p_average_price := 0, p_managed_quantity := 0,
       p_managed_average_price := 0, p_state := PS_CLOSED, p_version := p_version p + 1\<rparr>"

definition close_missing_position ::
  "projection_call \<Rightarrow> string list \<Rightarrow> string \<times> uuid \<Rightarrow> projection_session \<Rightarrow> projection_session" where
  "close_missing_position pc broker_symbols si s =
     (case row_find p_id (snd si) (positions (px_db s)) of
        None \<Rightarrow> s
      | Some p \<Rightarrow>
          if p_state p \<noteq> PS_OPEN \<or> fst si \<in> set broker_symbols then s
          else bump pj_closed_positions_update
                 (add_position_event pc (closed_position p) (projected_position_json p) (put_position (closed_position p) s)))"

definition project_positions ::
  "projection_call \<Rightarrow> account_snapshot \<Rightarrow> projection_session \<Rightarrow> projection_error + projection_session" where
  "project_positions pc snap s =
     (let internal = internal_positions (px_flushed s)
      in case try_fold (project_position pc internal) (as_positions snap) s of
           Inl e \<Rightarrow> Inl e
         | Inr s1 \<Rightarrow> Inr (fold (close_missing_position pc (map bp_symbol (as_positions snap))) internal s1))"

section \<open>The projection\<close>

definition project_fills_and_cancels ::
  "(json \<Rightarrow> string) \<Rightarrow> projection_call \<Rightarrow> account_snapshot \<Rightarrow> projection_session \<Rightarrow>
     projection_error + projection_session" where
  "project_fills_and_cancels hx pc snap s =
     (let totals = fill_totals (as_fills snap);
          overfilled = overfilled_order_ids totals s;
          open_ids = map bo_broker_order_id (as_open_orders snap);
          now = as_observed_at snap
      in case try_fold (project_fill hx now overfilled) (as_fills snap) s of
           Inl e \<Rightarrow> Inl e
         | Inr s1 \<Rightarrow>
             (let s2 = fold (project_fill_total hx pc now open_ids) totals s1
              in Inr (fold (project_cancel hx pc now open_ids totals) (px_orders s2) s2)))"

definition projection_start :: "db \<Rightarrow> projection_session" where
  "projection_start d =
     \<lparr>px_flushed = d, px_db = d, px_orders = orders_by_broker_id d, px_occurrences = [],
      px_counts = \<lparr>pj_imported_orders = 0, pj_updated_orders = 0, pj_imported_fills = 0, pj_imported_positions = 0,
        pj_updated_positions = 0, pj_closed_positions = 0\<rparr>\<rparr>"

definition apply_broker_account_projection ::
  "(json \<Rightarrow> string) \<Rightarrow> projection_call \<Rightarrow> account_snapshot \<Rightarrow> db \<Rightarrow> projection_error + projection_result \<times> db" where
  "apply_broker_account_projection hx pc snap d =
     (case try_fold (project_open_order hx pc (as_observed_at snap)) (as_open_orders snap) (projection_start d) of
        Inl e \<Rightarrow> Inl e
      | Inr s1 \<Rightarrow>
          (case project_fills_and_cancels hx pc snap s1 of
             Inl e \<Rightarrow> Inl e
           | Inr s2 \<Rightarrow>
               (case project_positions pc snap s2 of
                  Inl e \<Rightarrow> Inl e
                | Inr s3 \<Rightarrow>
                    (case px_flush s3 of
                       Inl e \<Rightarrow> Inl e
                     | Inr s4 \<Rightarrow> Inr (px_counts s4, px_db s4)))))"

end
