(* ===== verification/Reconciliation.thy ===== *)
theory Reconciliation
  imports Account_Projection
begin

text \<open>
  \<open>app/reconciliation.py\<close>: one reconciliation run commits a RUNNING row and closes the gate, asks the
  broker, projects the answer onto the ledger, compares the two and closes the run. \<open>kr_answer\<close> is
  what the broker client does: raise an adapter error, raise anything else, or return a snapshot;
  \<open>kr_env\<close> is what other transactions commit while it is asked.
\<close>

section \<open>Comparison\<close>

definition broker_visible_order_states :: "order_status list" where
  "broker_visible_order_states =
     [OS_SUBMITTING, OS_ACKNOWLEDGED, OS_OPEN, OS_PARTIALLY_FILLED, OS_CANCEL_PENDING, OS_REPLACE_PENDING,
      OS_UNKNOWN, OS_RECONCILING]"

definition reconciliation_triggers :: "string list" where
  "reconciliation_triggers =
     [''MANUAL_BOOTSTRAP'', ''WORKER_STARTUP'', ''WEBSOCKET_RECONNECTED'', ''BROKER_EVENT'', ''PERIODIC'',
      ''ORDER_OUTCOME_UNKNOWN'', ''UNFILLED_ORDER_CANCEL_UNCERTAIN'']"

record account_mismatch =
  mm_code :: string
  mm_symbol :: "string option"
  mm_broker_value :: json
  mm_internal_value :: json
  mm_severity :: string

definition critical_mismatch :: "string \<Rightarrow> string \<Rightarrow> json \<Rightarrow> json \<Rightarrow> account_mismatch" where
  "critical_mismatch code sb b i =
     \<lparr>mm_code = code, mm_symbol = Some sb, mm_broker_value = b, mm_internal_value = i, mm_severity = ''CRITICAL''\<rparr>"

definition order_value :: "json \<Rightarrow> string \<Rightarrow> string \<Rightarrow> int \<Rightarrow> int \<Rightarrow> int \<Rightarrow> json" where
  "order_value b sb side requested filled remaining =
     JObj [(''broker_order_id'', b), (''filled_quantity'', JInt filled), (''remaining_quantity'', JInt remaining),
       (''requested_quantity'', JInt requested), (''side'', JStr side), (''symbol'', JStr sb)]"

definition broker_order_value :: "broker_open_order \<Rightarrow> json" where
  "broker_order_value b =
     order_value (JStr (bo_broker_order_id b)) (bo_symbol b) (bo_side b) (bo_requested_quantity b)
       (bo_filled_quantity b) (bo_remaining_quantity b)"

definition internal_order_value :: "trading_order \<Rightarrow> json" where
  "internal_order_value r =
     order_value (json_opt JStr (o_broker_order_id r)) (o_symbol r) (o_side r) (o_requested_quantity r)
       (o_filled_quantity r) (o_remaining_quantity r)"

definition broker_position_value :: "broker_position \<Rightarrow> json" where
  "broker_position_value b =
     JObj [(''available_quantity'', JInt (bp_available_quantity b)), (''average_price'', JDec (bp_average_price b)),
       (''quantity'', JInt (bp_quantity b)), (''symbol'', JStr (bp_symbol b))]"

definition internal_position_value :: "position \<Rightarrow> json" where
  "internal_position_value p =
     JObj [(''average_price'', JDec (p_average_price p)), (''quantity'', JInt (p_quantity p)),
       (''symbol'', JStr (p_symbol p))]"

text \<open>\<open>{key: row for row in rows}\<close>: the last row of a key wins, at the place of the first.\<close>

definition dict_of :: "('r \<Rightarrow> 'k) \<Rightarrow> 'r list \<Rightarrow> ('k \<times> 'r) list" where
  "dict_of key rows = fold (\<lambda>r m. AList.update (key r) r m) rows []"

definition visible_orders :: "db \<Rightarrow> trading_order list" where
  "visible_orders d =
     filter (\<lambda>r. o_account_alias r = kiwoom_account \<and> o_status r \<in> set broker_visible_order_states) (orders d)"

definition has_broker_id :: "trading_order \<Rightarrow> bool" where
  "has_broker_id r \<longleftrightarrow> (case o_broker_order_id r of None \<Rightarrow> False | Some b \<Rightarrow> b \<noteq> [])"

definition by_broker_id :: "trading_order list \<Rightarrow> (string \<times> trading_order) list" where
  "by_broker_id rs = dict_of (\<lambda>r. the (o_broker_order_id r)) (filter has_broker_id rs)"

definition compare_open_orders :: "db \<Rightarrow> account_snapshot \<Rightarrow> account_mismatch list" where
  "compare_open_orders d snap =
     concat (map (\<lambda>(i, b).
       case map_of (by_broker_id (visible_orders d)) i of
         None \<Rightarrow> [critical_mismatch ''BROKER_ORDER_MISSING_INTERNAL'' (bo_symbol b) (broker_order_value b) (JObj [])]
       | Some r \<Rightarrow>
           if broker_order_value b \<noteq> internal_order_value r
           then [critical_mismatch ''ORDER_STATE_MISMATCH'' (bo_symbol b) (broker_order_value b) (internal_order_value r)]
           else []) (dict_of bo_broker_order_id (as_open_orders snap)))"

definition compare_visible_orders :: "db \<Rightarrow> account_snapshot \<Rightarrow> account_mismatch list" where
  "compare_visible_orders d snap =
     concat (map (\<lambda>r.
       if \<not> has_broker_id r \<or> the (o_broker_order_id r) \<notin> set (map bo_broker_order_id (as_open_orders snap))
       then [critical_mismatch ''INTERNAL_ORDER_MISSING_BROKER'' (o_symbol r) (JObj []) (internal_order_value r)] else [])
       (visible_orders d))"

definition compare_fill_totals :: "db \<Rightarrow> account_snapshot \<Rightarrow> account_mismatch list" where
  "compare_fill_totals d snap =
     concat (map (\<lambda>(i, q).
       case map_of (by_broker_id (filter (\<lambda>r. o_account_alias r = kiwoom_account) (orders d))) i of
         None \<Rightarrow> []
       | Some r \<Rightarrow>
           if q \<noteq> o_filled_quantity r
           then [critical_mismatch ''FILL_QUANTITY_MISMATCH'' (o_symbol r)
                  (JObj [(''broker_order_id'', JStr i), (''filled_quantity'', JInt q)])
                  (JObj [(''broker_order_id'', JStr i), (''filled_quantity'', JInt (o_filled_quantity r))])]
           else []) (fill_totals (as_fills snap)))"

definition open_account_positions :: "db \<Rightarrow> position list" where
  "open_account_positions d =
     filter (\<lambda>p. p_account_alias p = kiwoom_account \<and> p_state p = PS_OPEN) (positions d)"

definition compare_broker_positions :: "db \<Rightarrow> account_snapshot \<Rightarrow> account_mismatch list" where
  "compare_broker_positions d snap =
     concat (map (\<lambda>(sb, b).
       case map_of (dict_of p_symbol (open_account_positions d)) sb of
         None \<Rightarrow> [critical_mismatch ''UNKNOWN_EXTERNAL_POSITION'' sb (broker_position_value b) (JObj [])]
       | Some p \<Rightarrow>
           if bp_quantity b \<noteq> p_quantity p
           then [critical_mismatch ''POSITION_QUANTITY_MISMATCH'' sb (broker_position_value b) (internal_position_value p)]
           else if bp_average_price b \<noteq> p_average_price p
           then [critical_mismatch ''AVERAGE_PRICE_MISMATCH'' sb (broker_position_value b) (internal_position_value p)]
           else []) (dict_of bp_symbol (as_positions snap)))"

definition compare_internal_positions :: "db \<Rightarrow> account_snapshot \<Rightarrow> account_mismatch list" where
  "compare_internal_positions d snap =
     concat (map (\<lambda>(sb, p).
       if sb \<notin> set (map bp_symbol (as_positions snap))
       then [critical_mismatch ''POSITION_QUANTITY_MISMATCH'' sb (JObj []) (internal_position_value p)] else [])
       (dict_of p_symbol (open_account_positions d)))"

definition compare_snapshot :: "db \<Rightarrow> account_snapshot \<Rightarrow> account_mismatch list" where
  "compare_snapshot d snap =
     compare_open_orders d snap @ compare_visible_orders d snap @ compare_fill_totals d snap @
     compare_broker_positions d snap @ compare_internal_positions d snap"

section \<open>The run\<close>

datatype broker_answer =
    AdapterRaises string
  | ClientRaises
  | AccountAnswer account_snapshot

datatype reconciliation_error =
    UnsupportedTrigger
  | AdapterError string
  | ReconciliationProjectionError

record reconciliation_call =
  kr_trigger :: string
  kr_correlation_id :: "string option"
  kr_clean_gate_reason :: string
  kr_answer :: broker_answer
  kr_env :: "db \<Rightarrow> db"
  kr_started :: instant
  kr_resolved :: instant
  kr_completed :: instant

record reconciliation_result =
  kv_run_id :: uuid
  kv_state :: run_state
  kv_gate_status :: gate_status
  kv_gate_reason :: string
  kv_open_order_count :: nat
  kv_fill_count :: nat
  kv_position_count :: nat
  kv_mismatch_count :: nat
  kv_critical_mismatch_count :: nat

definition run_upd :: "uuid \<Rightarrow> (reconciliation_run \<Rightarrow> reconciliation_run) \<Rightarrow> db \<Rightarrow> db" where
  "run_upd i f d = d\<lparr>reconciliation_runs := row_upd rr_id i f (reconciliation_runs d)\<rparr>"

definition running_run :: "reconciliation_call \<Rightarrow> string \<Rightarrow> uuid \<Rightarrow> reconciliation_run" where
  "running_run kr cid i =
     \<lparr>rr_id = i, rr_account_alias = kiwoom_account, rr_trigger = kr_trigger kr, rr_state = RR_RUNNING,
      rr_started_at = kr_started kr, rr_completed_at = None, rr_snapshot_at = None, rr_mismatch_count = 0,
      rr_critical_mismatch_count = 0, rr_correlation_id = cid, rr_result_summary_json = JObj []\<rparr>"

text \<open>\<open>correlation_id or uuid7()\<close>: an absent or empty text is replaced by a fresh id.\<close>

definition run_correlation :: "reconciliation_call \<Rightarrow> db \<Rightarrow> string \<times> db" where
  "run_correlation kr d =
     (case kr_correlation_id kr of
        Some c \<Rightarrow> if c \<noteq> [] then (c, d) else (let (i, d1) = uuid7_draw d in (uuid_text i, d1))
      | None \<Rightarrow> (let (i, d1) = uuid7_draw d in (uuid_text i, d1)))"

definition start_run :: "reconciliation_call \<Rightarrow> db \<Rightarrow> reconciliation_run \<times> db" where
  "start_run kr d =
     (let (cid, d1) = run_correlation kr d;
          (i, d2) = uuid7_draw d1;
          r = running_run kr cid i
      in (r, set_gate GS_RECONCILING (Some ''BOOTSTRAP_RECONCILIATION_RUNNING'')
               (d2\<lparr>reconciliation_runs := reconciliation_runs d2 @ [r]\<rparr>)))"

definition resolve_previous_mismatches :: "reconciliation_run \<Rightarrow> account_mismatch list \<Rightarrow> instant \<Rightarrow> db \<Rightarrow> db" where
  "resolve_previous_mismatches r current now d =
     d\<lparr>reconciliation_mismatches := map (\<lambda>m.
        case row_find rr_id (rm_run_id m) (reconciliation_runs d) of
          None \<Rightarrow> m
        | Some pr \<Rightarrow>
            if rr_account_alias pr = rr_account_alias r \<and> rr_id pr \<noteq> rr_id r \<and> rm_open m \<and>
               (rm_code m, rm_symbol m) \<notin> set (map (\<lambda>c. (mm_code c, mm_symbol c)) current)
            then m\<lparr>rm_open := False, rm_resolved_at := Some now\<rparr> else m) (reconciliation_mismatches d)\<rparr>"

definition mismatch_row :: "uuid \<Rightarrow> account_mismatch \<Rightarrow> reconciliation_mismatch" where
  "mismatch_row run m =
     \<lparr>rm_run_id = run, rm_code = mm_code m, rm_symbol = mm_symbol m, rm_severity = mm_severity m, rm_open = True,
      rm_broker_value_json = mm_broker_value m, rm_internal_value_json = mm_internal_value m, rm_resolved_at = None\<rparr>"

definition projection_json :: "projection_result \<Rightarrow> json" where
  "projection_json c =
     JObj [(''closed_positions'', JInt (pj_closed_positions c)), (''imported_fills'', JInt (pj_imported_fills c)),
       (''imported_orders'', JInt (pj_imported_orders c)), (''imported_positions'', JInt (pj_imported_positions c)),
       (''updated_orders'', JInt (pj_updated_orders c)), (''updated_positions'', JInt (pj_updated_positions c))]"

definition completed_run ::
  "reconciliation_call \<Rightarrow> account_snapshot \<Rightarrow> projection_result \<Rightarrow> account_mismatch list \<Rightarrow> reconciliation_run \<Rightarrow>
     reconciliation_run" where
  "completed_run kr snap counts ms r =
     r\<lparr>rr_state := (if ms \<noteq> [] then RR_MISMATCH else RR_SUCCEEDED), rr_completed_at := Some (kr_completed kr),
       rr_snapshot_at := Some (as_observed_at snap), rr_mismatch_count := int (length ms),
       rr_critical_mismatch_count := int (length (filter (\<lambda>m. mm_severity m = ''CRITICAL'') ms)),
       rr_result_summary_json := JObj [(''fill_count'', JInt (int (length (as_fills snap)))),
         (''open_order_count'', JInt (int (length (as_open_orders snap)))),
         (''position_count'', JInt (int (length (as_positions snap)))), (''projection'', projection_json counts)]\<rparr>"

definition mark_failed :: "uuid \<Rightarrow> instant \<Rightarrow> db \<Rightarrow> db" where
  "mark_failed i now d =
     set_gate GS_DEGRADED (Some ''RECONCILIATION_FAILED'')
       (run_upd i (\<lambda>r. r\<lparr>rr_state := RR_FAILED, rr_completed_at := Some now,
          rr_result_summary_json := JObj [(''result'', JStr ''FAILED'')]\<rparr>) d)"

definition finish_run ::
  "reconciliation_call \<Rightarrow> account_snapshot \<Rightarrow> reconciliation_run \<Rightarrow> projection_result \<Rightarrow> db \<Rightarrow>
     reconciliation_result \<times> db" where
  "finish_run kr snap r counts d =
     (let ms = compare_snapshot d snap;
          d1 = resolve_previous_mismatches r ms (kr_resolved kr) d;
          d2 = d1\<lparr>reconciliation_mismatches := reconciliation_mismatches d1 @ map (mismatch_row (rr_id r)) ms\<rparr>;
          critical = length (filter (\<lambda>m. mm_severity m = ''CRITICAL'') ms);
          d3 = run_upd (rr_id r) (completed_run kr snap counts ms) d2;
          (gs, reason) = (if 0 < critical then (GS_HALTED, ''RECONCILIATION_MISMATCH'')
                          else (GS_RECONCILING, kr_clean_gate_reason kr))
      in (\<lparr>kv_run_id = rr_id r, kv_state = (if ms \<noteq> [] then RR_MISMATCH else RR_SUCCEEDED), kv_gate_status = gs,
           kv_gate_reason = reason, kv_open_order_count = length (as_open_orders snap),
           kv_fill_count = length (as_fills snap), kv_position_count = length (as_positions snap),
           kv_mismatch_count = length ms, kv_critical_mismatch_count = critical\<rparr>, set_gate gs (Some reason) d3))"

definition run_kiwoom_reconciliation ::
  "(json \<Rightarrow> string) \<Rightarrow> reconciliation_call \<Rightarrow> db \<Rightarrow> (reconciliation_error + reconciliation_result) \<times> db" where
  "run_kiwoom_reconciliation hx kr d =
     (if kr_trigger kr \<notin> set reconciliation_triggers then (Inl UnsupportedTrigger, d)
      else
        (let (r, d1) = start_run kr d; d2 = kr_env kr d1
         in case kr_answer kr of
              AdapterRaises code \<Rightarrow> (Inl (AdapterError code), mark_failed (rr_id r) (kr_completed kr) d2)
            | ClientRaises \<Rightarrow> (Inl ReconciliationProjectionError, mark_failed (rr_id r) (kr_completed kr) d2)
            | AccountAnswer snap \<Rightarrow>
                (case apply_broker_account_projection hx
                        \<lparr>pc_run_id = rr_id r, pc_correlation_id = rr_correlation_id r, pc_wall = kr_completed kr\<rparr> snap d2 of
                   Inl e \<Rightarrow> (Inl ReconciliationProjectionError, mark_failed (rr_id r) (kr_completed kr) d2)
                 | Inr (counts, d3) \<Rightarrow> (let (v, d4) = finish_run kr snap r counts d3 in (Inr v, d4)))))"

end
