(* ===== verification/Reconciliation_Properties.thy ===== *)
theory Reconciliation_Properties
  imports Reconciliation
begin

text \<open>
  What a reconciliation run guarantees: it never opens the gate, a failed run leaves the ledger alone, the
  comparison reports nothing exactly when ledger and broker agree, and a successful projection
  makes the open positions those of the broker. Two runs that show where the projection goes wrong.
\<close>

section \<open>Dictionaries\<close>

lemma dict_of_snoc: "dict_of key (rows @ [r]) = AList.update (key r) r (dict_of key rows)"
  by (simp add: dict_of_def)

lemma dict_of_keys: "fst ` set (dict_of key rows) = key ` set rows"
proof (induction rows rule: rev_induct)
  case (snoc r rows)
  then show ?case by (simp add: dict_of_snoc dom_update flip: dom_map_of_conv_image_fst) (auto simp: update_conv')
qed (simp add: dict_of_def)

lemma alist_update_new: "k \<notin> fst ` set al \<Longrightarrow> AList.update k v al = al @ [(k, v)]"
  by (induction al) auto

lemma dict_of_distinct:
  assumes "distinct (map key rows)"
  shows "dict_of key rows = map (\<lambda>r. (key r, r)) rows"
  using assms
proof (induction rows rule: rev_induct)
  case (snoc r rows)
  have "key r \<notin> fst ` set (map (\<lambda>r. (key r, r)) rows)" using snoc.prems by force
  with snoc show ?case by (simp add: dict_of_snoc alist_update_new)
qed (simp add: dict_of_def)

lemma dict_of_map_of:
  assumes "distinct (map key rows)"
  shows "map_of (dict_of key rows) k = row_find key k rows"
  unfolding dict_of_distinct [OF assms] by (induction rows) (simp_all add: row_find_def)

section \<open>The gate\<close>

lemma set_gate_get:
  "\<exists>g. gate_get (set_gate s reason d) kiwoom_account = Some g \<and> g_status g = s \<and> g_reason g = reason"
  by (cases "gate_get d kiwoom_account")
    (simp_all add: set_gate_def gate_get_def row_find_append row_find_row_upd row_find_simps)

lemma set_gate_frame [simp]:
  "orders (set_gate s r d) = orders d" "fills (set_gate s r d) = fills d" "positions (set_gate s r d) = positions d"
  "order_events (set_gate s r d) = order_events d" "order_intents (set_gate s r d) = order_intents d"
  "position_events (set_gate s r d) = position_events d"
  "reconciliation_mismatches (set_gate s r d) = reconciliation_mismatches d"
  by (simp_all add: set_gate_def split: option.split)

lemma concat_map_all: "(\<And>x. x \<in> set xs \<Longrightarrow> \<forall>m \<in> set (f x). P m) \<Longrightarrow> \<forall>m \<in> set (concat (map f xs)). P m"
  by simp

lemma compare_all_critical: "\<forall>m \<in> set (compare_snapshot d snap). mm_severity m = ''CRITICAL''"
proof -
  have c: "mm_severity (critical_mismatch code sb b i) = ''CRITICAL''" for code sb b i
    by (simp add: critical_mismatch_def)
  have "\<forall>m \<in> set (compare_open_orders d snap). mm_severity m = ''CRITICAL''"
    unfolding compare_open_orders_def by (rule concat_map_all) (auto simp: c split: option.splits if_splits)
  moreover have "\<forall>m \<in> set (compare_visible_orders d snap). mm_severity m = ''CRITICAL''"
    unfolding compare_visible_orders_def by (rule concat_map_all) (simp add: c)
  moreover have "\<forall>m \<in> set (compare_fill_totals d snap). mm_severity m = ''CRITICAL''"
    unfolding compare_fill_totals_def by (rule concat_map_all) (auto simp: c split: option.splits if_splits)
  moreover have "\<forall>m \<in> set (compare_broker_positions d snap). mm_severity m = ''CRITICAL''"
    unfolding compare_broker_positions_def by (rule concat_map_all) (auto simp: c split: option.splits if_splits)
  moreover have "\<forall>m \<in> set (compare_internal_positions d snap). mm_severity m = ''CRITICAL''"
    unfolding compare_internal_positions_def by (rule concat_map_all) (auto simp: c split: if_splits)
  ultimately show ?thesis unfolding compare_snapshot_def set_append by blast
qed

lemma filter_all_critical: "filter (\<lambda>m. mm_severity m = ''CRITICAL'') (compare_snapshot d snap) = compare_snapshot d snap"
  using compare_all_critical by (simp add: filter_id_conv)

text \<open>The tables a failed run may not touch.\<close>

definition ledger_tables ::
  "db \<Rightarrow> (order_intent list \<times> trading_order list \<times> order_event list) \<times> (fill list \<times> position list \<times> position_event list) \<times>
     reconciliation_mismatch list" where
  "ledger_tables d = ((order_intents d, orders d, order_events d), (fills d, positions d, position_events d),
     reconciliation_mismatches d)"

lemma mark_failed_ledger: "ledger_tables (mark_failed i now d) = ledger_tables d"
  by (simp add: ledger_tables_def mark_failed_def run_upd_def)

lemma mark_failed_gate:
  "\<exists>g. gate_get (mark_failed i now d) kiwoom_account = Some g \<and> g_status g = GS_DEGRADED \<and>
     g_reason g = Some ''RECONCILIATION_FAILED''"
  unfolding mark_failed_def by (rule set_gate_get)

lemma finish_run_gate:
  assumes "finish_run kr snap r counts d = (v, d')"
  shows "\<exists>g. gate_get d' kiwoom_account = Some g \<and> g_status g = kv_gate_status v \<and> g_reason g = Some (kv_gate_reason v) \<and>
    kv_mismatch_count v = length (compare_snapshot d snap) \<and>
    (kv_gate_status v, kv_gate_reason v, kv_state v) =
      (if compare_snapshot d snap = [] then (GS_RECONCILING, kr_clean_gate_reason kr, RR_SUCCEEDED)
       else (GS_HALTED, ''RECONCILIATION_MISMATCH'', RR_MISMATCH)) \<and>
    orders d' = orders d \<and> fills d' = fills d \<and> positions d' = positions d"
proof -
  let ?ms = "compare_snapshot d snap"
  obtain gs reason e where d': "d' = set_gate gs (Some reason) e"
    and v: "kv_gate_status v = gs" "kv_gate_reason v = reason" "kv_mismatch_count v = length ?ms"
      "(gs, reason, kv_state v) = (if ?ms = [] then (GS_RECONCILING, kr_clean_gate_reason kr, RR_SUCCEEDED)
       else (GS_HALTED, ''RECONCILIATION_MISMATCH'', RR_MISMATCH))"
    and e: "orders e = orders d" "fills e = fills d" "positions e = positions d"
    using assms unfolding finish_run_def Let_def filter_all_critical
    by (cases "?ms = []") (auto simp: run_upd_def resolve_previous_mismatches_def)
  show ?thesis using set_gate_get [of gs "Some reason" e] v e unfolding d' by simp
qed

lemma compare_snapshot_cong:
  "orders d' = orders d \<Longrightarrow> positions d' = positions d \<Longrightarrow> compare_snapshot d' snap = compare_snapshot d snap"
  by (simp add: compare_snapshot_def compare_open_orders_def compare_visible_orders_def compare_fill_totals_def
      compare_broker_positions_def compare_internal_positions_def visible_orders_def open_account_positions_def)

lemma start_run_ledger: "ledger_tables (snd (start_run kr d)) = ledger_tables d"
  by (simp add: ledger_tables_def start_run_def run_correlation_def uuid7_draw_def Let_def split: option.split)

section \<open>When the comparison is clean\<close>

definition order_agrees :: "broker_open_order \<Rightarrow> trading_order \<Rightarrow> bool" where
  "order_agrees b r \<longleftrightarrow>
     o_account_alias r = kiwoom_account \<and> o_status r \<in> set broker_visible_order_states \<and>
     o_broker_order_id r = Some (bo_broker_order_id b) \<and> o_symbol r = bo_symbol b \<and> o_side r = bo_side b \<and>
     o_requested_quantity r = bo_requested_quantity b \<and> o_filled_quantity r = bo_filled_quantity b \<and>
     o_remaining_quantity r = bo_remaining_quantity b"

definition position_agrees :: "broker_position \<Rightarrow> position \<Rightarrow> bool" where
  "position_agrees b p \<longleftrightarrow>
     p_account_alias p = kiwoom_account \<and> p_state p = PS_OPEN \<and> p_symbol p = bp_symbol b \<and>
     p_quantity p = bp_quantity b \<and> p_average_price p = bp_average_price b"

definition broker_filled :: "broker_fill_summary list \<Rightarrow> string \<Rightarrow> int" where
  "broker_filled fs i = sum_list (map bf_quantity (filter (\<lambda>f. bf_broker_order_id f = i) fs))"

text \<open>Ledger and broker agree: the visible orders are the open ones with the same quantities, the fills of a known
  order add up, and the open positions are those of the broker at the same quantity and price.\<close>

definition account_agrees :: "db \<Rightarrow> account_snapshot \<Rightarrow> bool" where
  "account_agrees d snap \<longleftrightarrow>
     (\<forall>b \<in> set (as_open_orders snap). \<exists>r \<in> set (orders d). order_agrees b r) \<and>
     (\<forall>r \<in> set (orders d). o_account_alias r = kiwoom_account \<and> o_status r \<in> set broker_visible_order_states \<longrightarrow>
        (\<exists>b \<in> set (as_open_orders snap). o_broker_order_id r = Some (bo_broker_order_id b))) \<and>
     (\<forall>r \<in> set (orders d). \<forall>f \<in> set (as_fills snap).
        o_account_alias r = kiwoom_account \<and> o_broker_order_id r = Some (bf_broker_order_id f) \<longrightarrow>
        o_filled_quantity r = broker_filled (as_fills snap) (bf_broker_order_id f)) \<and>
     (\<forall>b \<in> set (as_positions snap). \<exists>p \<in> set (positions d). position_agrees b p) \<and>
     (\<forall>p \<in> set (positions d). p_account_alias p = kiwoom_account \<and> p_state p = PS_OPEN \<longrightarrow>
        (\<exists>b \<in> set (as_positions snap). p_symbol p = bp_symbol b))"

text \<open>What the broker adapter and the unique constraints of the schema promise.\<close>

definition snapshot_ok :: "account_snapshot \<Rightarrow> bool" where
  "snapshot_ok snap \<longleftrightarrow>
     distinct (map bo_broker_order_id (as_open_orders snap)) \<and> distinct (map bp_symbol (as_positions snap)) \<and>
     (\<forall>b \<in> set (as_open_orders snap). bo_broker_order_id b \<noteq> []) \<and>
     (\<forall>f \<in> set (as_fills snap). bf_broker_order_id f \<noteq> []) \<and>
     (\<forall>b \<in> set (as_positions snap). 0 < bp_quantity b)"

definition account_keys_ok :: "db \<Rightarrow> bool" where
  "account_keys_ok d \<longleftrightarrow>
     distinct (map o_broker_order_id (filter (\<lambda>r. o_account_alias r = kiwoom_account \<and> has_broker_id r) (orders d))) \<and>
     distinct (map p_symbol (filter (\<lambda>p. p_account_alias p = kiwoom_account) (positions d)))"

lemma distinct_map_filter_mono:
  "distinct (map g (filter P xs)) \<Longrightarrow> (\<And>x. Q x \<Longrightarrow> P x) \<Longrightarrow> distinct (map g (filter Q xs))"
  by (induction xs) (auto split: if_splits)

lemma by_broker_id_iff:
  assumes keys: "account_keys_ok d" and sub: "\<And>r. Q r \<Longrightarrow> o_account_alias r = kiwoom_account" and i: "i \<noteq> []"
  shows "map_of (by_broker_id (filter Q (orders d))) i = Some r \<longleftrightarrow>
    r \<in> set (orders d) \<and> Q r \<and> o_broker_order_id r = Some i"
proof -
  let ?rs = "filter (\<lambda>r. Q r \<and> has_broker_id r) (orders d)"
  have inj: "distinct (map o_broker_order_id ?rs)"
    by (rule distinct_map_filter_mono [where P = "\<lambda>r. o_account_alias r = kiwoom_account \<and> has_broker_id r"])
      (use keys sub in \<open>auto simp: account_keys_ok_def\<close>)
  have some: "o_broker_order_id r = Some (the (o_broker_order_id r))" if "has_broker_id r" for r
    using that by (auto simp: has_broker_id_def split: option.splits)
  have d: "distinct (map (\<lambda>r. the (o_broker_order_id r)) ?rs)"
    unfolding distinct_map
  proof
    show "inj_on (\<lambda>r. the (o_broker_order_id r)) (set ?rs)"
    proof (rule inj_onI)
      fix x y
      assume xy: "x \<in> set ?rs" "y \<in> set ?rs" "the (o_broker_order_id x) = the (o_broker_order_id y)"
      then have "o_broker_order_id x = o_broker_order_id y" using some [of x] some [of y] by simp
      then show "x = y" using inj xy by (simp add: distinct_map inj_on_def)
    qed
  qed (use inj in \<open>simp add: distinct_map\<close>)
  have "map_of (by_broker_id (filter Q (orders d))) i = row_find (\<lambda>r. the (o_broker_order_id r)) i ?rs"
    using dict_of_map_of [OF d, of i] by (simp add: by_broker_id_def)
  also have "\<dots> = Some r \<longleftrightarrow> r \<in> set ?rs \<and> the (o_broker_order_id r) = i"
    using row_find_Some [of "\<lambda>r. the (o_broker_order_id r)" i ?rs r] row_find_distinct [OF d, of r] by auto
  also have "\<dots> \<longleftrightarrow> r \<in> set (orders d) \<and> Q r \<and> o_broker_order_id r = Some i"
    using i some by (auto simp: has_broker_id_def split: option.splits)
  finally show ?thesis .
qed

lemma by_broker_id_None:
  assumes "account_keys_ok d" "\<And>r. Q r \<Longrightarrow> o_account_alias r = kiwoom_account" "i \<noteq> []"
  shows "map_of (by_broker_id (filter Q (orders d))) i = None \<longleftrightarrow>
    \<not> (\<exists>r \<in> set (orders d). Q r \<and> o_broker_order_id r = Some i)"
  using by_broker_id_iff [OF assms] by (metis not_None_eq)

lemma concat_map_empty: "concat (map f xs) = [] \<longleftrightarrow> (\<forall>x \<in> set xs. f x = [])"
  by auto

lemma compare_open_orders_clean:
  assumes snap: "snapshot_ok snap" and keys: "account_keys_ok d"
  shows "compare_open_orders d snap = [] \<longleftrightarrow> (\<forall>b \<in> set (as_open_orders snap). \<exists>r \<in> set (orders d). order_agrees b r)"
proof -
  have dist: "distinct (map bo_broker_order_id (as_open_orders snap))" using snap by (simp add: snapshot_ok_def)
  let ?m = "map_of (by_broker_id (visible_orders d))"
  have one: "(case ?m (bo_broker_order_id b) of
         None \<Rightarrow> [critical_mismatch ''BROKER_ORDER_MISSING_INTERNAL'' (bo_symbol b) (broker_order_value b) (JObj [])]
       | Some r \<Rightarrow>
           if broker_order_value b \<noteq> internal_order_value r
           then [critical_mismatch ''ORDER_STATE_MISMATCH'' (bo_symbol b) (broker_order_value b) (internal_order_value r)]
           else []) = [] \<longleftrightarrow> (\<exists>r \<in> set (orders d). order_agrees b r)" if "b \<in> set (as_open_orders snap)" for b
  proof -
    have i: "bo_broker_order_id b \<noteq> []" using snap that by (simp add: snapshot_ok_def)
    have m: "?m (bo_broker_order_id b) = Some r \<longleftrightarrow> r \<in> set (orders d) \<and>
        (o_account_alias r = kiwoom_account \<and> o_status r \<in> set broker_visible_order_states) \<and>
        o_broker_order_id r = Some (bo_broker_order_id b)" for r
      unfolding visible_orders_def by (rule by_broker_id_iff [OF keys _ i]) simp
    show ?thesis
    proof (cases "?m (bo_broker_order_id b)")
      case None
      then show ?thesis using m by (auto simp: order_agrees_def)
    next
      case (Some r)
      have same: "r' = r" if "r' \<in> set (orders d)" "order_agrees b r'" for r'
        using that m [of r'] Some by (auto simp: order_agrees_def)
      have "broker_order_value b = internal_order_value r \<longleftrightarrow> order_agrees b r"
        using m [of r] Some
        by (auto simp: broker_order_value_def internal_order_value_def order_value_def order_agrees_def json_opt_def)
      then show ?thesis using Some same m [of r] by auto
    qed
  qed
  show ?thesis
    unfolding compare_open_orders_def dict_of_distinct [OF dist] concat_map_empty using one by simp
qed

lemma compare_visible_orders_clean:
  assumes "snapshot_ok snap"
  shows "compare_visible_orders d snap = [] \<longleftrightarrow>
    (\<forall>r \<in> set (orders d). o_account_alias r = kiwoom_account \<and> o_status r \<in> set broker_visible_order_states \<longrightarrow>
       (\<exists>b \<in> set (as_open_orders snap). o_broker_order_id r = Some (bo_broker_order_id b)))"
proof -
  have "\<not> has_broker_id r \<or> the (o_broker_order_id r) \<notin> set (map bo_broker_order_id (as_open_orders snap)) \<longleftrightarrow>
      \<not> (\<exists>b \<in> set (as_open_orders snap). o_broker_order_id r = Some (bo_broker_order_id b))" for r
    using assms by (auto simp: has_broker_id_def snapshot_ok_def split: option.splits)
  note iff = this
  show ?thesis
    unfolding compare_visible_orders_def visible_orders_def concat_map_empty iff by auto
qed

lemma fill_totals_map_of:
  "map_of (fill_totals fs) i =
     (if i \<in> set (map bf_broker_order_id fs) then Some (broker_filled fs i) else None)"
proof (induction fs rule: rev_induct)
  case (snoc f fs)
  have "broker_filled fs i = 0" if "i \<notin> set (map bf_broker_order_id fs)" for i
    using that by (simp add: broker_filled_def filter_empty_conv) (metis (mono_tags, lifting) filter_False image_eqI list.simps(8) sum_list.Nil)
  then show ?case
    using snoc by (auto simp: fill_totals_def update_conv' broker_filled_def)
qed (simp add: fill_totals_def)

lemma fill_totals_distinct: "distinct (map fst (fill_totals fs))"
  unfolding fill_totals_def
proof (induction fs rule: rev_induct)
  case (snoc f fs)
  then show ?case by (simp add: distinct_update)
qed simp

lemma fill_totals_mem:
  "(i, q) \<in> set (fill_totals fs) \<longleftrightarrow> i \<in> set (map bf_broker_order_id fs) \<and> q = broker_filled fs i"
  unfolding map_of_eq_Some_iff [OF fill_totals_distinct, of fs i q, symmetric] by (auto simp: fill_totals_map_of)

lemma pair_ball: "(\<forall>x \<in> S. (case x of (i, q) \<Rightarrow> F i q) = []) \<longleftrightarrow> (\<forall>i q. (i, q) \<in> S \<longrightarrow> F i q = [])"
  by auto

lemma opt_mismatch_empty:
  "(case x of None \<Rightarrow> [] | Some r \<Rightarrow> if P r then [g r] else []) = [] \<longleftrightarrow> (\<forall>r. x = Some r \<longrightarrow> \<not> P r)"
  by (cases x) auto

lemma compare_fill_totals_clean:
  assumes snap: "snapshot_ok snap" and keys: "account_keys_ok d"
  shows "compare_fill_totals d snap = [] \<longleftrightarrow> (\<forall>r \<in> set (orders d). \<forall>f \<in> set (as_fills snap).
     o_account_alias r = kiwoom_account \<and> o_broker_order_id r = Some (bf_broker_order_id f) \<longrightarrow>
     o_filled_quantity r = broker_filled (as_fills snap) (bf_broker_order_id f))"
proof -
  let ?m = "map_of (by_broker_id (filter (\<lambda>r. o_account_alias r = kiwoom_account) (orders d)))"
  have m: "?m i = Some r \<longleftrightarrow> r \<in> set (orders d) \<and> o_account_alias r = kiwoom_account \<and> o_broker_order_id r = Some i"
    if "i \<in> set (map bf_broker_order_id (as_fills snap))" for i r
    by (rule by_broker_id_iff [OF keys]) (use snap that in \<open>auto simp: snapshot_ok_def\<close>)
  have "compare_fill_totals d snap = [] \<longleftrightarrow>
      (\<forall>i \<in> set (map bf_broker_order_id (as_fills snap)). \<forall>r. ?m i = Some r \<longrightarrow>
         o_filled_quantity r = broker_filled (as_fills snap) i)"
    unfolding compare_fill_totals_def concat_map_empty pair_ball opt_mismatch_empty fill_totals_mem by metis
  also have "\<dots> \<longleftrightarrow> (\<forall>i \<in> set (map bf_broker_order_id (as_fills snap)). \<forall>r.
      r \<in> set (orders d) \<and> o_account_alias r = kiwoom_account \<and> o_broker_order_id r = Some i \<longrightarrow>
         o_filled_quantity r = broker_filled (as_fills snap) i)"
    using m by blast
  finally show ?thesis by auto
qed

lemma open_positions_find:
  assumes "distinct (map p_symbol (filter (\<lambda>p. p_account_alias p = kiwoom_account) (positions d)))"
  shows "map_of (dict_of p_symbol (open_account_positions d)) sb = Some p \<longleftrightarrow>
    p \<in> set (positions d) \<and> p_account_alias p = kiwoom_account \<and> p_state p = PS_OPEN \<and> p_symbol p = sb"
proof -
  have d: "distinct (map p_symbol (open_account_positions d))"
    unfolding open_account_positions_def
    by (rule distinct_map_filter_mono [where P = "\<lambda>p. p_account_alias p = kiwoom_account"])
      (use assms in simp_all)
  show ?thesis
    unfolding dict_of_map_of [OF d]
    using row_find_Some [of p_symbol sb "open_account_positions d" p] row_find_distinct [OF d, of p]
    by (auto simp: open_account_positions_def)
qed

lemma open_positions_none:
  assumes "distinct (map p_symbol (filter (\<lambda>p. p_account_alias p = kiwoom_account) (positions d)))"
  shows "map_of (dict_of p_symbol (open_account_positions d)) sb = None \<longleftrightarrow>
    \<not> (\<exists>p \<in> set (positions d). p_account_alias p = kiwoom_account \<and> p_state p = PS_OPEN \<and> p_symbol p = sb)"
  using open_positions_find [OF assms] by (metis not_None_eq)

lemma compare_positions_clean_keys:
  assumes snap: "snapshot_ok snap" and keys: "distinct (map p_symbol (filter (\<lambda>p. p_account_alias p = kiwoom_account) (positions d)))"
  shows "compare_broker_positions d snap = [] \<longleftrightarrow> (\<forall>b \<in> set (as_positions snap). \<exists>p \<in> set (positions d). position_agrees b p)"
    and "compare_internal_positions d snap = [] \<longleftrightarrow>
      (\<forall>p \<in> set (positions d). p_account_alias p = kiwoom_account \<and> p_state p = PS_OPEN \<longrightarrow>
         (\<exists>b \<in> set (as_positions snap). p_symbol p = bp_symbol b))"
proof -
  have dist: "distinct (map bp_symbol (as_positions snap))" using snap by (simp add: snapshot_ok_def)
  let ?m = "map_of (dict_of p_symbol (open_account_positions d))"
  note m = open_positions_find [OF keys]
  have one: "(case ?m (bp_symbol b) of
         None \<Rightarrow> [critical_mismatch ''UNKNOWN_EXTERNAL_POSITION'' (bp_symbol b) (broker_position_value b) (JObj [])]
       | Some p \<Rightarrow>
           if bp_quantity b \<noteq> p_quantity p
           then [critical_mismatch ''POSITION_QUANTITY_MISMATCH'' (bp_symbol b) (broker_position_value b) (internal_position_value p)]
           else if bp_average_price b \<noteq> p_average_price p
           then [critical_mismatch ''AVERAGE_PRICE_MISMATCH'' (bp_symbol b) (broker_position_value b) (internal_position_value p)]
           else []) = [] \<longleftrightarrow> (\<exists>p \<in> set (positions d). position_agrees b p)" for b
  proof (cases "?m (bp_symbol b)")
    case None
    then show ?thesis using open_positions_none [OF keys, of "bp_symbol b"] by (auto simp: position_agrees_def)
  next
    case (Some p)
    have same: "p' = p" if "p' \<in> set (positions d)" "position_agrees b p'" for p'
      using that m [of "bp_symbol b" p'] Some by (simp add: position_agrees_def)
    have p: "p \<in> set (positions d)" "p_account_alias p = kiwoom_account" "p_state p = PS_OPEN" "p_symbol p = bp_symbol b"
      using m [of "bp_symbol b" p] Some by simp_all
    have "(\<exists>p' \<in> set (positions d). position_agrees b p') \<longleftrightarrow> position_agrees b p" using same p(1) by blast
    then show ?thesis using Some p(2-4) by (simp add: position_agrees_def)
  qed
  then show "compare_broker_positions d snap = [] \<longleftrightarrow> (\<forall>b \<in> set (as_positions snap). \<exists>p \<in> set (positions d). position_agrees b p)"
    unfolding compare_broker_positions_def dict_of_distinct [OF dist] concat_map_empty by simp
  have d: "distinct (map p_symbol (open_account_positions d))"
    unfolding open_account_positions_def
    by (rule distinct_map_filter_mono [where P = "\<lambda>p. p_account_alias p = kiwoom_account"])
      (use keys in simp_all)
  show "compare_internal_positions d snap = [] \<longleftrightarrow>
      (\<forall>p \<in> set (positions d). p_account_alias p = kiwoom_account \<and> p_state p = PS_OPEN \<longrightarrow>
         (\<exists>b \<in> set (as_positions snap). p_symbol p = bp_symbol b))"
    unfolding compare_internal_positions_def dict_of_distinct [OF d] concat_map_empty
    by (auto simp: open_account_positions_def image_iff split: if_splits)
qed

lemma account_keys_positions:
  "account_keys_ok d \<Longrightarrow> distinct (map p_symbol (filter (\<lambda>p. p_account_alias p = kiwoom_account) (positions d)))"
  by (simp add: account_keys_ok_def)

lemmas compare_positions_clean = compare_positions_clean_keys [OF _ account_keys_positions]

section \<open>What the projection leaves alone\<close>

lemma try_fold_inv:
  assumes "\<And>x s s'. x \<in> set xs \<Longrightarrow> f x s = Inr s' \<Longrightarrow> P s \<Longrightarrow> P s'" "try_fold f xs s = Inr s'" "P s"
  shows "P s'"
  using assms
proof (induction xs arbitrary: s)
  case (Cons x xs)
  obtain t where t: "f x s = Inr t" "try_fold f xs t = Inr s'" using Cons.prems(2) by (auto split: sum.splits)
  have Pt: "P t" using Cons.prems(1) [OF _ t(1) Cons.prems(3)] by simp
  show ?case by (rule Cons.IH [OF _ t(2) Pt]) (use Cons.prems(1) in auto)
qed simp

lemma fold_inv: "(\<And>x s. x \<in> set xs \<Longrightarrow> P s \<Longrightarrow> P (f x s)) \<Longrightarrow> P s \<Longrightarrow> P (fold f xs s)"
  by (induction xs arbitrary: s) auto

lemma px_flush_Inr: "px_flush s = Inr s' \<Longrightarrow> px_db s' = px_db s \<and> px_flushed s' = px_db s \<and> ledger_ck (px_db s)"
  by (auto simp: px_flush_def split: if_splits)

text \<open>Before the positions are projected, both views of the session hold the positions of the start.\<close>

definition positions_kept :: "db \<Rightarrow> projection_session \<Rightarrow> bool" where
  "positions_kept d s \<longleftrightarrow>
     positions (px_db s) = positions d \<and> positions (px_flushed s) = positions d \<and> uuid_seed d \<le> uuid_seed (px_db s)"

lemma bump_sel [simp]: "px_db (bump f s) = px_db s" "px_flushed (bump f s) = px_flushed s"
  by (simp_all add: bump_def)

lemma add_order_event_sel [simp]:
  "positions (px_db (add_order_event hx r ty j t c s)) = positions (px_db s)"
  "px_flushed (add_order_event hx r ty j t c s) = px_flushed s"
  "uuid_seed (px_db s) \<le> uuid_seed (px_db (add_order_event hx r ty j t c s))"
  by (simp_all add: add_order_event_def uuid7_draw_def Let_def)

lemma put_order_sel [simp]:
  "positions (px_db (put_order r s)) = positions (px_db s)" "px_flushed (put_order r s) = px_flushed s"
  "uuid_seed (px_db (put_order r s)) = uuid_seed (px_db s)"
  by (simp_all add: put_order_def)

lemma store_order_kept: "positions_kept d s \<Longrightarrow> positions_kept d (store_order hx pc t ty j r r' s)"
proof -
  assume "positions_kept d s"
  moreover have "uuid_seed (px_db (put_order r'' s)) \<le>
      uuid_seed (px_db (add_order_event hx r' ty j t c (put_order r'' s)))" for r'' c by (rule add_order_event_sel(3))
  ultimately show ?thesis by (simp add: positions_kept_def store_order_def Let_def) (meson order_trans)
qed

lemma import_open_order_kept:
  assumes "import_open_order hx pc t b s = Inr s'" "positions_kept d s"
  shows "positions_kept d s'"
proof -
  obtain d1 s1 d2 s2 row i where s1: "px_flush (s\<lparr>px_db := d1\<rparr>) = Inr s1" "positions d1 = positions (px_db s)"
      "uuid_seed (px_db s) \<le> uuid_seed d1"
    and s2: "px_flush (s1\<lparr>px_db := d2\<rparr>) = Inr s2" "positions d2 = positions (px_db s1)" "uuid_seed (px_db s1) \<le> uuid_seed d2"
    and s': "s' = (add_order_event hx row ''BROKER_ORDER_IMPORTED'' (broker_order_payload b) t (pc_correlation_id pc) s2)
      \<lparr>px_orders := AList.update (bo_broker_order_id b) i (px_orders s2)\<rparr>"
    using assms(1) by (auto simp: import_open_order_def uuid7_draw_def Let_def split: if_splits sum.splits)
  note f = px_flush_Inr [OF s1(1)] px_flush_Inr [OF s2(1)]
  have "uuid_seed (px_db s2) \<le> uuid_seed (px_db (add_order_event hx row ty j t c s2))" for ty j c by simp
  then show ?thesis
    using assms(2) f s1(2,3) s2(2,3) unfolding s' positions_kept_def by simp (meson order_trans)
qed

lemma project_open_order_kept:
  assumes "project_open_order hx pc t b s = Inr s'" "positions_kept d s"
  shows "positions_kept d s'"
proof (cases "px_order s (bo_broker_order_id b)")
  case None
  then obtain s1 where "import_open_order hx pc t b s = Inr s1" "s' = bump pj_imported_orders_update s1"
    using assms(1) by (cases "import_open_order hx pc t b s") (simp_all add: project_open_order_def)
  then show ?thesis using import_open_order_kept [of hx pc t b s s1 d] assms(2) by (simp add: positions_kept_def)
next
  case (Some r)
  then show ?thesis using assms store_order_kept [OF assms(2)] by (auto simp: project_open_order_def split: if_splits)
qed

lemma project_fill_kept:
  "project_fill hx t ov f s = Inr s' \<Longrightarrow> positions_kept d s \<Longrightarrow> positions_kept d s'"
  by (auto simp: project_fill_def positions_kept_def uuid7_draw_def Let_def split: option.splits if_splits sum.splits)

lemma project_fill_total_kept: "positions_kept d s \<Longrightarrow> positions_kept d (project_fill_total hx pc t ids bt s)"
  by (simp add: project_fill_total_def store_order_kept split: option.split)

lemma project_cancel_kept: "positions_kept d s \<Longrightarrow> positions_kept d (project_cancel hx pc t ids totals bi s)"
  by (simp add: project_cancel_def store_order_kept Let_def split: option.split)

lemma project_fills_and_cancels_kept:
  assumes "project_fills_and_cancels hx pc snap s = Inr s'" "positions_kept d s"
  shows "positions_kept d s'"
proof -
  let ?totals = "fill_totals (as_fills snap)" and ?ids = "map bo_broker_order_id (as_open_orders snap)"
  obtain s1 where s1: "try_fold (project_fill hx (as_observed_at snap) (overfilled_order_ids ?totals s)) (as_fills snap) s = Inr s1"
    and s': "s' = (let s2 = fold (project_fill_total hx pc (as_observed_at snap) ?ids) ?totals s1
      in fold (project_cancel hx pc (as_observed_at snap) ?ids ?totals) (px_orders s2) s2)"
    using assms(1) by (auto simp: project_fills_and_cancels_def Let_def split: sum.splits)
  have kept1: "positions_kept d s1" by (rule try_fold_inv [where P = "positions_kept d", OF _ s1 assms(2)]) (rule project_fill_kept)
  let ?s2 = "fold (project_fill_total hx pc (as_observed_at snap) ?ids) ?totals s1"
  have "positions_kept d ?s2"
    by (rule fold_inv [where P = "positions_kept d"]) (use kept1 project_fill_total_kept in auto)
  then have "positions_kept d (fold (project_cancel hx pc (as_observed_at snap) ?ids ?totals) (px_orders ?s2) ?s2)"
    by (rule fold_inv [where P = "positions_kept d", rotated]) (rule project_cancel_kept)
  then show ?thesis by (simp add: s' Let_def)
qed

section \<open>Positions\<close>

lemma internal_positions_distinct:
  assumes "distinct (map p_symbol (filter (\<lambda>p. p_account_alias p = kiwoom_account) (positions d)))"
  shows "internal_positions d =
    map (\<lambda>p. (p_symbol p, p_id p)) (filter (\<lambda>p. p_account_alias p = kiwoom_account) (positions d))"
proof -
  have "distinct (map p_symbol ps) \<Longrightarrow> fold (\<lambda>p m. AList.update (p_symbol p) (p_id p) m) ps [] =
      map (\<lambda>p. (p_symbol p, p_id p)) ps" for ps
  proof (induction ps rule: rev_induct)
    case (snoc p ps)
    have "p_symbol p \<notin> fst ` set (map (\<lambda>p. (p_symbol p, p_id p)) ps)" using snoc.prems by force
    with snoc show ?case by (simp add: alist_update_new)
  qed simp
  then show ?thesis using assms by (simp add: internal_positions_def)
qed

text \<open>A row that carries what the broker reports.\<close>

definition adopted :: "broker_position \<Rightarrow> position \<Rightarrow> bool" where
  "adopted b p \<longleftrightarrow>
     p_account_alias p = kiwoom_account \<and> p_symbol p = bp_symbol b \<and> p_quantity p = bp_quantity b \<and>
     p_available_quantity p = bp_available_quantity b \<and> p_average_price p = bp_average_price b \<and>
     p_state p = (if bp_quantity b \<noteq> 0 then PS_OPEN else PS_CLOSED)"

text \<open>The dict of internal positions names rows by symbol, whatever else happens to them.\<close>

definition named_rows :: "(string \<times> uuid) list \<Rightarrow> position list \<Rightarrow> bool" where
  "named_rows internal ps \<longleftrightarrow>
     distinct (map p_id ps) \<and>
     (\<forall>(sb, i) \<in> set internal. \<exists>p \<in> set ps. p_id p = i \<and> p_symbol p = sb \<and> p_account_alias p = kiwoom_account)"

definition positions_inv :: "(string \<times> uuid) list \<Rightarrow> broker_position list \<Rightarrow> projection_session \<Rightarrow> bool" where
  "positions_inv internal bs s \<longleftrightarrow>
     named_rows internal (positions (px_db s)) \<and>
     (\<forall>p \<in> set (positions (px_db s)). p_id p < uuid_seed (px_db s)) \<and>
     (\<forall>p \<in> set (positions (px_db s)). p_account_alias p = kiwoom_account \<longrightarrow>
        (p_symbol p, p_id p) \<in> set internal \<or> p_symbol p \<in> bp_symbol ` set bs) \<and>
     (\<forall>b \<in> set bs. \<exists>p \<in> set (positions (px_db s)). adopted b p)"

lemma named_rowD:
  assumes "named_rows internal ps" "(sb, i) \<in> set internal" "p \<in> set ps" "p_id p = i"
  shows "p_symbol p = sb" "p_account_alias p = kiwoom_account"
proof -
  obtain q where q: "q \<in> set ps" "p_id q = i" "p_symbol q = sb" "p_account_alias q = kiwoom_account"
    using assms(1,2) by (fastforce simp: named_rows_def)
  have "p = q" using assms(1,3,4) q(1,2) by (auto simp: named_rows_def distinct_map inj_on_def)
  then show "p_symbol p = sb" "p_account_alias p = kiwoom_account" using q by simp_all
qed

lemma named_rows_upd:
  assumes "named_rows internal ps" "p \<in> set ps" "p_id q = p_id p" "p_symbol q = p_symbol p" "p_account_alias q = p_account_alias p"
  shows "named_rows internal (row_upd p_id (p_id p) (\<lambda>_. q) ps)"
proof -
  have eq: "x = p" if "x \<in> set ps" "p_id x = p_id p" for x
    using assms(1,2) that by (auto simp: named_rows_def distinct_map inj_on_def)
  have "map p_id (row_upd p_id (p_id p) (\<lambda>_. q) ps) = map p_id ps" using assms(3) by (simp add: row_upd_def)
  moreover have "\<exists>y \<in> set (row_upd p_id (p_id p) (\<lambda>_. q) ps).
      p_id y = p_id x \<and> p_symbol y = p_symbol x \<and> p_account_alias y = p_account_alias x" if "x \<in> set ps" for x
    using that eq [OF that] assms(3-5) by (cases "p_id x = p_id p") (auto simp: row_upd_def)
  ultimately show ?thesis using assms(1) unfolding named_rows_def by fastforce
qed

lemma add_position_event_sel [simp]:
  "positions (px_db (add_position_event pc p j s)) = positions (px_db s)"
  "uuid_seed (px_db (add_position_event pc p j s)) = uuid_seed (px_db s) + 1"
  by (simp_all add: add_position_event_def uuid7_draw_def)

lemma put_position_sel [simp]:
  "positions (px_db (put_position p s)) = row_upd p_id (p_id p) (\<lambda>_. p) (positions (px_db s))"
  "uuid_seed (px_db (put_position p s)) = uuid_seed (px_db s)"
  by (simp_all add: put_position_def)

text \<open>The two ways a broker position is adopted.\<close>

lemma project_position_cases:
  assumes "project_position pc internal b s = Inr s'"
  obtains (update) i p q where "map_of internal (bp_symbol b) = Some i" "p \<in> set (positions (px_db s))" "p_id p = i"
      "p_id q = i" "p_symbol q = p_symbol p" "p_account_alias q = p_account_alias p"
      "p_quantity q = bp_quantity b" "p_available_quantity q = bp_available_quantity b"
      "p_average_price q = bp_average_price b" "p_state q = (if bp_quantity b \<noteq> 0 then PS_OPEN else PS_CLOSED)"
      "positions (px_db s') = row_upd p_id i (\<lambda>_. q) (positions (px_db s))" "uuid_seed (px_db s) \<le> uuid_seed (px_db s')"
    | (new) q where "map_of internal (bp_symbol b) = None \<or> (\<exists>i. map_of internal (bp_symbol b) = Some i \<and>
        i \<notin> p_id ` set (positions (px_db s)))" "adopted b q" "p_id q = uuid_seed (px_db s)"
      "positions (px_db s') = positions (px_db s) @ [q]" "uuid_seed (px_db s) < uuid_seed (px_db s')"
proof -
  let ?row = "Option.bind (map_of internal (bp_symbol b)) (\<lambda>i. row_find p_id i (positions (px_db s)))"
  obtain mq ma where m: "managed_projection ?row (bp_quantity b) (replay_managed_position (px_flushed s) (bp_symbol b)) = (mq, ma)"
    by fastforce
  show ?thesis
  proof (cases ?row)
    case None
    let ?q = "imported_position b mq ma (uuid_seed (px_db s))"
    obtain s1 where "px_flush (s\<lparr>px_db := (px_db s)\<lparr>uuid_seed := uuid_seed (px_db s) + 1,
        positions := positions (px_db s) @ [?q]\<rparr>\<rparr>) = Inr s1"
      and s': "s' = bump pj_imported_positions_update (add_position_event pc ?q (JObj []) s1)"
      using assms None m by (auto simp: project_position_def uuid7_draw_def Let_def split: sum.splits)
    note f = px_flush_Inr [OF this(1)]
    have "map_of internal (bp_symbol b) = None \<or> (\<exists>i. map_of internal (bp_symbol b) = Some i \<and>
        i \<notin> p_id ` set (positions (px_db s)))"
      using None by (cases "map_of internal (bp_symbol b)") (simp_all add: row_find_None_iff image_iff)
    then show ?thesis
      by (rule new) (use f s' in \<open>simp_all add: adopted_def imported_position_def\<close>)
  next
    case (Some p)
    then obtain i where i: "map_of internal (bp_symbol b) = Some i" "row_find p_id i (positions (px_db s)) = Some p"
      by (cases "map_of internal (bp_symbol b)") simp_all
    let ?p' = "projected_position b mq ma p"
    let ?q = "if position_comparison_state ?p' \<noteq> position_comparison_state p then ?p'\<lparr>p_version := p_version p + 1\<rparr> else ?p'"
    have s': "positions (px_db s') = row_upd p_id (p_id ?q) (\<lambda>_. ?q) (positions (px_db s))"
      "uuid_seed (px_db s) \<le> uuid_seed (px_db s')"
      using assms Some m by (auto simp: project_position_def Let_def split: if_splits)
    have q: "p_id ?q = p_id p" "p_symbol ?q = p_symbol p" "p_account_alias ?q = p_account_alias p"
      "p_quantity ?q = bp_quantity b" "p_available_quantity ?q = bp_available_quantity b"
      "p_average_price ?q = bp_average_price b" "p_state ?q = (if bp_quantity b \<noteq> 0 then PS_OPEN else PS_CLOSED)"
      by (simp_all add: projected_position_def)
    have p: "p \<in> set (positions (px_db s))" "p_id p = i" using row_find_Some [OF i(2)] by simp_all
    show ?thesis by (rule update [OF i(1) p(1) p(2) _ q(2-7) _ s'(2)]) (use s'(1) q(1) p(2) in simp_all)
  qed
qed

lemma project_position_inv:
  assumes run: "project_position pc internal b s = Inr s'" and inv: "positions_inv internal bs s"
    and fresh: "bp_symbol b \<notin> bp_symbol ` set bs"
  shows "positions_inv internal (bs @ [b]) s'"
  using run
proof (cases rule: project_position_cases)
  case (update i p q)
  let ?ps = "positions (px_db s)" and ?ps' = "row_upd p_id i (\<lambda>_. q) (positions (px_db s))"
  have named: "named_rows internal ?ps" using inv by (simp add: positions_inv_def)
  have si: "(bp_symbol b, i) \<in> set internal" using update(1) by (rule map_of_SomeD)
  note p = named_rowD [OF named si update(2,3)]
  have eq: "x = p" if "x \<in> set ?ps" "p_id x = i" for x
    using named update(2,3) that by (auto simp: named_rows_def distinct_map inj_on_def)
  have mem: "x \<in> set ?ps' \<longleftrightarrow> x = q \<or> (x \<in> set ?ps \<and> p_id x \<noteq> i)" for x
    using update(2,3) by (auto simp: row_upd_def image_iff)
  have named': "named_rows internal ?ps'"
    using named_rows_upd [OF named update(2), of q] update(3,4,5,6) by simp
  have q: "adopted b q" using update(5-10) p by (simp add: adopted_def)
  have old: "\<exists>x \<in> set ?ps'. adopted c x" if c: "c \<in> set bs" for c
  proof -
    obtain x where x: "x \<in> set ?ps" "adopted c x" using inv c by (auto simp: positions_inv_def)
    have "p_id x \<noteq> i" using eq [OF x(1)] p x(2) fresh c by (auto simp: adopted_def)
    then show ?thesis using x mem by blast
  qed
  have "\<forall>x \<in> set ?ps. p_id x < uuid_seed (px_db s')"
    using inv update(12) unfolding positions_inv_def by (meson order_less_le_trans)
  then show ?thesis
    unfolding positions_inv_def update(11)
    using named' old q mem inv update(2,3,4) si p update(5)
    by (auto simp: positions_inv_def)
next
  case (new q)
  let ?ps = "positions (px_db s)"
  have named: "named_rows internal ?ps" using inv by (simp add: positions_inv_def)
  have ids: "\<forall>p \<in> set ?ps. p_id p < uuid_seed (px_db s)" using inv by (simp add: positions_inv_def)
  have "uuid_seed (px_db s) \<notin> p_id ` set ?ps" using ids by force
  then have named': "named_rows internal (?ps @ [q])" using named new(3) unfolding named_rows_def by fastforce
  show ?thesis
    unfolding positions_inv_def new(4)
    using named' inv ids new(2,3,5) by (force simp: positions_inv_def adopted_def)
qed

lemma project_positions_loop:
  assumes "try_fold (project_position pc internal) bs s = Inr s'" "positions_inv internal dn s"
    "distinct (map bp_symbol (dn @ bs))"
  shows "positions_inv internal (dn @ bs) s'"
  using assms
proof (induction bs arbitrary: dn s)
  case (Cons b bs)
  obtain t where t: "project_position pc internal b s = Inr t" "try_fold (project_position pc internal) bs t = Inr s'"
    using Cons.prems(1) by (auto split: sum.splits)
  have "positions_inv internal (dn @ [b]) t"
    by (rule project_position_inv [OF t(1) Cons.prems(2)]) (use Cons.prems(3) in auto)
  then show ?case using Cons.IH [OF t(2), of "dn @ [b]"] Cons.prems(3) by simp
qed simp

text \<open>Closing: the rows adopted so far keep their values, the internal rows seen so far are closed or reported.\<close>

definition closing_inv :: "(string \<times> uuid) list \<Rightarrow> broker_position list \<Rightarrow> (string \<times> uuid) list \<Rightarrow> projection_session \<Rightarrow> bool" where
  "closing_inv internal bs seen s \<longleftrightarrow>
     named_rows internal (positions (px_db s)) \<and>
     (\<forall>p \<in> set (positions (px_db s)). p_account_alias p = kiwoom_account \<longrightarrow>
        (p_symbol p, p_id p) \<in> set internal \<or> p_symbol p \<in> bp_symbol ` set bs) \<and>
     (\<forall>b \<in> set bs. \<exists>p \<in> set (positions (px_db s)). adopted b p) \<and>
     (\<forall>p \<in> set (positions (px_db s)). (p_symbol p, p_id p) \<in> set seen \<longrightarrow>
        p_state p \<noteq> PS_OPEN \<or> p_symbol p \<in> bp_symbol ` set bs)"

lemma close_missing_inv:
  assumes inv: "closing_inv internal bs seen s" and si: "si \<in> set internal"
  shows "closing_inv internal bs (seen @ [si]) (close_missing_position pc (map bp_symbol bs) si s)"
proof -
  obtain sb i where sbi: "si = (sb, i)" by (cases si)
  let ?ps = "positions (px_db s)"
  have named: "named_rows internal ?ps" using inv by (simp add: closing_inv_def)
  obtain p where p: "p \<in> set ?ps" "p_id p = i" "p_symbol p = sb" "p_account_alias p = kiwoom_account"
    using named si sbi by (fastforce simp: named_rows_def)
  have eq: "x = p" if "x \<in> set ?ps" "p_id x = i" for x
    using named p(1,2) that by (auto simp: named_rows_def distinct_map inj_on_def)
  have find: "row_find p_id i ?ps = Some p"
    using row_find_distinct [of p_id ?ps p] named p by (simp add: named_rows_def)
  show ?thesis
  proof (cases "p_state p \<noteq> PS_OPEN \<or> sb \<in> bp_symbol ` set bs")
    case True
    then have "close_missing_position pc (map bp_symbol bs) si s = s"
      by (simp add: close_missing_position_def sbi find)
    moreover have "\<forall>x \<in> set ?ps. (p_symbol x, p_id x) = si \<longrightarrow> p_state x \<noteq> PS_OPEN \<or> p_symbol x \<in> bp_symbol ` set bs"
      using eq True p(3) sbi by auto
    ultimately show ?thesis using inv unfolding closing_inv_def set_append by simp
  next
    case False
    let ?q = "closed_position p"
    have ps': "positions (px_db (close_missing_position pc (map bp_symbol bs) si s)) = row_upd p_id i (\<lambda>_. ?q) ?ps"
      using False by (simp add: close_missing_position_def sbi find closed_position_def p(2))
    have q: "p_id ?q = i" "p_symbol ?q = sb" "p_account_alias ?q = kiwoom_account" "p_state ?q = PS_CLOSED"
      by (simp_all add: closed_position_def p)
    have mem: "x \<in> set (row_upd p_id i (\<lambda>_. ?q) ?ps) \<longleftrightarrow> x = ?q \<or> (x \<in> set ?ps \<and> p_id x \<noteq> i)" for x
      using p(1,2) by (auto simp: row_upd_def image_iff)
    have named': "named_rows internal (row_upd p_id i (\<lambda>_. ?q) ?ps)"
      using named_rows_upd [OF named p(1), of ?q] q p by simp
    have old: "\<exists>x \<in> set (row_upd p_id i (\<lambda>_. ?q) ?ps). adopted c x" if c: "c \<in> set bs" for c
    proof -
      obtain x where x: "x \<in> set ?ps" "adopted c x" using inv c by (auto simp: closing_inv_def)
      have "p_id x \<noteq> i" using eq [OF x(1)] p(3) x(2) False c by (auto simp: adopted_def)
      then show ?thesis using x mem by blast
    qed
    show ?thesis
      unfolding closing_inv_def ps' using named' old q mem inv si sbi
      by (auto simp: closing_inv_def)
  qed
qed

lemma close_missing_loop:
  assumes "closing_inv internal bs seen s" "set xs \<subseteq> set internal"
  shows "closing_inv internal bs (seen @ xs) (fold (close_missing_position pc (map bp_symbol bs)) xs s)"
  using assms
proof (induction xs arbitrary: seen s)
  case (Cons x xs)
  have "closing_inv internal bs (seen @ [x]) (close_missing_position pc (map bp_symbol bs) x s)"
    using close_missing_inv [OF Cons.prems(1)] Cons.prems(2) by simp
  then show ?case using Cons.IH [of "seen @ [x]"] Cons.prems(2) by simp
qed simp

lemma projection_phases:
  assumes "apply_broker_account_projection hx pc snap d = Inr (c, d')"
  obtains s2 s3 where "positions_kept d s2" "project_positions pc snap s2 = Inr s3" "d' = px_db s3" "ledger_ck d'"
proof -
  obtain s1 s2 s3 s4 where s1: "try_fold (project_open_order hx pc (as_observed_at snap)) (as_open_orders snap) (projection_start d) = Inr s1"
    and s2: "project_fills_and_cancels hx pc snap s1 = Inr s2" and s3: "project_positions pc snap s2 = Inr s3"
    and s4: "px_flush s3 = Inr s4" "d' = px_db s4"
    using assms by (auto simp: apply_broker_account_projection_def split: sum.splits)
  have "positions_kept d (projection_start d)" by (simp add: positions_kept_def projection_start_def)
  then have "positions_kept d s1"
    by (rule try_fold_inv [where P = "positions_kept d", OF _ s1, rotated]) (rule project_open_order_kept)
  then have "positions_kept d s2" by (rule project_fills_and_cancels_kept [OF s2])
  then show thesis using that s3 s4 px_flush_Inr [OF s4(1)] by simp
qed

lemma projection_adopts:
  assumes run: "apply_broker_account_projection hx pc snap d = Inr (c, d')" and snap: "snapshot_ok snap"
    and ids: "distinct (map p_id (positions d))" "\<forall>p \<in> set (positions d). p_id p < uuid_seed d"
    and keys: "distinct (map p_key (positions d))"
  shows "\<forall>b \<in> set (as_positions snap). \<exists>p \<in> set (positions d'). adopted b p"
    and "\<forall>p \<in> set (positions d'). p_account_alias p = kiwoom_account \<and> p_state p = PS_OPEN \<longrightarrow>
      p_symbol p \<in> bp_symbol ` set (as_positions snap)"
    and "ledger_ck d'"
proof -
  obtain s2 s3 where kept: "positions_kept d s2" and s3: "project_positions pc snap s2 = Inr s3"
    and d': "d' = px_db s3" and ck: "ledger_ck d'" by (rule projection_phases [OF run])
  let ?bs = "as_positions snap" and ?rows = "filter (\<lambda>p. p_account_alias p = kiwoom_account) (positions d)"
  define internal where "internal = internal_positions (px_flushed s2)"
  have "distinct (map p_symbol ?rows)"
    using keys by (auto simp: distinct_map p_key_def inj_on_def)
  then have internal: "internal = map (\<lambda>p. (p_symbol p, p_id p)) ?rows"
    using kept unfolding internal_def positions_kept_def
    by (metis (mono_tags, lifting) internal_positions_distinct)
  obtain t where t: "try_fold (project_position pc internal) ?bs s2 = Inr t"
    and fin: "s3 = fold (close_missing_position pc (map bp_symbol ?bs)) internal t"
    using s3 by (auto simp: project_positions_def internal_def Let_def split: sum.splits)
  have "positions_inv internal [] s2"
    using kept ids by (auto simp: positions_inv_def positions_kept_def named_rows_def internal)
  from project_positions_loop [OF t this] have "positions_inv internal ?bs t"
    using snap by (simp add: snapshot_ok_def)
  then have "closing_inv internal ?bs [] t" by (simp add: positions_inv_def closing_inv_def)
  from close_missing_loop [OF this, of internal pc] have "closing_inv internal ?bs internal s3" by (simp add: fin)
  then show "\<forall>b \<in> set ?bs. \<exists>p \<in> set (positions d'). adopted b p"
    "\<forall>p \<in> set (positions d'). p_account_alias p = kiwoom_account \<and> p_state p = PS_OPEN \<longrightarrow> p_symbol p \<in> bp_symbol ` set ?bs"
    by (auto simp: closing_inv_def d')
  show "ledger_ck d'" by (rule ck)
qed

section \<open>A cancelled partial fill\<close>

definition cancelling_order :: trading_order where
  "cancelling_order = \<lparr>o_id = 3, o_intent_id = 1, o_order_group_id = 2, o_parent_order_id = None,
     o_account_alias = kiwoom_account, o_environment = ''MOCK'', o_symbol = ''005930'', o_market = ''KRX'',
     o_side = ''BUY'', o_order_type = ''LIMIT'', o_limit_price = Some 70000, o_requested_quantity = 3,
     o_filled_quantity = 0, o_cancelled_quantity = 0, o_remaining_quantity = 3, o_status = OS_CANCEL_PENDING,
     o_client_order_id = 4, o_idempotency_key = ''k'', o_request_hash = Sha256 JNull,
     o_broker_order_id = Some ''B1'', o_replacement_sequence = 0, o_unfilled_policy = ''CANCEL'',
     o_fill_timeout_seconds = 0, o_max_reprice_attempts = 0, o_reprice_attempts = 0, o_next_action_at = None,
     o_trading_date = 0, o_correlation_id = ''c'', o_version = 1, o_created_at = 0\<rparr>"

definition cancelling_db :: db where
  "cancelling_db = empty_db\<lparr>uuid_seed := 10, orders := [cancelling_order],
     order_intents := [\<lparr>i_id = 1, i_order_group_id = 2, i_account_alias = kiwoom_account, i_environment = ''MOCK'',
       i_symbol = ''005930'', i_market = ''KRX'', i_side = ''BUY'', i_action = ''BUY'', i_requested_quantity = 3,
       i_correlation_id = ''c'', i_version = 1\<rparr>]\<rparr>"

definition cancelled_snapshot :: account_snapshot where
  "cancelled_snapshot = \<lparr>as_open_orders = [],
     as_fills = [\<lparr>bf_broker_order_id = ''B1'', bf_symbol = ''005930'', bf_side = ''BUY'', bf_quantity = 1,
       bf_price = 70000, bf_fee = 0, bf_tax = 0, bf_order_time = ''101530'', bf_market = ''KRX''\<rparr>],
     as_positions = [\<lparr>bp_symbol = ''005930'', bp_quantity = 1, bp_available_quantity = 1, bp_average_price = 70000,
       bp_market = ''KRX''\<rparr>],
     as_observed_at = 0\<rparr>"

definition cancelled_call :: reconciliation_call where
  "cancelled_call = \<lparr>kr_trigger = ''PERIODIC'', kr_correlation_id = Some ''c'', kr_clean_gate_reason = ''CLEAN'',
     kr_answer = AccountAnswer cancelled_snapshot, kr_env = \<lambda>d. d, kr_started = 0, kr_resolved = 0, kr_completed = 0\<rparr>"

text \<open>A stand-in for the digest that tells the documents of this run apart.\<close>

definition demo_hex :: "json \<Rightarrow> string" where
  "demo_hex j = (case j of JObj ((k, v) # rest) \<Rightarrow> k | _ \<Rightarrow> [])"

definition after_cancel_run :: db where
  "after_cancel_run = snd (run_kiwoom_reconciliation demo_hex cancelled_call cancelling_db)"

lemma after_cancel_run:
  "map (\<lambda>r. (o_status r, o_filled_quantity r, o_cancelled_quantity r)) (orders after_cancel_run) = [(OS_CANCELLED, 1, 2)] \<and>
   map g_status (trading_gates after_cancel_run) = [GS_RECONCILING]"
  by code_simp

text \<open>The next run over the same broker answer reopens the cancelled order and halts trading.\<close>

lemma partial_cancel_halts_trading:
  "map (\<lambda>r. (o_status r, o_remaining_quantity r))
     (orders (snd (run_kiwoom_reconciliation demo_hex cancelled_call after_cancel_run))) = [(OS_RECONCILING, 2)] \<and>
   map g_status (trading_gates (snd (run_kiwoom_reconciliation demo_hex cancelled_call after_cancel_run))) = [GS_HALTED]"
  by code_simp

text \<open>The first run stores the managed fill but projects the position as external; only the next run
  attributes it.\<close>

lemma managed_quantity_lags:
  "replay_managed_position after_cancel_run ''005930'' = Some (1, 70000) \<and>
   map (\<lambda>p. (p_managed_quantity p, p_origin p)) (positions after_cancel_run) = [(0, EXTERNAL)] \<and>
   map (\<lambda>p. (p_managed_quantity p, p_origin p))
     (positions (snd (run_kiwoom_reconciliation demo_hex cancelled_call after_cancel_run))) = [(1, CRESTA_MANAGED)]"
  by code_simp

section \<open>Properties\<close>

text \<open>C19. A reconciliation run never opens the trading gate. Whatever the broker answers and other transactions
  do meanwhile, a run that fails leaves the gate DEGRADED and the orders, fills, positions, events and
  mismatches as they were when it failed; a run that completes leaves the gate HALTED when the
  ledger it stored differs from the broker answer, and RECONCILING with the caller's reason otherwise.\<close>
theorem reconciliation_never_opens_gate:
  assumes trig: "kr_trigger kr \<in> set reconciliation_triggers"
    and run: "run_kiwoom_reconciliation hx kr d = (res, d')"
  shows "\<exists>g. gate_get d' kiwoom_account = Some g \<and>
    (case res of
       Inl e \<Rightarrow> g_status g = GS_DEGRADED \<and> g_reason g = Some ''RECONCILIATION_FAILED'' \<and>
         ledger_tables d' = ledger_tables (kr_env kr (snd (start_run kr d)))
     | Inr v \<Rightarrow> (\<exists>snap. kr_answer kr = AccountAnswer snap \<and> kv_gate_status v = g_status g \<and>
         kv_mismatch_count v = length (compare_snapshot d' snap) \<and>
         (g_status g, g_reason g, kv_state v) =
           (if compare_snapshot d' snap = [] then (GS_RECONCILING, Some (kr_clean_gate_reason kr), RR_SUCCEEDED)
            else (GS_HALTED, Some ''RECONCILIATION_MISMATCH'', RR_MISMATCH)))) \<and>
    ledger_tables (snd (start_run kr d)) = ledger_tables d"
proof -
  let ?e = "kr_env kr (snd (start_run kr d))"
  obtain r d1 where st: "start_run kr d = (r, d1)" by fastforce
  consider (failed) e where "res = Inl e" "d' = mark_failed (rr_id r) (kr_completed kr) ?e"
    | (completed) snap counts v d3 where "kr_answer kr = AccountAnswer snap" "res = Inr v" "finish_run kr snap r counts d3 = (v, d')"
    using run trig unfolding run_kiwoom_reconciliation_def st
    by (auto simp: Let_def split: broker_answer.splits sum.splits prod.splits)
  then show ?thesis
  proof cases
    case (failed e)
    then show ?thesis using mark_failed_gate [of "rr_id r" "kr_completed kr" ?e] by (auto simp: mark_failed_ledger start_run_ledger)
  next
    case (completed snap counts v d3)
    note f = finish_run_gate [OF completed(3)]
    have c: "compare_snapshot d' snap = compare_snapshot d3 snap" using f by (intro compare_snapshot_cong) auto
    show ?thesis using f completed(1,2) by (auto simp: c start_run_ledger split: if_splits)
  qed
qed

theorem reconciliation_never_opens_gate_witness:
  "\<exists>g. gate_get (snd (run_kiwoom_reconciliation demo_hex (cancelled_call\<lparr>kr_answer := ClientRaises\<rparr>) cancelling_db))
     kiwoom_account = Some g \<and> g_status g = GS_DEGRADED"
proof -
  let ?kr = "cancelled_call\<lparr>kr_answer := ClientRaises\<rparr>"
  let ?d' = "snd (run_kiwoom_reconciliation demo_hex ?kr cancelling_db)"
  have trig: "kr_trigger ?kr \<in> set reconciliation_triggers"
    by (simp add: cancelled_call_def reconciliation_triggers_def)
  have run: "run_kiwoom_reconciliation demo_hex ?kr cancelling_db = (Inl ReconciliationProjectionError, ?d')"
    using trig by (simp add: run_kiwoom_reconciliation_def Let_def split: prod.split)
  show ?thesis using reconciliation_never_opens_gate [OF trig run] by auto
qed



text \<open>A successful projection makes the open positions of the account exactly those of the broker, with its
  quantity, available quantity and average price, so the comparison that follows reports no position mismatch;
  and every open position attributes to Cresta a part between zero and the whole, with the matching origin.\<close>
theorem projection_adopts_broker_positions:
  assumes run: "apply_broker_account_projection hx pc snap d = Inr (c, d')" and snap: "snapshot_ok snap"
    and ids: "distinct (map p_id (positions d))" "\<forall>p \<in> set (positions d). p_id p < uuid_seed d"
    and keys: "distinct (map p_key (positions d))"
  shows "(\<lambda>p. (p_symbol p, p_quantity p, p_available_quantity p, p_average_price p)) `
      {p \<in> set (positions d'). p_account_alias p = kiwoom_account \<and> p_state p = PS_OPEN} =
    (\<lambda>b. (bp_symbol b, bp_quantity b, bp_available_quantity b, bp_average_price b)) ` set (as_positions snap) \<and>
    compare_broker_positions d' snap = [] \<and> compare_internal_positions d' snap = [] \<and>
    (\<forall>p \<in> set (positions d'). p_state p = PS_OPEN \<longrightarrow> 0 \<le> p_managed_quantity p \<and> p_managed_quantity p \<le> p_quantity p \<and>
       p_origin p = position_origin_of (p_quantity p) (p_managed_quantity p))"
proof -
  note a = projection_adopts [OF assms]
  have pos: "0 < bp_quantity b" if "b \<in> set (as_positions snap)" for b using snap that by (simp add: snapshot_ok_def)
  have key: "distinct (map p_key (positions d'))" and ck: "\<forall>p \<in> set (positions d'). position_ck p"
    using a(3) by (simp_all add: ledger_ck_def list_all_iff)
  have uniq: "x = y" if "x \<in> set (positions d')" "y \<in> set (positions d')" "p_account_alias x = p_account_alias y"
      "p_symbol x = p_symbol y" for x y
    using key that by (auto simp: distinct_map inj_on_def p_key_def)
  have img: "(\<lambda>p. (p_symbol p, p_quantity p, p_available_quantity p, p_average_price p)) `
      {p \<in> set (positions d'). p_account_alias p = kiwoom_account \<and> p_state p = PS_OPEN} =
    (\<lambda>b. (bp_symbol b, bp_quantity b, bp_available_quantity b, bp_average_price b)) ` set (as_positions snap)"
    (is "?f ` ?open = ?g ` ?bs")
  proof (intro equalityI subsetI)
    fix x assume "x \<in> ?f ` ?open"
    then obtain p where p: "x = ?f p" "p \<in> set (positions d')" "p_account_alias p = kiwoom_account" "p_state p = PS_OPEN"
      by blast
    obtain b where b: "b \<in> ?bs" "p_symbol p = bp_symbol b" using a(2) p by auto
    obtain q where q: "q \<in> set (positions d')" "adopted b q" using a(1) b(1) by blast
    have "p = q" by (rule uniq [OF p(2) q(1)]) (use p(3) b(2) q(2) in \<open>simp_all add: adopted_def\<close>)
    then show "x \<in> ?g ` ?bs" using p(1) b q(2) by (auto simp: adopted_def)
  next
    fix x assume "x \<in> ?g ` ?bs"
    then obtain b where b: "x = ?g b" "b \<in> ?bs" by blast
    obtain q where q: "q \<in> set (positions d')" "adopted b q" using a(1) b(2) by blast
    have "p_state q = PS_OPEN" using q(2) pos [OF b(2)] by (simp add: adopted_def)
    then show "x \<in> ?f ` ?open" using q b(1) by (auto simp: adopted_def intro!: image_eqI [of _ _ q])
  qed
  have keys': "distinct (map p_symbol (filter (\<lambda>p. p_account_alias p = kiwoom_account) (positions d')))"
    using key by (auto simp: distinct_map p_key_def inj_on_def)
  have "\<forall>b \<in> set (as_positions snap). \<exists>p \<in> set (positions d'). position_agrees b p"
    using a(1) pos by (fastforce simp: adopted_def position_agrees_def)
  then have "compare_broker_positions d' snap = []" "compare_internal_positions d' snap = []"
    using compare_positions_clean_keys [OF snap keys'] a(2) by auto
  moreover have "0 \<le> p_managed_quantity p \<and> p_managed_quantity p \<le> p_quantity p \<and>
       p_origin p = position_origin_of (p_quantity p) (p_managed_quantity p)"
    if "p \<in> set (positions d')" "p_state p = PS_OPEN" for p
    using ck that by (auto simp: position_ck_def position_origin_of_def)
  ultimately show ?thesis using img by blast
qed

theorem projection_adopts_broker_positions_witness:
  "\<exists>c d'. apply_broker_account_projection demo_hex \<lparr>pc_run_id = 1, pc_correlation_id = ''c'', pc_wall = 0\<rparr> cancelled_snapshot
     cancelling_db = Inr (c, d') \<and> compare_broker_positions d' cancelled_snapshot = []"
proof -
  let ?p = "apply_broker_account_projection demo_hex \<lparr>pc_run_id = 1, pc_correlation_id = ''c'', pc_wall = 0\<rparr> cancelled_snapshot cancelling_db"
  have "isl ?p = False" by code_simp
  then obtain c d' where run: "?p = Inr (c, d')" by (cases ?p) auto
  have s: "snapshot_ok cancelled_snapshot" by (simp add: snapshot_ok_def cancelled_snapshot_def)
  have d: "positions cancelling_db = []" by (simp add: cancelling_db_def empty_db_def)
  show ?thesis using run projection_adopts_broker_positions [OF run s] by (simp add: d)
qed



end
