(* ===== verification/Auth_Service.thy ===== *)
theory Auth_Service
  imports Cresta_Prelude
begin

text \<open>
  \<open>app/auth/service.py\<close> and the part of \<open>app/auth/crypto.py\<close> it uses: password and one-time-code login,
  sessions, re-authentication proofs and the rate limits. Its tables have a state of their own. Tokens
  are drawn from a counter, so they are fresh; a stored token hash is the symbolic digest of the token. The
  cryptographic packages are parameters of type \<open>auth_crypto\<close>: argon2 verification, the one-time code
  of a secret at a time step, and decryption of the stored secret, which may raise.
\<close>

section \<open>Rows\<close>

record auth_user =
  us_id :: uuid
  us_login_id :: string
  us_password_hash :: string
  us_status :: string

record totp_credential =
  tc_user_id :: uuid
  tc_encrypted_secret :: string
  tc_last_used_step :: "int option"
  tc_verified :: bool

record auth_challenge =
  ch_token_hash :: digest
  ch_user_id :: uuid
  ch_attempts :: int
  ch_expires_at :: instant
  ch_consumed_at :: "instant option"

record user_session =
  se_id :: uuid
  se_token_hash :: digest
  se_csrf_hash :: digest
  se_user_id :: uuid
  se_last_seen_at :: instant
  se_expires_at :: instant
  se_revoked_at :: "instant option"
  se_request_ip :: string
  se_user_agent :: string

record reauth_proof =
  pf_proof_hash :: digest
  pf_user_id :: uuid
  pf_target_action :: string
  pf_target_id :: string
  pf_expires_at :: instant
  pf_consumed_at :: "instant option"

record auth_rate_limit =
  rl_subject_hash :: digest
  rl_failure_count :: int
  rl_lockout_level :: int
  rl_locked_until :: "instant option"

record auth_audit =
  aa_action :: string
  aa_result :: string
  aa_user_id :: "uuid option"
  aa_correlation_id :: string
  aa_request_ip :: string
  aa_user_agent :: string
  aa_metadata :: "(string \<times> string) list"

record auth_db =
  token_seed :: nat
  auth_users :: "auth_user list"
  totp_credentials :: "totp_credential list"
  auth_challenges :: "auth_challenge list"
  user_sessions :: "user_session list"
  reauth_proofs :: "reauth_proof list"
  auth_rate_limits :: "auth_rate_limit list"
  auth_audits :: "auth_audit list"

record auth_settings =
  ax_session_idle_minutes :: int
  ax_session_absolute_hours :: int
  ax_challenge_minutes :: int
  ax_reauth_minutes :: int
  ax_max_failures :: int
  ax_lock_minutes :: int

record auth_crypto =
  cy_verify_password :: "string \<Rightarrow> string \<Rightarrow> bool"
  cy_dummy_hash :: string
  cy_code_at :: "string \<Rightarrow> int \<Rightarrow> string"   \<comment> \<open>secret and step\<close>
  cy_decrypt :: "string \<Rightarrow> string option"

record auth_call =
  ak_request_ip :: string
  ak_user_agent :: string
  ak_correlation_id :: string
  ak_now :: instant

datatype auth_error = AuthenticationError | CsrfError | ReauthProofError | SecretUnreadable

definition minutes :: "int \<Rightarrow> instant" where
  "minutes n = seconds (60 * n)"

definition hours :: "int \<Rightarrow> instant" where
  "hours n = seconds (3600 * n)"

section \<open>Tokens and codes\<close>

definition token_hash :: "string \<Rightarrow> digest" where
  "token_hash tok = Sha256 (JStr tok)"

definition new_token :: "auth_db \<Rightarrow> string \<times> auth_db" where
  "new_token d = (uuid_text (token_seed d), d\<lparr>token_seed := token_seed d + 1\<rparr>)"

definition char_lower :: "char \<Rightarrow> char" where
  "char_lower c = (let n = of_char c :: nat in if 65 \<le> n \<and> n \<le> 90 then char_of (n + 32) else c)"

definition str_casefold :: "string \<Rightarrow> string" where
  "str_casefold s = map char_lower s"

definition normalize_login_id :: "string \<Rightarrow> string" where
  "normalize_login_id s = str_casefold (str_strip s)"

record totp_match =
  tm_valid :: bool
  tm_step :: "int option"

definition no_match :: totp_match where
  "no_match = \<lparr>tm_valid = False, tm_step = None\<rparr>"

text \<open>The first of the three steps around now whose code equals the given one decides.\<close>

definition base_step :: "instant \<Rightarrow> int" where
  "base_step now = (if 0 \<le> now then now div 1000000 else - ((- now) div 1000000)) div 30"

definition verify_totp :: "(int \<Rightarrow> string) \<Rightarrow> string \<Rightarrow> int option \<Rightarrow> instant \<Rightarrow> totp_match" where
  "verify_totp code_at code last_used now =
     (if length code \<noteq> 6 \<or> \<not> str_isdigit code then no_match
      else case find (\<lambda>s. code_at s = code) [base_step now - 1, base_step now, base_step now + 1] of
        None \<Rightarrow> no_match
      | Some s \<Rightarrow>
          if (case last_used of None \<Rightarrow> False | Some l \<Rightarrow> s \<le> l) then no_match
          else \<lparr>tm_valid = True, tm_step = Some s\<rparr>)"

section \<open>Rate limits\<close>

definition subject_hash :: "string \<Rightarrow> string \<Rightarrow> digest" where
  "subject_hash kind val = token_hash (kind @ '':'' @ str_casefold val)"

definition rate_subjects :: "string \<Rightarrow> string \<Rightarrow> digest list" where
  "rate_subjects login ip = [subject_hash ''login'' login, subject_hash ''ip'' ip]"

definition is_locked :: "instant \<Rightarrow> auth_rate_limit \<Rightarrow> bool" where
  "is_locked now r \<longleftrightarrow> (case rl_locked_until r of None \<Rightarrow> False | Some t \<Rightarrow> now < t)"

definition rate_limited :: "string \<Rightarrow> string \<Rightarrow> instant \<Rightarrow> auth_db \<Rightarrow> bool" where
  "rate_limited login ip now d \<longleftrightarrow>
     list_ex (\<lambda>r. rl_subject_hash r \<in> set (rate_subjects login ip) \<and> is_locked now r) (auth_rate_limits d)"

definition failed_once :: "auth_settings \<Rightarrow> instant \<Rightarrow> auth_rate_limit \<Rightarrow> auth_rate_limit" where
  "failed_once ax now r =
     (let n = rl_failure_count r + 1
      in if ax_max_failures ax \<le> n
         then (let level = rl_lockout_level r + 1
               in r\<lparr>rl_lockout_level := level,
                    rl_locked_until := Some (now + minutes (ax_lock_minutes ax * min (2 ^ nat (level - 1)) 16)),
                    rl_failure_count := 0\<rparr>)
         else r\<lparr>rl_failure_count := n\<rparr>)"

definition record_subject_failure :: "auth_settings \<Rightarrow> instant \<Rightarrow> digest \<Rightarrow> auth_rate_limit list \<Rightarrow> auth_rate_limit list" where
  "record_subject_failure ax now subject rs =
     (case row_find rl_subject_hash subject rs of
        None \<Rightarrow> rs @ [failed_once ax now
          \<lparr>rl_subject_hash = subject, rl_failure_count = 0, rl_lockout_level = 0, rl_locked_until = None\<rparr>]
      | Some r \<Rightarrow> row_upd rl_subject_hash subject (failed_once ax now) rs)"

definition record_failure :: "auth_settings \<Rightarrow> string \<Rightarrow> string \<Rightarrow> instant \<Rightarrow> auth_db \<Rightarrow> auth_db" where
  "record_failure ax login ip now d =
     d\<lparr>auth_rate_limits := fold (record_subject_failure ax now) (rate_subjects login ip) (auth_rate_limits d)\<rparr>"

definition clear_failures :: "string \<Rightarrow> string \<Rightarrow> auth_db \<Rightarrow> auth_db" where
  "clear_failures login ip d =
     d\<lparr>auth_rate_limits := fold (\<lambda>subject. row_upd rl_subject_hash subject
        (\<lambda>r. r\<lparr>rl_failure_count := 0, rl_locked_until := None\<rparr>)) (rate_subjects login ip) (auth_rate_limits d)\<rparr>"

definition auth_log ::
  "string \<Rightarrow> string \<Rightarrow> auth_call \<Rightarrow> uuid option \<Rightarrow> (string \<times> string) list \<Rightarrow> auth_db \<Rightarrow> auth_db" where
  "auth_log action result ak user metadata d =
     d\<lparr>auth_audits := auth_audits d @
        [\<lparr>aa_action = action, aa_result = result, aa_user_id = user, aa_correlation_id = ak_correlation_id ak,
          aa_request_ip = ak_request_ip ak, aa_user_agent = take 256 (ak_user_agent ak), aa_metadata = metadata\<rparr>]\<rparr>"

section \<open>Login\<close>

definition user_totp :: "auth_db \<Rightarrow> uuid \<Rightarrow> totp_credential option" where
  "user_totp d u = row_find tc_user_id u (totp_credentials d)"

definition totp_ready :: "auth_db \<Rightarrow> uuid \<Rightarrow> bool" where
  "totp_ready d u \<longleftrightarrow> (case user_totp d u of None \<Rightarrow> False | Some tc \<Rightarrow> tc_verified tc)"

definition begin_password_login ::
  "auth_crypto \<Rightarrow> auth_settings \<Rightarrow> auth_call \<Rightarrow> string \<Rightarrow> string \<Rightarrow> auth_db \<Rightarrow> (auth_error + string \<times> instant) \<times> auth_db" where
  "begin_password_login cy ax ak login password d =
     (let normalized = normalize_login_id login; now = ak_now ak
      in if rate_limited normalized (ak_request_ip ak) now d then (Inl AuthenticationError, d)
         else
           (let user = row_find us_login_id normalized (auth_users d);
                candidate = (case user of None \<Rightarrow> cy_dummy_hash cy | Some u \<Rightarrow> us_password_hash u);
                password_valid = cy_verify_password cy candidate password
            in case user of
                 Some u \<Rightarrow>
                   if us_status u = ''ACTIVE'' \<and> totp_ready d (us_id u) \<and> password_valid
                   then (let (tok, d1) = new_token d; expires = now + minutes (ax_challenge_minutes ax)
                         in (Inr (tok, expires),
                             auth_log ''LOGIN_PASSWORD'' ''PASSED'' ak (Some (us_id u)) []
                               (d1\<lparr>auth_challenges := auth_challenges d1 @
                                  [\<lparr>ch_token_hash = token_hash tok, ch_user_id = us_id u, ch_attempts = 0,
                                    ch_expires_at = expires, ch_consumed_at = None\<rparr>]\<rparr>)))
                   else (Inl AuthenticationError,
                         auth_log ''LOGIN_PASSWORD'' ''FAILED'' ak (Some (us_id u)) []
                           (record_failure ax normalized (ak_request_ip ak) now d))
               | None \<Rightarrow> (Inl AuthenticationError,
                         auth_log ''LOGIN_PASSWORD'' ''FAILED'' ak None []
                           (record_failure ax normalized (ak_request_ip ak) now d))))"

definition challenge_upd :: "digest \<Rightarrow> (auth_challenge \<Rightarrow> auth_challenge) \<Rightarrow> auth_db \<Rightarrow> auth_db" where
  "challenge_upd h f d = d\<lparr>auth_challenges := row_upd ch_token_hash h f (auth_challenges d)\<rparr>"

definition use_step :: "uuid \<Rightarrow> int option \<Rightarrow> auth_db \<Rightarrow> auth_db" where
  "use_step u step d =
     d\<lparr>totp_credentials := row_upd tc_user_id u (\<lambda>tc. tc\<lparr>tc_last_used_step := step\<rparr>) (totp_credentials d)\<rparr>"

definition failed_challenge :: "auth_settings \<Rightarrow> instant \<Rightarrow> auth_challenge \<Rightarrow> auth_challenge" where
  "failed_challenge ax now ch =
     ch\<lparr>ch_attempts := ch_attempts ch + 1,
        ch_consumed_at := (if ax_max_failures ax \<le> ch_attempts ch + 1 then Some now else ch_consumed_at ch)\<rparr>"

record session_tokens =
  st_session_token :: string
  st_csrf_token :: string
  st_expires_at :: instant

definition complete_totp_login ::
  "auth_crypto \<Rightarrow> auth_settings \<Rightarrow> auth_call \<Rightarrow> string \<Rightarrow> string \<Rightarrow> auth_db \<Rightarrow> (auth_error + session_tokens) \<times> auth_db" where
  "complete_totp_login cy ax ak challenge_token code d =
     (let now = ak_now ak; h = token_hash challenge_token
      in case row_find ch_token_hash h (auth_challenges d) of
           None \<Rightarrow> (Inl AuthenticationError, d)
         | Some ch \<Rightarrow>
             if ch_consumed_at ch \<noteq> None \<or> ch_expires_at ch \<le> now then (Inl AuthenticationError, d)
             else case row_find us_id (ch_user_id ch) (auth_users d) of
               None \<Rightarrow> (Inl AuthenticationError, d)
             | Some u \<Rightarrow>
                 (case user_totp d (us_id u) of
                    None \<Rightarrow> (Inl AuthenticationError, d)
                  | Some tc \<Rightarrow>
                      if \<not> tc_verified tc then (Inl AuthenticationError, d)
                      else if rate_limited (us_login_id u) (ak_request_ip ak) now d then (Inl AuthenticationError, d)
                      else case cy_decrypt cy (tc_encrypted_secret tc) of
                        None \<Rightarrow> (Inl SecretUnreadable, d)
                      | Some secret \<Rightarrow>
                          (let mt = verify_totp (cy_code_at cy secret) code (tc_last_used_step tc) now
                           in if \<not> tm_valid mt
                              then (Inl AuthenticationError,
                                    auth_log ''LOGIN_TOTP'' ''FAILED'' ak (Some (us_id u)) []
                                      (record_failure ax (us_login_id u) (ak_request_ip ak) now
                                        (challenge_upd h (failed_challenge ax now) d)))
                              else
                                (let d1 = clear_failures (us_login_id u) (ak_request_ip ak)
                                       (challenge_upd h (\<lambda>c. c\<lparr>ch_consumed_at := Some now\<rparr>) (use_step (us_id u) (tm_step mt) d));
                                     (tok, d2) = new_token d1;
                                     (csrf, d3) = new_token d2;
                                     (i, d4) = (token_seed d3, d3\<lparr>token_seed := token_seed d3 + 1\<rparr>);
                                     expires = now + hours (ax_session_absolute_hours ax)
                                 in (Inr \<lparr>st_session_token = tok, st_csrf_token = csrf, st_expires_at = expires\<rparr>,
                                     auth_log ''LOGIN_TOTP'' ''PASSED'' ak (Some (us_id u)) []
                                       (d4\<lparr>user_sessions := user_sessions d4 @
                                         [\<lparr>se_id = i, se_token_hash = token_hash tok, se_csrf_hash = token_hash csrf,
                                           se_user_id = us_id u, se_last_seen_at = now, se_expires_at = expires,
                                           se_revoked_at = None, se_request_ip = ak_request_ip ak,
                                           se_user_agent = take 256 (ak_user_agent ak)\<rparr>]\<rparr>))))))"

section \<open>Sessions\<close>

definition session_upd :: "uuid \<Rightarrow> (user_session \<Rightarrow> user_session) \<Rightarrow> auth_db \<Rightarrow> auth_db" where
  "session_upd i f d = d\<lparr>user_sessions := row_upd se_id i f (user_sessions d)\<rparr>"

definition resolve_session ::
  "auth_settings \<Rightarrow> string option \<Rightarrow> instant \<Rightarrow> auth_db \<Rightarrow> (auth_error + user_session \<times> auth_user) \<times> auth_db" where
  "resolve_session ax session_token now d =
     (case session_token of
        None \<Rightarrow> (Inl AuthenticationError, d)
      | Some tok \<Rightarrow>
          if tok = [] then (Inl AuthenticationError, d)
          else case row_find se_token_hash (token_hash tok) (user_sessions d) of
            None \<Rightarrow> (Inl AuthenticationError, d)
          | Some se \<Rightarrow>
              if se_revoked_at se \<noteq> None \<or> se_expires_at se \<le> now \<or>
                 se_last_seen_at se < now - minutes (ax_session_idle_minutes ax)
              then (Inl AuthenticationError, d)
              else case row_find us_id (se_user_id se) (auth_users d) of
                None \<Rightarrow> (Inl AuthenticationError, d)
              | Some u \<Rightarrow>
                  if us_status u \<noteq> ''ACTIVE'' then (Inl AuthenticationError, d)
                  else (Inr (se\<lparr>se_last_seen_at := now\<rparr>, u), session_upd (se_id se) (\<lambda>s. s\<lparr>se_last_seen_at := now\<rparr>) d))"

definition rotate_csrf :: "uuid \<Rightarrow> auth_db \<Rightarrow> string \<times> auth_db" where
  "rotate_csrf i d =
     (let (tok, d1) = new_token d in (tok, session_upd i (\<lambda>s. s\<lparr>se_csrf_hash := token_hash tok\<rparr>) d1))"

definition verify_csrf :: "user_session \<Rightarrow> string option \<Rightarrow> auth_error option" where
  "verify_csrf se tok =
     (case tok of None \<Rightarrow> Some CsrfError
      | Some t \<Rightarrow> if t = [] \<or> se_csrf_hash se \<noteq> token_hash t then Some CsrfError else None)"

definition revoke_session :: "auth_call \<Rightarrow> uuid \<Rightarrow> uuid \<Rightarrow> auth_db \<Rightarrow> auth_db" where
  "revoke_session ak i user d =
     auth_log ''LOGOUT'' ''PASSED'' ak (Some user) [] (session_upd i (\<lambda>s. s\<lparr>se_revoked_at := Some (ak_now ak)\<rparr>) d)"

section \<open>Re-authentication\<close>

definition create_reauth_proof ::
  "auth_crypto \<Rightarrow> auth_settings \<Rightarrow> auth_call \<Rightarrow> auth_user \<Rightarrow> string \<Rightarrow> string \<Rightarrow> string \<Rightarrow> auth_db \<Rightarrow>
     (auth_error + string \<times> instant) \<times> auth_db" where
  "create_reauth_proof cy ax ak u code action target d =
     (let now = ak_now ak; metadata = [(''target_action'', action), (''target_id'', target)]
      in if rate_limited (us_login_id u) (ak_request_ip ak) now d then (Inl AuthenticationError, d)
         else case user_totp d (us_id u) of
           None \<Rightarrow> (Inl AuthenticationError, d)
         | Some tc \<Rightarrow>
             if \<not> tc_verified tc then (Inl AuthenticationError, d)
             else case cy_decrypt cy (tc_encrypted_secret tc) of
               None \<Rightarrow> (Inl SecretUnreadable, d)
             | Some secret \<Rightarrow>
                 (let mt = verify_totp (cy_code_at cy secret) code (tc_last_used_step tc) now
                  in if \<not> tm_valid mt
                     then (Inl AuthenticationError,
                           auth_log ''REAUTH_TOTP'' ''FAILED'' ak (Some (us_id u)) metadata
                             (record_failure ax (us_login_id u) (ak_request_ip ak) now d))
                     else
                       (let (tok, d1) = new_token (use_step (us_id u) (tm_step mt) d);
                            expires = now + minutes (ax_reauth_minutes ax)
                        in (Inr (tok, expires),
                            auth_log ''REAUTH_TOTP'' ''PASSED'' ak (Some (us_id u)) metadata
                              (d1\<lparr>reauth_proofs := reauth_proofs d1 @
                                [\<lparr>pf_proof_hash = token_hash tok, pf_user_id = us_id u, pf_target_action = action,
                                  pf_target_id = target, pf_expires_at = expires, pf_consumed_at = None\<rparr>]\<rparr>)))))"

definition consume_reauth_proof ::
  "uuid \<Rightarrow> string \<Rightarrow> string \<Rightarrow> string \<Rightarrow> instant \<Rightarrow> auth_db \<Rightarrow> (auth_error + reauth_proof) \<times> auth_db" where
  "consume_reauth_proof user raw action target now d =
     (let h = token_hash raw
      in case row_find pf_proof_hash h (reauth_proofs d) of
           None \<Rightarrow> (Inl ReauthProofError, d)
         | Some pf \<Rightarrow>
             if pf_user_id pf \<noteq> user \<or> pf_target_action pf \<noteq> action \<or> pf_target_id pf \<noteq> target \<or>
                pf_consumed_at pf \<noteq> None \<or> pf_expires_at pf \<le> now
             then (Inl ReauthProofError, d)
             else (Inr (pf\<lparr>pf_consumed_at := Some now\<rparr>),
                   d\<lparr>reauth_proofs := row_upd pf_proof_hash h (\<lambda>p. p\<lparr>pf_consumed_at := Some now\<rparr>) (reauth_proofs d)\<rparr>))"

end
