(* ===== verification/Auth_Properties.thy ===== *)
theory Auth_Properties
  imports Auth_Service
begin

text \<open>
  What authentication promises over every sequence of its operations: a one-time step is accepted once, a
  consumed challenge or proof and a revoked session stay so, and repeated failures lock the login.
\<close>

section \<open>Steps\<close>

text \<open>Every operation of the service, and any change of the users that keeps the credentials.\<close>

inductive auth_step :: "auth_crypto \<Rightarrow> auth_settings \<Rightarrow> auth_db \<Rightarrow> auth_db \<Rightarrow> bool" for cy ax where
  password: "auth_step cy ax d (snd (begin_password_login cy ax ak login pw d))"
| totp: "auth_step cy ax d (snd (complete_totp_login cy ax ak tok code d))"
| resolve: "auth_step cy ax d (snd (resolve_session ax tok now d))"
| rotate: "auth_step cy ax d (snd (rotate_csrf i d))"
| revoke: "auth_step cy ax d (revoke_session ak i u d)"
| reauth: "auth_step cy ax d (snd (create_reauth_proof cy ax ak u code action target d))"
| consume: "auth_step cy ax d (snd (consume_reauth_proof user raw action target now d))"
| users: "auth_step cy ax d (d\<lparr>auth_users := us\<rparr>)"

section \<open>Frames\<close>

lemma record_failure_sel [simp]:
  "totp_credentials (record_failure ax l ip now d) = totp_credentials d"
  "auth_challenges (record_failure ax l ip now d) = auth_challenges d"
  "user_sessions (record_failure ax l ip now d) = user_sessions d"
  "reauth_proofs (record_failure ax l ip now d) = reauth_proofs d"
  "auth_users (record_failure ax l ip now d) = auth_users d"
  by (simp_all add: record_failure_def)

lemma clear_failures_sel [simp]:
  "totp_credentials (clear_failures l ip d) = totp_credentials d"
  "auth_challenges (clear_failures l ip d) = auth_challenges d"
  "user_sessions (clear_failures l ip d) = user_sessions d"
  "reauth_proofs (clear_failures l ip d) = reauth_proofs d"
  by (simp_all add: clear_failures_def)

lemma auth_log_sel [simp]:
  "totp_credentials (auth_log a r ak u m d) = totp_credentials d"
  "auth_challenges (auth_log a r ak u m d) = auth_challenges d"
  "user_sessions (auth_log a r ak u m d) = user_sessions d"
  "reauth_proofs (auth_log a r ak u m d) = reauth_proofs d"
  "auth_rate_limits (auth_log a r ak u m d) = auth_rate_limits d"
  "auth_users (auth_log a r ak u m d) = auth_users d"
  by (simp_all add: auth_log_def)

lemma challenge_upd_sel [simp]:
  "totp_credentials (challenge_upd h f d) = totp_credentials d"
  "user_sessions (challenge_upd h f d) = user_sessions d" "reauth_proofs (challenge_upd h f d) = reauth_proofs d"
  "auth_challenges (challenge_upd h f d) = row_upd ch_token_hash h f (auth_challenges d)"
  by (simp_all add: challenge_upd_def)

lemma use_step_sel [simp]:
  "auth_challenges (use_step u s d) = auth_challenges d" "user_sessions (use_step u s d) = user_sessions d"
  "reauth_proofs (use_step u s d) = reauth_proofs d"
  "totp_credentials (use_step u s d) = row_upd tc_user_id u (\<lambda>tc. tc\<lparr>tc_last_used_step := s\<rparr>) (totp_credentials d)"
  by (simp_all add: use_step_def)

lemma session_upd_sel [simp]:
  "totp_credentials (session_upd i f d) = totp_credentials d" "auth_challenges (session_upd i f d) = auth_challenges d"
  "reauth_proofs (session_upd i f d) = reauth_proofs d"
  "user_sessions (session_upd i f d) = row_upd se_id i f (user_sessions d)"
  by (simp_all add: session_upd_def)

section \<open>One-time steps\<close>

definition last_step :: "auth_db \<Rightarrow> uuid \<Rightarrow> int option" where
  "last_step d u = Option.bind (user_totp d u) tc_last_used_step"

lemma find_SomeD: "find P xs = Some x \<Longrightarrow> P x \<and> x \<in> set xs"
  by (induction xs) (auto split: if_splits)

lemma verify_totp_valid:
  assumes "tm_valid (verify_totp code_at code lu now)"
  obtains s where "tm_step (verify_totp code_at code lu now) = Some s" "code_at s = code"
    "base_step now - 1 \<le> s" "s \<le> base_step now + 1" "\<And>l. lu = Some l \<Longrightarrow> l < s"
proof -
  let ?steps = "[base_step now - 1, base_step now, base_step now + 1]"
  obtain s where s: "find (\<lambda>s. code_at s = code) ?steps = Some s" "\<not> (case lu of None \<Rightarrow> False | Some l \<Rightarrow> s \<le> l)"
    "verify_totp code_at code lu now = \<lparr>tm_valid = True, tm_step = Some s\<rparr>"
    using assms by (auto simp: verify_totp_def no_match_def simp del: find.simps split: option.splits if_splits)
  have "code_at s = code" "s \<in> set ?steps" using find_SomeD [OF s(1)] by blast+
  then show thesis using that s by (auto split: option.splits)
qed

lemma last_step_cong: "totp_credentials d' = totp_credentials d \<Longrightarrow> last_step d' u = last_step d u"
  by (simp add: last_step_def user_totp_def)

lemma last_step_use:
  "totp_credentials d' = row_upd tc_user_id u (\<lambda>tc. tc\<lparr>tc_last_used_step := s\<rparr>) (totp_credentials d) \<Longrightarrow>
   user_totp d u = Some tc \<Longrightarrow> last_step d' v = (if v = u then s else last_step d v)"
  by (simp add: last_step_def user_totp_def row_find_row_upd)

text \<open>The two operations that accept a code, on success and on failure.\<close>

lemma login_success:
  assumes "complete_totp_login cy ax ak tok code d = (Inr ss, d')"
  obtains ch tc s where "row_find ch_token_hash (token_hash tok) (auth_challenges d) = Some ch" "ch_consumed_at ch = None"
    "ak_now ak < ch_expires_at ch" "\<And>v. last_step d' v = (if v = ch_user_id ch then Some s else last_step d v)"
    "\<And>l. last_step d (ch_user_id ch) = Some l \<Longrightarrow> l < s"
    "auth_challenges d' = row_upd ch_token_hash (token_hash tok) (\<lambda>c. c\<lparr>ch_consumed_at := Some (ak_now ak)\<rparr>) (auth_challenges d)"
    "base_step (ak_now ak) - 1 \<le> s" "s \<le> base_step (ak_now ak) + 1"
proof -
  obtain ch u tc secret where ch: "row_find ch_token_hash (token_hash tok) (auth_challenges d) = Some ch" "ch_consumed_at ch = None"
      "ak_now ak < ch_expires_at ch" and u: "row_find us_id (ch_user_id ch) (auth_users d) = Some u"
    and tc: "user_totp d (us_id u) = Some tc"
    and v: "tm_valid (verify_totp (cy_code_at cy secret) code (tc_last_used_step tc) (ak_now ak))"
    and d': "totp_credentials d' = row_upd tc_user_id (us_id u)
        (\<lambda>x. x\<lparr>tc_last_used_step := tm_step (verify_totp (cy_code_at cy secret) code (tc_last_used_step tc) (ak_now ak))\<rparr>)
        (totp_credentials d)"
      "auth_challenges d' = row_upd ch_token_hash (token_hash tok) (\<lambda>c. c\<lparr>ch_consumed_at := Some (ak_now ak)\<rparr>) (auth_challenges d)"
    using assms by (auto simp: complete_totp_login_def new_token_def Let_def split: option.splits if_splits)
  have id: "us_id u = ch_user_id ch" using row_find_Some [OF u] by simp
  obtain s where s: "tm_step (verify_totp (cy_code_at cy secret) code (tc_last_used_step tc) (ak_now ak)) = Some s"
      "base_step (ak_now ak) - 1 \<le> s" "s \<le> base_step (ak_now ak) + 1" "\<And>l. tc_last_used_step tc = Some l \<Longrightarrow> l < s"
    using verify_totp_valid [OF v] by metis
  have "last_step d' w = (if w = ch_user_id ch then Some s else last_step d w)" for w
    using last_step_use [OF d'(1) tc, of w] s(1) id by simp
  moreover have "l < s" if "last_step d (ch_user_id ch) = Some l" for l
    using that tc id s(4) by (simp add: last_step_def)
  ultimately show thesis using that [OF ch] d'(2) s(2,3) by blast
qed

lemma reauth_success:
  assumes "create_reauth_proof cy ax ak u code action target d = (Inr r, d')"
  obtains s where "\<And>v. last_step d' v = (if v = us_id u then Some s else last_step d v)"
    "\<And>l. last_step d (us_id u) = Some l \<Longrightarrow> l < s"
    "base_step (ak_now ak) - 1 \<le> s" "s \<le> base_step (ak_now ak) + 1"
proof -
  obtain tc secret where tc: "user_totp d (us_id u) = Some tc"
    and v: "tm_valid (verify_totp (cy_code_at cy secret) code (tc_last_used_step tc) (ak_now ak))"
    and d': "totp_credentials d' = row_upd tc_user_id (us_id u)
        (\<lambda>x. x\<lparr>tc_last_used_step := tm_step (verify_totp (cy_code_at cy secret) code (tc_last_used_step tc) (ak_now ak))\<rparr>)
        (totp_credentials d)"
    using assms by (auto simp: create_reauth_proof_def new_token_def Let_def split: option.splits if_splits)
  obtain s where s: "tm_step (verify_totp (cy_code_at cy secret) code (tc_last_used_step tc) (ak_now ak)) = Some s"
      "base_step (ak_now ak) - 1 \<le> s" "s \<le> base_step (ak_now ak) + 1" "\<And>l. tc_last_used_step tc = Some l \<Longrightarrow> l < s"
    using verify_totp_valid [OF v] by metis
  have "last_step d' w = (if w = us_id u then Some s else last_step d w)" for w
    using last_step_use [OF d' tc, of w] s(1) by simp
  moreover have "l < s" if "last_step d (us_id u) = Some l" for l
    using that tc s(4) by (simp add: last_step_def)
  ultimately show thesis using that s(2,3) by blast
qed

lemma login_failure:
  "complete_totp_login cy ax ak tok code d = (Inl e, d') \<Longrightarrow> totp_credentials d' = totp_credentials d"
  by (auto simp: complete_totp_login_def new_token_def Let_def split: option.splits if_splits)

lemma reauth_failure:
  "create_reauth_proof cy ax ak u code action target d = (Inl e, d') \<Longrightarrow> totp_credentials d' = totp_credentials d"
  by (auto simp: create_reauth_proof_def new_token_def Let_def split: option.splits if_splits)

lemma auth_step_last:
  assumes "auth_step cy ax d d'" "last_step d u = Some l"
  shows "\<exists>l'. last_step d' u = Some l' \<and> l \<le> l'"
  using assms(1)
proof cases
  case (totp ak tok code)
  then show ?thesis
  proof (cases "complete_totp_login cy ax ak tok code d")
    case (Pair res x)
    then show ?thesis
    proof (cases res)
      case (Inl e)
      then show ?thesis using totp Pair login_failure [of cy ax ak tok code d e x] last_step_cong [of x d u] assms(2) by simp
    next
      case (Inr ss)
      show ?thesis
        by (rule login_success [OF Pair [unfolded Inr]]) (use totp Pair assms(2) in \<open>auto intro: less_imp_le\<close>)
    qed
  qed
next
  case (reauth ak v code action target)
  then show ?thesis
  proof (cases "create_reauth_proof cy ax ak v code action target d")
    case (Pair res x)
    then show ?thesis
    proof (cases res)
      case (Inl e)
      then show ?thesis
        using reauth Pair reauth_failure [of cy ax ak v code action target d e x] last_step_cong [of x d u] assms(2) by simp
    next
      case (Inr r)
      show ?thesis
        by (rule reauth_success [OF Pair [unfolded Inr]]) (use reauth Pair assms(2) in \<open>auto intro: less_imp_le\<close>)
    qed
  qed
next
  case (password ak login pw)
  then have "totp_credentials d' = totp_credentials d"
    by (auto simp: begin_password_login_def new_token_def Let_def split: option.split)
  then show ?thesis using last_step_cong [of d' d u] assms(2) by simp
next
  case (resolve tok now)
  then have "totp_credentials d' = totp_credentials d"
    by (auto simp: resolve_session_def split: option.split)
  then show ?thesis using last_step_cong [of d' d u] assms(2) by simp
next
  case (consume user raw action target now)
  then have "totp_credentials d' = totp_credentials d"
    by (auto simp: consume_reauth_proof_def Let_def split: option.split)
  then show ?thesis using last_step_cong [of d' d u] assms(2) by simp
qed (use assms(2) in \<open>simp_all add: rotate_csrf_def revoke_session_def new_token_def last_step_def user_totp_def\<close>)

text \<open>A run of the service with the log of the (user, step) pairs it accepted.\<close>

inductive auth_run ::
  "auth_crypto \<Rightarrow> auth_settings \<Rightarrow> auth_db \<Rightarrow> (uuid \<times> int option) list \<Rightarrow> auth_db \<Rightarrow> bool" for cy ax d0 where
  start: "auth_run cy ax d0 [] d0"
| login: "auth_run cy ax d0 used d \<Longrightarrow> complete_totp_login cy ax ak tok code d = (Inr ss, d') \<Longrightarrow>
    row_find ch_token_hash (token_hash tok) (auth_challenges d) = Some ch \<Longrightarrow>
    auth_run cy ax d0 (used @ [(ch_user_id ch, last_step d' (ch_user_id ch))]) d'"
| reauth: "auth_run cy ax d0 used d \<Longrightarrow> create_reauth_proof cy ax ak u code action target d = (Inr r, d') \<Longrightarrow>
    auth_run cy ax d0 (used @ [(us_id u, last_step d' (us_id u))]) d'"
| other: "auth_run cy ax d0 used d \<Longrightarrow> auth_step cy ax d d' \<Longrightarrow> auth_run cy ax d0 used d'"

lemma auth_run_log:
  assumes "auth_run cy ax d0 used d"
  shows "distinct used \<and> (\<forall>(u, s) \<in> set used. \<exists>a l. s = Some a \<and> last_step d u = Some l \<and> a \<le> l)"
  using assms
proof (induction rule: auth_run.induct)
  case (login used d ak tok code ss d' ch)
  obtain ch' s where ch': "row_find ch_token_hash (token_hash tok) (auth_challenges d) = Some ch'"
    and new: "\<And>v. last_step d' v = (if v = ch_user_id ch' then Some s else last_step d v)"
    and lt: "\<And>l. last_step d (ch_user_id ch') = Some l \<Longrightarrow> l < s"
    by (rule login_success [OF login.hyps(2)]) blast
  have "ch' = ch" using ch' login.hyps(3) by simp
  then show ?case using login.IH new lt by fastforce
next
  case (reauth used d ak u code action target r d')
  obtain s where new: "\<And>v. last_step d' v = (if v = us_id u then Some s else last_step d v)"
    and lt: "\<And>l. last_step d (us_id u) = Some l \<Longrightarrow> l < s"
    by (rule reauth_success [OF reauth.hyps(2)]) blast
  then show ?case using reauth.IH by fastforce
next
  case (other used d d')
  have "\<exists>l'. last_step d' u = Some l' \<and> a \<le> l'" if "last_step d u = Some l" "a \<le> l" for u l a
    using auth_step_last [OF other.hyps(2) that(1)] that(2) by force
  then show ?case using other.IH by fastforce
qed simp

section \<open>Consumed credentials\<close>

definition spent :: "auth_db \<Rightarrow> auth_db \<Rightarrow> bool" where
  "spent d d' \<longleftrightarrow>
     (\<forall>h ch. row_find ch_token_hash h (auth_challenges d) = Some ch \<and> ch_consumed_at ch \<noteq> None \<longrightarrow>
        (\<exists>ch'. row_find ch_token_hash h (auth_challenges d') = Some ch' \<and> ch_consumed_at ch' \<noteq> None)) \<and>
     (\<forall>h pf. row_find pf_proof_hash h (reauth_proofs d) = Some pf \<and> pf_consumed_at pf \<noteq> None \<longrightarrow>
        (\<exists>pf'. row_find pf_proof_hash h (reauth_proofs d') = Some pf' \<and> pf_consumed_at pf' \<noteq> None)) \<and>
     (\<forall>h se. row_find se_token_hash h (user_sessions d) = Some se \<and> se_revoked_at se \<noteq> None \<longrightarrow>
        (\<exists>se'. row_find se_token_hash h (user_sessions d') = Some se' \<and> se_revoked_at se' \<noteq> None))"

text \<open>Appending rows and updates that keep the key and the mark keep a marked row marked.\<close>

definition marks :: "('r \<Rightarrow> 'k) \<Rightarrow> ('r \<Rightarrow> bool) \<Rightarrow> 'r list \<Rightarrow> 'r list \<Rightarrow> bool" where
  "marks key m rs rs' \<longleftrightarrow>
     (\<forall>k r. row_find key k rs = Some r \<and> m r \<longrightarrow> (\<exists>r'. row_find key k rs' = Some r' \<and> m r'))"

lemma marks_refl: "marks key m rs rs"
  by (simp add: marks_def)

lemma marks_append: "marks key m rs (rs @ xs)"
  by (auto simp: marks_def row_find_append)

lemma marks_map:
  assumes "\<And>r. key (g r) = key r" "\<And>r. m r \<Longrightarrow> m (g r)"
  shows "marks key m rs (map g rs)"
proof -
  have "row_find key k (map g rs) = map_option g (row_find key k rs)" for k
    by (induction rs) (simp_all add: row_find_def assms(1))
  then show ?thesis using assms(2) by (auto simp: marks_def)
qed

lemma marks_upd:
  "(\<And>r. key (f r) = key r) \<Longrightarrow> (\<And>r. m r \<Longrightarrow> m (f r)) \<Longrightarrow> marks key m rs (row_upd k i f rs)"
  unfolding row_upd_def by (rule marks_map) auto

lemma spent_marks:
  "spent d d' \<longleftrightarrow>
     marks ch_token_hash (\<lambda>c. ch_consumed_at c \<noteq> None) (auth_challenges d) (auth_challenges d') \<and>
     marks pf_proof_hash (\<lambda>c. pf_consumed_at c \<noteq> None) (reauth_proofs d) (reauth_proofs d') \<and>
     marks se_token_hash (\<lambda>c. se_revoked_at c \<noteq> None) (user_sessions d) (user_sessions d')"
  by (simp add: spent_def marks_def)

lemma spent_trans: "spent d d' \<Longrightarrow> spent d' d'' \<Longrightarrow> spent d d''"
  unfolding spent_def by meson

lemma spent_same:
  "auth_challenges d' = auth_challenges d \<Longrightarrow> reauth_proofs d' = reauth_proofs d \<Longrightarrow> user_sessions d' = user_sessions d \<Longrightarrow>
   spent d d'"
  by (simp add: spent_marks marks_refl)

lemma auth_step_spent: "auth_step cy ax d d' \<Longrightarrow> spent d d'"
proof (induction rule: auth_step.induct)
  case (password d ak login pw)
  show ?case
    by (auto simp: begin_password_login_def new_token_def Let_def spent_marks marks_refl marks_append split: option.split)
next
  case (totp d ak tok code)
  have f: "marks ch_token_hash (\<lambda>c. ch_consumed_at c \<noteq> None) rs (row_upd ch_token_hash h (failed_challenge ax now) rs)"
    "marks ch_token_hash (\<lambda>c. ch_consumed_at c \<noteq> None) rs (row_upd ch_token_hash h (\<lambda>c. c\<lparr>ch_consumed_at := Some now\<rparr>) rs)"
    for rs h now by (rule marks_upd; simp add: failed_challenge_def)+
  show ?case
    by (auto simp: complete_totp_login_def new_token_def Let_def spent_marks marks_refl marks_append f simp del: not_None_eq
        split: option.split)
next
  case (resolve d tok now)
  have f: "marks se_token_hash (\<lambda>c. se_revoked_at c \<noteq> None) rs (row_upd se_id i (\<lambda>s. s\<lparr>se_last_seen_at := t\<rparr>) rs)" for rs i t
    by (rule marks_upd) simp_all
  show ?case by (auto simp: resolve_session_def spent_marks marks_refl f simp del: not_None_eq split: option.split)
next
  case (rotate d i)
  have f: "marks se_token_hash (\<lambda>c. se_revoked_at c \<noteq> None) rs (row_upd se_id i (\<lambda>s. s\<lparr>se_csrf_hash := t\<rparr>) rs)" for rs t
    by (rule marks_upd) simp_all
  show ?case by (simp add: rotate_csrf_def new_token_def spent_marks marks_refl f del: not_None_eq)
next
  case (revoke d ak i u)
  have f: "marks se_token_hash (\<lambda>c. se_revoked_at c \<noteq> None) rs (row_upd se_id i (\<lambda>s. s\<lparr>se_revoked_at := Some t\<rparr>) rs)" for rs t
    by (rule marks_upd) simp_all
  show ?case by (simp add: revoke_session_def spent_marks marks_refl f del: not_None_eq)
next
  case (reauth d ak u code action target)
  show ?case
    by (auto simp: create_reauth_proof_def new_token_def Let_def spent_marks marks_refl marks_append split: option.split)
next
  case (consume d user raw action target now)
  have f: "marks pf_proof_hash (\<lambda>c. pf_consumed_at c \<noteq> None) rs (row_upd pf_proof_hash h (\<lambda>p. p\<lparr>pf_consumed_at := Some now\<rparr>) rs)"
    for rs h by (rule marks_upd) simp_all
  show ?case by (auto simp: consume_reauth_proof_def Let_def spent_marks marks_refl f simp del: not_None_eq split: option.split)
next
  case (users d us)
  show ?case by (rule spent_same) simp_all
qed

lemma auth_steps_spent: "(auth_step cy ax)\<^sup>*\<^sup>* d d' \<Longrightarrow> spent d d'"
  by (induction rule: rtranclp_induct) (auto intro: spent_same spent_trans auth_step_spent)

section \<open>Lockout\<close>

lemma subjects_differ: "subject_hash ''login'' a \<noteq> subject_hash ''ip'' b"
  by (simp add: subject_hash_def token_hash_def)

definition rate_row :: "digest \<Rightarrow> auth_rate_limit list \<Rightarrow> auth_rate_limit" where
  "rate_row h rs = (case row_find rl_subject_hash h rs of
     None \<Rightarrow> \<lparr>rl_subject_hash = h, rl_failure_count = 0, rl_lockout_level = 0, rl_locked_until = None\<rparr> | Some r \<Rightarrow> r)"

lemma failed_once_hash [simp]: "rl_subject_hash (failed_once ax now r) = rl_subject_hash r"
  by (simp add: failed_once_def Let_def)

lemma rate_row_hash: "rl_subject_hash (rate_row h rs) = h"
  by (auto simp: rate_row_def dest: row_find_Some split: option.split)

lemma record_subject_row:
  "rate_row h (record_subject_failure ax now g rs) = (if h = g then failed_once ax now (rate_row g rs) else rate_row h rs)"
  by (auto simp: rate_row_def record_subject_failure_def row_find_append row_find_simps row_find_row_upd split: option.split)

lemma record_subject_find:
  "row_find rl_subject_hash h (record_subject_failure ax now h rs) = Some (failed_once ax now (rate_row h rs))"
  by (auto simp: rate_row_def record_subject_failure_def row_find_append row_find_simps row_find_row_upd split: option.split)

lemma record_failure_rows:
  "rate_row (subject_hash ''login'' l) (auth_rate_limits (record_failure ax l ip now d)) =
     failed_once ax now (rate_row (subject_hash ''login'' l) (auth_rate_limits d))"
  "rate_row (subject_hash ''ip'' ip) (auth_rate_limits (record_failure ax l ip now d)) =
     failed_once ax now (rate_row (subject_hash ''ip'' ip) (auth_rate_limits d))"
  using subjects_differ [of l ip]
  by (simp_all add: record_failure_def rate_subjects_def record_subject_row)

lemma rate_limited_rows:
  assumes "distinct (map rl_subject_hash (auth_rate_limits d))"
  shows "rate_limited l ip now d \<longleftrightarrow>
    is_locked now (rate_row (subject_hash ''login'' l) (auth_rate_limits d)) \<or>
    is_locked now (rate_row (subject_hash ''ip'' ip) (auth_rate_limits d))"
proof -
  have one: "(\<exists>r \<in> set (auth_rate_limits d). rl_subject_hash r = h \<and> is_locked now r) \<longleftrightarrow>
      is_locked now (rate_row h (auth_rate_limits d))" for h
  proof (cases "row_find rl_subject_hash h (auth_rate_limits d)")
    case None
    then have "h \<notin> rl_subject_hash ` set (auth_rate_limits d)" by (auto simp: row_find_None_iff)
    then show ?thesis unfolding rate_row_def None by (auto simp: is_locked_def)
  next
    case (Some r)
    have "x = r" if "x \<in> set (auth_rate_limits d)" "rl_subject_hash x = h" for x
      using row_find_distinct [OF assms that(1)] that(2) Some by simp
    then show ?thesis using Some row_find_Some [OF Some] by (auto simp: rate_row_def)
  qed
  show ?thesis
    using one [of "subject_hash ''login'' l"] one [of "subject_hash ''ip'' ip"]
    by (auto simp: rate_limited_def rate_subjects_def list_ex_iff)
qed

lemma record_distinct:
  assumes "distinct (map rl_subject_hash rs)"
  shows "distinct (map rl_subject_hash (record_subject_failure ax now h rs))"
proof (cases "row_find rl_subject_hash h rs")
  case None
  then have "h \<notin> rl_subject_hash ` set rs" by (auto simp: row_find_None_iff)
  then show ?thesis using assms None by (simp add: record_subject_failure_def)
next
  case (Some r)
  have "map rl_subject_hash (row_upd rl_subject_hash h (failed_once ax now) rs) = map rl_subject_hash rs"
    by (simp add: row_upd_def)
  then show ?thesis using Some assms by (simp add: record_subject_failure_def)
qed

definition wrong_password :: "auth_crypto \<Rightarrow> string \<Rightarrow> string \<Rightarrow> auth_db \<Rightarrow> bool" where
  "wrong_password cy login pw d \<longleftrightarrow>
     (\<forall>u. row_find us_login_id (normalize_login_id login) (auth_users d) = Some u \<longrightarrow>
        \<not> cy_verify_password cy (us_password_hash u) pw)"

lemma wrong_attempt:
  assumes "wrong_password cy login pw d" "\<not> rate_limited (normalize_login_id login) (ak_request_ip ak) (ak_now ak) d"
  shows "auth_rate_limits (snd (begin_password_login cy ax ak login pw d)) =
      auth_rate_limits (record_failure ax (normalize_login_id login) (ak_request_ip ak) (ak_now ak) d)"
    and "auth_users (snd (begin_password_login cy ax ak login pw d)) = auth_users d"
  using assms by (auto simp: begin_password_login_def wrong_password_def Let_def split: option.split)

lemma repeated_failures:
  assumes wrong: "wrong_password cy login pw d" and dist: "distinct (map rl_subject_hash (auth_rate_limits d))"
    and none: "row_find rl_subject_hash (subject_hash ''login'' (normalize_login_id login)) (auth_rate_limits d) = None"
      "row_find rl_subject_hash (subject_hash ''ip'' (ak_request_ip ak)) (auth_rate_limits d) = None"
    and k: "int k \<le> ax_max_failures ax"
  defines "attempt \<equiv> \<lambda>x. snd (begin_password_login cy ax ak login pw x)"
    and "count \<equiv> (\<lambda>h j. \<lparr>rl_subject_hash = h, rl_failure_count = int j, rl_lockout_level = 0, rl_locked_until = None\<rparr>)"
  shows "auth_users ((attempt ^^ k) d) = auth_users d \<and>
    distinct (map rl_subject_hash (auth_rate_limits ((attempt ^^ k) d))) \<and>
    (\<forall>h \<in> set (rate_subjects (normalize_login_id login) (ak_request_ip ak)).
      rate_row h (auth_rate_limits ((attempt ^^ k) d)) =
        (if int k < ax_max_failures ax \<or> k = 0 then count h k else failed_once ax (ak_now ak) (count h (k - 1))))"
  using k
proof (induction k)
  case 0
  then show ?case using dist none by (simp add: rate_subjects_def rate_row_def count_def)
next
  case (Suc k)
  let ?l = "normalize_login_id login" and ?d = "(attempt ^^ k) d"
  have k: "int k < ax_max_failures ax" using Suc.prems by simp
  have IH: "auth_users ?d = auth_users d" "distinct (map rl_subject_hash (auth_rate_limits ?d))"
    "\<And>h. h \<in> set (rate_subjects ?l (ak_request_ip ak)) \<Longrightarrow> rate_row h (auth_rate_limits ?d) = count h k"
    using Suc.IH k by auto
  have free: "\<not> rate_limited ?l (ak_request_ip ak) (ak_now ak) ?d"
    using IH(3) by (simp add: rate_limited_rows [OF IH(2)] rate_subjects_def is_locked_def count_def)
  have w: "wrong_password cy login pw ?d" using wrong IH(1) by (simp add: wrong_password_def)
  note a = wrong_attempt [OF w free, of ax, folded attempt_def]
  have nx: "auth_rate_limits ((attempt ^^ Suc k) d) = auth_rate_limits (record_failure ax ?l (ak_request_ip ak) (ak_now ak) ?d)"
    "auth_users ((attempt ^^ Suc k) d) = auth_users d"
    using a IH(1) by (simp_all add: attempt_def)
  have step: "failed_once ax (ak_now ak) (count h k) = count h (Suc k)" if "int (Suc k) < ax_max_failures ax" for h
    using that by (simp add: failed_once_def count_def Let_def)
  have "distinct (map rl_subject_hash (auth_rate_limits ((attempt ^^ Suc k) d)))"
    unfolding nx(1) record_failure_def by (simp add: rate_subjects_def record_distinct IH(2))
  moreover have "rate_row h (auth_rate_limits ((attempt ^^ Suc k) d)) = failed_once ax (ak_now ak) (count h k)"
    if "h \<in> set (rate_subjects ?l (ak_request_ip ak))" for h
    unfolding nx(1) using that IH(3) record_failure_rows(1) [of ?l ax "ak_request_ip ak" "ak_now ak" ?d]
      record_failure_rows(2) [of "ak_request_ip ak" ax ?l "ak_now ak" ?d]
    by (auto simp: rate_subjects_def)
  ultimately show ?case using nx(2) step by auto
qed

section \<open>Properties\<close>


definition demo_crypto :: auth_crypto where
  "demo_crypto = \<lparr>cy_verify_password = \<lambda>h p. h = p, cy_dummy_hash = ''x'', cy_code_at = \<lambda>s t. if t = 1 then ''123456'' else ''000000'',
     cy_decrypt = Some\<rparr>"

definition demo_auth_settings :: auth_settings where
  "demo_auth_settings = \<lparr>ax_session_idle_minutes = 30, ax_session_absolute_hours = 8, ax_challenge_minutes = 5,
     ax_reauth_minutes = 5, ax_max_failures = 5, ax_lock_minutes = 15\<rparr>"

definition demo_auth_call :: auth_call where
  "demo_auth_call = \<lparr>ak_request_ip = ''ip'', ak_user_agent = ''ua'', ak_correlation_id = ''c'', ak_now = 30000000\<rparr>"

definition demo_user :: auth_user where
  "demo_user = \<lparr>us_id = 7, us_login_id = ''kim'', us_password_hash = ''secret'', us_status = ''ACTIVE''\<rparr>"

definition demo_auth_db :: auth_db where
  "demo_auth_db = \<lparr>token_seed = 1, auth_users = [demo_user],
     totp_credentials = [\<lparr>tc_user_id = 7, tc_encrypted_secret = ''s'', tc_last_used_step = None, tc_verified = True\<rparr>],
     auth_challenges = [], user_sessions = [], reauth_proofs = [], auth_rate_limits = [], auth_audits = []\<rparr>"

definition demo_proved_db :: auth_db where
  "demo_proved_db = snd (create_reauth_proof demo_crypto demo_auth_settings demo_auth_call demo_user ''123456'' ''APPROVE'' ''a1'' demo_auth_db)"

lemma demo_proved:
  "create_reauth_proof demo_crypto demo_auth_settings demo_auth_call demo_user ''123456'' ''APPROVE'' ''a1'' demo_auth_db =
     (Inr (''1'', 330000000), demo_proved_db) \<and> last_step demo_proved_db 7 = Some 1"
  by code_simp


text \<open>C26. Credentials are single use: after a re-authentication proof has been consumed for its user, action and
  target, after a login challenge has been completed, and after a session has been revoked, no
  sequence of operations makes the same proof, challenge or session token usable again.\<close>
theorem credentials_single_use:
  assumes "(auth_step cy ax)\<^sup>*\<^sup>* d1 d2"
  shows "(consume_reauth_proof user raw action target now d = (Inr pf, d1) \<longrightarrow>
      (pf_user_id pf, pf_target_action pf, pf_target_id pf) = (user, action, target) \<and> now < pf_expires_at pf \<and>
      (\<forall>user' action' target' now'. consume_reauth_proof user' raw action' target' now' d2 = (Inl ReauthProofError, d2))) \<and>
    (complete_totp_login cy ax ak tok code d = (Inr ss, d1) \<longrightarrow>
      (\<forall>ak' code'. complete_totp_login cy ax ak' tok code' d2 = (Inl AuthenticationError, d2))) \<and>
    (row_find se_token_hash (token_hash tok) (user_sessions d1) = Some se \<and> se_revoked_at se \<noteq> None \<longrightarrow>
      (\<forall>now'. resolve_session ax (Some tok) now' d2 = (Inl AuthenticationError, d2)))"
proof (intro conjI impI)
  note sp = auth_steps_spent [OF assms, unfolded spent_def]
  {
    assume "consume_reauth_proof user raw action target now d = (Inr pf, d1)"
    then obtain p where p: "row_find pf_proof_hash (token_hash raw) (reauth_proofs d) = Some p"
      and pf: "pf = p\<lparr>pf_consumed_at := Some now\<rparr>" "pf_user_id p = user" "pf_target_action p = action" "pf_target_id p = target"
        "now < pf_expires_at p"
      and d1: "reauth_proofs d1 = row_upd pf_proof_hash (token_hash raw) (\<lambda>p. p\<lparr>pf_consumed_at := Some now\<rparr>) (reauth_proofs d)"
      by (auto simp: consume_reauth_proof_def Let_def split: option.splits if_splits)
    have "\<exists>q. row_find pf_proof_hash (token_hash raw) (reauth_proofs d1) = Some q \<and> pf_consumed_at q \<noteq> None"
      using p by (simp add: d1 row_find_row_upd)
    then obtain q where "row_find pf_proof_hash (token_hash raw) (reauth_proofs d2) = Some q" "pf_consumed_at q \<noteq> None"
      using sp by blast
    then show "(pf_user_id pf, pf_target_action pf, pf_target_id pf) = (user, action, target)" "now < pf_expires_at pf"
      "\<forall>user' action' target' now'. consume_reauth_proof user' raw action' target' now' d2 = (Inl ReauthProofError, d2)"
      using pf by (simp_all add: consume_reauth_proof_def Let_def)
  next
    assume "complete_totp_login cy ax ak tok code d = (Inr ss, d1)"
    then obtain ch where ch: "row_find ch_token_hash (token_hash tok) (auth_challenges d) = Some ch"
      "auth_challenges d1 = row_upd ch_token_hash (token_hash tok) (\<lambda>c. c\<lparr>ch_consumed_at := Some (ak_now ak)\<rparr>) (auth_challenges d)"
      by (rule login_success) blast
    then have "\<exists>c. row_find ch_token_hash (token_hash tok) (auth_challenges d1) = Some c \<and> ch_consumed_at c \<noteq> None"
      by (simp add: row_find_row_upd)
    then obtain c where "row_find ch_token_hash (token_hash tok) (auth_challenges d2) = Some c" "ch_consumed_at c \<noteq> None"
      using sp by blast
    then show "\<forall>ak' code'. complete_totp_login cy ax ak' tok code' d2 = (Inl AuthenticationError, d2)"
      by (simp add: complete_totp_login_def Let_def)
  next
    assume "row_find se_token_hash (token_hash tok) (user_sessions d1) = Some se \<and> se_revoked_at se \<noteq> None"
    then obtain s where "row_find se_token_hash (token_hash tok) (user_sessions d2) = Some s" "se_revoked_at s \<noteq> None"
      using sp by blast
    then show "\<forall>now'. resolve_session ax (Some tok) now' d2 = (Inl AuthenticationError, d2)"
      by (simp add: resolve_session_def)
  }
qed

theorem credentials_single_use_witness:
  "\<exists>pf d1. consume_reauth_proof 7 ''1'' ''APPROVE'' ''a1'' 40000000 demo_proved_db = (Inr pf, d1) \<and>
     consume_reauth_proof 7 ''1'' ''APPROVE'' ''a1'' 40000000 d1 = (Inl ReauthProofError, d1)"
proof -
  let ?r = "consume_reauth_proof 7 ''1'' ''APPROVE'' ''a1'' 40000000 demo_proved_db"
  have "\<not> isl (fst ?r)" by code_simp
  then obtain pf d1 where run: "?r = (Inr pf, d1)" by (cases ?r; cases "fst ?r") auto
  then show ?thesis
    using credentials_single_use [of demo_crypto demo_auth_settings d1 d1 7 "''1''" "''APPROVE''" "''a1''" 40000000
        demo_proved_db pf] by blast
qed

text \<open>Brute force is stopped: as many wrong passwords as the limit allows, for a login and an address with no
  recorded failure, lock the login, from every address and even with the right password, for the
  whole lock period; the refused attempt changes nothing.\<close>
theorem lockout_after_max_failures:
  assumes wrong: "wrong_password cy login pw d" and dist: "distinct (map rl_subject_hash (auth_rate_limits d))"
    and none: "row_find rl_subject_hash (subject_hash ''login'' (normalize_login_id login)) (auth_rate_limits d) = None"
      "row_find rl_subject_hash (subject_hash ''ip'' (ak_request_ip ak)) (auth_rate_limits d) = None"
    and max: "1 \<le> ax_max_failures ax"
    and d': "d' = ((\<lambda>x. snd (begin_password_login cy ax ak login pw x)) ^^ nat (ax_max_failures ax)) d"
    and within: "ak_now ak' < ak_now ak + minutes (ax_lock_minutes ax)"
  shows "begin_password_login cy ax ak' login pw' d' = (Inl AuthenticationError, d')"
proof -
  let ?l = "normalize_login_id login"
  have r: "distinct (map rl_subject_hash (auth_rate_limits d'))"
    "rate_row (subject_hash ''login'' ?l) (auth_rate_limits d') = failed_once ax (ak_now ak)
      \<lparr>rl_subject_hash = subject_hash ''login'' ?l, rl_failure_count = ax_max_failures ax - 1, rl_lockout_level = 0, rl_locked_until = None\<rparr>"
    using repeated_failures [OF wrong dist none, of "nat (ax_max_failures ax)" ax] max d'
    by (simp_all add: rate_subjects_def of_nat_diff)
  have "is_locked (ak_now ak') (rate_row (subject_hash ''login'' ?l) (auth_rate_limits d'))"
    using within max by (simp add: r(2) failed_once_def is_locked_def Let_def)
  then have "rate_limited ?l (ak_request_ip ak') (ak_now ak') d'" by (simp add: rate_limited_rows [OF r(1)])
  then show ?thesis by (simp add: begin_password_login_def Let_def)
qed

theorem lockout_after_max_failures_witness:
  "begin_password_login demo_crypto demo_auth_settings demo_auth_call ''kim'' ''secret''
     (((\<lambda>x. snd (begin_password_login demo_crypto demo_auth_settings demo_auth_call ''kim'' ''guess'' x)) ^^ 5) demo_auth_db) =
   (Inl AuthenticationError,
     ((\<lambda>x. snd (begin_password_login demo_crypto demo_auth_settings demo_auth_call ''kim'' ''guess'' x)) ^^ 5) demo_auth_db)"
proof (rule lockout_after_max_failures [where d = demo_auth_db and ak = demo_auth_call and pw = "''guess''"])
  show "wrong_password demo_crypto ''kim'' ''guess'' demo_auth_db"
    by (auto simp: wrong_password_def demo_auth_db_def demo_user_def demo_crypto_def row_find_def split: if_splits)
  show "ak_now demo_auth_call < ak_now demo_auth_call + minutes (ax_lock_minutes demo_auth_settings)" by code_simp
qed (simp_all add: demo_auth_db_def demo_auth_settings_def row_find_def)

end
