(* ===== verification/Quote_Ingest.thy ===== *)
theory Quote_Ingest
  imports Decision_Guards
begin

text \<open>
  \<open>app/watch.py\<close> and \<open>app/indicators.py\<close>: validation and ingestion of normalised quotes, the
  per-symbol stream state, one-minute bars and the indicators of a trading day. The rows extend the
  market rows of the schema by the columns only this component reads, and live in a state of their own;
  \<open>published\<close> is what the guards see of it. One worker ingests at a time, so no interference
  is modelled. Square roots are exact up to the final rounding.
\<close>

section \<open>Rows\<close>

record quote_snapshot = market_snapshot +
  m_source :: string
  m_sequence_or_hash :: string
  m_source_sequence :: "int option"
  m_payload_hash :: digest
  m_open_price :: decimal
  m_high_price :: decimal
  m_low_price :: decimal
  m_cumulative_volume :: int
  m_recovery_snapshot :: bool

record quote_stream = market_stream_state +
  ms_source :: string
  ms_last_sequence :: "int option"
  ms_last_event_at :: "instant option"
  ms_last_received_at :: "instant option"
  ms_cumulative_volume :: "int option"
  ms_version :: int

record instrument_venue_state =
  iv_symbol :: string
  iv_venue :: string
  iv_eligibility_status :: string
  iv_evidence_source :: string
  iv_evidence_ref :: string
  iv_observed_at :: instant
  iv_last_quote_at :: "instant option"

record minute_bar =
  mb_id :: uuid
  mb_market :: string
  mb_symbol :: string
  mb_bucket_start :: instant
  mb_open_price :: decimal
  mb_high_price :: decimal
  mb_low_price :: decimal
  mb_close_price :: decimal
  mb_volume :: int
  mb_turnover :: decimal
  mb_event_count :: int
  mb_first_snapshot_id :: uuid
  mb_last_snapshot_id :: uuid
  mb_version :: int

record indicator_snapshot =
  in_id :: uuid
  in_market_snapshot_id :: uuid
  in_market :: string
  in_symbol :: string
  in_calculator_version :: string
  in_vwap :: decimal
  in_sma5 :: "decimal option"
  in_session_high :: decimal
  in_drawdown_from_high_pct :: decimal
  in_spread_pct :: "decimal option"
  in_price_vs_vwap_pct :: "decimal option"
  in_sma5_slope_pct :: "decimal option"
  in_relative_volume_5 :: "decimal option"
  in_realized_volatility_pct :: "decimal option"
  in_minute_bar_count :: int
  in_input_start_at :: instant
  in_input_end_at :: instant

record watch_db =
  wd_seed :: nat
  quote_snapshots :: "quote_snapshot list"
  quote_streams :: "quote_stream list"
  venue_states :: "instrument_venue_state list"
  minute_bars :: "minute_bar list"
  indicator_snapshots :: "indicator_snapshot list"

definition empty_watch :: watch_db where
  "empty_watch = \<lparr>wd_seed = 0, quote_snapshots = [], quote_streams = [], venue_states = [],
     minute_bars = [], indicator_snapshots = []\<rparr>"

definition watch_draw :: "watch_db \<Rightarrow> uuid \<times> watch_db" where
  "watch_draw w = (wd_seed w, w\<lparr>wd_seed := wd_seed w + 1\<rparr>)"

section \<open>Events\<close>

text \<open>A datetime of Python: with a zone, or naive.\<close>

datatype pydatetime = Aware instant | Naive instant

definition utc :: "pydatetime \<Rightarrow> instant" where
  "utc t = (case t of Naive v \<Rightarrow> v | Aware v \<Rightarrow> v)"

definition tzinfo_missing :: "pydatetime \<Rightarrow> bool" where
  "tzinfo_missing t = (case t of Naive _ \<Rightarrow> True | Aware _ \<Rightarrow> False)"

record quote_event =
  qe_symbol :: string
  qe_market :: string
  qe_source :: string
  qe_sequence_or_hash :: string
  qe_event_at :: pydatetime
  qe_received_at :: pydatetime
  qe_last_price :: decimal
  qe_open_price :: decimal
  qe_high_price :: decimal
  qe_low_price :: decimal
  qe_cumulative_volume :: int
  qe_trading_status :: string
  qe_source_sequence :: "int option"
  qe_best_bid_price :: "decimal option"
  qe_best_bid_quantity :: "int option"
  qe_best_ask_price :: "decimal option"
  qe_best_ask_quantity :: "int option"
  qe_recovery_snapshot :: bool
  qe_updates_trade :: bool

datatype watch_error =
    INVALID_SYMBOL | UNSUPPORTED_MARKET | INVALID_SOURCE | INVALID_SOURCE_KEY | TIMEZONE_REQUIRED
  | INVALID_EVENT_TIME | INVALID_SEQUENCE | INVALID_PRICE | INVALID_VOLUME | INVALID_TRADING_STATUS
  | INVALID_ORDERBOOK | SOURCE_EVENT_CONFLICT
  | DecimalDivisionByZero

definition supported_trading_statuses :: "string list" where
  "supported_trading_statuses =
     [''PRE_MARKET'', ''TRADING'', ''VI'', ''HALTED'', ''CLOSING_AUCTION'', ''CLOSED'', ''NO_QUOTES'']"

text \<open>One side of the best quote that is present needs a positive price and a quantity.\<close>

definition book_side_bad :: "decimal option \<Rightarrow> int option \<Rightarrow> bool" where
  "book_side_bad price qty =
     (case price of None \<Rightarrow> False
      | Some p \<Rightarrow> p \<le> 0 \<or> (case qty of None \<Rightarrow> True | Some n \<Rightarrow> n < 0))"

definition quote_validate :: "quote_event \<Rightarrow> watch_error option" where
  "quote_validate e =
     (if \<not> str_isdigit (qe_symbol e) \<or> length (qe_symbol e) \<noteq> 6 then Some INVALID_SYMBOL
      else if qe_market e \<notin> {''KRX'', ''NXT''} then Some UNSUPPORTED_MARKET
      else if qe_source e = [] \<or> 32 < length (qe_source e) then Some INVALID_SOURCE
      else if qe_sequence_or_hash e = [] \<or> 128 < length (qe_sequence_or_hash e) then Some INVALID_SOURCE_KEY
      else if tzinfo_missing (qe_event_at e) \<or> tzinfo_missing (qe_received_at e) then Some TIMEZONE_REQUIRED
      else if utc (qe_received_at e) < utc (qe_event_at e) then Some INVALID_EVENT_TIME
      else if (case qe_source_sequence e of None \<Rightarrow> False | Some n \<Rightarrow> n < 0) then Some INVALID_SEQUENCE
      else if list_ex (\<lambda>v. v \<le> 0) [qe_last_price e, qe_open_price e, qe_high_price e, qe_low_price e]
           \<or> qe_high_price e < qe_low_price e then Some INVALID_PRICE
      else if qe_cumulative_volume e < 0 then Some INVALID_VOLUME
      else if qe_trading_status e \<notin> set supported_trading_statuses then Some INVALID_TRADING_STATUS
      else if (qe_best_bid_price e = None) \<noteq> (qe_best_bid_quantity e = None) then Some INVALID_ORDERBOOK
      else if (qe_best_ask_price e = None) \<noteq> (qe_best_ask_quantity e = None) then Some INVALID_ORDERBOOK
      else if book_side_bad (qe_best_bid_price e) (qe_best_bid_quantity e) then Some INVALID_ORDERBOOK
      else if book_side_bad (qe_best_ask_price e) (qe_best_ask_quantity e) then Some INVALID_ORDERBOOK
      else None)"

definition quote_payload :: "quote_event \<Rightarrow> json" where
  "quote_payload e =
     (let price = (\<lambda>v. JDec (quantize4 v))
      in JObj
       [(''best_ask_price'', json_opt price (qe_best_ask_price e)),
        (''best_ask_quantity'', json_opt JInt (qe_best_ask_quantity e)),
        (''best_bid_price'', json_opt price (qe_best_bid_price e)),
        (''best_bid_quantity'', json_opt JInt (qe_best_bid_quantity e)),
        (''cumulative_volume'', JInt (qe_cumulative_volume e)),
        (''event_at'', JTime (utc (qe_event_at e))),
        (''high_price'', price (qe_high_price e)),
        (''last_price'', price (qe_last_price e)),
        (''low_price'', price (qe_low_price e)),
        (''market'', JStr (qe_market e)),
        (''open_price'', price (qe_open_price e)),
        (''received_at'', JTime (utc (qe_received_at e))),
        (''recovery_snapshot'', JBool (qe_recovery_snapshot e)),
        (''sequence_or_hash'', JStr (qe_sequence_or_hash e)),
        (''source'', JStr (qe_source e)),
        (''source_sequence'', json_opt JInt (qe_source_sequence e)),
        (''symbol'', JStr (qe_symbol e)),
        (''trading_status'', JStr (qe_trading_status e)),
        (''updates_trade'', JBool (qe_updates_trade e))])"

definition payload_hash :: "quote_event \<Rightarrow> digest" where
  "payload_hash e = Sha256 (quote_payload e)"

section \<open>Minute bars\<close>

definition trading_date :: "instant \<Rightarrow> date" where
  "trading_date t = kst_date t"

definition kst_day_start :: "instant \<Rightarrow> instant" where
  "kst_day_start t = kst_date t * seconds 86400 - kst_offset"

definition minute_bucket :: "instant \<Rightarrow> instant" where
  "minute_bucket t = t - (t + kst_offset) mod seconds 60"

definition volume_delta :: "quote_event \<Rightarrow> int option \<Rightarrow> instant option \<Rightarrow> int" where
  "volume_delta e prev_volume prev_at =
     (case (prev_at, prev_volume) of
        (Some t, Some v) \<Rightarrow>
          if trading_date t = trading_date (utc (qe_event_at e)) then max (qe_cumulative_volume e - v) 0 else 0
      | _ \<Rightarrow> 0)"

definition bar_key :: "minute_bar \<Rightarrow> string \<times> string \<times> instant" where
  "bar_key b = (mb_market b, mb_symbol b, mb_bucket_start b)"

definition bar_new :: "quote_event \<Rightarrow> uuid \<Rightarrow> uuid \<Rightarrow> int \<Rightarrow> minute_bar" where
  "bar_new e i snap delta =
     (let price = quantize4 (qe_last_price e)
      in \<lparr>mb_id = i, mb_market = qe_market e, mb_symbol = qe_symbol e,
          mb_bucket_start = minute_bucket (utc (qe_event_at e)),
          mb_open_price = price, mb_high_price = price, mb_low_price = price, mb_close_price = price,
          mb_volume = delta, mb_turnover = quantize4 (price * of_int delta), mb_event_count = 1,
          mb_first_snapshot_id = snap, mb_last_snapshot_id = snap, mb_version = 1\<rparr>)"

definition bar_apply :: "quote_event \<Rightarrow> uuid \<Rightarrow> int \<Rightarrow> minute_bar \<Rightarrow> minute_bar" where
  "bar_apply e snap delta b =
     (let price = quantize4 (qe_last_price e)
      in b\<lparr>mb_high_price := max (mb_high_price b) price, mb_low_price := min (mb_low_price b) price,
           mb_close_price := price, mb_volume := mb_volume b + delta,
           mb_turnover := mb_turnover b + quantize4 (price * of_int delta),
           mb_event_count := mb_event_count b + 1, mb_last_snapshot_id := snap,
           mb_version := mb_version b + 1\<rparr>)"

definition apply_trade :: "quote_event \<Rightarrow> uuid \<Rightarrow> int \<Rightarrow> watch_db \<Rightarrow> watch_db" where
  "apply_trade e snap delta w =
     (let k = (qe_market e, qe_symbol e, minute_bucket (utc (qe_event_at e)))
      in case row_find bar_key k (minute_bars w) of
           None \<Rightarrow>
             (let (i, w') = watch_draw w
              in w'\<lparr>minute_bars := minute_bars w' @ [bar_new e i snap delta]\<rparr>)
         | Some _ \<Rightarrow> w\<lparr>minute_bars := row_upd bar_key k (bar_apply e snap delta) (minute_bars w)\<rparr>)"

definition day_bars :: "quote_event \<Rightarrow> watch_db \<Rightarrow> minute_bar list" where
  "day_bars e w =
     (let start = kst_day_start (utc (qe_event_at e))
      in sort_key mb_bucket_start
           (filter (\<lambda>b. mb_market b = qe_market e \<and> mb_symbol b = qe_symbol e \<and>
                        start \<le> mb_bucket_start b \<and> mb_bucket_start b < start + seconds 86400)
              (minute_bars w)))"

section \<open>Indicators\<close>

definition quantize6 :: "decimal \<Rightarrow> decimal" where
  "quantize6 = quantize round_half_even 6"

text \<open>\<open>xs[-a:-b]\<close> of a list that is at least \<open>a\<close> long; \<open>b = 0\<close> stands for the open end.\<close>

definition slice_back :: "nat \<Rightarrow> nat \<Rightarrow> 'x list \<Rightarrow> 'x list" where
  "slice_back a b xs = take (length xs - b - (length xs - a)) (drop (length xs - a) xs)"

definition mean_close :: "minute_bar list \<Rightarrow> decimal" where
  "mean_close bs = quantize4 (sum_list (map mb_close_price bs) / 5)"

definition vwap_of :: "quote_event \<Rightarrow> minute_bar list \<Rightarrow> decimal" where
  "vwap_of e bars =
     (let total_volume = sum_list (map mb_volume bars); total_turnover = sum_list (map mb_turnover bars)
      in quantize4 (if 0 < total_volume then total_turnover / of_int total_volume else qe_last_price e))"

definition sma5_of :: "minute_bar list \<Rightarrow> decimal option" where
  "sma5_of bars =
     (let recent = slice_back 5 0 bars
      in if length recent = 5 then Some (mean_close recent) else None)"

definition sma5_slope_of :: "minute_bar list \<Rightarrow> decimal option" where
  "sma5_slope_of bars =
     (case sma5_of bars of None \<Rightarrow> None
      | Some sma5 \<Rightarrow>
          if 6 \<le> length bars
          then (let previous = mean_close (slice_back 6 1 bars)
                in if 0 < previous then Some ((sma5 / previous - 1) * 100) else None)
          else None)"

definition relative_volume_of :: "minute_bar list \<Rightarrow> decimal option" where
  "relative_volume_of bars =
     (if 10 \<le> length bars
      then (let previous = sum_list (map mb_volume (slice_back 10 5 bars));
                recent = sum_list (map mb_volume (slice_back 5 0 bars))
            in if 0 < previous then Some (of_int recent / of_int previous) else None)
      else None)"

fun pair_returns :: "minute_bar list \<Rightarrow> decimal list" where
  "pair_returns (p # c # bs) =
     (if 0 < mb_close_price p then [mb_close_price c / mb_close_price p - 1] else [])
     @ pair_returns (c # bs)"
| "pair_returns _ = []"

text \<open>Integer square root, and the rounding to the nearest integer of a square root.\<close>

fun isqrt :: "nat \<Rightarrow> nat" where
  "isqrt n =
     (if n = 0 then 0
      else let r = 2 * isqrt (n div 4) in if (r + 1)\<^sup>2 \<le> n then r + 1 else r)"

declare isqrt.simps [simp del]

definition round_sqrt :: "decimal \<Rightarrow> int" where
  "round_sqrt v =
     (let n = int (isqrt (nat \<lfloor>v\<rfloor>)); half = (of_int n + 1 / 2)\<^sup>2
      in if v < half then n else if half < v then n + 1 else if even n then n else n + 1)"

text \<open>\<open>(variance.sqrt() * 100).quantize(PCT_QUANTUM)\<close>.\<close>

definition volatility_pct :: "decimal \<Rightarrow> decimal" where
  "volatility_pct variance = of_int (round_sqrt (variance * 10 ^ 16)) / 10 ^ 6"

definition realized_volatility_of :: "minute_bar list \<Rightarrow> decimal option" where
  "realized_volatility_of bars =
     (let vb = slice_back 10 0 bars; rs = pair_returns vb; n = of_nat (length rs)
      in if 3 \<le> length vb \<and> 2 \<le> length rs
         then (let mean = sum_list rs / n
               in Some (volatility_pct (sum_list (map (\<lambda>r. (r - mean)\<^sup>2) rs) / n)))
         else None)"

definition session_high_of :: "quote_event \<Rightarrow> minute_bar list \<Rightarrow> decimal" where
  "session_high_of e bars = quantize4 (fold max (map mb_high_price bars) (qe_high_price e))"

definition spread_of :: "quote_event \<Rightarrow> decimal option" where
  "spread_of e =
     (case (qe_best_bid_price e, qe_best_ask_price e) of
        (Some bid, Some ask) \<Rightarrow>
          (let midpoint = (bid + ask) / 2
           in if 0 < midpoint then Some (quantize6 ((ask - bid) / midpoint * 100)) else None)
      | _ \<Rightarrow> None)"

definition indicator_of :: "quote_event \<Rightarrow> uuid \<Rightarrow> uuid \<Rightarrow> minute_bar list \<Rightarrow> indicator_snapshot" where
  "indicator_of e i snap bars =
     (let vwap = vwap_of e bars; high = session_high_of e bars
      in \<lparr>in_id = i, in_market_snapshot_id = snap, in_market = qe_market e, in_symbol = qe_symbol e,
          in_calculator_version = ''watch-indicators-v2'',
          in_vwap = vwap, in_sma5 = sma5_of bars, in_session_high = high,
          in_drawdown_from_high_pct = quantize6 ((qe_last_price e / high - 1) * 100),
          in_spread_pct = spread_of e,
          in_price_vs_vwap_pct =
            (if 0 < vwap then Some (quantize6 ((qe_last_price e / vwap - 1) * 100)) else None),
          in_sma5_slope_pct = map_option quantize6 (sma5_slope_of bars),
          in_relative_volume_5 = map_option quantize6 (relative_volume_of bars),
          in_realized_volatility_pct = realized_volatility_of bars,
          in_minute_bar_count = int (length bars),
          in_input_start_at = kst_day_start (utc (qe_event_at e)),
          in_input_end_at = utc (qe_event_at e)\<rparr>)"

text \<open>A session high that rounds to zero makes the drawdown a division by zero.\<close>

definition update_market_analysis ::
  "quote_event \<Rightarrow> uuid \<Rightarrow> int option \<Rightarrow> instant option \<Rightarrow> watch_db \<Rightarrow> watch_error + watch_db" where
  "update_market_analysis e snap prev_volume prev_at w =
     (let w1 = (if qe_updates_trade e then apply_trade e snap (volume_delta e prev_volume prev_at) w else w);
          bars = day_bars e w1
      in if session_high_of e bars = 0 then Inl DecimalDivisionByZero
         else (let (i, w2) = watch_draw w1
               in Inr (w2\<lparr>indicator_snapshots := indicator_snapshots w2 @ [indicator_of e i snap bars]\<rparr>)))"

section \<open>Ingestion\<close>

definition stream_key :: "quote_stream \<Rightarrow> string \<times> string" where
  "stream_key s = (ms_market s, ms_symbol s)"

definition stream_of :: "watch_db \<Rightarrow> string \<Rightarrow> string \<Rightarrow> quote_stream option" where
  "stream_of w market sb = row_find stream_key (market, sb) (quote_streams w)"

definition source_key :: "quote_snapshot \<Rightarrow> string \<times> string \<times> string \<times> string" where
  "source_key m = (m_source m, m_market m, m_symbol m, m_sequence_or_hash m)"

definition event_key :: "quote_event \<Rightarrow> string \<times> string \<times> string \<times> string" where
  "event_key e = (qe_source e, qe_market e, qe_symbol e, qe_sequence_or_hash e)"

definition event_late :: "quote_event \<Rightarrow> quote_stream option \<Rightarrow> bool" where
  "event_late e st =
     (case st of None \<Rightarrow> False
      | Some s \<Rightarrow>
          (case ms_last_event_at s of None \<Rightarrow> False | Some t \<Rightarrow> utc (qe_event_at e) < t) \<or>
          (case (qe_source_sequence e, ms_last_sequence s) of (Some n, Some l) \<Rightarrow> n \<le> l | _ \<Rightarrow> False))"

definition sequence_gap :: "quote_event \<Rightarrow> quote_stream \<Rightarrow> bool" where
  "sequence_gap e s =
     (case (qe_source_sequence e, ms_last_sequence s) of (Some n, Some l) \<Rightarrow> l + 1 < n | _ \<Rightarrow> False)"

definition volume_regression :: "quote_event \<Rightarrow> quote_stream \<Rightarrow> bool" where
  "volume_regression e s =
     (case (ms_cumulative_volume s, ms_last_event_at s) of
        (Some v, Some t) \<Rightarrow>
          trading_date (utc (qe_event_at e)) = trading_date t \<and> qe_cumulative_volume e < v
      | _ \<Rightarrow> False)"

definition event_gap :: "quote_event \<Rightarrow> quote_stream option \<Rightarrow> bool" where
  "event_gap e st =
     (case st of None \<Rightarrow> False
      | Some s \<Rightarrow>
          (ms_quality s = ''GAP_DETECTED'' \<and> \<not> qe_recovery_snapshot e) \<or> sequence_gap e s \<or>
          volume_regression e s \<or> (ms_source s \<noteq> qe_source e \<and> \<not> qe_recovery_snapshot e))"

definition event_quality :: "quote_event \<Rightarrow> quote_stream option \<Rightarrow> string" where
  "event_quality e st =
     (if \<not> qe_recovery_snapshot e \<and> event_late e st then ''LATE''
      else if \<not> qe_recovery_snapshot e \<and> event_gap e st then ''GAP_DETECTED''
      else ''NORMAL'')"

definition snapshot_of :: "quote_event \<Rightarrow> uuid \<Rightarrow> string \<Rightarrow> quote_snapshot" where
  "snapshot_of e i quality =
     \<lparr>m_id = i, m_symbol = qe_symbol e, m_market = qe_market e,
      m_last_price = quantize4 (qe_last_price e),
      m_best_bid_price = map_option quantize4 (qe_best_bid_price e),
      m_best_bid_quantity = qe_best_bid_quantity e,
      m_best_ask_price = map_option quantize4 (qe_best_ask_price e),
      m_best_ask_quantity = qe_best_ask_quantity e,
      m_trading_status = qe_trading_status e, m_quality = quality,
      m_event_at = utc (qe_event_at e), m_received_at = utc (qe_received_at e),
      m_source = qe_source e, m_sequence_or_hash = qe_sequence_or_hash e,
      m_source_sequence = qe_source_sequence e, m_payload_hash = payload_hash e,
      m_open_price = quantize4 (qe_open_price e), m_high_price = quantize4 (qe_high_price e),
      m_low_price = quantize4 (qe_low_price e), m_cumulative_volume = qe_cumulative_volume e,
      m_recovery_snapshot = qe_recovery_snapshot e\<rparr>"

definition stream_new :: "quote_event \<Rightarrow> quote_stream" where
  "stream_new e =
     \<lparr>ms_market = qe_market e, ms_symbol = qe_symbol e, ms_current_snapshot_id = None, ms_quality = ''NORMAL'',
      ms_source = qe_source e, ms_last_sequence = None, ms_last_event_at = None,
      ms_last_received_at = None, ms_cumulative_volume = None, ms_version = 0\<rparr>"

definition stream_advance :: "quote_event \<Rightarrow> uuid \<Rightarrow> string \<Rightarrow> quote_stream \<Rightarrow> quote_stream" where
  "stream_advance e snap quality s =
     (if quality = ''GAP_DETECTED'' then s\<lparr>ms_quality := ''GAP_DETECTED'', ms_version := ms_version s + 1\<rparr>
      else if quality = ''NORMAL''
      then s\<lparr>ms_source := qe_source e, ms_current_snapshot_id := Some snap,
             ms_last_sequence := qe_source_sequence e, ms_last_event_at := Some (utc (qe_event_at e)),
             ms_last_received_at := Some (utc (qe_received_at e)),
             ms_cumulative_volume := Some (qe_cumulative_volume e), ms_quality := ''NORMAL'',
             ms_version := ms_version s + 1\<rparr>
      else s)"

definition venue_key :: "instrument_venue_state \<Rightarrow> string \<times> string" where
  "venue_key v = (iv_symbol v, iv_venue v)"

definition observe_nxt :: "quote_event \<Rightarrow> instrument_venue_state list \<Rightarrow> instrument_venue_state list" where
  "observe_nxt e vs =
     (let t = utc (qe_event_at e); k = (qe_symbol e, ''NXT'')
      in case row_find venue_key k vs of
           None \<Rightarrow> vs @ [\<lparr>iv_symbol = qe_symbol e, iv_venue = ''NXT'', iv_eligibility_status = ''VERIFIED'',
               iv_evidence_source = ''QUOTE_OBSERVED'', iv_evidence_ref = qe_sequence_or_hash e,
               iv_observed_at = t, iv_last_quote_at = Some t\<rparr>]
         | Some _ \<Rightarrow> row_upd venue_key k (\<lambda>v. v\<lparr>iv_eligibility_status := ''VERIFIED'',
               iv_evidence_source := ''QUOTE_OBSERVED'', iv_evidence_ref := qe_sequence_or_hash e,
               iv_observed_at := t, iv_last_quote_at := Some t\<rparr>) vs)"

record ingest_result =
  ir_snapshot :: quote_snapshot
  ir_outcome :: string
  ir_stream_quality :: string

definition stream_put :: "quote_event \<Rightarrow> uuid \<Rightarrow> string \<Rightarrow> quote_stream option \<Rightarrow> watch_db \<Rightarrow> watch_db" where
  "stream_put e snap quality st w =
     (case st of
        None \<Rightarrow> w\<lparr>quote_streams := quote_streams w @ [stream_advance e snap quality (stream_new e)]\<rparr>
      | Some s \<Rightarrow> w\<lparr>quote_streams :=
          row_upd stream_key (qe_market e, qe_symbol e) (stream_advance e snap quality) (quote_streams w)\<rparr>)"

text \<open>The snapshot is stored first; a normal one is analysed against the stream before the stream moves.\<close>

definition store_snapshot :: "quote_event \<Rightarrow> quote_stream option \<Rightarrow> string \<Rightarrow> watch_db \<Rightarrow> watch_error + watch_db" where
  "store_snapshot e st quality w =
     (let w' = w\<lparr>wd_seed := wd_seed w + 1,
                 quote_snapshots := quote_snapshots w @ [snapshot_of e (wd_seed w) quality]\<rparr>
      in if quality = ''NORMAL''
         then update_market_analysis e (wd_seed w)
                (Option.bind st ms_cumulative_volume) (Option.bind st ms_last_event_at) w'
         else Inr w')"

definition finish_ingest :: "quote_event \<Rightarrow> uuid \<Rightarrow> string \<Rightarrow> quote_stream option \<Rightarrow> watch_db \<Rightarrow> watch_db" where
  "finish_ingest e i quality st w =
     (if quality = ''NORMAL'' \<and> qe_market e = ''NXT''
      then (stream_put e i quality st w)\<lparr>venue_states := observe_nxt e (venue_states w)\<rparr>
      else stream_put e i quality st w)"

definition ingest_outcome :: "quote_event \<Rightarrow> uuid \<Rightarrow> string \<Rightarrow> quote_stream option \<Rightarrow> ingest_result" where
  "ingest_outcome e i quality st =
     \<lparr>ir_snapshot = snapshot_of e i quality,
      ir_outcome = (if quality = ''NORMAL''
        then (if qe_recovery_snapshot e then ''RECOVERED'' else ''APPLIED'') else quality),
      ir_stream_quality = ms_quality (stream_advance e i quality
        (case st of None \<Rightarrow> stream_new e | Some s \<Rightarrow> s))\<rparr>"

definition ingest_as :: "quote_event \<Rightarrow> quote_stream option \<Rightarrow> string \<Rightarrow> watch_db \<Rightarrow> (watch_error + ingest_result) \<times> watch_db" where
  "ingest_as e st quality w =
     (case store_snapshot e st quality w of
        Inl err \<Rightarrow> (Inl err, w)
      | Inr w' \<Rightarrow> (Inr (ingest_outcome e (wd_seed w) quality st), finish_ingest e (wd_seed w) quality st w'))"

definition ingest_new :: "quote_event \<Rightarrow> watch_db \<Rightarrow> (watch_error + ingest_result) \<times> watch_db" where
  "ingest_new e w =
     (let st = stream_of w (qe_market e) (qe_symbol e) in ingest_as e st (event_quality e st) w)"

definition ingest_quote :: "quote_event \<Rightarrow> watch_db \<Rightarrow> (watch_error + ingest_result) \<times> watch_db" where
  "ingest_quote e w =
     (case quote_validate e of
        Some err \<Rightarrow> (Inl err, w)
      | None \<Rightarrow>
          (case row_find source_key (event_key e) (quote_snapshots w) of
             Some dup \<Rightarrow>
               if m_payload_hash dup \<noteq> payload_hash e then (Inl SOURCE_EVENT_CONFLICT, w)
               else (Inr \<lparr>ir_snapshot = dup, ir_outcome = ''DUPLICATE'',
                          ir_stream_quality = (case stream_of w (qe_market e) (qe_symbol e) of
                            None \<Rightarrow> m_quality dup | Some s \<Rightarrow> ms_quality s)\<rparr>, w)
           | None \<Rightarrow> ingest_new e w))"

text \<open>Milliseconds of age, never negative.\<close>

definition quote_age_seconds :: "quote_snapshot \<Rightarrow> instant \<Rightarrow> decimal" where
  "quote_age_seconds m now =
     quantize round_half_even 3 (max 0 (of_int (now - m_received_at m) / 1000000))"

text \<open>The market rows of the schema that the ingestion state stands for.\<close>

definition published :: "watch_db \<Rightarrow> db \<Rightarrow> db" where
  "published w d =
     d\<lparr>market_snapshots := map market_snapshot.truncate (quote_snapshots w),
       market_stream_states := map market_stream_state.truncate (quote_streams w)\<rparr>"

end
