(* ===== verification/Quote_Properties.thy ===== *)
theory Quote_Properties
  imports Quote_Ingest
begin

text \<open>
  What ingestion guarantees: the stream invariant in every reachable state, the latch of a
  detected gap, idempotence under the source identity, and the bounds of the indicators.
\<close>

section \<open>The tables as interfaces\<close>

interpretation bars_tbl: db_table minute_bars minute_bars_update bar_key
  by unfold_locales simp

interpretation streams_tbl: db_table quote_streams quote_streams_update stream_key
  by unfold_locales simp

interpretation snapshots_tbl: db_table quote_snapshots quote_snapshots_update source_key
  by unfold_locales simp

section \<open>Invariant\<close>

definition bar_ok :: "minute_bar \<Rightarrow> bool" where
  "bar_ok b =
     (0 \<le> mb_low_price b \<and> mb_low_price b \<le> mb_open_price b \<and> mb_open_price b \<le> mb_high_price b \<and>
      mb_low_price b \<le> mb_close_price b \<and> mb_close_price b \<le> mb_high_price b \<and> 0 \<le> mb_volume b \<and>
      mb_low_price b * of_int (mb_volume b) \<le> mb_turnover b \<and>
      mb_turnover b \<le> mb_high_price b * of_int (mb_volume b) \<and>
      quantized 4 (mb_low_price b) \<and> quantized 4 (mb_high_price b) \<and> mb_version b = mb_event_count b)"

text \<open>The snapshot a stream points at is stored, normal, of that stream, and the one its columns come from.\<close>

definition stream_follows :: "quote_stream \<Rightarrow> quote_snapshot \<Rightarrow> bool" where
  "stream_follows s m =
     (ms_current_snapshot_id s = Some (m_id m) \<and> m_quality m = ''NORMAL'' \<and>
      m_market m = ms_market s \<and> m_symbol m = ms_symbol s \<and> m_source m = ms_source s \<and>
      ms_last_event_at s = Some (m_event_at m) \<and> ms_last_received_at s = Some (m_received_at m) \<and>
      ms_cumulative_volume s = Some (m_cumulative_volume m) \<and> ms_last_sequence s = m_source_sequence m)"

definition stream_ok :: "watch_db \<Rightarrow> quote_stream \<Rightarrow> bool" where
  "stream_ok w s =
     (ms_quality s \<in> {''NORMAL'', ''GAP_DETECTED''} \<and> list_ex (stream_follows s) (quote_snapshots w))"

definition quote_row_ok :: "watch_db \<Rightarrow> quote_snapshot \<Rightarrow> bool" where
  "quote_row_ok w m =
     (m_id m < wd_seed w \<and> m_market m \<in> {''KRX'', ''NXT''} \<and>
      str_isdigit (m_symbol m) \<and> length (m_symbol m) = 6 \<and>
      m_quality m \<in> {''NORMAL'', ''LATE'', ''GAP_DETECTED''} \<and> m_event_at m \<le> m_received_at m \<and>
      0 \<le> m_cumulative_volume m \<and> quantized 4 (m_last_price m))"

definition watch_ok :: "watch_db \<Rightarrow> bool" where
  "watch_ok w =
     (distinct (map m_id (quote_snapshots w)) \<and> distinct (map source_key (quote_snapshots w)) \<and>
      distinct (map stream_key (quote_streams w)) \<and> distinct (map bar_key (minute_bars w)) \<and>
      list_all (quote_row_ok w) (quote_snapshots w) \<and> list_all (stream_ok w) (quote_streams w) \<and>
      list_all bar_ok (minute_bars w))"

primrec ingest_all :: "quote_event list \<Rightarrow> watch_db \<Rightarrow> watch_db" where
  "ingest_all [] w = w"
| "ingest_all (e # es) w = ingest_all es (snd (ingest_quote e w))"

section \<open>Bars\<close>

lemma quantized_times_int: "quantized p x \<Longrightarrow> quantized p (x * of_int n)"
proof -
  assume "quantized p x"
  then obtain k where "x * 10 ^ p = of_int k" unfolding quantized_def by metis
  then have "x * of_int n * 10 ^ p = of_int (k * n)" by (simp add: ac_simps flip: mult.assoc)
  then show ?thesis by (simp only: quantized_def floor_of_int)
qed

lemma turnover_delta_exact: "quantize4 (quantize4 x * of_int n) = quantize4 x * of_int n"
  by (rule quantize4_fixed) (simp add: quantized_times_int)

lemma bar_ok_new: "0 < qe_last_price e \<Longrightarrow> 0 \<le> delta \<Longrightarrow> bar_ok (bar_new e i snap delta)"
  by (simp add: bar_ok_def bar_new_def Let_def turnover_delta_exact quantize4_nonneg)

lemma bar_ok_apply:
  assumes "bar_ok b" "0 < qe_last_price e" "0 \<le> delta"
  shows "bar_ok (bar_apply e snap delta b)"
proof -
  define p where "p = quantize4 (qe_last_price e)"
  have exact: "quantize4 (p * of_int delta) = p * of_int delta"
    by (simp add: p_def turnover_delta_exact)
  have p: "0 \<le> p" "quantized 4 p" using assms(2) by (simp_all add: p_def quantize4_nonneg)
  have v: "0 \<le> (of_int (mb_volume b) :: rat)" "0 \<le> (of_int delta :: rat)"
    using assms(1,3) by (simp_all add: bar_ok_def)
  have lo: "min (mb_low_price b) p * of_int (mb_volume b) \<le> mb_low_price b * of_int (mb_volume b)"
    "min (mb_low_price b) p * of_int delta \<le> p * of_int delta"
    using v by (simp_all add: mult_right_mono)
  have hi: "mb_high_price b * of_int (mb_volume b) \<le> max (mb_high_price b) p * of_int (mb_volume b)"
    "p * of_int delta \<le> max (mb_high_price b) p * of_int delta"
    using v by (simp_all add: mult_right_mono)
  have "min (mb_low_price b) p * of_int (mb_volume b + delta) \<le> mb_turnover b + p * of_int delta"
    "mb_turnover b + p * of_int delta \<le> max (mb_high_price b) p * of_int (mb_volume b + delta)"
    using lo hi assms(1) by (simp_all add: bar_ok_def distrib_left)
  then show ?thesis
    using assms(1,3) p
    by (auto simp: bar_ok_def bar_apply_def Let_def exact p_def [symmetric] min_def max_def)
qed

lemma bar_key_simps [simp]:
  "bar_key (bar_new e i snap delta) = (qe_market e, qe_symbol e, minute_bucket (utc (qe_event_at e)))"
  "bar_key (bar_apply e snap delta b) = bar_key b"
  by (simp_all add: bar_key_def bar_new_def bar_apply_def Let_def)

lemma volume_delta_nonneg: "0 \<le> volume_delta e v t"
  by (simp add: volume_delta_def split: option.split)

lemma apply_trade_frame [frame_simps]:
  "quote_snapshots (apply_trade e i dl w) = quote_snapshots w"
  "quote_streams (apply_trade e i dl w) = quote_streams w"
  "venue_states (apply_trade e i dl w) = venue_states w"
  "indicator_snapshots (apply_trade e i dl w) = indicator_snapshots w"
  "wd_seed w \<le> wd_seed (apply_trade e i dl w)"
  by (simp_all add: apply_trade_def watch_draw_def Let_def split: option.split)

lemma apply_trade_bars:
  assumes "list_all bar_ok (minute_bars w)" "distinct (map bar_key (minute_bars w))"
    and "0 < qe_last_price e" "0 \<le> delta"
  shows "list_all bar_ok (minute_bars (apply_trade e i delta w))"
    and "distinct (map bar_key (minute_bars (apply_trade e i delta w)))"
proof -
  let ?k = "(qe_market e, qe_symbol e, minute_bucket (utc (qe_event_at e)))"
  have upd: "\<forall>b \<in> set (row_upd bar_key ?k (bar_apply e i delta) (minute_bars w)). bar_ok b"
    using assms by (intro ball_row_upd) (auto simp: list_all_iff bar_ok_apply)
  show "list_all bar_ok (minute_bars (apply_trade e i delta w))"
    using assms upd
    by (auto simp: apply_trade_def Let_def watch_draw_def list_all_iff bar_ok_new split: option.split)
  show "distinct (map bar_key (minute_bars (apply_trade e i delta w)))"
    using assms(2) by (auto simp: apply_trade_def Let_def watch_draw_def row_find_None_iff map_key_row_upd
        split: option.split)
qed

lemma update_market_analysis_Inr:
  assumes "update_market_analysis e i v t w = Inr w'"
  shows "quote_snapshots w' = quote_snapshots w" "quote_streams w' = quote_streams w"
    and "venue_states w' = venue_states w" "wd_seed w \<le> wd_seed w'"
    and "minute_bars w' = minute_bars (if qe_updates_trade e then apply_trade e i (volume_delta e v t) w else w)"
    and "indicator_snapshots w' = indicator_snapshots w @
           [indicator_of e (wd_seed w' - 1) i (day_bars e w')]"
    and "session_high_of e (day_bars e w') \<noteq> 0"
  using assms le_SucI [OF apply_trade_frame(5) [of w e i "volume_delta e v t"]]
  by (auto simp: update_market_analysis_def watch_draw_def Let_def day_bars_def frame_simps split: if_splits)

lemma update_market_analysis_bars:
  assumes "update_market_analysis e i v t w = Inr w'" "0 < qe_last_price e"
    and "list_all bar_ok (minute_bars w)" "distinct (map bar_key (minute_bars w))"
  shows "list_all bar_ok (minute_bars w')" "distinct (map bar_key (minute_bars w'))"
  using assms apply_trade_bars [OF assms(3,4,2) volume_delta_nonneg]
  by (simp_all add: update_market_analysis_Inr(5) [OF assms(1)])

section \<open>One step\<close>

lemma quote_validate_None:
  assumes "quote_validate e = None"
  shows "str_isdigit (qe_symbol e)" "length (qe_symbol e) = 6" "qe_market e \<in> {''KRX'', ''NXT''}"
    and "utc (qe_event_at e) \<le> utc (qe_received_at e)" "0 < qe_last_price e" "0 < qe_high_price e"
    and "0 \<le> qe_cumulative_volume e"
  using assms by (auto simp: quote_validate_def split: if_splits)

text \<open>
  An ingestion fails or meets a stored snapshot and leaves the state alone, or it stores one new
  snapshot and moves its stream.
\<close>

lemma ingest_quoteE:
  assumes "ingest_quote e w = (r, w')"
  obtains err where "w' = w" "r = Inl err"
  | dup res where "w' = w" "quote_validate e = None" "r = Inr res" "ir_snapshot res = dup"
      "ir_outcome res = ''DUPLICATE''" "m_payload_hash dup = payload_hash e"
      "row_find source_key (event_key e) (quote_snapshots w) = Some dup"
  | i q st wa res where "i = wd_seed w" "st = stream_of w (qe_market e) (qe_symbol e)" "q = event_quality e st"
      "quote_validate e = None" "row_find source_key (event_key e) (quote_snapshots w) = None"
      "q = ''NORMAL'' \<Longrightarrow>
         update_market_analysis e i (Option.bind st ms_cumulative_volume) (Option.bind st ms_last_event_at)
           (w\<lparr>wd_seed := i + 1, quote_snapshots := quote_snapshots w @ [snapshot_of e i q]\<rparr>) = Inr wa"
      "q \<noteq> ''NORMAL'' \<Longrightarrow>
         wa = w\<lparr>wd_seed := i + 1, quote_snapshots := quote_snapshots w @ [snapshot_of e i q]\<rparr>"
      "quote_snapshots w' = quote_snapshots w @ [snapshot_of e i q]" "wd_seed w < wd_seed w'"
      "quote_streams w' = quote_streams (stream_put e i q st w)"
      "minute_bars w' = minute_bars wa" "indicator_snapshots w' = indicator_snapshots wa"
      "r = Inr res" "ir_snapshot res = snapshot_of e i q"
      "ir_outcome res = (if q = ''NORMAL'' then (if qe_recovery_snapshot e then ''RECOVERED'' else ''APPLIED'') else q)"
proof (cases "\<exists>res. ingest_new e w = (Inr res, w') \<and> quote_validate e = None \<and>
    row_find source_key (event_key e) (quote_snapshots w) = None \<and> r = Inr res")
  case False
  then consider err where "w' = w" "r = Inl err"
    | dup res where "w' = w" "quote_validate e = None" "r = Inr res" "ir_snapshot res = dup"
        "ir_outcome res = ''DUPLICATE''" "m_payload_hash dup = payload_hash e"
        "row_find source_key (event_key e) (quote_snapshots w) = Some dup"
    using assms by (auto simp: ingest_quote_def ingest_new_def ingest_as_def Let_def
        split: option.splits sum.splits if_splits)
  then show ?thesis by cases (erule that(1), assumption, erule that(2), assumption+)
next
  case True
  define i where "i = wd_seed w"
  define st where "st = stream_of w (qe_market e) (qe_symbol e)"
  define q where "q = event_quality e st"
  define w2 where "w2 = w\<lparr>wd_seed := i + 1, quote_snapshots := quote_snapshots w @ [snapshot_of e i q]\<rparr>"
  from True obtain res where new: "quote_validate e = None"
    "row_find source_key (event_key e) (quote_snapshots w) = None"
    and ing: "ingest_new e w = (Inr res, w')" and r: "r = Inr res" by blast
  from ing obtain wa where wa: "store_snapshot e st q w = Inr wa"
    and w': "w' = finish_ingest e i q st wa" and res: "res = ingest_outcome e i q st"
    by (auto simp: ingest_new_def ingest_as_def Let_def i_def st_def q_def split: sum.splits)
  have normal: "q = ''NORMAL'' \<Longrightarrow> update_market_analysis e i (Option.bind st ms_cumulative_volume)
      (Option.bind st ms_last_event_at) w2 = Inr wa"
    and other: "q \<noteq> ''NORMAL'' \<Longrightarrow> wa = w2"
    using wa by (simp_all add: store_snapshot_def Let_def w2_def i_def)
  have fr: "quote_snapshots wa = quote_snapshots w2" "quote_streams wa = quote_streams w" "wd_seed w < wd_seed wa"
    using normal other update_market_analysis_Inr(1,2,4) [where w' = wa and w = w2]
    by (cases "q = ''NORMAL''"; simp add: w2_def i_def less_eq_Suc_le)+
  show ?thesis
    using fr by (intro that(3) [where wa = wa, OF i_def st_def q_def new normal [unfolded w2_def]
          other [unfolded w2_def] _ _ _ _ _ r])
      (auto simp: w' finish_ingest_def w2_def stream_put_def res ingest_outcome_def split: option.split)
qed

section \<open>Invariance\<close>

lemma stream_key_advance [simp]:
  "stream_key (stream_advance e i q s) = stream_key s"
  "stream_key (stream_new e) = (qe_market e, qe_symbol e)"
  by (simp_all add: stream_key_def stream_advance_def stream_new_def)

lemma snapshot_key [simp]: "source_key (snapshot_of e i q) = event_key e" "m_id (snapshot_of e i q) = i"
  "m_payload_hash (snapshot_of e i q) = payload_hash e"
  by (simp_all add: source_key_def event_key_def snapshot_of_def)

lemma event_quality_cases:
  "event_quality e st \<in> {''NORMAL'', ''LATE'', ''GAP_DETECTED''}"
  "event_quality e None = ''NORMAL''"
  by (simp_all add: event_quality_def event_late_def event_gap_def)

lemma stream_of_Some: "stream_of w m b = Some s \<Longrightarrow> s \<in> set (quote_streams w) \<and> stream_key s = (m, b)"
  by (auto simp: stream_of_def dest: row_find_Some)

lemma stream_follows_advance:
  assumes "(ms_market s, ms_symbol s) = (qe_market e, qe_symbol e)"
  shows "stream_follows (stream_advance e i ''NORMAL'' s) (snapshot_of e i ''NORMAL'')"
  using assms by (simp add: stream_follows_def stream_advance_def snapshot_of_def)

lemma stream_follows_other:
  "q \<noteq> ''NORMAL'' \<Longrightarrow> stream_follows (stream_advance e i q s) m = stream_follows s m"
  by (simp add: stream_follows_def stream_advance_def)

lemma stream_ok_advance:
  assumes "stream_key s = (qe_market e, qe_symbol e)" "q \<in> {''NORMAL'', ''LATE'', ''GAP_DETECTED''}"
    and "q \<noteq> ''NORMAL'' \<Longrightarrow> stream_ok w s" and "quote_snapshots w' = quote_snapshots w @ [snapshot_of e i q]"
  shows "stream_ok w' (stream_advance e i q s)"
proof (cases "q = ''NORMAL''")
  case True
  with assms(1,4) stream_follows_advance [of s e i] show ?thesis
    by (simp add: stream_ok_def stream_key_def) (simp add: stream_advance_def)
next
  case False
  with assms(2-4) show ?thesis
    by (auto simp: stream_ok_def stream_follows_other list_ex_iff) (auto simp: stream_advance_def)
qed

lemma stream_ok_more:
  "stream_ok w s \<Longrightarrow> quote_snapshots w' = quote_snapshots w @ ms \<Longrightarrow> stream_ok w' s"
  by (auto simp: stream_ok_def)

lemma stream_put_ok:
  assumes "list_all (stream_ok w) (quote_streams w)" "distinct (map stream_key (quote_streams w))"
    and "st = stream_of w (qe_market e) (qe_symbol e)" "q = event_quality e st"
    and "quote_snapshots w' = quote_snapshots w @ [snapshot_of e i q]"
    and "quote_streams w' = quote_streams (stream_put e i q st w)"
  shows "list_all (stream_ok w') (quote_streams w')" "distinct (map stream_key (quote_streams w'))"
proof -
  let ?k = "(qe_market e, qe_symbol e)"
  have q: "q \<in> {''NORMAL'', ''LATE'', ''GAP_DETECTED''}" using assms(4) event_quality_cases(1) by simp
  have old: "\<forall>s \<in> set (quote_streams w). stream_ok w' s"
    using assms(1,5) stream_ok_more by (auto simp: list_all_iff)
  have adv: "stream_ok w' (stream_advance e i q s)" if "s \<in> set (quote_streams w)" "stream_key s = ?k" for s
    using that assms(1) by (intro stream_ok_advance [OF _ q _ assms(5)]) (auto simp: list_all_iff)
  have new: "stream_ok w' (stream_advance e i q (stream_new e))" if "st = None"
    using that assms(4) event_quality_cases(2) [of e]
    by (intro stream_ok_advance [OF _ q _ assms(5)]) auto
  have upd: "\<forall>s \<in> set (row_upd stream_key ?k (stream_advance e i q) (quote_streams w)). stream_ok w' s"
    by (rule ball_row_upd [OF old]) (rule adv)
  show "list_all (stream_ok w') (quote_streams w')"
    using old new upd by (auto simp: assms(6) stream_put_def list_all_iff split: option.split)
  show "distinct (map stream_key (quote_streams w'))"
    using assms(2) by (auto simp: assms(3,6) stream_put_def stream_of_def row_find_None_iff map_key_row_upd
        split: option.split)
qed

lemma quote_row_ok_more: "quote_row_ok w m \<Longrightarrow> wd_seed w \<le> wd_seed w' \<Longrightarrow> quote_row_ok w' m"
  by (auto simp: quote_row_ok_def)

lemma quote_row_ok_new:
  "quote_validate e = None \<Longrightarrow> i < wd_seed w \<Longrightarrow> q \<in> {''NORMAL'', ''LATE'', ''GAP_DETECTED''} \<Longrightarrow>
   quote_row_ok w (snapshot_of e i q)"
  using quote_validate_None [of e] by (auto simp: quote_row_ok_def snapshot_of_def)

lemma ingest_quote_ok:
  assumes "watch_ok w" "ingest_quote e w = (r, w')"
  shows "watch_ok w'"
  using assms(2)
proof (cases rule: ingest_quoteE)
  case (3 i q st wa)
  note ok = assms(1) [unfolded watch_ok_def]
  have streams: "list_all (stream_ok w') (quote_streams w')" "distinct (map stream_key (quote_streams w'))"
    using stream_put_ok [OF _ _ 3(2,3,8,10)] ok by simp_all
  have bars: "list_all bar_ok (minute_bars w') \<and> distinct (map bar_key (minute_bars w'))"
  proof (cases "q = ''NORMAL''")
    case True
    then show ?thesis
      using ok update_market_analysis_bars [OF 3(6) [OF True] quote_validate_None(5) [OF 3(4)]]
      by (simp add: 3(11))
  next
    case False
    then show ?thesis using ok 3(7,11) by simp
  qed
  have snaps: "list_all (quote_row_ok w') (quote_snapshots w')"
    using ok 3(1,9) quote_row_ok_new [OF 3(4) _ event_quality_cases(1) [of e st, folded 3(3)], of i w']
    by (auto simp: 3(8) list_all_iff intro: quote_row_ok_more)
  have "i \<notin> m_id ` set (quote_snapshots w)"
    using ok 3(1) by (auto simp: list_all_iff quote_row_ok_def)
  then show ?thesis
    using ok 3(5) streams bars snaps by (simp add: watch_ok_def 3(8) row_find_None_iff)
qed (use assms(1) in simp_all)

lemma ingest_all_ok: "watch_ok w \<Longrightarrow> watch_ok (ingest_all es w)"
  by (induction es arbitrary: w) (auto intro: ingest_quote_ok [OF _ surjective_pairing])

section \<open>Streams\<close>

lemma stream_of_put:
  "st = stream_of w (qe_market e) (qe_symbol e) \<Longrightarrow> quote_streams w' = quote_streams (stream_put e i q st w) \<Longrightarrow>
   stream_of w' mk sb =
     (if (mk, sb) = (qe_market e, qe_symbol e)
      then Some (stream_advance e i q (case st of None \<Rightarrow> stream_new e | Some s \<Rightarrow> s))
      else stream_of w mk sb)"
  by (auto simp: stream_of_def stream_put_def row_find_append row_find_row_upd split: option.split)

text \<open>A regular event that meets a gap or another source is not applied.\<close>

definition refused_by :: "quote_stream \<Rightarrow> quote_event \<Rightarrow> bool" where
  "refused_by s e =
     (\<not> qe_recovery_snapshot e \<and> (ms_quality s = ''GAP_DETECTED'' \<or> ms_source s \<noteq> qe_source e))"

lemma refused_not_applied: "refused_by s e \<Longrightarrow> event_quality e (Some s) \<in> {''LATE'', ''GAP_DETECTED''}"
  by (auto simp: refused_by_def event_quality_def event_gap_def)

text \<open>Only the quality and the version of a stream have changed, the quality at most to a gap.\<close>

definition same_feed :: "quote_stream \<Rightarrow> quote_stream \<Rightarrow> bool" where
  "same_feed s t =
     (t\<lparr>ms_quality := ms_quality s, ms_version := ms_version s\<rparr> = s \<and>
      ms_quality t \<in> {ms_quality s, ''GAP_DETECTED''})"

lemma same_feed_refl [simp]: "same_feed s s"
  by (simp add: same_feed_def)

lemma same_feed_trans:
  assumes "same_feed s t" "same_feed t u"
  shows "same_feed s u"
proof -
  have "u\<lparr>ms_quality := ms_quality s, ms_version := ms_version s\<rparr> =
      u\<lparr>ms_quality := ms_quality t, ms_version := ms_version t\<rparr>\<lparr>ms_quality := ms_quality s, ms_version := ms_version s\<rparr>"
    by simp
  also have "\<dots> = s" using assms by (simp only: same_feed_def)
  finally show ?thesis using assms by (auto simp: same_feed_def)
qed

lemma same_feed_fields:
  "same_feed s t \<Longrightarrow> ms_source t = ms_source s \<and> ms_current_snapshot_id t = ms_current_snapshot_id s \<and>
     ms_last_event_at t = ms_last_event_at s"
  unfolding same_feed_def
  by (metis (no_types, lifting) market_stream_state.select_convs(3) quote_stream.select_convs(1,3)
      quote_stream.surjective market_stream_state.update_convs(4) quote_stream.update_convs(6))

lemma refused_by_same_feed: "same_feed s t \<Longrightarrow> refused_by s e \<Longrightarrow> refused_by t e"
  using same_feed_fields [of s t] by (auto simp: refused_by_def same_feed_def)

lemma same_feed_advance: "q \<in> {''LATE'', ''GAP_DETECTED''} \<Longrightarrow> same_feed s (stream_advance e i q s)"
  by (auto simp: same_feed_def stream_advance_def)

lemma refused_step:
  assumes "stream_of w mk sb = Some s" and "(qe_market e, qe_symbol e) = (mk, sb) \<Longrightarrow> refused_by s e"
  shows "\<exists>t. stream_of (snd (ingest_quote e w)) mk sb = Some t \<and> same_feed s t"
proof -
  obtain r w' where eq: "ingest_quote e w = (r, w')" by fastforce
  from eq show ?thesis
  proof (cases rule: ingest_quoteE)
    case (3 i q st wa)
    have "same_feed s (stream_advance e i q s)" if "(qe_market e, qe_symbol e) = (mk, sb)"
      using that assms 3(2,3) refused_not_applied by (intro same_feed_advance) auto
    then show ?thesis unfolding eq snd_conv stream_of_put [OF 3(2,10)]
      using assms(1) 3(2) by auto
  qed (use assms(1) eq in simp_all)
qed

lemma refused_all:
  assumes "stream_of w mk sb = Some s" "\<forall>e \<in> set es. (qe_market e, qe_symbol e) = (mk, sb) \<longrightarrow> refused_by s e"
  shows "\<exists>t. stream_of (ingest_all es w) mk sb = Some t \<and> same_feed s t"
  using assms
proof (induction es arbitrary: w s)
  case (Cons e es)
  then obtain t where t: "stream_of (snd (ingest_quote e w)) mk sb = Some t" "same_feed s t"
    using refused_step [OF Cons.prems(1), of e] by auto
  then have "\<forall>e \<in> set es. (qe_market e, qe_symbol e) = (mk, sb) \<longrightarrow> refused_by t e"
    using Cons.prems(2) refused_by_same_feed by auto
  from Cons.IH [OF t(1) this] t(2) same_feed_trans show ?case by auto
qed simp

lemma stream_get_published:
  "stream_get (published w d) mk sb = map_option market_stream_state.truncate (stream_of w mk sb)"
proof -
  have "row_find (\<lambda>r. (ms_market r, ms_symbol r)) k (map market_stream_state.truncate rs) =
      map_option market_stream_state.truncate (row_find stream_key k rs)" for k and rs :: "quote_stream list"
    by (induction rs) (auto simp: stream_key_def market_stream_state.truncate_def)
  then show ?thesis by (simp add: stream_get_def published_def stream_of_def)
qed

section \<open>Replays\<close>

lemma ingested_found:
  assumes "ingest_quote e w = (Inr r, w')"
  shows "quote_validate e = None" "row_find source_key (event_key e) (quote_snapshots w') = Some (ir_snapshot r)"
    and "m_payload_hash (ir_snapshot r) = payload_hash e"
proof -
  from assms have "quote_validate e = None \<and>
      row_find source_key (event_key e) (quote_snapshots w') = Some (ir_snapshot r) \<and>
      m_payload_hash (ir_snapshot r) = payload_hash e"
  proof (cases rule: ingest_quoteE)
    case (3 i q st wa res)
    with 3(4,5,8,14) show ?thesis by (simp add: row_find_append)
  qed auto
  then show "quote_validate e = None"
    "row_find source_key (event_key e) (quote_snapshots w') = Some (ir_snapshot r)"
    "m_payload_hash (ir_snapshot r) = payload_hash e" by blast+
qed

lemma found_stays:
  assumes "row_find source_key k (quote_snapshots w) = Some m"
  shows "row_find source_key k (quote_snapshots (ingest_all es w)) = Some m"
  using assms
proof (induction es arbitrary: w)
  case (Cons e es)
  obtain r w' where eq: "ingest_quote e w = (r, w')" by fastforce
  then have "row_find source_key k (quote_snapshots w') = Some m"
    by (cases rule: ingest_quoteE) (use Cons.prems in \<open>simp_all add: row_find_append\<close>)
  with Cons.IH eq show ?case by simp
qed simp

section \<open>Indicator bounds\<close>

lemma fold_max_upper: "x \<in> set (y # xs) \<Longrightarrow> x \<le> fold max xs (y :: 'a :: linorder)"
  by (simp add: Max.set_eq_fold [symmetric] del: list.set)

lemma sum_bounds:
  fixes lo hi :: rat
  assumes "\<forall>b \<in> set bs. bar_ok b \<and> lo \<le> mb_low_price b \<and> mb_high_price b \<le> hi"
  shows "lo * of_int (sum_list (map mb_volume bs)) \<le> sum_list (map mb_turnover bs) \<and>
         sum_list (map mb_turnover bs) \<le> hi * of_int (sum_list (map mb_volume bs))"
  using assms
proof (induction bs)
  case (Cons b bs)
  from Cons.prems have b: "bar_ok b" "lo \<le> mb_low_price b" "mb_high_price b \<le> hi" by simp_all
  then have "lo * of_int (mb_volume b) \<le> mb_low_price b * of_int (mb_volume b)"
    "mb_high_price b * of_int (mb_volume b) \<le> hi * of_int (mb_volume b)"
    by (simp_all add: bar_ok_def mult_right_mono)
  with b(1) have "lo * of_int (mb_volume b) \<le> mb_turnover b" "mb_turnover b \<le> hi * of_int (mb_volume b)"
    by (simp_all add: bar_ok_def)
  with Cons show ?case by (simp add: distrib_left)
qed simp

lemma vwap_bounds:
  assumes "\<forall>b \<in> set bs. bar_ok b \<and> lo \<le> mb_low_price b \<and> mb_high_price b \<le> hi"
    and "0 < sum_list (map mb_volume bs)"
  shows "quantize4 lo \<le> vwap_of e bs \<and> vwap_of e bs \<le> quantize4 hi"
proof -
  let ?v = "of_int (sum_list (map mb_volume bs)) :: rat"
  have "0 < ?v" using assms(2) by simp
  then have "lo \<le> sum_list (map mb_turnover bs) / ?v" "sum_list (map mb_turnover bs) / ?v \<le> hi"
    using sum_bounds [OF assms(1)] by (simp_all add: pos_le_divide_eq pos_divide_le_eq)
  then show ?thesis
    using assms(2) by (simp add: vwap_of_def Let_def quantize4_mono)
qed

lemma session_high_ge:
  "b \<in> set bs \<Longrightarrow> quantize4 (mb_high_price b) \<le> session_high_of e bs"
  "quantize4 (qe_high_price e) \<le> session_high_of e bs"
  by (auto simp: session_high_of_def intro!: quantize4_mono fold_max_upper)

text \<open>The bar a trade has moved is among the bars of its day.\<close>

lemma minute_bucket_in_day:
  "kst_day_start t \<le> minute_bucket t \<and> minute_bucket t < kst_day_start t + seconds 86400"
proof -
  define u where "u = t + kst_offset"
  define m where "m = u div 60000000"
  have m: "u - u mod 60000000 = m * 60000000" by (simp add: m_def minus_mod_eq_div_mult)
  have day: "u div 86400000000 = m div 1440"
    using zdiv_zmult2_eq [of 1440 u 60000000] by (simp add: m_def)
  have "m div 1440 * 1440 \<le> m" "m < m div 1440 * 1440 + 1440" by presburger+
  then have "u div 86400000000 * 86400000000 \<le> u - u mod 60000000"
    "u - u mod 60000000 < u div 86400000000 * 86400000000 + 86400000000" unfolding m day by linarith+
  then show ?thesis
    by (simp add: kst_day_start_def minute_bucket_def kst_date_def seconds_def u_def)
qed

lemma apply_trade_bar:
  "\<exists>b \<in> set (minute_bars (apply_trade e i dl w)).
     bar_key b = (qe_market e, qe_symbol e, minute_bucket (utc (qe_event_at e))) \<and>
     quantize4 (qe_last_price e) \<le> mb_high_price b"
proof (cases "row_find bar_key (qe_market e, qe_symbol e, minute_bucket (utc (qe_event_at e))) (minute_bars w)")
  case None
  then show ?thesis
    by (simp add: apply_trade_def watch_draw_def Let_def) (simp add: bar_new_def Let_def)
next
  case (Some b)
  from row_find_Some [OF this] have "b \<in> set (minute_bars w)"
    "bar_key b = (qe_market e, qe_symbol e, minute_bucket (utc (qe_event_at e)))" by simp_all
  moreover have "quantize4 (qe_last_price e) \<le> mb_high_price (bar_apply e i dl b)"
    by (simp add: bar_apply_def Let_def)
  moreover have "bar_apply e i dl b \<in> set (minute_bars (apply_trade e i dl w))"
    using Some calculation(1,2) by (auto simp: apply_trade_def Let_def row_upd_def image_iff intro!: bexI [of _ b])
  ultimately show ?thesis by (intro bexI [of _ "bar_apply e i dl b"]) simp_all
qed

lemma trade_bar_in_day:
  assumes "update_market_analysis e i v t w = Inr w'" "qe_updates_trade e"
  shows "\<exists>b \<in> set (day_bars e w'). quantize4 (qe_last_price e) \<le> mb_high_price b"
  using apply_trade_bar [of e i "volume_delta e v t" w] minute_bucket_in_day [of "utc (qe_event_at e)"]
  by (auto simp: day_bars_def Let_def bar_key_def update_market_analysis_Inr(5) [OF assms(1)] assms(2))

lemma vwap_within_session:
  assumes "list_all bar_ok bs" "0 < qe_last_price e" "b \<in> set bs" "quantize4 (qe_last_price e) \<le> mb_high_price b"
  shows "0 \<le> vwap_of e bs \<and> vwap_of e bs \<le> session_high_of e bs"
proof (cases "0 < sum_list (map mb_volume bs)")
  case True
  have "\<forall>b \<in> set bs. bar_ok b \<and> 0 \<le> mb_low_price b \<and> mb_high_price b \<le> fold max (map mb_high_price bs) (qe_high_price e)"
    using assms(1) by (auto simp: list_all_iff bar_ok_def intro: fold_max_upper)
  from vwap_bounds [OF this True, of e] show ?thesis
    by (simp add: session_high_of_def quantize4_fixed)
next
  case False
  have "quantize4 (qe_last_price e) \<le> session_high_of e bs"
    using order_trans [OF quantize4_mono [OF assms(4)] session_high_ge(1) [OF assms(3)]] by simp
  with False assms(2) show ?thesis by (simp add: vwap_of_def Let_def quantize4_nonneg)
qed

lemma quantize6_mono: "x \<le> y \<Longrightarrow> quantize6 x \<le> quantize6 y"
  unfolding quantize6_def by (rule quantize_mono [OF round_half_even_mono])

lemma drawdown_bounds:
  assumes "0 < l" "0 < h"
  shows "- 100 \<le> quantize6 ((l / h - 1) * 100)" "l \<le> h \<Longrightarrow> quantize6 ((l / h - 1) * 100) \<le> 0"
proof -
  have whole: "quantize6 (of_int n) = of_int n" for n :: int
  proof -
    have "of_int n * 10 ^ 6 = (of_int (n * 10 ^ 6) :: rat)" by simp
    then have "quantized 6 (of_int n)" by (simp only: quantized_def floor_of_int)
    then show ?thesis unfolding quantize6_def by (rule quantize_fixed [OF round_half_even_of_int])
  qed
  show "- 100 \<le> quantize6 ((l / h - 1) * 100)"
    using quantize6_mono [of "-100" "(l / h - 1) * 100"] whole [of "-100"] assms by simp
  show "quantize6 ((l / h - 1) * 100) \<le> 0" if "l \<le> h"
    using quantize6_mono [of "(l / h - 1) * 100" 0] whole [of 0] assms that by (simp add: divide_le_eq)
qed

section \<open>Square roots\<close>

lemma isqrt_spec: "(isqrt n)\<^sup>2 \<le> n \<and> n < (isqrt n + 1)\<^sup>2"
proof (induction n rule: isqrt.induct)
  case (1 n)
  show ?case
  proof (cases "n = 0")
    case True
    then show ?thesis by (simp add: isqrt.simps)
  next
    case False
    define k where "k = isqrt (n div 4)"
    from 1 [OF False] have "k\<^sup>2 \<le> n div 4" "n div 4 < (k + 1)\<^sup>2" by (simp_all add: k_def)
    then have "4 * k\<^sup>2 \<le> n" "n < 4 * (k + 1)\<^sup>2" by linarith+
    then have "(2 * k)\<^sup>2 \<le> n" "n < (2 * k + 2)\<^sup>2" by (simp_all add: power2_eq_square algebra_simps)
    then show ?thesis using False
      by (simp add: isqrt.simps [of n] Let_def k_def [symmetric] add.commute)
  qed
qed

lemma round_sqrt_nearest:
  assumes "0 \<le> v"
  shows "\<bar>of_int (round_sqrt v) - sqrt (of_rat v)\<bar> \<le> 1 / 2"
proof -
  define n where "n = isqrt (nat \<lfloor>v\<rfloor>)"
  define x where "x = sqrt (of_rat v)"
  have x: "0 \<le> x" "x\<^sup>2 = of_rat v" using assms by (simp_all add: x_def)
  have "of_nat (n\<^sup>2) \<le> v" "v < of_nat ((n + 1)\<^sup>2)"
    using isqrt_spec [of "nat \<lfloor>v\<rfloor>", folded n_def] assms by linarith+
  then have "of_rat (of_nat (n\<^sup>2)) \<le> x\<^sup>2" "x\<^sup>2 < of_rat (of_nat ((n + 1)\<^sup>2))"
    by (simp_all only: x(2) of_rat_less of_rat_less_eq)
  then have "(real n)\<^sup>2 \<le> x\<^sup>2" "x\<^sup>2 < (real n + 1)\<^sup>2"
    by (simp_all only: of_rat_of_nat_eq) (simp_all only: of_nat_power of_nat_add of_nat_1)
  then have lo: "real n \<le> x" and hi: "x < real n + 1"
    using x(1) by (auto intro: power2_le_imp_le power2_less_imp_less)
  have half: "of_rat ((of_int (int n) + 1 / 2)\<^sup>2) = (real n + 1 / 2)\<^sup>2"
    by (simp add: of_rat_power of_rat_add of_rat_divide)
  have less: "v < (of_int (int n) + 1 / 2)\<^sup>2 \<longleftrightarrow> x < real n + 1 / 2"
    and greater: "(of_int (int n) + 1 / 2)\<^sup>2 < v \<longleftrightarrow> real n + 1 / 2 < x"
    unfolding of_rat_less [where 'a = real, symmetric] half x(2) [symmetric]
    using x(1) by (auto intro: power2_less_imp_less simp: power_strict_mono)
  show ?thesis
    using lo hi less greater
    by (auto simp: round_sqrt_def Let_def n_def [symmetric] x_def [symmetric])
qed

section \<open>Properties\<close>

text \<open>A concrete trade event for the examples: source, identity, second, recovery, price.\<close>

definition sample_quote :: "string \<Rightarrow> string \<Rightarrow> int \<Rightarrow> bool \<Rightarrow> decimal \<Rightarrow> quote_event" where
  "sample_quote source identity second recovery price =
     \<lparr>qe_symbol = ''005930'', qe_market = ''KRX'', qe_source = source, qe_sequence_or_hash = identity,
      qe_event_at = Aware (seconds second), qe_received_at = Aware (seconds second),
      qe_last_price = price, qe_open_price = 69000, qe_high_price = 71000, qe_low_price = 68000,
      qe_cumulative_volume = second, qe_trading_status = ''TRADING'', qe_source_sequence = None,
      qe_best_bid_price = None, qe_best_bid_quantity = None, qe_best_ask_price = None,
      qe_best_ask_quantity = None, qe_recovery_snapshot = recovery, qe_updates_trade = True\<rparr>"

definition watch_1 :: watch_db where
  "watch_1 = ingest_all [sample_quote ''KIWOOM_WS'' ''a'' 100 False 70000] empty_watch"

definition watch_gap :: watch_db where
  "watch_gap = ingest_all [sample_quote ''OTHER'' ''b'' 101 False 70000] watch_1"

definition outcome_is :: "string \<Rightarrow> watch_error + ingest_result \<Rightarrow> bool" where
  "outcome_is x r = (case r of Inl _ \<Rightarrow> False | Inr res \<Rightarrow> ir_outcome res = x)"

lemma outcome_isE:
  assumes "outcome_is x (fst p)"
  obtains r where "p = (Inr r, snd p)" "ir_outcome r = x"
  using assms by (cases p) (auto simp: outcome_is_def split: sum.splits)

text \<open>C27. After any sequence of quote events, accepted or not, the stored rows are well-formed: snapshots have
  unique ids and source identities and valid columns, every stream points at a stored normal snapshot of its own
  market and symbol whose event time, volume, sequence and source are the ones of the stream, and every minute
  bar is the only one of its minute, with its prices inside its range and its turnover between the lowest and the highest
  price times the volume.\<close>

theorem ingestion_rows_well_formed: "watch_ok (ingest_all es empty_watch)"
  by (rule ingest_all_ok) (simp add: watch_ok_def empty_watch_def)

text \<open>C28. Ingestion is idempotent: once an event has been stored, ingesting it again after any further
  events returns the stored snapshot as a duplicate and changes nothing, and a valid event with the same source identity and
  another content is refused as a conflict and changes nothing.\<close>

theorem quote_ingested_once:
  assumes "ingest_quote e w = (Inr r, w')"
  shows "(\<exists>r'. ingest_quote e (ingest_all es w') = (Inr r', ingest_all es w') \<and>
            ir_snapshot r' = ir_snapshot r \<and> ir_outcome r' = ''DUPLICATE'') \<and>
         (event_key f = event_key e \<and> payload_hash f \<noteq> payload_hash e \<and> quote_validate f = None \<longrightarrow>
            ingest_quote f (ingest_all es w') = (Inl SOURCE_EVENT_CONFLICT, ingest_all es w'))"
  using ingested_found(1,3) [OF assms] found_stays [OF ingested_found(2) [OF assms], of es]
  by (simp add: ingest_quote_def)

theorem quote_ingested_once_witness:
  "ingest_quote (sample_quote ''KIWOOM_WS'' ''a'' 100 False 70001) watch_gap = (Inl SOURCE_EVENT_CONFLICT, watch_gap)"
proof -
  define e where "e = sample_quote ''KIWOOM_WS'' ''a'' 100 False 70000"
  define f where "f = sample_quote ''KIWOOM_WS'' ''a'' 100 False 70001"
  define b where "b = sample_quote ''OTHER'' ''b'' 101 False 70000"
  have "outcome_is ''APPLIED'' (fst (ingest_quote e empty_watch))" unfolding e_def by code_simp
  then obtain r where "ingest_quote e empty_watch = (Inr r, snd (ingest_quote e empty_watch))"
    by (rule outcome_isE)
  moreover have "event_key f = event_key e \<and> quote_validate f = None" unfolding e_def f_def by code_simp
  moreover have "payload_hash f \<noteq> payload_hash e" unfolding e_def f_def by code_simp
  ultimately have "ingest_quote f (ingest_all [b] (snd (ingest_quote e empty_watch))) =
      (Inl SOURCE_EVENT_CONFLICT, ingest_all [b] (snd (ingest_quote e empty_watch)))"
    using quote_ingested_once [of e empty_watch r _ "[b]" f] by blast
  then show ?thesis by (simp add: watch_gap_def watch_1_def e_def f_def b_def)
qed

text \<open>A detected gap is latched: while a stream is in \<open>GAP_DETECTED\<close>, no sequence of events without a
  recovery snapshot for it moves its current snapshot or its clock, and the guards see no current
  snapshot for that symbol.\<close>

theorem gap_latched_until_recovery:
  assumes "stream_of w mk sb = Some s" "ms_quality s = ''GAP_DETECTED''"
    and "\<forall>e \<in> set es. (qe_market e, qe_symbol e) = (mk, sb) \<longrightarrow> \<not> qe_recovery_snapshot e"
  shows "\<exists>t. stream_of (ingest_all es w) mk sb = Some t \<and> ms_quality t = ''GAP_DETECTED'' \<and>
           ms_current_snapshot_id t = ms_current_snapshot_id s \<and> ms_last_event_at t = ms_last_event_at s \<and>
           \<not> snapshot_current (published (ingest_all es w) d) (dc\<lparr>dc_market := mk, dc_symbol := sb\<rparr>) m"
proof -
  obtain t where t: "stream_of (ingest_all es w) mk sb = Some t" "same_feed s t"
    using refused_all [OF assms(1), of es] assms(2,3) by (auto simp: refused_by_def)
  with assms(2) have "ms_quality t = ''GAP_DETECTED''" by (auto simp: same_feed_def)
  with t same_feed_fields [OF t(2)] show ?thesis
    by (auto simp: snapshot_current_def stream_get_published market_stream_state.truncate_def)
qed

theorem gap_latched_until_recovery_witness:
  "\<exists>t. stream_of (ingest_all [sample_quote ''KIWOOM_WS'' ''c'' 102 False 70100] watch_gap) ''KRX'' ''005930'' = Some t \<and>
     ms_quality t = ''GAP_DETECTED'' \<and> ms_current_snapshot_id t = Some 0 \<and> ms_last_event_at t = Some (seconds 100) \<and>
     \<not> snapshot_current (published (ingest_all [sample_quote ''KIWOOM_WS'' ''c'' 102 False 70100] watch_gap) empty_db)
         (undefined\<lparr>dc_market := ''KRX'', dc_symbol := ''005930''\<rparr>) undefined"
proof -
  have "map_option (\<lambda>s. (ms_quality s, ms_current_snapshot_id s, ms_last_event_at s))
      (stream_of watch_gap ''KRX'' ''005930'') = Some (''GAP_DETECTED'', Some 0, Some (seconds 100))"
    by code_simp
  then obtain s where "stream_of watch_gap ''KRX'' ''005930'' = Some s" "ms_quality s = ''GAP_DETECTED''"
    "ms_current_snapshot_id s = Some 0" "ms_last_event_at s = Some (seconds 100)" by auto
  from gap_latched_until_recovery [OF this(1,2), of "[sample_quote ''KIWOOM_WS'' ''c'' 102 False 70100]"] this(3,4)
  show ?thesis by (simp add: sample_quote_def)
qed

text \<open>A recovery snapshot of one source does not bring back a feed of another source: after it, regular events of
  the other source are never applied, so the stream keeps pointing at the recovery snapshot until the next
  recovery. The adapter's recovery snapshots and its live feed do have different sources.\<close>

theorem recovery_of_other_source_not_resumed:
  assumes "ingest_quote e w = (Inr r, w')" "ir_outcome r = ''RECOVERED''"
    and "\<forall>f \<in> set es. (qe_market f, qe_symbol f) = (qe_market e, qe_symbol e) \<longrightarrow>
           \<not> qe_recovery_snapshot f \<and> qe_source f \<noteq> qe_source e"
  shows "\<exists>t. stream_of (ingest_all es w') (qe_market e) (qe_symbol e) = Some t \<and>
           ms_current_snapshot_id t = Some (m_id (ir_snapshot r)) \<and>
           ms_last_event_at t = Some (utc (qe_event_at e))"
  using assms(1)
proof (cases rule: ingest_quoteE)
  case (3 i q st wa res)
  with assms(2) have q: "q = ''NORMAL''" and r: "r = res"
    using event_quality_cases(1) [of e st] by (auto split: if_splits)
  define s where "s = stream_advance e i q (case st of None \<Rightarrow> stream_new e | Some s \<Rightarrow> s)"
  have st: "stream_of w' (qe_market e) (qe_symbol e) = Some s"
    by (simp add: stream_of_put [OF 3(2,10)] s_def)
  have s: "ms_source s = qe_source e" "ms_current_snapshot_id s = Some i" "ms_last_event_at s = Some (utc (qe_event_at e))"
    by (simp_all add: s_def q stream_advance_def)
  have "\<forall>f \<in> set es. (qe_market f, qe_symbol f) = (qe_market e, qe_symbol e) \<longrightarrow> refused_by s f"
    using assms(3) by (auto simp: refused_by_def s(1))
  then obtain t where "stream_of (ingest_all es w') (qe_market e) (qe_symbol e) = Some t" "same_feed s t"
    using refused_all [OF st] by blast
  then show ?thesis using same_feed_fields [of s t] s r 3(14) by simp
qed (use assms(2) in simp_all)

theorem recovery_of_other_source_not_resumed_witness:
  "\<exists>t. stream_of (ingest_all [sample_quote ''KIWOOM_WS'' ''d'' 104 False 70100]
        (snd (ingest_quote (sample_quote ''KIWOOM_REST_KA10001'' ''c'' 103 True 70200) watch_gap))) ''KRX'' ''005930'' = Some t \<and>
     ms_last_event_at t = Some (seconds 103)"
proof -
  define e where "e = sample_quote ''KIWOOM_REST_KA10001'' ''c'' 103 True 70200"
  define f where "f = sample_quote ''KIWOOM_WS'' ''d'' 104 False 70100"
  have "outcome_is ''RECOVERED'' (fst (ingest_quote e watch_gap))" unfolding e_def by code_simp
  then obtain r where "ingest_quote e watch_gap = (Inr r, snd (ingest_quote e watch_gap))" "ir_outcome r = ''RECOVERED''"
    by (rule outcome_isE)
  moreover have "qe_market e = ''KRX''" "qe_symbol e = ''005930''" "utc (qe_event_at e) = seconds 103"
    "\<not> qe_recovery_snapshot f" "qe_source f \<noteq> qe_source e"
    by (simp_all add: e_def f_def sample_quote_def utc_def)
  ultimately show ?thesis
    using recovery_of_other_source_not_resumed [of e watch_gap r "snd (ingest_quote e watch_gap)" "[f]"]
    by (auto simp: e_def [symmetric] f_def [symmetric] simp del: ingest_all.simps)
qed



text \<open>The realized volatility computed with integer square roots is one hundred times the real square root of
  the variance, rounded to the nearest millionth.\<close>

theorem volatility_rounds_square_root:
  assumes "0 \<le> v"
  shows "\<bar>of_rat (volatility_pct v) - 100 * sqrt (of_rat v)\<bar> \<le> 1 / 2 / 10 ^ 6"
proof -
  let ?n = "of_int (round_sqrt (v * 10 ^ 16)) :: real"
  have "\<bar>?n - sqrt (of_rat (v * 10 ^ 16))\<bar> \<le> 1 / 2"
    using assms by (intro round_sqrt_nearest) simp
  moreover have "sqrt (of_rat (v * 10 ^ 16)) = sqrt (of_rat v) * 10 ^ 8"
  proof -
    have "of_rat (v * 10 ^ 16) = of_rat v * ((10 ^ 8)\<^sup>2 :: real)" by (simp add: of_rat_mult)
    then show ?thesis by (simp only: real_sqrt_mult real_sqrt_abs) simp
  qed
  moreover have "of_rat (volatility_pct v) = ?n / 10 ^ 6"
    by (simp add: volatility_pct_def of_rat_divide)
  ultimately show ?thesis by (auto simp: abs_if field_simps split: if_splits)
qed

theorem volatility_rounds_square_root_witness:
  "\<bar>of_rat (volatility_pct (1 / 10000)) - 100 * sqrt (of_rat (1 / 10000))\<bar> \<le> 1 / 2 / 10 ^ 6"
  by (rule volatility_rounds_square_root) simp

end
