(* ===== verification/Watchlist.thy ===== *)
theory Watchlist
  imports Decision_Guards "HOL-Library.Char_ord" "HOL-Library.List_Lexorder"
begin

text \<open>
  \<open>app/watchlist.py\<close>: the symbols a user watches. Rows are appended in the order of their creation, which
  is the order \<open>list_items\<close> asks for. \<open>env\<close> is what other transactions commit between the checks and the
  flush; the row lock on the user keeps them off this user's items.
\<close>

section \<open>Operations\<close>

datatype watchlist_error = WatchlistError string nat | WatchlistIntegrityError

record watchlist_call =
  wc_user :: uuid
  wc_correlation_id :: string
  wc_request_ip :: string
  wc_user_agent :: string

definition max_watchlist_items :: nat where
  "max_watchlist_items = 3"

definition list_items :: "db \<Rightarrow> uuid \<Rightarrow> watchlist_item list" where
  "list_items d user = filter (\<lambda>w. w_user_id w = user) (watchlist_items d)"

definition active_kiwoom_symbols :: "db \<Rightarrow> string list" where
  "active_kiwoom_symbols d =
     sort (remdups (map w_symbol (filter (\<lambda>w. w_market w = ''KRX'') (watchlist_items d))))"

definition watch_audit :: "string \<Rightarrow> watchlist_call \<Rightarrow> uuid \<Rightarrow> string \<Rightarrow> string \<Rightarrow> audit_log" where
  "watch_audit action rq target market sb =
     \<lparr>al_actor_type = ''USER'', al_actor_id = Some (uuid_text (wc_user rq)), al_action = action,
      al_target = Some target, al_result = ''SUCCESS'', al_request_ip = Some (wc_request_ip rq),
      al_user_agent = Some (wc_user_agent rq), al_correlation_id = wc_correlation_id rq,
      al_metadata_json = JObj [(''market'', JStr market), (''symbol'', JStr sb)]\<rparr>"

definition watch_key :: "watchlist_item \<Rightarrow> uuid \<times> string \<times> string" where
  "watch_key w = (w_user_id w, w_market w, w_symbol w)"

text \<open>The flush sends the row to the database: a row with the same user, market and symbol raises there,
  before the commit whose integrity error the code translates.\<close>

definition insert_item :: "watchlist_call \<Rightarrow> string \<Rightarrow> string \<Rightarrow> db \<Rightarrow> (watchlist_error + watchlist_item) \<times> db" where
  "insert_item rq sb market d =
     (if (wc_user rq, market, sb) \<in> watch_key ` set (watchlist_items d) then (Inl WatchlistIntegrityError, d)
      else let (i, d1) = uuid7_draw d;
               item = \<lparr>w_id = i, w_user_id = wc_user rq, w_market = market, w_symbol = sb\<rparr>
           in (Inr item, d1\<lparr>watchlist_items := watchlist_items d1 @ [item],
                 audit_logs := audit_logs d1 @ [watch_audit ''WATCHLIST_ITEM_CREATED'' rq i market sb]\<rparr>))"

definition create_item ::
  "(db \<Rightarrow> db) \<Rightarrow> watchlist_call \<Rightarrow> string \<Rightarrow> string \<Rightarrow> db \<Rightarrow> (watchlist_error + watchlist_item) \<times> db" where
  "create_item env rq sb market d =
     (if market \<noteq> ''KRX'' then (Inl (WatchlistError ''WATCHLIST_MARKET_UNSUPPORTED_IN_MOCK'' 422), d)
      else if length sb \<noteq> 6 \<or> \<not> str_isdigit sb then (Inl (WatchlistError ''WATCHLIST_SYMBOL_INVALID'' 422), d)
      else if watched d (wc_user rq) market sb then (Inl (WatchlistError ''WATCHLIST_ITEM_EXISTS'' 409), d)
      else if max_watchlist_items \<le> length (list_items d (wc_user rq))
      then (Inl (WatchlistError ''WATCHLIST_LIMIT_REACHED'' 422), d)
      else insert_item rq sb market (env d))"

definition delete_item :: "watchlist_call \<Rightarrow> uuid \<Rightarrow> db \<Rightarrow> (watchlist_error + unit) \<times> db" where
  "delete_item rq i d =
     (case find (\<lambda>w. w_id w = i \<and> w_user_id w = wc_user rq) (watchlist_items d) of
        None \<Rightarrow> (Inl (WatchlistError ''WATCHLIST_ITEM_NOT_FOUND'' 404), d)
      | Some item \<Rightarrow>
          (Inr (), d\<lparr>watchlist_items := filter (\<lambda>w. w_id w \<noteq> i) (watchlist_items d),
             audit_logs := audit_logs d @
               [watch_audit ''WATCHLIST_ITEM_DELETED'' rq i (w_market item) (w_symbol item)]\<rparr>))"

section \<open>Invariant\<close>

interpretation watchlist_tbl: db_table watchlist_items watchlist_items_update watch_key
  by unfold_locales simp

text \<open>An operation of a user, with what other transactions do meanwhile to the other users' items.\<close>

datatype watchlist_op = WCreate watchlist_call string string | WDelete watchlist_call uuid

fun watchlist_step :: "watchlist_op \<Rightarrow> db \<Rightarrow> db" where
  "watchlist_step (WCreate rq sb market) d = snd (create_item id rq sb market d)"
| "watchlist_step (WDelete rq i) d = snd (delete_item rq i d)"

definition item_ok :: "db \<Rightarrow> watchlist_item \<Rightarrow> bool" where
  "item_ok d w = (w_id w < uuid_seed d \<and> w_market w = ''KRX'' \<and> length (w_symbol w) = 6 \<and> str_isdigit (w_symbol w) \<and>
     length (list_items d (w_user_id w)) \<le> max_watchlist_items)"

definition watchlist_ok :: "db \<Rightarrow> bool" where
  "watchlist_ok d =
     (list_all (item_ok d) (watchlist_items d) \<and> distinct (map watch_key (watchlist_items d)) \<and>
      distinct (map w_id (watchlist_items d)))"

lemma watched_iff: "watched d user market sb \<longleftrightarrow> (user, market, sb) \<in> watch_key ` set (watchlist_items d)"
  by (auto simp: watched_def list_ex_iff watch_key_def)

lemma create_itemE:
  assumes "create_item env rq sb market d = (r, d')"
  obtains (refused) err where "r = Inl err" "d' = d \<or> d' = env d"
  | (created) item where "r = Inr item" "market = ''KRX''" "length sb = 6" "str_isdigit sb"
      "\<not> watched d (wc_user rq) market sb" "length (list_items d (wc_user rq)) < max_watchlist_items"
      "\<not> watched (env d) (wc_user rq) market sb"
      "item = \<lparr>w_id = uuid_seed (env d), w_user_id = wc_user rq, w_market = market, w_symbol = sb\<rparr>"
      "watchlist_items d' = watchlist_items (env d) @ [item]" "uuid_seed d' = uuid_seed (env d) + 1"
  using assms
  by (cases "(wc_user rq, market, sb) \<in> watch_key ` set (watchlist_items (env d))")
    (auto simp: create_item_def insert_item_def uuid7_draw_def Let_def watched_iff not_le split: if_splits)

lemma delete_itemE:
  assumes "delete_item rq i d = (r, d')"
  obtains (refused) err where "r = Inl err" "d' = d"
  | (deleted) "r = Inr ()" "watchlist_items d' = filter (\<lambda>w. w_id w \<noteq> i) (watchlist_items d)"
      "uuid_seed d' = uuid_seed d"
  using assms by (auto simp: delete_item_def split: option.splits)

lemma create_item_ok:
  assumes "watchlist_ok d" "create_item id rq sb market d = (r, d')"
  shows "watchlist_ok d'"
  using assms(2)
proof (cases rule: create_itemE)
  case (refused err)
  then show ?thesis using assms(1) by simp
next
  case (created item)
  have old: "list_items d' u = list_items d u @ (if u = wc_user rq then [item] else [])" for u
    by (simp add: list_items_def created(8,9))
  have "\<forall>w \<in> set (watchlist_items d). item_ok d' w"
    using assms(1) created(6,10) by (auto simp: watchlist_ok_def list_all_iff item_ok_def old)
  moreover have "item_ok d' item"
    using created by (simp add: item_ok_def old)
  moreover have "uuid_seed d \<notin> w_id ` set (watchlist_items d)"
    using assms(1) by (auto simp: watchlist_ok_def list_all_iff item_ok_def)
  moreover have "watch_key item = (wc_user rq, market, sb)" by (simp add: created(8) watch_key_def)
  ultimately show ?thesis
    using assms(1) created(5,9) by (simp add: watchlist_ok_def list_all_iff created(8) watched_iff)
qed

lemma delete_item_ok:
  assumes "watchlist_ok d" "delete_item rq i d = (r, d')"
  shows "watchlist_ok d'"
  using assms(2)
proof (cases rule: delete_itemE)
  case deleted
  have "list_items d' u = filter (\<lambda>w. w_id w \<noteq> i) (list_items d u)" for u
    by (simp add: list_items_def deleted(2) conj_commute)
  then have len: "length (list_items d' u) \<le> length (list_items d u)" for u
    by (simp add: length_filter_le)
  have "item_ok d' w" if "item_ok d w" for w
    using that order_trans [OF len, of "w_user_id w"] by (simp add: item_ok_def deleted(3))
  then show ?thesis
    using assms(1) by (simp add: watchlist_ok_def list_all_iff deleted(2) distinct_map_filter)
qed (use assms(1) in simp)

lemma watchlist_step_ok: "watchlist_ok d \<Longrightarrow> watchlist_ok (watchlist_step op d)"
  by (cases op) (auto intro: create_item_ok [OF _ surjective_pairing] delete_item_ok [OF _ surjective_pairing])

section \<open>Properties\<close>

text \<open>Whatever users create and delete, every user watches at most three items, no symbol twice, all of
  them six-digit KRX symbols, and the subscription list of the broker worker is the sorted list without
  repetitions of exactly the watched symbols.\<close>

theorem watchlist_limited:
  "watchlist_ok (fold watchlist_step ops empty_db) \<and>
   length (list_items (fold watchlist_step ops empty_db) user) \<le> 3 \<and>
   sorted (active_kiwoom_symbols (fold watchlist_step ops empty_db)) \<and>
   distinct (active_kiwoom_symbols (fold watchlist_step ops empty_db)) \<and>
   set (active_kiwoom_symbols (fold watchlist_step ops empty_db)) =
     w_symbol ` set (watchlist_items (fold watchlist_step ops empty_db))"
proof -
  define d where "d = fold watchlist_step ops empty_db"
  have "watchlist_ok empty_db" by (simp add: watchlist_ok_def empty_db_def)
  then have ok: "watchlist_ok d"
    unfolding d_def by (induction ops rule: rev_induct) (simp_all add: watchlist_step_ok)
  have "length (list_items d user) \<le> 3"
  proof (cases "list_items d user")
    case (Cons w ws)
    then have "w \<in> set (list_items d user)" by simp
    with ok have "item_ok d w" "w_user_id w = user" by (auto simp: list_items_def watchlist_ok_def list_all_iff)
    then show ?thesis by (simp add: item_ok_def max_watchlist_items_def)
  qed simp
  with ok show ?thesis
    unfolding d_def [symmetric]
    by (auto simp: active_kiwoom_symbols_def watchlist_ok_def list_all_iff item_ok_def)
qed

text \<open>A created item is watched by its user and is the last of the user's list, and deleting it gives back
  the items there were; another user can not delete it.\<close>

theorem watchlist_round_trip:
  assumes "watchlist_ok d" "create_item id rq sb market d = (Inr item, d')"
  shows "watched d' (wc_user rq) market sb \<and> list_items d' (wc_user rq) = list_items d (wc_user rq) @ [item] \<and>
    fst (delete_item rq (w_id item) d') = Inr () \<and>
    watchlist_items (snd (delete_item rq (w_id item) d')) = watchlist_items d \<and>
    (wc_user other \<noteq> wc_user rq \<longrightarrow>
       delete_item other (w_id item) d' = (Inl (WatchlistError ''WATCHLIST_ITEM_NOT_FOUND'' 404), d'))"
  using assms(2)
proof (cases rule: create_itemE)
  case (created it)
  have fresh: "w_id w \<noteq> uuid_seed d" if "w \<in> set (watchlist_items d)" for w
    using assms(1) that by (auto simp: watchlist_ok_def list_all_iff item_ok_def)
  then have "filter (\<lambda>w. w_id w \<noteq> uuid_seed d) (watchlist_items d) = watchlist_items d"
    by (simp add: filter_id_conv)
  moreover have "find (\<lambda>w. w_id w = uuid_seed d \<and> w_user_id w = u) (watchlist_items d) = None" for u
    using fresh by (auto simp: find_None_iff)
  ultimately show ?thesis
    using created by (auto simp: delete_item_def find_append list_items_def watched_iff watch_key_def)
qed simp

definition sample_watch_call :: watchlist_call where
  "sample_watch_call = \<lparr>wc_user = 7, wc_correlation_id = ''c'', wc_request_ip = ''ip'', wc_user_agent = ''ua''\<rparr>"

theorem watchlist_round_trip_witness:
  "watchlist_items (snd (delete_item sample_watch_call 1
     (snd (create_item id sample_watch_call ''005930'' ''KRX'' empty_db)))) = []"
proof -
  define r where "r = create_item id sample_watch_call ''005930'' ''KRX'' empty_db"
  define item where "item = \<lparr>w_id = 1, w_user_id = 7, w_market = ''KRX'', w_symbol = ''005930''\<rparr>"
  have "fst r = Inr item" unfolding r_def item_def by code_simp
  then have "create_item id sample_watch_call ''005930'' ''KRX'' empty_db = (Inr item, snd r)"
    by (simp add: r_def prod_eq_iff)
  moreover have "watchlist_ok empty_db" by (simp add: watchlist_ok_def empty_db_def)
  ultimately show ?thesis
    using watchlist_round_trip [of empty_db sample_watch_call "''005930''" "''KRX''" item "snd r" sample_watch_call]
    by (simp add: r_def item_def empty_db_def)
qed

end
