(* ===== verification/Kiwoom_Wire.thy ===== *)
theory Kiwoom_Wire
  imports Account_Projection Order_Sender Quote_Ingest
begin

text \<open>
  The parsing half of \<open>app/broker/kiwoom.py\<close>: JSON values of the broker and their Python text, numbers,
  identifiers, the normalisation of orders, fills, positions and quotes, the request bodies and the acknowledgements.
  Text is the list of its UTF-8 bytes. A Decimal is finite, infinite or not a number; an infinite value
  the code would carry on with has no counterpart in the rows and is the error \<open>InfiniteDecimal\<close>.
  JSON floats, and the Python text of lists and objects, are given by what the code can observe of them.
\<close>

section \<open>JSON values\<close>

datatype wire =
    WNull
  | WBool bool
  | WInt int
  | WStr string
  | WFloat bool string "int option"   \<comment> \<open>truth value, text, \<open>int()\<close> of it\<close>
  | WList "wire list" string
  | WDict "(string \<times> wire) list" string

type_synonym payload = "(string \<times> wire) list"

datatype adapter_error =
    KiwoomAdapterError string bool   \<comment> \<open>code, retryable\<close>
  | KiwoomOrderRejectedError "string option" "string option"
  | KiwoomOrderOutcomeUnknownError
  | DecimalInvalidOperation   \<comment> \<open>an ordered comparison with not-a-number\<close>
  | InfiniteDecimal
  | PyTypeError

definition invalid_response :: adapter_error where
  "invalid_response = KiwoomAdapterError ''KIWOOM_INVALID_RESPONSE'' False"

definition int_text :: "int \<Rightarrow> string" where
  "int_text n = (if n < 0 then ''-'' @ uuid_text (nat (- n)) else uuid_text (nat n))"

primrec py_str :: "wire \<Rightarrow> string" where
  "py_str WNull = ''None''"
| "py_str (WBool b) = (if b then ''True'' else ''False'')"
| "py_str (WInt n) = int_text n"
| "py_str (WStr s) = s"
| "py_str (WFloat _ s _) = s"
| "py_str (WList _ s) = s"
| "py_str (WDict _ s) = s"

primrec py_truthy :: "wire \<Rightarrow> bool" where
  "py_truthy WNull = False"
| "py_truthy (WBool b) = b"
| "py_truthy (WInt n) = (n \<noteq> 0)"
| "py_truthy (WStr s) = (s \<noteq> [])"
| "py_truthy (WFloat t _ _) = t"
| "py_truthy (WList xs _) = (xs \<noteq> [])"
| "py_truthy (WDict kvs _) = (kvs \<noteq> [])"

definition py_get :: "string \<Rightarrow> payload \<Rightarrow> wire" where
  "py_get k p = (case map_of p k of None \<Rightarrow> WNull | Some v \<Rightarrow> v)"

definition py_get_or :: "wire \<Rightarrow> string \<Rightarrow> payload \<Rightarrow> wire" where
  "py_get_or dflt k p = (case map_of p k of None \<Rightarrow> dflt | Some v \<Rightarrow> v)"

text \<open>\<open>str(value or "").strip()\<close>\<close>

definition text_or_empty :: "wire \<Rightarrow> string" where
  "text_or_empty v = (if py_truthy v then str_strip (py_str v) else [])"

definition numeric_text :: "wire \<Rightarrow> string" where
  "numeric_text v = filter (\<lambda>c. c \<noteq> CHR '','') (str_strip (py_str v))"

section \<open>Numbers\<close>

definition digit_val :: "char \<Rightarrow> int" where
  "digit_val c = of_char c - 48"

definition digits_val :: "string \<Rightarrow> int" where
  "digits_val s = foldl (\<lambda>a c. a * 10 + digit_val c) 0 s"

text \<open>\<open>int(text)\<close>: a sign and digits with single underscores between them.\<close>

fun parse_digits :: "bool \<Rightarrow> int \<Rightarrow> string \<Rightarrow> int option" where
  "parse_digits seen acc [] = (if seen then Some acc else None)"
| "parse_digits seen acc (c # cs) =
     (if is_digit c then parse_digits True (acc * 10 + digit_val c) cs
      else if c = CHR ''_'' \<and> seen \<and> cs \<noteq> [] \<and> is_digit (hd cs) then parse_digits True acc cs
      else None)"

definition split_sign :: "string \<Rightarrow> bool \<times> string" where
  "split_sign s = (case s of [] \<Rightarrow> (False, [])
     | c # cs \<Rightarrow> if c = CHR ''-'' then (True, cs) else if c = CHR ''+'' then (False, cs) else (False, s))"

definition parse_int :: "string \<Rightarrow> int option" where
  "parse_int s =
     (let (neg, t) = split_sign (str_strip s)
      in map_option (\<lambda>n. if neg then - n else n) (parse_digits False 0 t))"

datatype pydec = Finite decimal | Infinite bool | NotANumber

definition scale10 :: "int \<Rightarrow> int \<Rightarrow> decimal" where
  "scale10 n e = (if 0 \<le> e then of_int n * 10 ^ nat e else of_int n / 10 ^ nat (- e))"

definition parse_exponent :: "string \<Rightarrow> int option" where
  "parse_exponent s =
     (case s of [] \<Rightarrow> Some 0
      | c # cs \<Rightarrow>
          if c \<in> {CHR ''e'', CHR ''E''}
          then (let (neg, t) = split_sign cs
                in if str_isdigit t then Some (if neg then - digits_val t else digits_val t) else None)
          else None)"

definition parse_number :: "string \<Rightarrow> decimal option" where
  "parse_number s =
     (let ip = takeWhile is_digit s; r = dropWhile is_digit s;
          dot = (r \<noteq> [] \<and> hd r = CHR ''.'');
          fp = (if dot then takeWhile is_digit (tl r) else []);
          rest = (if dot then dropWhile is_digit (tl r) else r)
      in if ip = [] \<and> fp = [] then None
         else map_option (\<lambda>e. scale10 (digits_val (ip @ fp)) (e - int (length fp))) (parse_exponent rest))"

definition is_nan_text :: "string \<Rightarrow> bool" where
  "is_nan_text u =
     (let v = (if u \<noteq> [] \<and> hd u = CHR ''S'' then tl u else u)
      in take 3 v = ''NAN'' \<and> list_all is_digit (drop 3 v))"

text \<open>\<open>Decimal(text)\<close>: underscores anywhere are ignored, letters have no case.\<close>

definition parse_decimal :: "string \<Rightarrow> pydec option" where
  "parse_decimal s =
     (let (neg, t) = split_sign (filter (\<lambda>c. c \<noteq> CHR ''_'') (str_strip s)); u = str_upper t
      in if u = ''INF'' \<or> u = ''INFINITY'' then Some (Infinite neg)
         else if is_nan_text u then Some NotANumber
         else map_option (\<lambda>x. Finite (if neg then - x else x)) (parse_number t))"

definition finite_decimal :: "pydec \<Rightarrow> adapter_error + decimal" where
  "finite_decimal x = (case x of Finite v \<Rightarrow> Inr v | Infinite _ \<Rightarrow> Inl InfiniteDecimal
     | NotANumber \<Rightarrow> Inl DecimalInvalidOperation)"

definition absolute_decimal :: "wire \<Rightarrow> adapter_error + decimal" where
  "absolute_decimal v =
     (case parse_decimal (numeric_text v) of
        None \<Rightarrow> Inl invalid_response
      | Some (Finite x) \<Rightarrow> if \<bar>x\<bar> \<le> 0 then Inl invalid_response else Inr \<bar>x\<bar>
      | Some x \<Rightarrow> finite_decimal x)"

definition non_negative_int :: "wire \<Rightarrow> adapter_error + int" where
  "non_negative_int v =
     (case parse_int (numeric_text v) of
        None \<Rightarrow> Inl invalid_response
      | Some n \<Rightarrow> if n < 0 then Inl invalid_response else Inr n)"

definition positive_int :: "wire \<Rightarrow> adapter_error + int" where
  "positive_int v =
     (case non_negative_int v of Inl e \<Rightarrow> Inl e | Inr n \<Rightarrow> if n = 0 then Inl invalid_response else Inr n)"

definition non_negative_decimal :: "wire \<Rightarrow> adapter_error + decimal" where
  "non_negative_decimal v =
     (case parse_decimal (numeric_text v) of
        None \<Rightarrow> Inl invalid_response
      | Some (Finite x) \<Rightarrow> if x < 0 then Inl invalid_response else Inr x
      | Some (Infinite neg) \<Rightarrow> Inl (if neg then invalid_response else InfiniteDecimal)
      | Some NotANumber \<Rightarrow> Inl DecimalInvalidOperation)"

definition positive_decimal :: "wire \<Rightarrow> adapter_error + decimal" where
  "positive_decimal v =
     (case non_negative_decimal v of Inl e \<Rightarrow> Inl e | Inr x \<Rightarrow> if x = 0 then Inl invalid_response else Inr x)"

section \<open>Identifiers\<close>

definition broker_order_id_of :: "wire \<Rightarrow> adapter_error + string" where
  "broker_order_id_of v =
     (let s = text_or_empty v
      in if \<not> str_isdigit s \<or> \<not> (1 \<le> length s \<and> length s \<le> 10) then Inl invalid_response else Inr s)"

definition domestic_symbol :: "bool \<Rightarrow> wire \<Rightarrow> adapter_error + string" where
  "domestic_symbol allow_stock_prefix v =
     (let s = text_or_empty v;
          t = (if allow_stock_prefix \<and> length s = 7 \<and> hd s = CHR ''A'' then tl s else s)
      in if length t \<noteq> 6 \<or> \<not> str_isdigit t then Inl invalid_response else Inr t)"

text \<open>The Korean words for sell and buy.\<close>

definition word_sell :: string where
  "word_sell = [CHR 0xEB, CHR 0xA7, CHR 0xA4, CHR 0xEB, CHR 0x8F, CHR 0x84]"

definition word_buy :: string where
  "word_buy = [CHR 0xEB, CHR 0xA7, CHR 0xA4, CHR 0xEC, CHR 0x88, CHR 0x98]"

fun contains :: "string \<Rightarrow> string \<Rightarrow> bool" where
  "contains p [] = (p = [])"
| "contains p (c # cs) = (take (length p) (c # cs) = p \<or> contains p cs)"

definition order_side :: "payload \<Rightarrow> adapter_error + string" where
  "order_side p =
     (let code = str_strip (py_str (py_get_or (WStr []) ''trde_tp'' p));
          name = str_strip (py_str (py_get_or (WStr []) ''io_tp_nm'' p));
          combined = code @ '' '' @ name
      in if code = ''1'' \<or> contains word_sell combined then Inr ''SELL''
         else if code = ''2'' \<or> contains word_buy combined then Inr ''BUY''
         else Inl (KiwoomAdapterError ''KIWOOM_UNSUPPORTED_RESPONSE'' False))"

definition hhmmss :: "wire \<Rightarrow> adapter_error + string" where
  "hhmmss v =
     (let s = text_or_empty v
      in if length s \<noteq> 6 \<or> \<not> str_isdigit s then Inl invalid_response
         else if 23 < digits_val (take 2 s) \<or> 59 < digits_val (take 2 (drop 2 s)) \<or> 59 < digits_val (drop 4 s)
         then Inl invalid_response else Inr s)"

section \<open>Normalisation of account rows\<close>

definition bind_sum :: "'e + 'x \<Rightarrow> ('x \<Rightarrow> 'e + 'y) \<Rightarrow> 'e + 'y" where
  "bind_sum r f = (case r of Inl e \<Rightarrow> Inl e | Inr x \<Rightarrow> f x)"

definition normalize_open_order :: "payload \<Rightarrow> adapter_error + broker_open_order" where
  "normalize_open_order p =
     bind_sum (positive_int (py_get ''ord_qty'' p)) (\<lambda>requested.
     bind_sum (positive_int (py_get ''oso_qty'' p)) (\<lambda>remaining.
     if requested < remaining then Inl invalid_response
     else bind_sum (non_negative_decimal (py_get ''ord_pric'' p)) (\<lambda>raw_price.
     bind_sum (broker_order_id_of (py_get ''ord_no'' p)) (\<lambda>i.
     bind_sum (domestic_symbol False (py_get ''stk_cd'' p)) (\<lambda>sb.
     bind_sum (order_side p) (\<lambda>side.
     bind_sum (hhmmss (py_get ''tm'' p)) (\<lambda>tm.
       Inr \<lparr>bo_broker_order_id = i, bo_symbol = sb, bo_side = side, bo_requested_quantity = requested,
            bo_filled_quantity = requested - remaining, bo_remaining_quantity = remaining,
            bo_limit_price = (if 0 < raw_price then Some raw_price else None), bo_order_time = tm,
            bo_market = ''KRX''\<rparr>)))))))"

definition normalize_fill :: "payload \<Rightarrow> adapter_error + broker_fill_summary" where
  "normalize_fill p =
     bind_sum (broker_order_id_of (py_get ''ord_no'' p)) (\<lambda>i.
     bind_sum (domestic_symbol False (py_get ''stk_cd'' p)) (\<lambda>sb.
     bind_sum (order_side p) (\<lambda>side.
     bind_sum (positive_int (py_get ''cntr_qty'' p)) (\<lambda>qty.
     bind_sum (positive_decimal (py_get ''cntr_pric'' p)) (\<lambda>price.
     bind_sum (non_negative_decimal (py_get_or (WInt 0) ''tdy_trde_cmsn'' p)) (\<lambda>fee.
     bind_sum (non_negative_decimal (py_get_or (WInt 0) ''tdy_trde_tax'' p)) (\<lambda>tax.
     bind_sum (hhmmss (py_get ''ord_tm'' p)) (\<lambda>tm.
       Inr \<lparr>bf_broker_order_id = i, bf_symbol = sb, bf_side = side, bf_quantity = qty, bf_price = price,
            bf_fee = fee, bf_tax = tax, bf_order_time = tm, bf_market = ''KRX''\<rparr>))))))))"

definition normalize_position :: "payload \<Rightarrow> adapter_error + broker_position option" where
  "normalize_position p =
     bind_sum (non_negative_int (py_get ''rmnd_qty'' p)) (\<lambda>qty.
     bind_sum (non_negative_int (py_get ''trde_able_qty'' p)) (\<lambda>available.
     if qty < available then Inl invalid_response
     else if qty = 0 then Inr None
     else bind_sum (domestic_symbol True (py_get ''stk_cd'' p)) (\<lambda>sb.
     bind_sum (positive_decimal (py_get ''pur_pric'' p)) (\<lambda>price.
       Inr (Some \<lparr>bp_symbol = sb, bp_quantity = qty, bp_available_quantity = available,
            bp_average_price = price, bp_market = ''KRX''\<rparr>)))))"

fun dict_items :: "wire list \<Rightarrow> payload list option" where
  "dict_items [] = Some []"
| "dict_items (WDict kvs _ # ws) = map_option (\<lambda>ps. kvs # ps) (dict_items ws)"
| "dict_items (_ # ws) = None"

fun page_items :: "string \<Rightarrow> payload list \<Rightarrow> adapter_error + payload list" where
  "page_items field [] = Inr []"
| "page_items field (page # pages) =
     (case py_get_or (WList [] []) field page of
        WNull \<Rightarrow> page_items field pages
      | WList ws _ \<Rightarrow>
          (case dict_items ws of
             None \<Rightarrow> Inl invalid_response
           | Some ps \<Rightarrow> bind_sum (page_items field pages) (\<lambda>qs. Inr (ps @ qs)))
      | _ \<Rightarrow> Inl invalid_response)"

text \<open>The items are normalised in order; the first error is raised.\<close>

fun normalize_all :: "(payload \<Rightarrow> adapter_error + 'x) \<Rightarrow> payload list \<Rightarrow> adapter_error + 'x list" where
  "normalize_all f [] = Inr []"
| "normalize_all f (p # ps) = bind_sum (f p) (\<lambda>x. bind_sum (normalize_all f ps) (\<lambda>xs. Inr (x # xs)))"

definition snapshot_of_pages ::
  "payload list \<Rightarrow> payload list \<Rightarrow> payload list \<Rightarrow> instant \<Rightarrow> adapter_error + account_snapshot" where
  "snapshot_of_pages open_pages fill_pages position_pages now =
     bind_sum (bind_sum (page_items ''oso'' open_pages) (normalize_all normalize_open_order)) (\<lambda>os.
     bind_sum (bind_sum (page_items ''cntr'' fill_pages) (normalize_all normalize_fill)) (\<lambda>fs.
     bind_sum (bind_sum (page_items ''acnt_evlt_remn_indv_tot'' position_pages) (normalize_all normalize_position)) (\<lambda>ps.
     let positions = List.map_filter id ps
     in if \<not> distinct (map bo_broker_order_id os) \<or> \<not> distinct (map bp_symbol positions) then Inl invalid_response
        else Inr \<lparr>as_open_orders = os, as_fills = fs, as_positions = positions, as_observed_at = now\<rparr>)))"

section \<open>Requests\<close>

definition validate_market_symbol :: "string \<Rightarrow> string \<Rightarrow> adapter_error option" where
  "validate_market_symbol market sb =
     (if market \<noteq> ''KRX'' then Some (KiwoomAdapterError ''UNSUPPORTED_IN_MOCK'' False)
      else if \<not> str_isdigit sb \<or> length sb \<noteq> 6 then Some (KiwoomAdapterError ''KIWOOM_INVALID_SYMBOL'' False)
      else None)"

definition valid_broker_order_id :: "string \<Rightarrow> bool" where
  "valid_broker_order_id s = (str_isdigit s \<and> length s = 7)"

definition invalid_price :: adapter_error where
  "invalid_price = KiwoomAdapterError ''KIWOOM_INVALID_ORDER_PRICE'' False"

text \<open>\<open>format(value, "f")\<close> prints the decimals a Decimal carries: \<open>scale\<close> is their number, four for a value
  read from a price column.\<close>

definition positive_integer_price :: "nat \<Rightarrow> decimal \<Rightarrow> adapter_error + string" where
  "positive_integer_price scale v =
     (if v \<le> 0 \<or> v \<noteq> of_int \<lfloor>v\<rfloor> then Inl invalid_price
      else Inr (int_text \<lfloor>v\<rfloor> @ (if scale = 0 then [] else CHR ''.'' # replicate scale (CHR ''0''))))"

definition price_and_type :: "nat \<Rightarrow> kiwoom_order_request \<Rightarrow> adapter_error + string \<times> string" where
  "price_and_type scale rq =
     (if kr_order_type rq = ''LIMIT''
      then (case kr_limit_price rq of
              None \<Rightarrow> Inl invalid_price
            | Some v \<Rightarrow> bind_sum (positive_integer_price scale v) (\<lambda>price. Inr (price, ''0'')))
      else if kr_order_type rq = ''MARKET''
      then (if kr_limit_price rq \<noteq> None then Inl invalid_price else Inr ([], ''3''))
      else Inl (KiwoomAdapterError ''KIWOOM_INVALID_ORDER_TYPE'' False))"

definition new_order_body :: "nat \<Rightarrow> kiwoom_order_request \<Rightarrow> adapter_error + payload" where
  "new_order_body scale rq =
     (case validate_market_symbol (kr_market rq) (kr_symbol rq) of
        Some e \<Rightarrow> Inl e
      | None \<Rightarrow>
          if kr_side rq \<notin> {''BUY'', ''SELL''} then Inl (KiwoomAdapterError ''KIWOOM_INVALID_ORDER_SIDE'' False)
          else if kr_quantity rq \<le> 0 then Inl (KiwoomAdapterError ''KIWOOM_INVALID_ORDER_QUANTITY'' False)
          else bind_sum (price_and_type scale rq) (\<lambda>(price, trade_type).
            Inr [(''dmst_stex_tp'', WStr ''KRX''), (''stk_cd'', WStr (kr_symbol rq)),
                 (''ord_qty'', WStr (int_text (kr_quantity rq))), (''ord_uv'', WStr price),
                 (''trde_tp'', WStr trade_type), (''cond_uv'', WStr [])]))"

record kiwoom_replace_request =
  kp_original_order_id :: string
  kp_symbol :: string
  kp_quantity :: int
  kp_limit_price :: decimal
  kp_market :: string

definition child_request_error :: "string \<Rightarrow> string \<Rightarrow> string \<Rightarrow> int \<Rightarrow> adapter_error option" where
  "child_request_error market sb original qty =
     (case validate_market_symbol market sb of
        Some e \<Rightarrow> Some e
      | None \<Rightarrow>
          if \<not> valid_broker_order_id original then Some (KiwoomAdapterError ''KIWOOM_INVALID_ORDER_ID'' False)
          else if qty < 0 then Some (KiwoomAdapterError ''KIWOOM_INVALID_ORDER_QUANTITY'' False)
          else None)"

definition replace_body :: "nat \<Rightarrow> kiwoom_replace_request \<Rightarrow> adapter_error + payload" where
  "replace_body scale rq =
     (case child_request_error (kp_market rq) (kp_symbol rq) (kp_original_order_id rq) (kp_quantity rq) of
        Some e \<Rightarrow> Inl e
      | None \<Rightarrow> bind_sum (positive_integer_price scale (kp_limit_price rq)) (\<lambda>price.
          Inr [(''dmst_stex_tp'', WStr ''KRX''), (''orig_ord_no'', WStr (kp_original_order_id rq)),
               (''stk_cd'', WStr (kp_symbol rq)), (''mdfy_qty'', WStr (int_text (kp_quantity rq))),
               (''mdfy_uv'', WStr price), (''mdfy_cond_uv'', WStr [])]))"

definition cancel_body :: "kiwoom_cancel_request \<Rightarrow> adapter_error + payload" where
  "cancel_body rq =
     (case child_request_error (kc_market rq) (kc_symbol rq) (kc_original_order_id rq) (kc_quantity rq) of
        Some e \<Rightarrow> Inl e
      | None \<Rightarrow>
          Inr [(''dmst_stex_tp'', WStr ''KRX''), (''orig_ord_no'', WStr (kc_original_order_id rq)),
               (''stk_cd'', WStr (kc_symbol rq)), (''cncl_qty'', WStr (int_text (kc_quantity rq)))])"

section \<open>Acknowledgements\<close>

record order_acknowledgement =
  oa_broker_order_id :: string
  oa_market :: string
  oa_original_order_id :: "string option"
  oa_affected_quantity :: "int option"

definition normalize_order_ack :: "payload \<Rightarrow> adapter_error + order_acknowledgement" where
  "normalize_order_ack p =
     (case (py_get ''ord_no'' p, py_get ''dmst_stex_tp'' p) of
        (WStr i, WStr market) \<Rightarrow>
          if \<not> valid_broker_order_id i \<or> market \<noteq> ''KRX'' then Inl KiwoomOrderOutcomeUnknownError
          else Inr \<lparr>oa_broker_order_id = i, oa_market = market, oa_original_order_id = None, oa_affected_quantity = None\<rparr>
      | _ \<Rightarrow> Inl KiwoomOrderOutcomeUnknownError)"

text \<open>Membership of a list or an object in a set of strings raises a type error.\<close>

definition child_market_error :: "bool \<Rightarrow> wire \<Rightarrow> adapter_error option" where
  "child_market_error require_market market =
     (if require_market \<and> market \<noteq> WStr ''KRX'' then Some KiwoomOrderOutcomeUnknownError
      else case market of
        WList _ _ \<Rightarrow> Some PyTypeError
      | WDict _ _ \<Rightarrow> Some PyTypeError
      | _ \<Rightarrow> if market \<in> {WNull, WStr ''KRX''} then None else Some KiwoomOrderOutcomeUnknownError)"

definition normalize_child_order_ack ::
  "string \<Rightarrow> string \<Rightarrow> bool \<Rightarrow> payload \<Rightarrow> adapter_error + order_acknowledgement" where
  "normalize_child_order_ack original quantity_field require_market p =
     (case py_get ''ord_no'' p of
        WStr i \<Rightarrow>
          if \<not> valid_broker_order_id i then Inl KiwoomOrderOutcomeUnknownError
          else (case child_market_error require_market (py_get ''dmst_stex_tp'' p) of
                  Some e \<Rightarrow> Inl e
                | None \<Rightarrow>
                    if py_get ''base_orig_ord_no'' p \<noteq> WStr original then Inl KiwoomOrderOutcomeUnknownError
                    else (case non_negative_int (py_get quantity_field p) of
                            Inl _ \<Rightarrow> Inl KiwoomOrderOutcomeUnknownError
                          | Inr n \<Rightarrow> Inr \<lparr>oa_broker_order_id = i, oa_market = ''KRX'',
                              oa_original_order_id = Some original, oa_affected_quantity = Some n\<rparr>))
      | _ \<Rightarrow> Inl KiwoomOrderOutcomeUnknownError)"

section \<open>Quotes\<close>

text \<open>\<open>hx\<close> is the hexadecimal SHA-256 of a document.\<close>

definition normalize_basic_quote ::
  "(json \<Rightarrow> string) \<Rightarrow> payload \<Rightarrow> string \<Rightarrow> string \<Rightarrow> pydatetime \<Rightarrow> adapter_error + quote_event" where
  "normalize_basic_quote hx p sb status received =
     (if \<not> str_isdigit sb \<or> length sb \<noteq> 6 then Inl (KiwoomAdapterError ''KIWOOM_INVALID_SYMBOL'' False)
      else if str_strip (py_str (py_get_or (WStr sb) ''stk_cd'' p)) \<noteq> sb
      then Inl (KiwoomAdapterError ''KIWOOM_SYMBOL_MISMATCH'' False)
      else if status \<notin> set supported_trading_statuses then Inl (KiwoomAdapterError ''KIWOOM_INVALID_TRADING_STATUS'' False)
      else if tzinfo_missing received then Inl (KiwoomAdapterError ''KIWOOM_TIMEZONE_REQUIRED'' False)
      else
        bind_sum (absolute_decimal (py_get ''cur_prc'' p)) (\<lambda>lst.
        bind_sum (absolute_decimal (py_get ''open_pric'' p)) (\<lambda>opn.
        bind_sum (absolute_decimal (py_get ''high_pric'' p)) (\<lambda>hi.
        bind_sum (absolute_decimal (py_get ''low_pric'' p)) (\<lambda>lo.
        bind_sum (non_negative_int (py_get ''trde_qty'' p)) (\<lambda>vol.
          Inr \<lparr>qe_symbol = sb, qe_market = ''KRX'', qe_source = ''KIWOOM_REST_KA10001'',
               qe_sequence_or_hash = hx (JObj [(''cumulative_volume'', JInt vol), (''high_price'', JDec hi),
                 (''last_price'', JDec lst), (''low_price'', JDec lo), (''open_price'', JDec opn),
                 (''received_at'', JTime (utc received)), (''symbol'', JStr sb), (''trading_status'', JStr status)]),
               qe_event_at = Aware (utc received), qe_received_at = Aware (utc received),
               qe_last_price = lst, qe_open_price = opn, qe_high_price = hi, qe_low_price = lo,
               qe_cumulative_volume = vol, qe_trading_status = status, qe_source_sequence = None,
               qe_best_bid_price = None, qe_best_bid_quantity = None, qe_best_ask_price = None,
               qe_best_ask_quantity = None, qe_recovery_snapshot = True, qe_updates_trade = False\<rparr>))))))"

end
