(* ===== verification/Kiwoom_Client.thy ===== *)
theory Kiwoom_Client
  imports Kiwoom_Wire
begin

text \<open>
  The client half of \<open>app/broker/kiwoom.py\<close>: the access token, the paged account queries with their one
  authentication retry, the rate limiter, and the order requests, which are posted without any retry.
  The transport, the clocks and the text clean-up of rejection messages are the parameters of \<open>kiwoom_net\<close>; what the
  network answers depends on all requests posted so far, which the client state records.
\<close>

section \<open>Transport\<close>

record http_request =
  hq_path :: string
  hq_api_id :: "string option"
  hq_token :: "string option"
  hq_next_key :: "string option"
  hq_body :: payload

record http_reply =
  hr_status_code :: int
  hr_headers :: "(string \<times> string) list"
  hr_json :: "wire option"   \<comment> \<open>None: the body is not JSON\<close>

datatype http_result = HttpTimeout | HttpFailure | HttpReply http_reply

record access_token =
  at_value :: string
  at_expires_at :: instant

record kiwoom_client =
  kx_token :: "access_token option"
  kx_last_started :: "(string \<times> decimal) list"
  kx_log :: "http_request list"

record kiwoom_net =
  kn_post :: "http_request list \<Rightarrow> http_result"
  kn_clock :: "http_request list \<Rightarrow> instant"
  kn_monotonic :: "http_request list \<Rightarrow> bool \<Rightarrow> decimal"   \<comment> \<open>before and after a sleep\<close>
  kn_sanitize :: "wire \<Rightarrow> string option"
  kn_refresh_minutes :: int
  kn_app_key :: string
  kn_app_secret :: string
  kn_account :: string

definition token_path :: string where "token_path = ''/oauth2/token''"

definition order_path :: string where "order_path = ''/api/dostk/ordr''"

definition account_path :: string where "account_path = ''/api/dostk/acnt''"

definition max_continuation_pages :: nat where "max_continuation_pages = 20"

definition http_post ::
  "kiwoom_net \<Rightarrow> http_request \<Rightarrow> kiwoom_client \<Rightarrow> (adapter_error + http_reply) \<times> kiwoom_client" where
  "http_post net rq c =
     (let reqs = kx_log c @ [rq]
      in (case kn_post net reqs of
            HttpTimeout \<Rightarrow> Inl (KiwoomAdapterError ''KIWOOM_TIMEOUT'' True)
          | HttpFailure \<Rightarrow> Inl (KiwoomAdapterError ''KIWOOM_CONNECTION_ERROR'' True)
          | HttpReply r \<Rightarrow> Inr r, c\<lparr>kx_log := reqs\<rparr>))"

definition json_object :: "http_reply \<Rightarrow> adapter_error + payload" where
  "json_object r = (case hr_json r of Some (WDict kvs _) \<Rightarrow> Inr kvs | _ \<Rightarrow> Inl invalid_response)"

text \<open>\<open>int(code)\<close> of a return code that is present; anything but zero is an error of the API.\<close>

definition py_int :: "wire \<Rightarrow> int option" where
  "py_int v = (case v of WInt n \<Rightarrow> Some n | WBool b \<Rightarrow> Some (if b then 1 else 0) | WStr s \<Rightarrow> parse_int s
     | WFloat _ _ n \<Rightarrow> n | _ \<Rightarrow> None)"

definition require_success :: "payload \<Rightarrow> adapter_error option" where
  "require_success p =
     (let code = py_get ''return_code'' p
      in case (if code = WNull then Some 0 else py_int code) of
           None \<Rightarrow> Some invalid_response
         | Some n \<Rightarrow> if n \<noteq> 0 then Some (KiwoomAdapterError ''KIWOOM_API_ERROR'' False) else None)"

definition lower_char :: "char \<Rightarrow> char" where
  "lower_char ch = (let n = of_char ch :: nat in if 65 \<le> n \<and> n \<le> 90 then char_of (n + 32) else ch)"

definition response_header :: "http_reply \<Rightarrow> string \<Rightarrow> string" where
  "response_header r name =
     (case find (\<lambda>(k, v). map lower_char k = map lower_char name) (hr_headers r) of
        None \<Rightarrow> [] | Some (k, v) \<Rightarrow> v)"

section \<open>Access token\<close>

text \<open>One field of a \<open>strptime\<close> format: two digits in range first, then one digit.\<close>

definition time_field :: "int \<Rightarrow> int \<Rightarrow> string \<Rightarrow> (int \<times> string) list" where
  "time_field lo hi s =
     (if 2 \<le> length s \<and> str_isdigit (take 2 s) \<and> lo \<le> digits_val (take 2 s) \<and> digits_val (take 2 s) \<le> hi
      then [(digits_val (take 2 s), drop 2 s)] else []) @
     (if s \<noteq> [] \<and> is_digit (hd s) \<and> lo \<le> digit_val (hd s) then [(digit_val (hd s), tl s)] else [])"

definition day_field :: "string \<Rightarrow> (int \<times> string) list" where
  "day_field s =
     time_field 1 31 s @
     (if 2 \<le> length s \<and> hd s = CHR '' '' \<and> is_digit (s ! 1) \<and> 1 \<le> digit_val (s ! 1)
      then [(digit_val (s ! 1), drop 2 s)] else [])"

definition year_field :: "string \<Rightarrow> (int \<times> string) list" where
  "year_field s = (if 4 \<le> length s \<and> str_isdigit (take 4 s) then [(digits_val (take 4 s), drop 4 s)] else [])"

primrec field_matches :: "(string \<Rightarrow> (int \<times> string) list) list \<Rightarrow> string \<Rightarrow> (int list \<times> string) list" where
  "field_matches [] s = [([], s)]"
| "field_matches (f # fs) s =
     concat (map (\<lambda>(v, r). map (\<lambda>(vs, t). (v # vs, t)) (field_matches fs r)) (f s))"

text \<open>\<open>strptime(expires, "%Y%m%d%H%M%S")\<close> in Seoul, as an instant; the first match has to be the whole text.\<close>

definition parse_expiry :: "string \<Rightarrow> instant option" where
  "parse_expiry s =
     (case field_matches [year_field, time_field 1 12, day_field, time_field 0 23, time_field 0 59, time_field 0 61] s of
        ([y, m, dd, h, mi, sec], []) # _ \<Rightarrow>
          if 1 \<le> y \<and> civil_of (date_of y m dd) = (y, m, dd) \<and> sec \<le> 59
          then Some (seconds (date_of y m dd * 86400 + h * 3600 + mi * 60 + sec) - kst_offset)
          else None
      | _ \<Rightarrow> None)"

definition token_from_reply :: "http_reply \<Rightarrow> adapter_error + access_token" where
  "token_from_reply r =
     bind_sum (json_object r) (\<lambda>p.
       if 400 \<le> hr_status_code r then Inl (KiwoomAdapterError ''KIWOOM_AUTH_FAILED'' False)
       else case require_success p of
         Some e \<Rightarrow> Inl e
       | None \<Rightarrow>
           (case (py_get ''token'' p, py_get ''expires_dt'' p) of
              (WStr tok, WStr expires) \<Rightarrow>
                if tok = [] then Inl invalid_response
                else (case parse_expiry expires of
                        None \<Rightarrow> Inl invalid_response
                      | Some t \<Rightarrow> Inr \<lparr>at_value = tok, at_expires_at = t\<rparr>)
            | _ \<Rightarrow> Inl invalid_response))"

definition issue_token :: "kiwoom_net \<Rightarrow> kiwoom_client \<Rightarrow> (adapter_error + access_token) \<times> kiwoom_client" where
  "issue_token net c =
     (let (r, c') = http_post net \<lparr>hq_path = token_path, hq_api_id = None, hq_token = None, hq_next_key = None,
            hq_body = [(''grant_type'', WStr ''client_credentials''), (''appkey'', WStr (kn_app_key net)),
                       (''secretkey'', WStr (kn_app_secret net))]\<rparr> c
      in (bind_sum r token_from_reply, c'))"

definition token_usable :: "kiwoom_net \<Rightarrow> kiwoom_client \<Rightarrow> access_token \<Rightarrow> bool" where
  "token_usable net c t =
     (kn_clock net (kx_log c) < at_expires_at t - seconds (60 * kn_refresh_minutes net))"

definition get_access_token :: "kiwoom_net \<Rightarrow> bool \<Rightarrow> kiwoom_client \<Rightarrow> (adapter_error + string) \<times> kiwoom_client" where
  "get_access_token net force_refresh c =
     (case kx_token c of
        Some t \<Rightarrow>
          if \<not> force_refresh \<and> token_usable net c t then (Inr (at_value t), c)
          else (case issue_token net c of
                  (Inl e, c') \<Rightarrow> (Inl e, c')
                | (Inr t', c') \<Rightarrow> (Inr (at_value t'), c'\<lparr>kx_token := Some t'\<rparr>))
      | None \<Rightarrow>
          (case issue_token net c of
             (Inl e, c') \<Rightarrow> (Inl e, c')
           | (Inr t', c') \<Rightarrow> (Inr (at_value t'), c'\<lparr>kx_token := Some t'\<rparr>)))"

definition invalidate_token :: "kiwoom_client \<Rightarrow> kiwoom_client" where
  "invalidate_token c = c\<lparr>kx_token := None\<rparr>"

section \<open>Queries\<close>

record kiwoom_page =
  pg_payload :: payload
  pg_continuation :: bool
  pg_next_key :: "string option"

definition page_of :: "http_reply \<Rightarrow> adapter_error + kiwoom_page" where
  "page_of r =
     bind_sum (json_object r) (\<lambda>p.
       if 400 \<le> hr_status_code r then Inl (KiwoomAdapterError ''KIWOOM_HTTP_ERROR'' (500 \<le> hr_status_code r))
       else case require_success p of
         Some e \<Rightarrow> Inl e
       | None \<Rightarrow>
           (let key = str_strip (response_header r ''next-key'')
            in Inr \<lparr>pg_payload = p, pg_continuation = (str_upper (response_header r ''cont-yn'') = ''Y''),
                    pg_next_key = (if key = [] then None else Some key)\<rparr>))"

text \<open>The loop over the two attempts: only the first one may answer 401 and go on.\<close>

definition query_attempt ::
  "kiwoom_net \<Rightarrow> bool \<Rightarrow> http_request \<Rightarrow> kiwoom_client \<Rightarrow> (adapter_error + http_reply) \<times> kiwoom_client" where
  "query_attempt net force rq c =
     (case get_access_token net force c of
        (Inl e, c1) \<Rightarrow> (Inl e, c1)
      | (Inr tok, c1) \<Rightarrow> http_post net (rq\<lparr>hq_token := Some tok\<rparr>) c1)"

definition request_page ::
  "kiwoom_net \<Rightarrow> http_request \<Rightarrow> kiwoom_client \<Rightarrow> (adapter_error + kiwoom_page) \<times> kiwoom_client" where
  "request_page net rq c =
     (case query_attempt net False rq c of
        (Inl e, c1) \<Rightarrow> (Inl e, c1)
      | (Inr r, c1) \<Rightarrow>
          if hr_status_code r \<noteq> 401 then (page_of r, c1)
          else (case query_attempt net True rq (invalidate_token c1) of
                  (Inl e, c2) \<Rightarrow> (Inl e, c2)
                | (Inr r2, c2) \<Rightarrow>
                    if hr_status_code r2 = 401
                    then (Inl (KiwoomAdapterError ''KIWOOM_AUTH_FAILED'' False), invalidate_token c2)
                    else (page_of r2, c2)))"

definition query_request :: "string \<Rightarrow> string \<Rightarrow> payload \<Rightarrow> string option \<Rightarrow> http_request" where
  "query_request api path body key =
     \<lparr>hq_path = path, hq_api_id = Some api, hq_token = None, hq_next_key = key, hq_body = body\<rparr>"

definition bad_pagination :: adapter_error where
  "bad_pagination = KiwoomAdapterError ''KIWOOM_INVALID_PAGINATION'' False"

primrec pages_from ::
  "kiwoom_net \<Rightarrow> string \<Rightarrow> string \<Rightarrow> payload \<Rightarrow> nat \<Rightarrow> string option \<Rightarrow> string list \<Rightarrow> kiwoom_client \<Rightarrow>
   (adapter_error + payload list) \<times> kiwoom_client" where
  "pages_from net api path body 0 key seen c = (Inl bad_pagination, c)"
| "pages_from net api path body (Suc n) key seen c =
     (case request_page net (query_request api path body key) c of
        (Inl e, c1) \<Rightarrow> (Inl e, c1)
      | (Inr pg, c1) \<Rightarrow>
          if \<not> pg_continuation pg then (Inr [pg_payload pg], c1)
          else (case pg_next_key pg of
                  None \<Rightarrow> (Inl bad_pagination, c1)
                | Some k \<Rightarrow>
                    if k \<in> set seen then (Inl bad_pagination, c1)
                    else (case pages_from net api path body n (Some k) (k # seen) c1 of
                            (Inl e, c2) \<Rightarrow> (Inl e, c2)
                          | (Inr ps, c2) \<Rightarrow> (Inr (pg_payload pg # ps), c2))))"

definition request_all_pages ::
  "kiwoom_net \<Rightarrow> string \<Rightarrow> string \<Rightarrow> payload \<Rightarrow> kiwoom_client \<Rightarrow> (adapter_error + payload list) \<times> kiwoom_client" where
  "request_all_pages net api path body c = pages_from net api path body max_continuation_pages None [] c"

definition request_payload ::
  "kiwoom_net \<Rightarrow> string \<Rightarrow> string \<Rightarrow> payload \<Rightarrow> kiwoom_client \<Rightarrow> (adapter_error + payload) \<times> kiwoom_client" where
  "request_payload net api path body c =
     (case request_page net (query_request api path body None) c of
        (Inl e, c1) \<Rightarrow> (Inl e, c1) | (Inr pg, c1) \<Rightarrow> (Inr (pg_payload pg), c1))"

definition get_basic_quote ::
  "kiwoom_net \<Rightarrow> (json \<Rightarrow> string) \<Rightarrow> string \<Rightarrow> string \<Rightarrow> kiwoom_client \<Rightarrow> (adapter_error + quote_event) \<times> kiwoom_client" where
  "get_basic_quote net hx sb status c =
     (case request_payload net ''ka10001'' ''/api/dostk/stkinfo'' [(''stk_cd'', WStr sb)] c of
        (Inl e, c1) \<Rightarrow> (Inl e, c1)
      | (Inr p, c1) \<Rightarrow> (normalize_basic_quote hx p sb status (Aware (kn_clock net (kx_log c1))), c1))"

definition get_account_number :: "kiwoom_net \<Rightarrow> kiwoom_client \<Rightarrow> (adapter_error + string) \<times> kiwoom_client" where
  "get_account_number net c =
     (case request_payload net ''ka00001'' account_path [] c of
        (Inl e, c1) \<Rightarrow> (Inl e, c1)
      | (Inr p, c1) \<Rightarrow>
          (case py_get ''acctNo'' p of
             WStr s \<Rightarrow>
               if length (str_strip s) \<noteq> 10 \<or> \<not> str_isdigit (str_strip s) then (Inl invalid_response, c1)
               else (Inr (str_strip s), c1)
           | _ \<Rightarrow> (Inl invalid_response, c1)))"

definition verify_account :: "kiwoom_net \<Rightarrow> kiwoom_client \<Rightarrow> (adapter_error + string) \<times> kiwoom_client" where
  "verify_account net c =
     (if length (kn_account net) \<noteq> 10 \<or> \<not> str_isdigit (kn_account net)
      then (Inl (KiwoomAdapterError ''KIWOOM_ACCOUNT_ID_INVALID'' False), c)
      else case get_account_number net c of
        (Inl e, c1) \<Rightarrow> (Inl e, c1)
      | (Inr actual, c1) \<Rightarrow>
          if kn_account net \<noteq> actual then (Inl (KiwoomAdapterError ''KIWOOM_ACCOUNT_MISMATCH'' False), c1)
          else (Inr (''********'' @ drop 8 actual), c1))"

definition get_account_snapshot ::
  "kiwoom_net \<Rightarrow> kiwoom_client \<Rightarrow> (adapter_error + account_snapshot) \<times> kiwoom_client" where
  "get_account_snapshot net c =
     (case request_all_pages net ''ka10075'' account_path
         [(''all_stk_tp'', WStr ''0''), (''trde_tp'', WStr ''0''), (''stk_cd'', WStr []), (''stex_tp'', WStr ''1'')] c of
        (Inl e, c1) \<Rightarrow> (Inl e, c1)
      | (Inr open_pages, c1) \<Rightarrow>
     (case request_all_pages net ''ka10076'' account_path
         [(''stk_cd'', WStr []), (''qry_tp'', WStr ''0''), (''sell_tp'', WStr ''0''), (''ord_no'', WStr []), (''stex_tp'', WStr ''1'')] c1 of
        (Inl e, c2) \<Rightarrow> (Inl e, c2)
      | (Inr fill_pages, c2) \<Rightarrow>
     (case request_all_pages net ''kt00018'' account_path [(''qry_tp'', WStr ''1''), (''dmst_stex_tp'', WStr ''KRX'')] c2 of
        (Inl e, c3) \<Rightarrow> (Inl e, c3)
      | (Inr position_pages, c3) \<Rightarrow>
          (snapshot_of_pages open_pages fill_pages position_pages (kn_clock net (kx_log c3)), c3))))"

section \<open>Orders\<close>

text \<open>The limiter starts two requests of the same kind at least an interval apart.\<close>

definition limiter_interval :: decimal where
  "limiter_interval = 1"

definition limiter_wait :: "kiwoom_net \<Rightarrow> string \<Rightarrow> kiwoom_client \<Rightarrow> kiwoom_client" where
  "limiter_wait net api c =
     (let now = kn_monotonic net (kx_log c) False;
          start = (case map_of (kx_last_started c) api of
             None \<Rightarrow> now
           | Some previous \<Rightarrow>
               if 0 < limiter_interval - (now - previous) then kn_monotonic net (kx_log c) True else now)
      in c\<lparr>kx_last_started := (api, start) # kx_last_started c\<rparr>)"

definition return_code_zero :: "wire \<Rightarrow> bool" where
  "return_code_zero v = (case v of WInt n \<Rightarrow> n = 0 | WBool b \<Rightarrow> \<not> b | WFloat t _ _ \<Rightarrow> \<not> t | _ \<Rightarrow> False)"

definition code_char :: "char \<Rightarrow> bool" where
  "code_char ch =
     (let n = of_char ch :: nat
      in is_digit ch \<or> (65 \<le> n \<and> n \<le> 90) \<or> (97 \<le> n \<and> n \<le> 122) \<or> ch \<in> set ''_.:-'')"

definition normalize_broker_result_code :: "wire \<Rightarrow> string option" where
  "normalize_broker_result_code v =
     (case v of
        WBool _ \<Rightarrow> None
      | WNull \<Rightarrow> None
      | _ \<Rightarrow> (let s = str_strip (py_str v)
             in if s = [] \<or> 32 < length s \<or> \<not> list_all code_char s then None else Some s))"

definition order_payload :: "kiwoom_net \<Rightarrow> http_reply \<Rightarrow> adapter_error + payload" where
  "order_payload net r =
     (if 400 \<le> hr_status_code r then Inl KiwoomOrderOutcomeUnknownError
      else case json_object r of
        Inl _ \<Rightarrow> Inl KiwoomOrderOutcomeUnknownError
      | Inr p \<Rightarrow>
          if return_code_zero (py_get ''return_code'' p) then Inr p
          else Inl (KiwoomOrderRejectedError (normalize_broker_result_code (py_get ''return_code'' p))
                      (kn_sanitize net (py_get ''return_msg'' p))))"

definition request_order_once ::
  "kiwoom_net \<Rightarrow> string \<Rightarrow> payload \<Rightarrow> kiwoom_client \<Rightarrow> (adapter_error + payload) \<times> kiwoom_client" where
  "request_order_once net api body c =
     (case get_access_token net False c of
        (Inl e, c1) \<Rightarrow> (Inl e, c1)
      | (Inr tok, c1) \<Rightarrow>
          (case http_post net \<lparr>hq_path = order_path, hq_api_id = Some api, hq_token = Some tok, hq_next_key = None,
               hq_body = body\<rparr> (limiter_wait net api c1) of
             (Inl _, c2) \<Rightarrow> (Inl KiwoomOrderOutcomeUnknownError, c2)
           | (Inr r, c2) \<Rightarrow>
               (order_payload net r, if hr_status_code r = 401 then invalidate_token c2 else c2)))"

definition send_order ::
  "kiwoom_net \<Rightarrow> string \<Rightarrow> adapter_error + payload \<Rightarrow> (payload \<Rightarrow> adapter_error + order_acknowledgement) \<Rightarrow>
   kiwoom_client \<Rightarrow> (adapter_error + order_acknowledgement) \<times> kiwoom_client" where
  "send_order net api body ack c =
     (case body of
        Inl e \<Rightarrow> (Inl e, c)
      | Inr b \<Rightarrow> (let (r, c') = request_order_once net api b c in (bind_sum r ack, c')))"

definition place_order ::
  "kiwoom_net \<Rightarrow> nat \<Rightarrow> kiwoom_order_request \<Rightarrow> kiwoom_client \<Rightarrow> (adapter_error + order_acknowledgement) \<times> kiwoom_client" where
  "place_order net scale rq c =
     send_order net (if kr_side rq = ''BUY'' then ''kt10000'' else ''kt10001'') (new_order_body scale rq) normalize_order_ack c"

definition replace_order ::
  "kiwoom_net \<Rightarrow> nat \<Rightarrow> kiwoom_replace_request \<Rightarrow> kiwoom_client \<Rightarrow> (adapter_error + order_acknowledgement) \<times> kiwoom_client" where
  "replace_order net scale rq c =
     send_order net ''kt10002'' (replace_body scale rq)
       (normalize_child_order_ack (kp_original_order_id rq) ''mdfy_qty'' True) c"

definition cancel_order ::
  "kiwoom_net \<Rightarrow> kiwoom_cancel_request \<Rightarrow> kiwoom_client \<Rightarrow> (adapter_error + order_acknowledgement) \<times> kiwoom_client" where
  "cancel_order net rq c =
     send_order net ''kt10003'' (cancel_body rq)
       (normalize_child_order_ack (kc_original_order_id rq) ''cncl_qty'' False) c"

text \<open>What the order sender sees of a call.\<close>

definition outcome_of :: "adapter_error + order_acknowledgement \<Rightarrow> client_outcome" where
  "outcome_of r =
     (case r of
        Inr a \<Rightarrow> Acknowledged (oa_broker_order_id a)
      | Inl (KiwoomOrderRejectedError code msg) \<Rightarrow> OrderRejected code msg
      | Inl KiwoomOrderOutcomeUnknownError \<Rightarrow> OutcomeUnknown
      | Inl (KiwoomAdapterError _ _) \<Rightarrow> AdapterError
      | Inl _ \<Rightarrow> OtherException)"

end
