(* ===== verification/Kiwoom_Properties.thy ===== *)
theory Kiwoom_Properties
  imports Kiwoom_Client Quote_Properties
begin

text \<open>
  What the broker adapter guarantees: an order call posts at most one order request and its outcome is the
  classification of the one reply, account queries are bounded and never post an order, and what they
  return is well-formed.
\<close>

section \<open>Requests posted\<close>

definition order_requests :: "kiwoom_client \<Rightarrow> http_request list" where
  "order_requests c = filter (\<lambda>q. hq_path q = order_path) (kx_log c)"

lemma http_post_log: "kx_log (snd (http_post net rq c)) = kx_log c @ [rq]"
  by (simp add: http_post_def Let_def)

lemma token_path_not_order [simp]: "token_path \<noteq> order_path"
  by (simp add: token_path_def order_path_def)

lemma issue_token_log:
  "length (kx_log (snd (issue_token net c))) = Suc (length (kx_log c))"
  "order_requests (snd (issue_token net c)) = order_requests c"
  using http_post_log [of net _ c]
  by (simp_all add: issue_token_def order_requests_def case_prod_beta Let_def)

lemma get_access_token_log:
  assumes "get_access_token net force c = (r, c')"
  shows "length (kx_log c') \<le> Suc (length (kx_log c))" "order_requests c' = order_requests c"
proof -
  obtain rt ct where it: "issue_token net c = (rt, ct)" by fastforce
  note issued = issue_token_log [of net c, unfolded it snd_conv]
  have "length (kx_log c') \<le> Suc (length (kx_log c)) \<and> order_requests c' = order_requests c"
    using assms issued
    by (auto simp: get_access_token_def it order_requests_def split: option.splits if_splits sum.splits)
  then show "length (kx_log c') \<le> Suc (length (kx_log c))" "order_requests c' = order_requests c" by simp_all
qed

text \<open>Everything before the post of an order raises the plain adapter error.\<close>

definition plain_error :: "adapter_error \<Rightarrow> bool" where
  "plain_error e = (case e of KiwoomAdapterError _ _ \<Rightarrow> True | _ \<Rightarrow> False)"

lemma outcome_AdapterError: "outcome_of r = AdapterError \<longleftrightarrow> (\<exists>e. r = Inl e \<and> plain_error e)"
  by (auto simp: outcome_of_def plain_error_def split: sum.splits adapter_error.splits)

lemma plain_errors [simp]:
  "plain_error invalid_response" "plain_error invalid_price" "plain_error (KiwoomAdapterError code rt)"
  "\<not> plain_error KiwoomOrderOutcomeUnknownError" "\<not> plain_error (KiwoomOrderRejectedError cd msg)"
  "\<not> plain_error PyTypeError"
  by (simp_all add: plain_error_def invalid_response_def invalid_price_def)

lemma bind_sum_Inl: "bind_sum r f = Inl e \<longleftrightarrow> r = Inl e \<or> (\<exists>x. r = Inr x \<and> f x = Inl e)"
  by (auto simp: bind_sum_def split: sum.splits)

lemma bind_sum_Inr: "bind_sum r f = Inr y \<longleftrightarrow> (\<exists>x. r = Inr x \<and> f x = Inr y)"
  by (auto simp: bind_sum_def split: sum.splits)

lemma json_object_error: "json_object r = Inl e \<Longrightarrow> plain_error e"
  by (auto simp: json_object_def split: option.splits wire.splits)

lemma require_success_error: "require_success p = Some e \<Longrightarrow> plain_error e"
  by (auto simp: require_success_def Let_def split: option.splits if_splits)

lemma token_from_reply_error: "token_from_reply r = Inl e \<Longrightarrow> plain_error e"
  by (auto simp: token_from_reply_def bind_sum_Inl json_object_error require_success_error
      split: if_splits option.splits wire.splits prod.splits)

lemma http_post_error: "http_post net rq c = (Inl e, c') \<Longrightarrow> plain_error e"
  by (auto simp: http_post_def Let_def split: http_result.splits)

lemma get_access_token_error: "get_access_token net force c = (Inl e, c') \<Longrightarrow> plain_error e"
  by (auto simp: get_access_token_def issue_token_def bind_sum_Inl
      dest: token_from_reply_error http_post_error
      split: option.splits if_splits sum.splits prod.splits)

lemma body_errors:
  "new_order_body scale rq = Inl e \<Longrightarrow> plain_error e"
  "replace_body scale rp = Inl e \<Longrightarrow> plain_error e"
  "cancel_body rc = Inl e \<Longrightarrow> plain_error e"
  by (auto simp: new_order_body_def replace_body_def cancel_body_def child_request_error_def price_and_type_def
      positive_integer_price_def validate_market_symbol_def bind_sum_Inl split: option.splits if_splits prod.splits)

lemma ack_errors:
  "normalize_order_ack p = Inl e \<Longrightarrow> \<not> plain_error e"
  "normalize_child_order_ack orig fld rm p = Inl e \<Longrightarrow> \<not> plain_error e"
  by (auto simp: normalize_order_ack_def normalize_child_order_ack_def child_market_error_def
      split: wire.splits if_splits option.splits sum.splits)

lemma order_payload_error: "order_payload net r = Inl e \<Longrightarrow> \<not> plain_error e"
  by (auto simp: order_payload_def split: if_splits sum.splits)

section \<open>One order call\<close>

definition posted_order :: "string \<Rightarrow> string \<Rightarrow> payload \<Rightarrow> http_request" where
  "posted_order api tok body =
     \<lparr>hq_path = order_path, hq_api_id = Some api, hq_token = Some tok, hq_next_key = None, hq_body = body\<rparr>"

text \<open>The call stops before the post, or posts its request and reads the reply.\<close>

lemma request_order_onceE:
  assumes "request_order_once net api body c = (r, c')"
  obtains (unsent) e where "r = Inl e" "plain_error e" "order_requests c' = order_requests c"
  | (sent) tok reqs where "order_requests c' = order_requests c @ [posted_order api tok body]"
      "kx_log c' = reqs @ [posted_order api tok body]"
      "r = (case kn_post net (kx_log c') of HttpReply rp \<Rightarrow> order_payload net rp
            | _ \<Rightarrow> Inl KiwoomOrderOutcomeUnknownError)"
proof -
  obtain rt c1 where tok: "get_access_token net False c = (rt, c1)" by fastforce
  note log1 = get_access_token_log [OF tok]
  show ?thesis
  proof (cases rt)
    case (Inl e)
    then show ?thesis
      using assms tok log1(2) get_access_token_error [of net False c e c1]
      by (intro unsent) (auto simp: request_order_once_def)
  next
    case (Inr t)
    have keep: "kx_log (limiter_wait net api c1) = kx_log c1" by (simp add: limiter_wait_def Let_def)
    have log: "kx_log c' = kx_log c1 @ [posted_order api t body]"
      and r: "r = (case kn_post net (kx_log c') of HttpReply rp \<Rightarrow> order_payload net rp
            | _ \<Rightarrow> Inl KiwoomOrderOutcomeUnknownError)"
      using assms tok Inr keep
      by (auto simp: request_order_once_def http_post_def Let_def invalidate_token_def posted_order_def
          split: http_result.splits if_splits)
    have "order_requests c' = order_requests c @ [posted_order api t body]"
      using log log1(2) by (simp add: order_requests_def posted_order_def)
    then show ?thesis using log r by (rule sent)
  qed
qed

text \<open>What an order call may do to the requests posted, given its outcome.\<close>

definition posts_order :: "client_outcome \<Rightarrow> adapter_error + payload \<Rightarrow> kiwoom_client \<Rightarrow> kiwoom_client \<Rightarrow> bool" where
  "posts_order out body c c' =
     (if out = AdapterError then order_requests c' = order_requests c
      else (\<exists>b api tok. body = Inr b \<and> order_requests c' = order_requests c @ [posted_order api tok b]))"

lemma send_order_posts:
  assumes "\<And>e. body = Inl e \<Longrightarrow> plain_error e" and "\<And>p e. ack p = Inl e \<Longrightarrow> \<not> plain_error e"
  shows "posts_order (outcome_of (fst (send_order net api body ack c))) body c (snd (send_order net api body ack c))"
proof (cases body)
  case (Inl e)
  with assms(1) show ?thesis by (simp add: send_order_def posts_order_def outcome_AdapterError)
next
  case (Inr b)
  obtain r c' where eq: "request_order_once net api b c = (r, c')" by fastforce
  from eq show ?thesis
  proof (cases rule: request_order_onceE)
    case (unsent e)
    then show ?thesis by (auto simp: send_order_def Inr eq posts_order_def outcome_AdapterError bind_sum_def)
  next
    case (sent tok reqs)
    have "\<not> plain_error e" if "bind_sum r ack = Inl e" for e
      using that assms(2) sent(3) order_payload_error
      by (auto simp: bind_sum_Inl split: http_result.splits)
    then show ?thesis using sent(1) by (auto simp: send_order_def Inr eq posts_order_def outcome_AdapterError)
  qed
qed

section \<open>Queries\<close>

lemma query_attempt_log:
  assumes "query_attempt net force rq c = (r, c')" "hq_path rq \<noteq> order_path"
  shows "length (kx_log c') \<le> length (kx_log c) + 2" "order_requests c' = order_requests c"
proof -
  obtain rt c1 where tok: "get_access_token net force c = (rt, c1)" by fastforce
  note log1 = get_access_token_log [OF tok]
  have "kx_log c' = kx_log c1 \<or> (\<exists>t. kx_log c' = kx_log c1 @ [rq\<lparr>hq_token := Some t\<rparr>])"
    using assms(1) by (auto simp: query_attempt_def tok http_post_def Let_def split: sum.splits)
  with log1 assms(2) show "length (kx_log c') \<le> length (kx_log c) + 2" "order_requests c' = order_requests c"
    by (auto simp: order_requests_def)
qed

lemma request_page_log:
  assumes "request_page net rq c = (r, c')" "hq_path rq \<noteq> order_path"
  shows "length (kx_log c') \<le> length (kx_log c) + 4 \<and> order_requests c' = order_requests c"
proof -
  obtain r1 c1 where q1: "query_attempt net False rq c = (r1, c1)" by fastforce
  obtain r2 c2 where q2: "query_attempt net True rq (invalidate_token c1) = (r2, c2)" by fastforce
  have same: "kx_log (invalidate_token x) = kx_log x" "order_requests (invalidate_token x) = order_requests x" for x
    by (simp_all add: invalidate_token_def order_requests_def)
  show ?thesis
    using assms(1) query_attempt_log [OF q1 assms(2)] query_attempt_log [OF q2 assms(2)]
    by (auto simp: request_page_def q1 q2 same split: sum.splits if_splits)
qed

lemma pages_from_log:
  assumes "pages_from net api path body n key seen c = (r, c')" "path \<noteq> order_path"
  shows "length (kx_log c') \<le> length (kx_log c) + 4 * n \<and> order_requests c' = order_requests c \<and>
    (\<forall>ps. r = Inr ps \<longrightarrow> 0 < length ps \<and> length ps \<le> n)"
  using assms(1)
proof (induction n arbitrary: key seen c r c')
  case (Suc n)
  obtain rp c1 where q: "request_page net (query_request api path body key) c = (rp, c1)" by fastforce
  have p: "hq_path (query_request api path body key) \<noteq> order_path" using assms(2) by (simp add: query_request_def)
  note page = request_page_log [OF q p]
  show ?case
  proof (cases "\<exists>pg k. rp = Inr pg \<and> pg_continuation pg \<and> pg_next_key pg = Some k \<and> k \<notin> set seen")
    case True
    then obtain pg k where pg: "rp = Inr pg" "pg_continuation pg" "pg_next_key pg = Some k" "k \<notin> set seen" by blast
    obtain r2 c2 where rec: "pages_from net api path body n (Some k) (k # seen) c1 = (r2, c2)" by fastforce
    from Suc.IH [OF rec] Suc.prems page show ?thesis
      by (auto simp: q pg rec split: sum.splits)
  next
    case False
    with Suc.prems page show ?thesis
      by (auto simp: q split: sum.splits if_splits option.splits)
  qed
qed (simp add: bad_pagination_def)

lemma request_all_pages_log:
  assumes "request_all_pages net api path body c = (r, c')" "path \<noteq> order_path"
  shows "length (kx_log c') \<le> length (kx_log c) + 80 \<and> order_requests c' = order_requests c"
  using pages_from_log [OF assms(1) [unfolded request_all_pages_def] assms(2)]
  by (simp add: max_continuation_pages_def)

section \<open>Well-formed account rows\<close>

definition symbol_ok :: "string \<Rightarrow> bool" where
  "symbol_ok s = (length s = 6 \<and> str_isdigit s)"

definition order_id_ok :: "string \<Rightarrow> bool" where
  "order_id_ok s = (str_isdigit s \<and> length s \<le> 10)"

definition open_order_ok :: "broker_open_order \<Rightarrow> bool" where
  "open_order_ok b =
     (order_id_ok (bo_broker_order_id b) \<and> symbol_ok (bo_symbol b) \<and> bo_side b \<in> {''BUY'', ''SELL''} \<and>
      0 < bo_remaining_quantity b \<and> 0 \<le> bo_filled_quantity b \<and>
      bo_filled_quantity b + bo_remaining_quantity b = bo_requested_quantity b \<and>
      (case bo_limit_price b of None \<Rightarrow> True | Some v \<Rightarrow> 0 < v) \<and> length (bo_order_time b) = 6 \<and> bo_market b = ''KRX'')"

definition broker_fill_ok :: "broker_fill_summary \<Rightarrow> bool" where
  "broker_fill_ok b =
     (order_id_ok (bf_broker_order_id b) \<and> symbol_ok (bf_symbol b) \<and> bf_side b \<in> {''BUY'', ''SELL''} \<and>
      0 < bf_quantity b \<and> 0 < bf_price b \<and> 0 \<le> bf_fee b \<and> 0 \<le> bf_tax b \<and> bf_market b = ''KRX'')"

definition broker_position_ok :: "broker_position \<Rightarrow> bool" where
  "broker_position_ok b =
     (symbol_ok (bp_symbol b) \<and> 0 < bp_quantity b \<and> 0 \<le> bp_available_quantity b \<and>
      bp_available_quantity b \<le> bp_quantity b \<and> 0 < bp_average_price b \<and> bp_market b = ''KRX'')"

definition account_snapshot_ok :: "account_snapshot \<Rightarrow> bool" where
  "account_snapshot_ok s =
     (list_all open_order_ok (as_open_orders s) \<and> distinct (map bo_broker_order_id (as_open_orders s)) \<and>
      list_all broker_fill_ok (as_fills s) \<and>
      list_all broker_position_ok (as_positions s) \<and> distinct (map bp_symbol (as_positions s)))"

lemma number_results:
  "non_negative_int v = Inr n \<Longrightarrow> 0 \<le> n" "positive_int v = Inr n \<Longrightarrow> 0 < n"
  "non_negative_decimal v = Inr x \<Longrightarrow> 0 \<le> x" "positive_decimal v = Inr x \<Longrightarrow> 0 < x"
  "absolute_decimal v = Inr x \<Longrightarrow> 0 < x"
proof -
  show nn: "0 \<le> n" if "non_negative_int v = Inr n" for v n
    using that by (auto simp: non_negative_int_def split: option.splits if_splits)
  show nd: "0 \<le> x" if "non_negative_decimal v = Inr x" for v x
    using that by (auto simp: non_negative_decimal_def split: option.splits pydec.splits if_splits)
  show "positive_int v = Inr n \<Longrightarrow> 0 < n"
    using nn [of v] by (force simp: positive_int_def split: sum.splits if_splits)
  show "positive_decimal v = Inr x \<Longrightarrow> 0 < x"
    using nd [of v] by (force simp: positive_decimal_def split: sum.splits if_splits)
  show "absolute_decimal v = Inr x \<Longrightarrow> 0 < x"
    by (auto simp: absolute_decimal_def finite_decimal_def split: option.splits pydec.splits if_splits)
qed

lemma identifier_results:
  "broker_order_id_of v = Inr s \<Longrightarrow> order_id_ok s" "domestic_symbol a v = Inr s \<Longrightarrow> symbol_ok s"
  "order_side p = Inr s \<Longrightarrow> s \<in> {''BUY'', ''SELL''}" "hhmmss v = Inr s \<Longrightarrow> length s = 6"
  by (auto simp: broker_order_id_of_def order_id_ok_def domestic_symbol_def symbol_ok_def order_side_def hhmmss_def
      Let_def split: if_splits)

lemma normalize_open_order_ok: "normalize_open_order p = Inr b \<Longrightarrow> open_order_ok b"
  by (auto simp: normalize_open_order_def bind_sum_Inr open_order_ok_def split: if_splits
      dest: number_results identifier_results)

lemma normalize_fill_ok: "normalize_fill p = Inr b \<Longrightarrow> broker_fill_ok b"
  by (auto simp: normalize_fill_def bind_sum_Inr broker_fill_ok_def dest: number_results identifier_results)

lemma normalize_position_ok: "normalize_position p = Inr (Some b) \<Longrightarrow> broker_position_ok b"
  using number_results(1) [of "py_get ''rmnd_qty'' p"] number_results(1) [of "py_get ''trde_able_qty'' p"]
    number_results(4) identifier_results(2)
  by (auto simp: normalize_position_def bind_sum_Inr broker_position_ok_def split: if_splits)

lemma normalize_all_ok:
  "normalize_all f ps = Inr xs \<Longrightarrow> (\<And>p x. f p = Inr x \<Longrightarrow> P x) \<Longrightarrow> \<forall>x \<in> set xs. P x"
  by (induction ps arbitrary: xs) (auto simp: bind_sum_Inr)

lemma snapshot_of_pages_ok:
  assumes "snapshot_of_pages op fp pp now = Inr s"
  shows "account_snapshot_ok s"
proof -
  from assms obtain os fs ps qs1 qs2 qs3 where
    norm: "normalize_all normalize_open_order qs1 = Inr os" "normalize_all normalize_fill qs2 = Inr fs"
      "normalize_all normalize_position qs3 = Inr ps"
    and s: "s = \<lparr>as_open_orders = os, as_fills = fs, as_positions = List.map_filter id ps, as_observed_at = now\<rparr>"
    and uniq: "distinct (map bo_broker_order_id os)" "distinct (map bp_symbol (List.map_filter id ps))"
    by (auto simp: snapshot_of_pages_def bind_sum_Inr Let_def split: if_splits)
  have "\<forall>x \<in> set ps. case x of None \<Rightarrow> True | Some b \<Rightarrow> broker_position_ok b"
    by (rule normalize_all_ok [OF norm(3)]) (auto simp: normalize_position_ok split: option.splits)
  then have "list_all broker_position_ok (List.map_filter id ps)"
    by (auto simp: list_all_iff List.map_filter_def)
  then show ?thesis
    using normalize_all_ok [OF norm(1), of open_order_ok] normalize_all_ok [OF norm(2), of broker_fill_ok] uniq
      normalize_open_order_ok normalize_fill_ok
    by (simp add: account_snapshot_ok_def s list_all_iff)
qed

text \<open>The three queries of a snapshot one after the other.\<close>

lemma get_account_snapshotE:
  assumes "get_account_snapshot net c = (r, c')"
  shows "length (kx_log c') \<le> length (kx_log c) + 240" "order_requests c' = order_requests c"
    and "r = Inr s \<Longrightarrow> account_snapshot_ok s"
proof -
  have acc: "account_path \<noteq> order_path" by (simp add: account_path_def order_path_def)
  note log = request_all_pages_log [OF _ acc]
  show "length (kx_log c') \<le> length (kx_log c) + 240" "order_requests c' = order_requests c"
    using assms by (auto simp: get_account_snapshot_def split: prod.splits sum.splits dest!: log)
  show "account_snapshot_ok s" if "r = Inr s"
    using assms that by (auto simp: get_account_snapshot_def split: prod.splits sum.splits intro: snapshot_of_pages_ok)
qed

section \<open>Classification of the reply\<close>

text \<open>The one outcome a reply to a new order stands for.\<close>

definition classify_order_reply :: "kiwoom_net \<Rightarrow> http_result \<Rightarrow> client_outcome" where
  "classify_order_reply net res =
     (case res of
        HttpReply r \<Rightarrow>
          (case hr_json r of
             Some (WDict p _) \<Rightarrow>
               if 400 \<le> hr_status_code r then OutcomeUnknown
               else if \<not> return_code_zero (py_get ''return_code'' p)
               then OrderRejected (normalize_broker_result_code (py_get ''return_code'' p)) (kn_sanitize net (py_get ''return_msg'' p))
               else (case py_get ''ord_no'' p of
                       WStr i \<Rightarrow>
                         if valid_broker_order_id i \<and> py_get ''dmst_stex_tp'' p = WStr ''KRX'' then Acknowledged i
                         else OutcomeUnknown
                     | _ \<Rightarrow> OutcomeUnknown)
           | _ \<Rightarrow> OutcomeUnknown)
      | _ \<Rightarrow> OutcomeUnknown)"

lemma order_ack_outcome:
  "outcome_of (normalize_order_ack p) =
     (case py_get ''ord_no'' p of
        WStr i \<Rightarrow> if valid_broker_order_id i \<and> py_get ''dmst_stex_tp'' p = WStr ''KRX'' then Acknowledged i
                  else OutcomeUnknown
      | _ \<Rightarrow> OutcomeUnknown)"
  by (auto simp: normalize_order_ack_def outcome_of_def split: wire.splits if_splits)

lemma reply_outcome:
  "outcome_of (bind_sum (order_payload net r) normalize_order_ack) = classify_order_reply net (HttpReply r)"
proof (cases "\<exists>p shown. hr_json r = Some (WDict p shown)")
  case True
  then obtain p shown where "hr_json r = Some (WDict p shown)" by blast
  then show ?thesis
    by (simp add: classify_order_reply_def order_payload_def json_object_def bind_sum_def order_ack_outcome)
      (simp add: outcome_of_def)
next
  case False
  then show ?thesis
    by (auto simp: classify_order_reply_def order_payload_def json_object_def bind_sum_def outcome_of_def
        split: option.splits wire.splits)
qed

lemma place_order_classified:
  "outcome_of (fst (place_order net scale rq c)) \<in>
     {AdapterError, classify_order_reply net (kn_post net (kx_log (snd (place_order net scale rq c))))}"
proof (cases "new_order_body scale rq")
  case (Inl e)
  then show ?thesis using body_errors(1) by (simp add: place_order_def send_order_def outcome_AdapterError)
next
  case (Inr b)
  let ?api = "if kr_side rq = ''BUY'' then ''kt10000'' else ''kt10001''"
  obtain r c' where eq: "request_order_once net ?api b c = (r, c')" by fastforce
  have po: "place_order net scale rq c = (bind_sum r normalize_order_ack, c')"
    by (simp add: place_order_def send_order_def Inr eq)
  from eq show ?thesis
  proof (cases rule: request_order_onceE)
    case (unsent e)
    then have "outcome_of (bind_sum r normalize_order_ack) = AdapterError"
      by (auto simp: outcome_AdapterError bind_sum_def)
    then show ?thesis by (simp add: po)
  next
    case (sent tok reqs)
    have "outcome_of (bind_sum r normalize_order_ack) = classify_order_reply net (kn_post net (kx_log c'))"
    proof (cases "kn_post net (kx_log c')")
      case (HttpReply rp)
      then show ?thesis using reply_outcome [of net rp] sent(3) by simp
    qed (simp_all add: sent(3) bind_sum_def outcome_of_def classify_order_reply_def)
    then show ?thesis by (simp add: po)
  qed
qed

section \<open>Rate limiter\<close>

text \<open>If sleeping takes at least the delay asked for, two starts of a kind are an interval apart.\<close>

lemma limiter_spacing:
  assumes "map_of (kx_last_started c) api = Some previous"
    and "\<And>now. now = kn_monotonic net (kx_log c) False \<Longrightarrow>
           now + (limiter_interval - (now - previous)) \<le> kn_monotonic net (kx_log c) True"
  shows "\<exists>start. map_of (kx_last_started (limiter_wait net api c)) api = Some start \<and> limiter_interval \<le> start - previous"
  using assms by (auto simp: limiter_wait_def Let_def)

section \<open>Price text\<close>

lemma digit_char: "n < (10 :: nat) \<Longrightarrow> is_digit (char_of (48 + n))"
  by (simp add: is_digit_def Let_def)

lemma uuid_text_digits: "str_isdigit (uuid_text n)"
proof (induction n rule: uuid_text.induct)
  case (1 n)
  then show ?case
    by (subst uuid_text.simps) (auto simp: str_isdigit_def digit_char)
qed

lemma int_text_digits: "0 \<le> n \<Longrightarrow> str_isdigit (int_text n)"
  by (simp add: int_text_def uuid_text_digits)

lemma dot_not_digits: "\<not> str_isdigit (s @ CHR ''.'' # t)"
  by (simp add: str_isdigit_def is_digit_def)

lemma limit_body_price:
  assumes "new_order_body scale rq = Inr b" "kr_order_type rq = ''LIMIT''"
  shows "\<exists>v. kr_limit_price rq = Some v \<and> 0 < v \<and>
    py_get ''ord_uv'' b = WStr (int_text \<lfloor>v\<rfloor> @ (if scale = 0 then [] else CHR ''.'' # replicate scale (CHR ''0'')))"
  using assms
  by (auto simp: new_order_body_def price_and_type_def positive_integer_price_def bind_sum_Inr py_get_def
      split: option.splits if_splits)

section \<open>Recovery quotes\<close>

lemma rest_quote_fields:
  assumes "normalize_basic_quote hx p sb status received = Inr e"
  shows "str_isdigit (qe_symbol e) \<and> length (qe_symbol e) = 6 \<and> qe_market e = ''KRX'' \<and>
    qe_source e = ''KIWOOM_REST_KA10001'' \<and> (\<exists>j. qe_sequence_or_hash e = hx j) \<and>
    qe_event_at e = Aware (utc received) \<and> qe_received_at e = Aware (utc received) \<and>
    0 < qe_last_price e \<and> 0 < qe_open_price e \<and> 0 < qe_high_price e \<and> 0 < qe_low_price e \<and>
    0 \<le> qe_cumulative_volume e \<and> qe_trading_status e \<in> set supported_trading_statuses \<and>
    qe_source_sequence e = None \<and> qe_best_bid_price e = None \<and> qe_best_bid_quantity e = None \<and>
    qe_best_ask_price e = None \<and> qe_best_ask_quantity e = None \<and> qe_recovery_snapshot e"
  using assms
  by (auto simp: normalize_basic_quote_def bind_sum_Inr split: if_splits dest: number_results(1,5))

text \<open>A recovery quote passes the validation of ingestion unless its price range is empty.\<close>

lemma rest_quote_validates:
  assumes "normalize_basic_quote hx p sb status received = Inr e" and "\<And>j. 0 < length (hx j) \<and> length (hx j) \<le> 128"
  shows "quote_validate e = (if qe_high_price e < qe_low_price e then Some INVALID_PRICE else None)"
proof -
  note fields = rest_quote_fields [OF assms(1)]
  then obtain j where j: "qe_sequence_or_hash e = hx j" by blast
  have "hx j \<noteq> []" "\<not> 128 < length (hx j)" using assms(2) [of j] by auto
  with fields j show ?thesis
    by (simp add: quote_validate_def tzinfo_missing_def utc_def book_side_bad_def not_le)
qed

section \<open>Properties\<close>


text \<open>C31. Whatever the broker answers, an account snapshot the adapter returns is well-formed: open orders have
  distinct ids and split their requested quantity into a filled part and a positive remainder, fills have a positive
  quantity and price, positions have distinct symbols and no more available than held shares; reading it
  posts at most 240 requests and no order.\<close>

theorem account_snapshot_well_formed:
  "(case fst (get_account_snapshot net c) of Inl _ \<Rightarrow> True | Inr s \<Rightarrow> account_snapshot_ok s) \<and>
   length (kx_log (snd (get_account_snapshot net c))) \<le> length (kx_log c) + 240 \<and>
   order_requests (snd (get_account_snapshot net c)) = order_requests c"
  using get_account_snapshotE [of net c, OF surjective_pairing] by (auto split: sum.split)

text \<open>A successful HTTP response to a new order without a return code is reported as an explicit rejection, even
  when it carries a valid order number.\<close>

theorem missing_return_code_is_rejection:
  assumes "new_order_body scale rq = Inr b" "kx_token c = Some t" "token_usable net c t"
    and "\<And>reqs. kn_post net reqs = HttpReply \<lparr>hr_status_code = 200, hr_headers = [], hr_json = Some (WDict p shown)\<rparr>"
    and "map_of p ''return_code'' = None"
  shows "outcome_of (fst (place_order net scale rq c)) = OrderRejected None (kn_sanitize net (py_get ''return_msg'' p))"
  using assms
  by (simp add: place_order_def send_order_def request_order_once_def get_access_token_def http_post_def Let_def
      order_payload_def json_object_def py_get_def return_code_zero_def bind_sum_def outcome_of_def
      normalize_broker_result_code_def)

definition sample_net :: "payload \<Rightarrow> kiwoom_net" where
  "sample_net p = \<lparr>kn_post = (\<lambda>_. HttpReply \<lparr>hr_status_code = 200, hr_headers = [], hr_json = Some (WDict p [])\<rparr>),
     kn_clock = (\<lambda>_. 0), kn_monotonic = (\<lambda>reqs _. of_nat (length reqs)), kn_sanitize = (\<lambda>_. None), kn_refresh_minutes = 5,
     kn_app_key = ''k'', kn_app_secret = ''s'', kn_account = ''1234567890''\<rparr>"

definition sample_client :: kiwoom_client where
  "sample_client = \<lparr>kx_token = Some \<lparr>at_value = ''t'', at_expires_at = seconds 86400\<rparr>, kx_last_started = [], kx_log = []\<rparr>"

definition sample_order :: kiwoom_order_request where
  "sample_order = \<lparr>kr_symbol = ''005930'', kr_side = ''BUY'', kr_quantity = 3, kr_order_type = ''LIMIT'',
     kr_limit_price = Some 70000, kr_market = ''KRX''\<rparr>"

theorem missing_return_code_is_rejection_witness:
  "outcome_of (fst (place_order (sample_net [(''ord_no'', WStr ''1234567''), (''dmst_stex_tp'', WStr ''KRX'')]) 0
     sample_order sample_client)) = OrderRejected None None"
proof -
  let ?p = "[(''ord_no'', WStr ''1234567''), (''dmst_stex_tp'', WStr ''KRX'')]"
  obtain b where "new_order_body 0 sample_order = Inr b"
    by (simp add: new_order_body_def sample_order_def validate_market_symbol_def str_isdigit_def is_digit_def
        price_and_type_def positive_integer_price_def bind_sum_def)
  then have "outcome_of (fst (place_order (sample_net ?p) 0 sample_order sample_client)) =
      OrderRejected None (kn_sanitize (sample_net ?p) (py_get ''return_msg'' ?p))"
    by (rule missing_return_code_is_rejection [where t = "\<lparr>at_value = ''t'', at_expires_at = seconds 86400\<rparr>"])
      (simp_all add: sample_client_def sample_net_def token_usable_def seconds_def)
  then show ?thesis by (simp add: sample_net_def)
qed

text \<open>The price text of a limit order is an integer only for a Decimal without decimals: a price read from a column
  of the ledger carries four, and its order is sent with a text that is not a number of digits.\<close>

theorem ledger_price_text_not_integer:
  assumes "new_order_body scale rq = Inr b" "kr_order_type rq = ''LIMIT''"
  shows "\<exists>s. py_get ''ord_uv'' b = WStr s \<and> (str_isdigit s \<longleftrightarrow> scale = 0)"
  using limit_body_price [OF assms] by (auto simp: int_text_digits dot_not_digits)

theorem ledger_price_text_not_integer_witness:
  "\<exists>b s. new_order_body 4 sample_order = Inr b \<and> py_get ''ord_uv'' b = WStr s \<and> \<not> str_isdigit s"
proof -
  obtain b where "new_order_body 4 sample_order = Inr b"
    by (simp add: new_order_body_def sample_order_def validate_market_symbol_def str_isdigit_def is_digit_def
        price_and_type_def positive_integer_price_def bind_sum_def)
  moreover have "kr_order_type sample_order = ''LIMIT''" by (simp add: sample_order_def)
  ultimately show ?thesis using ledger_price_text_not_integer [of 4 sample_order b] by auto
qed

end
