(* ===== verification/Kiwoom_Feed.thy ===== *)
theory Kiwoom_Feed
  imports Kiwoom_Wire "HOL-Library.Char_ord" "HOL-Library.List_Lexorder"
begin

text \<open>
  \<open>app/broker/kiwoom_ws.py\<close>: the websocket of the broker. The socket is the list of frames still to come,
  a receive on the empty list times out; what is sent is recorded. A quote is merged from the last trade and
  the last order book of its item, under the clock of the trade. \<open>hx\<close> is the hexadecimal SHA-256 of the
  message a quote comes from.
\<close>

section \<open>State\<close>

datatype frame = FrameTimeout | FrameClosed | FrameText "wire option"

datatype feed_error = KiwoomWebSocketError string | SocketClosed | FeedTypeError | FeedInfiniteDecimal

record feed_trade =
  ft_last_price :: decimal
  ft_open_price :: decimal
  ft_high_price :: decimal
  ft_low_price :: decimal
  ft_cumulative_volume :: int
  ft_event_at :: instant

record feed_book =
  fb_best_ask_price :: decimal
  fb_best_ask_quantity :: int
  fb_best_bid_price :: decimal
  fb_best_bid_quantity :: int
  fb_event_at :: instant

datatype feed_event = AccountEvent | QuoteMessage quote_event

datatype receive_result = Ping | Other | Received feed_event

record kiwoom_feed =
  fd_connected :: bool
  fd_frames :: "frame list"
  fd_sent :: "payload list"
  fd_quote_symbols :: "string list"
  fd_quote_items :: "string list"
  fd_pending :: "feed_event list"
  fd_trades :: "(string \<times> feed_trade) list"
  fd_books :: "(string \<times> feed_book) list"

section \<open>Socket\<close>

definition ws_send :: "payload \<Rightarrow> kiwoom_feed \<Rightarrow> (feed_error + unit) \<times> kiwoom_feed" where
  "ws_send p fd =
     (if fd_connected fd then (Inr (), fd\<lparr>fd_sent := fd_sent fd @ [p]\<rparr>)
      else (Inl (KiwoomWebSocketError ''KIWOOM_WS_NOT_CONNECTED''), fd))"

definition receive_json :: "kiwoom_feed \<Rightarrow> (feed_error + payload) \<times> kiwoom_feed" where
  "receive_json fd =
     (if \<not> fd_connected fd then (Inl (KiwoomWebSocketError ''KIWOOM_WS_NOT_CONNECTED''), fd)
      else case fd_frames fd of
        [] \<Rightarrow> (Inl (KiwoomWebSocketError ''KIWOOM_WS_TIMEOUT''), fd)
      | fr # rest \<Rightarrow>
          (case fr of
             FrameTimeout \<Rightarrow> Inl (KiwoomWebSocketError ''KIWOOM_WS_TIMEOUT'')
           | FrameClosed \<Rightarrow> Inl SocketClosed
           | FrameText (Some (WDict kvs _)) \<Rightarrow> Inr kvs
           | FrameText _ \<Rightarrow> Inl (KiwoomWebSocketError ''KIWOOM_WS_INVALID_RESPONSE''),
           fd\<lparr>fd_frames := rest\<rparr>))"

text \<open>At most ten frames are read for an acknowledgement; a ping among them is echoed.\<close>

definition ack_code_zero :: "wire \<Rightarrow> bool" where
  "ack_code_zero v = (case v of WInt n \<Rightarrow> n = 0 | WBool b \<Rightarrow> \<not> b | WFloat t _ _ \<Rightarrow> \<not> t | _ \<Rightarrow> False)"

primrec wait_for_ack_n :: "nat \<Rightarrow> string \<Rightarrow> string \<Rightarrow> kiwoom_feed \<Rightarrow> (feed_error + unit) \<times> kiwoom_feed" where
  "wait_for_ack_n 0 expected code fd = (Inl (KiwoomWebSocketError ''KIWOOM_WS_PROTOCOL_ERROR''), fd)"
| "wait_for_ack_n (Suc n) expected code fd =
     (case receive_json fd of
        (Inl e, fd1) \<Rightarrow> (Inl e, fd1)
      | (Inr p, fd1) \<Rightarrow>
          if py_get ''trnm'' p = WStr ''PING''
          then (case ws_send p fd1 of
                  (Inl e, fd2) \<Rightarrow> (Inl e, fd2)
                | (Inr _, fd2) \<Rightarrow> wait_for_ack_n n expected code fd2)
          else if py_get ''trnm'' p \<noteq> WStr expected then (Inl (KiwoomWebSocketError ''KIWOOM_WS_PROTOCOL_ERROR''), fd1)
          else if \<not> ack_code_zero (py_get ''return_code'' p) then (Inl (KiwoomWebSocketError code), fd1)
          else (Inr (), fd1))"

definition wait_for_ack :: "string \<Rightarrow> string \<Rightarrow> kiwoom_feed \<Rightarrow> (feed_error + unit) \<times> kiwoom_feed" where
  "wait_for_ack = wait_for_ack_n 10"

definition send_and_wait :: "payload \<Rightarrow> string \<Rightarrow> string \<Rightarrow> kiwoom_feed \<Rightarrow> (feed_error + unit) \<times> kiwoom_feed" where
  "send_and_wait p expected code fd =
     (case ws_send p fd of (Inl e, fd1) \<Rightarrow> (Inl e, fd1) | (Inr _, fd1) \<Rightarrow> wait_for_ack expected code fd1)"

definition wlist :: "wire list \<Rightarrow> wire" where "wlist ws = WList ws []"

definition wdict :: "payload \<Rightarrow> wire" where "wdict p = WDict p []"

definition register :: "string \<Rightarrow> string \<Rightarrow> string list \<Rightarrow> string list \<Rightarrow> payload" where
  "register grp refresh items types =
     [(''trnm'', WStr ''REG''), (''grp_no'', WStr grp), (''refresh'', WStr refresh),
      (''data'', wlist [wdict [(''item'', wlist (map WStr items)), (''type'', wlist (map WStr types))]])]"

definition feed_open :: "string \<Rightarrow> kiwoom_feed \<Rightarrow> (feed_error + unit) \<times> kiwoom_feed" where
  "feed_open access_token fd =
     (let fd0 = fd\<lparr>fd_quote_symbols := [], fd_quote_items := [], fd_pending := [], fd_trades := [], fd_books := [],
                  fd_connected := True\<rparr>
      in case send_and_wait [(''trnm'', WStr ''LOGIN''), (''token'', WStr access_token)] ''LOGIN'' ''KIWOOM_WS_LOGIN_FAILED'' fd0 of
           (Inl e, fd1) \<Rightarrow> (Inl e, fd1)
         | (Inr _, fd1) \<Rightarrow>
             send_and_wait (register ''1'' ''1'' [''''] [''00'', ''04'']) ''REG'' ''KIWOOM_WS_SUBSCRIBE_FAILED'' fd1)"

definition feed_close :: "kiwoom_feed \<Rightarrow> kiwoom_feed" where
  "feed_close fd = fd\<lparr>fd_connected := False, fd_quote_symbols := [], fd_quote_items := []\<rparr>"

section \<open>Subscriptions\<close>

definition nxt_suffix :: string where
  "nxt_suffix = ''_NX''"

definition wire_items :: "string list \<Rightarrow> string list" where
  "wire_items symbols = concat (map (\<lambda>s. [s, s @ nxt_suffix]) symbols)"

definition subscribed :: "string list \<Rightarrow> kiwoom_feed \<Rightarrow> kiwoom_feed" where
  "subscribed symbols fd =
     (let items = wire_items symbols; gone = (\<lambda>i. i \<in> set (fd_quote_items fd) \<and> i \<notin> set items)
      in fd\<lparr>fd_trades := filter (\<lambda>(i, _). \<not> gone i) (fd_trades fd), fd_books := filter (\<lambda>(i, _). \<not> gone i) (fd_books fd),
            fd_quote_symbols := symbols, fd_quote_items := items\<rparr>)"

definition sync_request :: "string list \<Rightarrow> kiwoom_feed \<Rightarrow> (feed_error + unit) \<times> kiwoom_feed" where
  "sync_request symbols fd =
     (if symbols = []
      then (if fd_quote_symbols fd \<noteq> []
            then send_and_wait [(''trnm'', WStr ''REMOVE''), (''grp_no'', WStr ''2'')] ''REMOVE'' ''KIWOOM_WS_UNSUBSCRIBE_FAILED'' fd
            else (Inr (), fd))
      else send_and_wait (register ''2'' ''0'' (wire_items symbols) [''0B'', ''0D'']) ''REG'' ''KIWOOM_WS_QUOTE_SUBSCRIBE_FAILED'' fd)"

definition sync_quotes :: "string list \<Rightarrow> kiwoom_feed \<Rightarrow> (feed_error + unit) \<times> kiwoom_feed" where
  "sync_quotes syms fd =
     (let symbols = sort (remdups syms)
      in if list_ex (\<lambda>s. length s \<noteq> 6 \<or> \<not> str_isdigit s) symbols
         then (Inl (KiwoomWebSocketError ''KIWOOM_WS_INVALID_WATCHLIST''), fd)
         else if symbols = fd_quote_symbols fd \<and> wire_items symbols = fd_quote_items fd then (Inr (), fd)
         else case sync_request symbols fd of
           (Inl e, fd1) \<Rightarrow> (Inl e, fd1)
         | (Inr _, fd1) \<Rightarrow> (Inr (), subscribed symbols fd1))"

section \<open>Quotes\<close>

definition normalize_quote_item :: "string \<Rightarrow> (string \<times> string) option" where
  "normalize_quote_item item =
     (let nxt = (3 \<le> length item \<and> drop (length item - 3) item = nxt_suffix);
          sb = (if nxt then take (length item - 3) item else item)
      in if length sb \<noteq> 6 \<or> \<not> str_isdigit sb then None
         else Some (sb, if nxt then ''NXT'' else ''KRX''))"

text \<open>A time of day of the broker, on the day of reception in Seoul unless that is more than five minutes ahead.\<close>

definition event_time :: "wire \<Rightarrow> instant \<Rightarrow> instant option" where
  "event_time v received =
     (let s = str_strip (py_str v); h = digits_val (take 2 s); mi = digits_val (take 2 (drop 2 s)); sec = digits_val (drop 4 s);
          t = kst_day_start received + seconds (h * 3600 + mi * 60 + sec)
      in if length s \<noteq> 6 \<or> \<not> str_isdigit s \<or> 23 < h \<or> 59 < mi \<or> 59 < sec then None
         else Some (if received + seconds 300 < t then t - seconds 86400 else t))"

text \<open>Missing fields and values that do not parse drop the message; the two kinds of failure are kept apart.\<close>

datatype 'x field = Parsed 'x | Dropped | Infinity_seen

definition price_field :: "string \<Rightarrow> payload \<Rightarrow> decimal field" where
  "price_field k values =
     (case map_of values k of
        None \<Rightarrow> Dropped
      | Some v \<Rightarrow> (case absolute_decimal v of Inr x \<Rightarrow> Parsed x | Inl InfiniteDecimal \<Rightarrow> Infinity_seen | Inl _ \<Rightarrow> Dropped))"

definition quantity_field :: "string \<Rightarrow> payload \<Rightarrow> int field" where
  "quantity_field k values =
     (case map_of values k of
        None \<Rightarrow> Dropped | Some v \<Rightarrow> (case non_negative_int v of Inr n \<Rightarrow> Parsed n | Inl _ \<Rightarrow> Dropped))"

definition clock_field :: "string \<Rightarrow> payload \<Rightarrow> instant \<Rightarrow> instant field" where
  "clock_field k values received =
     (case map_of values k of
        None \<Rightarrow> Dropped | Some v \<Rightarrow> (case event_time v received of Some t \<Rightarrow> Parsed t | None \<Rightarrow> Dropped))"

definition bind_field :: "'x field \<Rightarrow> ('x \<Rightarrow> 'y field) \<Rightarrow> 'y field" where
  "bind_field r f = (case r of Parsed x \<Rightarrow> f x | Dropped \<Rightarrow> Dropped | Infinity_seen \<Rightarrow> Infinity_seen)"

definition parse_trade :: "payload \<Rightarrow> instant \<Rightarrow> feed_trade field" where
  "parse_trade values received =
     bind_field (price_field ''10'' values) (\<lambda>lst.
     bind_field (price_field ''16'' values) (\<lambda>opn.
     bind_field (price_field ''17'' values) (\<lambda>hi.
     bind_field (price_field ''18'' values) (\<lambda>lo.
     bind_field (quantity_field ''13'' values) (\<lambda>vol.
     bind_field (clock_field ''20'' values received) (\<lambda>t.
       Parsed \<lparr>ft_last_price = lst, ft_open_price = opn, ft_high_price = hi, ft_low_price = lo,
               ft_cumulative_volume = vol, ft_event_at = t\<rparr>))))))"

definition parse_book :: "payload \<Rightarrow> instant \<Rightarrow> feed_book field" where
  "parse_book values received =
     bind_field (price_field ''41'' values) (\<lambda>ask.
     bind_field (quantity_field ''61'' values) (\<lambda>askq.
     bind_field (price_field ''51'' values) (\<lambda>bid.
     bind_field (quantity_field ''71'' values) (\<lambda>bidq.
     bind_field (clock_field ''21'' values received) (\<lambda>t.
       Parsed \<lparr>fb_best_ask_price = ask, fb_best_ask_quantity = askq, fb_best_bid_price = bid,
               fb_best_bid_quantity = bidq, fb_event_at = t\<rparr>)))))"

definition merged_quote ::
  "string \<Rightarrow> string \<Rightarrow> string \<Rightarrow> instant \<Rightarrow> bool \<Rightarrow> feed_trade \<Rightarrow> feed_book option \<Rightarrow> quote_event" where
  "merged_quote identity sb market received is_trade tr book =
     \<lparr>qe_symbol = sb, qe_market = market, qe_source = ''KIWOOM_WS'', qe_sequence_or_hash = identity,
      qe_event_at = Aware (ft_event_at tr), qe_received_at = Aware received,
      qe_last_price = ft_last_price tr, qe_open_price = ft_open_price tr, qe_high_price = ft_high_price tr,
      qe_low_price = ft_low_price tr, qe_cumulative_volume = ft_cumulative_volume tr,
      qe_trading_status = ''TRADING'', qe_source_sequence = None,
      qe_best_bid_price = map_option fb_best_bid_price book, qe_best_bid_quantity = map_option fb_best_bid_quantity book,
      qe_best_ask_price = map_option fb_best_ask_price book, qe_best_ask_quantity = map_option fb_best_ask_quantity book,
      qe_recovery_snapshot = False, qe_updates_trade = is_trade\<rparr>"

text \<open>The caches after a message, or nothing when the message is dropped.\<close>

definition cache_message ::
  "bool \<Rightarrow> string \<Rightarrow> payload \<Rightarrow> instant \<Rightarrow> kiwoom_feed \<Rightarrow> kiwoom_feed field" where
  "cache_message is_trade item values received fd =
     (if is_trade
      then bind_field (parse_trade values received) (\<lambda>tr. Parsed (fd\<lparr>fd_trades := AList.update item tr (fd_trades fd)\<rparr>))
      else bind_field (parse_book values received) (\<lambda>b. Parsed (fd\<lparr>fd_books := AList.update item b (fd_books fd)\<rparr>)))"

definition quote_from_caches ::
  "string \<Rightarrow> string \<Rightarrow> string \<Rightarrow> string \<Rightarrow> instant \<Rightarrow> bool \<Rightarrow> kiwoom_feed \<Rightarrow> quote_event option" where
  "quote_from_caches identity item sb market received is_trade fd =
     map_option (\<lambda>tr. merged_quote identity sb market received is_trade tr (map_of (fd_books fd) item))
       (map_of (fd_trades fd) item)"

definition parse_quote_item ::
  "(string \<Rightarrow> string \<Rightarrow> payload \<Rightarrow> string) \<Rightarrow> instant \<Rightarrow> payload \<Rightarrow> kiwoom_feed \<Rightarrow>
   (feed_error + quote_event option) \<times> kiwoom_feed" where
  "parse_quote_item hx received message fd =
     (case (py_get ''type'' message, py_get ''item'' message, py_get ''values'' message) of
        (WStr type, WStr item, WDict values _) \<Rightarrow>
          if type \<notin> {''0B'', ''0D''} \<or> item \<notin> set (fd_quote_items fd) then (Inr None, fd)
          else (case normalize_quote_item item of
                  None \<Rightarrow> (Inr None, fd)
                | Some (sb, market) \<Rightarrow>
                    (case cache_message (type = ''0B'') item values received fd of
                       Dropped \<Rightarrow> (Inr None, fd)
                     | Infinity_seen \<Rightarrow> (Inl FeedInfiniteDecimal, fd)
                     | Parsed fd' \<Rightarrow>
                         (Inr (quote_from_caches (hx type item values) item sb market received (type = ''0B'') fd'), fd')))
      | _ \<Rightarrow> (Inr None, fd))"

section \<open>Receiving\<close>

definition unhashable :: "wire \<Rightarrow> bool" where
  "unhashable v = (case v of WList _ _ \<Rightarrow> True | WDict _ _ \<Rightarrow> True | _ \<Rightarrow> False)"

definition take_message ::
  "(string \<Rightarrow> string \<Rightarrow> payload \<Rightarrow> string) \<Rightarrow> instant \<Rightarrow> wire \<Rightarrow> kiwoom_feed \<Rightarrow> (feed_error + unit) \<times> kiwoom_feed" where
  "take_message hx now item fd =
     (case item of
        WDict message _ \<Rightarrow>
          if unhashable (py_get ''type'' message) then (Inl FeedTypeError, fd)
          else if py_get ''type'' message \<in> {WStr ''00'', WStr ''04''}
          then (Inr (), fd\<lparr>fd_pending := fd_pending fd @ [AccountEvent]\<rparr>)
          else if py_get ''type'' message \<in> {WStr ''0B'', WStr ''0D''}
          then (case parse_quote_item hx now message fd of
                  (Inl e, fd1) \<Rightarrow> (Inl e, fd1)
                | (Inr None, fd1) \<Rightarrow> (Inr (), fd1)
                | (Inr (Some q), fd1) \<Rightarrow> (Inr (), fd1\<lparr>fd_pending := fd_pending fd1 @ [QuoteMessage q]\<rparr>))
          else (Inr (), fd)
      | _ \<Rightarrow> (Inr (), fd))"

fun take_messages ::
  "(string \<Rightarrow> string \<Rightarrow> payload \<Rightarrow> string) \<Rightarrow> instant \<Rightarrow> wire list \<Rightarrow> kiwoom_feed \<Rightarrow> (feed_error + unit) \<times> kiwoom_feed" where
  "take_messages hx now [] fd = (Inr (), fd)"
| "take_messages hx now (m # ms) fd =
     (case take_message hx now m fd of (Inl e, fd1) \<Rightarrow> (Inl e, fd1) | (Inr _, fd1) \<Rightarrow> take_messages hx now ms fd1)"

definition pop_pending :: "kiwoom_feed \<Rightarrow> receive_result \<times> kiwoom_feed" where
  "pop_pending fd =
     (case fd_pending fd of [] \<Rightarrow> (Other, fd) | ev # evs \<Rightarrow> (Received ev, fd\<lparr>fd_pending := evs\<rparr>))"

definition receive ::
  "(string \<Rightarrow> string \<Rightarrow> payload \<Rightarrow> string) \<Rightarrow> instant \<Rightarrow> kiwoom_feed \<Rightarrow> (feed_error + receive_result) \<times> kiwoom_feed" where
  "receive hx now fd =
     (if fd_pending fd \<noteq> [] then (let (r, fd1) = pop_pending fd in (Inr r, fd1))
      else case receive_json fd of
        (Inl e, fd1) \<Rightarrow> (Inl e, fd1)
      | (Inr p, fd1) \<Rightarrow>
          if py_get ''trnm'' p = WStr ''PING''
          then (case ws_send p fd1 of (Inl e, fd2) \<Rightarrow> (Inl e, fd2) | (Inr _, fd2) \<Rightarrow> (Inr Ping, fd2))
          else if py_get ''trnm'' p \<noteq> WStr ''REAL'' then (Inr Other, fd1)
          else (case py_get ''data'' p of
                  WList ms _ \<Rightarrow>
                    (case take_messages hx now ms fd1 of
                       (Inl e, fd2) \<Rightarrow> (Inl e, fd2)
                     | (Inr _, fd2) \<Rightarrow> (let (r, fd3) = pop_pending fd2 in (Inr r, fd3)))
                | _ \<Rightarrow> (Inl (KiwoomWebSocketError ''KIWOOM_WS_INVALID_RESPONSE''), fd1)))"

end
