(* ===== verification/Feed_Properties.thy ===== *)
theory Feed_Properties
  imports Kiwoom_Feed Quote_Properties
begin

text \<open>
  The quotes of the live feed against the validation of ingestion, and the subscription list of the feed.
\<close>

section \<open>Caches\<close>

definition trade_ok :: "feed_trade \<Rightarrow> bool" where
  "trade_ok tr = (0 < ft_last_price tr \<and> 0 < ft_open_price tr \<and> 0 < ft_high_price tr \<and> 0 < ft_low_price tr \<and>
     0 \<le> ft_cumulative_volume tr)"

definition book_ok :: "feed_book \<Rightarrow> bool" where
  "book_ok b = (0 < fb_best_ask_price b \<and> 0 \<le> fb_best_ask_quantity b \<and> 0 < fb_best_bid_price b \<and> 0 \<le> fb_best_bid_quantity b)"

definition feed_ok :: "kiwoom_feed \<Rightarrow> bool" where
  "feed_ok fd = (list_all trade_ok (map snd (fd_trades fd)) \<and> list_all book_ok (map snd (fd_books fd)))"

lemma bind_field_Parsed: "bind_field r f = Parsed y \<longleftrightarrow> (\<exists>x. r = Parsed x \<and> f x = Parsed y)"
  by (auto simp: bind_field_def split: field.splits)

lemma absolute_decimal_pos: "absolute_decimal v = Inr x \<Longrightarrow> 0 < x"
  by (auto simp: absolute_decimal_def finite_decimal_def split: option.splits pydec.splits if_splits)

lemma non_negative_int_ge: "non_negative_int v = Inr n \<Longrightarrow> 0 \<le> n"
  by (auto simp: non_negative_int_def split: option.splits if_splits)

lemma field_results:
  "price_field k vs = Parsed x \<Longrightarrow> 0 < x" "quantity_field k vs = Parsed n \<Longrightarrow> 0 \<le> n"
  by (auto simp: price_field_def quantity_field_def split: option.splits sum.splits adapter_error.splits
      dest: absolute_decimal_pos non_negative_int_ge)

lemma parse_trade_ok:
  assumes "parse_trade vs received = Parsed tr"
  shows "trade_ok tr \<and> (\<exists>v. event_time v received = Some (ft_event_at tr))"
proof -
  have "\<exists>v. event_time v received = Some t" if "clock_field k vs received = Parsed t" for k t
    using that by (auto simp: clock_field_def split: option.splits)
  then show ?thesis
    using assms by (auto simp: parse_trade_def bind_field_Parsed trade_ok_def dest: field_results)
qed

lemma parse_book_ok: "parse_book vs received = Parsed b \<Longrightarrow> book_ok b"
  by (auto simp: parse_book_def bind_field_Parsed book_ok_def dest: field_results)

lemma list_all_update:
  "list_all P (map snd kvs) \<Longrightarrow> P v \<Longrightarrow> list_all P (map snd (AList.update k v kvs))"
  by (induction kvs) auto

lemma cache_message_ok:
  assumes "cache_message is_trade item vs received fd = Parsed fd'" "feed_ok fd"
  shows "feed_ok fd'"
    and "is_trade \<Longrightarrow> \<exists>tr v. map_of (fd_trades fd') item = Some tr \<and> event_time v received = Some (ft_event_at tr)"
  using assms parse_trade_ok parse_book_ok
  by (auto simp: cache_message_def bind_field_Parsed feed_ok_def list_all_update update_conv split: if_splits)

lemma map_of_list_all: "list_all P (map snd kvs) \<Longrightarrow> map_of kvs k = Some v \<Longrightarrow> P v"
  by (induction kvs) (auto split: if_splits)

section \<open>Event times\<close>

lemma received_in_day:
  "kst_day_start t \<le> t" "t < kst_day_start t + seconds 86400"
proof -
  have "(t + kst_offset) mod seconds 86400 = (t + kst_offset) - (t + kst_offset) div seconds 86400 * seconds 86400"
    by (simp add: minus_div_mult_eq_mod)
  moreover have "0 \<le> (t + kst_offset) mod seconds 86400" "(t + kst_offset) mod seconds 86400 < seconds 86400"
    by (simp_all add: seconds_def)
  ultimately show "kst_day_start t \<le> t" "t < kst_day_start t + seconds 86400"
    by (simp_all add: kst_day_start_def kst_date_def)
qed

lemma digits_val_nonneg: "list_all is_digit s \<Longrightarrow> 0 \<le> digits_val s"
proof -
  have "0 \<le> a \<Longrightarrow> list_all is_digit s \<Longrightarrow> 0 \<le> foldl (\<lambda>a c. a * 10 + digit_val c) a s" for a
  proof (induction s arbitrary: a)
    case (Cons c s)
    from Cons.prems have "(48 :: nat) \<le> of_char c" by (simp add: is_digit_def Let_def)
    moreover have "(of_char c :: int) = int (of_char c)" by (cases c) simp
    ultimately have "0 \<le> digit_val c" unfolding digit_val_def by linarith
    with Cons show ?case by simp
  qed simp
  then show "list_all is_digit s \<Longrightarrow> 0 \<le> digits_val s" by (simp add: digits_val_def)
qed

lemma list_all_take_drop: "list_all P s \<Longrightarrow> list_all P (take n s)" "list_all P s \<Longrightarrow> list_all P (drop n s)"
  by (auto simp: list_all_iff dest: in_set_takeD in_set_dropD)

lemma event_time_bounds:
  assumes "event_time v received = Some t"
  shows "received - seconds 86400 < t" "t \<le> received + seconds 300"
proof -
  define s where "s = str_strip (py_str v)"
  define u where "u = digits_val (take 2 s) * 3600 + digits_val (take 2 (drop 2 s)) * 60 + digits_val (drop 4 s)"
  have digits: "list_all is_digit s" and le: "digits_val (take 2 s) \<le> 23" "digits_val (take 2 (drop 2 s)) \<le> 59"
      "digits_val (drop 4 s) \<le> 59"
    and t: "t = (if received + seconds 300 < kst_day_start received + seconds u
                 then kst_day_start received + seconds u - seconds 86400 else kst_day_start received + seconds u)"
    using assms by (auto simp: event_time_def Let_def s_def u_def str_isdigit_def split: if_splits)
  have "0 \<le> digits_val (take 2 s)" "0 \<le> digits_val (take 2 (drop 2 s))" "0 \<le> digits_val (drop 4 s)"
    using digits by (auto intro!: digits_val_nonneg list_all_take_drop)
  with le have "0 \<le> u" "u < 86400" by (simp_all add: u_def)
  then have "0 \<le> seconds u" "seconds u < seconds 86400" by (simp_all add: seconds_def)
  then show "received - seconds 86400 < t" "t \<le> received + seconds 300"
    using received_in_day [of received] by (auto simp: t seconds_def)
qed

section \<open>Properties\<close>

lemma merged_quote_validates:
  assumes "symbol_market = Some (sb, market)" "normalize_quote_item item = symbol_market"
    and "trade_ok tr" "case book of None \<Rightarrow> True | Some b \<Rightarrow> book_ok b" "identity \<noteq> []" "length identity \<le> 128"
  shows "quote_validate (merged_quote identity sb market received is_trade tr book) =
    (if received < ft_event_at tr then Some INVALID_EVENT_TIME
     else if ft_high_price tr < ft_low_price tr then Some INVALID_PRICE else None)"
proof -
  have "length sb = 6" "str_isdigit sb" "market \<in> {''KRX'', ''NXT''}"
    using assms(1,2) by (auto simp: normalize_quote_item_def Let_def split: if_splits)
  with assms(3-6) show ?thesis
    by (cases book) (auto simp: quote_validate_def merged_quote_def tzinfo_missing_def utc_def trade_ok_def book_ok_def
        book_side_bad_def supported_trading_statuses_def not_less)
qed

text \<open>A quote the live feed emits has the live source, is never a recovery snapshot and passes the validation of ingestion
  exactly when its event time is not after its reception and its price range is not empty. A trade may be stamped up
  to five minutes after its reception, and such a quote is emitted but refused by ingestion.\<close>

theorem feed_quote_valid_up_to_clock:
  assumes "feed_ok fd" "\<And>t i vs. hx t i vs \<noteq> [] \<and> length (hx t i vs) \<le> 128"
    and "parse_quote_item hx received message fd = (Inr (Some e), fd')"
  shows "feed_ok fd' \<and> qe_source e = ''KIWOOM_WS'' \<and> \<not> qe_recovery_snapshot e \<and>
    quote_validate e = (if received < utc (qe_event_at e) then Some INVALID_EVENT_TIME
                        else if qe_high_price e < qe_low_price e then Some INVALID_PRICE else None) \<and>
    (received < utc (qe_event_at e) \<longrightarrow> ingest_quote e w = (Inl INVALID_EVENT_TIME, w)) \<and>
    (qe_updates_trade e \<longrightarrow> received - seconds 86400 < utc (qe_event_at e) \<and> utc (qe_event_at e) \<le> received + seconds 300)"
proof -
  from assms(3) obtain type item vs sb market where
    n: "normalize_quote_item item = Some (sb, market)"
    and c: "cache_message (type = ''0B'') item vs received fd = Parsed fd'"
    and q: "quote_from_caches (hx type item vs) item sb market received (type = ''0B'') fd' = Some e"
    by (auto simp: parse_quote_item_def split: wire.splits if_splits option.splits prod.splits field.splits)
  note ok = cache_message_ok [OF c assms(1)]
  from q obtain tr where tr: "map_of (fd_trades fd') item = Some tr"
    and e: "e = merged_quote (hx type item vs) sb market received (type = ''0B'') tr (map_of (fd_books fd') item)"
    by (auto simp: quote_from_caches_def)
  have caches: "trade_ok tr" "case map_of (fd_books fd') item of None \<Rightarrow> True | Some b \<Rightarrow> book_ok b"
    using ok(1) tr by (auto simp: feed_ok_def dest: map_of_list_all split: option.split)
  have v: "quote_validate e = (if received < ft_event_at tr then Some INVALID_EVENT_TIME
      else if ft_high_price tr < ft_low_price tr then Some INVALID_PRICE else None)"
    unfolding e using assms(2) by (intro merged_quote_validates [OF refl n caches]) simp_all
  have clock: "received - seconds 86400 < ft_event_at tr \<and> ft_event_at tr \<le> received + seconds 300" if "type = ''0B''"
    using ok(2) [OF that] tr event_time_bounds by auto
  show ?thesis
    using ok(1) v clock by (simp add: e merged_quote_def utc_def ingest_quote_def)
qed

definition sample_feed :: kiwoom_feed where
  "sample_feed = \<lparr>fd_connected = True, fd_frames = [], fd_sent = [], fd_quote_symbols = [''005930''],
     fd_quote_items = wire_items [''005930''], fd_pending = [], fd_trades = [], fd_books = []\<rparr>"

text \<open>A trade of 00:01:00 received at 00:00:00 in Seoul.\<close>

definition sample_trade :: payload where
  "sample_trade = [(''type'', WStr ''0B''), (''item'', WStr ''005930''),
     (''values'', WDict [(''10'', WStr ''+70000''), (''13'', WStr ''12''), (''16'', WStr ''69000''), (''17'', WStr ''71000''),
        (''18'', WStr ''-68000''), (''20'', WStr ''000100'')] [])]"

theorem feed_quote_valid_up_to_clock_witness:
  "\<exists>e fd'. parse_quote_item (\<lambda>_ _ _. ''h'') (- kst_offset) sample_trade sample_feed = (Inr (Some e), fd') \<and>
     ingest_quote e empty_watch = (Inl INVALID_EVENT_TIME, empty_watch)"
proof -
  let ?r = "parse_quote_item (\<lambda>_ _ _. ''h'') (- kst_offset) sample_trade sample_feed"
  have "(case fst ?r of Inr (Some e) \<Rightarrow> utc (qe_event_at e) = - kst_offset + seconds 60 | _ \<Rightarrow> False)"
    by code_simp
  then obtain e where fst: "fst ?r = Inr (Some e)" and at: "utc (qe_event_at e) = - kst_offset + seconds 60"
    by (auto split: sum.splits option.splits)
  have eq: "?r = (Inr (Some e), snd ?r)" using fst by (simp add: prod_eq_iff)
  have "feed_ok sample_feed" by (simp add: feed_ok_def sample_feed_def)
  from feed_quote_valid_up_to_clock [OF this _ eq, of empty_watch] at
  have "ingest_quote e empty_watch = (Inl INVALID_EVENT_TIME, empty_watch)" by (simp add: seconds_def)
  with eq show ?thesis by blast
qed

end
