(* ===== verification/Position_Fusion.thy ===== *)
theory Position_Fusion
  imports Decision_Execution Kiwoom_Wire
begin

text \<open>
  \<open>app/position_agent_fusion.py\<close>: a finished agent run may turn the deterministic decision on a position
  into a stronger one, which is then routed like any other. The state adds to the database the agent runs and
  their stages, the frozen decision inputs, the users and the full decision rows; the columns the routing
  reads are in the decision table of \<open>db\<close>. SHA-256 of a document is symbolic where it is compared and the
  parameter \<open>fc_hash\<close> where its text is cut. The validation of the core stage's document is the schema
  \<open>AgentCoreOutputV2\<close> of \<open>app/agents/contracts.py\<close>; a JSON number with a fraction is its decimal text.
\<close>

section \<open>Rows\<close>

record agent_run =
  ar_id :: uuid
  ar_owner_id :: uuid
  ar_purpose :: string
  ar_market :: string
  ar_symbol :: string
  ar_market_snapshot_id :: uuid
  ar_analysis_context :: "string option"
  ar_position_snapshot_json :: "json option"
  ar_position_snapshot_hash :: "digest option"
  ar_basis_decision_id :: "uuid option"
  ar_fusion_policy_version :: "string option"
  ar_fusion_state :: "string option"
  ar_fusion_reason_code :: "string option"
  ar_fusion_decision_id :: "uuid option"

record agent_stage_run =
  as_run_id :: uuid
  as_role :: string
  as_state :: string
  as_output_json :: "json option"

record decision_input_snapshot =
  di_id :: uuid
  di_user_id :: uuid
  di_market_snapshot_id :: uuid
  di_input_json :: json

record user_row =
  ur_id :: uuid
  ur_status :: string

record decision_row = decision +
  dr_decision_input_id :: "uuid option"
  dr_evaluation_request_id :: string
  dr_decision_kind :: string
  dr_model_provider :: string
  dr_model_id :: string
  dr_prompt_version :: string
  dr_schema_version :: string
  dr_scout_output_json :: json
  dr_confidence :: decimal
  dr_risk_level :: string
  dr_reason_codes_json :: json
  dr_configuration_version_id :: "uuid option"
  dr_execution_mode :: "string option"
  dr_execution_outcome :: string
  dr_validation_status :: string
  dr_latency_ms :: int

record fusion_db =
  fx_db :: db
  fx_runs :: "agent_run list"
  fx_stages :: "agent_stage_run list"
  fx_inputs :: "decision_input_snapshot list"
  fx_users :: "user_row list"
  fx_decisions :: "decision_row list"

record core_output =
  co_shadow_assessment :: string
  co_confidence :: decimal
  co_reason_codes :: "string list"
  co_incomplete_roles :: "string list"

datatype fusion_error = FusionAttributeError | FusionKeyError | FusionValueError | FusionRoutingError routing_error

section \<open>Policy\<close>

definition fusion_policy_version :: string where
  "fusion_policy_version = ''position-agent-fusion-v1''"

definition minimum_confidence :: decimal where
  "minimum_confidence = 70 / 100"

definition required_stages :: "string list" where
  "required_stages =
     [''TECHNICAL_SCOUT'', ''NEWS_DISCLOSURE_SCOUT'', ''MARKET_SECTOR_SCOUT'', ''POSITION_RISK_SCOUT'', ''CORE'']"

definition action_severity :: "string \<Rightarrow> nat option" where
  "action_severity a =
     (if a = ''HOLD'' then Some 0 else if a = ''PARTIAL_SELL'' then Some 1 else if a = ''FULL_SELL'' then Some 2 else None)"

definition assessment_action :: "string \<Rightarrow> string option" where
  "assessment_action a =
     (if a = ''HOLD_SUPPORTIVE'' then Some ''HOLD''
      else if a = ''NEUTRAL'' then Some ''HOLD''
      else if a = ''EXIT_RISK_ELEVATED'' then Some ''PARTIAL_SELL''
      else if a = ''EXIT_RISK_HIGH'' then Some ''FULL_SELL'' else None)"

definition fusion_request_id :: "(json \<Rightarrow> string) \<Rightarrow> agent_run \<Rightarrow> decision_row \<Rightarrow> string" where
  "fusion_request_id hx run basis =
     ''fusion-'' @ take 57 (hx (JObj [(''agent_run_id'', json_uuid (ar_id run)), (''basis_decision_id'', json_uuid (dc_id basis)),
       (''policy_version'', JStr fusion_policy_version)]))"

definition json_get :: "string \<Rightarrow> json \<Rightarrow> json option" where
  "json_get k j = (case j of JObj kvs \<Rightarrow> map_of kvs k | _ \<Rightarrow> None)"

definition is_dict :: "json \<Rightarrow> bool" where
  "is_dict j = (case j of JObj _ \<Rightarrow> True | _ \<Rightarrow> False)"

definition validate_frozen_input ::
  "fusion_db \<Rightarrow> agent_run \<Rightarrow> decision_row \<Rightarrow> fusion_error + (json \<times> decision_input_snapshot) option" where
  "validate_frozen_input fx run basis =
     (case Option.bind (dr_decision_input_id basis) (\<lambda>i. row_find di_id i (fx_inputs fx)) of
        None \<Rightarrow> Inr None
      | Some inp \<Rightarrow>
          if di_user_id inp \<noteq> ar_owner_id run \<or> di_market_snapshot_id inp \<noteq> ar_market_snapshot_id run \<or>
             dc_input_snapshot_id basis \<noteq> ar_market_snapshot_id run \<or> dc_symbol basis \<noteq> ar_symbol run \<or>
             dc_market basis \<noteq> ar_market run \<or> dr_decision_kind basis \<noteq> ''POSITION'' \<or>
             dc_purpose basis \<noteq> ''TRADING'' \<or> ar_analysis_context run \<noteq> Some ''POSITION''
          then Inr None
          else if \<not> is_dict (di_input_json inp) then Inl FusionAttributeError
          else (case json_get ''position'' (di_input_json inp) of
                  None \<Rightarrow> Inr None
                | Some position \<Rightarrow>
                    if \<not> is_dict position \<or> Some (Sha256 position) \<noteq> ar_position_snapshot_hash run then Inr None
                    else if Some (Sha256 (case ar_position_snapshot_json run of None \<Rightarrow> JObj [] | Some j \<Rightarrow> j))
                              \<noteq> ar_position_snapshot_hash run then Inr None
                    else Inr (Some (position, inp))))"

text \<open>The position the frozen input names is still open in the same version. The version is written as a JSON
  integer; \<open>int\<close> of a text is read by its digits and of anything else is an error.\<close>

definition position_by_text :: "db \<Rightarrow> json \<Rightarrow> position option" where
  "position_by_text d j =
     (case j of JStr s \<Rightarrow> find (\<lambda>p. uuid_text (p_id p) = s) (positions d) | _ \<Rightarrow> None)"

definition json_int :: "json \<Rightarrow> int option" where
  "json_int j =
     (case j of JInt n \<Rightarrow> Some n | JBool b \<Rightarrow> Some (of_bool b) | JStr s \<Rightarrow> parse_int s | _ \<Rightarrow> None)"

definition position_unchanged :: "db \<Rightarrow> json \<Rightarrow> fusion_error + bool" where
  "position_unchanged d position =
     (case json_get ''position_id'' position of
        None \<Rightarrow> Inl FusionKeyError
      | Some i \<Rightarrow>
          (case position_by_text d i of
             None \<Rightarrow> Inr False
           | Some p \<Rightarrow>
               if p_state p \<noteq> PS_OPEN then Inr False
               else (case json_get ''version'' position of
                       None \<Rightarrow> Inl FusionKeyError
                     | Some v \<Rightarrow>
                         (case json_int v of
                            None \<Rightarrow> Inl FusionValueError
                          | Some n \<Rightarrow> Inr (p_version p = n \<and> 0 < p_quantity p)))))"

section \<open>Core output\<close>

definition shadow_assessments :: "string list" where
  "shadow_assessments =
     [''ENTRY_STRONG'', ''ENTRY_SUPPORTIVE'', ''NEUTRAL'', ''ENTRY_ADVERSE'', ''HOLD_SUPPORTIVE'', ''EXIT_RISK_ELEVATED'',
      ''EXIT_RISK_HIGH'', ''UNKNOWN'']"

definition core_fields :: "string list" where
  "core_fields =
     [''schema_version'', ''score_policy_version'', ''action'', ''shadow_assessment'', ''confidence'', ''risk_level'',
      ''reason_codes'', ''incomplete_roles'']"

text \<open>A literal with a default may be missing; one without may not.\<close>

definition literal_default :: "string \<Rightarrow> string \<Rightarrow> (string \<times> json) list \<Rightarrow> bool" where
  "literal_default k v kvs = (case map_of kvs k of None \<Rightarrow> True | Some j \<Rightarrow> j = JStr v)"

definition literal_of :: "string \<Rightarrow> string list \<Rightarrow> (string \<times> json) list \<Rightarrow> string option" where
  "literal_of k vs kvs = (case map_of kvs k of Some (JStr s) \<Rightarrow> if s \<in> set vs then Some s else None | _ \<Rightarrow> None)"

definition json_text :: "json \<Rightarrow> string option" where
  "json_text j = (case j of JStr s \<Rightarrow> Some s | _ \<Rightarrow> None)"

definition string_list :: "string \<Rightarrow> (string \<times> json) list \<Rightarrow> string list option" where
  "string_list k kvs = (case map_of kvs k of Some (JArr js) \<Rightarrow> those (map json_text js) | _ \<Rightarrow> None)"

definition unit_interval :: "string \<Rightarrow> (string \<times> json) list \<Rightarrow> decimal option" where
  "unit_interval k kvs =
     Option.bind (Option.bind (map_of kvs k) json_decimal) (\<lambda>x. if 0 \<le> x \<and> x \<le> 1 then Some x else None)"

definition agent_core_output_v2 :: "json \<Rightarrow> core_output option" where
  "agent_core_output_v2 j =
     (case j of
        JObj kvs \<Rightarrow>
          if list_all (\<lambda>kv. fst kv \<in> set core_fields) kvs \<and> literal_default ''schema_version'' ''agent-core-v2'' kvs \<and>
             literal_default ''score_policy_version'' ''score-policy-v1'' kvs \<and> literal_default ''action'' ''WAIT'' kvs \<and>
             literal_of ''risk_level'' [''LOW'', ''MEDIUM'', ''HIGH''] kvs \<noteq> None
          then (case (literal_of ''shadow_assessment'' shadow_assessments kvs, unit_interval ''confidence'' kvs,
                      string_list ''reason_codes'' kvs, string_list ''incomplete_roles'' kvs) of
                  (Some a, Some c, Some rs, Some irs) \<Rightarrow>
                    Some \<lparr>co_shadow_assessment = a, co_confidence = c, co_reason_codes = rs, co_incomplete_roles = irs\<rparr>
                | _ \<Rightarrow> None)
          else None
      | _ \<Rightarrow> None)"

section \<open>Assessment\<close>

text \<open>\<open>by_role\<close>: a later stage of a role replaces an earlier one.\<close>

definition stage_of :: "fusion_db \<Rightarrow> uuid \<Rightarrow> string \<Rightarrow> agent_stage_run option" where
  "stage_of fx run role = find (\<lambda>s. as_run_id s = run \<and> as_role s = role) (rev (fx_stages fx))"

definition stages_complete :: "fusion_db \<Rightarrow> uuid \<Rightarrow> bool" where
  "stages_complete fx run =
     list_all (\<lambda>role. case stage_of fx run role of None \<Rightarrow> False | Some s \<Rightarrow> as_state s = ''SUCCEEDED'') required_stages"

datatype assessment = Stop string string | Escalate string core_output

text \<open>The verdict on the stages of a run against the action of the deterministic decision: the state and reason to
  finish with, or the stronger action.\<close>

definition assess_core :: "core_output \<Rightarrow> string \<Rightarrow> assessment" where
  "assess_core core basis_action =
     (if co_incomplete_roles core \<noteq> [] \<or> co_shadow_assessment core = ''UNKNOWN'' then Stop ''FAILED_SAFE'' ''FUSION_CORE_INCOMPLETE''
      else if co_confidence core < minimum_confidence then Stop ''NO_ESCALATION'' ''FUSION_CONFIDENCE_BELOW_THRESHOLD''
      else case (action_severity basis_action, assessment_action (co_shadow_assessment core)) of
        (Some sb, Some advisory) \<Rightarrow>
          (case action_severity advisory of
             None \<Rightarrow> Stop ''FAILED_SAFE'' ''FUSION_ACTION_NOT_SUPPORTED''
           | Some sa \<Rightarrow> if sa \<le> sb then Stop ''NO_ESCALATION'' ''FUSION_NO_STRONGER_ACTION'' else Escalate advisory core)
      | _ \<Rightarrow> Stop ''FAILED_SAFE'' ''FUSION_ACTION_NOT_SUPPORTED'')"

definition assess_run :: "fusion_db \<Rightarrow> agent_run \<Rightarrow> string \<Rightarrow> assessment" where
  "assess_run fx run basis_action =
     (if \<not> stages_complete fx (ar_id run) then Stop ''FAILED_SAFE'' ''FUSION_REQUIRED_STAGE_INCOMPLETE''
      else case Option.bind (stage_of fx (ar_id run) ''CORE'') as_output_json of
        None \<Rightarrow> Stop ''FAILED_SAFE'' ''FUSION_CORE_OUTPUT_MISSING''
      | Some out \<Rightarrow>
          (case agent_core_output_v2 out of
             None \<Rightarrow> Stop ''FAILED_SAFE'' ''FUSION_CORE_OUTPUT_INVALID''
           | Some core \<Rightarrow> assess_core core basis_action))"

section \<open>Finalisation\<close>

definition fusion_finish :: "string \<Rightarrow> string \<Rightarrow> agent_run \<Rightarrow> agent_run" where
  "fusion_finish state code run = run\<lparr>ar_fusion_state := Some state, ar_fusion_reason_code := Some code\<rparr>"

definition run_upd :: "uuid \<Rightarrow> (agent_run \<Rightarrow> agent_run) \<Rightarrow> fusion_db \<Rightarrow> fusion_db" where
  "run_upd i f fx = fx\<lparr>fx_runs := row_upd ar_id i f (fx_runs fx)\<rparr>"

definition escalation_reason :: "string \<Rightarrow> string" where
  "escalation_reason advisory = (if advisory = ''FULL_SELL'' then ''LLM_EXIT_RISK_HIGH'' else ''LLM_EXIT_RISK_ELEVATED'')"

text \<open>\<open>list(dict.fromkeys(codes))\<close>: the first occurrence of every code.\<close>

definition unique_codes :: "string list \<Rightarrow> string list" where
  "unique_codes cs = rev (remdups (rev cs))"

definition fused_risk_level :: "string \<Rightarrow> string" where
  "fused_risk_level advisory = (if advisory = ''FULL_SELL'' then ''HIGH'' else ''MEDIUM'')"

definition fused_core :: "string \<Rightarrow> core_output \<Rightarrow> json" where
  "fused_core advisory core =
     JObj [(''action'', JStr advisory), (''confidence'', JDec (co_confidence core)),
       (''reason_codes'', JArr (map JStr (unique_codes (co_reason_codes core @ [escalation_reason advisory])))),
       (''risk_level'', JStr (fused_risk_level advisory)),
       (''sell_ratio'', if advisory = ''PARTIAL_SELL'' then JStr ''0.5'' else JNull)]"

definition fused_decision ::
  "uuid \<Rightarrow> string \<Rightarrow> decision_input_snapshot \<Rightarrow> decision_row \<Rightarrow> string \<Rightarrow> core_output \<Rightarrow> decision_row" where
  "fused_decision i request_id inp basis advisory core =
     \<lparr>dc_id = i, dc_purpose = ''TRADING'', dc_input_snapshot_id = dc_input_snapshot_id basis, dc_symbol = dc_symbol basis,
      dc_market = dc_market basis, dc_action = advisory, dc_core_output_json = fused_core advisory core,
      dc_valid_until = dc_valid_until basis, dr_decision_input_id = Some (di_id inp), dr_evaluation_request_id = request_id,
      dr_decision_kind = ''POSITION'', dr_model_provider = ''CRESTA_FUSION'', dr_model_id = ''position-agent-fusion-v1'',
      dr_prompt_version = ''position-agent-fusion-policy-v1'', dr_schema_version = dr_schema_version basis,
      dr_scout_output_json = dr_scout_output_json basis, dr_confidence = co_confidence core,
      dr_risk_level = fused_risk_level advisory,
      dr_reason_codes_json = JArr (map JStr (unique_codes (co_reason_codes core @ [escalation_reason advisory]))),
      dr_configuration_version_id = dr_configuration_version_id basis, dr_execution_mode = None,
      dr_execution_outcome = ''NO_ACTION'', dr_validation_status = ''VALID'', dr_latency_ms = dr_latency_ms basis\<rparr>"

record fusion_call =
  fc_holidays :: "int \<Rightarrow> date list option"
  fc_settings :: settings
  fc_hash :: "json \<Rightarrow> string"
  fc_now :: instant

definition route_fused ::
  "fusion_call \<Rightarrow> agent_run \<Rightarrow> decision_row \<Rightarrow> string \<Rightarrow> fusion_db \<Rightarrow> (fusion_error + uuid option) \<times> fusion_db" where
  "route_fused fc run dc code fx =
     (let (cid, d1) = uuid7_draw (fx_db fx)
      in case route_trading_decision (fc_holidays fc) (fc_settings fc)
             \<lparr>rt_user = ar_owner_id run, rt_correlation_id = uuid_text cid, rt_now = fc_now fc\<rparr> (decision.truncate dc) d1 of
           (Inl e, _) \<Rightarrow> (Inl (FusionRoutingError e), fx)
         | (Inr _, d2) \<Rightarrow>
             (Inr (Some (dc_id dc)),
              run_upd (ar_id run)
                (\<lambda>r. (fusion_finish ''ESCALATED'' code r)\<lparr>ar_fusion_decision_id := Some (dc_id dc)\<rparr>) (fx\<lparr>fx_db := d2\<rparr>)))"

definition user_active :: "fusion_db \<Rightarrow> uuid \<Rightarrow> bool" where
  "user_active fx i = (case row_find ur_id i (fx_users fx) of None \<Rightarrow> False | Some u \<Rightarrow> ur_status u = ''ACTIVE'')"

definition escalate ::
  "fusion_call \<Rightarrow> agent_run \<Rightarrow> decision_row \<Rightarrow> decision_input_snapshot \<Rightarrow> string \<Rightarrow> core_output \<Rightarrow> fusion_db \<Rightarrow>
   (fusion_error + uuid option) \<times> fusion_db" where
  "escalate fc run basis inp advisory core fx =
     (let request_id = fusion_request_id (fc_hash fc) run basis
      in if \<not> user_active fx (ar_owner_id run)
         then (Inr None, run_upd (ar_id run) (fusion_finish ''FAILED_SAFE'' ''FUSION_USER_NOT_ACTIVE'') fx)
         else case row_find dr_evaluation_request_id request_id (fx_decisions fx) of
           Some existing \<Rightarrow> route_fused fc run existing ''FUSION_DECISION_REUSED'' fx
         | None \<Rightarrow>
             (let (i, d1) = uuid7_draw (fx_db fx);
                  dc = fused_decision i request_id inp basis advisory core;
                  (r, fx') = route_fused fc run dc (escalation_reason advisory)
                    (fx\<lparr>fx_db := d1\<lparr>decisions := decisions d1 @ [decision.truncate dc]\<rparr>, fx_decisions := fx_decisions fx @ [dc]\<rparr>)
              in case r of Inl e \<Rightarrow> (Inl e, fx) | Inr x \<Rightarrow> (Inr x, fx')))"

definition fuse_pending :: "fusion_call \<Rightarrow> agent_run \<Rightarrow> decision_row \<Rightarrow> fusion_db \<Rightarrow> (fusion_error + uuid option) \<times> fusion_db" where
  "fuse_pending fc run basis fx =
     (if dc_valid_until basis \<le> fc_now fc
      then (Inr None, run_upd (ar_id run) (fusion_finish ''EXPIRED'' ''FUSION_BASIS_EXPIRED'') fx)
      else case validate_frozen_input fx run basis of
        Inl e \<Rightarrow> (Inl e, fx)
      | Inr None \<Rightarrow> (Inr None, run_upd (ar_id run) (fusion_finish ''FAILED_SAFE'' ''FUSION_INPUT_MISMATCH'') fx)
      | Inr (Some (position, inp)) \<Rightarrow>
          (case position_unchanged (fx_db fx) position of
             Inl e \<Rightarrow> (Inl e, fx)
           | Inr False \<Rightarrow> (Inr None, run_upd (ar_id run) (fusion_finish ''FAILED_SAFE'' ''FUSION_POSITION_CHANGED'') fx)
           | Inr True \<Rightarrow>
               (case assess_run fx run (dc_action basis) of
                  Stop state code \<Rightarrow> (Inr None, run_upd (ar_id run) (fusion_finish state code) fx)
                | Escalate advisory core \<Rightarrow> escalate fc run basis inp advisory core fx)))"

definition finalize_position_advisory ::
  "fusion_call \<Rightarrow> agent_run \<Rightarrow> fusion_db \<Rightarrow> (fusion_error + uuid option) \<times> fusion_db" where
  "finalize_position_advisory fc run fx =
     (if ar_purpose run \<noteq> ''TRADING_ADVISORY'' then (Inr None, fx)
      else if ar_fusion_state run \<noteq> Some ''PENDING''
      then (Inr (Option.bind (ar_fusion_decision_id run) (\<lambda>i. map_option dc_id (row_find dc_id i (fx_decisions fx)))), fx)
      else case Option.bind (ar_basis_decision_id run) (\<lambda>i. row_find dc_id i (fx_decisions fx)) of
        None \<Rightarrow> (Inr None, run_upd (ar_id run) (fusion_finish ''FAILED_SAFE'' ''FUSION_BASIS_NOT_FOUND'') fx)
      | Some basis \<Rightarrow>
          if ar_fusion_policy_version run \<noteq> Some fusion_policy_version
          then (Inr None, run_upd (ar_id run) (fusion_finish ''FAILED_SAFE'' ''FUSION_BASIS_NOT_FOUND'') fx)
          else fuse_pending fc run basis fx)"

end
