(* ===== verification/Decision_Policy.thy ===== *)
theory Decision_Policy
  imports Position_Fusion
begin

text \<open>
  The deterministic analyst: \<open>app/decision_inputs.py\<close> freezes the market data a decision is made on,
  \<open>app/agents/server_inputs.py\<close> describes an open position, and \<open>app/mock_ai.py\<close> scores both and stores the decision.
  The policies read the frozen JSON document, as the code does; a raise on a malformed document is \<open>None\<close> there.
  The state adds to the ingestion tables the full decision and decision-input rows and the users.
\<close>

section \<open>State\<close>

record decision_input_row = decision_input_snapshot +
  di_purpose :: string
  di_schema_version :: string
  di_market :: string
  di_symbol :: string
  di_indicator_snapshot_id :: "uuid option"
  di_observed_at :: instant
  di_data_quality :: string
  di_session_state :: string
  di_input_hash :: digest

record analysis_settings =
  an_quote_stale_seconds :: int
  an_reconcile_interval_seconds :: int

text \<open>\<open>created_at\<close> and \<open>updated_at\<close> of a position row.\<close>

record position_times =
  pt_created_at :: instant
  pt_updated_at :: instant

record analysis_db =
  ay_db :: db
  ay_watch :: watch_db
  ay_users :: "user_row list"
  ay_inputs :: "decision_input_row list"
  ay_decisions :: "decision_row list"

datatype mock_error =
    DecisionIdempotencyConflict
  | DecisionSnapshotNotFound
  | DecisionUserNotFound
  | RiskPolicyInvalid
  | DecisionInputHashConflict
  | DecisionInputMalformed

section \<open>Frozen decision input\<close>

definition calculator_version :: string where
  "calculator_version = ''watch-indicators-v2''"

definition indicator_ready :: "indicator_snapshot option \<Rightarrow> bool" where
  "indicator_ready ind = (case ind of None \<Rightarrow> False | Some i \<Rightarrow> in_calculator_version i = calculator_version)"

definition indicator_values :: "indicator_snapshot \<Rightarrow> (string \<times> json) list" where
  "indicator_values i =
     [(''drawdown_from_high_pct'', JDec (in_drawdown_from_high_pct i)), (''input_end_at'', JTime (in_input_end_at i)),
      (''input_start_at'', JTime (in_input_start_at i)), (''minute_bar_count'', JInt (in_minute_bar_count i)),
      (''price_vs_vwap_pct'', json_opt JDec (in_price_vs_vwap_pct i)),
      (''realized_volatility_pct'', json_opt JDec (in_realized_volatility_pct i)),
      (''relative_volume_5'', json_opt JDec (in_relative_volume_5 i)), (''session_high'', JDec (in_session_high i)),
      (''sma5'', json_opt JDec (in_sma5 i)), (''sma5_slope_pct'', json_opt JDec (in_sma5_slope_pct i)),
      (''spread_pct'', json_opt JDec (in_spread_pct i)), (''vwap'', JDec (in_vwap i))]"

definition indicators_json :: "indicator_snapshot option \<Rightarrow> json" where
  "indicators_json ind =
     JObj ([(''calculator_version'', json_opt (JStr \<circ> in_calculator_version) ind),
        (''snapshot_id'', json_opt (json_uuid \<circ> in_id) ind),
        (''status'', JStr (if indicator_ready ind then ''READY'' else if ind = None then ''MISSING'' else ''VERSION_MISMATCH''))]
       @ (if indicator_ready ind then (case ind of None \<Rightarrow> [] | Some i \<Rightarrow> indicator_values i) else []))"

definition quality_json :: "quote_snapshot \<Rightarrow> quote_stream \<Rightarrow> instant \<Rightarrow> json" where
  "quality_json m s observed =
     JObj [(''age_seconds'', JDec (quote_age_seconds m observed)), (''snapshot'', JStr (m_quality m)), (''stream'', JStr (ms_quality s))]"

definition quote_json :: "quote_snapshot \<Rightarrow> json" where
  "quote_json m =
     JObj [(''best_ask_price'', json_opt JDec (m_best_ask_price m)), (''best_ask_quantity'', json_opt JInt (m_best_ask_quantity m)),
       (''best_bid_price'', json_opt JDec (m_best_bid_price m)), (''best_bid_quantity'', json_opt JInt (m_best_bid_quantity m)),
       (''cumulative_volume'', JInt (m_cumulative_volume m)), (''event_at'', JTime (m_event_at m)),
       (''high_price'', JDec (m_high_price m)), (''last_price'', JDec (m_last_price m)), (''low_price'', JDec (m_low_price m)),
       (''open_price'', JDec (m_open_price m)), (''received_at'', JTime (m_received_at m))]"

definition strategy_json :: "int \<Rightarrow> json" where
  "strategy_json stale = JObj [(''quote_stale_seconds'', JInt stale), (''score_policy_version'', JStr ''mock-score-v2'')]"

definition input_payload ::
  "string \<Rightarrow> quote_snapshot \<Rightarrow> quote_stream \<Rightarrow> instant \<Rightarrow> int \<Rightarrow> indicator_snapshot option \<Rightarrow> json option \<Rightarrow> json" where
  "input_payload purpose m s observed stale ind position =
     JObj [(''account_risk_summary'', JNull), (''configuration_version'', JNull), (''data_quality'', quality_json m s observed),
       (''indicators'', indicators_json ind), (''market'', JStr (m_market m)), (''market_context'', JNull),
       (''observed_at'', JTime observed), (''open_orders'', JArr []), (''position'', json_opt id position),
       (''prior_decision_summary'', JNull), (''purpose'', JStr purpose), (''quote'', quote_json m),
       (''schema_version'', JStr ''scout-input-v1''), (''session_state'', JStr (m_trading_status m)),
       (''snapshot_id'', json_uuid (m_id m)), (''strategy'', strategy_json stale), (''symbol'', JStr (m_symbol m))]"

definition input_row ::
  "uuid \<Rightarrow> uuid \<Rightarrow> string \<Rightarrow> quote_snapshot \<Rightarrow> quote_stream \<Rightarrow> instant \<Rightarrow> indicator_snapshot option \<Rightarrow> json \<Rightarrow> decision_input_row" where
  "input_row i user purpose m s observed ind payload =
     \<lparr>di_id = i, di_user_id = user, di_market_snapshot_id = m_id m, di_input_json = payload, di_purpose = purpose,
      di_schema_version = ''scout-input-v1'', di_market = m_market m, di_symbol = m_symbol m,
      di_indicator_snapshot_id = map_option in_id ind, di_observed_at = observed,
      di_data_quality = (if ms_quality s = ''NORMAL'' \<and> m_quality m = ''NORMAL'' then ''NORMAL'' else ''DEGRADED''),
      di_session_state = m_trading_status m, di_input_hash = Sha256 payload\<rparr>"

definition input_existing :: "analysis_db \<Rightarrow> uuid \<Rightarrow> string \<Rightarrow> uuid \<Rightarrow> digest \<Rightarrow> decision_input_row option" where
  "input_existing ay user purpose snapshot h =
     find (\<lambda>r. di_user_id r = user \<and> di_purpose r = purpose \<and> di_market_snapshot_id r = snapshot \<and> di_input_hash r = h) (ay_inputs ay)"

definition build_decision_input ::
  "uuid \<Rightarrow> string \<Rightarrow> quote_snapshot \<Rightarrow> quote_stream \<Rightarrow> instant \<Rightarrow> int \<Rightarrow> json option \<Rightarrow> analysis_db \<Rightarrow>
   mock_error + ((decision_input_row \<times> json) \<times> analysis_db)" where
  "build_decision_input user purpose m s observed stale position ay =
     (let ind = row_find in_market_snapshot_id (m_id m) (indicator_snapshots (ay_watch ay));
          payload = input_payload purpose m s observed stale ind position
      in case input_existing ay user purpose (m_id m) (Sha256 payload) of
           Some r \<Rightarrow> if di_input_json r \<noteq> payload then Inl DecisionInputHashConflict else Inr ((r, payload), ay)
         | None \<Rightarrow>
             (let (i, d1) = uuid7_draw (ay_db ay); r = input_row i user purpose m s observed ind payload
              in Inr ((r, payload), ay\<lparr>ay_db := d1, ay_inputs := ay_inputs ay @ [r]\<rparr>)))"

section \<open>Position description\<close>

definition quantize6_half_up :: "decimal \<Rightarrow> decimal" where
  "quantize6_half_up = quantize round_half_up 6"

definition unrealized_return_pct :: "position \<Rightarrow> decimal \<Rightarrow> decimal" where
  "unrealized_return_pct p price =
     (let cost = p_average_price p * of_int (p_quantity p)
      in if 0 < cost then (price * of_int (p_quantity p) - cost) / cost * 100 else 0)"

definition drawdown_pct :: "decimal \<Rightarrow> decimal \<Rightarrow> decimal" where
  "drawdown_pct price high = (if 0 < high then (price / high - 1) * 100 else 0)"

definition position_stop_price :: "risk_policy \<Rightarrow> position \<Rightarrow> decimal" where
  "position_stop_price rp p = p_average_price p * (1 + rp_fixed_stop_loss_pct rp / 100)"

definition distance_to_stop_pct :: "decimal \<Rightarrow> decimal \<Rightarrow> decimal" where
  "distance_to_stop_pct price stop = (if 0 < price then (price - stop) / price * 100 else 0)"

definition position_age_seconds :: "quote_snapshot \<Rightarrow> instant \<Rightarrow> int" where
  "position_age_seconds m since = max 0 ((m_event_at m - since) div 1000000)"

definition stale_threshold_seconds :: "analysis_settings \<Rightarrow> int" where
  "stale_threshold_seconds an = max 120 (an_reconcile_interval_seconds an * 2)"

definition freshness_json :: "analysis_settings \<Rightarrow> quote_snapshot \<Rightarrow> position_times \<Rightarrow> json" where
  "freshness_json an m pt =
     (let age = position_age_seconds m (pt_updated_at pt)
      in JObj [(''age_seconds'', JInt age), (''stale_threshold_seconds'', JInt (stale_threshold_seconds an)),
           (''status'', JStr (if stale_threshold_seconds an < age then ''STALE'' else ''FRESH''))])"

definition risk_source_json :: "configuration_version option \<Rightarrow> risk_policy \<Rightarrow> json" where
  "risk_source_json v rp =
     JObj [(''payload_hash'', digest_json (case v of None \<Rightarrow> Sha256 (risk_policy_json rp) | Some c \<Rightarrow> cv_payload_hash c)),
       (''source'', JStr (if v = None then ''SAFE_DEFAULT'' else ''ACTIVE'')), (''version_id'', json_opt (json_uuid \<circ> cv_id) v)]"

definition position_amounts :: "risk_policy \<Rightarrow> position \<Rightarrow> quote_snapshot \<Rightarrow> (string \<times> json) list" where
  "position_amounts rp p m =
     (let price = m_last_price m; qty = of_int (p_quantity p); stop = position_stop_price rp p
      in [(''average_price'', JDec (quantize4_half_up (p_average_price p))), (''current_price'', JDec (quantize4_half_up price)),
          (''cost_basis_amount'', JDec (quantize4_half_up (p_average_price p * qty))),
          (''market_value_amount'', JDec (quantize4_half_up (price * qty))),
          (''unrealized_pnl_amount'', JDec (quantize4_half_up (price * qty - p_average_price p * qty))),
          (''unrealized_return_pct'', JDec (quantize6_half_up (unrealized_return_pct p price))),
          (''session_high_price'', JDec (quantize4_half_up (m_high_price m))),
          (''drawdown_from_session_high_pct'', JDec (quantize6_half_up (drawdown_pct price (m_high_price m)))),
          (''fixed_stop_loss_pct'', JDec (quantize6_half_up (rp_fixed_stop_loss_pct rp))),
          (''fixed_stop_price'', JDec (quantize4_half_up stop)),
          (''distance_to_fixed_stop_pct'', JDec (quantize6_half_up (distance_to_stop_pct price stop)))])"

definition position_document ::
  "analysis_settings \<Rightarrow> configuration_version option \<Rightarrow> risk_policy \<Rightarrow> position \<Rightarrow> position_times \<Rightarrow> quote_snapshot \<Rightarrow> json" where
  "position_document an v rp p pt m =
     JObj ([(''marker'', JStr ''OPEN_POSITION''), (''calculation_version'', JStr ''position-risk-input-v1''),
        (''position_id'', json_uuid (p_id p)), (''account_alias'', JStr (p_account_alias p)), (''symbol'', JStr (p_symbol p)),
        (''quantity'', JInt (p_quantity p)), (''remaining_quantity'', JInt (p_quantity p))]
       @ position_amounts rp p m @
       [(''tracked_since_at'', JTime (pt_created_at pt)),
        (''tracked_duration_seconds'', JInt (position_age_seconds m (pt_created_at pt))),
        (''position_observed_at'', JTime (pt_updated_at pt)), (''market_observed_at'', JTime (m_event_at m)),
        (''freshness'', freshness_json an m pt), (''risk_policy'', risk_source_json v rp),
        (''source_refs'', JArr [json_uuid (m_id m), json_uuid (p_id p)]),
        (''state'', JStr (if p_state p = PS_OPEN then ''OPEN'' else ''CLOSED'')), (''version'', JInt (p_version p))])"

definition build_position_snapshot ::
  "analysis_settings \<Rightarrow> uuid \<Rightarrow> position \<Rightarrow> position_times \<Rightarrow> quote_snapshot \<Rightarrow> db \<Rightarrow> json option" where
  "build_position_snapshot an user p pt m d =
     (let v = active_risk_policy d (uuid_text user)
      in map_option (\<lambda>rp. position_document an v rp p pt m) (risk_policy_payload v))"

section \<open>Reading the frozen input\<close>

text \<open>The short-circuit \<open>and\<close> of conditions that may raise.\<close>

definition and_then :: "bool option \<Rightarrow> bool option \<Rightarrow> bool option" where
  "and_then a b = (case a of None \<Rightarrow> None | Some False \<Rightarrow> Some False | Some True \<Rightarrow> b)"

definition trading_states :: "string list" where
  "trading_states = [''TRADING'', ''OPEN'', ''NORMAL'', ''CONTINUOUS'']"

definition text_is :: "string \<Rightarrow> string list \<Rightarrow> json \<Rightarrow> bool option" where
  "text_is k vs j = map_option (\<lambda>v. v \<in> set (map JStr vs)) (json_get k j)"

definition field_decimal :: "string \<Rightarrow> json \<Rightarrow> decimal option" where
  "field_decimal k j = Option.bind (json_get k j) json_decimal"

text \<open>\<open>metric\<close>: a missing or null indicator is no value, a text that is no number raises.\<close>

definition metric :: "string \<Rightarrow> json \<Rightarrow> decimal option option" where
  "metric k j =
     (case json_get k j of None \<Rightarrow> Some None | Some JNull \<Rightarrow> Some None | Some v \<Rightarrow> map_option Some (json_decimal v))"

text \<open>The three sub-documents every policy asserts to be objects.\<close>

definition input_parts :: "json \<Rightarrow> (json \<times> json \<times> json) option" where
  "input_parts j = do {
     quality \<leftarrow> json_get ''data_quality'' j;
     indicators \<leftarrow> json_get ''indicators'' j;
     strategy \<leftarrow> json_get ''strategy'' j;
     if is_dict quality \<and> is_dict indicators \<and> is_dict strategy then Some (quality, indicators, strategy) else None }"

definition quotes_ready :: "json \<Rightarrow> bool option \<Rightarrow> bool option" where
  "quotes_ready quality rest =
     and_then (text_is ''stream'' [''NORMAL''] quality) (and_then (text_is ''snapshot'' [''NORMAL''] quality) rest)"

definition session_ready :: "json \<Rightarrow> json \<Rightarrow> bool option" where
  "session_ready j indicators =
     and_then (text_is ''session_state'' trading_states j) (text_is ''status'' [''READY''] indicators)"

definition age_ready :: "decimal option \<Rightarrow> json \<Rightarrow> bool option" where
  "age_ready age strategy =
     Option.bind age (\<lambda>a. map_option (\<lambda>lim. a \<le> lim) (field_decimal ''quote_stale_seconds'' strategy))"

definition entry_ready :: "json \<Rightarrow> json \<Rightarrow> json \<Rightarrow> json \<Rightarrow> bool option" where
  "entry_ready j quality indicators strategy =
     Option.bind (field_decimal ''age_seconds'' quality)
       (\<lambda>age. quotes_ready quality (and_then (age_ready (Some age) strategy) (session_ready j indicators)))"

section \<open>Entry policy\<close>

record entry_metrics =
  em_price_vs_vwap :: "decimal option"
  em_sma5_slope :: "decimal option"
  em_relative_volume :: "decimal option"
  em_volatility :: "decimal option"
  em_drawdown :: "decimal option"
  em_spread :: "decimal option"

definition entry_metrics_of :: "json \<Rightarrow> entry_metrics option" where
  "entry_metrics_of indicators = do {
     vwap \<leftarrow> metric ''price_vs_vwap_pct'' indicators;
     slope \<leftarrow> metric ''sma5_slope_pct'' indicators;
     volume \<leftarrow> metric ''relative_volume_5'' indicators;
     volatility \<leftarrow> metric ''realized_volatility_pct'' indicators;
     drawdown \<leftarrow> metric ''drawdown_from_high_pct'' indicators;
     spread \<leftarrow> metric ''spread_pct'' indicators;
     Some \<lparr>em_price_vs_vwap = vwap, em_sma5_slope = slope, em_relative_volume = volume, em_volatility = volatility,
       em_drawdown = drawdown, em_spread = spread\<rparr> }"

text \<open>\<open>x is not None and P x\<close>.\<close>

definition holds_of :: "(decimal \<Rightarrow> bool) \<Rightarrow> decimal option \<Rightarrow> bool" where
  "holds_of P x = (case x of None \<Rightarrow> False | Some v \<Rightarrow> P v)"

definition entry_vwap :: "entry_metrics \<Rightarrow> int \<times> string list" where
  "entry_vwap m = (if holds_of (\<lambda>x. 0 \<le> x) (em_price_vs_vwap m) then (15, [''ABOVE_VWAP'']) else (- 15, [''BELOW_VWAP'']))"

definition entry_slope :: "entry_metrics \<Rightarrow> int \<times> string list" where
  "entry_slope m =
     (if holds_of (\<lambda>x. 5 / 100 < x) (em_sma5_slope m) then (10, [''BREAKOUT_CONFIRMED''])
      else if holds_of (\<lambda>x. x < - 5 / 100) (em_sma5_slope m) then (- 10, [''BREAKDOWN_DETECTED'']) else (0, []))"

definition entry_volume :: "entry_metrics \<Rightarrow> int \<times> string list" where
  "entry_volume m =
     (if holds_of (\<lambda>x. 12 / 10 \<le> x) (em_relative_volume m) then (10, [''VOLUME_STRENGTHENING''])
      else if holds_of (\<lambda>x. x \<le> 8 / 10) (em_relative_volume m) then (- 10, [''VOLUME_WEAKENING'']) else (0, []))"

definition entry_drawdown :: "entry_metrics \<Rightarrow> int \<times> string list" where
  "entry_drawdown m = (if holds_of (\<lambda>x. x \<le> - 1) (em_drawdown m) then (- 15, [''DRAWDOWN_FROM_HIGH'']) else (0, []))"

definition entry_volatility :: "entry_metrics \<Rightarrow> int \<times> string list" where
  "entry_volatility m =
     (if holds_of (\<lambda>x. 3 \<le> x) (em_volatility m) then (0, [''VOLATILITY_EXPANDING''])
      else if holds_of (\<lambda>x. 15 / 10 \<le> x) (em_volatility m) then (- 10, [''VOLATILITY_EXPANDING'']) else (0, []))"

definition spread_wide :: "entry_metrics \<Rightarrow> bool" where
  "spread_wide m = holds_of (\<lambda>x. 1 / 2 < x) (em_spread m)"

definition volume_state :: "decimal option \<Rightarrow> string" where
  "volume_state v =
     (if holds_of (\<lambda>x. 12 / 10 \<le> x) v then ''STRENGTHENING'' else if holds_of (\<lambda>x. x \<le> 8 / 10) v then ''WEAKENING''
      else if v = None then ''UNKNOWN'' else ''NORMAL'')"

definition volatility_state :: "decimal option \<Rightarrow> string" where
  "volatility_state v =
     (if v = None then ''UNKNOWN'' else if holds_of (\<lambda>x. 3 \<le> x) v then ''EXTREME''
      else if holds_of (\<lambda>x. 15 / 10 \<le> x) v then ''EXPANDING'' else ''NORMAL'')"

definition clamp100 :: "int \<Rightarrow> int" where
  "clamp100 n = min (max n 0) 100"

definition entry_raw_score :: "entry_metrics \<Rightarrow> int" where
  "entry_raw_score m =
     50 + fst (entry_vwap m) + fst (entry_slope m) + fst (entry_volume m) + fst (entry_drawdown m) + fst (entry_volatility m)"

definition entry_score :: "entry_metrics \<Rightarrow> int" where
  "entry_score m = clamp100 (entry_raw_score m)"

definition entry_reasons :: "entry_metrics \<Rightarrow> string list" where
  "entry_reasons m =
     snd (entry_vwap m) @ snd (entry_slope m) @ snd (entry_volume m) @ snd (entry_drawdown m) @ snd (entry_volatility m) @
     (if spread_wide m then [''SPREAD_WIDE''] else [])"

definition hard_block :: "entry_metrics \<Rightarrow> bool" where
  "hard_block m = (spread_wide m \<or> volatility_state (em_volatility m) = ''EXTREME'')"

definition entry_action :: "entry_metrics \<Rightarrow> string \<times> decimal" where
  "entry_action m =
     (if hard_block m then (''RISK_BLOCK'', 1) else if 70 \<le> entry_score m then (''BUY'', 75 / 100)
      else if 45 \<le> entry_score m then (''WAIT'', 60 / 100) else (''REJECT'', 70 / 100))"

definition entry_trend :: "entry_metrics \<Rightarrow> string" where
  "entry_trend m =
     (if holds_of (\<lambda>x. 0 \<le> x) (em_price_vs_vwap m) \<and> (em_sma5_slope m = None \<or> holds_of (\<lambda>x. 0 \<le> x) (em_sma5_slope m)) then ''UPTREND''
      else if holds_of (\<lambda>x. 0 \<le> x) (em_price_vs_vwap m) then ''UPTREND_WEAKENING''
      else if holds_of (\<lambda>x. x < 0) (em_sma5_slope m) then ''DOWNTREND'' else ''RANGE'')"

definition entry_risk_level :: "string \<Rightarrow> string" where
  "entry_risk_level a = (if a = ''RISK_BLOCK'' then ''HIGH'' else if a = ''BUY'' \<or> a = ''REJECT'' then ''MEDIUM'' else ''LOW'')"

record scout_view =
  sv_trend :: string
  sv_volume :: string
  sv_volatility :: string
  sv_entry_score :: int
  sv_exit_risk_score :: int
  sv_core_review_required :: bool
  sv_suggested_review :: string

record core_view =
  cw_action :: string
  cw_confidence :: decimal
  cw_risk_level :: string
  cw_sell_ratio :: json
  cw_reason_codes :: "string list"

definition unknown_scout :: "string \<Rightarrow> scout_view" where
  "unknown_scout review =
     \<lparr>sv_trend = ''UNKNOWN'', sv_volume = ''UNKNOWN'', sv_volatility = ''UNKNOWN'', sv_entry_score = 0, sv_exit_risk_score = 100,
      sv_core_review_required = True, sv_suggested_review = review\<rparr>"

definition insufficient_core :: "string \<Rightarrow> core_view" where
  "insufficient_core action =
     \<lparr>cw_action = action, cw_confidence = 1, cw_risk_level = ''HIGH'', cw_sell_ratio = JNull, cw_reason_codes = [''DATA_INSUFFICIENT'']\<rparr>"

definition entry_verdict :: "entry_metrics \<Rightarrow> scout_view \<times> core_view" where
  "entry_verdict m =
     (\<lparr>sv_trend = entry_trend m, sv_volume = volume_state (em_relative_volume m), sv_volatility = volatility_state (em_volatility m),
       sv_entry_score = entry_score m, sv_exit_risk_score = max 0 (100 - entry_score m), sv_core_review_required = True,
       sv_suggested_review = ''ENTRY''\<rparr>,
      \<lparr>cw_action = fst (entry_action m), cw_confidence = snd (entry_action m), cw_risk_level = entry_risk_level (fst (entry_action m)),
       cw_sell_ratio = JNull, cw_reason_codes = entry_reasons m\<rparr>)"

text \<open>\<open>_outputs\<close>.\<close>

definition entry_outputs :: "json \<Rightarrow> (scout_view \<times> core_view) option" where
  "entry_outputs j = do {
     (quality, indicators, strategy) \<leftarrow> input_parts j;
     ready \<leftarrow> entry_ready j quality indicators strategy;
     if \<not> ready then Some (unknown_scout ''ENTRY'', insufficient_core ''RISK_BLOCK'')
     else map_option entry_verdict (entry_metrics_of indicators) }"

section \<open>Position policy\<close>

definition position_ready :: "json \<Rightarrow> json option \<Rightarrow> json \<Rightarrow> json \<Rightarrow> json \<Rightarrow> bool option" where
  "position_ready j position quality indicators strategy =
     (case position of
        None \<Rightarrow> Some False
      | Some p \<Rightarrow>
          if \<not> is_dict p \<or> json_get ''marker'' p \<noteq> Some (JStr ''OPEN_POSITION'') \<or> json_get ''state'' p \<noteq> Some (JStr ''OPEN'') \<or>
             Option.bind (json_get ''freshness'' p) (json_get ''status'') \<noteq> Some (JStr ''FRESH'')
          then Some False
          else and_then (map_option (\<lambda>x. 0 < x) (json_decimal (case json_get ''average_price'' p of None \<Rightarrow> JInt 0 | Some v \<Rightarrow> v)))
            (and_then (map_option (\<lambda>x. 0 < x) (json_decimal (case json_get ''current_price'' p of None \<Rightarrow> JInt 0 | Some v \<Rightarrow> v)))
              (quotes_ready quality
                (and_then (age_ready (field_decimal ''age_seconds'' quality) strategy) (session_ready j indicators)))))"

record position_metrics =
  pm_unrealized_return :: decimal
  pm_distance_to_stop :: decimal
  pm_drawdown :: decimal
  pm_price_vs_vwap :: "decimal option"
  pm_sma5_slope :: "decimal option"
  pm_relative_volume :: "decimal option"
  pm_volatility :: "decimal option"

definition position_metrics_of :: "json \<Rightarrow> json \<Rightarrow> position_metrics option" where
  "position_metrics_of position indicators = do {
     return_pct \<leftarrow> field_decimal ''unrealized_return_pct'' position;
     distance \<leftarrow> field_decimal ''distance_to_fixed_stop_pct'' position;
     drawdown \<leftarrow> field_decimal ''drawdown_from_session_high_pct'' position;
     vwap \<leftarrow> metric ''price_vs_vwap_pct'' indicators;
     slope \<leftarrow> metric ''sma5_slope_pct'' indicators;
     volume \<leftarrow> metric ''relative_volume_5'' indicators;
     volatility \<leftarrow> metric ''realized_volatility_pct'' indicators;
     Some \<lparr>pm_unrealized_return = return_pct, pm_distance_to_stop = distance, pm_drawdown = drawdown, pm_price_vs_vwap = vwap,
       pm_sma5_slope = slope, pm_relative_volume = volume, pm_volatility = volatility\<rparr> }"

definition position_loss :: "position_metrics \<Rightarrow> int \<times> string list" where
  "position_loss m = (if pm_unrealized_return m < 0 then (10, [''POSITION_LOSING'']) else (0, [''POSITION_PROFITABLE'']))"

text \<open>A crossed stop sets the score, a near one adds to it.\<close>

definition position_stop :: "position_metrics \<Rightarrow> int \<Rightarrow> int \<times> string list" where
  "position_stop m score =
     (if pm_distance_to_stop m \<le> 0 then (100, [''FIXED_STOP_TRIGGERED''])
      else if pm_distance_to_stop m \<le> 1 / 2 then (score + 35, [''FIXED_STOP_NEAR'']) else (score, []))"

definition position_vwap :: "position_metrics \<Rightarrow> int \<times> string list" where
  "position_vwap m = (if holds_of (\<lambda>x. x < 0) (pm_price_vs_vwap m) then (15, [''BELOW_VWAP'']) else (0, []))"

definition position_slope :: "position_metrics \<Rightarrow> int \<times> string list" where
  "position_slope m = (if holds_of (\<lambda>x. x < - 5 / 100) (pm_sma5_slope m) then (15, [''BREAKDOWN_DETECTED'']) else (0, []))"

definition position_drawdown :: "position_metrics \<Rightarrow> int \<times> string list" where
  "position_drawdown m =
     (if pm_drawdown m \<le> - 2 then (25, [''DRAWDOWN_HIGH'']) else if pm_drawdown m \<le> - 1 then (15, [''DRAWDOWN_MODERATE''])
      else (0, [''DRAWDOWN_LOW'']))"

definition position_volume :: "position_metrics \<Rightarrow> int \<times> string list" where
  "position_volume m = (if holds_of (\<lambda>x. x \<le> 8 / 10) (pm_relative_volume m) then (5, [''VOLUME_WEAKENING'']) else (0, []))"

definition position_volatility :: "position_metrics \<Rightarrow> int \<times> string list" where
  "position_volatility m =
     (if holds_of (\<lambda>x. 3 \<le> x) (pm_volatility m) then (20, [''VOLATILITY_EXPANDING''])
      else if holds_of (\<lambda>x. 15 / 10 \<le> x) (pm_volatility m) then (10, [''VOLATILITY_EXPANDING'']) else (0, []))"

definition position_trend :: "position_metrics \<Rightarrow> string" where
  "position_trend m =
     (if holds_of (\<lambda>x. x < - 5 / 100) (pm_sma5_slope m) then ''DOWNTREND''
      else if holds_of (\<lambda>x. 0 \<le> x) (pm_price_vs_vwap m) then ''UPTREND'' else ''RANGE'')"

definition exit_risk_score :: "position_metrics \<Rightarrow> int" where
  "exit_risk_score m =
     clamp100 (fst (position_stop m (15 + fst (position_loss m))) + fst (position_vwap m) + fst (position_slope m)
       + fst (position_drawdown m) + fst (position_volume m) + fst (position_volatility m))"

definition position_reasons :: "position_metrics \<Rightarrow> string list" where
  "position_reasons m =
     snd (position_loss m) @ snd (position_stop m (15 + fst (position_loss m))) @ snd (position_vwap m) @ snd (position_slope m) @
     snd (position_drawdown m) @ snd (position_volume m) @ snd (position_volatility m)"

definition position_core :: "position_metrics \<Rightarrow> core_view" where
  "position_core m =
     (let score = exit_risk_score m; reasons = position_reasons m
      in if 90 \<le> score
         then \<lparr>cw_action = ''FULL_SELL'', cw_confidence = 85 / 100, cw_risk_level = ''HIGH'', cw_sell_ratio = JNull,
                cw_reason_codes = reasons @ [''POSITION_RISK_CRITICAL'']\<rparr>
         else if 70 \<le> score
         then \<lparr>cw_action = ''PARTIAL_SELL'', cw_confidence = 75 / 100, cw_risk_level = ''HIGH'', cw_sell_ratio = JStr ''0.5'',
                cw_reason_codes = reasons @ [''POSITION_RISK_ELEVATED'']\<rparr>
         else \<lparr>cw_action = ''HOLD'', cw_confidence = 70 / 100, cw_risk_level = (if score < 45 then ''LOW'' else ''MEDIUM''),
                cw_sell_ratio = JNull, cw_reason_codes = reasons @ [''POSITION_RISK_NORMAL'']\<rparr>)"

definition position_verdict :: "position_metrics \<Rightarrow> scout_view \<times> core_view" where
  "position_verdict m =
     (\<lparr>sv_trend = position_trend m, sv_volume = (if holds_of (\<lambda>x. x \<le> 8 / 10) (pm_relative_volume m) then ''WEAKENING''
         else volume_state (pm_relative_volume m)),
       sv_volatility = volatility_state (pm_volatility m), sv_entry_score = 0, sv_exit_risk_score = exit_risk_score m,
       sv_core_review_required = (cw_action (position_core m) \<noteq> ''HOLD''), sv_suggested_review = ''HOLDING''\<rparr>,
      position_core m)"

text \<open>\<open>_position_outputs\<close>.\<close>

definition position_outputs :: "json \<Rightarrow> (scout_view \<times> core_view) option" where
  "position_outputs j = do {
     (quality, indicators, strategy) \<leftarrow> input_parts j;
     let position = json_get ''position'' j;
     ready \<leftarrow> position_ready j position quality indicators strategy;
     if \<not> ready then Some (unknown_scout ''HOLDING'', insufficient_core ''HOLD'')
     else do { p \<leftarrow> position; map_option position_verdict (position_metrics_of p indicators) } }"

section \<open>Decisions\<close>

definition scout_json :: "scout_view \<Rightarrow> string list \<Rightarrow> json" where
  "scout_json sv reasons =
     JObj [(''core_review_required'', JBool (sv_core_review_required sv)), (''entry_score'', JInt (sv_entry_score sv)),
       (''exit_risk_score'', JInt (sv_exit_risk_score sv)), (''reason_codes'', JArr (map JStr reasons)),
       (''suggested_review'', JStr (sv_suggested_review sv)), (''trend_state'', JStr (sv_trend sv)),
       (''volatility_state'', JStr (sv_volatility sv)), (''volume_state'', JStr (sv_volume sv))]"

definition core_json :: "core_view \<Rightarrow> json" where
  "core_json cw =
     JObj [(''action'', JStr (cw_action cw)), (''confidence'', JDec (cw_confidence cw)),
       (''reason_codes'', JArr (map JStr (cw_reason_codes cw))), (''risk_level'', JStr (cw_risk_level cw)),
       (''sell_ratio'', cw_sell_ratio cw)]"

record mock_request =
  mr_user_id :: uuid
  mr_evaluation_request_id :: string
  mr_symbol :: string
  mr_market :: string
  mr_purpose :: string
  mr_decision_kind :: string
  mr_position :: "(position \<times> position_times) option"
  mr_now :: instant

definition position_kind :: "mock_request \<Rightarrow> bool" where
  "position_kind rq = (mr_decision_kind rq = ''POSITION'')"

definition mock_decision_row :: "mock_request \<Rightarrow> uuid \<Rightarrow> uuid \<Rightarrow> uuid \<Rightarrow> scout_view \<times> core_view \<Rightarrow> decision_row" where
  "mock_decision_row rq i inp snapshot out =
     \<lparr>dc_id = i, dc_purpose = mr_purpose rq, dc_input_snapshot_id = snapshot, dc_symbol = mr_symbol rq, dc_market = mr_market rq,
      dc_action = cw_action (snd out), dc_core_output_json = core_json (snd out),
      dc_valid_until = mr_now rq + (if position_kind rq then 5 else 1) * 60000000, dr_decision_input_id = Some inp,
      dr_evaluation_request_id = mr_evaluation_request_id rq, dr_decision_kind = mr_decision_kind rq, dr_model_provider = ''CRESTA'',
      dr_model_id = (if position_kind rq then ''deterministic-position-v1'' else ''deterministic-mock-v2''),
      dr_prompt_version = (if position_kind rq then ''mock-position-policy-v1'' else ''mock-entry-indicators-v2''),
      dr_schema_version = ''1.0'', dr_scout_output_json = scout_json (fst out) (cw_reason_codes (snd out)),
      dr_confidence = cw_confidence (snd out), dr_risk_level = cw_risk_level (snd out),
      dr_reason_codes_json = JArr (map JStr (cw_reason_codes (snd out))), dr_configuration_version_id = None,
      dr_execution_mode = None, dr_execution_outcome = ''NO_ACTION'', dr_validation_status = ''VALID'', dr_latency_ms = 0\<rparr>"

definition decision_conflicts :: "mock_request \<Rightarrow> decision_row \<Rightarrow> bool" where
  "decision_conflicts rq r =
     (dc_symbol r \<noteq> mr_symbol rq \<or> dc_market r \<noteq> mr_market rq \<or> dc_purpose r \<noteq> mr_purpose rq \<or> dr_decision_kind r \<noteq> mr_decision_kind rq)"

definition current_quote :: "watch_db \<Rightarrow> string \<Rightarrow> string \<Rightarrow> (quote_stream \<times> quote_snapshot) option" where
  "current_quote w market symbol = do {
     s \<leftarrow> stream_of w market symbol;
     i \<leftarrow> ms_current_snapshot_id s;
     m \<leftarrow> row_find m_id i (quote_snapshots w);
     Some (s, m) }"

text \<open>The description of the position of the request, when it has one.\<close>

definition request_position ::
  "analysis_settings \<Rightarrow> mock_request \<Rightarrow> quote_snapshot \<Rightarrow> analysis_db \<Rightarrow> mock_error + json option" where
  "request_position an rq m ay =
     (if \<not> position_kind rq then Inr None
      else case mr_position rq of
        None \<Rightarrow> Inr None
      | Some (p, pt) \<Rightarrow>
          if row_find ur_id (mr_user_id rq) (ay_users ay) = None then Inl DecisionUserNotFound
          else (case build_position_snapshot an (mr_user_id rq) p pt m (ay_db ay) of
                  None \<Rightarrow> Inl RiskPolicyInvalid
                | Some j \<Rightarrow> Inr (Some j)))"

definition policy_outputs :: "mock_request \<Rightarrow> json \<Rightarrow> (scout_view \<times> core_view) option" where
  "policy_outputs rq j = (if position_kind rq then position_outputs j else entry_outputs j)"

definition store_decision :: "mock_request \<Rightarrow> uuid \<Rightarrow> uuid \<Rightarrow> scout_view \<times> core_view \<Rightarrow> analysis_db \<Rightarrow> decision_row \<times> analysis_db" where
  "store_decision rq inp snapshot out ay =
     (let (i, d1) = uuid7_draw (ay_db ay); r = mock_decision_row rq i inp snapshot out
      in (r, ay\<lparr>ay_db := d1\<lparr>decisions := decisions d1 @ [decision.truncate r]\<rparr>, ay_decisions := ay_decisions ay @ [r]\<rparr>))"

definition create_new_decision ::
  "analysis_settings \<Rightarrow> mock_request \<Rightarrow> quote_stream \<Rightarrow> quote_snapshot \<Rightarrow> analysis_db \<Rightarrow> (mock_error + decision_row) \<times> analysis_db" where
  "create_new_decision an rq s m ay =
     (case request_position an rq m ay of
        Inl e \<Rightarrow> (Inl e, ay)
      | Inr position \<Rightarrow>
          (case build_decision_input (mr_user_id rq) (mr_purpose rq) m s (mr_now rq) (an_quote_stale_seconds an) position ay of
             Inl e \<Rightarrow> (Inl e, ay)
           | Inr ((inp, payload), ay1) \<Rightarrow>
               (case policy_outputs rq payload of
                  None \<Rightarrow> (Inl DecisionInputMalformed, ay)
                | Some out \<Rightarrow> apfst Inr (store_decision rq (di_id inp) (m_id m) out ay1))))"

text \<open>The flag tells whether the decision is new.\<close>

definition create_mock_decision ::
  "analysis_settings \<Rightarrow> mock_request \<Rightarrow> analysis_db \<Rightarrow> (mock_error + decision_row \<times> bool) \<times> analysis_db" where
  "create_mock_decision an rq ay =
     (case row_find dr_evaluation_request_id (mr_evaluation_request_id rq) (ay_decisions ay) of
        Some r \<Rightarrow> (if decision_conflicts rq r then Inl DecisionIdempotencyConflict else Inr (r, False), ay)
      | None \<Rightarrow>
          (case current_quote (ay_watch ay) (mr_market rq) (mr_symbol rq) of
             None \<Rightarrow> (Inl DecisionSnapshotNotFound, ay)
           | Some (s, m) \<Rightarrow> apfst (map_sum id (\<lambda>r. (r, True))) (create_new_decision an rq s m ay)))"

definition evaluate_mock_decision ::
  "analysis_settings \<Rightarrow> uuid \<Rightarrow> string \<Rightarrow> string \<Rightarrow> string \<Rightarrow> instant \<Rightarrow> analysis_db \<Rightarrow> (mock_error + decision_row) \<times> analysis_db" where
  "evaluate_mock_decision an user request symbol market now ay =
     apfst (map_sum id fst) (create_mock_decision an
       \<lparr>mr_user_id = user, mr_evaluation_request_id = request, mr_symbol = symbol, mr_market = market, mr_purpose = ''DIAGNOSTIC'',
        mr_decision_kind = ''ENTRY'', mr_position = None, mr_now = now\<rparr> ay)"

definition create_mock_trading_decision ::
  "analysis_settings \<Rightarrow> uuid \<Rightarrow> string \<Rightarrow> string \<Rightarrow> string \<Rightarrow> instant \<Rightarrow> analysis_db \<Rightarrow>
   (mock_error + decision_row \<times> bool) \<times> analysis_db" where
  "create_mock_trading_decision an user request symbol market now ay =
     create_mock_decision an
       \<lparr>mr_user_id = user, mr_evaluation_request_id = request, mr_symbol = symbol, mr_market = market, mr_purpose = ''TRADING'',
        mr_decision_kind = ''ENTRY'', mr_position = None, mr_now = now\<rparr> ay"

definition create_mock_position_trading_decision ::
  "analysis_settings \<Rightarrow> uuid \<Rightarrow> position \<Rightarrow> position_times \<Rightarrow> string \<Rightarrow> string \<Rightarrow> string \<Rightarrow> instant \<Rightarrow> analysis_db \<Rightarrow>
   (mock_error + decision_row \<times> bool) \<times> analysis_db" where
  "create_mock_position_trading_decision an user p pt request symbol market now ay =
     create_mock_decision an
       \<lparr>mr_user_id = user, mr_evaluation_request_id = request, mr_symbol = symbol, mr_market = market, mr_purpose = ''TRADING'',
        mr_decision_kind = ''POSITION'', mr_position = Some (p, pt), mr_now = now\<rparr> ay"

end
