(* ===== verification/Fusion_Properties.thy ===== *)
theory Fusion_Properties
  imports Position_Fusion
begin

text \<open>
  The agents can only make the reaction to a position stronger, never weaker: a fused decision is bound to one
  unexpired deterministic decision, to the frozen position and to a complete, confident set of stages. A run is
  finished once, and repeating it finds its decision again.
\<close>

section \<open>Frames\<close>

lemma run_upd_frame [simp]:
  "fx_decisions (run_upd i f fx) = fx_decisions fx"
  "fx_runs (run_upd i f fx) = row_upd ar_id i f (fx_runs fx)"
  by (simp_all add: run_upd_def)

lemma fusion_finish_sel [simp]:
  "ar_id (fusion_finish s c run) = ar_id run"
  "ar_purpose (fusion_finish s c run) = ar_purpose run"
  "ar_fusion_state (fusion_finish s c run) = Some s"
  "ar_fusion_decision_id (fusion_finish s c run) = ar_fusion_decision_id run"
  by (simp_all add: fusion_finish_def)

lemma assess_states: "assess_run fx run a = Stop s c \<Longrightarrow> s \<noteq> ''PENDING''"
  by (auto simp: assess_run_def assess_core_def split: if_splits option.splits)

lemma assess_escalates:
  assumes "assess_run fx run a = Escalate adv core"
  shows "stages_complete fx (ar_id run) \<and> minimum_confidence \<le> co_confidence core \<and>
    (\<exists>sa sb. action_severity a = Some sa \<and> action_severity adv = Some sb \<and> sa < sb)"
  using assms by (auto simp: assess_run_def assess_core_def not_less not_le split: if_splits option.splits)

lemma advisory_sells: "action_severity a = Some sa \<Longrightarrow> action_severity adv = Some sb \<Longrightarrow> sa < sb \<Longrightarrow>
    adv = ''PARTIAL_SELL'' \<or> adv = ''FULL_SELL''"
  by (auto simp: action_severity_def split: if_splits)

text \<open>A routed run has a decision of the table it was routed from.\<close>

lemma route_fused_Inr:
  assumes "route_fused fc run dc code fx = (Inr x, fx')"
  shows "x = Some (dc_id dc) \<and> fx_decisions fx' = fx_decisions fx \<and>
    fx_runs fx' = row_upd ar_id (ar_id run)
      (\<lambda>r. (fusion_finish ''ESCALATED'' code r)\<lparr>ar_fusion_decision_id := Some (dc_id dc)\<rparr>) (fx_runs fx)"
  using assms by (auto simp: route_fused_def Let_def split: prod.splits sum.splits)

text \<open>The ways a pending run ends.\<close>

definition fused_in :: "agent_run \<Rightarrow> decision_row \<Rightarrow> fusion_db \<Rightarrow> fusion_db \<Rightarrow> bool" where
  "fused_in run dc fx fx' \<longleftrightarrow> (\<exists>code. fx_runs fx' = row_upd ar_id (ar_id run)
      (\<lambda>r. (fusion_finish ''ESCALATED'' code r)\<lparr>ar_fusion_decision_id := Some (dc_id dc)\<rparr>) (fx_runs fx))"

lemma escalateE:
  assumes "escalate fc run basis inp adv core fx = (Inr r, fx')"
  obtains (inactive) "r = None" "fx_decisions fx' = fx_decisions fx"
      "fx_runs fx' = row_upd ar_id (ar_id run) (fusion_finish ''FAILED_SAFE'' ''FUSION_USER_NOT_ACTIVE'') (fx_runs fx)"
    | (reused) dc where "row_find dr_evaluation_request_id (fusion_request_id (fc_hash fc) run basis) (fx_decisions fx) = Some dc"
        "r = Some (dc_id dc)" "fx_decisions fx' = fx_decisions fx" "fused_in run dc fx fx'"
    | (created) dc where "row_find dr_evaluation_request_id (fusion_request_id (fc_hash fc) run basis) (fx_decisions fx) = None"
        "user_active fx (ar_owner_id run)"
        "dc = fused_decision (uuid_seed (fx_db fx)) (fusion_request_id (fc_hash fc) run basis) inp basis adv core"
        "r = Some (dc_id dc)" "fx_decisions fx' = fx_decisions fx @ [dc]" "fused_in run dc fx fx'"
proof (cases "user_active fx (ar_owner_id run)")
  case False
  then show ?thesis using assms inactive by (auto simp: escalate_def Let_def)
next
  case act: True
  show ?thesis
  proof (cases "row_find dr_evaluation_request_id (fusion_request_id (fc_hash fc) run basis) (fx_decisions fx)")
    case (Some dc)
    then have "route_fused fc run dc ''FUSION_DECISION_REUSED'' fx = (Inr r, fx')"
      using assms act by (simp add: escalate_def Let_def)
    from route_fused_Inr [OF this] Some show ?thesis by (intro reused) (auto simp: fused_in_def)
  next
    case None
    let ?dc = "fused_decision (uuid_seed (fx_db fx)) (fusion_request_id (fc_hash fc) run basis) inp basis adv core"
    let ?d1 = "snd (uuid7_draw (fx_db fx))"
    let ?fx1 = "fx\<lparr>fx_db := ?d1\<lparr>decisions := decisions ?d1 @ [decision.truncate ?dc]\<rparr>, fx_decisions := fx_decisions fx @ [?dc]\<rparr>"
    have routed: "route_fused fc run ?dc (escalation_reason adv) ?fx1 = (Inr r, fx')"
      using assms act None by (auto simp: escalate_def Let_def uuid7_draw_def split: prod.splits sum.splits)
    with route_fused_Inr [OF routed] None act show ?thesis by (intro created) (auto simp: fused_in_def)
  qed
qed

lemma escalate_Inl: "escalate fc run basis inp adv core fx = (Inl e, fx') \<Longrightarrow> fx' = fx"
  by (auto simp: escalate_def route_fused_def Let_def split: if_splits option.splits prod.splits sum.splits)

text \<open>A pending run that returns either stops, leaving the decisions alone, or has passed every check.\<close>

lemma fuse_pendingE:
  assumes "fuse_pending fc run basis fx = (Inr r, fx')"
  obtains (stopped) s c where "r = None" "fx' = run_upd (ar_id run) (fusion_finish s c) fx" "s \<noteq> ''PENDING''"
    | (escalated) position inp adv core where "fc_now fc < dc_valid_until basis"
        "validate_frozen_input fx run basis = Inr (Some (position, inp))"
        "position_unchanged (fx_db fx) position = Inr True" "assess_run fx run (dc_action basis) = Escalate adv core"
        "escalate fc run basis inp adv core fx = (Inr r, fx')"
proof (cases "fc_now fc < dc_valid_until basis")
  case False
  then show ?thesis using assms stopped [of "''EXPIRED''"] by (auto simp: fuse_pending_def)
next
  case valid: True
  show ?thesis
  proof (cases "\<exists>position inp. validate_frozen_input fx run basis = Inr (Some (position, inp)) \<and>
      position_unchanged (fx_db fx) position = Inr True")
    case False
    then show ?thesis using assms valid stopped [of "''FAILED_SAFE''"]
      by (auto simp: fuse_pending_def split: sum.splits option.splits bool.splits)
  next
    case True
    then show ?thesis using assms valid assess_states [of fx run "dc_action basis"] stopped escalated
      by (cases "assess_run fx run (dc_action basis)") (auto simp: fuse_pending_def)
  qed
qed

lemma finalize_pendingE:
  assumes "finalize_position_advisory fc run fx = (Inr r, fx')" "ar_purpose run = ''TRADING_ADVISORY''"
    "ar_fusion_state run = Some ''PENDING''"
  obtains (stopped) s c where "r = None" "fx' = run_upd (ar_id run) (fusion_finish s c) fx" "s \<noteq> ''PENDING''"
    | (escalated) basis position inp adv core where
        "Option.bind (ar_basis_decision_id run) (\<lambda>i. row_find dc_id i (fx_decisions fx)) = Some basis"
        "fc_now fc < dc_valid_until basis" "validate_frozen_input fx run basis = Inr (Some (position, inp))"
        "position_unchanged (fx_db fx) position = Inr True" "assess_run fx run (dc_action basis) = Escalate adv core"
        "escalate fc run basis inp adv core fx = (Inr r, fx')"
proof (cases "Option.bind (ar_basis_decision_id run) (\<lambda>i. row_find dc_id i (fx_decisions fx))")
  case None
  then show ?thesis using assms stopped [of "''FAILED_SAFE''"] by (auto simp: finalize_position_advisory_def)
next
  case (Some basis)
  show ?thesis
  proof (cases "ar_fusion_policy_version run = Some fusion_policy_version")
    case True
    then have "fuse_pending fc run basis fx = (Inr r, fx')"
      using assms Some by (simp add: finalize_position_advisory_def)
    then show ?thesis using Some by (cases rule: fuse_pendingE) (auto intro: stopped escalated)
  qed (use assms Some stopped [of "''FAILED_SAFE''"] in \<open>auto simp: finalize_position_advisory_def\<close>)
qed

lemma finalize_Inl: "finalize_position_advisory fc run fx = (Inl e, fx') \<Longrightarrow> fx' = fx"
  by (auto simp: finalize_position_advisory_def fuse_pending_def dest: escalate_Inl
      split: if_splits option.splits sum.splits bool.splits assessment.splits)

lemma finalize_not_pending:
  "ar_purpose run \<noteq> ''TRADING_ADVISORY'' \<or> ar_fusion_state run \<noteq> Some ''PENDING'' \<Longrightarrow>
   snd (finalize_position_advisory fc run fx) = fx"
  by (auto simp: finalize_position_advisory_def)

text \<open>The frozen position is one of the open positions.\<close>

lemma position_unchanged_open:
  "position_unchanged d j = Inr True \<Longrightarrow> \<exists>p\<in>set (positions d). p_state p = PS_OPEN \<and> 0 < p_quantity p \<and>
     json_get ''position_id'' j = Some (json_uuid (p_id p)) \<and> Option.bind (json_get ''version'' j) json_int = Some (p_version p)"
  by (auto simp: position_unchanged_def position_by_text_def json_uuid_def find_Some_iff
      split: option.splits if_splits json.splits intro!: bexI [OF _ nth_mem])

lemma frozen_basis:
  "validate_frozen_input fx run basis = Inr (Some (position, inp)) \<Longrightarrow>
   dc_symbol basis = ar_symbol run \<and> dc_market basis = ar_market run \<and> dc_purpose basis = ''TRADING'' \<and>
   ar_position_snapshot_hash run = Some (Sha256 position)"
  by (auto simp: validate_frozen_input_def split: option.splits if_splits)

lemma fused_sell_ratio:
  "adv = ''PARTIAL_SELL'' \<Longrightarrow> sell_ratio (decision.truncate (fused_decision i q inp basis adv core)) = Some (1 / 2)"
  by (simp add: sell_ratio_def decision.truncate_def fused_decision_def fused_core_def json_decimal_def) code_simp

section \<open>An escalated run\<close>

definition fusion_position :: position where
  "fusion_position = \<lparr>p_id = 5, p_account_alias = kiwoom_account, p_symbol = ''005930'', p_quantity = 10,
     p_available_quantity = 10, p_managed_quantity = 10, p_average_price = 70000, p_managed_average_price = 70000,
     p_state = PS_OPEN, p_origin = CRESTA_MANAGED, p_version = 3\<rparr>"

definition fusion_frozen :: json where
  "fusion_frozen = JObj [(''position_id'', json_uuid 5), (''version'', JInt 3)]"

definition fusion_basis :: decision_row where
  "fusion_basis = \<lparr>dc_id = 3, dc_purpose = ''TRADING'', dc_input_snapshot_id = 4, dc_symbol = ''005930'',
     dc_market = ''KRX'', dc_action = ''HOLD'', dc_core_output_json = JNull, dc_valid_until = 100,
     dr_decision_input_id = Some 6, dr_evaluation_request_id = ''r'', dr_decision_kind = ''POSITION'',
     dr_model_provider = ''MOCK'', dr_model_id = ''m'', dr_prompt_version = ''p'', dr_schema_version = ''s'',
     dr_scout_output_json = JNull, dr_confidence = 1 / 2, dr_risk_level = ''LOW'', dr_reason_codes_json = JArr [],
     dr_configuration_version_id = None, dr_execution_mode = None, dr_execution_outcome = ''NO_ACTION'',
     dr_validation_status = ''VALID'', dr_latency_ms = 0\<rparr>"

definition fusion_run :: agent_run where
  "fusion_run = \<lparr>ar_id = 1, ar_owner_id = 7, ar_purpose = ''TRADING_ADVISORY'', ar_market = ''KRX'', ar_symbol = ''005930'',
     ar_market_snapshot_id = 4, ar_analysis_context = Some ''POSITION'', ar_position_snapshot_json = Some fusion_frozen,
     ar_position_snapshot_hash = Some (Sha256 fusion_frozen), ar_basis_decision_id = Some 3,
     ar_fusion_policy_version = Some fusion_policy_version, ar_fusion_state = Some ''PENDING'',
     ar_fusion_reason_code = None, ar_fusion_decision_id = None\<rparr>"

definition fusion_core :: json where
  "fusion_core = JObj [(''shadow_assessment'', JStr ''EXIT_RISK_ELEVATED''), (''confidence'', JDec (8 / 10)),
     (''risk_level'', JStr ''MEDIUM''), (''reason_codes'', JArr [JStr ''NEWS'']), (''incomplete_roles'', JArr [])]"

definition fusion_start :: fusion_db where
  "fusion_start = \<lparr>fx_db = empty_db\<lparr>uuid_seed := 20, positions := [fusion_position]\<rparr>, fx_runs = [fusion_run],
     fx_stages = map (\<lambda>role. \<lparr>as_run_id = 1, as_role = role, as_state = ''SUCCEEDED'', as_output_json = Some fusion_core\<rparr>) required_stages,
     fx_inputs = [\<lparr>di_id = 6, di_user_id = 7, di_market_snapshot_id = 4, di_input_json = JObj [(''position'', fusion_frozen)]\<rparr>],
     fx_users = [\<lparr>ur_id = 7, ur_status = ''ACTIVE''\<rparr>], fx_decisions = [fusion_basis]\<rparr>"

definition fusion_clock :: fusion_call where
  "fusion_clock = \<lparr>fc_holidays = (\<lambda>_. Some []),
     fc_settings = \<lparr>st_environment = ''MOCK'', st_live_trading_enabled = False, st_execution_stage = ''SHADOW''\<rparr>,
     fc_hash = (\<lambda>_. ''digest''), fc_now = 10\<rparr>"


text \<open>With the default policies and in the shadow stage routing always records an execution.\<close>

lemma shadow_routes:
  assumes "configuration_versions d = []" "st_execution_stage st = ''SHADOW''"
  shows "\<exists>x d'. route_trading_decision hol st rt dc d = (Inr x, d')"
proof -
  have "\<exists>rc. route_policies (rt_user rt) d = Some rc"
    using assms(1) by (simp add: route_policies_def active_policy_def active_risk_policy_def config_active_def
        policy_payload_def risk_policy_payload_def Let_def)
  moreover have "\<exists>d'. route_body hol st rt dc rc i x = Inr d'" for rc i x
    using assms(2) by (auto simp: route_body_def route_guarded_def order_enabled_stages_def Let_def split: prod.splits)
  ultimately show ?thesis
    by (auto simp: route_trading_decision_def Let_def split: prod.splits option.splits sum.splits) (metis Inl_Inr_False)+
qed

lemma shadow_route_fused:
  assumes "configuration_versions (fx_db fx) = []" "st_execution_stage (fc_settings fc) = ''SHADOW''"
  shows "\<exists>fx'. route_fused fc run dc code fx = (Inr (Some (dc_id dc)), fx')"
  using shadow_routes [of "snd (uuid7_draw (fx_db fx))" "fc_settings fc" "fc_holidays fc" _ "decision.truncate dc"] assms
  by (auto simp: route_fused_def uuid7_draw_def Let_def split: prod.splits sum.splits) (metis Inl_Inr_False prod.inject)

lemma shadow_escalate:
  assumes "configuration_versions (fx_db fx) = []" "st_execution_stage (fc_settings fc) = ''SHADOW''"
    "user_active fx (ar_owner_id run)"
    "row_find dr_evaluation_request_id (fusion_request_id (fc_hash fc) run basis) (fx_decisions fx) = None"
  shows "\<exists>fx'. escalate fc run basis inp adv core fx = (Inr (Some (uuid_seed (fx_db fx))), fx')"
proof -
  let ?d1 = "snd (uuid7_draw (fx_db fx))"
  let ?dc = "fused_decision (uuid_seed (fx_db fx)) (fusion_request_id (fc_hash fc) run basis) inp basis adv core"
  let ?fx1 = "fx\<lparr>fx_db := ?d1\<lparr>decisions := decisions ?d1 @ [decision.truncate ?dc]\<rparr>, fx_decisions := fx_decisions fx @ [?dc]\<rparr>"
  obtain fx' where "route_fused fc run ?dc (escalation_reason adv) ?fx1 = (Inr (Some (dc_id ?dc)), fx')"
    using shadow_route_fused [of ?fx1 fc] assms(1,2) by (force simp: uuid7_draw_def)
  then show ?thesis using assms(3,4) by (simp add: escalate_def Let_def uuid7_draw_def) (simp add: fused_decision_def)
qed

lemma fusion_example:
  "\<exists>fx'. finalize_position_advisory fusion_clock fusion_run fusion_start = (Inr (Some 20), fx') \<and>
     length (fx_decisions fx') = 2"
proof -
  let ?core = "the (agent_core_output_v2 fusion_core)" and ?inp = "hd (fx_inputs fusion_start)"
  have core: "agent_core_output_v2 fusion_core \<noteq> None" by code_simp
  have frozen: "validate_frozen_input fusion_start fusion_run fusion_basis = Inr (Some (fusion_frozen, ?inp))" by code_simp
  have position: "position_unchanged (fx_db fusion_start) fusion_frozen = Inr True" by code_simp
  have assess: "assess_run fusion_start fusion_run (dc_action fusion_basis) = Escalate ''PARTIAL_SELL'' ?core" by code_simp
  have fresh: "user_active fusion_start (ar_owner_id fusion_run) \<and> row_find dr_evaluation_request_id
      (fusion_request_id (fc_hash fusion_clock) fusion_run fusion_basis) (fx_decisions fusion_start) = None" by code_simp
  have "finalize_position_advisory fusion_clock fusion_run fusion_start = fuse_pending fusion_clock fusion_run fusion_basis fusion_start"
    by (simp add: finalize_position_advisory_def) (simp add: fusion_run_def fusion_start_def fusion_basis_def)
  also have "\<dots> = escalate fusion_clock fusion_run fusion_basis ?inp ''PARTIAL_SELL'' ?core fusion_start"
    using frozen position assess by (simp add: fuse_pending_def) (simp add: fusion_basis_def fusion_clock_def)
  finally have run: "finalize_position_advisory fusion_clock fusion_run fusion_start =
    escalate fusion_clock fusion_run fusion_basis ?inp ''PARTIAL_SELL'' ?core fusion_start" .
  have "configuration_versions (fx_db fusion_start) = []" "st_execution_stage (fc_settings fusion_clock) = ''SHADOW''"
    "uuid_seed (fx_db fusion_start) = 20" "length (fx_decisions fusion_start) = 1"
    by (simp_all add: fusion_start_def fusion_clock_def empty_db_def)
  with fresh shadow_escalate [of fusion_start fusion_clock fusion_run fusion_basis ?inp "''PARTIAL_SELL''" ?core]
  obtain fx' where out: "escalate fusion_clock fusion_run fusion_basis ?inp ''PARTIAL_SELL'' ?core fusion_start = (Inr (Some 20), fx')"
    by auto
  then have "length (fx_decisions fx') = 2" using \<open>length _ = 1\<close> fresh by (cases rule: escalateE) auto
  with run out show ?thesis by simp
qed

section \<open>Properties\<close>

text \<open>C32. Fusion only escalates. Whenever finalising an agent run adds a decision, the run was pending, exactly one row
  is appended, and that row concerns the same symbol and market and expires with the same unexpired deterministic
  decision, with a strictly more severe action than it; all required stages succeeded, the confidence is at least
  0.70, the owner is active, the frozen position is open in the version the agents saw with shares to sell, and a
  partial sale asks for half of it.\<close>

theorem fusion_only_escalates:
  assumes "finalize_position_advisory fc run fx = (r, fx')" "fx_decisions fx' \<noteq> fx_decisions fx"
  shows "ar_fusion_state run = Some ''PENDING'' \<and> stages_complete fx (ar_id run) \<and> user_active fx (ar_owner_id run) \<and>
    (\<exists>basis dc position p sb sd. r = Inr (Some (dc_id dc)) \<and> fx_decisions fx' = fx_decisions fx @ [dc] \<and>
       Option.bind (ar_basis_decision_id run) (\<lambda>i. row_find dc_id i (fx_decisions fx)) = Some basis \<and>
       dc_symbol dc = ar_symbol run \<and> dc_market dc = ar_market run \<and>
       dc_valid_until dc = dc_valid_until basis \<and> fc_now fc < dc_valid_until dc \<and>
       action_severity (dc_action basis) = Some sb \<and> action_severity (dc_action dc) = Some sd \<and> sb < sd \<and>
       70 / 100 \<le> dr_confidence dc \<and>
       ar_position_snapshot_hash run = Some (Sha256 position) \<and> p \<in> set (positions (fx_db fx)) \<and>
       json_get ''position_id'' position = Some (json_uuid (p_id p)) \<and>
       Option.bind (json_get ''version'' position) json_int = Some (p_version p) \<and>
       p_state p = PS_OPEN \<and> 0 < p_quantity p \<and>
       (dc_action dc \<noteq> ''PARTIAL_SELL'' \<or> sell_ratio (decision.truncate dc) = Some (1 / 2)))"
proof -
  have pending: "ar_purpose run = ''TRADING_ADVISORY''" "ar_fusion_state run = Some ''PENDING''"
    using assms finalize_not_pending [of run fc fx] by (metis snd_conv)+
  obtain x where r: "r = Inr x" using assms finalize_Inl [of fc run fx _ fx'] by (cases r) auto
  have run: "finalize_position_advisory fc run fx = (Inr x, fx')" using assms(1) r by simp
  from run pending show ?thesis
  proof (cases rule: finalize_pendingE)
    case (escalated basis position inp adv core)
    note frozen = frozen_basis [OF escalated(3)]
    obtain p where p: "p \<in> set (positions (fx_db fx))" "p_state p = PS_OPEN" "0 < p_quantity p"
      "json_get ''position_id'' position = Some (json_uuid (p_id p))"
      "Option.bind (json_get ''version'' position) json_int = Some (p_version p)"
      using position_unchanged_open [OF escalated(4)] by blast
    note assessed = assess_escalates [OF escalated(5)]
    from escalated(6) show ?thesis
    proof (cases rule: escalateE)
      case (created dc)
      let ?q = "fusion_request_id (fc_hash fc) run basis"
      have dc: "dc_symbol dc = dc_symbol basis" "dc_market dc = dc_market basis" "dc_action dc = adv"
        "dc_valid_until dc = dc_valid_until basis" "dr_confidence dc = co_confidence core"
        "dc_action dc \<noteq> ''PARTIAL_SELL'' \<or> sell_ratio (decision.truncate dc) = Some (1 / 2)"
        using fused_sell_ratio [of adv "uuid_seed (fx_db fx)" ?q inp basis core]
        by (auto simp: created(3) fused_decision_def)
      show ?thesis
        using created(2,4,5) dc r pending frozen p assessed escalated(1,2)
        by (auto simp: minimum_confidence_def intro!: exI [of _ basis] exI [of _ dc] exI [of _ position] exI [of _ p])
    qed (use assms(2) in auto)
  qed (use assms(2) in auto)
qed

theorem fusion_only_escalates_witness:
  "\<exists>dc. fx_decisions (snd (finalize_position_advisory fusion_clock fusion_run fusion_start)) = [fusion_basis, dc] \<and>
     dc_valid_until dc = 100 \<and> 0 < the (action_severity (dc_action dc)) \<and> 70 / 100 \<le> dr_confidence dc"
proof -
  obtain fx' where run: "finalize_position_advisory fusion_clock fusion_run fusion_start = (Inr (Some 20), fx')"
    "length (fx_decisions fx') = 2" using fusion_example by blast
  have one: "fx_decisions fusion_start = [fusion_basis]" by (simp add: fusion_start_def)
  then have "fx_decisions fx' \<noteq> fx_decisions fusion_start" using run(2) by auto
  from fusion_only_escalates [OF run(1) this] show ?thesis
    using run one by (fastforce simp: fusion_run_def fusion_basis_def)
qed

text \<open>The decision of a fused run answers its request.\<close>

lemma fused_answers:
  assumes "escalate fc run basis inp adv core fx = (Inr (Some i), fx')"
  shows "fusion_request_id (fc_hash fc) run basis \<in> dr_evaluation_request_id ` set (fx_decisions fx') \<and>
    map_option dc_id (row_find dc_id i (fx_decisions fx')) = Some i \<and> (\<exists>dc. dc_id dc = i \<and> fused_in run dc fx fx')"
  using assms
proof (cases rule: escalateE)
  case (reused dc)
  then have "dc \<in> set (fx_decisions fx)" "dr_evaluation_request_id dc = fusion_request_id (fc_hash fc) run basis"
    using row_find_Some by fastforce+
  with reused show ?thesis by (cases "row_find dc_id i (fx_decisions fx)") (auto simp: row_find_None_iff intro: rev_image_eqI dest: row_find_Some)
next
  case (created dc)
  have "dr_evaluation_request_id dc = fusion_request_id (fc_hash fc) run basis" by (simp add: created(3) fused_decision_def)
  moreover have "i = dc_id dc" using created(4) by simp
  ultimately show ?thesis using created(5,6)
    by (cases "row_find dc_id i (fx_decisions fx)") (auto simp: row_simps dest: row_find_Some)
qed simp

lemma fusion_answered_adds_nothing:
  assumes "Option.bind (ar_basis_decision_id run) (\<lambda>i. row_find dc_id i (fx_decisions fx)) = Some basis"
    "fusion_request_id (fc_hash fc) run basis \<in> dr_evaluation_request_id ` set (fx_decisions fx)"
  shows "fx_decisions (snd (finalize_position_advisory fc run fx)) = fx_decisions fx"
proof (rule ccontr)
  obtain r fx' where run: "finalize_position_advisory fc run fx = (r, fx')" by fastforce
  assume "\<not> ?thesis"
  with run have changed: "fx_decisions fx' \<noteq> fx_decisions fx" by simp
  then have pending: "ar_purpose run = ''TRADING_ADVISORY''" "ar_fusion_state run = Some ''PENDING''"
    using run finalize_not_pending [of run fc fx] by (metis snd_conv)+
  obtain x where "finalize_position_advisory fc run fx = (Inr x, fx')"
    using run changed finalize_Inl [of fc run fx _ fx'] by (cases r) auto
  from this pending show False
  proof (cases rule: finalize_pendingE)
    case (escalated basis' position inp adv core)
    with assms have "basis' = basis" by simp
    with escalated(6) assms(2) changed show False by (cases rule: escalateE) (auto simp: row_find_None_iff)
  qed (use changed in auto)
qed

text \<open>An advisory run is finished once. When finalising a pending run returns, the stored run is no longer pending
  and finalising it again, at any later time and in any configuration, returns the same decision and changes nothing.
  And if the run is repeated from before its result was stored (a crash after the decision was committed), with the
  decisions of the first attempt in place, it adds no second decision.\<close>

theorem fusion_finished_once:
  assumes "finalize_position_advisory fc run fx = (Inr r, fx')" "ar_purpose run = ''TRADING_ADVISORY''"
    "ar_fusion_state run = Some ''PENDING''" "ar_fusion_decision_id run = None"
    "row_find ar_id (ar_id run) (fx_runs fx) = Some run"
  shows "(\<exists>run'. row_find ar_id (ar_id run) (fx_runs fx') = Some run' \<and> ar_fusion_state run' \<noteq> Some ''PENDING'' \<and>
      (\<forall>fc2. finalize_position_advisory fc2 run' fx' = (Inr r, fx'))) \<and>
    (\<forall>fc2 fx2. r = None \<or> fc_hash fc2 \<noteq> fc_hash fc \<or> fx_decisions fx2 \<noteq> fx_decisions fx' \<or>
      fx_decisions (snd (finalize_position_advisory fc2 run fx2)) = fx_decisions fx2)"
  using assms(1-3)
proof (cases rule: finalize_pendingE)
  case (stopped s c)
  then have "row_find ar_id (ar_id run) (fx_runs fx') = Some (fusion_finish s c run)"
    using assms(5) by (simp add: row_simps)
  then show ?thesis using stopped assms by (auto simp: finalize_position_advisory_def)
next
  case (escalated basis position inp adv core)
  show ?thesis
  proof (cases r)
    case None
    with escalated(6) have "fx_runs fx' =
        row_upd ar_id (ar_id run) (fusion_finish ''FAILED_SAFE'' ''FUSION_USER_NOT_ACTIVE'') (fx_runs fx)"
      by (cases rule: escalateE) auto
    then have "row_find ar_id (ar_id run) (fx_runs fx') = Some (fusion_finish ''FAILED_SAFE'' ''FUSION_USER_NOT_ACTIVE'' run)"
      using assms(5) by (simp add: row_simps)
    then show ?thesis using None assms by (auto simp: finalize_position_advisory_def)
  next
    case (Some i)
    note ans = fused_answers [OF escalated(6) [unfolded Some]]
    obtain run' where "row_find ar_id (ar_id run) (fx_runs fx') = Some run'" "ar_purpose run' = ''TRADING_ADVISORY''"
      "ar_fusion_state run' = Some ''ESCALATED''" "ar_fusion_decision_id run' = Some i"
      using ans assms(2,5) by (auto simp: fused_in_def row_simps)
    then have first: "\<exists>run'. row_find ar_id (ar_id run) (fx_runs fx') = Some run' \<and> ar_fusion_state run' \<noteq> Some ''PENDING'' \<and>
      (\<forall>fc2. finalize_position_advisory fc2 run' fx' = (Inr r, fx'))"
      using ans Some by (auto simp: finalize_position_advisory_def)
    have "Option.bind (ar_basis_decision_id run) (\<lambda>i. row_find dc_id i (fx_decisions fx')) = Some basis"
      using escalated(6,1) by (cases rule: escalateE) (auto simp: row_simps bind_eq_Some_conv)
    then show ?thesis using first ans fusion_answered_adds_nothing [of run _ basis] by metis
  qed
qed

theorem fusion_finished_once_witness:
  "\<exists>fx' run'. finalize_position_advisory fusion_clock fusion_run fusion_start = (Inr (Some 20), fx') \<and>
     row_find ar_id 1 (fx_runs fx') = Some run' \<and> finalize_position_advisory fusion_clock run' fx' = (Inr (Some 20), fx')"
proof -
  obtain fx' where run: "finalize_position_advisory fusion_clock fusion_run fusion_start = (Inr (Some 20), fx')"
    using fusion_example by blast
  have "ar_purpose fusion_run = ''TRADING_ADVISORY''" "ar_fusion_state fusion_run = Some ''PENDING''"
    "ar_fusion_decision_id fusion_run = None" "row_find ar_id (ar_id fusion_run) (fx_runs fusion_start) = Some fusion_run"
    "ar_id fusion_run = 1"
    by (simp_all add: fusion_run_def fusion_start_def)
  with fusion_finished_once [OF run] run show ?thesis by metis
qed

end
