(* ===== verification/Decision_Policy_Properties.thy ===== *)
theory Decision_Policy_Properties
  imports Decision_Policy Fusion_Properties
begin

text \<open>
  What the deterministic analyst promises: it buys only on live, complete data that speaks for it, its exit risk
  grows with every worse reading and a crossed stop sells everything, unless the position row is older than the
  staleness threshold, and a request is decided once.
\<close>

named_theorems policy_simps \<open>the documents the policies read\<close>

lemmas [policy_simps] = json_get_def is_dict_def text_is_def field_decimal_def json_decimal_def json_opt_def

section \<open>The documents\<close>

lemma input_payload_fields:
  "json_get ''data_quality'' (input_payload purpose m s observed stale ind position) = Some (quality_json m s observed)"
  "json_get ''indicators'' (input_payload purpose m s observed stale ind position) = Some (indicators_json ind)"
  "json_get ''strategy'' (input_payload purpose m s observed stale ind position) = Some (strategy_json stale)"
  "json_get ''session_state'' (input_payload purpose m s observed stale ind position) = Some (JStr (m_trading_status m))"
  "json_get ''position'' (input_payload purpose m s observed stale ind position) = Some (json_opt id position)"
  by (simp_all add: json_get_def input_payload_def)

lemma input_parts_payload:
  "input_parts (input_payload purpose m s observed stale ind position) =
   Some (quality_json m s observed, indicators_json ind, strategy_json stale)"
  by (simp add: input_parts_def input_payload_fields) (simp add: is_dict_def quality_json_def indicators_json_def strategy_json_def)

lemma quality_fields:
  "text_is ''stream'' [''NORMAL''] (quality_json m s observed) = Some (ms_quality s = ''NORMAL'')"
  "text_is ''snapshot'' [''NORMAL''] (quality_json m s observed) = Some (m_quality m = ''NORMAL'')"
  "field_decimal ''age_seconds'' (quality_json m s observed) = Some (quote_age_seconds m observed)"
  "field_decimal ''quote_stale_seconds'' (strategy_json stale) = Some (of_int stale)"
  by (simp_all add: quality_json_def strategy_json_def policy_simps)

lemma indicator_status: "text_is ''status'' [''READY''] (indicators_json ind) = Some (indicator_ready ind)"
  by (simp add: indicators_json_def policy_simps)

lemma session_field:
  "text_is ''session_state'' trading_states (input_payload purpose m s observed stale ind position) =
   Some (m_trading_status m \<in> set trading_states)"
  by (auto simp: text_is_def input_payload_fields trading_states_def)

lemma and_then_Some [simp]: "and_then (Some a) (Some b) = Some (a \<and> b)"
  by (cases a) (simp_all add: and_then_def)

text \<open>The live-data condition both policies share, on the rows.\<close>

definition live_data :: "quote_snapshot \<Rightarrow> quote_stream \<Rightarrow> instant \<Rightarrow> int \<Rightarrow> indicator_snapshot option \<Rightarrow> bool" where
  "live_data m s observed stale ind \<longleftrightarrow>
     ms_quality s = ''NORMAL'' \<and> m_quality m = ''NORMAL'' \<and> quote_age_seconds m observed \<le> of_int stale \<and>
     m_trading_status m \<in> set trading_states \<and> indicator_ready ind"

lemma quotes_ready_payload:
  "quotes_ready (quality_json m s observed) (and_then (age_ready (field_decimal ''age_seconds'' (quality_json m s observed)) (strategy_json stale))
     (session_ready (input_payload purpose m s observed stale ind position) (indicators_json ind))) = Some (live_data m s observed stale ind)"
  by (simp add: quotes_ready_def age_ready_def session_ready_def quality_fields indicator_status session_field live_data_def)

lemma entry_ready_payload:
  "entry_ready (input_payload purpose m s observed stale ind position) (quality_json m s observed) (indicators_json ind) (strategy_json stale) =
   Some (live_data m s observed stale ind)"
  using quotes_ready_payload [of m s observed stale purpose ind position] by (simp add: entry_ready_def quality_fields)

lemma metric_opt: "json_get k j = Some (json_opt JDec x) \<Longrightarrow> metric k j = Some x"
  by (cases x) (simp_all add: metric_def json_opt_def json_decimal_def)

lemma metric_dec: "json_get k j = Some (JDec x) \<Longrightarrow> metric k j = Some (Some x)"
  by (simp add: metric_def json_decimal_def)

lemma indicator_metrics:
  assumes "in_calculator_version i = calculator_version"
  shows "metric ''price_vs_vwap_pct'' (indicators_json (Some i)) = Some (in_price_vs_vwap_pct i)"
    "metric ''sma5_slope_pct'' (indicators_json (Some i)) = Some (in_sma5_slope_pct i)"
    "metric ''relative_volume_5'' (indicators_json (Some i)) = Some (in_relative_volume_5 i)"
    "metric ''realized_volatility_pct'' (indicators_json (Some i)) = Some (in_realized_volatility_pct i)"
    "metric ''drawdown_from_high_pct'' (indicators_json (Some i)) = Some (Some (in_drawdown_from_high_pct i))"
    "metric ''spread_pct'' (indicators_json (Some i)) = Some (in_spread_pct i)"
  using assms
  by (auto intro!: metric_opt metric_dec simp: json_get_def indicators_json_def indicator_ready_def indicator_values_def)

definition entry_metrics_row :: "indicator_snapshot \<Rightarrow> entry_metrics" where
  "entry_metrics_row i =
     \<lparr>em_price_vs_vwap = in_price_vs_vwap_pct i, em_sma5_slope = in_sma5_slope_pct i, em_relative_volume = in_relative_volume_5 i,
      em_volatility = in_realized_volatility_pct i, em_drawdown = Some (in_drawdown_from_high_pct i), em_spread = in_spread_pct i\<rparr>"

lemma entry_outputs_payload:
  "entry_outputs (input_payload purpose m s observed stale ind position) =
   Some (if live_data m s observed stale ind then entry_verdict (entry_metrics_row (the ind))
         else (unknown_scout ''ENTRY'', insufficient_core ''RISK_BLOCK''))"
proof (cases "live_data m s observed stale ind")
  case True
  then obtain i where i: "ind = Some i" "in_calculator_version i = calculator_version"
    by (auto simp: live_data_def indicator_ready_def split: option.splits)
  then have "entry_metrics_of (indicators_json ind) = Some (entry_metrics_row i)"
    by (simp add: entry_metrics_of_def indicator_metrics entry_metrics_row_def)
  then show ?thesis using True i by (simp add: entry_outputs_def input_parts_payload entry_ready_payload)
qed (simp add: entry_outputs_def input_parts_payload entry_ready_payload)

section \<open>Entry\<close>

lemma entry_verdict_action [simp]: "cw_action (snd (entry_verdict m)) = fst (entry_action m)"
  by (simp add: entry_verdict_def)

lemma entry_step_bounds:
  "fst (entry_vwap m) \<le> (if holds_of (\<lambda>x. 0 \<le> x) (em_price_vs_vwap m) then 15 else - 15)"
  "fst (entry_slope m) \<le> (if holds_of (\<lambda>x. 5 / 100 < x) (em_sma5_slope m) then 10 else 0)"
  "fst (entry_volume m) \<le> (if holds_of (\<lambda>x. 12 / 10 \<le> x) (em_relative_volume m) then 10 else 0)"
  "fst (entry_drawdown m) \<le> (if holds_of (\<lambda>x. x \<le> - 1) (em_drawdown m) then - 15 else 0)"
  "fst (entry_volatility m) \<le> 0"
  by (simp_all add: entry_vwap_def entry_slope_def entry_volume_def entry_drawdown_def entry_volatility_def)

text \<open>A purchase needs the price on the average, and a breakout or rising volume; both when it is off its high.\<close>

lemma buy_signals:
  assumes "fst (entry_action m) = ''BUY''"
  shows "\<not> hard_block m" "holds_of (\<lambda>x. 0 \<le> x) (em_price_vs_vwap m)"
    "holds_of (\<lambda>x. 5 / 100 < x) (em_sma5_slope m) \<or> holds_of (\<lambda>x. 12 / 10 \<le> x) (em_relative_volume m)"
    "holds_of (\<lambda>x. x \<le> - 1) (em_drawdown m) \<Longrightarrow>
      holds_of (\<lambda>x. 5 / 100 < x) (em_sma5_slope m) \<and> holds_of (\<lambda>x. 12 / 10 \<le> x) (em_relative_volume m)"
proof -
  show "\<not> hard_block m" using assms by (auto simp: entry_action_def)
  have "70 \<le> entry_score m" using assms by (simp add: entry_action_def split: if_splits)
  then have score: "70 \<le> entry_raw_score m" by (simp add: entry_score_def clamp100_def)
  note bounds = score [unfolded entry_raw_score_def] entry_step_bounds [of m]
  show "holds_of (\<lambda>x. 0 \<le> x) (em_price_vs_vwap m)"
    by (rule ccontr) (use bounds in \<open>simp split: if_splits\<close>)
  show "holds_of (\<lambda>x. 5 / 100 < x) (em_sma5_slope m) \<or> holds_of (\<lambda>x. 12 / 10 \<le> x) (em_relative_volume m)"
    by (rule ccontr) (use bounds in \<open>simp split: if_splits\<close>)
  show "holds_of (\<lambda>x. 5 / 100 < x) (em_sma5_slope m) \<and> holds_of (\<lambda>x. 12 / 10 \<le> x) (em_relative_volume m)"
    if "holds_of (\<lambda>x. x \<le> - 1) (em_drawdown m)"
    by (rule ccontr) (use bounds that in \<open>auto split: if_splits\<close>)
qed

lemma not_hard_block:
  "\<not> hard_block m \<longleftrightarrow> \<not> holds_of (\<lambda>x. 1 / 2 < x) (em_spread m) \<and> \<not> holds_of (\<lambda>x. 3 \<le> x) (em_volatility m)"
  by (auto simp: hard_block_def spread_wide_def volatility_state_def holds_of_def split: option.splits if_splits)

section \<open>Positions\<close>

lemma position_document_fields:
  "json_get ''marker'' (position_document an v rp p pt m) = Some (JStr ''OPEN_POSITION'')"
  "json_get ''state'' (position_document an v rp p pt m) = Some (JStr (if p_state p = PS_OPEN then ''OPEN'' else ''CLOSED''))"
  "json_get ''freshness'' (position_document an v rp p pt m) = Some (freshness_json an m pt)"
  "json_get ''average_price'' (position_document an v rp p pt m) = Some (JDec (quantize4_half_up (p_average_price p)))"
  "json_get ''current_price'' (position_document an v rp p pt m) = Some (JDec (quantize4_half_up (m_last_price m)))"
  "json_get ''unrealized_return_pct'' (position_document an v rp p pt m) =
     Some (JDec (quantize6_half_up (unrealized_return_pct p (m_last_price m))))"
  "json_get ''distance_to_fixed_stop_pct'' (position_document an v rp p pt m) =
     Some (JDec (quantize6_half_up (distance_to_stop_pct (m_last_price m) (position_stop_price rp p))))"
  "json_get ''drawdown_from_session_high_pct'' (position_document an v rp p pt m) =
     Some (JDec (quantize6_half_up (drawdown_pct (m_last_price m) (m_high_price m))))"
  "json_get ''position_id'' (position_document an v rp p pt m) = Some (json_uuid (p_id p))"
  "json_get ''version'' (position_document an v rp p pt m) = Some (JInt (p_version p))"
  by (simp_all add: json_get_def position_document_def position_amounts_def Let_def)

lemma freshness_status:
  "json_get ''status'' (freshness_json an m pt) =
   Some (JStr (if stale_threshold_seconds an < position_age_seconds m (pt_updated_at pt) then ''STALE'' else ''FRESH''))"
  by (simp add: json_get_def freshness_json_def Let_def)

definition live_position :: "analysis_settings \<Rightarrow> position \<Rightarrow> position_times \<Rightarrow> quote_snapshot \<Rightarrow> bool" where
  "live_position an p pt m \<longleftrightarrow>
     p_state p = PS_OPEN \<and> position_age_seconds m (pt_updated_at pt) \<le> stale_threshold_seconds an \<and>
     0 < quantize4_half_up (p_average_price p) \<and> 0 < quantize4_half_up (m_last_price m)"

definition position_metrics_row :: "risk_policy \<Rightarrow> position \<Rightarrow> quote_snapshot \<Rightarrow> indicator_snapshot \<Rightarrow> position_metrics" where
  "position_metrics_row rp p m i =
     \<lparr>pm_unrealized_return = quantize6_half_up (unrealized_return_pct p (m_last_price m)),
      pm_distance_to_stop = quantize6_half_up (distance_to_stop_pct (m_last_price m) (position_stop_price rp p)),
      pm_drawdown = quantize6_half_up (drawdown_pct (m_last_price m) (m_high_price m)),
      pm_price_vs_vwap = in_price_vs_vwap_pct i, pm_sma5_slope = in_sma5_slope_pct i,
      pm_relative_volume = in_relative_volume_5 i, pm_volatility = in_realized_volatility_pct i\<rparr>"

lemma position_ready_payload:
  fixes an v rp p pt m
  defines "doc \<equiv> position_document an v rp p pt m"
  shows "position_ready (input_payload purpose m s observed stale ind (Some doc)) (Some doc) (quality_json m s observed)
     (indicators_json ind) (strategy_json stale) = Some (live_position an p pt m \<and> live_data m s observed stale ind)"
proof -
  have "is_dict doc" by (simp add: doc_def position_document_def is_dict_def)
  then show ?thesis
    using quotes_ready_payload [of m s observed stale purpose ind "Some doc"]
    by (auto simp: position_ready_def doc_def position_document_fields freshness_status json_decimal_def live_position_def)
qed

lemma position_outputs_payload:
  "position_outputs (input_payload purpose m s observed stale ind (Some (position_document an v rp p pt m))) =
   Some (if live_position an p pt m \<and> live_data m s observed stale ind
         then position_verdict (position_metrics_row rp p m (the ind))
         else (unknown_scout ''HOLDING'', insufficient_core ''HOLD''))"
proof (cases "live_position an p pt m \<and> live_data m s observed stale ind")
  case True
  then obtain i where i: "ind = Some i" "in_calculator_version i = calculator_version"
    by (auto simp: live_data_def indicator_ready_def split: option.splits)
  then have "position_metrics_of (position_document an v rp p pt m) (indicators_json ind) = Some (position_metrics_row rp p m i)"
    by (simp add: position_metrics_of_def indicator_metrics position_metrics_row_def field_decimal_def position_document_fields
        json_decimal_def)
  then show ?thesis using True i
    by (simp add: position_outputs_def input_parts_payload position_ready_payload input_payload_fields json_opt_def)
qed (auto simp: position_outputs_def input_parts_payload position_ready_payload input_payload_fields json_opt_def)

text \<open>Every step of the exit risk is non-negative, so a crossed stop keeps the full score.\<close>

lemma exit_steps_nonneg:
  "0 \<le> fst (position_vwap m)" "0 \<le> fst (position_slope m)" "0 \<le> fst (position_drawdown m)"
  "0 \<le> fst (position_volume m)" "0 \<le> fst (position_volatility m)"
  by (simp_all add: position_vwap_def position_slope_def position_drawdown_def position_volume_def position_volatility_def)

lemma crossed_stop_score: "pm_distance_to_stop m \<le> 0 \<Longrightarrow> exit_risk_score m = 100"
  using exit_steps_nonneg [of m] by (simp add: exit_risk_score_def position_stop_def clamp100_def)

lemma crossed_stop_core:
  "pm_distance_to_stop m \<le> 0 \<Longrightarrow>
   cw_action (position_core m) = ''FULL_SELL'' \<and> ''FIXED_STOP_TRIGGERED'' \<in> set (cw_reason_codes (position_core m))"
  by (simp add: position_core_def Let_def crossed_stop_score) (simp add: position_reasons_def position_stop_def)

lemma quantize_half_up_nonpos: "x \<le> 0 \<Longrightarrow> quantize round_half_up n x \<le> 0"
proof -
  assume "x \<le> 0"
  then have "x * 10 ^ n \<le> 0" by (simp add: mult_nonpos_nonneg)
  then have "round_half_up (x * 10 ^ n) \<le> 0" by (auto simp: round_half_up_def floor_le_iff le_floor_iff)
  then show ?thesis by (simp add: quantize_def divide_nonpos_pos)
qed

lemma stop_distance_crossed:
  "price \<le> stop \<Longrightarrow> quantize6_half_up (distance_to_stop_pct price stop) \<le> 0"
  by (auto simp: quantize6_half_up_def distance_to_stop_pct_def divide_nonpos_pos mult_nonpos_nonneg intro!: quantize_half_up_nonpos)

text \<open>One reading is at least as risky as another when every figure is at least as bad; a missing indicator is no sign of
  risk.\<close>

definition opt_le :: "(decimal \<Rightarrow> decimal \<Rightarrow> bool) \<Rightarrow> decimal option \<Rightarrow> decimal option \<Rightarrow> bool" where
  "opt_le le x y = (case x of None \<Rightarrow> True | Some a \<Rightarrow> (case y of None \<Rightarrow> False | Some b \<Rightarrow> le a b))"

definition no_safer :: "position_metrics \<Rightarrow> position_metrics \<Rightarrow> bool" where
  "no_safer m m' \<longleftrightarrow>
     pm_unrealized_return m' \<le> pm_unrealized_return m \<and> pm_distance_to_stop m' \<le> pm_distance_to_stop m \<and>
     pm_drawdown m' \<le> pm_drawdown m \<and> opt_le (\<lambda>a b. b \<le> a) (pm_price_vs_vwap m) (pm_price_vs_vwap m') \<and>
     opt_le (\<lambda>a b. b \<le> a) (pm_sma5_slope m) (pm_sma5_slope m') \<and>
     opt_le (\<lambda>a b. b \<le> a) (pm_relative_volume m) (pm_relative_volume m') \<and> opt_le (\<le>) (pm_volatility m) (pm_volatility m')"

lemma holds_mono: "holds_of P x \<Longrightarrow> opt_le le x y \<Longrightarrow> (\<And>a b. le a b \<Longrightarrow> P a \<Longrightarrow> P b) \<Longrightarrow> holds_of P y"
  by (auto simp: holds_of_def opt_le_def split: option.splits)

lemma exit_steps_mono:
  assumes "no_safer m m'"
  shows "fst (position_loss m) \<le> fst (position_loss m')" "fst (position_vwap m) \<le> fst (position_vwap m')"
    "fst (position_slope m) \<le> fst (position_slope m')" "fst (position_drawdown m) \<le> fst (position_drawdown m')"
    "fst (position_volume m) \<le> fst (position_volume m')" "fst (position_volatility m) \<le> fst (position_volatility m')"
    "fst (position_stop m' n) = 100 \<or> fst (position_stop m n) \<le> fst (position_stop m' n)"
proof -
  note worse = assms [unfolded no_safer_def]
  show "fst (position_loss m) \<le> fst (position_loss m')" "fst (position_drawdown m) \<le> fst (position_drawdown m')"
    "fst (position_stop m' n) = 100 \<or> fst (position_stop m n) \<le> fst (position_stop m' n)"
    using worse by (auto simp: position_loss_def position_drawdown_def position_stop_def)
  show "fst (position_vwap m) \<le> fst (position_vwap m')"
    using worse holds_mono [of "\<lambda>x. x < 0" "pm_price_vs_vwap m" _ "pm_price_vs_vwap m'"] by (auto simp: position_vwap_def)
  show "fst (position_slope m) \<le> fst (position_slope m')"
    using worse holds_mono [of "\<lambda>x. x < - 5 / 100" "pm_sma5_slope m" _ "pm_sma5_slope m'"] by (auto simp: position_slope_def)
  show "fst (position_volume m) \<le> fst (position_volume m')"
    using worse holds_mono [of "\<lambda>x. x \<le> 8 / 10" "pm_relative_volume m" _ "pm_relative_volume m'"] by (auto simp: position_volume_def)
  show "fst (position_volatility m) \<le> fst (position_volatility m')"
  proof -
    have "holds_of (\<lambda>x. c \<le> x) (pm_volatility m) \<Longrightarrow> holds_of (\<lambda>x. c \<le> x) (pm_volatility m')" for c
      using worse by (auto intro: holds_mono [where le = "(\<le>)"])
    from this [of 3] this [of "15 / 10"] show ?thesis by (auto simp: position_volatility_def)
  qed
qed

lemma clamp100_mono: "a \<le> b \<Longrightarrow> clamp100 a \<le> clamp100 b"
  by (simp add: clamp100_def)

lemma exit_risk_mono:
  assumes "no_safer m m'"
  shows "exit_risk_score m \<le> exit_risk_score m'"
proof (cases "pm_distance_to_stop m' \<le> 0")
  case True
  then show ?thesis by (simp add: crossed_stop_score) (simp add: exit_risk_score_def clamp100_def)
next
  case False
  let ?s = "\<lambda>m. fst (position_stop m (15 + fst (position_loss m)))"
  have "?s m \<le> ?s m'"
    using assms False exit_steps_mono(1) [OF assms] by (auto simp: position_stop_def no_safer_def)
  with exit_steps_mono(2-6) [OF assms] show ?thesis unfolding exit_risk_score_def by (intro clamp100_mono add_mono)
qed

section \<open>Created decisions\<close>

lemma position_outputs_none:
  "position_outputs (input_payload purpose m s observed stale ind None) = Some (unknown_scout ''HOLDING'', insufficient_core ''HOLD'')"
  by (simp add: position_outputs_def input_parts_payload position_ready_def input_payload_fields json_opt_def is_dict_def)

lemma request_position_cases:
  assumes "request_position an rq m ay = Inr position"
  obtains (none) "position = None"
    | (described) v rp p pt where "position_kind rq" "mr_position rq = Some (p, pt)"
        "v = active_risk_policy (ay_db ay) (uuid_text (mr_user_id rq))" "risk_policy_payload v = Some rp"
        "position = Some (position_document an v rp p pt m)"
  using assms
  by (auto simp: request_position_def build_position_snapshot_def Let_def split: if_splits option.splits)

text \<open>The policies are total on the documents the server builds.\<close>

lemma policy_outputs_total:
  assumes "request_position an rq m ay = Inr position"
  shows "\<exists>out. policy_outputs rq (input_payload purpose m s observed stale ind position) = Some out"
  using assms
  by (cases rule: request_position_cases)
    (auto simp: policy_outputs_def position_outputs_none position_outputs_payload entry_outputs_payload)

lemma apfst_eq: "apfst f x = (b, c) \<longleftrightarrow> (\<exists>a. x = (a, c) \<and> f a = b)"
  by (cases x) auto

lemma map_sum_Inr: "map_sum id f x = Inr y \<longleftrightarrow> (\<exists>z. x = Inr z \<and> f z = y)"
  by (cases x) auto

lemma created_decision:
  assumes "create_mock_decision an rq ay = (Inr (r, True), ay')"
  obtains s m position out i inp where
    "row_find dr_evaluation_request_id (mr_evaluation_request_id rq) (ay_decisions ay) = None"
    "current_quote (ay_watch ay) (mr_market rq) (mr_symbol rq) = Some (s, m)" "request_position an rq m ay = Inr position"
    "policy_outputs rq (input_payload (mr_purpose rq) m s (mr_now rq) (an_quote_stale_seconds an)
       (row_find in_market_snapshot_id (m_id m) (indicator_snapshots (ay_watch ay))) position) = Some out"
    "r = mock_decision_row rq i inp (m_id m) out" "ay_decisions ay' = ay_decisions ay @ [r]"
proof -
  have none: "row_find dr_evaluation_request_id (mr_evaluation_request_id rq) (ay_decisions ay) = None"
    using assms by (auto simp: create_mock_decision_def split: option.splits if_splits)
  then obtain s m where q: "current_quote (ay_watch ay) (mr_market rq) (mr_symbol rq) = Some (s, m)"
    and new: "create_new_decision an rq s m ay = (Inr r, ay')"
    using assms by (auto simp: create_mock_decision_def apfst_eq map_sum_Inr split: option.splits)
  then obtain position where p: "request_position an rq m ay = Inr position"
    by (auto simp: create_new_decision_def split: sum.splits)
  let ?ind = "row_find in_market_snapshot_id (m_id m) (indicator_snapshots (ay_watch ay))"
  let ?payload = "input_payload (mr_purpose rq) m s (mr_now rq) (an_quote_stale_seconds an) ?ind position"
  obtain inp ay1 where "build_decision_input (mr_user_id rq) (mr_purpose rq) m s (mr_now rq) (an_quote_stale_seconds an) position ay =
      Inr ((inp, ?payload), ay1)" "ay_decisions ay1 = ay_decisions ay"
    using new p by (auto simp: create_new_decision_def build_decision_input_def uuid7_draw_def Let_def split: sum.splits option.splits if_splits)
  then obtain out where "policy_outputs rq ?payload = Some out" "store_decision rq (di_id inp) (m_id m) out ay1 = (r, ay')"
    using new p by (auto simp: create_new_decision_def apfst_eq split: option.splits)
  with none q p \<open>ay_decisions ay1 = _\<close> show ?thesis
    by (intro that) (auto simp: store_decision_def uuid7_draw_def Let_def)
qed

lemma mock_row_sel [simp]:
  "dc_action (mock_decision_row rq i inp sn out) = cw_action (snd out)"
  "dc_symbol (mock_decision_row rq i inp sn out) = mr_symbol rq" "dc_market (mock_decision_row rq i inp sn out) = mr_market rq"
  "dc_purpose (mock_decision_row rq i inp sn out) = mr_purpose rq"
  "dr_decision_kind (mock_decision_row rq i inp sn out) = mr_decision_kind rq"
  "dr_evaluation_request_id (mock_decision_row rq i inp sn out) = mr_evaluation_request_id rq"
  "dc_input_snapshot_id (mock_decision_row rq i inp sn out) = sn"
  "dc_valid_until (mock_decision_row rq i inp sn out) = mr_now rq + (if position_kind rq then 5 else 1) * 60000000"
  by (simp_all add: mock_decision_row_def)

lemma position_actions: "cw_action (position_core m) \<in> {''FULL_SELL'', ''PARTIAL_SELL'', ''HOLD''}"
  by (simp add: position_core_def Let_def)

text \<open>A decision about a position never buys.\<close>

lemma position_never_buys:
  assumes "request_position an rq m ay = Inr position" "position_kind rq"
    "policy_outputs rq (input_payload purpose m s observed stale ind position) = Some out"
  shows "cw_action (snd out) \<in> {''FULL_SELL'', ''PARTIAL_SELL'', ''HOLD''}"
  using assms(1)
proof (cases rule: request_position_cases)
  case (described v rp p pt)
  then show ?thesis
    using assms(2,3) position_actions [of "position_metrics_row rp p m (the ind)"]
    by (auto simp: policy_outputs_def position_outputs_payload position_verdict_def insufficient_core_def split: if_splits)
qed (use assms(2,3) in \<open>auto simp: policy_outputs_def position_outputs_none insufficient_core_def\<close>)

section \<open>A market to decide on\<close>

definition analysis_quote :: quote_snapshot where
  "analysis_quote = \<lparr>m_id = 4, m_symbol = ''005930'', m_market = ''KRX'', m_last_price = 60000, m_best_bid_price = Some 59900,
     m_best_bid_quantity = Some 10, m_best_ask_price = Some 60000, m_best_ask_quantity = Some 10, m_trading_status = ''TRADING'',
     m_quality = ''NORMAL'', m_event_at = 3600000000, m_received_at = 3600000000, m_source = ''KIWOOM_WS'', m_sequence_or_hash = ''1'',
     m_source_sequence = None, m_payload_hash = Sha256 JNull, m_open_price = 60000, m_high_price = 60000, m_low_price = 60000,
     m_cumulative_volume = 10, m_recovery_snapshot = False\<rparr>"

definition analysis_stream :: quote_stream where
  "analysis_stream = \<lparr>ms_market = ''KRX'', ms_symbol = ''005930'', ms_current_snapshot_id = Some 4, ms_quality = ''NORMAL'',
     ms_source = ''KIWOOM_WS'', ms_last_sequence = None, ms_last_event_at = Some 3600000000, ms_last_received_at = Some 3600000000,
     ms_cumulative_volume = Some 10, ms_version = 1\<rparr>"

definition analysis_indicator :: indicator_snapshot where
  "analysis_indicator = \<lparr>in_id = 5, in_market_snapshot_id = 4, in_market = ''KRX'', in_symbol = ''005930'',
     in_calculator_version = ''watch-indicators-v2'', in_vwap = 59000, in_sma5 = None, in_session_high = 60000,
     in_drawdown_from_high_pct = 0, in_spread_pct = Some (1 / 10), in_price_vs_vwap_pct = Some 1, in_sma5_slope_pct = Some 1,
     in_relative_volume_5 = Some 1, in_realized_volatility_pct = None, in_minute_bar_count = 5, in_input_start_at = 0,
     in_input_end_at = 3600000000\<rparr>"

definition analysis_start :: analysis_db where
  "analysis_start = \<lparr>ay_db = empty_db\<lparr>uuid_seed := 20\<rparr>,
     ay_watch = empty_watch\<lparr>quote_snapshots := [analysis_quote], quote_streams := [analysis_stream],
       indicator_snapshots := [analysis_indicator]\<rparr>,
     ay_users = [\<lparr>ur_id = 7, ur_status = ''ACTIVE''\<rparr>], ay_inputs = [], ay_decisions = []\<rparr>"

definition analysis_config :: analysis_settings where
  "analysis_config = \<lparr>an_quote_stale_seconds = 2, an_reconcile_interval_seconds = 60\<rparr>"

definition analysis_request :: mock_request where
  "analysis_request = \<lparr>mr_user_id = 7, mr_evaluation_request_id = ''r'', mr_symbol = ''005930'', mr_market = ''KRX'',
     mr_purpose = ''TRADING'', mr_decision_kind = ''ENTRY'', mr_position = None, mr_now = 3601000000\<rparr>"

lemma analysis_quote_current: "current_quote (ay_watch analysis_start) ''KRX'' ''005930'' = Some (analysis_stream, analysis_quote)"
  by code_simp

lemma analysis_live: "live_data analysis_quote analysis_stream 3601000000 2 (Some analysis_indicator)" by code_simp

lemma created_flag:
  "(case fst x of Inl e \<Rightarrow> False | Inr (r, new) \<Rightarrow> new \<and> P r) \<Longrightarrow> \<exists>r ay'. x = (Inr (r, True), ay') \<and> P r"
  by (cases x) (auto split: sum.splits)

section \<open>Properties\<close>

text \<open>C33. The analyst buys only on live data that speaks for it. A new decision to buy is made on the current snapshot of the
  symbol, normal in stream and snapshot, within the staleness limit and in a trading session, with indicators of the
  current calculator: the price is at or above its volume-weighted average, the spread is at most 0.5 and the volatility
  below 3 percent where they are known, and there is a breakout or rising volume, and both when the price is a percent
  or more below its high. It is valid for one minute.\<close>

theorem entry_buys_on_live_signals:
  assumes "create_mock_decision an rq ay = (Inr (r, True), ay')" "dc_action r = ''BUY''"
  shows "\<exists>s m i. current_quote (ay_watch ay) (mr_market rq) (mr_symbol rq) = Some (s, m) \<and> dc_input_snapshot_id r = m_id m \<and>
    ms_quality s = ''NORMAL'' \<and> m_quality m = ''NORMAL'' \<and> quote_age_seconds m (mr_now rq) \<le> of_int (an_quote_stale_seconds an) \<and>
    m_trading_status m \<in> set trading_states \<and>
    row_find in_market_snapshot_id (m_id m) (indicator_snapshots (ay_watch ay)) = Some i \<and> in_calculator_version i = calculator_version \<and>
    holds_of (\<lambda>x. 0 \<le> x) (in_price_vs_vwap_pct i) \<and> \<not> holds_of (\<lambda>x. 1 / 2 < x) (in_spread_pct i) \<and>
    \<not> holds_of (\<lambda>x. 3 \<le> x) (in_realized_volatility_pct i) \<and>
    (holds_of (\<lambda>x. 5 / 100 < x) (in_sma5_slope_pct i) \<or> holds_of (\<lambda>x. 12 / 10 \<le> x) (in_relative_volume_5 i)) \<and>
    (- 1 < in_drawdown_from_high_pct i \<or>
      holds_of (\<lambda>x. 5 / 100 < x) (in_sma5_slope_pct i) \<and> holds_of (\<lambda>x. 12 / 10 \<le> x) (in_relative_volume_5 i)) \<and>
    dc_valid_until r = mr_now rq + 60000000"
  using assms(1)
proof (cases rule: created_decision)
  case (1 s m position out i inp)
  let ?ind = "row_find in_market_snapshot_id (m_id m) (indicator_snapshots (ay_watch ay))"
  have kind: "\<not> position_kind rq" using position_never_buys [OF 1(3) _ 1(4)] assms(2) 1(5) by auto
  then have out: "out = (if live_data m s (mr_now rq) (an_quote_stale_seconds an) ?ind then entry_verdict (entry_metrics_row (the ?ind))
      else (unknown_scout ''ENTRY'', insufficient_core ''RISK_BLOCK''))"
    using 1(4) by (simp add: policy_outputs_def entry_outputs_payload)
  with assms(2) 1(5) have live: "live_data m s (mr_now rq) (an_quote_stale_seconds an) ?ind"
    by (auto simp: insufficient_core_def split: if_splits)
  then obtain ind where ind: "?ind = Some ind" "in_calculator_version ind = calculator_version"
    by (auto simp: live_data_def indicator_ready_def split: option.splits)
  have buy: "fst (entry_action (entry_metrics_row ind)) = ''BUY''" using assms(2) 1(5) out live ind by simp
  note signals = buy_signals [OF buy] 
  have "- 1 < in_drawdown_from_high_pct ind \<or>
      holds_of (\<lambda>x. 5 / 100 < x) (in_sma5_slope_pct ind) \<and> holds_of (\<lambda>x. 12 / 10 \<le> x) (in_relative_volume_5 ind)"
    using signals(4) by (auto simp: entry_metrics_row_def holds_of_def not_less)
  then show ?thesis
    using 1(2,5) kind live ind signals(1-3)
    by (intro exI [of _ s] exI [of _ m] exI [of _ ind]) (simp add: live_data_def not_hard_block entry_metrics_row_def)
qed

theorem entry_buys_on_live_signals_witness:
  "\<exists>r ay' s m. create_mock_decision analysis_config analysis_request analysis_start = (Inr (r, True), ay') \<and> dc_action r = ''BUY'' \<and>
     current_quote (ay_watch analysis_start) ''KRX'' ''005930'' = Some (s, m) \<and> ms_quality s = ''NORMAL'' \<and>
     dc_valid_until r = 3661000000"
proof -
  have "case fst (create_mock_decision analysis_config analysis_request analysis_start) of Inl e \<Rightarrow> False
      | Inr (r, new) \<Rightarrow> new \<and> dc_action r = ''BUY''" by code_simp
  from created_flag [OF this] obtain r ay' where
    run: "create_mock_decision analysis_config analysis_request analysis_start = (Inr (r, True), ay')" "dc_action r = ''BUY''" by blast
  from entry_buys_on_live_signals [OF run] run show ?thesis by (auto simp: analysis_request_def)
qed

text \<open>The exit risk grows with every worse reading. When every figure of one reading of a position is at least as bad as
  in another, its risk score is at least as high and the action at least as severe; the score stays between 0 and 100,
  and a crossed fixed stop always sells everything.\<close>

theorem exit_policy_monotone:
  assumes "no_safer m m'"
  shows "exit_risk_score m \<le> exit_risk_score m' \<and> 0 \<le> exit_risk_score m \<and> exit_risk_score m' \<le> 100 \<and>
    the (action_severity (cw_action (snd (position_verdict m)))) \<le> the (action_severity (cw_action (snd (position_verdict m')))) \<and>
    (0 < pm_distance_to_stop m' \<or> cw_action (snd (position_verdict m')) = ''FULL_SELL'')"
proof -
  have mono: "exit_risk_score m \<le> exit_risk_score m'" using assms by (rule exit_risk_mono)
  then have "the (action_severity (cw_action (position_core m))) \<le> the (action_severity (cw_action (position_core m')))"
    by (simp add: position_core_def action_severity_def Let_def)
  moreover have "0 \<le> exit_risk_score m" "exit_risk_score m' \<le> 100" by (simp_all add: exit_risk_score_def clamp100_def)
  ultimately show ?thesis
    using mono crossed_stop_core [of m'] by (cases "pm_distance_to_stop m' \<le> 0") (auto simp: position_verdict_def)
qed

theorem exit_policy_monotone_witness:
  "the (action_severity (cw_action (snd (position_verdict
     \<lparr>pm_unrealized_return = 1, pm_distance_to_stop = 1, pm_drawdown = 0, pm_price_vs_vwap = None, pm_sma5_slope = None,
      pm_relative_volume = None, pm_volatility = None\<rparr>)))) \<le>
   the (action_severity (cw_action (snd (position_verdict
     \<lparr>pm_unrealized_return = - 3, pm_distance_to_stop = - 1, pm_drawdown = - 3, pm_price_vs_vwap = Some (- 1), pm_sma5_slope = None,
      pm_relative_volume = Some 1, pm_volatility = Some 2\<rparr>))))"
  by (rule exit_policy_monotone [THEN conjunct2, THEN conjunct2, THEN conjunct2, THEN conjunct1]) (simp add: no_safer_def opt_le_def)

text \<open>C35. A crossed stop is acted on only when the position row was recently written. On live data and for an open position
  whose price is at or below its stop price, a new position decision sells everything if the row was updated within the
  staleness threshold of the quote, and otherwise holds: the row is written only when the position changes, so an
  unchanged position is held, however deep it falls.\<close>

theorem crossed_stop_held_when_row_old:
  assumes "create_mock_position_trading_decision an user p pt request symbol market now ay = (Inr (r, True), ay')"
    "current_quote (ay_watch ay) market symbol = Some (s, m)"
    "live_data m s now (an_quote_stale_seconds an) (row_find in_market_snapshot_id (m_id m) (indicator_snapshots (ay_watch ay)))"
    "p_state p = PS_OPEN" "0 < quantize4_half_up (p_average_price p)" "0 < quantize4_half_up (m_last_price m)"
    "risk_policy_payload (active_risk_policy (ay_db ay) (uuid_text user)) = Some rp" "m_last_price m \<le> position_stop_price rp p"
  shows "dc_action r =
    (if position_age_seconds m (pt_updated_at pt) \<le> stale_threshold_seconds an then ''FULL_SELL'' else ''HOLD'')"
  using assms(1) [unfolded create_mock_position_trading_decision_def]
proof (cases rule: created_decision)
  case (1 s' m' position out i inp)
  let ?ind = "row_find in_market_snapshot_id (m_id m) (indicator_snapshots (ay_watch ay))"
  let ?doc = "position_document an (active_risk_policy (ay_db ay) (uuid_text user)) rp p pt m"
  have same: "s' = s" "m' = m" using 1(2) assms(2) by auto
  have "position = Some ?doc"
    using 1(3) assms(7) by (auto simp: request_position_def position_kind_def build_position_snapshot_def same split: if_splits)
  then have "out = (if live_position an p pt m \<and> live_data m s now (an_quote_stale_seconds an) ?ind
      then position_verdict (position_metrics_row rp p m (the ?ind)) else (unknown_scout ''HOLDING'', insufficient_core ''HOLD''))"
    using 1(4) by (simp add: policy_outputs_def position_kind_def same position_outputs_payload)
  moreover have "pm_distance_to_stop (position_metrics_row rp p m (the ?ind)) \<le> 0"
    using stop_distance_crossed [OF assms(8)] by (simp add: position_metrics_row_def)
  ultimately show ?thesis
    using 1(5) assms(3-6) crossed_stop_core by (auto simp: live_position_def position_verdict_def insufficient_core_def)
qed

theorem crossed_stop_held_when_row_old_witness:
  "\<exists>r ay'. create_mock_position_trading_decision analysis_config 7 fusion_position \<lparr>pt_created_at = 0, pt_updated_at = 0\<rparr>
     ''p'' ''005930'' ''KRX'' 3601000000 analysis_start = (Inr (r, True), ay') \<and> dc_action r = ''HOLD''"
proof -
  let ?pt = "\<lparr>pt_created_at = 0, pt_updated_at = 0\<rparr>"
  have "case fst (create_mock_position_trading_decision analysis_config 7 fusion_position ?pt
      ''p'' ''005930'' ''KRX'' 3601000000 analysis_start) of Inl e \<Rightarrow> False | Inr (r, new) \<Rightarrow> new \<and> True" by code_simp
  from created_flag [OF this] obtain r ay' where run: "create_mock_position_trading_decision analysis_config 7 fusion_position ?pt
      ''p'' ''005930'' ''KRX'' 3601000000 analysis_start = (Inr (r, True), ay')" by blast
  have ind: "row_find in_market_snapshot_id (m_id analysis_quote) (indicator_snapshots (ay_watch analysis_start)) = Some analysis_indicator"
    by code_simp
  have live: "live_data analysis_quote analysis_stream 3601000000 (an_quote_stale_seconds analysis_config)
      (row_find in_market_snapshot_id (m_id analysis_quote) (indicator_snapshots (ay_watch analysis_start)))"
    using analysis_live ind by (simp add: analysis_config_def)
  have rows: "p_state fusion_position = PS_OPEN" "0 < quantize4_half_up (p_average_price fusion_position)"
    "0 < quantize4_half_up (m_last_price analysis_quote)"
    "risk_policy_payload (active_risk_policy (ay_db analysis_start) (uuid_text 7)) = Some safe_default_risk_policy"
    "m_last_price analysis_quote \<le> position_stop_price safe_default_risk_policy fusion_position" by code_simp+
  have "\<not> position_age_seconds analysis_quote (pt_updated_at ?pt) \<le> stale_threshold_seconds analysis_config" by code_simp
  with crossed_stop_held_when_row_old [OF run analysis_quote_current live rows] run show ?thesis by auto
qed

text \<open>A request is decided once: it returns the same decision ever after, and a conflict for another symbol, market, purpose
  or kind, however the state around the decisions has changed.\<close>

theorem decision_created_once:
  assumes "create_mock_decision an rq ay = (Inr (r, new), ay')" "mr_evaluation_request_id rq' = mr_evaluation_request_id rq"
    "ay_decisions ay2 = ay_decisions ay' @ later"
  shows "create_mock_decision an' rq' ay2 =
    (if decision_conflicts rq' r then Inl DecisionIdempotencyConflict else Inr (r, False), ay2)"
proof -
  have "row_find dr_evaluation_request_id (mr_evaluation_request_id rq) (ay_decisions ay') = Some r"
  proof (cases new)
    case True
    with assms(1) have "create_mock_decision an rq ay = (Inr (r, True), ay')" by simp
    then show ?thesis by (cases rule: created_decision) (simp add: row_simps)
  next
    case False
    with assms(1) show ?thesis
      by (auto simp: create_mock_decision_def apfst_eq map_sum_Inr split: option.splits if_splits)
  qed
  then show ?thesis using assms(2,3) by (simp add: create_mock_decision_def row_simps)
qed

end
