(* ===== verification/Agent_Stages.thy ===== *)
theory Agent_Stages
  imports Position_Fusion
begin

text \<open>
  The stage machine of \<open>app/agents/worker.py\<close>: a run of agents is a graph of stages, which workers claim under a lease
  with a fencing token, execute and complete, and whose end finalises the run and fuses its advice. The body of a
  stage (the collection of evidence and the calls to model providers) is described by its effect, an argument: the
  rows it adds and how it returns. Every body either completes its stage in a terminal state or raises. A worker reads
  expired stages before it writes them, so the recovery is split in the read and the write.
\<close>

section \<open>Rows\<close>

record stage_row = agent_stage_run +
  stg_id :: uuid
  stg_sequence :: int
  stg_dependency_roles :: "string list"
  stg_route_id :: "uuid option"
  stg_invocation_id :: "uuid option"
  stg_output_hash :: "digest option"
  stg_error_code :: "string option"
  stg_lease_owner_id :: "uuid option"
  stg_lease_expires_at :: "instant option"
  stg_fencing_token :: int
  stg_attempt_count :: int
  stg_max_attempts :: int
  stg_available_at :: instant
  stg_timeout_at :: "instant option"
  stg_heartbeat_at :: "instant option"
  stg_started_at :: "instant option"
  stg_completed_at :: "instant option"
  stg_created_at :: instant

record run_row = agent_run +
  rn_dag_version :: string
  rn_state :: string
  rn_core_action :: "string option"
  rn_shadow_assessment :: "json option"
  rn_error_code :: "string option"
  rn_valid_until :: instant
  rn_started_at :: "instant option"
  rn_completed_at :: "instant option"

record llm_invocation =
  li_id :: uuid
  li_stage_run_id :: uuid
  li_state :: string
  li_error_code :: "string option"
  li_completed_at :: "instant option"

record evidence_bundle =
  eb_run_id :: uuid
  eb_state :: string

record role_route =
  rr_id :: uuid
  rr_timeout_ms :: int

record agent_db =
  ag_db :: db
  ag_runs :: "run_row list"
  ag_stages :: "stage_row list"
  ag_inputs :: "decision_input_snapshot list"
  ag_users :: "user_row list"
  ag_decisions :: "decision_row list"
  ag_invocations :: "llm_invocation list"
  ag_bundles :: "evidence_bundle list"
  ag_routes :: "role_route list"

section \<open>States\<close>

definition dependency_ok :: "string list" where
  "dependency_ok = [''SUCCEEDED'', ''NOT_APPLICABLE'', ''INSUFFICIENT_DATA'', ''CONFLICTED'']"

definition failed_states :: "string list" where
  "failed_states = [''FAILED'', ''TIMED_OUT'', ''INVALID_OUTPUT'']"

definition terminal_states :: "string list" where
  "terminal_states = dependency_ok @ failed_states"

definition final_run_states :: "string list" where
  "final_run_states = [''SUCCEEDED'', ''PARTIAL'', ''FAILED'', ''CANCELLED'']"

definition default_timeout_seconds :: "string \<Rightarrow> int" where
  "default_timeout_seconds role =
     (if role = ''INTEL_COLLECTOR'' then 20
      else if role \<in> {''EVIDENCE_VERIFIER'', ''EVIDENCE_CANDIDATE_AUDITOR'', ''CORE''} then 15 else 10)"

definition uses_v2_contract :: "string \<Rightarrow> bool" where
  "uses_v2_contract v = (v \<in> set [''agent-dag-v4'', ''agent-dag-v5'', ''agent-dag-v6''])"

definition stage_dag :: "(string \<times> int \<times> string list) list" where
  "stage_dag =
     [(''INTEL_COLLECTOR'', 10, []),
      (''EVIDENCE_VERIFIER'', 20, [''INTEL_COLLECTOR'']),
      (''TECHNICAL_SCOUT'', 30, [''EVIDENCE_VERIFIER'']),
      (''NEWS_DISCLOSURE_SCOUT'', 40, [''EVIDENCE_VERIFIER'']),
      (''MARKET_SECTOR_SCOUT'', 50, [''EVIDENCE_VERIFIER'']),
      (''POSITION_RISK_SCOUT'', 60, [''EVIDENCE_VERIFIER'']),
      (''EVIDENCE_CANDIDATE_AUDITOR'', 65,
        [''TECHNICAL_SCOUT'', ''NEWS_DISCLOSURE_SCOUT'', ''MARKET_SECTOR_SCOUT'', ''POSITION_RISK_SCOUT'']),
      (''CORE'', 70,
        [''TECHNICAL_SCOUT'', ''NEWS_DISCLOSURE_SCOUT'', ''MARKET_SECTOR_SCOUT'', ''POSITION_RISK_SCOUT'',
         ''EVIDENCE_CANDIDATE_AUDITOR''])]"

text \<open>\<open>_stage\<close>: the row of a stage of a new run; \<open>created_at\<close> is the clock of the flush.\<close>

definition new_stage :: "uuid \<Rightarrow> instant \<Rightarrow> (string \<Rightarrow> (uuid \<times> int) option) \<Rightarrow> instant \<Rightarrow> uuid \<Rightarrow> string \<times> int \<times> string list \<Rightarrow> stage_row" where
  "new_stage run available bindings created i spec =
     (case spec of (role, sequence, deps) \<Rightarrow>
        \<lparr>as_run_id = run, as_role = role, as_state = ''PENDING'', as_output_json = None, stg_id = i, stg_sequence = sequence,
         stg_dependency_roles = deps, stg_route_id = map_option fst (bindings role), stg_invocation_id = None, stg_output_hash = None,
         stg_error_code = None, stg_lease_owner_id = None, stg_lease_expires_at = None, stg_fencing_token = 0, stg_attempt_count = 0,
         stg_max_attempts = (case bindings role of None \<Rightarrow> 2 | Some b \<Rightarrow> snd b), stg_available_at = available, stg_timeout_at = None,
         stg_heartbeat_at = None, stg_started_at = None, stg_completed_at = None, stg_created_at = created\<rparr>)"

section \<open>Finalisation of a run\<close>

definition run_stages :: "agent_db \<Rightarrow> uuid \<Rightarrow> stage_row list" where
  "run_stages ag i = sort_key stg_sequence (filter (\<lambda>s. as_run_id s = i) (ag_stages ag))"

definition stage_upd :: "uuid \<Rightarrow> (stage_row \<Rightarrow> stage_row) \<Rightarrow> agent_db \<Rightarrow> agent_db" where
  "stage_upd i f ag = ag\<lparr>ag_stages := row_upd stg_id i f (ag_stages ag)\<rparr>"

definition agent_run_upd :: "uuid \<Rightarrow> (run_row \<Rightarrow> run_row) \<Rightarrow> agent_db \<Rightarrow> agent_db" where
  "agent_run_upd i f ag = ag\<lparr>ag_runs := row_upd ar_id i f (ag_runs ag)\<rparr>"

definition concluded_run :: "agent_db \<Rightarrow> stage_row list \<Rightarrow> stage_row \<Rightarrow> instant \<Rightarrow> run_row \<Rightarrow> run_row" where
  "concluded_run ag stages core now run =
     (let ok = (as_state core = ''SUCCEEDED'');
          verified = (case row_find eb_run_id (ar_id run) (ag_bundles ag) of None \<Rightarrow> False | Some b \<Rightarrow> eb_state b = ''VERIFIED'');
          failed = (\<not> ok \<or> list_ex (\<lambda>s. as_state s \<in> set failed_states) stages)
      in run\<lparr>rn_core_action := (if ok then Some ''WAIT'' else None),
             rn_shadow_assessment := (if ok then (case as_output_json core of None \<Rightarrow> rn_shadow_assessment run
                | Some out \<Rightarrow> json_get ''shadow_assessment'' out) else rn_shadow_assessment run),
             rn_state := (if failed then ''FAILED''
                else if list_ex (\<lambda>s. as_state s \<noteq> ''SUCCEEDED'' \<and> as_state s \<noteq> ''NOT_APPLICABLE'') stages \<or> \<not> verified then ''PARTIAL''
                else ''SUCCEEDED''),
             rn_error_code := (if failed then Some (case stg_error_code core of None \<Rightarrow> ''AGENT_STAGE_FAILED''
                | Some c \<Rightarrow> if c = [] then ''AGENT_STAGE_FAILED'' else c) else rn_error_code run),
             rn_completed_at := Some now\<rparr>)"

definition fusion_view :: "agent_db \<Rightarrow> fusion_db" where
  "fusion_view ag =
     \<lparr>fx_db = ag_db ag, fx_runs = map agent_run.truncate (ag_runs ag), fx_stages = map agent_stage_run.truncate (ag_stages ag),
      fx_inputs = ag_inputs ag, fx_users = ag_users ag, fx_decisions = ag_decisions ag\<rparr>"

definition copy_fusion :: "agent_run \<Rightarrow> run_row \<Rightarrow> run_row" where
  "copy_fusion r run =
     run\<lparr>ar_fusion_state := ar_fusion_state r, ar_fusion_reason_code := ar_fusion_reason_code r,
         ar_fusion_decision_id := ar_fusion_decision_id r\<rparr>"

text \<open>The fusion of a finished advisory run; an exception leaves the run failed safe.\<close>

definition fuse_run :: "fusion_call \<Rightarrow> run_row \<Rightarrow> agent_db \<Rightarrow> agent_db" where
  "fuse_run fc run ag =
     (if ar_purpose run \<noteq> ''TRADING_ADVISORY'' then ag
      else case finalize_position_advisory fc (agent_run.truncate run) (fusion_view ag) of
        (Inl e, _) \<Rightarrow>
          agent_run_upd (ar_id run)
            (\<lambda>r. r\<lparr>ar_fusion_state := Some ''FAILED_SAFE'', ar_fusion_reason_code := Some ''FUSION_INTERNAL_ERROR''\<rparr>) ag
      | (Inr _, fx) \<Rightarrow>
          agent_run_upd (ar_id run) (case row_find ar_id (ar_id run) (fx_runs fx) of None \<Rightarrow> id | Some r \<Rightarrow> copy_fusion r)
            (ag\<lparr>ag_db := fx_db fx, ag_decisions := fx_decisions fx\<rparr>))"

definition finalize_run :: "fusion_call \<Rightarrow> uuid \<Rightarrow> agent_db \<Rightarrow> agent_db" where
  "finalize_run fc i ag =
     (let stages = run_stages ag i
      in if stages = [] \<or> list_ex (\<lambda>s. as_state s \<notin> set terminal_states) stages then ag
         else case (row_find ar_id i (ag_runs ag), row_find as_role ''CORE'' stages) of
           (Some run, Some core) \<Rightarrow>
             (let run' = concluded_run ag stages core (fc_now fc) run
              in fuse_run fc run' (agent_run_upd i (\<lambda>_. run') ag))
         | _ \<Rightarrow> ag)"

section \<open>Recovery\<close>

definition stage_expired :: "instant \<Rightarrow> stage_row \<Rightarrow> bool" where
  "stage_expired now s =
     (as_state s = ''RUNNING'' \<and> (case stg_lease_expires_at s of None \<Rightarrow> False | Some e \<Rightarrow> e \<le> now))"

definition expired_stages :: "instant \<Rightarrow> agent_db \<Rightarrow> stage_row list" where
  "expired_stages now ag = filter (stage_expired now) (ag_stages ag)"

text \<open>The columns a recovery writes, decided on the row \<open>s\<close> it read.\<close>

definition recover_row :: "instant \<Rightarrow> stage_row \<Rightarrow> stage_row \<Rightarrow> stage_row" where
  "recover_row now s r =
     (let r' = (if stg_invocation_id s = None \<and> stg_attempt_count s < stg_max_attempts s
                then r\<lparr>as_state := ''PENDING'', stg_error_code := Some ''AGENT_LEASE_EXPIRED_RETRY'', stg_available_at := now,
                       stg_started_at := None, stg_timeout_at := None\<rparr>
                else r\<lparr>as_state := ''TIMED_OUT'',
                       stg_error_code := Some (if stg_invocation_id s = None then ''AGENT_STAGE_ATTEMPTS_EXHAUSTED''
                         else ''AGENT_INVOCATION_OUTCOME_UNKNOWN''),
                       stg_completed_at := Some now\<rparr>)
      in r'\<lparr>stg_lease_owner_id := None, stg_lease_expires_at := None, stg_heartbeat_at := None\<rparr>)"

definition ambiguous :: "instant \<Rightarrow> llm_invocation \<Rightarrow> llm_invocation" where
  "ambiguous now i = i\<lparr>li_state := ''AMBIGUOUS'', li_error_code := Some ''AGENT_INVOCATION_OUTCOME_UNKNOWN'', li_completed_at := Some now\<rparr>"

definition quarantine :: "instant \<Rightarrow> uuid \<Rightarrow> agent_db \<Rightarrow> agent_db" where
  "quarantine now stage ag =
     ag\<lparr>ag_invocations := map (\<lambda>i. if li_stage_run_id i = stage \<and> li_state i = ''RUNNING'' then ambiguous now i else i) (ag_invocations ag)\<rparr>"

definition recover_stage :: "fusion_call \<Rightarrow> stage_row \<Rightarrow> agent_db \<Rightarrow> agent_db" where
  "recover_stage fc s ag =
     (let ag1 = stage_upd (stg_id s) (recover_row (fc_now fc) s) ag;
          ag2 = (if stg_invocation_id s = None then ag1 else quarantine (fc_now fc) (stg_id s) ag1)
      in finalize_run fc (as_run_id s) ag2)"

definition write_recovery :: "fusion_call \<Rightarrow> stage_row list \<Rightarrow> agent_db \<Rightarrow> agent_db" where
  "write_recovery fc expired ag = foldl (\<lambda>x s. recover_stage fc s x) ag expired"

definition recover_expired_stages :: "fusion_call \<Rightarrow> agent_db \<Rightarrow> int \<times> agent_db" where
  "recover_expired_stages fc ag =
     (let expired = expired_stages (fc_now fc) ag in (int (length expired), write_recovery fc expired ag))"

section \<open>Claiming\<close>

definition dependencies :: "agent_db \<Rightarrow> stage_row \<Rightarrow> stage_row list" where
  "dependencies ag s = filter (\<lambda>t. as_run_id t = as_run_id s \<and> as_role t \<in> set (stg_dependency_roles s)) (ag_stages ag)"

datatype claim_step = Pass | Give_up string string | Take

definition may_reduce :: "run_row \<Rightarrow> stage_row \<Rightarrow> bool" where
  "may_reduce run s = (uses_v2_contract (rn_dag_version run) \<and> as_role s \<in> {''EVIDENCE_CANDIDATE_AUDITOR'', ''CORE''})"

definition claim_step_of :: "agent_db \<Rightarrow> instant \<Rightarrow> stage_row \<Rightarrow> claim_step" where
  "claim_step_of ag now s =
     (case row_find ar_id (as_run_id s) (ag_runs ag) of
        None \<Rightarrow> Pass
      | Some run \<Rightarrow>
          if rn_state run \<in> set final_run_states then Pass
          else let deps = dependencies ag s;
                   ready = (if rn_valid_until run \<le> now then Give_up ''TIMED_OUT'' ''STALE_BEFORE_START'' else Take)
               in if list_ex (\<lambda>t. as_state t \<in> set failed_states) deps
                  then if \<not> may_reduce run s then Give_up ''FAILED'' ''AGENT_DEPENDENCY_FAILED''
                       else if list_ex (\<lambda>t. as_state t \<notin> set terminal_states) deps then Pass else ready
                  else if list_ex (\<lambda>t. as_state t \<notin> set dependency_ok) deps then Pass else ready)"

definition stage_timeout_seconds :: "agent_db \<Rightarrow> stage_row \<Rightarrow> int" where
  "stage_timeout_seconds ag s =
     (case stg_route_id s of
        None \<Rightarrow> default_timeout_seconds (as_role s)
      | Some i \<Rightarrow> (case row_find rr_id i (ag_routes ag) of None \<Rightarrow> 10 | Some r \<Rightarrow> max 1 ((rr_timeout_ms r + 999) div 1000)))"

record stage_claim =
  sc_stage_id :: uuid
  sc_fencing_token :: int

definition claimed_row :: "uuid \<Rightarrow> int \<Rightarrow> int \<Rightarrow> instant \<Rightarrow> stage_row \<Rightarrow> stage_row" where
  "claimed_row worker lease timeout now s =
     s\<lparr>as_state := ''RUNNING'', stg_lease_owner_id := Some worker, stg_lease_expires_at := Some (now + lease * 1000000),
       stg_fencing_token := stg_fencing_token s + 1, stg_attempt_count := stg_attempt_count s + 1, stg_started_at := Some now,
       stg_timeout_at := Some (now + timeout * 1000000), stg_heartbeat_at := Some now\<rparr>"

definition start_run :: "instant \<Rightarrow> run_row \<Rightarrow> run_row" where
  "start_run now r = (if rn_state r = ''CREATED'' then r\<lparr>rn_state := ''RUNNING'', rn_started_at := Some now\<rparr> else r)"

definition take_stage :: "uuid \<Rightarrow> int \<Rightarrow> instant \<Rightarrow> stage_row \<Rightarrow> agent_db \<Rightarrow> stage_claim \<times> agent_db" where
  "take_stage worker lease now s ag =
     (\<lparr>sc_stage_id = stg_id s, sc_fencing_token = stg_fencing_token s + 1\<rparr>,
      agent_run_upd (as_run_id s) (start_run now)
        (stage_upd (stg_id s) (claimed_row worker lease (stage_timeout_seconds ag s) now) ag))"

definition give_up_stage :: "fusion_call \<Rightarrow> string \<Rightarrow> string \<Rightarrow> stage_row \<Rightarrow> agent_db \<Rightarrow> agent_db" where
  "give_up_stage fc state code s ag =
     finalize_run fc (as_run_id s)
       (stage_upd (stg_id s) (\<lambda>r. r\<lparr>as_state := state, stg_error_code := Some code, stg_completed_at := Some (fc_now fc)\<rparr>) ag)"

text \<open>The pending stages in claim order, less the rows other transactions have locked.\<close>

definition claimable :: "uuid list \<Rightarrow> instant \<Rightarrow> agent_db \<Rightarrow> stage_row list" where
  "claimable locked now ag =
     sort_key stg_created_at (sort_key stg_sequence
       (filter (\<lambda>s. as_state s = ''PENDING'' \<and> stg_available_at s \<le> now \<and> stg_id s \<notin> set locked) (ag_stages ag)))"

fun claim_first :: "fusion_call \<Rightarrow> uuid \<Rightarrow> int \<Rightarrow> agent_db \<Rightarrow> stage_row list \<Rightarrow> stage_claim option \<times> agent_db" where
  "claim_first fc worker lease ag [] = (None, ag)"
| "claim_first fc worker lease ag (s # ss) =
     (case claim_step_of ag (fc_now fc) s of
        Pass \<Rightarrow> claim_first fc worker lease ag ss
      | Give_up state code \<Rightarrow> (None, give_up_stage fc state code s ag)
      | Take \<Rightarrow> apfst Some (take_stage worker lease (fc_now fc) s ag))"

definition claim_next_stage :: "fusion_call \<Rightarrow> uuid list \<Rightarrow> uuid \<Rightarrow> int \<Rightarrow> agent_db \<Rightarrow> stage_claim option \<times> agent_db" where
  "claim_next_stage fc locked worker lease ag =
     (let ag1 = snd (recover_expired_stages fc ag)
      in claim_first fc worker lease ag1 (claimable locked (fc_now fc) ag1))"

section \<open>Execution\<close>

datatype stage_result =
    Completed string json
  | RaisedTimeout string
  | RaisedRuntime string
  | RaisedOther "string option" string

record stage_effect =
  se_invocations :: "llm_invocation list"
  se_invocation_id :: "uuid option"
  se_bundles :: "evidence_bundle list"
  se_result :: stage_result

definition first_text :: "string option \<Rightarrow> string \<Rightarrow> string" where
  "first_text code message =
     (case code of
        Some c \<Rightarrow> if c \<noteq> [] then c else if take 64 message \<noteq> [] then take 64 message else ''AGENT_STAGE_FAILED''
      | None \<Rightarrow> if take 64 message \<noteq> [] then take 64 message else ''AGENT_STAGE_FAILED'')"

definition completed_row :: "instant \<Rightarrow> stage_result \<Rightarrow> stage_row \<Rightarrow> stage_row" where
  "completed_row now res r =
     (case res of
        Completed state out \<Rightarrow> r\<lparr>as_state := state, as_output_json := Some out, stg_output_hash := Some (Sha256 out), stg_completed_at := Some now\<rparr>
      | RaisedTimeout msg \<Rightarrow> r\<lparr>as_state := ''TIMED_OUT'', stg_error_code := Some (first_text None msg), stg_completed_at := Some now\<rparr>
      | RaisedRuntime code \<Rightarrow> r\<lparr>as_state := ''FAILED'', stg_error_code := Some (first_text (Some code) code), stg_completed_at := Some now\<rparr>
      | RaisedOther code msg \<Rightarrow> r\<lparr>as_state := ''FAILED'', stg_error_code := Some (first_text code msg), stg_completed_at := Some now\<rparr>)"

definition released_row :: "instant \<Rightarrow> stage_row \<Rightarrow> stage_row" where
  "released_row now r = r\<lparr>stg_lease_owner_id := None, stg_lease_expires_at := None, stg_heartbeat_at := Some now\<rparr>"

definition set_invocation :: "uuid option \<Rightarrow> stage_row \<Rightarrow> stage_row" where
  "set_invocation i r = (if stg_invocation_id r = None then r\<lparr>stg_invocation_id := i\<rparr> else r)"

text \<open>The effect of the body; before it, the deadline of the stage.\<close>

definition stage_body :: "instant \<Rightarrow> stage_effect \<Rightarrow> stage_row \<Rightarrow> stage_effect" where
  "stage_body now eff s =
     (case stg_timeout_at s of
        Some t \<Rightarrow> if t \<le> now then \<lparr>se_invocations = [], se_invocation_id = None, se_bundles = [], se_result = RaisedTimeout ''AGENT_STAGE_TIMEOUT''\<rparr> else eff
      | None \<Rightarrow> eff)"

definition raised_unclear :: "stage_result \<Rightarrow> bool" where
  "raised_unclear res = (case res of Completed _ _ \<Rightarrow> False | RaisedRuntime _ \<Rightarrow> False | RaisedTimeout _ \<Rightarrow> True | RaisedOther _ _ \<Rightarrow> True)"

definition settle_invocations :: "instant \<Rightarrow> uuid \<Rightarrow> agent_db \<Rightarrow> agent_db" where
  "settle_invocations now stage ag =
     ag\<lparr>ag_invocations := map (\<lambda>i. if li_stage_run_id i = stage \<and> li_state i = ''RUNNING'' \<and> li_completed_at i = None
          then ambiguous now i else i) (ag_invocations ag)\<rparr>"

definition holds_claim :: "uuid \<Rightarrow> stage_claim \<Rightarrow> stage_row \<Rightarrow> bool" where
  "holds_claim worker cl s = (as_state s = ''RUNNING'' \<and> stg_lease_owner_id s = Some worker \<and> stg_fencing_token s = sc_fencing_token cl)"

definition execute_claimed_stage :: "fusion_call \<Rightarrow> stage_claim \<Rightarrow> uuid \<Rightarrow> stage_effect \<Rightarrow> agent_db \<Rightarrow> bool \<times> agent_db" where
  "execute_claimed_stage fc cl worker eff ag =
     (case row_find stg_id (sc_stage_id cl) (ag_stages ag) of
        None \<Rightarrow> (False, ag)
      | Some s \<Rightarrow>
          if \<not> holds_claim worker cl s \<or> row_find ar_id (as_run_id s) (ag_runs ag) = None then (False, ag)
          else let now = fc_now fc; e = stage_body now eff s; s' = set_invocation (se_invocation_id e) s;
                   ag1 = ag\<lparr>ag_invocations := ag_invocations ag @ se_invocations e, ag_bundles := ag_bundles ag @ se_bundles e\<rparr>;
                   ag2 = (if raised_unclear (se_result e) \<and> stg_invocation_id s' \<noteq> None then settle_invocations now (stg_id s) ag1 else ag1)
               in (True, finalize_run fc (as_run_id s)
                     (stage_upd (stg_id s) (\<lambda>_. released_row now (completed_row now (se_result e) s')) ag2)))"

text \<open>The clock of the execution is read after the claim: \<open>fc'\<close>.\<close>

definition process_agent_work_once ::
  "fusion_call \<Rightarrow> fusion_call \<Rightarrow> uuid list \<Rightarrow> uuid \<Rightarrow> int \<Rightarrow> stage_effect \<Rightarrow> agent_db \<Rightarrow> bool \<times> agent_db" where
  "process_agent_work_once fc fc' locked worker lease eff ag =
     (case claim_next_stage fc locked worker lease ag of
        (None, ag1) \<Rightarrow> (False, ag1)
      | (Some cl, ag1) \<Rightarrow> execute_claimed_stage fc' cl worker eff ag1)"

end
