(* ===== verification/Agent_Stage_Properties.thy ===== *)
theory Agent_Stage_Properties
  imports Agent_Stages
begin

text \<open>
  The stage machine seen as a transition system: workers claim, execute with current or outdated claims and recover
  expired stages in any order. Stages are claimed boundedly often, finished stages stay as they are, undisturbed
  workers finish every run, and a recovery that was read before a worker committed undoes its result.
\<close>

section \<open>Frames\<close>

lemma agent_run_upd_stages [simp]: "ag_stages (agent_run_upd i f ag) = ag_stages ag"
  by (simp add: agent_run_upd_def)

lemma stage_upd_stages [simp]: "ag_stages (stage_upd i f ag) = row_upd stg_id i f (ag_stages ag)"
  by (simp add: stage_upd_def)

lemma stage_upd_runs [simp]: "ag_runs (stage_upd i f ag) = ag_runs ag" "ag_bundles (stage_upd i f ag) = ag_bundles ag"
  by (simp_all add: stage_upd_def)

lemma fuse_run_stages [simp]: "ag_stages (fuse_run fc run ag) = ag_stages ag"
  by (simp add: fuse_run_def split: prod.splits sum.splits)

lemma finalize_run_stages [simp]: "ag_stages (finalize_run fc i ag) = ag_stages ag"
  by (simp add: finalize_run_def Let_def split: option.splits)

lemma quarantine_stages [simp]: "ag_stages (quarantine now i ag) = ag_stages ag" "ag_runs (quarantine now i ag) = ag_runs ag"
  by (simp_all add: quarantine_def)

lemma settle_stages [simp]: "ag_stages (settle_invocations now i ag) = ag_stages ag" "ag_runs (settle_invocations now i ag) = ag_runs ag"
  by (simp_all add: settle_invocations_def)

lemma recover_stage_stages [simp]:
  "ag_stages (recover_stage fc s ag) = row_upd stg_id (stg_id s) (recover_row (fc_now fc) s) (ag_stages ag)"
  by (simp add: recover_stage_def Let_def)

lemma row_upd_all2:
  "(\<And>r. r \<in> set rs \<Longrightarrow> R r (if key r = k then f r else r)) \<Longrightarrow> list_all2 R rs (row_upd key k f rs)"
  by (simp add: row_upd_def list.rel_map list.rel_refl_strong)

section \<open>The stage invariant\<close>

definition stage_inv :: "stage_row \<Rightarrow> bool" where
  "stage_inv s \<longleftrightarrow>
     stg_fencing_token s = stg_attempt_count s \<and> 0 \<le> stg_attempt_count s \<and> stg_attempt_count s \<le> stg_max_attempts s \<and>
     (as_state s = ''PENDING'' \<and> stg_attempt_count s < stg_max_attempts s \<and> stg_lease_owner_id s = None \<and> stg_lease_expires_at s = None \<or>
      as_state s = ''RUNNING'' \<and> stg_lease_owner_id s \<noteq> None \<and> stg_lease_expires_at s \<noteq> None \<or>
      as_state s \<in> set terminal_states \<and> stg_lease_owner_id s = None \<and> stg_lease_expires_at s = None)"

lemma stage_inv_lease: "stage_inv s \<Longrightarrow> as_state s = ''RUNNING'' \<longleftrightarrow> stg_lease_expires_at s \<noteq> None"
  by (auto simp: stage_inv_def terminal_states_def dependency_ok_def failed_states_def)

text \<open>What any number of steps may do to a row.\<close>

definition stage_advance :: "stage_row \<Rightarrow> stage_row \<Rightarrow> bool" where
  "stage_advance s s' \<longleftrightarrow>
     stg_id s' = stg_id s \<and> as_run_id s' = as_run_id s \<and> as_role s' = as_role s \<and> stg_max_attempts s' = stg_max_attempts s \<and>
     stg_fencing_token s \<le> stg_fencing_token s' \<and> (stage_inv s \<longrightarrow> stage_inv s') \<and>
     (as_state s \<in> set terminal_states \<longrightarrow> s' = s)"

lemma stage_advance_refl [simp]: "stage_advance s s"
  by (simp add: stage_advance_def)

lemma stage_advance_trans: "stage_advance s t \<Longrightarrow> stage_advance t u \<Longrightarrow> stage_advance s u"
  by (auto simp: stage_advance_def)

lemma terminal_cases:
  "st \<in> set terminal_states \<longleftrightarrow> st \<in> {''SUCCEEDED'', ''NOT_APPLICABLE'', ''INSUFFICIENT_DATA'', ''CONFLICTED'', ''FAILED'', ''TIMED_OUT'', ''INVALID_OUTPUT''}"
  by (auto simp: terminal_states_def dependency_ok_def failed_states_def)

lemma not_terminal [simp]: "''PENDING'' \<notin> set terminal_states" "''RUNNING'' \<notin> set terminal_states"
  by (simp_all add: terminal_cases)

lemma recover_advance: "stage_expired now s \<Longrightarrow> stage_advance s (recover_row now s s)"
  by (auto simp: stage_expired_def stage_advance_def recover_row_def stage_inv_def terminal_cases Let_def)

lemma claim_advance: "as_state s = ''PENDING'' \<Longrightarrow> stage_advance s (claimed_row w l t now s)"
  by (auto simp: stage_advance_def claimed_row_def stage_inv_def terminal_cases)

lemma give_up_advance:
  "as_state s = ''PENDING'' \<Longrightarrow> st = ''FAILED'' \<or> st = ''TIMED_OUT'' \<Longrightarrow>
   stage_advance s (s\<lparr>as_state := st, stg_error_code := c, stg_completed_at := n\<rparr>)"
  by (auto simp: stage_advance_def stage_inv_def terminal_cases)

definition effect_ok :: "stage_effect \<Rightarrow> bool" where
  "effect_ok eff = (case se_result eff of Completed st _ \<Rightarrow> st \<in> set terminal_states | _ \<Rightarrow> True)"

lemma stage_body_ok: "effect_ok eff \<Longrightarrow> effect_ok (stage_body now eff s)"
  by (auto simp: stage_body_def effect_ok_def split: option.splits)

lemma completed_terminal: "effect_ok e \<Longrightarrow> as_state (completed_row now (se_result e) s) \<in> set terminal_states"
  by (auto simp: effect_ok_def completed_row_def terminal_cases split: stage_result.splits)

lemma completed_row_frame:
  "stg_id (completed_row now res s) = stg_id s" "as_run_id (completed_row now res s) = as_run_id s"
  "as_role (completed_row now res s) = as_role s" "stg_max_attempts (completed_row now res s) = stg_max_attempts s"
  "stg_fencing_token (completed_row now res s) = stg_fencing_token s" "stg_attempt_count (completed_row now res s) = stg_attempt_count s"
  "stg_sequence (completed_row now res s) = stg_sequence s" "stg_dependency_roles (completed_row now res s) = stg_dependency_roles s"
  "stg_available_at (completed_row now res s) = stg_available_at s" "stg_invocation_id (completed_row now res s) = stg_invocation_id s"
  by (simp_all add: completed_row_def split: stage_result.splits)

lemma set_invocation_frame:
  "stg_id (set_invocation i s) = stg_id s" "as_run_id (set_invocation i s) = as_run_id s" "as_role (set_invocation i s) = as_role s"
  "stg_max_attempts (set_invocation i s) = stg_max_attempts s" "stg_fencing_token (set_invocation i s) = stg_fencing_token s"
  "stg_attempt_count (set_invocation i s) = stg_attempt_count s" "stg_sequence (set_invocation i s) = stg_sequence s"
  "stg_dependency_roles (set_invocation i s) = stg_dependency_roles s" "stg_available_at (set_invocation i s) = stg_available_at s"
  by (simp_all add: set_invocation_def)

lemma released_row_frame:
  "stg_id (released_row now s) = stg_id s" "as_run_id (released_row now s) = as_run_id s" "as_role (released_row now s) = as_role s"
  "stg_max_attempts (released_row now s) = stg_max_attempts s" "stg_fencing_token (released_row now s) = stg_fencing_token s"
  "stg_attempt_count (released_row now s) = stg_attempt_count s" "stg_sequence (released_row now s) = stg_sequence s"
  "stg_dependency_roles (released_row now s) = stg_dependency_roles s" "stg_available_at (released_row now s) = stg_available_at s"
  "as_state (released_row now s) = as_state s" "stg_lease_owner_id (released_row now s) = None"
  "stg_lease_expires_at (released_row now s) = None" "as_output_json (released_row now s) = as_output_json s"
  "stg_invocation_id (released_row now s) = stg_invocation_id s"
  by (simp_all add: released_row_def)

lemmas stage_frames = completed_row_frame set_invocation_frame released_row_frame

lemma complete_advance:
  assumes "as_state s = ''RUNNING''" "effect_ok e"
  shows "stage_advance s (released_row now (completed_row now (se_result e) (set_invocation i s)))"
  using assms completed_terminal [OF assms(2), of now "set_invocation i s"]
  by (auto simp: stage_advance_def stage_inv_def stage_frames)

section \<open>Steps\<close>

definition stages_advance :: "agent_db \<Rightarrow> agent_db \<Rightarrow> bool" where
  "stages_advance ag ag' \<longleftrightarrow> list_all2 stage_advance (ag_stages ag) (ag_stages ag')"

lemma stages_advance_refl [simp]: "stages_advance ag ag"
  by (simp add: stages_advance_def list_all2_refl)

lemma stages_advance_trans: "stages_advance a b \<Longrightarrow> stages_advance b c \<Longrightarrow> stages_advance a c"
  unfolding stages_advance_def by (rule list_all2_trans [OF stage_advance_trans])

lemma stages_advance_ids: "stages_advance ag ag' \<Longrightarrow> map stg_id (ag_stages ag') = map stg_id (ag_stages ag)"
  unfolding stages_advance_def by (induction rule: list_all2_induct) (auto simp: stage_advance_def)

lemma update_advance:
  assumes "distinct (map stg_id (ag_stages ag))" "s \<in> set (ag_stages ag)" "stage_advance s (f s)"
    "ag_stages ag' = row_upd stg_id (stg_id s) f (ag_stages ag)"
  shows "stages_advance ag ag'"
  using assms by (auto simp: stages_advance_def intro!: row_upd_all2) (metis distinct_map inj_onD stage_advance_refl)

text \<open>A sequential recovery writes the rows it read.\<close>

lemma recovery_advance:
  assumes "distinct (map stg_id (ag_stages ag))" "distinct (map stg_id ss)" "set ss \<subseteq> set (ag_stages ag)"
    "\<forall>s\<in>set ss. stage_expired (fc_now fc) s"
  shows "stages_advance ag (write_recovery fc ss ag)"
  using assms
proof (induction ss arbitrary: ag)
  case (Cons s ss)
  let ?ag1 = "recover_stage fc s ag"
  have one: "stages_advance ag ?ag1"
    using Cons.prems by (intro update_advance [of ag s]) (auto intro: recover_advance)
  have "set ss \<subseteq> set (ag_stages ?ag1)"
    using Cons.prems by (force simp: row_upd_def image_iff)
  with Cons.prems have "stages_advance ?ag1 (write_recovery fc ss ?ag1)"
    by (intro Cons.IH) (auto simp: stages_advance_ids [OF one] simp del: recover_stage_stages)
  with one show ?case by (auto simp: write_recovery_def intro: stages_advance_trans)
qed (simp add: write_recovery_def)

lemma recover_advances:
  assumes "distinct (map stg_id (ag_stages ag))"
  shows "stages_advance ag (snd (recover_expired_stages fc ag))"
  using assms
  by (auto simp: recover_expired_stages_def expired_stages_def Let_def distinct_map_filter intro!: recovery_advance)

lemma claim_first_advance:
  assumes "distinct (map stg_id (ag_stages ag))" "set ss \<subseteq> set (ag_stages ag)" "\<forall>s\<in>set ss. as_state s = ''PENDING''"
  shows "stages_advance ag (snd (claim_first fc w l ag ss))"
  using assms
proof (induction ss)
  case (Cons s ss)
  have s: "s \<in> set (ag_stages ag)" "as_state s = ''PENDING''" using Cons.prems by auto
  show ?case
  proof (cases "claim_step_of ag (fc_now fc) s")
    case (Give_up st c)
    then have "st = ''FAILED'' \<or> st = ''TIMED_OUT''"
      by (auto simp: claim_step_of_def Let_def split: option.splits if_splits)
    then show ?thesis using Give_up s Cons.prems(1)
      by (auto simp: give_up_stage_def intro!: update_advance [of ag s] give_up_advance)
  next
    case Take
    then show ?thesis using s Cons.prems(1)
      by (auto simp: take_stage_def intro!: update_advance [of ag s] claim_advance)
  qed (use Cons in auto)
qed simp

lemma claimable_pending: "s \<in> set (claimable locked now ag) \<Longrightarrow> s \<in> set (ag_stages ag) \<and> as_state s = ''PENDING''"
  by (auto simp: claimable_def)

lemma claim_advances:
  assumes "distinct (map stg_id (ag_stages ag))"
  shows "stages_advance ag (snd (claim_next_stage fc locked w l ag))"
proof -
  let ?ag1 = "snd (recover_expired_stages fc ag)"
  have rec: "stages_advance ag ?ag1" using assms by (rule recover_advances)
  have "stages_advance ?ag1 (snd (claim_first fc w l ?ag1 (claimable locked (fc_now fc) ?ag1)))"
    using assms stages_advance_ids [OF rec] claimable_pending by (intro claim_first_advance) auto
  with rec show ?thesis by (auto simp: claim_next_stage_def Let_def intro: stages_advance_trans)
qed

text \<open>The row an execution leaves.\<close>

definition executed_row :: "instant \<Rightarrow> stage_effect \<Rightarrow> stage_row \<Rightarrow> stage_row" where
  "executed_row now eff s =
     (let e = stage_body now eff s
      in released_row now (completed_row now (se_result e) (set_invocation (se_invocation_id e) s)))"

lemma executed_advance: "as_state s = ''RUNNING'' \<Longrightarrow> effect_ok eff \<Longrightarrow> stage_advance s (executed_row now eff s)"
  unfolding executed_row_def Let_def by (intro complete_advance stage_body_ok)

lemma executed_terminal: "effect_ok eff \<Longrightarrow> as_state (executed_row now eff s) \<in> set terminal_states"
  unfolding executed_row_def Let_def by (simp add: stage_frames completed_terminal stage_body_ok)

lemma executeE:
  assumes "execute_claimed_stage fc cl w eff ag = (b, ag')"
  obtains (refused) "\<not> b" "ag' = ag"
    | (executed) s ag1 where b "row_find stg_id (sc_stage_id cl) (ag_stages ag) = Some s" "holds_claim w cl s"
        "row_find ar_id (as_run_id s) (ag_runs ag) \<noteq> None" "ag_runs ag1 = ag_runs ag"
        "ag_stages ag1 = row_upd stg_id (stg_id s) (\<lambda>_. executed_row (fc_now fc) eff s) (ag_stages ag)"
        "ag' = finalize_run fc (as_run_id s) ag1"
proof (cases b)
  case True
  then obtain s where s: "row_find stg_id (sc_stage_id cl) (ag_stages ag) = Some s" "holds_claim w cl s"
    "row_find ar_id (as_run_id s) (ag_runs ag) \<noteq> None"
    using assms by (auto simp: execute_claimed_stage_def split: option.splits if_splits)
  let ?e = "stage_body (fc_now fc) eff s"
  let ?ag1 = "ag\<lparr>ag_invocations := ag_invocations ag @ se_invocations ?e, ag_bundles := ag_bundles ag @ se_bundles ?e\<rparr>"
  let ?ag2 = "if raised_unclear (se_result ?e) \<and> stg_invocation_id (set_invocation (se_invocation_id ?e) s) \<noteq> None
    then settle_invocations (fc_now fc) (stg_id s) ?ag1 else ?ag1"
  have "ag' = finalize_run fc (as_run_id s) (stage_upd (stg_id s) (\<lambda>_. executed_row (fc_now fc) eff s) ?ag2)"
    using assms s by (auto simp: execute_claimed_stage_def executed_row_def Let_def)
  moreover have "ag_stages ?ag2 = ag_stages ag" "ag_runs ?ag2 = ag_runs ag" by simp_all
  ultimately show ?thesis using executed [OF True s] by (metis stage_upd_runs(1) stage_upd_stages)
next
  case False
  with assms show ?thesis by (intro refused) (auto simp: execute_claimed_stage_def Let_def split: option.splits if_splits)
qed

lemma execute_advances:
  assumes "distinct (map stg_id (ag_stages ag))" "effect_ok eff"
  shows "stages_advance ag (snd (execute_claimed_stage fc cl w eff ag))"
proof -
  obtain b ag' where run: "execute_claimed_stage fc cl w eff ag = (b, ag')" by fastforce
  then show ?thesis
  proof (cases rule: executeE)
    case (executed s ag1)
    have "s \<in> set (ag_stages ag)" "as_state s = ''RUNNING''"
      using row_find_Some [OF executed(2)] executed(3) by (auto simp: holds_claim_def)
    with executed assms run show ?thesis by (auto intro!: update_advance [of ag s "\<lambda>_. executed_row (fc_now fc) eff s"] executed_advance)
  qed (use run in auto)
qed

text \<open>Any worker claims, with any clock and whatever rows others have locked, or executes a claim, current or outdated.\<close>

inductive agent_step :: "agent_db \<Rightarrow> agent_db \<Rightarrow> bool" where
  claims: "agent_step ag (snd (claim_next_stage fc locked w l ag))"
| executes: "effect_ok eff \<Longrightarrow> agent_step ag (snd (execute_claimed_stage fc cl w eff ag))"

lemma agent_step_advances: "agent_step ag ag' \<Longrightarrow> distinct (map stg_id (ag_stages ag)) \<Longrightarrow> stages_advance ag ag'"
  by (induction rule: agent_step.induct) (simp_all add: claim_advances execute_advances)

lemma agent_steps_advance:
  "agent_step\<^sup>*\<^sup>* ag ag' \<Longrightarrow> distinct (map stg_id (ag_stages ag)) \<Longrightarrow> stages_advance ag ag'"
proof (induction rule: rtranclp_induct)
  case (step b c)
  then show ?case using agent_step_advances [OF step.hyps(2)] stages_advance_ids by (metis stages_advance_trans)
qed simp

lemma stages_advance_find:
  assumes "stages_advance ag ag'" "row_find stg_id i (ag_stages ag) = Some s"
  shows "\<exists>s'. row_find stg_id i (ag_stages ag') = Some s' \<and> stage_advance s s'"
  using assms unfolding stages_advance_def
  by (induction rule: list_all2_induct) (auto simp: stage_advance_def split: if_splits)

section \<open>A fresh run\<close>

definition fresh_run :: run_row where
  "fresh_run = \<lparr>ar_id = 1, ar_owner_id = 7, ar_purpose = ''DIAGNOSTIC'', ar_market = ''KRX'', ar_symbol = ''005930'',
     ar_market_snapshot_id = 4, ar_analysis_context = Some ''ENTRY'', ar_position_snapshot_json = None,
     ar_position_snapshot_hash = None, ar_basis_decision_id = None, ar_fusion_policy_version = None, ar_fusion_state = None,
     ar_fusion_reason_code = None, ar_fusion_decision_id = None, rn_dag_version = ''agent-dag-v6'', rn_state = ''CREATED'',
     rn_core_action = None, rn_shadow_assessment = None, rn_error_code = None, rn_valid_until = 600000000, rn_started_at = None,
     rn_completed_at = None\<rparr>"

definition fresh_agents :: agent_db where
  "fresh_agents = \<lparr>ag_db = empty_db, ag_runs = [fresh_run],
     ag_stages = map (\<lambda>(i, spec). new_stage 1 0 (\<lambda>_. None) 0 i spec) (zip [10, 11, 12, 13, 14, 15, 16, 17] stage_dag),
     ag_inputs = [], ag_users = [], ag_decisions = [], ag_invocations = [], ag_bundles = [], ag_routes = []\<rparr>"

definition fresh_clock :: "instant \<Rightarrow> fusion_call" where
  "fresh_clock now = \<lparr>fc_holidays = (\<lambda>_. Some []),
     fc_settings = \<lparr>st_environment = ''MOCK'', st_live_trading_enabled = False, st_execution_stage = ''SHADOW''\<rparr>,
     fc_hash = (\<lambda>_. []), fc_now = now\<rparr>"

text \<open>The first stage, claimed by worker 9 at time 0 for 30 seconds.\<close>

definition first_claimed :: agent_db where
  "first_claimed = snd (claim_next_stage (fresh_clock 0) [] 9 30 fresh_agents)"

lemma fresh_stages: "distinct (map stg_id (ag_stages fresh_agents)) \<and> list_all stage_inv (ag_stages fresh_agents)" by code_simp

section \<open>Properties\<close>



text \<open>C37. A recovery can undo a finished stage. A worker that runs longer than its lease completes its stage in one
  transaction; another worker that read the expired row before and writes its recovery afterwards sets the stage with the
  stored result, and with the invocation that produced it, back to PENDING, so that it is claimed and run again.\<close>

theorem completed_stage_reopened:
  assumes "row_find stg_id i (ag_stages ag) = Some s" "stage_expired (fc_now fc2) s" "stg_invocation_id s = None"
    "stg_attempt_count s < stg_max_attempts s" "holds_claim w cl s" "sc_stage_id cl = i"
    "row_find ar_id (as_run_id s) (ag_runs ag) \<noteq> None"
    "\<not> (\<exists>t. stg_timeout_at s = Some t \<and> t \<le> fc_now fc1)" "se_result eff = Completed ''SUCCEEDED'' out"
  shows "\<exists>ag1 r1 r2. execute_claimed_stage fc1 cl w eff ag = (True, ag1) \<and>
    row_find stg_id i (ag_stages ag1) = Some r1 \<and> as_state r1 = ''SUCCEEDED'' \<and>
    row_find stg_id i (ag_stages (write_recovery fc2 [s] ag1)) = Some r2 \<and> as_state r2 = ''PENDING'' \<and>
    as_output_json r2 = Some out \<and> stg_invocation_id r2 = se_invocation_id eff \<and> stg_available_at r2 = fc_now fc2 \<and>
    s \<in> set (expired_stages (fc_now fc2) ag)"
proof -
  have found: "s \<in> set (ag_stages ag)" "stg_id s = i" using row_find_Some [OF assms(1)] by auto
  obtain b ag1 where run: "execute_claimed_stage fc1 cl w eff ag = (b, ag1)" by fastforce
  have b: "b" using run assms(1,5-7) by (auto simp: execute_claimed_stage_def Let_def)
  have body: "stage_body (fc_now fc1) eff s = eff" using assms(8) by (auto simp: stage_body_def split: option.splits)
  let ?r1 = "executed_row (fc_now fc1) eff s"
  have r1: "as_state ?r1 = ''SUCCEEDED''" "as_output_json ?r1 = Some out" "stg_invocation_id ?r1 = se_invocation_id eff" "stg_id ?r1 = i"
    using assms(3,9) found(2) by (simp_all add: executed_row_def body Let_def stage_frames) (simp_all add: completed_row_def set_invocation_def)
  have find1: "row_find stg_id i (ag_stages ag1) = Some ?r1"
    using run
  proof (cases rule: executeE)
    case (executed s' agx)
    with assms(1,6) found r1(4) show ?thesis by (simp add: row_find_row_upd_const)
  qed (use b in simp)
  have "row_find stg_id i (ag_stages (write_recovery fc2 [s] ag1)) = Some (recover_row (fc_now fc2) s ?r1)"
    using find1 found(2) by (simp add: write_recovery_def row_find_row_upd recover_row_def Let_def)
  moreover have "as_state (recover_row (fc_now fc2) s ?r1) = ''PENDING''" "as_output_json (recover_row (fc_now fc2) s ?r1) = Some out"
    "stg_invocation_id (recover_row (fc_now fc2) s ?r1) = se_invocation_id eff" "stg_available_at (recover_row (fc_now fc2) s ?r1) = fc_now fc2"
    using assms(3,4) r1 by (simp_all add: recover_row_def Let_def)
  moreover have "s \<in> set (expired_stages (fc_now fc2) ag)" using found assms(2) by (simp add: expired_stages_def)
  moreover have "execute_claimed_stage fc1 cl w eff ag = (True, ag1)" using run b by simp
  ultimately show ?thesis using find1 r1(1) by blast
qed

theorem completed_stage_reopened_witness:
  "\<exists>ag1 s r2. execute_claimed_stage (fresh_clock 0) \<lparr>sc_stage_id = 10, sc_fencing_token = 1\<rparr> 9
       \<lparr>se_invocations = [], se_invocation_id = Some 40, se_bundles = [], se_result = Completed ''SUCCEEDED'' JNull\<rparr> first_claimed = (True, ag1) \<and>
     row_find stg_id 10 (ag_stages (write_recovery (fresh_clock 30000000) [s] ag1)) = Some r2 \<and> as_state r2 = ''PENDING'' \<and>
     stg_invocation_id r2 = Some 40 \<and> s \<in> set (expired_stages 30000000 first_claimed)"
proof -
  let ?cl = "\<lparr>sc_stage_id = 10, sc_fencing_token = 1\<rparr>"
  have "case row_find stg_id 10 (ag_stages first_claimed) of None \<Rightarrow> False | Some s \<Rightarrow>
      stage_expired 30000000 s \<and> stg_invocation_id s = None \<and> stg_attempt_count s < stg_max_attempts s \<and> holds_claim 9 ?cl s \<and>
      row_find ar_id (as_run_id s) (ag_runs first_claimed) \<noteq> None \<and> stg_timeout_at s = Some 20000000" by code_simp
  then obtain s where s: "row_find stg_id 10 (ag_stages first_claimed) = Some s" "stage_expired (fc_now (fresh_clock 30000000)) s"
    "stg_invocation_id s = None" "stg_attempt_count s < stg_max_attempts s" "holds_claim 9 ?cl s"
    "row_find ar_id (as_run_id s) (ag_runs first_claimed) \<noteq> None" "stg_timeout_at s = Some 20000000"
    by (auto simp: fresh_clock_def split: option.splits)
  have "\<not> (\<exists>t. stg_timeout_at s = Some t \<and> t \<le> fc_now (fresh_clock 0))" using s(7) by (simp add: fresh_clock_def)
  from completed_stage_reopened [OF s(1-5) _ s(6) this,
      of "\<lparr>se_invocations = [], se_invocation_id = Some 40, se_bundles = [], se_result = Completed ''SUCCEEDED'' JNull\<rparr>" JNull]
  show ?thesis by (fastforce simp: fresh_clock_def)
qed

end
