(* ===== verification/Agent_Liveness.thy ===== *)
theory Agent_Liveness
  imports Agent_Stage_Properties
begin

text \<open>
  Workers that are not interrupted finish every run of agents: each call claims and finishes one stage, or gives one
  up, until no stage is left, and the last stage of a run concludes it.
\<close>

section \<open>Runs\<close>

definition run_final :: "agent_db \<Rightarrow> uuid \<Rightarrow> bool" where
  "run_final ag i = (case row_find ar_id i (ag_runs ag) of None \<Rightarrow> False | Some r \<Rightarrow> rn_state r \<in> set final_run_states)"

definition run_known :: "agent_db \<Rightarrow> uuid \<Rightarrow> bool" where
  "run_known ag i \<longleftrightarrow> row_find ar_id i (ag_runs ag) \<noteq> None"

definition stages_done :: "agent_db \<Rightarrow> uuid \<Rightarrow> bool" where
  "stages_done ag i \<longleftrightarrow>
     (\<exists>s\<in>set (ag_stages ag). as_run_id s = i) \<and> (\<forall>s\<in>set (ag_stages ag). as_run_id s = i \<longrightarrow> as_state s \<in> set terminal_states)"

lemma agent_run_upd_find:
  assumes "\<And>r. ar_id (f r) = ar_id r"
  shows "row_find ar_id j (ag_runs (agent_run_upd i f ag)) =
    (if j = i then map_option f (row_find ar_id i (ag_runs ag)) else row_find ar_id j (ag_runs ag))"
  using assms by (simp add: agent_run_upd_def row_find_row_upd)

lemma keeps_state_final:
  assumes "\<And>r. ar_id (f r) = ar_id r" "\<And>r. rn_state (f r) \<in> set final_run_states \<longleftrightarrow> rn_state r \<in> set final_run_states"
  shows "run_final (agent_run_upd i f ag) j = run_final ag j" "run_known (agent_run_upd i f ag) j = run_known ag j"
  using assms by (auto simp: run_final_def run_known_def agent_run_upd_find split: option.splits)

lemma start_run_final:
  "run_final (agent_run_upd i (start_run now) ag) j = run_final ag j" "run_known (agent_run_upd i (start_run now) ag) j = run_known ag j"
  by (rule keeps_state_final; simp add: start_run_def final_run_states_def)+

lemma copy_fusion_keeps [simp]: "ar_id (copy_fusion q r) = ar_id r" "rn_state (copy_fusion q r) = rn_state r"
  by (simp_all add: copy_fusion_def)

lemma fuse_run_final:
  "run_final (fuse_run fc run ag) j = run_final ag j" "run_known (fuse_run fc run ag) j = run_known ag j"
proof -
  have db: "run_final (ag\<lparr>ag_db := d, ag_decisions := e\<rparr>) j = run_final ag j" "run_known (ag\<lparr>ag_db := d, ag_decisions := e\<rparr>) j = run_known ag j" for d e
    by (simp_all add: run_final_def run_known_def)
  show "run_final (fuse_run fc run ag) j = run_final ag j" "run_known (fuse_run fc run ag) j = run_known ag j"
    by (auto simp: fuse_run_def keeps_state_final db split: prod.splits sum.splits option.splits)
qed

lemma concluded_final: "rn_state (concluded_run ag st core now run) \<in> set final_run_states" "ar_id (concluded_run ag st core now run) = ar_id run"
  by (simp_all add: concluded_run_def final_run_states_def Let_def)

lemma run_stages_set: "set (run_stages ag i) = {s \<in> set (ag_stages ag). as_run_id s = i}"
  by (auto simp: run_stages_def)

lemma finalize_run_final:
  assumes "run_known ag i" "\<exists>s\<in>set (ag_stages ag). as_run_id s = i \<and> as_role s = ''CORE''"
  shows "run_final (finalize_run fc i ag) j \<longleftrightarrow> run_final ag j \<or> j = i \<and> stages_done ag i"
    and "run_known (finalize_run fc i ag) j = run_known ag j"
proof -
  have "run_final (finalize_run fc i ag) j = (run_final ag j \<or> j = i \<and> stages_done ag i) \<and>
    run_known (finalize_run fc i ag) j = run_known ag j"
  proof (cases "stages_done ag i")
    case True
    obtain run where run: "row_find ar_id i (ag_runs ag) = Some run" using assms(1) by (auto simp: run_known_def)
    then have id: "ar_id run = i" by (auto dest: row_find_Some)
    obtain core where core: "row_find as_role ''CORE'' (run_stages ag i) = Some core"
      using assms(2) by (cases "row_find as_role ''CORE'' (run_stages ag i)") (force simp: row_find_None_iff run_stages_set)+
    let ?run = "concluded_run ag (run_stages ag i) core (fc_now fc) run"
    have "run_stages ag i \<noteq> []" using assms(2) run_stages_set [of ag i] by force
    moreover have "\<not> list_ex (\<lambda>s. as_state s \<notin> set terminal_states) (run_stages ag i)"
      using True by (auto simp: list_ex_iff run_stages_set stages_done_def)
    ultimately have fin: "finalize_run fc i ag = fuse_run fc ?run (agent_run_upd i (\<lambda>_. ?run) ag)"
      by (simp add: finalize_run_def Let_def run core)
    have "row_find ar_id j (ag_runs (agent_run_upd i (\<lambda>_. ?run) ag)) = (if j = i then Some ?run else row_find ar_id j (ag_runs ag))"
      using row_find_row_upd_const [OF run, of ?run j] id by (simp add: agent_run_upd_def concluded_final)
    then have "run_final (agent_run_upd i (\<lambda>_. ?run) ag) j = (run_final ag j \<or> j = i)"
      "run_known (agent_run_upd i (\<lambda>_. ?run) ag) j = run_known ag j"
      using assms(1) concluded_final(1) [of ag "run_stages ag i" core "fc_now fc" run] by (auto simp: run_final_def run_known_def)
    then show ?thesis using True by (simp add: fin fuse_run_final)
  next
    case False
    then have "finalize_run fc i ag = ag"
      by (auto simp: finalize_run_def Let_def list_ex_iff stages_done_def run_stages_set simp flip: set_empty)
    then show ?thesis using False by simp
  qed
  then show "run_final (finalize_run fc i ag) j \<longleftrightarrow> run_final ag j \<or> j = i \<and> stages_done ag i"
    and "run_known (finalize_run fc i ag) j = run_known ag j" by auto
qed

section \<open>Ready states\<close>

definition agent_ready :: "agent_db \<Rightarrow> bool" where
  "agent_ready ag \<longleftrightarrow>
     distinct (map stg_id (ag_stages ag)) \<and>
     (\<forall>s\<in>set (ag_stages ag). stage_inv s \<and> as_state s \<noteq> ''RUNNING'' \<and> run_known ag (as_run_id s) \<and>
       (as_state s = ''PENDING'' \<longrightarrow> \<not> run_final ag (as_run_id s)) \<and>
       (stages_done ag (as_run_id s) \<longrightarrow> run_final ag (as_run_id s)) \<and>
       (\<exists>t\<in>set (ag_stages ag). as_run_id t = as_run_id s \<and> as_role t = ''CORE'') \<and>
       (\<forall>t\<in>set (dependencies ag s). stg_sequence t < stg_sequence s))"

definition pending_count :: "agent_db \<Rightarrow> nat" where
  "pending_count ag = length (filter (\<lambda>s. as_state s = ''PENDING'') (ag_stages ag))"

definition same_static :: "stage_row \<Rightarrow> stage_row \<Rightarrow> bool" where
  "same_static s t \<longleftrightarrow>
     stg_id t = stg_id s \<and> as_run_id t = as_run_id s \<and> as_role t = as_role s \<and> stg_sequence t = stg_sequence s \<and>
     stg_dependency_roles t = stg_dependency_roles s \<and> stg_available_at t = stg_available_at s"

lemma row_upd_const:
  assumes "distinct (map key rs)" "s \<in> set rs"
  shows "row_upd key (key s) f rs = row_upd key (key s) (\<lambda>_. f s) rs"
  using assms by (auto simp: row_upd_def distinct_map dest: inj_onD)

lemma row_upd_overwrite: "(\<And>r. key (f r) = key r) \<Longrightarrow> row_upd key k (\<lambda>_. t) (row_upd key k f rs) = row_upd key k (\<lambda>_. t) rs"
  by (simp add: row_upd_def)

lemma row_upd_keys: "key t = k \<Longrightarrow> map key (row_upd key k (\<lambda>_. t) rs) = map key rs"
  by (simp add: row_upd_def)

lemma row_upd_set:
  assumes "distinct (map key rs)" "s \<in> set rs" "key t = key s"
  shows "set (row_upd key (key s) (\<lambda>_. t) rs) = insert t (set rs - {s})"
  using assms by (auto simp: row_upd_def distinct_map inj_on_def)

lemma row_upd_count:
  assumes "distinct (map key rs)" "s \<in> set rs" "P s" "\<not> P t"
  shows "Suc (length (filter P (row_upd key (key s) (\<lambda>_. t) rs))) = length (filter P rs)"
  using assms
proof (induction rs)
  case (Cons r rs)
  show ?case
  proof (cases "r = s")
    case True
    with Cons.prems(1) have "\<forall>r\<in>set rs. key r \<noteq> key s" by (auto simp: image_iff)
    then have "row_upd key (key s) (\<lambda>_. t) rs = rs" by (simp add: row_upd_def map_idI)
    then show ?thesis using True Cons.prems by (simp add: row_upd_def)
  next
    case False
    then have "key r \<noteq> key s" using Cons.prems(1,2) by auto
    then show ?thesis using False Cons by (simp add: row_upd_def)
  qed
qed simp

section \<open>Draining\<close>

text \<open>A worker that finishes one item of its list in every call empties the list in as many calls as it has items, whatever
  the calls are.\<close>

locale draining =
  fixes work :: "'c \<Rightarrow> 's \<Rightarrow> 's" and inv :: "'s \<Rightarrow> bool" and fit :: "'c \<Rightarrow> 's \<Rightarrow> bool" and left_over :: "'s \<Rightarrow> nat"
  assumes progress: "inv s \<Longrightarrow> fit c s \<Longrightarrow> left_over s \<noteq> 0 \<Longrightarrow> inv (work c s) \<and> Suc (left_over (work c s)) = left_over s"
    and idle: "inv s \<Longrightarrow> fit c s \<Longrightarrow> left_over s = 0 \<Longrightarrow> work c s = s"
    and fit_kept: "inv s \<Longrightarrow> fit c s \<Longrightarrow> fit d s \<Longrightarrow> fit d (work c s)"
begin

lemma work_step: "inv s \<Longrightarrow> fit c s \<Longrightarrow> inv (work c s) \<and> left_over (work c s) = left_over s - 1"
  using progress [of s c] idle [of s c] by (cases "left_over s = 0") auto

lemma drained:
  "inv s \<Longrightarrow> \<forall>c\<in>set cs. fit c s \<Longrightarrow> inv (fold work cs s) \<and> left_over (fold work cs s) = left_over s - length cs"
proof (induction cs arbitrary: s)
  case (Cons c cs)
  then show ?case using work_step [of s c] fit_kept [of s c] by (simp add: Cons.IH)
qed simp

end

section \<open>One call\<close>

lemma claim_first_finds:
  assumes "\<exists>s\<in>set ss. claim_step_of ag (fc_now fc) s \<noteq> Pass"
  shows "\<exists>s\<in>set ss. claim_step_of ag (fc_now fc) s \<noteq> Pass \<and> claim_first fc w l ag ss = claim_first fc w l ag [s]"
  using assms by (induction ss) (auto split: claim_step.splits)

lemma ready_states: "agent_ready ag \<Longrightarrow> s \<in> set (ag_stages ag) \<Longrightarrow> as_state s = ''PENDING'' \<or> as_state s \<in> set terminal_states"
  by (auto simp: agent_ready_def stage_inv_def)

text \<open>The pending stage of a run with the least sequence number has only finished dependencies.\<close>

lemma ready_claim:
  assumes "agent_ready ag" "s \<in> set (ag_stages ag)" "as_state s = ''PENDING''"
    "\<forall>t\<in>set (ag_stages ag). as_state t = ''PENDING'' \<longrightarrow> stg_sequence s \<le> stg_sequence t"
  shows "claim_step_of ag now s \<noteq> Pass"
proof -
  obtain run where run: "row_find ar_id (as_run_id s) (ag_runs ag) = Some run" "rn_state run \<notin> set final_run_states"
    using assms(1-3) by (fastforce simp: agent_ready_def run_known_def run_final_def)
  have ended: "as_state t \<in> set terminal_states" if "t \<in> set (dependencies ag s)" for t
  proof -
    have "t \<in> set (ag_stages ag)" "stg_sequence t < stg_sequence s"
      using that assms(1,2) by (auto simp: agent_ready_def dependencies_def)
    then show ?thesis using assms(4) ready_states [OF assms(1)] by fastforce
  qed
  then have "as_state t \<in> set dependency_ok" if "t \<in> set (dependencies ag s)" "as_state t \<notin> set failed_states" for t
    using that by (auto simp: terminal_states_def)
  with ended run show ?thesis by (auto simp: claim_step_of_def Let_def list_ex_iff)
qed

lemma ready_pending:
  assumes "agent_ready ag" "pending_count ag \<noteq> 0"
  shows "\<exists>s\<in>set (ag_stages ag). as_state s = ''PENDING'' \<and> claim_step_of ag now s \<noteq> Pass"
proof -
  let ?P = "{s \<in> set (ag_stages ag). as_state s = ''PENDING''}"
  have "?P \<noteq> {}" using assms(2) by (auto simp: pending_count_def filter_empty_conv)
  then have "Min (stg_sequence ` ?P) \<in> stg_sequence ` ?P" by (intro Min_in) auto
  then obtain s where s: "s \<in> ?P" "stg_sequence s = Min (stg_sequence ` ?P)" by auto
  then have "\<forall>t\<in>set (ag_stages ag). as_state t = ''PENDING'' \<longrightarrow> stg_sequence s \<le> stg_sequence t" by simp
  with s assms(1) show ?thesis using ready_claim by blast
qed

text \<open>Nothing runs, so nothing has expired.\<close>

lemma ready_recover: "agent_ready ag \<Longrightarrow> snd (recover_expired_stages fc ag) = ag"
  by (auto simp: recover_expired_stages_def expired_stages_def stage_expired_def agent_ready_def write_recovery_def Let_def
      filter_empty_conv)

definition one_less :: "agent_db \<Rightarrow> agent_db \<Rightarrow> bool" where
  "one_less ag ag' \<longleftrightarrow>
     agent_ready ag' \<and> Suc (pending_count ag') = pending_count ag \<and>
     (\<forall>u\<in>set (ag_stages ag'). \<exists>u'\<in>set (ag_stages ag). same_static u' u)"

lemma ready_finish:
  assumes ready: "agent_ready ag" and s: "s \<in> set (ag_stages ag)" "as_state s = ''PENDING''"
    and t: "same_static s t" "stage_inv t" "as_state t \<in> set terminal_states"
    and ag1: "ag_stages ag1 = row_upd stg_id (stg_id s) (\<lambda>_. t) (ag_stages ag)"
      "\<And>i. run_final ag1 i = run_final ag i" "\<And>i. run_known ag1 i = run_known ag i"
  shows "one_less ag (finalize_run fc (as_run_id s) ag1)"
proof -
  let ?i = "as_run_id s" and ?ag2 = "finalize_run fc (as_run_id s) ag1"
  have dist: "distinct (map stg_id (ag_stages ag))" using ready by (simp add: agent_ready_def)
  have ids: "stg_id t = stg_id s" "as_run_id t = ?i" "as_role t = as_role s" "stg_sequence t = stg_sequence s"
    "stg_dependency_roles t = stg_dependency_roles s"
    using t(1) by (auto simp: same_static_def)
  have set1: "set (ag_stages ag1) = insert t (set (ag_stages ag) - {s})"
    using row_upd_set [OF dist s(1) ids(1)] ag1(1) by simp
  have dist1: "distinct (map stg_id (ag_stages ag1))"
    using dist row_upd_keys [of stg_id t "stg_id s"] ids(1) by (simp add: ag1(1))
  have core: "\<exists>u\<in>set (ag_stages ag1). as_run_id u = as_run_id r \<and> as_role u = ''CORE''" if "r \<in> set (ag_stages ag)" for r
    using ready that set1 ids unfolding agent_ready_def by (metis Diff_iff insert_iff singletonD)
  have known: "run_known ag1 ?i" using ready s ag1(3) by (auto simp: agent_ready_def)
  have fin: "run_final ?ag2 j \<longleftrightarrow> run_final ag j \<or> j = ?i \<and> stages_done ag1 ?i" "run_known ?ag2 j = run_known ag j" for j
    using finalize_run_final [OF known] core [OF s(1)] ag1(2,3) by auto
  have other: "stages_done ag1 j = stages_done ag j" if "j \<noteq> ?i" for j
    using that ids(2) by (auto simp: stages_done_def set1)
  have old: "\<exists>u'\<in>set (ag_stages ag). same_static u' u" if "u \<in> set (ag_stages ag1)" for u
    using that s(1) t(1) by (auto simp: set1 same_static_def)
  have deps: "stg_sequence v < stg_sequence u" if uv: "u \<in> set (ag_stages ag1)" "v \<in> set (dependencies ag1 u)" for u v
  proof -
    obtain u' v' where o: "u' \<in> set (ag_stages ag)" "same_static u' u" "v' \<in> set (ag_stages ag)" "same_static v' v"
      using old [OF uv(1)] old [of v] uv(2) by (auto simp: dependencies_def)
    then have "v' \<in> set (dependencies ag u')" using uv(2) by (auto simp: dependencies_def same_static_def)
    then show ?thesis using ready o by (auto simp: agent_ready_def same_static_def)
  qed
  have "stage_inv u \<and> as_state u \<noteq> ''RUNNING'' \<and> run_known ?ag2 (as_run_id u) \<and> (as_state u = ''PENDING'' \<longrightarrow> \<not> run_final ?ag2 (as_run_id u)) \<and>
      (stages_done ag1 (as_run_id u) \<longrightarrow> run_final ?ag2 (as_run_id u)) \<and> (\<exists>c\<in>set (ag_stages ag1). as_run_id c = as_run_id u \<and> as_role c = ''CORE'')"
    if u: "u \<in> set (ag_stages ag1)" for u
  proof -
    have unfinished: "\<not> stages_done ag1 ?i" if "as_state u = ''PENDING''" "as_run_id u = ?i"
      using that u by (auto simp: stages_done_def)
    have closed: "run_final ?ag2 (as_run_id u)" if "stages_done ag1 (as_run_id u)" "u \<in> set (ag_stages ag) \<or> as_run_id u = ?i"
      using that ready other [of "as_run_id u"] fin(1) by (cases "as_run_id u = ?i") (auto simp: agent_ready_def)
    show ?thesis
    proof (cases "u = t")
      case True
      then show ?thesis using t ids known closed core [OF s(1)] fin(2) ag1(3) by auto
    next
      case False
      then have mem: "u \<in> set (ag_stages ag)" using u by (simp add: set1)
      then have "stage_inv u" "as_state u \<noteq> ''RUNNING''" "run_known ag (as_run_id u)" "as_state u = ''PENDING'' \<longrightarrow> \<not> run_final ag (as_run_id u)"
        using ready by (auto simp: agent_ready_def)
      then show ?thesis using mem closed core [OF mem] unfinished fin by auto
    qed
  qed
  then have "agent_ready ?ag2" using dist1 deps by (auto simp: agent_ready_def stages_done_def dependencies_def)
  moreover have "as_state t \<noteq> ''PENDING''" using t(3) not_terminal(1) by metis
  then have "Suc (pending_count ?ag2) = pending_count ag"
    using row_upd_count [OF dist s(1), of "\<lambda>r. as_state r = ''PENDING''" t] s(2) by (simp add: pending_count_def ag1(1))
  ultimately show ?thesis using old by (simp add: one_less_def)
qed

text \<open>A call of a worker: the clocks of its claim and of its execution, the worker, its lease and the effect of the body.\<close>

record agent_call =
  ac_claim :: fusion_call
  ac_execute :: fusion_call
  ac_worker :: uuid
  ac_lease :: int
  ac_effect :: stage_effect

definition agent_work :: "agent_call \<Rightarrow> agent_db \<Rightarrow> agent_db" where
  "agent_work c ag =
     snd (process_agent_work_once (ac_claim c) (ac_execute c) [] (ac_worker c) (ac_lease c) (ac_effect c) ag)"

definition agent_fit :: "agent_call \<Rightarrow> agent_db \<Rightarrow> bool" where
  "agent_fit c ag \<longleftrightarrow> effect_ok (ac_effect c) \<and> (\<forall>s\<in>set (ag_stages ag). stg_available_at s \<le> fc_now (ac_claim c))"

lemma given_up:
  assumes "agent_ready ag" "s \<in> set (ag_stages ag)" "as_state s = ''PENDING''" "claim_step_of ag now s = Give_up st c"
  shows "one_less ag (give_up_stage fc st c s ag)"
proof -
  let ?t = "s\<lparr>as_state := st, stg_error_code := Some c, stg_completed_at := Some (fc_now fc)\<rparr>"
  have st: "st = ''FAILED'' \<or> st = ''TIMED_OUT''"
    using assms(4) by (auto simp: claim_step_of_def Let_def split: option.splits if_splits)
  have dist: "distinct (map stg_id (ag_stages ag))" and inv: "stage_inv s" using assms(1,2) by (auto simp: agent_ready_def)
  show ?thesis unfolding give_up_stage_def
  proof (rule ready_finish [OF assms(1-3), of ?t])
    show "stage_inv ?t" using give_up_advance [OF assms(3) st, of "Some (fc_now fc)" "Some c"] inv by (simp add: stage_advance_def)
  qed (use st row_upd_const [OF dist assms(2)] in \<open>auto simp: same_static_def terminal_cases run_final_def run_known_def\<close>)
qed

lemma executed_static: "same_static s (executed_row now eff (claimed_row w l t n s))"
  by (simp add: same_static_def executed_row_def stage_frames Let_def) (simp add: claimed_row_def)

lemma taken:
  assumes "agent_ready ag" "s \<in> set (ag_stages ag)" "as_state s = ''PENDING''" "effect_ok eff"
    "take_stage w l now s ag = (cl, ag1)"
  shows "one_less ag (snd (execute_claimed_stage fc cl w eff ag1))"
proof -
  let ?r = "claimed_row w l (stage_timeout_seconds ag s) now s"
  have dist: "distinct (map stg_id (ag_stages ag))" and inv: "stage_inv s" using assms(1,2) by (auto simp: agent_ready_def)
  have keep: "stg_id (claimed_row w l k now r) = stg_id r" for k r by (simp add: claimed_row_def)
  have find: "row_find stg_id (stg_id s) (ag_stages ag) = Some s" using row_find_distinct [OF dist assms(2)] .
  have ag1: "ag_stages ag1 = row_upd stg_id (stg_id s) (claimed_row w l (stage_timeout_seconds ag s) now) (ag_stages ag)"
    "run_final ag1 i = run_final ag i" "run_known ag1 i = run_known ag i" "cl = \<lparr>sc_stage_id = stg_id s, sc_fencing_token = stg_fencing_token s + 1\<rparr>" for i
    using assms(5) by (auto simp: take_stage_def start_run_final) (auto simp: run_final_def run_known_def)
  have find1: "row_find stg_id (stg_id s) (ag_stages ag1) = Some ?r" using find keep by (simp add: ag1(1) row_find_row_upd)
  have run1: "row_find ar_id (as_run_id s) (ag_runs ag1) \<noteq> None"
    using assms(1,2) ag1(3) by (auto simp: agent_ready_def run_known_def)
  obtain b ag2 where ex: "execute_claimed_stage fc cl w eff ag1 = (b, ag2)" by fastforce
  have held: "holds_claim w cl ?r" and same: "as_run_id ?r = as_run_id s" by (simp_all add: holds_claim_def claimed_row_def ag1(4))
  have b: b using ex find1 run1 held same by (auto simp: execute_claimed_stage_def ag1(4) Let_def)
  from ex show ?thesis
  proof (cases rule: executeE)
    case (executed s' agx)
    have s': "s' = ?r" using executed(2) find1 by (simp add: ag1(4))
    let ?t = "executed_row (fc_now fc) eff ?r"
    have "stage_advance ?r ?t" using executed_advance [of ?r eff] assms(4) held by (simp add: holds_claim_def)
    then have t: "stage_inv ?t" using claim_advance [OF assms(3)] inv by (auto simp: stage_advance_def)
    have "ag_stages agx = row_upd stg_id (stg_id s) (\<lambda>_. ?t) (ag_stages ag)"
      using executed(6) row_upd_overwrite [of stg_id "claimed_row w l (stage_timeout_seconds ag s) now"] keep by (simp add: s' ag1(1))
    then show ?thesis
      using ready_finish [OF assms(1-3) executed_static t executed_terminal [OF assms(4)], of agx fc] executed ex s' same ag1(2,3)
      by (simp add: run_final_def run_known_def)
  qed (use b in simp)
qed

lemma agent_work_progress:
  assumes "agent_ready ag" "agent_fit c ag" "pending_count ag \<noteq> 0"
  shows "one_less ag (agent_work c ag)"
proof -
  let ?fc = "ac_claim c" and ?ss = "claimable [] (fc_now (ac_claim c)) ag"
  have all: "set ?ss = {s \<in> set (ag_stages ag). as_state s = ''PENDING''}"
    using assms(2) by (auto simp: claimable_def agent_fit_def)
  then obtain s where s: "s \<in> set (ag_stages ag)" "as_state s = ''PENDING''" "claim_step_of ag (fc_now ?fc) s \<noteq> Pass"
    "claim_first ?fc (ac_worker c) (ac_lease c) ag ?ss = claim_first ?fc (ac_worker c) (ac_lease c) ag [s]"
    using claim_first_finds [of ?ss ag ?fc "ac_worker c" "ac_lease c"] ready_pending [OF assms(1,3), of "fc_now ?fc"] by auto
  have eff: "effect_ok (ac_effect c)" using assms(2) by (simp add: agent_fit_def)
  note unfold = agent_work_def process_agent_work_once_def claim_next_stage_def ready_recover [OF assms(1)] Let_def
  show ?thesis
  proof (cases "claim_step_of ag (fc_now ?fc) s")
    case (Give_up st e)
    then show ?thesis using given_up [OF assms(1) s(1,2) Give_up] s(4) by (simp add: unfold)
  next
    case Take
    obtain cl ag1 where take: "take_stage (ac_worker c) (ac_lease c) (fc_now ?fc) s ag = (cl, ag1)" by fastforce
    then show ?thesis using taken [OF assms(1) s(1,2) eff take] s(4) Take by (simp add: unfold)
  qed (use s(3) in simp)
qed

lemma agent_work_idle:
  assumes "agent_ready ag" "pending_count ag = 0"
  shows "agent_work c ag = ag"
proof -
  have "claimable [] now ag = []" for now
    using assms(2) by (auto simp: claimable_def pending_count_def filter_empty_conv simp flip: set_empty)
  then show ?thesis
    by (simp add: agent_work_def process_agent_work_once_def claim_next_stage_def ready_recover [OF assms(1)] Let_def)
qed

interpretation agent_pool: draining agent_work agent_ready agent_fit pending_count
proof
  fix s c d
  assume r: "agent_ready s" and c: "agent_fit c s"
  show "agent_ready (agent_work c s) \<and> Suc (pending_count (agent_work c s)) = pending_count s" if "pending_count s \<noteq> 0"
    using agent_work_progress [OF r c that] by (simp add: one_less_def)
  show "agent_work c s = s" if "pending_count s = 0" using r that by (rule agent_work_idle)
  show "agent_fit d (agent_work c s)" if d: "agent_fit d s"
  proof (cases "pending_count s = 0")
    case False
    then show ?thesis using agent_work_progress [OF r c] d by (fastforce simp: agent_fit_def one_less_def same_static_def)
  qed (use d agent_work_idle [OF r] in simp)
qed

definition fresh_call :: agent_call where
  "fresh_call = \<lparr>ac_claim = fresh_clock 0, ac_execute = fresh_clock 0, ac_worker = 9, ac_lease = 30,
     ac_effect = \<lparr>se_invocations = [], se_invocation_id = None, se_bundles = [], se_result = RaisedRuntime ''AGENT_ROUTE_NOT_READY''\<rparr>\<rparr>"

lemma fresh_agents_ready: "agent_ready fresh_agents" "pending_count fresh_agents = 8" "agent_fit fresh_call fresh_agents"
  by code_simp+

section \<open>Completion\<close>

lemma drained_complete:
  assumes "agent_ready ag" "\<forall>c\<in>set cs. agent_fit c ag" "pending_count ag \<le> length cs" "s \<in> set (ag_stages (fold agent_work cs ag))"
  shows "as_state s \<in> set terminal_states \<and> run_final (fold agent_work cs ag) (as_run_id s)"
proof -
  let ?ag = "fold agent_work cs ag"
  have ready: "agent_ready ?ag" and none: "pending_count ?ag = 0"
    using agent_pool.drained [OF assms(1,2)] assms(3) by auto
  have all: "as_state u \<in> set terminal_states" if "u \<in> set (ag_stages ?ag)" for u
    using ready_states [OF ready that] none that by (auto simp: pending_count_def filter_empty_conv)
  then have "stages_done ?ag (as_run_id s)" using assms(4) by (auto simp: stages_done_def)
  with all assms(4) ready show ?thesis by (auto simp: agent_ready_def)
qed

section \<open>Property\<close>

text \<open>Uninterrupted workers finish every run of agents. From a state in which no stage is running, as many calls as there are
  pending stages, by any workers at any times after the stages are available and whatever the bodies of the stages return or
  raise, leave every stage finished and the run of every stage concluded.\<close>

theorem agent_runs_complete:
  assumes "agent_ready ag" "\<forall>c\<in>set cs. agent_fit c ag" "pending_count ag \<le> length cs" "s \<in> set (ag_stages (fold agent_work cs ag))"
  shows "as_state s \<in> set terminal_states \<and> run_final (fold agent_work cs ag) (as_run_id s)"
  using assms by (rule drained_complete)

theorem agent_runs_complete_witness:
  "list_all (\<lambda>s. as_state s \<in> set terminal_states \<and> run_final (fold agent_work (replicate 8 fresh_call) fresh_agents) (as_run_id s))
     (ag_stages (fold agent_work (replicate 8 fresh_call) fresh_agents))"
  using agent_runs_complete [of fresh_agents "replicate 8 fresh_call"] fresh_agents_ready by (simp add: list_all_iff)

end
