(* ===== verification/Broker_Worker.thy ===== *)
theory Broker_Worker
  imports Reconciliation Kiwoom_Client Kiwoom_Feed Watchlist Stop_Trigger
begin

text \<open>
  \<open>app/worker.py\<close>: the broker worker that drives the lease, the broker client, the websocket, the order
  sender, the stop triggers, the quote ingestion and the reconciliation. A coroutine that the code awaits is an operation on
  the world of the worker that returns a value or raises. The event loop is a machine of phases: one step is one
  connection attempt, one pass of the receive loop, one run of the exception handler, or the shutdown; the heartbeat
  task runs between steps. \<open>outside\<close> is what surrounds one operation: the clocks, the network, and what
  other processes commit before it (\<open>wo_env\<close>) and while its network call is in flight (\<open>wo_env_call\<close>).
  Quotes ingested by other processes are outside the model.
\<close>

section \<open>World\<close>

datatype worker_error =
    LeaseLost   \<comment> \<open>\<open>RuntimeError("WORKER_LEASE_LOST")\<close>\<close>
  | AdapterFailed string
  | FeedFailed string
  | ReconcileFailed string   \<comment> \<open>\<open>WorkerReconciliationError\<close> with its source code\<close>
  | SenderFailed string
  | SocketFailed   \<comment> \<open>\<open>WebSocketException\<close> or \<open>OSError\<close>\<close>
  | Unhandled   \<comment> \<open>a class the handler of the connection loop does not list\<close>

record worker_config =
  wc_configured :: bool
  wc_owner_id :: string
  wc_lease_seconds :: int
  wc_heartbeat_seconds :: int
  wc_reconcile_interval_seconds :: int
  wc_event_debounce_seconds :: int
  wc_watchlist_sync_seconds :: int
  wc_settings :: settings
  wc_holidays :: "int \<Rightarrow> date list option"
  wc_foreign_keys :: bool
  wc_price_scale :: nat
  wc_hex :: "json \<Rightarrow> string"
  wc_quote_hex :: "string \<Rightarrow> string \<Rightarrow> payload \<Rightarrow> string"

record worker_world =
  ww_sender :: sender_state
  ww_watch :: watch_db
  ww_client :: kiwoom_client
  ww_feed :: kiwoom_feed
  ww_identity :: "lease_identity option"
  ww_lease_lost :: bool

record outside =
  wo_now :: instant
  wo_later :: instant   \<comment> \<open>the clock after a network call\<close>
  wo_net :: kiwoom_net
  wo_env :: "db \<Rightarrow> db"
  wo_env_call :: "db \<Rightarrow> db"
  wo_locked :: "uuid \<Rightarrow> bool"
  wo_unreachable :: bool   \<comment> \<open>the connector raises\<close>
  wo_frames :: "frame list"   \<comment> \<open>what a new socket will deliver\<close>

type_synonym 'x worker_op = "worker_world \<Rightarrow> (worker_error + 'x) \<times> worker_world"

definition wk_return :: "'x \<Rightarrow> 'x worker_op" where
  "wk_return x w = (Inr x, w)"

definition wk_bind :: "'x worker_op \<Rightarrow> ('x \<Rightarrow> 'y worker_op) \<Rightarrow> 'y worker_op" where
  "wk_bind m f w = (case m w of (Inl e, w1) \<Rightarrow> (Inl e, w1) | (Inr x, w1) \<Rightarrow> f x w1)"

definition ww_db :: "worker_world \<Rightarrow> db" where
  "ww_db w = sw_db (ww_sender w)"

definition put_db :: "db \<Rightarrow> worker_world \<Rightarrow> worker_world" where
  "put_db d w = w\<lparr>ww_sender := (ww_sender w)\<lparr>sw_db := d\<rparr>\<rparr>"

definition others :: "outside \<Rightarrow> worker_world \<Rightarrow> worker_world" where
  "others ot w = put_db (wo_env ot (ww_db w)) w"

text \<open>The code of an error of class \<open>KiwoomAdapterError\<close>; the other errors of the client are none.\<close>

definition adapter_code :: "adapter_error \<Rightarrow> string option" where
  "adapter_code e =
     (case e of
        KiwoomAdapterError code _ \<Rightarrow> Some code
      | KiwoomOrderRejectedError _ _ \<Rightarrow> Some ''KIWOOM_ORDER_REJECTED''
      | KiwoomOrderOutcomeUnknownError \<Rightarrow> Some ''KIWOOM_ORDER_OUTCOME_UNKNOWN''
      | _ \<Rightarrow> None)"

definition adapter_failure :: "adapter_error \<Rightarrow> worker_error" where
  "adapter_failure e = (case adapter_code e of None \<Rightarrow> Unhandled | Some code \<Rightarrow> AdapterFailed code)"

definition feed_failure :: "feed_error \<Rightarrow> worker_error" where
  "feed_failure e =
     (case e of KiwoomWebSocketError code \<Rightarrow> FeedFailed code | SocketClosed \<Rightarrow> SocketFailed | _ \<Rightarrow> Unhandled)"

definition sender_failure :: "sender_error \<Rightarrow> worker_error" where
  "sender_failure e = (case e of KiwoomOrderSenderError code \<Rightarrow> SenderFailed code | ClientException \<Rightarrow> Unhandled)"

definition safe_error_code :: "worker_error \<Rightarrow> string" where
  "safe_error_code e =
     (case e of
        AdapterFailed code \<Rightarrow> code
      | FeedFailed code \<Rightarrow> code
      | ReconcileFailed _ \<Rightarrow> ''WORKER_RECONCILIATION_FAILED''
      | LeaseLost \<Rightarrow> ''WORKER_LEASE_LOST''
      | _ \<Rightarrow> ''KIWOOM_WORKER_ERROR'')"

section \<open>Published state\<close>

text \<open>Every call publishes the same value for the socket and for the subscriptions.\<close>

definition worker_publish :: "string \<Rightarrow> bool \<Rightarrow> (gate_status \<times> string) option \<Rightarrow> worker_update" where
  "worker_publish s conn gate =
     \<lparr>wu_state = s, wu_websocket_connected = conn, wu_subscriptions_ready = conn,
      wu_gate = map_option (\<lambda>(g, reason). (g, Some reason)) gate, wu_error_code = None, wu_reconciliation_run_id = None\<rparr>"

definition update_state :: "outside \<Rightarrow> worker_update \<Rightarrow> worker_world \<Rightarrow> bool \<times> worker_world" where
  "update_state ot u w =
     (case ww_identity w of
        None \<Rightarrow> (False, w)
      | Some i \<Rightarrow>
          (let w1 = others ot w; (done_it, d) = update_worker_state i u (wo_now ot) (ww_db w1) in (done_it, put_db d w1)))"

definition require_state :: "outside \<Rightarrow> worker_update \<Rightarrow> unit worker_op" where
  "require_state ot u w =
     (case update_state ot u w of
        (True, w1) \<Rightarrow> (Inr (), w1)
      | (False, w1) \<Rightarrow> (Inl LeaseLost, w1\<lparr>ww_lease_lost := True\<rparr>))"

definition heartbeat :: "worker_config \<Rightarrow> outside \<Rightarrow> worker_world \<Rightarrow> worker_world" where
  "heartbeat cfg ot w =
     (case ww_identity w of
        None \<Rightarrow> w
      | Some i \<Rightarrow>
          (let w1 = others ot w; (renewed, d) = renew_lease i (wc_lease_seconds cfg) (wo_now ot) (ww_db w1); w2 = put_db d w1
           in if renewed then w2 else w2\<lparr>ww_lease_lost := True\<rparr>))"

section \<open>Calls of the components\<close>

definition fetch_token :: "outside \<Rightarrow> string worker_op" where
  "fetch_token ot w =
     (case get_access_token (wo_net ot) False (ww_client w) of
        (r, c) \<Rightarrow> (map_sum adapter_failure id r, w\<lparr>ww_client := c\<rparr>))"

definition check_account :: "outside \<Rightarrow> unit worker_op" where
  "check_account ot w =
     (case verify_account (wo_net ot) (ww_client w) of
        (r, c) \<Rightarrow> (map_sum adapter_failure (\<lambda>_. ()) r, w\<lparr>ww_client := c\<rparr>))"

definition open_feed :: "outside \<Rightarrow> string \<Rightarrow> unit worker_op" where
  "open_feed ot tok w =
     (let fd = (ww_feed w)\<lparr>fd_frames := wo_frames ot\<rparr>
      in if wo_unreachable ot
         then (Inl SocketFailed, w\<lparr>ww_feed := fd\<lparr>fd_quote_symbols := [], fd_quote_items := [], fd_pending := [],
                 fd_trades := [], fd_books := []\<rparr>\<rparr>)
         else (case feed_open tok fd of (r, fd1) \<Rightarrow> (map_sum feed_failure id r, w\<lparr>ww_feed := fd1\<rparr>)))"

definition close_feed :: "worker_world \<Rightarrow> worker_world" where
  "close_feed w = w\<lparr>ww_feed := feed_close (ww_feed w)\<rparr>"

definition sync_watchlist :: "outside \<Rightarrow> unit worker_op" where
  "sync_watchlist ot w =
     (let w1 = others ot w
      in case sync_quotes (active_kiwoom_symbols (ww_db w1)) (ww_feed w1) of
           (r, fd) \<Rightarrow> (map_sum feed_failure id r, w1\<lparr>ww_feed := fd\<rparr>))"

definition worker_send_call :: "worker_config \<Rightarrow> outside \<Rightarrow> lease_identity \<Rightarrow> kiwoom_client \<Rightarrow> send_call" where
  "worker_send_call cfg ot i c =
     \<lparr>sn_place = (\<lambda>rq. outcome_of (fst (place_order (wo_net ot) (wc_price_scale cfg) rq c))),
      sn_cancel = (\<lambda>rq. outcome_of (fst (cancel_order (wo_net ot) rq c))),
      sn_identity = i, sn_now = wo_now ot, sn_env = wo_env_call ot, sn_finish_now = wo_later ot, sn_locked = wo_locked ot\<rparr>"

text \<open>The client is left by the request that was handed to it, if there was one.\<close>

definition client_after :: "('q \<Rightarrow> kiwoom_client \<Rightarrow> 'r \<times> kiwoom_client) \<Rightarrow> (uuid \<times> 'q) list \<Rightarrow> (uuid \<times> 'q) list \<Rightarrow>
    kiwoom_client \<Rightarrow> kiwoom_client" where
  "client_after call old new c = (case drop (length old) new of [] \<Rightarrow> c | (_, rq) # _ \<Rightarrow> snd (call rq c))"

definition dispatch_next_order :: "worker_config \<Rightarrow> outside \<Rightarrow> send_result option worker_op" where
  "dispatch_next_order cfg ot w =
     (case ww_identity w of
        None \<Rightarrow> (Inl LeaseLost, w)
      | Some i \<Rightarrow>
          (let w1 = others ot w;
               (r, s) = send_next_created_order (worker_send_call cfg ot i (ww_client w1)) (ww_sender w1)
           in (map_sum sender_failure id r,
               w1\<lparr>ww_sender := s, ww_client := client_after (place_order (wo_net ot) (wc_price_scale cfg))
                     (sw_placed (ww_sender w1)) (sw_placed s) (ww_client w1)\<rparr>)))"

definition cancel_expired_buy :: "worker_config \<Rightarrow> outside \<Rightarrow> cancel_result option worker_op" where
  "cancel_expired_buy cfg ot w =
     (case ww_identity w of
        None \<Rightarrow> (Inl LeaseLost, w)
      | Some i \<Rightarrow>
          (let w1 = others ot w;
               (r, s) = cancel_next_expired_buy_once (worker_send_call cfg ot i (ww_client w1)) (ww_sender w1)
           in (map_sum sender_failure id r,
               w1\<lparr>ww_sender := s, ww_client := client_after (cancel_order (wo_net ot))
                     (sw_cancelled (ww_sender w1)) (sw_cancelled s) (ww_client w1)\<rparr>)))"

text \<open>\<open>datetime.isoformat\<close> of an instant in UTC.\<close>

definition padded :: "nat \<Rightarrow> int \<Rightarrow> string" where
  "padded n k = str_zfill n (int_text k)"

definition iso_utc :: "instant \<Rightarrow> string" where
  "iso_utc t =
     (let (y, m, dd) = civil_of (t div seconds 86400); s = t mod seconds 86400 div 1000000; us = t mod 1000000
      in padded 4 y @ ''-'' @ padded 2 m @ ''-'' @ padded 2 dd @ ''T'' @ padded 2 (s div 3600) @ '':'' @
         padded 2 (s div 60 mod 60) @ '':'' @ padded 2 (s mod 60) @ (if us = 0 then [] else ''.'' @ padded 6 us) @ ''+00:00'')"

text \<open>A failing evaluation is logged; the recovery runs only after an evaluation that did not fail.\<close>

definition run_stop_triggers :: "worker_config \<Rightarrow> instant \<Rightarrow> outside \<Rightarrow> worker_world \<Rightarrow> worker_world" where
  "run_stop_triggers cfg now ot w =
     (case ww_identity w of
        None \<Rightarrow> w
      | Some _ \<Rightarrow>
          (let w1 = others ot w;
               sk = \<lparr>sk_now = now, sk_wall = wo_now ot, sk_correlation_id = ''stop-'' @ iso_utc now\<rparr>
           in case run_fixed_stop_triggers (wc_foreign_keys cfg) (wc_holidays cfg) (wc_settings cfg) sk kiwoom_account (ww_db w1) of
                (Inl _, d) \<Rightarrow> put_db d w1
              | (Inr _, d) \<Rightarrow>
                  put_db (snd (recover_exit_pending (wc_foreign_keys cfg) (wc_holidays cfg) (wc_settings cfg) now
                    kiwoom_account d)) w1))"

text \<open>A \<open>WatchError\<close> discards the quote; the arithmetic error of the indicators is none.\<close>

definition persist_quote :: "quote_event \<Rightarrow> unit worker_op" where
  "persist_quote e w =
     (case ingest_quote e (ww_watch w) of
        (Inl DecimalDivisionByZero, _) \<Rightarrow> (Inl Unhandled, w)
      | (_, wd) \<Rightarrow> (Inr (), put_db (published wd (ww_db w)) (w\<lparr>ww_watch := wd\<rparr>)))"

section \<open>Reconciliation\<close>

definition raised_answer :: "adapter_error \<Rightarrow> broker_answer" where
  "raised_answer e = (case adapter_code e of None \<Rightarrow> ClientRaises | Some code \<Rightarrow> AdapterRaises code)"

definition broker_account :: "kiwoom_net \<Rightarrow> kiwoom_client \<Rightarrow> broker_answer \<times> kiwoom_client" where
  "broker_account net c =
     (case verify_account net c of
        (Inl e, c1) \<Rightarrow> (raised_answer e, c1)
      | (Inr _, c1) \<Rightarrow>
          (case get_account_snapshot net c1 of
             (Inl e, c2) \<Rightarrow> (raised_answer e, c2)
           | (Inr snap, c2) \<Rightarrow> (AccountAnswer snap, c2)))"

definition worker_reconciliation_call :: "string \<Rightarrow> outside \<Rightarrow> broker_answer \<Rightarrow> reconciliation_call" where
  "worker_reconciliation_call trigger ot answer =
     \<lparr>kr_trigger = trigger, kr_correlation_id = None, kr_clean_gate_reason = ''WORKER_VALIDATION_PENDING'',
      kr_answer = answer, kr_env = wo_env_call ot, kr_started = wo_now ot, kr_resolved = wo_later ot, kr_completed = wo_later ot\<rparr>"

definition reconciliation_failure :: "reconciliation_error \<Rightarrow> worker_error" where
  "reconciliation_failure e =
     (case e of
        UnsupportedTrigger \<Rightarrow> Unhandled
      | reconciliation_error.AdapterError code \<Rightarrow> ReconcileFailed code
      | ReconciliationProjectionError \<Rightarrow> ReconcileFailed ''RECONCILIATION_PROJECTION_FAILED'')"

definition run_reconciliation :: "worker_config \<Rightarrow> string \<Rightarrow> outside \<Rightarrow> reconciliation_result worker_op" where
  "run_reconciliation cfg trigger ot w =
     (let w1 = others ot w;
          (answer, c) = broker_account (wo_net ot) (ww_client w1);
          (r, d) = run_kiwoom_reconciliation (wc_hex cfg) (worker_reconciliation_call trigger ot answer) (ww_db w1)
      in (map_sum reconciliation_failure id r, put_db d (w1\<lparr>ww_client := c\<rparr>)))"

definition reconcile :: "worker_config \<Rightarrow> string \<Rightarrow> (nat \<Rightarrow> outside) \<Rightarrow> reconciliation_result worker_op" where
  "reconcile cfg trigger out =
     wk_bind (require_state (out 0) (worker_publish ''RECONCILING'' True (Some (GS_RECONCILING, ''ACCOUNT_RECONCILING''))))
       (\<lambda>_. run_reconciliation cfg trigger (out 1))"

definition apply_reconciliation_result :: "outside \<Rightarrow> reconciliation_result \<Rightarrow> unit worker_op" where
  "apply_reconciliation_result ot v =
     (if kv_critical_mismatch_count v \<noteq> 0
      then require_state ot ((worker_publish ''DEGRADED'' True None)\<lparr>wu_reconciliation_run_id := Some (kv_run_id v)\<rparr>)
      else require_state ot ((worker_publish ''READY'' True (Some (GS_READY, ''WORKER_HEALTHY'')))
             \<lparr>wu_reconciliation_run_id := Some (kv_run_id v)\<rparr>))"

definition reconcile_and_apply :: "worker_config \<Rightarrow> string \<Rightarrow> (nat \<Rightarrow> outside) \<Rightarrow> reconciliation_result worker_op" where
  "reconcile_and_apply cfg trigger out =
     wk_bind (reconcile cfg trigger out)
       (\<lambda>v. wk_bind (apply_reconciliation_result (out 2) v) (\<lambda>_. wk_return v))"

section \<open>The receive loop\<close>

record loop_state =
  ls_next_periodic :: instant
  ls_next_token_check :: instant
  ls_next_stop_trigger :: instant
  ls_event_due :: "instant option"
  ls_next_watchlist_sync :: instant
  ls_order_dispatch_enabled :: bool

definition stop_trigger_interval_seconds :: int where
  "stop_trigger_interval_seconds = 10"

definition fresh_loop :: "worker_config \<Rightarrow> instant \<Rightarrow> loop_state" where
  "fresh_loop cfg now =
     \<lparr>ls_next_periodic = now + seconds (wc_reconcile_interval_seconds cfg),
      ls_next_token_check = now + seconds (wc_heartbeat_seconds cfg),
      ls_next_stop_trigger = now + seconds stop_trigger_interval_seconds, ls_event_due = None,
      ls_next_watchlist_sync = now + seconds (wc_watchlist_sync_seconds cfg), ls_order_dispatch_enabled = True\<rparr>"

record worker_tick =
  tk_stop :: bool   \<comment> \<open>\<open>stop_event\<close> is set\<close>
  tk_silent :: bool   \<comment> \<open>nothing is received for a second\<close>
  tk_out :: "nat \<Rightarrow> outside"

definition tick_from :: "worker_tick \<Rightarrow> nat \<Rightarrow> nat \<Rightarrow> outside" where
  "tick_from tk n k = tk_out tk (n + k)"

definition observed_at :: "worker_tick \<Rightarrow> instant" where
  "observed_at tk = wo_now (tk_out tk 0)"

definition stop_trigger_part :: "worker_config \<Rightarrow> worker_tick \<Rightarrow> loop_state \<Rightarrow> loop_state worker_op" where
  "stop_trigger_part cfg tk ls w =
     (if ls_next_stop_trigger ls \<le> observed_at tk
      then (Inr (ls\<lparr>ls_next_stop_trigger := wo_now (tk_out tk 2) + seconds stop_trigger_interval_seconds\<rparr>),
            run_stop_triggers cfg (observed_at tk) (tk_out tk 1) w)
      else (Inr ls, w))"

definition watchlist_part :: "worker_config \<Rightarrow> worker_tick \<Rightarrow> loop_state \<Rightarrow> loop_state worker_op" where
  "watchlist_part cfg tk ls =
     (if ls_next_watchlist_sync ls \<le> observed_at tk
      then wk_bind (sync_watchlist (tk_out tk 3))
        (\<lambda>_. wk_return (ls\<lparr>ls_next_watchlist_sync := observed_at tk + seconds (wc_watchlist_sync_seconds cfg)\<rparr>))
      else wk_return ls)"

text \<open>A reconciliation inside the loop decides whether orders are dispatched afterwards.\<close>

definition loop_reconcile :: "worker_config \<Rightarrow> string \<Rightarrow> (nat \<Rightarrow> outside) \<Rightarrow> loop_state \<Rightarrow> loop_state worker_op" where
  "loop_reconcile cfg trigger out ls =
     wk_bind (reconcile_and_apply cfg trigger out)
       (\<lambda>v. wk_return (ls\<lparr>ls_order_dispatch_enabled := (kv_critical_mismatch_count v = 0),
          ls_next_periodic := wo_now (out 3) + seconds (wc_reconcile_interval_seconds cfg)\<rparr>))"

definition cancel_uncertain :: "cancel_result option \<Rightarrow> bool" where
  "cancel_uncertain r = (case r of None \<Rightarrow> False | Some c \<Rightarrow> cr_status c \<in> {OS_UNKNOWN, OS_RECONCILING})"

definition send_uncertain :: "send_result option \<Rightarrow> bool" where
  "send_uncertain r = (case r of None \<Rightarrow> False | Some s \<Rightarrow> sr_status s = OS_UNKNOWN)"

text \<open>The value tells whether the pass ends here.\<close>

definition dispatch_part :: "worker_config \<Rightarrow> worker_tick \<Rightarrow> loop_state \<Rightarrow> (bool \<times> loop_state) worker_op" where
  "dispatch_part cfg tk ls =
     wk_bind (dispatch_next_order cfg (tk_out tk 9))
       (\<lambda>r. if send_uncertain r
            then wk_bind (loop_reconcile cfg ''ORDER_OUTCOME_UNKNOWN'' (tick_from tk 10) ls) (\<lambda>ls1. wk_return (True, ls1))
            else wk_return (False, ls))"

definition order_part :: "worker_config \<Rightarrow> worker_tick \<Rightarrow> loop_state \<Rightarrow> (bool \<times> loop_state) worker_op" where
  "order_part cfg tk ls =
     (if ls_order_dispatch_enabled ls
      then wk_bind (cancel_expired_buy cfg (tk_out tk 4))
        (\<lambda>r. if cancel_uncertain r
             then wk_bind (loop_reconcile cfg ''UNFILLED_ORDER_CANCEL_UNCERTAIN'' (tick_from tk 5) ls) (\<lambda>ls1. wk_return (True, ls1))
             else dispatch_part cfg tk ls)
      else wk_return (False, ls))"

text \<open>A rotated token closes the socket and leaves the loop (\<open>None\<close>).\<close>

definition token_part :: "worker_config \<Rightarrow> worker_tick \<Rightarrow> string \<Rightarrow> loop_state \<Rightarrow> loop_state option worker_op" where
  "token_part cfg tk token_used ls =
     (if ls_next_token_check ls \<le> observed_at tk
      then wk_bind (fetch_token (tk_out tk 14))
        (\<lambda>current w. if current \<noteq> token_used
           then (Inr None, close_feed (snd (update_state (tk_out tk 15)
                  (worker_publish ''RECONCILING'' True (Some (GS_RECONCILING, ''TOKEN_ROTATION_RECONNECT''))) w)))
           else (Inr (Some (ls\<lparr>ls_next_token_check := observed_at tk + seconds (wc_heartbeat_seconds cfg)\<rparr>)), w))
      else wk_return (Some ls))"

definition due_part :: "worker_config \<Rightarrow> worker_tick \<Rightarrow> loop_state \<Rightarrow> loop_state worker_op" where
  "due_part cfg tk ls =
     (if (case ls_event_due ls of None \<Rightarrow> False | Some t \<Rightarrow> t \<le> observed_at tk)
      then loop_reconcile cfg ''BROKER_EVENT'' (tick_from tk 16) (ls\<lparr>ls_event_due := None\<rparr>)
      else if ls_next_periodic ls \<le> observed_at tk then loop_reconcile cfg ''PERIODIC'' (tick_from tk 16) ls
      else wk_return ls)"

definition receive_event :: "worker_config \<Rightarrow> outside \<Rightarrow> receive_result worker_op" where
  "receive_event cfg ot w =
     (case receive (wc_quote_hex cfg) (wo_now ot) (ww_feed w) of
        (r, fd) \<Rightarrow> (map_sum feed_failure id r, w\<lparr>ww_feed := fd\<rparr>))"

definition handle_event :: "worker_config \<Rightarrow> worker_tick \<Rightarrow> receive_result \<Rightarrow> loop_state \<Rightarrow> loop_state worker_op" where
  "handle_event cfg tk ev ls =
     (case ev of
        Received AccountEvent \<Rightarrow>
          if ls_event_due ls = None
          then wk_bind (require_state (tk_out tk 21)
              (worker_publish ''RECONCILING'' True (Some (GS_RECONCILING, ''BROKER_EVENT_PENDING''))))
            (\<lambda>_. wk_return (ls\<lparr>ls_order_dispatch_enabled := False,
               ls_event_due := Some (wo_now (tk_out tk 22) + seconds (wc_event_debounce_seconds cfg))\<rparr>))
          else wk_return ls
      | Received (QuoteMessage q) \<Rightarrow> wk_bind (persist_quote q) (\<lambda>_. wk_return ls)
      | _ \<Rightarrow> wk_return ls)"

definition event_part :: "worker_config \<Rightarrow> worker_tick \<Rightarrow> loop_state \<Rightarrow> loop_state worker_op" where
  "event_part cfg tk ls w =
     (if tk_silent tk \<and> fd_pending (ww_feed w) = [] then (Inr ls, w)
      else wk_bind (receive_event cfg (tk_out tk 20)) (\<lambda>ev. handle_event cfg tk ev ls) w)"

definition receive_pass :: "worker_config \<Rightarrow> worker_tick \<Rightarrow> string \<Rightarrow> loop_state \<Rightarrow> loop_state option worker_op" where
  "receive_pass cfg tk token_used ls =
     wk_bind (stop_trigger_part cfg tk ls) (\<lambda>ls1.
     wk_bind (watchlist_part cfg tk ls1) (\<lambda>ls2.
     wk_bind (order_part cfg tk ls2) (\<lambda>(ended, ls3).
     if ended then wk_return (Some ls3)
     else wk_bind (token_part cfg tk token_used ls3) (\<lambda>next_ls.
       case next_ls of
         None \<Rightarrow> wk_return None
       | Some ls4 \<Rightarrow>
           wk_bind (due_part cfg tk ls4) (\<lambda>ls5. wk_bind (event_part cfg tk ls5) (\<lambda>ls6. wk_return (Some ls6)))))))"

section \<open>The connection loop\<close>

datatype worker_phase =
    Acquiring
  | Connecting nat bool   \<comment> \<open>\<open>failures\<close>, \<open>connected_once\<close>\<close>
  | Receiving string loop_state   \<comment> \<open>\<open>failures\<close> is zero and \<open>connected_once\<close> holds\<close>
  | Failing worker_error nat bool
  | Waiting int nat bool
  | Leaving "int option"   \<comment> \<open>the exit code; None: an exception propagates\<close>
  | Exited "int option"

definition reconnect_backoff :: "int list" where
  "reconnect_backoff = [1, 2, 5, 10, 30]"

definition connect_feed :: "worker_tick \<Rightarrow> string worker_op" where
  "connect_feed tk =
     wk_bind (require_state (tk_out tk 0)
       (worker_publish ''AUTHENTICATING'' False (Some (GS_RECONCILING, ''WORKER_AUTHENTICATING'')))) (\<lambda>_.
     wk_bind (fetch_token (tk_out tk 1)) (\<lambda>tok.
     wk_bind (check_account (tk_out tk 2)) (\<lambda>_.
     wk_bind (require_state (tk_out tk 3)
       (worker_publish ''CONNECTING'' False (Some (GS_RECONCILING, ''WEBSOCKET_CONNECTING'')))) (\<lambda>_.
     wk_bind (open_feed (tk_out tk 4) tok) (\<lambda>_.
     wk_bind (sync_watchlist (tk_out tk 5)) (\<lambda>_.
     wk_bind (require_state (tk_out tk 6)
       (worker_publish ''SUBSCRIBING'' True (Some (GS_RECONCILING, ''WORKER_RECONCILING'')))) (\<lambda>_. wk_return tok)))))))"

definition connect :: "worker_config \<Rightarrow> worker_tick \<Rightarrow> nat \<Rightarrow> bool \<Rightarrow> worker_world \<Rightarrow> worker_phase \<times> worker_world" where
  "connect cfg tk failures once w =
     (case connect_feed tk w of
        (Inl e, w1) \<Rightarrow> (Failing e failures once, w1)
      | (Inr tok, w1) \<Rightarrow>
          (case reconcile_and_apply cfg (if once then ''WEBSOCKET_RECONNECTED'' else ''WORKER_STARTUP'') (tick_from tk 7) w1 of
             (Inl e, w2) \<Rightarrow> (Failing e failures True, w2)
           | (Inr _, w2) \<Rightarrow> (Receiving tok (fresh_loop cfg (wo_now (tk_out tk 10))), w2)))"

definition failure_update :: "worker_error \<Rightarrow> nat \<Rightarrow> worker_update" where
  "failure_update e failures =
     (let reconciliation_failed = (case e of ReconcileFailed _ \<Rightarrow> True | _ \<Rightarrow> False);
          degraded = (reconciliation_failed \<or> length reconnect_backoff \<le> failures)
      in (worker_publish (if degraded then ''DEGRADED'' else ''RECONCILING'') False
           (Some (if degraded then GS_DEGRADED else GS_RECONCILING,
             if reconciliation_failed then ''RECONCILIATION_FAILED''
             else if degraded then ''WEBSOCKET_UNAVAILABLE'' else ''WEBSOCKET_RECONNECTING'')))
         \<lparr>wu_error_code := Some (safe_error_code e)\<rparr>)"

definition handle_failure ::
  "worker_tick \<Rightarrow> worker_error \<Rightarrow> nat \<Rightarrow> bool \<Rightarrow> worker_world \<Rightarrow> worker_phase \<times> worker_world" where
  "handle_failure tk e failures once w =
     (if e = Unhandled then (Leaving None, w)
      else
        (let w1 = close_feed w
         in if ww_lease_lost w1 \<or> e = LeaseLost then (Leaving (Some 3), w1)
            else (Waiting (reconnect_backoff ! min failures (length reconnect_backoff - 1)) (failures + 1) once,
                  snd (update_state (tk_out tk 0) (failure_update e (failures + 1)) w1))))"

definition acquire_phase :: "worker_config \<Rightarrow> worker_tick \<Rightarrow> worker_world \<Rightarrow> worker_phase \<times> worker_world" where
  "acquire_phase cfg tk w =
     (if \<not> wc_configured cfg then (Exited (Some 2), w)
      else if tk_stop tk then (Exited (Some 0), w)
      else
        (let w1 = others (tk_out tk 0) w;
             (r, d) = acquire_lease (wo_env_call (tk_out tk 0)) (wc_owner_id cfg) (wc_lease_seconds cfg) (wo_now (tk_out tk 0)) (ww_db w1);
             w2 = put_db d w1
         in case r of
              None \<Rightarrow> (Acquiring, w2)
            | Some i \<Rightarrow>
                (Connecting 0 False,
                 snd (update_state (tk_out tk 1)
                   (worker_publish ''STARTING'' False (Some (GS_RECONCILING, ''WORKER_STARTING''))) (w2\<lparr>ww_identity := Some i\<rparr>)))))"

definition shut_down :: "worker_tick \<Rightarrow> worker_world \<Rightarrow> worker_world" where
  "shut_down tk w =
     (let w1 = close_feed w
      in case ww_identity w1 of
           None \<Rightarrow> w1
         | Some i \<Rightarrow>
             (let w2 = snd (update_state (tk_out tk 0)
                    (worker_publish ''STOPPED'' False (Some (GS_DEGRADED, ''WORKER_STOPPED''))) w1);
                  w3 = others (tk_out tk 1) w2
              in put_db (snd (release_lease i (wo_now (tk_out tk 1)) (ww_db w3))) w3))"

fun worker_advance :: "worker_config \<Rightarrow> worker_tick \<Rightarrow> worker_phase \<Rightarrow> worker_world \<Rightarrow> worker_phase \<times> worker_world" where
  "worker_advance cfg tk Acquiring w = acquire_phase cfg tk w"
| "worker_advance cfg tk (Connecting failures once) w =
     (if tk_stop tk then (Leaving (Some 0), w)
      else if ww_lease_lost w then (Leaving (Some 3), close_feed w)
      else connect cfg tk failures once w)"
| "worker_advance cfg tk (Receiving tok ls) w =
     (if ww_lease_lost w then (Failing LeaseLost 0 True, w)
      else if tk_stop tk then (Connecting 0 True, w)
      else case receive_pass cfg tk tok ls w of
        (Inl e, w1) \<Rightarrow> (Failing e 0 True, w1)
      | (Inr None, w1) \<Rightarrow> (Connecting 0 True, w1)
      | (Inr (Some ls1), w1) \<Rightarrow> (Receiving tok ls1, w1))"
| "worker_advance cfg tk (Failing e failures once) w = handle_failure tk e failures once w"
| "worker_advance cfg tk (Waiting secs failures once) w = (Connecting failures once, w)"
| "worker_advance cfg tk (Leaving r) w = (Exited r, shut_down tk w)"
| "worker_advance cfg tk (Exited r) w = (Exited r, w)"

end
