(* ===== verification/Worker_Frames.thy ===== *)
theory Worker_Frames
  imports Broker_Worker Sender_Properties Reconciliation_Properties Stop_Properties
begin

text \<open>
  What the components that the broker worker calls leave alone: the lease, the worker row, the gate and the reconciliation
  runs (\<open>control\<close>). Stop triggers, the projection and the ingestion of quotes keep all four, the order
  sender can only close the gate.
\<close>

section \<open>The control tables\<close>

definition control ::
  "db \<Rightarrow> broker_lease list \<times> broker_worker_state list \<times> trading_gate list \<times> reconciliation_run list" where
  "control d = (broker_leases d, broker_worker_states d, trading_gates d, reconciliation_runs d)"

lemma control_eqD:
  assumes "control d' = control d"
  shows "broker_leases d' = broker_leases d" "broker_worker_states d' = broker_worker_states d"
    "trading_gates d' = trading_gates d" "reconciliation_runs d' = reconciliation_runs d"
  using assms by (simp_all add: control_def)

lemma control_gate: "control d' = control d \<Longrightarrow> gate_get d' a = gate_get d a"
  by (simp add: control_def gate_get_def)

section \<open>Stop triggers\<close>

lemma stop_control [simp]:
  "control (snd (create_risk_event now ri d)) = control d"
  "control (snd (resolve_risk_event e r now d)) = control d"
  "control (snd (persist_guard_evaluation gs rules d)) = control d"
  "control (snd (insert_created_order cc rq d)) = control d"
  "control (trigger_upd i f d) = control d"
  by (simp_all add: control_def create_risk_event_def resolve_risk_event_def persist_guard_evaluation_def
      insert_created_order_def trigger_upd_def uuid7_draw_def Let_def split: option.split)

lemma resolve_trigger_control [simp]: "control (resolve_trigger_event tg r now d) = control d"
  by (simp add: resolve_trigger_event_def split: option.split)

lemma supersede_trigger_control [simp]: "control (supersede_trigger r now tg d) = control d"
  by (simp add: supersede_trigger_def)

lemma fold_control: "(\<And>x e. control (f x e) = control e) \<Longrightarrow> control (fold f xs d) = control d"
  by (induction xs arbitrary: d) simp_all

lemma supersede_stale_control [simp]: "control (supersede_stale_triggers p pol now d) = control d"
  by (simp add: supersede_stale_triggers_def fold_control)

lemma stop_create_order_control [simp]: "control (snd (create_order (stop_context now) rq d)) = control d"
proof -
  obtain res d' where c: "create_order (stop_context now) rq d = (res, d')" by fastforce
  have "cc_env (stop_context now) = (\<lambda>d. d)" by (simp add: stop_context_def)
  from this c have "control d' = control d" by (cases rule: create_order_nested) simp_all
  then show ?thesis using c by simp
qed

lemma emit_fixed_stop_control [simp]: "control (emit_fixed_stop_order tg p snap price cid now d) = control d"
proof (cases "Option.bind snap m_best_bid_price")
  case (Some bid)
  let ?c = "create_order (stop_context now) (stop_order_request tg p bid price cid) d"
  have c: "control (snd ?c) = control d" by simp
  show ?thesis
    using Some c by (cases ?c; cases "fst ?c") (auto simp: emit_fixed_stop_order_def split: order_creation_error.split)
qed (simp add: emit_fixed_stop_order_def)

lemma stop_outcome_control [simp]:
  "control (stop_passed st tg p snap price cid now d) = control d" "control (stop_blocked tg code ri now d) = control d"
  by (simp_all add: stop_passed_def stop_blocked_def Let_def case_prod_beta)

lemma persist_stop_guard_control:
  "persist_stop_guard fk now tg rules snap pol d = Inr (g, d') \<Longrightarrow> control d' = control d"
  by (auto simp: persist_stop_guard_def persist_guard_evaluation_def uuid7_draw_def control_def Let_def split: if_splits)

lemma re_evaluate_control:
  assumes "re_evaluate_trigger fk hol st now tg p snap rp pol price d = Inr d'"
  shows "control d' = control d"
  using assms
  by (auto simp: re_evaluate_trigger_def Let_def dest!: persist_stop_guard_control split: if_splits sum.splits option.splits)

lemma fire_trigger_control:
  assumes "fire_trigger fk hol st sk p snap rp pol price d = Inr d'"
  shows "control d' = control d"
proof -
  have "control (d\<lparr>uuid_seed := n, stop_triggers := ts\<rparr>) = control d" for n ts by (simp add: control_def)
  then show ?thesis
    using assms by (auto simp: fire_trigger_def uuid7_draw_def Let_def dest!: persist_stop_guard_control split: if_splits sum.splits)
qed

lemma evaluate_position_control: "evaluate_position fk hol st sk p d = Inr d' \<Longrightarrow> control d' = control d"
  by (auto simp: evaluate_position_def Let_def dest!: re_evaluate_control fire_trigger_control split: option.splits if_splits)

lemma recover_trigger_control: "recover_trigger fk hol st now rp pol tg d = Inr d' \<Longrightarrow> control d' = control d"
  by (auto simp: recover_trigger_def dest!: re_evaluate_control split: option.splits if_splits)

lemma stop_fold_control:
  assumes "stop_fold f xs d = Inr d'" "\<And>x e e'. f x e = Inr e' \<Longrightarrow> control e' = control e"
  shows "control d' = control d"
  using assms(1) by (induction xs arbitrary: d) (auto dest: assms(2) split: sum.splits)

lemma run_fixed_stop_control [simp]: "control (snd (run_fixed_stop_triggers fk hol st sk a d)) = control d"
  by (auto simp: run_fixed_stop_triggers_def dest: stop_fold_control [OF _ evaluate_position_control] split: sum.split)

lemma recover_exit_control [simp]: "control (snd (recover_exit_pending fk hol st now a d)) = control d"
  by (auto simp: recover_exit_pending_def Let_def dest: stop_fold_control [OF _ recover_trigger_control] split: sum.split option.split)

section \<open>Ingestion and projection\<close>

lemma published_control [simp]: "control (published wd d) = control d"
  by (simp add: published_def control_def)

lemma projection_step_control [simp]:
  "control (px_db (add_order_event hx r ty j t c s)) = control (px_db s)"
  "control (px_db (put_order r s)) = control (px_db s)" "control (px_db (put_position p s)) = control (px_db s)"
  "control (px_db (add_position_event pc p j s)) = control (px_db s)"
  by (simp_all add: control_def add_order_event_def put_order_def put_position_def add_position_event_def uuid7_draw_def Let_def)

lemma store_order_control [simp]: "control (px_db (store_order hx pc t ty j r r' s)) = control (px_db s)"
  by (simp add: store_order_def Let_def)

lemma px_flush_control: "px_flush s = Inr s' \<Longrightarrow> control (px_db s') = control (px_db s)"
  by (auto dest: px_flush_Inr)

lemma import_open_order_control: "import_open_order hx pc t b s = Inr s' \<Longrightarrow> control (px_db s') = control (px_db s)"
  by (auto simp: import_open_order_def uuid7_draw_def Let_def dest!: px_flush_control split: if_splits sum.splits)
    (simp add: control_def)

lemma project_open_order_control: "project_open_order hx pc t b s = Inr s' \<Longrightarrow> control (px_db s') = control (px_db s)"
  by (cases "import_open_order hx pc t b s")
    (auto simp: project_open_order_def dest!: import_open_order_control split: option.splits if_splits)

lemma project_fill_control: "project_fill hx t ov f s = Inr s' \<Longrightarrow> control (px_db s') = control (px_db s)"
  by (auto simp: project_fill_def control_def uuid7_draw_def Let_def split: option.splits if_splits sum.splits)

lemma project_totals_control [simp]:
  "control (px_db (project_fill_total hx pc t ids bt s)) = control (px_db s)"
  "control (px_db (project_cancel hx pc t ids totals bi s)) = control (px_db s)"
  "control (px_db (close_missing_position pc syms si s)) = control (px_db s)"
  by (simp_all add: project_fill_total_def project_cancel_def close_missing_position_def Let_def split: option.split)

lemma project_position_control: "project_position pc internal b s = Inr s' \<Longrightarrow> control (px_db s') = control (px_db s)"
  by (auto simp: project_position_def uuid7_draw_def Let_def dest!: px_flush_control split: prod.splits option.splits sum.splits if_splits)
    (simp_all add: control_def)

lemma try_fold_control:
  assumes "try_fold f xs s = Inr s'" "\<And>x s s'. f x s = Inr s' \<Longrightarrow> control (px_db s') = control (px_db s)"
  shows "control (px_db s') = control (px_db s)"
  using assms(1) by (induction xs arbitrary: s) (auto dest: assms(2) split: sum.splits)

lemma fold_session_control: "(\<And>x s. control (px_db (f x s)) = control (px_db s)) \<Longrightarrow> control (px_db (fold f xs s)) = control (px_db s)"
  by (induction xs arbitrary: s) simp_all

lemma projection_control:
  assumes "apply_broker_account_projection hx pc snap d = Inr (c, d')"
  shows "control d' = control d"
proof -
  obtain s1 s2 s3 s4 where s: "try_fold (project_open_order hx pc (as_observed_at snap)) (as_open_orders snap) (projection_start d) = Inr s1"
    "project_fills_and_cancels hx pc snap s1 = Inr s2" "project_positions pc snap s2 = Inr s3" "px_flush s3 = Inr s4" "d' = px_db s4"
    using assms by (auto simp: apply_broker_account_projection_def split: sum.splits)
  have "control (px_db s1) = control d"
    using try_fold_control [OF s(1) project_open_order_control] by (simp add: projection_start_def)
  moreover have "control (px_db s2) = control (px_db s1)"
    using s(2) by (auto simp: project_fills_and_cancels_def Let_def fold_session_control
        dest: try_fold_control [OF _ project_fill_control] split: sum.splits)
  moreover have "control (px_db s3) = control (px_db s2)"
    using s(3) by (auto simp: project_positions_def Let_def fold_session_control
        dest: try_fold_control [OF _ project_position_control] split: sum.splits)
  ultimately show ?thesis using px_flush_control [OF s(4)] s(5) by simp
qed

end
