(* ===== verification/Worker_Gate.thy ===== *)
theory Worker_Gate
  imports Worker_Properties
begin

text \<open>
  The properties of the broker worker, with a concrete worker for their witnesses.
\<close>

section \<open>A quiet worker\<close>

lemma fair_env_id [simp]: "fair_env oi (\<lambda>d. d)"
  by (simp add: fair_env_def)

text \<open>Nothing is due, nobody interferes, and no entry has expired: a pass begins with the dispatch of an order.\<close>

definition quiet_at :: "instant \<Rightarrow> worker_tick \<Rightarrow> bool" where
  "quiet_at t tk \<longleftrightarrow> \<not> tk_stop tk \<and>
     (\<forall>n. wo_now (tk_out tk n) = t \<and> wo_env (tk_out tk n) = (\<lambda>d. d) \<and> wo_env_call (tk_out tk n) = (\<lambda>d. d))"

lemma quiet_fair: "quiet_at t tk \<Longrightarrow> fair_tick oi tk"
  by (simp add: quiet_at_def fair_tick_def fair_outside_def)

lemma put_same_db [simp]: "put_db (ww_db w) w = w"
  by (simp add: put_db_def ww_db_def)

lemma put_put_db [simp]: "put_db d (put_db d' w) = put_db d w"
  by (simp add: put_db_def)

lemma quiet_pass:
  assumes "quiet_at t tk" "t < ls_next_stop_trigger ls" "t < ls_next_watchlist_sync ls" "ls_order_dispatch_enabled ls"
    "ww_identity w = Some i" "next_expired_buy (wo_locked (tk_out tk 4)) t (ww_db w) = None"
  shows "receive_pass cfg tk tok ls w = wk_bind (dispatch_part cfg tk ls) (pass_tail cfg tk tok) w"
    "before_dispatch cfg tk ls w = w" "dispatch_db cfg tk ls w = ww_db w"
proof -
  have o: "others (tk_out tk n) w = w" for n using assms(1) by (simp add: others_def quiet_at_def)
  have due: "stop_trigger_part cfg tk ls w = (Inr ls, w)" "watchlist_part cfg tk ls w = (Inr ls, w)"
    using assms(1-3) by (simp_all add: stop_trigger_part_def watchlist_part_def observed_at_def quiet_at_def wk_return_def)
  have c: "cancel_expired_buy cfg (tk_out tk 4) w = (Inr None, w)"
    using assms(1,5,6) o by (simp add: cancel_expired_buy_def cancel_next_expired_buy_once_def worker_send_call_def quiet_at_def
        ww_db_def client_after_def Let_def)
  then have "order_part cfg tk ls w = dispatch_part cfg tk ls w"
    using assms(4) by (simp add: order_part_def wk_bind_def cancel_uncertain_def)
  then show "receive_pass cfg tk tok ls w = wk_bind (dispatch_part cfg tk ls) (pass_tail cfg tk tok) w"
    using due by (simp add: receive_pass_tail wk_bind_def)
  show b: "before_dispatch cfg tk ls w = w" using due c by (simp add: before_dispatch_def wk_bind_def)
  show "dispatch_db cfg tk ls w = ww_db w" using assms(1) b by (simp add: dispatch_db_def quiet_at_def)
qed

lemma quiet_dispatch:
  assumes "quiet_at t tk" "ww_identity w = Some i" "next_created_order (wo_locked (tk_out tk 9)) (ww_db w) = Some od"
  shows "require_worker_ready i t (ww_db w) = Some (KiwoomOrderSenderError code) \<Longrightarrow>
      dispatch_part cfg tk ls w = (Inl (SenderFailed code), w)"
    "require_worker_ready i t (ww_db w) = None \<Longrightarrow> kiwoom_request od = Inr rq \<Longrightarrow>
      sw_placed (ww_sender (snd (dispatch_next_order cfg (tk_out tk 9) w))) = sw_placed (ww_sender w) @ [(o_id od, rq)]"
proof -
  have o: "others (tk_out tk n) w = w" for n using assms(1) by (simp add: others_def quiet_at_def)
  show "require_worker_ready i t (ww_db w) = Some (KiwoomOrderSenderError code) \<Longrightarrow>
      dispatch_part cfg tk ls w = (Inl (SenderFailed code), w)"
    using assms o by (simp add: dispatch_part_def wk_bind_def dispatch_next_order_def send_next_created_order_def send_locked_order_def
        worker_send_call_def quiet_at_def ww_db_def client_after_def sender_failure_def Let_def)
  show "require_worker_ready i t (ww_db w) = None \<Longrightarrow> kiwoom_request od = Inr rq \<Longrightarrow>
      sw_placed (ww_sender (snd (dispatch_next_order cfg (tk_out tk 9) w))) = sw_placed (ww_sender w) @ [(o_id od, rq)]"
    using assms o by (simp add: dispatch_next_order_def send_next_created_order_def send_locked_order_def
        worker_send_call_def quiet_at_def ww_db_def Let_def case_prod_beta split: option.split)
qed

section \<open>A concrete worker\<close>

definition sample_worker_config :: worker_config where
  "sample_worker_config =
     \<lparr>wc_configured = True, wc_owner_id = ''w'', wc_lease_seconds = 60, wc_heartbeat_seconds = 10,
      wc_reconcile_interval_seconds = 60, wc_event_debounce_seconds = 1, wc_watchlist_sync_seconds = 5,
      wc_settings = \<lparr>st_environment = ''MOCK'', st_live_trading_enabled = False, st_execution_stage = ''MOCK_AUTOMATIC''\<rparr>,
      wc_holidays = (\<lambda>_. None), wc_foreign_keys = True, wc_price_scale = 4, wc_hex = (\<lambda>_. ''''), wc_quote_hex = (\<lambda>_ _ _. '''')\<rparr>"

definition sample_tick :: worker_tick where
  "sample_tick =
     \<lparr>tk_stop = False, tk_silent = True, tk_out = (\<lambda>_.
        \<lparr>wo_now = 10, wo_later = 20,
         wo_net = \<lparr>kn_post = (\<lambda>_. HttpTimeout), kn_clock = (\<lambda>_. 10), kn_monotonic = (\<lambda>_ _. 0), kn_sanitize = (\<lambda>_. None),
           kn_refresh_minutes = 5, kn_app_key = '''', kn_app_secret = '''', kn_account = ''''\<rparr>,
         wo_env = (\<lambda>d. d), wo_env_call = (\<lambda>d. d), wo_locked = (\<lambda>_. False), wo_unreachable = False, wo_frames = []\<rparr>)\<rparr>"

text \<open>The ready worker of the sender with the run its gate rests on.\<close>

definition sample_world :: "gate_status \<Rightarrow> worker_world" where
  "sample_world gs =
     \<lparr>ww_sender = demo_sender\<lparr>sw_db := (sw_db demo_sender)\<lparr>
        reconciliation_runs := [\<lparr>rr_id = 3, rr_account_alias = kiwoom_account, rr_trigger = ''WORKER_STARTUP'',
          rr_state = RR_SUCCEEDED, rr_started_at = 0, rr_completed_at = Some 1, rr_snapshot_at = Some 1, rr_mismatch_count = 0,
          rr_critical_mismatch_count = 0, rr_correlation_id = ''c'', rr_result_summary_json = JObj []\<rparr>],
        broker_worker_states := map (\<lambda>b. b\<lparr>bw_last_reconciliation_run_id := Some 3\<rparr>) (broker_worker_states (sw_db demo_sender)),
        trading_gates := map (\<lambda>g. g\<lparr>g_status := gs\<rparr>) (trading_gates (sw_db demo_sender))\<rparr>\<rparr>,
      ww_watch = empty_watch, ww_client = \<lparr>kx_token = None, kx_last_started = [], kx_log = []\<rparr>,
      ww_feed = \<lparr>fd_connected = True, fd_frames = [], fd_sent = [], fd_quote_symbols = [], fd_quote_items = [], fd_pending = [],
        fd_trades = [], fd_books = []\<rparr>,
      ww_identity = Some \<lparr>li_owner_id = ''w'', li_fencing_token = 1\<rparr>, ww_lease_lost = False\<rparr>"

lemma sample_quiet: "quiet_at 10 sample_tick"
  by (simp add: quiet_at_def sample_tick_def)

lemma sample_world_db:
  "gate_get (ww_db (sample_world gs)) kiwoom_account = Some \<lparr>g_account_alias = kiwoom_account, g_environment = ''MOCK'',
     g_status = gs, g_reason = None, g_version = 1\<rparr>"
  "lease_is_current (ww_db (sample_world gs)) \<lparr>li_owner_id = ''w'', li_fencing_token = 1\<rparr> 10"
  "gate_sound (ww_db (sample_world gs))" "sw_placed (ww_sender (sample_world gs)) = []"
  "orders (ww_db (sample_world gs)) = orders (sw_db demo_sender)"
  by (simp_all add: sample_world_def ww_db_def demo_sender_def gate_get_def lease_is_current_def broker_lease_get_def lease_row_held_def
      gate_sound_def gate_ready_def worker_state_get_def clean_run_def)

lemma sample_orders:
  "next_created_order (\<lambda>_. False) (ww_db (sample_world gs)) = Some (created_order 3 (sample_request ''b'') 14 15 16 17)"
  "next_expired_buy (\<lambda>_. False) 10 (ww_db (sample_world gs)) = None"
proof -
  have "created_orders (\<lambda>_. False) (ww_db (sample_world gs)) = created_orders (\<lambda>_. False) (sw_db demo_sender)"
    by (simp add: created_orders_def sample_world_db(5))
  then show "next_created_order (\<lambda>_. False) (ww_db (sample_world gs)) = Some (created_order 3 (sample_request ''b'') 14 15 16 17)"
    by (simp add: next_created_order_def demo_created fifo_key_def)
  show "next_expired_buy (\<lambda>_. False) 10 (ww_db (sample_world gs)) = None"
    unfolding next_expired_buy_def sample_world_db(5)
    by (simp add: demo_sender_def expired_buy_def created_order_def split: prod.split)
qed

section \<open>Properties\<close>

text \<open>C22. An open gate rests on a clean reconciliation. Along every run of the broker worker, through failed connections,
  rotated tokens, account events, lost leases and shutdown, interleaved with heartbeats and with other processes that
  do not open the gate while this worker holds the lease, a READY gate always comes with a worker row that names a reconciliation run
  which succeeded without mismatches.\<close>
theorem open_gate_rests_on_clean_run:
  assumes "(worker_loop_step cfg)\<^sup>*\<^sup>* (ph, w) (ph', w')" "gate_sound (ww_db w)" "gate_ready (ww_db w') kiwoom_account"
  shows "\<exists>b i r. worker_state_get (ww_db w') kiwoom_account = Some b \<and> bw_last_reconciliation_run_id b = Some i \<and>
    r \<in> set (reconciliation_runs (ww_db w')) \<and> rr_id r = i \<and> rr_state r = RR_SUCCEEDED \<and> rr_mismatch_count r = 0"
proof -
  have "gate_sound (ww_db (snd s'))" if "(worker_loop_step cfg)\<^sup>*\<^sup>* s s'" "gate_sound (ww_db (snd s))" for s s'
    using that by (induction rule: rtranclp_induct) (auto intro: worker_loop_step_sound)
  from this [OF assms(1)] assms(2,3) show ?thesis by (auto simp: gate_sound_def clean_run_def)
qed

theorem open_gate_rests_on_clean_run_witness:
  "\<exists>b. worker_state_get (ww_db (heartbeat sample_worker_config (tk_out sample_tick 0) (sample_world GS_READY))) kiwoom_account = Some b \<and>
     bw_last_reconciliation_run_id b \<noteq> None"
proof -
  let ?w = "heartbeat sample_worker_config (tk_out sample_tick 0) (sample_world GS_READY)"
  have step: "worker_loop_step sample_worker_config (Connecting 0 True, sample_world GS_READY) (Connecting 0 True, ?w)"
    by (rule worker_loop_step.beat) (simp add: fair_outside_def sample_tick_def)
  have "ww_db ?w = snd (renew_lease \<lparr>li_owner_id = ''w'', li_fencing_token = 1\<rparr> 60 10 (ww_db (sample_world GS_READY)))"
    by (simp add: heartbeat_def others_def sample_tick_def sample_worker_config_def sample_world_def Let_def case_prod_beta)
  then have "trading_gates (ww_db ?w) = trading_gates (ww_db (sample_world GS_READY))"
    by (simp add: renew_lease_def own_state_upd_def broker_lease_upd_def worker_state_upd_def split: option.split)
  then have "gate_ready (ww_db ?w) kiwoom_account"
    using sample_world_db(1) [of GS_READY] by (simp add: gate_ready_def gate_get_def)
  moreover have "(worker_loop_step sample_worker_config)\<^sup>*\<^sup>* (Connecting 0 True, sample_world GS_READY) (Connecting 0 True, ?w)"
    using step by (rule r_into_rtranclp)
  ultimately show ?thesis using open_gate_rests_on_clean_run [OF _ sample_world_db(3)] by blast
qed

text \<open>C23. The worker transmits an order only in a pass of its receive loop that began with dispatching enabled, at most one per pass, and
  the order is the oldest CREATED one that nobody else has locked. At that moment the worker holds the current lease, it
  has published READY with a connected socket, the gate is READY, and the run the worker row names succeeded without mismatches.\<close>
theorem worker_transmits_behind_clean_gate:
  assumes "fair_tick (ww_identity w) tk" "gate_sound (ww_db w)"
    and "worker_advance cfg tk ph w = (ph', w')" "sw_placed (ww_sender w') \<noteq> sw_placed (ww_sender w)"
  shows "\<exists>tok ls i d od rq b k. ph = Receiving tok ls \<and> ls_order_dispatch_enabled ls \<and> ww_identity w = Some i \<and>
    d = dispatch_db cfg tk ls w \<and> next_created_order (wo_locked (tk_out tk 9)) d = Some od \<and> kiwoom_request od = Inr rq \<and>
    sw_placed (ww_sender w') = sw_placed (ww_sender w) @ [(o_id od, rq)] \<and>
    lease_is_current d i (wo_now (tk_out tk 9)) \<and> gate_ready d kiwoom_account \<and>
    worker_state_get d kiwoom_account = Some b \<and> bw_state b = ''READY'' \<and> bw_websocket_connected b \<and>
    bw_fencing_token b = li_fencing_token i \<and> bw_last_reconciliation_run_id b = Some k \<and> clean_run d k"
proof -
  obtain tok ls where ph: "ph = Receiving tok ls" using idle_phases_placed [of ph cfg tk w] assms(3,4) by auto
  let ?L = "sw_placed (ww_sender w)" and ?d = "dispatch_db cfg tk ls w"
  have s: "sound_world (ww_identity w) w" "placed_in {?L} w" using assms(2) by (simp_all add: sound_world_def placed_in_def)
  note p = receive_pass_placed [OF assms(1) s, where cfg = cfg and ls = ls]
  have "sw_placed (ww_sender w') = sw_placed (ww_sender (snd (receive_pass cfg tk tok ls w))) \<or> w' = w"
    using assms(3) ph by (auto split: if_splits prod.splits sum.splits option.splits)
  then obtain q where q: "sw_placed (ww_sender w') = ?L @ [q]" "ls_order_dispatch_enabled ls" "may_transmit (ww_identity w) (tk_out tk 9) ?d q"
    using p(2) [of tok] assms(4) by (auto simp: placed_in_def)
  then obtain i od where t: "ww_identity w = Some i" "next_created_order (wo_locked (tk_out tk 9)) ?d = Some od"
    "require_worker_ready i (wo_now (tk_out tk 9)) ?d = None" "kiwoom_request od = Inr (snd q)" "q = (o_id od, snd q)"
    by (auto simp: may_transmit_def) (metis prod.collapse)
  obtain b where b: "lease_is_current ?d i (wo_now (tk_out tk 9))" "worker_state_get ?d kiwoom_account = Some b" "gate_ready ?d kiwoom_account"
    "bw_state b = ''READY''" "bw_websocket_connected b" "bw_fencing_token b = li_fencing_token i"
    using t(3) by (auto simp: require_worker_ready_def gate_ready_def split: if_splits option.splits)
  then obtain k where "bw_last_reconciliation_run_id b = Some k" "clean_run ?d k" using p(1) by (auto simp: gate_sound_def)
  then show ?thesis using ph q(1,2) t b by (metis (no_types, lifting))
qed

theorem worker_transmits_behind_clean_gate_witness:
  "\<exists>od rq. sw_placed (ww_sender (snd (worker_advance sample_worker_config sample_tick
      (Receiving ''t'' (fresh_loop sample_worker_config 5)) (sample_world GS_READY)))) = [(o_id od, rq)] \<and> kiwoom_request od = Inr rq"
proof -
  let ?w = "sample_world GS_READY" and ?ls = "fresh_loop sample_worker_config 5"
  let ?od = "created_order 3 (sample_request ''b'') 14 15 16 17"
  let ?ph = "Receiving ''t'' ?ls"
  obtain ph' w' where a: "worker_advance sample_worker_config sample_tick ?ph ?w = (ph', w')" by fastforce
  have id: "ww_identity ?w = Some \<lparr>li_owner_id = ''w'', li_fencing_token = 1\<rparr>" "\<not> ww_lease_lost ?w" by (simp_all add: sample_world_def)
  have ls: "10 < ls_next_stop_trigger ?ls" "10 < ls_next_watchlist_sync ?ls" "ls_order_dispatch_enabled ?ls"
    by (simp_all add: fresh_loop_def stop_trigger_interval_seconds_def sample_worker_config_def seconds_def)
  have lk: "wo_locked (tk_out sample_tick n) = (\<lambda>_. False)" for n by (simp add: sample_tick_def)
  have ex: "next_expired_buy (wo_locked (tk_out sample_tick 4)) 10 (ww_db ?w) = None" by (simp add: lk sample_orders(2))
  have ready: "require_worker_ready \<lparr>li_owner_id = ''w'', li_fencing_token = 1\<rparr> 10 (ww_db ?w) = None"
    using sample_world_db(1,2) [of GS_READY]
    by (simp add: require_worker_ready_def) (simp add: sample_world_def ww_db_def demo_sender_def worker_state_get_def)
  obtain rq where rq: "kiwoom_request ?od = Inr rq"
    by (simp add: kiwoom_request_def)
  have d: "sw_placed (ww_sender (snd (dispatch_next_order sample_worker_config (tk_out sample_tick 9) ?w))) = [(o_id ?od, rq)]"
    using quiet_dispatch(2) [OF sample_quiet id(1), of ?od rq] sample_orders(1) lk ready rq sample_world_db(4) by simp
  have "placed_in {[(o_id ?od, rq)]} (snd (receive_pass sample_worker_config sample_tick ''t'' ?ls ?w))"
    unfolding quiet_pass(1) [OF sample_quiet ls id(1) ex]
    by (intro keeps_after [where P = "placed_in {[(o_id ?od, rq)]}"] dispatch_part_placed pass_tail_placed) (simp add: placed_in_def d)
  then have "placed_in {[(o_id ?od, rq)]} w'"
    using a id(2) by (auto simp: sample_tick_def split: prod.splits sum.splits option.splits)
  then have "sw_placed (ww_sender w') \<noteq> sw_placed (ww_sender ?w)" using sample_world_db(4) by (simp add: placed_in_def)
  from worker_transmits_behind_clean_gate [OF quiet_fair [OF sample_quiet] sample_world_db(3) a this]
  show ?thesis using a sample_world_db(4) by auto
qed

text \<open>C24. A startup that found mismatches does not leave the worker halted. The connection loop enters the receive loop with
  dispatching enabled even though the reconciliation left the gate HALTED. If an order is waiting to be sent, the first pass raises
  BROKER_NOT_READY, the handler closes the socket, replaces HALTED by RECONCILING, and waits one second for the next connection; the
  order still waits, and the failure count restarts with every connection.\<close>
theorem halted_startup_reconnects:
  assumes quiet: "quiet_at t tk" "t0 \<le> t" "t < t0 + seconds 1" "1 \<le> wc_watchlist_sync_seconds cfg"
    and w: "ww_identity w = Some i" "\<not> ww_lease_lost w" "lease_is_current (ww_db w) i t"
    and halted: "gate_get (ww_db w) kiwoom_account = Some g" "g_status g = GS_HALTED"
    and orders: "next_expired_buy (wo_locked (tk_out tk 4)) t (ww_db w) = None"
      "next_created_order (wo_locked (tk_out tk 9)) (ww_db w) = Some od"
  shows "\<exists>w' g'. worker_advance cfg tk (Receiving tok (fresh_loop cfg t0)) w = (Failing (SenderFailed ''BROKER_NOT_READY'') 0 True, w) \<and>
    worker_advance cfg tk (Failing (SenderFailed ''BROKER_NOT_READY'') 0 True) w = (Waiting 1 1 True, w') \<and>
    \<not> fd_connected (ww_feed w') \<and> gate_get (ww_db w') kiwoom_account = Some g' \<and> g_status g' = GS_RECONCILING \<and>
    g_reason g' = Some ''WEBSOCKET_RECONNECTING'' \<and> next_created_order (wo_locked (tk_out tk 9)) (ww_db w') = Some od"
proof -
  let ?ls = "fresh_loop cfg t0"
  have ls: "t < ls_next_stop_trigger ?ls" "t < ls_next_watchlist_sync ?ls" "ls_order_dispatch_enabled ?ls"
    using quiet(3,4) by (simp_all add: fresh_loop_def stop_trigger_interval_seconds_def seconds_def)
  have "require_worker_ready i t (ww_db w) = Some (KiwoomOrderSenderError ''BROKER_NOT_READY'')"
    using w(3) halted by (simp add: require_worker_ready_def split: option.split)
  then have "receive_pass cfg tk tok ?ls w = (Inl (SenderFailed ''BROKER_NOT_READY''), w)"
    using quiet_pass(1) [OF quiet(1) ls w(1) orders(1)] quiet_dispatch(1) [OF quiet(1) w(1) orders(2)] by (simp add: wk_bind_def)
  then have pass: "worker_advance cfg tk (Receiving tok ?ls) w = (Failing (SenderFailed ''BROKER_NOT_READY'') 0 True, w)"
    using w(2) quiet(1) by (simp add: quiet_at_def)
  let ?u = "failure_update (SenderFailed ''BROKER_NOT_READY'') 1"
  obtain d where u: "update_worker_state i ?u t (ww_db w) = (True, d)"
    using w(3) by (simp add: update_worker_state_def Let_def)
  let ?w' = "put_db d (close_feed w)"
  have h: "worker_advance cfg tk (Failing (SenderFailed ''BROKER_NOT_READY'') 0 True) w = (Waiting 1 1 True, ?w')"
    using w(1,2) u quiet(1) by (simp add: handle_failure_def update_state_def others_def quiet_at_def reconnect_backoff_def Let_def)
  have "orders d = orders (ww_db w)"
    using u w(3) by (auto simp: update_worker_state_def worker_state_upd_def Let_def split: option.splits)
  moreover have "\<exists>e. d = set_gate GS_RECONCILING (Some ''WEBSOCKET_RECONNECTING'') e"
    using u w(3) by (auto simp: update_worker_state_def failure_update_def worker_publish_def reconnect_backoff_def Let_def)
  then obtain g' where "gate_get d kiwoom_account = Some g'" "g_status g' = GS_RECONCILING" "g_reason g' = Some ''WEBSOCKET_RECONNECTING''"
    using set_gate_get by metis
  moreover have "\<not> fd_connected (ww_feed ?w')" by (simp add: put_db_def close_feed_def feed_close_def)
  moreover have "next_created_order (wo_locked (tk_out tk 9)) d = Some od"
    using calculation(1) orders(2) by (simp add: next_created_order_def created_orders_def)
  ultimately show ?thesis using pass h by (intro exI [of _ ?w'] exI [of _ g'] conjI) (simp_all del: worker_advance.simps)
qed

theorem halted_startup_reconnects_witness:
  "\<exists>w' g'. worker_advance sample_worker_config sample_tick (Receiving ''t'' (fresh_loop sample_worker_config 5)) (sample_world GS_HALTED) =
     (Failing (SenderFailed ''BROKER_NOT_READY'') 0 True, sample_world GS_HALTED) \<and>
   worker_advance sample_worker_config sample_tick (Failing (SenderFailed ''BROKER_NOT_READY'') 0 True) (sample_world GS_HALTED) =
     (Waiting 1 1 True, w') \<and> gate_get (ww_db w') kiwoom_account = Some g' \<and> g_status g' = GS_RECONCILING"
proof -
  let ?w = "sample_world GS_HALTED"
  have t: "(5::int) \<le> 10" "10 < 5 + seconds 1" "1 \<le> wc_watchlist_sync_seconds sample_worker_config"
    by (simp_all add: seconds_def sample_worker_config_def)
  have w: "ww_identity ?w = Some \<lparr>li_owner_id = ''w'', li_fencing_token = 1\<rparr>" "\<not> ww_lease_lost ?w" by (simp_all add: sample_world_def)
  have lk: "wo_locked (tk_out sample_tick n) = (\<lambda>_. False)" for n by (simp add: sample_tick_def)
  have o: "next_expired_buy (wo_locked (tk_out sample_tick 4)) 10 (ww_db ?w) = None"
    "next_created_order (wo_locked (tk_out sample_tick 9)) (ww_db ?w) = Some (created_order 3 (sample_request ''b'') 14 15 16 17)"
    by (simp_all add: lk sample_orders)
  have "g_status \<lparr>g_account_alias = kiwoom_account, g_environment = ''MOCK'', g_status = GS_HALTED, g_reason = None, g_version = 1\<rparr> = GS_HALTED"
    by simp
  from halted_startup_reconnects [OF sample_quiet t w sample_world_db(2) sample_world_db(1) this o, of "''t''"] show ?thesis by blast
qed

end
