(* ===== verification/Market_Context.thy ===== *)
theory Market_Context
  imports Cresta_Schema "HOL-Library.Product_Lexorder"
begin

text \<open>
  \<open>app/market_context.py\<close>: documents on the index and the sector of a symbol, their validation and storage, and the choice of
  the document an agent run is given. Times carry a zone.
\<close>

section \<open>Input\<close>

record context_input =
  ci_market :: string
  ci_symbol :: string
  ci_source :: string
  ci_source_ref :: string
  ci_source_tier :: string
  ci_quality :: string
  ci_index_code :: "string option"
  ci_index_change_pct :: "decimal option"
  ci_sector_code :: "string option"
  ci_sector_change_pct :: "decimal option"
  ci_advancers :: "int option"
  ci_decliners :: "int option"
  ci_unchanged :: "int option"
  ci_observed_at :: instant
  ci_received_at :: instant
  ci_valid_until :: instant

definition text_within :: "nat \<Rightarrow> string option \<Rightarrow> bool" where
  "text_within n t = (case t of None \<Rightarrow> True | Some s \<Rightarrow> length s \<le> n)"

definition percent_within :: "decimal option \<Rightarrow> bool" where
  "percent_within x = (case x of None \<Rightarrow> True | Some v \<Rightarrow> - 100 \<le> v \<and> v \<le> 100)"

definition count_within :: "int option \<Rightarrow> bool" where
  "count_within x = (case x of None \<Rightarrow> True | Some v \<Rightarrow> 0 \<le> v)"

definition context_fields_ok :: "context_input \<Rightarrow> bool" where
  "context_fields_ok e \<longleftrightarrow>
     ci_market e \<in> {''KRX'', ''NXT''} \<and> ci_source e \<noteq> [] \<and> length (ci_source e) \<le> 64 \<and>
     ci_source_ref e \<noteq> [] \<and> length (ci_source_ref e) \<le> 128 \<and> ci_source_tier e \<in> {''PRIMARY'', ''CONTRACTED''} \<and>
     ci_quality e \<in> {''NORMAL'', ''INCOMPLETE''} \<and> text_within 32 (ci_index_code e) \<and> percent_within (ci_index_change_pct e) \<and>
     text_within 64 (ci_sector_code e) \<and> percent_within (ci_sector_change_pct e) \<and>
     count_within (ci_advancers e) \<and> count_within (ci_decliners e) \<and> count_within (ci_unchanged e)"

definition validate_contract :: "context_input \<Rightarrow> bool" where
  "validate_contract e \<longleftrightarrow>
     length (ci_symbol e) = 6 \<and> list_all is_digit (ci_symbol e) \<and> \<not> ci_received_at e < ci_observed_at e \<and>
     \<not> ci_valid_until e \<le> ci_observed_at e \<and>
     (let counts = [ci_advancers e, ci_decliners e, ci_unchanged e]
      in \<not> (list_ex (\<lambda>c. c \<noteq> None) counts \<and> \<not> list_all (\<lambda>c. c \<noteq> None) counts))"

section \<open>Document\<close>

definition context_decimal :: "decimal option \<Rightarrow> json" where
  "context_decimal = json_opt (\<lambda>v. JDec (quantize round_half_up 6 v))"

definition breadth_ratio :: "context_input \<Rightarrow> decimal option" where
  "breadth_ratio e =
     (case (ci_advancers e, ci_decliners e, ci_unchanged e) of
        (Some a, Some d, Some u) \<Rightarrow> if a + d + u = 0 then None else Some (of_int a * 100 / of_int (a + d + u))
      | _ \<Rightarrow> None)"

definition normalized_payload :: "context_input \<Rightarrow> json" where
  "normalized_payload e =
     JObj [(''schema_version'', JStr ''market-context-v1''), (''market'', JStr (ci_market e)), (''symbol'', JStr (ci_symbol e)),
       (''source'', JObj [(''name'', JStr (ci_source e)), (''ref'', JStr (ci_source_ref e)), (''tier'', JStr (ci_source_tier e))]),
       (''quality'', JStr (ci_quality e)),
       (''index'', JObj [(''code'', json_opt JStr (ci_index_code e)), (''change_pct'', context_decimal (ci_index_change_pct e))]),
       (''sector'', JObj [(''code'', json_opt JStr (ci_sector_code e)), (''change_pct'', context_decimal (ci_sector_change_pct e))]),
       (''breadth'', JObj [(''advancers'', json_opt JInt (ci_advancers e)), (''decliners'', json_opt JInt (ci_decliners e)),
          (''unchanged'', json_opt JInt (ci_unchanged e)), (''advancer_ratio_pct'', context_decimal (breadth_ratio e))]),
       (''observed_at'', JTime (ci_observed_at e)), (''received_at'', JTime (ci_received_at e)),
       (''valid_until'', JTime (ci_valid_until e))]"

section \<open>Storage\<close>

record market_context_snapshot =
  mc_id :: uuid
  mc_market :: string
  mc_symbol :: string
  mc_source :: string
  mc_source_ref :: string
  mc_source_tier :: string
  mc_quality :: string
  mc_payload_json :: json
  mc_payload_hash :: digest
  mc_observed_at :: instant
  mc_received_at :: instant
  mc_valid_until :: instant

record context_db =
  cx_db :: db
  cx_rows :: "market_context_snapshot list"

datatype context_error = ContextInvalid | ContextIdentityConflict

definition context_key :: "market_context_snapshot \<Rightarrow> string \<times> string \<times> string \<times> string" where
  "context_key c = (mc_source c, mc_market c, mc_symbol c, mc_source_ref c)"

definition context_row :: "uuid \<Rightarrow> context_input \<Rightarrow> market_context_snapshot" where
  "context_row i e =
     \<lparr>mc_id = i, mc_market = ci_market e, mc_symbol = ci_symbol e, mc_source = ci_source e, mc_source_ref = ci_source_ref e,
      mc_source_tier = ci_source_tier e, mc_quality = ci_quality e, mc_payload_json = normalized_payload e,
      mc_payload_hash = Sha256 (normalized_payload e), mc_observed_at = ci_observed_at e, mc_received_at = ci_received_at e,
      mc_valid_until = ci_valid_until e\<rparr>"

text \<open>The flag tells whether the row is new. An input that does not validate is never constructed.\<close>

definition ingest_market_context :: "context_input \<Rightarrow> context_db \<Rightarrow> (context_error + market_context_snapshot \<times> bool) \<times> context_db" where
  "ingest_market_context e cx =
     (if \<not> context_fields_ok e \<or> \<not> validate_contract e then (Inl ContextInvalid, cx)
      else case row_find context_key (ci_source e, ci_market e, ci_symbol e, ci_source_ref e) (cx_rows cx) of
        Some c \<Rightarrow> (if mc_payload_hash c \<noteq> Sha256 (normalized_payload e) then Inl ContextIdentityConflict else Inr (c, False), cx)
      | None \<Rightarrow>
          (let (i, d) = uuid7_draw (cx_db cx); c = context_row i e
           in (Inr (c, True), cx\<lparr>cx_db := d, cx_rows := cx_rows cx @ [c]\<rparr>)))"

definition context_usable :: "string \<Rightarrow> string \<Rightarrow> instant \<Rightarrow> market_context_snapshot \<Rightarrow> bool" where
  "context_usable market sb now c \<longleftrightarrow>
     mc_market c = market \<and> mc_symbol c = sb \<and> mc_quality c = ''NORMAL'' \<and> mc_observed_at c \<le> now \<and> now < mc_valid_until c"

definition select_market_context :: "market_context_snapshot list \<Rightarrow> string \<Rightarrow> string \<Rightarrow> instant \<Rightarrow> market_context_snapshot option" where
  "select_market_context rows market sb now =
     (case sort_key (\<lambda>c. (- mc_observed_at c, mc_id c)) (filter (context_usable market sb now) rows) of [] \<Rightarrow> None | c # _ \<Rightarrow> Some c)"

section \<open>Laws\<close>

lemma ingest_again:
  assumes "ingest_market_context e cx = (Inr (c, b), cx')"
  shows "ingest_market_context e cx' = (Inr (c, False), cx')"
  using assms row_find_snoc_new [of context_key "context_row (uuid_seed (cx_db cx)) e" "cx_rows cx"]
  by (auto simp: ingest_market_context_def row_find_append context_row_def context_key_def uuid7_draw_def Let_def
      split: if_splits option.splits)

text \<open>The chosen document is usable, and none that is usable was observed later.\<close>

lemma select_market_context_newest:
  assumes "select_market_context rows market sb now = Some c"
  shows "c \<in> set rows" "context_usable market sb now c"
    "\<forall>x\<in>set rows. context_usable market sb now x \<longrightarrow> mc_observed_at x \<le> mc_observed_at c"
proof -
  let ?k = "\<lambda>c. (- mc_observed_at c, mc_id c)"
  let ?f = "filter (context_usable market sb now) rows"
  obtain cs where cs: "sort_key ?k ?f = c # cs"
    using assms by (auto simp: select_market_context_def split: list.splits)
  then have c: "set (c # cs) = set ?f" by (metis set_sort)
  then show "c \<in> set rows" "context_usable market sb now c" by auto
  have "sorted (map ?k (c # cs))" by (metis cs sorted_sort_key)
  then have "\<forall>x\<in>set (c # cs). mc_observed_at x \<le> mc_observed_at c" by (auto simp: less_eq_prod_def)
  then have "\<forall>x\<in>set ?f. mc_observed_at x \<le> mc_observed_at c" unfolding c .
  then show "\<forall>x\<in>set rows. context_usable market sb now x \<longrightarrow> mc_observed_at x \<le> mc_observed_at c"
    by simp
qed

end
