(* ===== verification/Agent_Admission.thy ===== *)
theory Agent_Admission
  imports Agent_Stages Decision_Policy Market_Context
begin

text \<open>
  The admission of agent runs, \<open>_create_run\<close> of \<open>app/agents/runtime.py\<close>: the checks, the inputs a run freezes, the model
  routes of its roles, the key that makes an admission idempotent, and the rows it stores. \<open>agents_of\<close> is the state the stage machine
  works on. The text of a credential file is an argument, as are the clocks of the rows that are flushed.
\<close>

section \<open>Tables of the model providers\<close>

text \<open>The fallback profiles of a route are a JSON text; a text that is no JSON is \<open>None\<close>.\<close>

record route_row = role_route +
  rr_owner_id :: uuid
  rr_role :: string
  rr_primary_model_profile_id :: uuid
  rr_fallback_model_profile_ids :: "json option"
  rr_fallback_policy :: string
  rr_execution_stage :: string
  rr_service_tier :: string
  rr_max_attempts :: int
  rr_prompt_profile_id :: "uuid option"
  rr_output_schema_version :: string
  rr_temperature_override :: "decimal option"
  rr_top_p_override :: "decimal option"
  rr_max_output_tokens_override :: "int option"
  rr_reasoning_effort_override :: "string option"
  rr_seed_override :: "int option"
  rr_state :: string
  rr_version :: int

record model_profile =
  mp_id :: uuid
  mp_provider_profile_id :: uuid
  mp_max_output_tokens :: int
  mp_temperature :: "decimal option"
  mp_top_p :: "decimal option"
  mp_reasoning_effort :: "string option"
  mp_seed :: "int option"
  mp_state :: string
  mp_version :: int

record provider_profile =
  pp_id :: uuid
  pp_owner_id :: uuid
  pp_adapter_type :: string
  pp_endpoint :: "string option"
  pp_credential_secret_ref :: "string option"
  pp_state :: string
  pp_deleted_at :: "instant option"

record prompt_profile =
  pr_id :: uuid
  pr_owner_id :: uuid
  pr_role :: string
  pr_content_hash :: string
  pr_state :: string

record llm_db =
  lm_routes :: "route_row list"
  lm_models :: "model_profile list"
  lm_providers :: "provider_profile list"
  lm_prompts :: "prompt_profile list"

section \<open>Rows of a run\<close>

record admitted_run = run_row +
  rx_input_hash :: digest
  rx_route_versions :: json
  rx_idempotency_key :: digest
  rx_server_input_policy_version :: string
  rx_market_context_id :: "uuid option"
  rx_market_context_hash :: "digest option"
  rx_created_at :: instant

record admitted_stage = stage_row +
  sx_input_hash :: digest

record admission_db =
  ad_analysis :: analysis_db
  ad_runs :: "admitted_run list"
  ad_stages :: "admitted_stage list"
  ad_invocations :: "llm_invocation list"
  ad_bundles :: "evidence_bundle list"
  ad_llm :: llm_db
  ad_contexts :: "market_context_snapshot list"

definition agents_of :: "admission_db \<Rightarrow> agent_db" where
  "agents_of ad =
     \<lparr>ag_db = ay_db (ad_analysis ad), ag_runs = map run_row.truncate (ad_runs ad), ag_stages = map stage_row.truncate (ad_stages ad),
      ag_inputs = map decision_input_snapshot.truncate (ay_inputs (ad_analysis ad)), ag_users = ay_users (ad_analysis ad),
      ag_decisions = ay_decisions (ad_analysis ad), ag_invocations = ad_invocations ad, ag_bundles = ad_bundles ad,
      ag_routes = map role_route.truncate (lm_routes (ad_llm ad))\<rparr>"

datatype admission_error = AgentRuntimeError string int | AdmissionPolicyInvalid

section \<open>Routes\<close>

definition route_roles :: "string list" where
  "route_roles = [''TECHNICAL_SCOUT'', ''NEWS_DISCLOSURE_SCOUT'', ''MARKET_SECTOR_SCOUT'', ''POSITION_RISK_SCOUT'', ''CORE'']"

definition filled :: "string option \<Rightarrow> bool" where
  "filled t \<longleftrightarrow> t \<noteq> None \<and> t \<noteq> Some []"

text \<open>\<open>ProviderRegistry.resolve\<close> with a credential: the constructors of the adapters do not raise.\<close>

definition adapter_allowed :: "provider_profile \<Rightarrow> bool" where
  "adapter_allowed p \<longleftrightarrow>
     pp_adapter_type p = ''MOCK'' \<or>
     pp_adapter_type p \<in> {''OPENAI_RESPONSES'', ''ANTHROPIC_MESSAGES'', ''GEMINI_GENERATE_CONTENT'', ''OPENAI_COMPATIBLE''} \<and>
     filled (pp_endpoint p)"

definition fallback_ids :: "route_row \<Rightarrow> json list option" where
  "fallback_ids r = (case rr_fallback_model_profile_ids r of Some (JArr xs) \<Rightarrow> Some xs | _ \<Rightarrow> None)"

definition route_schemas :: "string \<Rightarrow> string list" where
  "route_schemas role =
     (if role = ''CORE'' then [''agent-core-v1'', ''agent-core-v2''] else [''agent-assessment-v1'', ''agent-assessment-v2''])"

definition route_usable :: "uuid \<Rightarrow> string \<Rightarrow> json list \<Rightarrow> route_row \<Rightarrow> bool" where
  "route_usable owner role xs r \<longleftrightarrow>
     rr_owner_id r = owner \<and> rr_role r = role \<and> rr_state r \<in> {''VALIDATED'', ''ACTIVE''} \<and> rr_execution_stage r = ''SHADOW'' \<and>
     rr_fallback_policy r \<in> {''FAIL_STOP'', ''FAILOVER''} \<and> rr_max_attempts r = 1 \<and> length xs \<le> 1 \<and>
     \<not> (rr_fallback_policy r = ''FAIL_STOP'' \<and> xs \<noteq> []) \<and> \<not> (rr_fallback_policy r = ''FAILOVER'' \<and> length xs \<noteq> 1) \<and>
     rr_output_schema_version r \<in> set (route_schemas role)"

definition provider_usable :: "uuid \<Rightarrow> provider_profile \<Rightarrow> bool" where
  "provider_usable owner p \<longleftrightarrow>
     pp_owner_id p = owner \<and> pp_state p = ''VALIDATED'' \<and> pp_deleted_at p = None \<and>
     (pp_adapter_type p = ''MOCK'' \<or> filled (pp_credential_secret_ref p))"

definition provider_of :: "llm_db \<Rightarrow> model_profile \<Rightarrow> provider_profile option" where
  "provider_of lm m = row_find pp_id (mp_provider_profile_id m) (lm_providers lm)"

text \<open>A validated model with a usable provider.\<close>

definition usable_model :: "llm_db \<Rightarrow> uuid \<Rightarrow> model_profile option \<Rightarrow> (model_profile \<times> provider_profile) option" where
  "usable_model lm owner m =
     (case m of
        None \<Rightarrow> None
      | Some mp \<Rightarrow> (case provider_of lm mp of
          None \<Rightarrow> None
        | Some pp \<Rightarrow> if mp_state mp = ''VALIDATED'' \<and> provider_usable owner pp then Some (mp, pp) else None))"

definition prompt_usable :: "llm_db \<Rightarrow> uuid \<Rightarrow> string \<Rightarrow> route_row \<Rightarrow> bool" where
  "prompt_usable lm owner role r \<longleftrightarrow>
     (case rr_prompt_profile_id r of
        None \<Rightarrow> True
      | Some i \<Rightarrow> (case row_find pr_id i (lm_prompts lm) of
          None \<Rightarrow> False
        | Some p \<Rightarrow> pr_owner_id p = owner \<and> pr_role p = role \<and> pr_state p = ''VALIDATED''))"

definition fallback_model :: "llm_db \<Rightarrow> json list \<Rightarrow> model_profile option" where
  "fallback_model lm xs = (case xs of [] \<Rightarrow> None | x # _ \<Rightarrow> find (\<lambda>m. json_uuid (mp_id m) = x) (lm_models lm))"

record route_binding =
  rb_route :: route_row
  rb_model :: "model_profile \<times> provider_profile"
  rb_fallback :: "(model_profile \<times> provider_profile) option"

definition route_not_ready :: admission_error where
  "route_not_ready = AgentRuntimeError ''AGENT_ROUTE_NOT_READY'' 422"

definition bind_models :: "llm_db \<Rightarrow> uuid \<Rightarrow> string \<Rightarrow> json list \<Rightarrow> route_row \<Rightarrow> admission_error + route_binding" where
  "bind_models lm owner role xs r =
     (let primary = usable_model lm owner (row_find mp_id (rr_primary_model_profile_id r) (lm_models lm));
          fallback = usable_model lm owner (fallback_model lm xs)
      in if primary = None \<or> xs \<noteq> [] \<and> fallback = None \<or> \<not> prompt_usable lm owner role r then Inl route_not_ready
         else if \<not> adapter_allowed (snd (the primary)) \<or> (case fallback of None \<Rightarrow> False | Some f \<Rightarrow> \<not> adapter_allowed (snd f))
         then Inl (AgentRuntimeError ''AGENT_ADAPTER_NOT_ALLOWED'' 422)
         else Inr \<lparr>rb_route = r, rb_model = the primary, rb_fallback = fallback\<rparr>)"

definition load_route :: "llm_db \<Rightarrow> uuid \<Rightarrow> (string \<times> uuid) list \<Rightarrow> string \<Rightarrow> admission_error + route_binding" where
  "load_route lm owner route_ids role =
     (case Option.bind (map_of route_ids role) (\<lambda>i. row_find rr_id i (lm_routes lm)) of
        None \<Rightarrow> Inl route_not_ready
      | Some r \<Rightarrow>
          (case fallback_ids r of
             None \<Rightarrow> Inl route_not_ready
           | Some xs \<Rightarrow> if \<not> route_usable owner role xs r then Inl route_not_ready else bind_models lm owner role xs r))"

primrec load_each :: "(string \<Rightarrow> admission_error + route_binding) \<Rightarrow> string list \<Rightarrow> admission_error + (string \<times> route_binding) list" where
  "load_each f [] = Inr []"
| "load_each f (role # roles) =
     (case f role of Inl e \<Rightarrow> Inl e | Inr b \<Rightarrow> map_sum id (\<lambda>bs. (role, b) # bs) (load_each f roles))"

definition load_routes :: "llm_db \<Rightarrow> uuid \<Rightarrow> (string \<times> uuid) list \<Rightarrow> admission_error + (string \<times> route_binding) list" where
  "load_routes lm owner route_ids =
     (if set (map fst route_ids) \<noteq> set route_roles then Inl (AgentRuntimeError ''AGENT_ROUTE_SET_INCOMPLETE'' 422)
      else load_each (load_route lm owner route_ids) route_roles)"

section \<open>Evidence sources\<close>

text \<open>The text of a key file; \<open>None\<close> when no file is named or it cannot be read.\<close>

record evidence_settings =
  es_dart_enabled :: bool
  es_dart_key :: "string option"
  es_krx_enabled :: bool
  es_krx_key :: "string option"
  es_naver_enabled :: bool
  es_naver_keys :: "(string \<times> string) option"

definition source_status :: "bool \<Rightarrow> bool option \<Rightarrow> string" where
  "source_status enabled valid =
     (if \<not> enabled then ''DISABLED''
      else case valid of None \<Rightarrow> ''NOT_CONFIGURED'' | Some ok \<Rightarrow> if ok then ''CONFIGURED'' else ''INVALID'')"

definition is_hex :: "char \<Rightarrow> bool" where
  "is_hex c = (c \<in> set ''0123456789abcdefABCDEF'')"

definition dart_configuration_status :: "evidence_settings \<Rightarrow> string" where
  "dart_configuration_status es =
     source_status (es_dart_enabled es)
       (map_option (\<lambda>t. let key = str_strip t in length key = 40 \<and> \<not> list_ex is_ws key) (es_dart_key es))"

definition krx_configuration_status :: "evidence_settings \<Rightarrow> string" where
  "krx_configuration_status es =
     source_status (es_krx_enabled es)
       (map_option (\<lambda>t. let key = str_strip t in length key = 40 \<and> list_all is_hex key) (es_krx_key es))"

definition naver_key_ok :: "string \<Rightarrow> bool" where
  "naver_key_ok t = (let key = str_strip t in 8 \<le> length key \<and> length key \<le> 128 \<and> \<not> list_ex is_ws key)"

definition naver_news_configuration_status :: "evidence_settings \<Rightarrow> string" where
  "naver_news_configuration_status es =
     source_status (es_naver_enabled es) (map_option (\<lambda>(a, b). naver_key_ok a \<and> naver_key_ok b) (es_naver_keys es))"

section \<open>Inputs of a run\<close>

text \<open>\<open>am_created\<close> is the clock of the rows flushed: of the run at 0, of its stages from 1.\<close>

record admission_call =
  am_user :: uuid
  am_market :: string
  am_symbol :: string
  am_route_ids :: "(string \<times> uuid) list"
  am_purpose :: string
  am_basis :: "decision_row option"
  am_now :: instant
  am_settings :: analysis_settings
  am_evidence :: evidence_settings
  am_position_times :: "uuid \<Rightarrow> position_times"
  am_created :: "nat \<Rightarrow> instant"

definition basis_fits :: "admission_call \<Rightarrow> bool" where
  "basis_fits ac \<longleftrightarrow>
     (case am_basis ac of
        None \<Rightarrow> False
      | Some b \<Rightarrow> dc_purpose b = ''TRADING'' \<and> dr_decision_kind b = ''POSITION'' \<and> dc_symbol b = am_symbol ac \<and> dc_market b = am_market ac)"

definition admission_refusal :: "admission_call \<Rightarrow> string option" where
  "admission_refusal ac =
     (let es = am_evidence ac
      in if am_purpose ac \<notin> {''DIAGNOSTIC'', ''TRADING_ADVISORY''} then Some ''AGENT_PURPOSE_NOT_ALLOWED''
         else if am_purpose ac = ''DIAGNOSTIC'' \<and> am_basis ac \<noteq> None then Some ''AGENT_DIAGNOSTIC_BASIS_NOT_ALLOWED''
         else if am_purpose ac = ''TRADING_ADVISORY'' \<and> \<not> basis_fits ac then Some ''AGENT_ADVISORY_BASIS_INVALID''
         else if es_dart_enabled es \<and> dart_configuration_status es \<noteq> ''CONFIGURED'' then Some ''AGENT_DART_NOT_CONFIGURED''
         else if es_krx_enabled es \<and> krx_configuration_status es \<noteq> ''CONFIGURED'' then Some ''AGENT_KRX_NOT_CONFIGURED''
         else if es_naver_enabled es \<and> naver_news_configuration_status es \<noteq> ''CONFIGURED'' then Some ''AGENT_NAVER_NEWS_NOT_CONFIGURED''
         else None)"

text \<open>The open position of the symbol that was updated last, whatever its account.\<close>

definition run_position :: "(uuid \<Rightarrow> position_times) \<Rightarrow> string \<Rightarrow> db \<Rightarrow> position option" where
  "run_position pts sb d =
     (case sort_key (\<lambda>p. (- pt_updated_at (pts (p_id p)), p_id p))
             (filter (\<lambda>p. p_symbol p = sb \<and> p_state p = PS_OPEN \<and> 0 < p_quantity p) (positions d)) of
        [] \<Rightarrow> None
      | p # _ \<Rightarrow> Some p)"

definition no_position_document :: "string \<Rightarrow> quote_snapshot \<Rightarrow> json" where
  "no_position_document sb m =
     JObj [(''marker'', JStr ''NO_OPEN_POSITION''), (''calculation_version'', JStr ''position-risk-input-v1''), (''symbol'', JStr sb),
       (''market_observed_at'', JTime (m_event_at m)), (''source_refs'', JArr [json_uuid (m_id m)])]"

definition run_position_document :: "admission_call \<Rightarrow> quote_snapshot \<Rightarrow> position option \<Rightarrow> db \<Rightarrow> json option" where
  "run_position_document ac m p d =
     (case p of
        None \<Rightarrow> Some (no_position_document (am_symbol ac) m)
      | Some q \<Rightarrow> build_position_snapshot (am_settings ac) (am_user ac) q (am_position_times ac (p_id q)) m d)"

record run_inputs =
  ri_snapshot :: quote_snapshot
  ri_context :: string
  ri_position_document :: json
  ri_market_context :: "market_context_snapshot option"
  ri_bindings :: "(string \<times> route_binding) list"

definition run_inputs_of :: "admission_call \<Rightarrow> admission_db \<Rightarrow> admission_error + run_inputs" where
  "run_inputs_of ac ad =
     (case current_quote (ay_watch (ad_analysis ad)) (am_market ac) (am_symbol ac) of
        None \<Rightarrow> Inl (AgentRuntimeError ''AGENT_MARKET_SNAPSHOT_NOT_FOUND'' 409)
      | Some (_, m) \<Rightarrow>
          (let d = ay_db (ad_analysis ad); p = run_position (am_position_times ac) (am_symbol ac) d
           in if am_purpose ac = ''TRADING_ADVISORY'' \<and> p = None then Inl (AgentRuntimeError ''AGENT_ADVISORY_POSITION_NOT_FOUND'' 409)
              else case run_position_document ac m p d of
                None \<Rightarrow> Inl AdmissionPolicyInvalid
              | Some doc \<Rightarrow>
                  map_sum id
                    (\<lambda>bs. \<lparr>ri_snapshot = m, ri_context = (if p = None then ''ENTRY'' else ''POSITION''), ri_position_document = doc,
                       ri_market_context = select_market_context (ad_contexts ad) (am_market ac) (am_symbol ac) (am_now ac), ri_bindings = bs\<rparr>)
                    (load_routes (ad_llm ad) (am_user ac) (am_route_ids ac))))"

section \<open>The frozen record\<close>

definition either_of :: "'v option \<Rightarrow> 'v option \<Rightarrow> 'v option" where
  "either_of a b = (case a of None \<Rightarrow> b | Some _ \<Rightarrow> a)"

definition generation_parameters :: "route_row \<Rightarrow> model_profile \<Rightarrow> json" where
  "generation_parameters r m =
     JObj [(''temperature'', json_opt JDec (either_of (rr_temperature_override r) (mp_temperature m))),
       (''top_p'', json_opt JDec (either_of (rr_top_p_override r) (mp_top_p m))),
       (''max_output_tokens'', JInt (case rr_max_output_tokens_override r of
          Some n \<Rightarrow> if n \<noteq> 0 then n else mp_max_output_tokens m | None \<Rightarrow> mp_max_output_tokens m)),
       (''reasoning_effort'', json_opt JStr (if filled (rr_reasoning_effort_override r) then rr_reasoning_effort_override r else mp_reasoning_effort m)),
       (''seed'', json_opt JInt (either_of (rr_seed_override r) (mp_seed m))),
       (''timeout_ms'', JInt (rr_timeout_ms r)), (''service_tier'', JStr (rr_service_tier r))]"

definition route_version :: "llm_db \<Rightarrow> string \<Rightarrow> route_binding \<Rightarrow> json" where
  "route_version lm role b =
     (let r = rb_route b; m = fst (rb_model b); f = map_option fst (rb_fallback b)
      in JObj [(''route_id'', json_uuid (rr_id r)), (''route_version'', JInt (rr_version r)),
           (''declared_output_schema_version'', JStr (rr_output_schema_version r)),
           (''effective_output_schema_version'', JStr (if role = ''CORE'' then ''agent-core-v2'' else ''agent-assessment-v2'')),
           (''model_id'', json_uuid (mp_id m)), (''model_version'', JInt (mp_version m)), (''failure_policy'', JStr (rr_fallback_policy r)),
           (''fallback_model_id'', json_opt (json_uuid \<circ> mp_id) f), (''fallback_model_version'', json_opt (JInt \<circ> mp_version) f),
           (''prompt_profile_id'', json_opt json_uuid (rr_prompt_profile_id r)),
           (''prompt_content_hash'', json_opt (JStr \<circ> pr_content_hash)
              (Option.bind (rr_prompt_profile_id r) (\<lambda>i. row_find pr_id i (lm_prompts lm)))),
           (''generation_parameters'', generation_parameters r m)])"

definition sorted_roles :: "string list" where
  "sorted_roles = [''CORE'', ''MARKET_SECTOR_SCOUT'', ''NEWS_DISCLOSURE_SCOUT'', ''POSITION_RISK_SCOUT'', ''TECHNICAL_SCOUT'']"

definition route_versions :: "llm_db \<Rightarrow> (string \<times> route_binding) list \<Rightarrow> json" where
  "route_versions lm bs =
     JObj (List.map_filter (\<lambda>role. map_option (\<lambda>b. (role, route_version lm role b)) (map_of bs role)) sorted_roles)"

definition evidence_policy :: "evidence_settings \<Rightarrow> json" where
  "evidence_policy es =
     JObj [(''version'', JStr ''official-primary-secondary-v3''), (''dart_status'', JStr (dart_configuration_status es)),
       (''krx_status'', JStr (krx_configuration_status es)), (''naver_news_status'', JStr (naver_news_configuration_status es))]"

definition input_record :: "admission_call \<Rightarrow> run_inputs \<Rightarrow> json \<Rightarrow> json" where
  "input_record ac ri versions =
     JObj [(''purpose'', JStr (am_purpose ac)), (''basis_decision_id'', json_opt (json_uuid \<circ> dc_id) (am_basis ac)),
       (''market'', JStr (am_market ac)), (''symbol'', JStr (am_symbol ac)), (''market_snapshot_id'', json_uuid (m_id (ri_snapshot ri))),
       (''payload_hash'', digest_json (m_payload_hash (ri_snapshot ri))), (''dag_version'', JStr ''agent-dag-v6''),
       (''analysis_context'', JStr (ri_context ri)), (''position_snapshot_hash'', JHash (ri_position_document ri)),
       (''server_input_policy_version'', JStr ''agent-server-input-v1''),
       (''market_context_snapshot_id'', json_opt (json_uuid \<circ> mc_id) (ri_market_context ri)),
       (''market_context_snapshot_hash'', json_opt (digest_json \<circ> mc_payload_hash) (ri_market_context ri)),
       (''assessment_schema_version'', JStr ''agent-assessment-v2''), (''core_schema_version'', JStr ''agent-core-v2''),
       (''score_policy_version'', JStr ''score-policy-v1''), (''reason_code_policy_version'', JStr ''reason-code-policy-v1''),
       (''evidence_source_policy'', evidence_policy (am_evidence ac)), (''route_versions'', versions)]"

definition run_key :: "admission_call \<Rightarrow> json \<Rightarrow> digest" where
  "run_key ac rec =
     Sha256 (JObj [(''owner_id'', json_uuid (am_user ac)), (''purpose'', JStr (am_purpose ac)), (''input_hash'', JHash rec)])"

section \<open>Admission\<close>

definition run_valid_until :: "instant \<Rightarrow> (string \<times> route_binding) list \<Rightarrow> instant" where
  "run_valid_until now bs = now + 1000 * max 60000 (sum_list (map (\<lambda>b. rr_timeout_ms (rb_route (snd b))) bs) + 30000)"

definition new_run :: "admission_call \<Rightarrow> run_inputs \<Rightarrow> json \<Rightarrow> json \<Rightarrow> uuid \<Rightarrow> admitted_run" where
  "new_run ac ri versions rec i =
     (let advisory = (am_purpose ac = ''TRADING_ADVISORY'')
      in \<lparr>ar_id = i, ar_owner_id = am_user ac, ar_purpose = am_purpose ac, ar_market = am_market ac, ar_symbol = am_symbol ac,
          ar_market_snapshot_id = m_id (ri_snapshot ri), ar_analysis_context = Some (ri_context ri),
          ar_position_snapshot_json = Some (ri_position_document ri), ar_position_snapshot_hash = Some (Sha256 (ri_position_document ri)),
          ar_basis_decision_id = map_option dc_id (am_basis ac),
          ar_fusion_policy_version = (if advisory then Some fusion_policy_version else None),
          ar_fusion_state = (if advisory then Some ''PENDING'' else None), ar_fusion_reason_code = None, ar_fusion_decision_id = None,
          rn_dag_version = ''agent-dag-v6'', rn_state = ''CREATED'', rn_core_action = None, rn_shadow_assessment = None, rn_error_code = None,
          rn_valid_until = run_valid_until (am_now ac) (ri_bindings ri), rn_started_at = None, rn_completed_at = None,
          rx_input_hash = Sha256 rec, rx_route_versions = versions, rx_idempotency_key = run_key ac rec,
          rx_server_input_policy_version = ''agent-server-input-v1'', rx_market_context_id = map_option mc_id (ri_market_context ri),
          rx_market_context_hash = map_option mc_payload_hash (ri_market_context ri), rx_created_at = am_created ac 0\<rparr>)"

definition stage_binding :: "(string \<times> route_binding) list \<Rightarrow> string \<Rightarrow> (uuid \<times> int) option" where
  "stage_binding bs role = map_option (\<lambda>b. (rr_id (rb_route b), rr_max_attempts (rb_route b))) (map_of bs role)"

definition admitted_stage_row :: "admission_call \<Rightarrow> (string \<times> route_binding) list \<Rightarrow> json \<Rightarrow> uuid \<Rightarrow> nat \<Rightarrow> uuid \<Rightarrow> string \<times> int \<times> string list \<Rightarrow> admitted_stage" where
  "admitted_stage_row ac bs rec run k i spec =
     stage_row.extend (new_stage run (am_now ac) (stage_binding bs) (am_created ac (Suc k)) i spec)
       \<lparr>sx_input_hash = Sha256 (JObj [(''run_input_hash'', JHash rec), (''role'', JStr (fst spec))])\<rparr>"

fun add_stages :: "(nat \<Rightarrow> uuid \<Rightarrow> string \<times> int \<times> string list \<Rightarrow> admitted_stage) \<Rightarrow> nat \<Rightarrow> (string \<times> int \<times> string list) list \<Rightarrow> db \<Rightarrow>
  admitted_stage list \<times> db" where
  "add_stages mk k [] d = ([], d)"
| "add_stages mk k (spec # specs) d =
     (let (i, d1) = uuid7_draw d in apfst (Cons (mk k i spec)) (add_stages mk (Suc k) specs d1))"

definition store_run :: "admission_call \<Rightarrow> run_inputs \<Rightarrow> json \<Rightarrow> json \<Rightarrow> admission_db \<Rightarrow> admitted_run \<times> admission_db" where
  "store_run ac ri versions rec ad =
     (let (i, d1) = uuid7_draw (ay_db (ad_analysis ad)); run = new_run ac ri versions rec i;
          (stages, d2) = add_stages (admitted_stage_row ac (ri_bindings ri) rec i) 0 stage_dag d1
      in (run, ad\<lparr>ad_analysis := (ad_analysis ad)\<lparr>ay_db := d2\<rparr>, ad_runs := ad_runs ad @ [run], ad_stages := ad_stages ad @ stages\<rparr>))"

text \<open>The answer from a run with the same key.\<close>

definition existing_run :: "admission_call \<Rightarrow> admitted_run \<Rightarrow> admission_error + admitted_run \<times> bool" where
  "existing_run ac r =
     (if ar_owner_id r \<noteq> am_user ac then Inl (AgentRuntimeError ''AGENT_IDEMPOTENCY_CONFLICT'' 409) else Inr (r, False))"

text \<open>The unique columns of the table: the key, and the basis where there is one.\<close>

definition run_clashes :: "admission_call \<Rightarrow> digest \<Rightarrow> admitted_run \<Rightarrow> bool" where
  "run_clashes ac key r \<longleftrightarrow>
     rx_idempotency_key r = key \<or> ar_basis_decision_id r \<noteq> None \<and> ar_basis_decision_id r = map_option dc_id (am_basis ac)"

text \<open>\<open>env\<close> is what other transactions commit between the lookup and the flush.\<close>

definition create_run ::
  "(admission_db \<Rightarrow> admission_db) \<Rightarrow> admission_call \<Rightarrow> admission_db \<Rightarrow> (admission_error + admitted_run \<times> bool) \<times> admission_db" where
  "create_run env ac ad =
     (case admission_refusal ac of
        Some code \<Rightarrow> (Inl (AgentRuntimeError code 409), ad)
      | None \<Rightarrow>
          (case run_inputs_of ac ad of
             Inl e \<Rightarrow> (Inl e, ad)
           | Inr ri \<Rightarrow>
               (let versions = route_versions (ad_llm ad) (ri_bindings ri); rec = input_record ac ri versions; key = run_key ac rec
                in case row_find rx_idempotency_key key (ad_runs ad) of
                     Some r \<Rightarrow> (existing_run ac r, ad)
                   | None \<Rightarrow>
                       (let ad1 = env ad
                        in if list_ex (run_clashes ac key) (ad_runs ad1)
                           then (case row_find rx_idempotency_key key (ad_runs ad1) of
                                   None \<Rightarrow> Inl (AgentRuntimeError ''AGENT_IDEMPOTENCY_CONFLICT'' 409)
                                 | Some r \<Rightarrow> existing_run ac r, ad1)
                           else apfst (\<lambda>r. Inr (r, True)) (store_run ac ri versions rec ad1)))))"

definition create_diagnostic_run ::
  "(admission_db \<Rightarrow> admission_db) \<Rightarrow> admission_call \<Rightarrow> admission_db \<Rightarrow> (admission_error + admitted_run \<times> bool) \<times> admission_db" where
  "create_diagnostic_run env ac ad = create_run env (ac\<lparr>am_purpose := ''DIAGNOSTIC'', am_basis := None\<rparr>) ad"

definition create_position_advisory_run ::
  "(admission_db \<Rightarrow> admission_db) \<Rightarrow> admission_call \<Rightarrow> decision_row \<Rightarrow> admission_db \<Rightarrow> (admission_error + admitted_run \<times> bool) \<times> admission_db" where
  "create_position_advisory_run env ac basis ad =
     create_run env (ac\<lparr>am_purpose := ''TRADING_ADVISORY'', am_basis := Some basis, am_market := dc_market basis, am_symbol := dc_symbol basis\<rparr>) ad"

definition list_agent_runs :: "admission_db \<Rightarrow> uuid \<Rightarrow> nat \<Rightarrow> admitted_run list" where
  "list_agent_runs ad owner limit =
     take limit (sort_key (\<lambda>r. - rx_created_at r) (filter (\<lambda>r. ar_owner_id r = owner) (ad_runs ad)))"

definition get_agent_run :: "admission_db \<Rightarrow> uuid \<Rightarrow> uuid \<Rightarrow> admission_error + admitted_run" where
  "get_agent_run ad owner i =
     (case row_find ar_id i (ad_runs ad) of
        None \<Rightarrow> Inl (AgentRuntimeError ''AGENT_RUN_NOT_FOUND'' 404)
      | Some r \<Rightarrow> if ar_owner_id r \<noteq> owner then Inl (AgentRuntimeError ''AGENT_RUN_NOT_FOUND'' 404) else Inr r)"

end
