(* ===== verification/Admission_Properties.thy ===== *)
theory Admission_Properties
  imports Agent_Admission Agent_Liveness Decision_Policy_Properties
begin

text \<open>
  An admission is idempotent, an admitted run has usable routes and is worked off by the stage machine, and an advisory run that
  describes another position than its basis is never fused.
\<close>

section \<open>Routes\<close>

definition usable_pair :: "uuid \<Rightarrow> model_profile \<times> provider_profile \<Rightarrow> bool" where
  "usable_pair owner x \<longleftrightarrow>
     mp_state (fst x) = ''VALIDATED'' \<and> pp_id (snd x) = mp_provider_profile_id (fst x) \<and> provider_usable owner (snd x) \<and> adapter_allowed (snd x)"

definition binding_sound :: "llm_db \<Rightarrow> uuid \<Rightarrow> string \<Rightarrow> route_binding \<Rightarrow> bool" where
  "binding_sound lm owner role b \<longleftrightarrow>
     rb_route b \<in> set (lm_routes lm) \<and> (\<exists>xs. fallback_ids (rb_route b) = Some xs \<and> route_usable owner role xs (rb_route b) \<and>
       (rb_fallback b = None \<longleftrightarrow> xs = [])) \<and>
     usable_pair owner (rb_model b) \<and> pred_option (usable_pair owner) (rb_fallback b) \<and> prompt_usable lm owner role (rb_route b)"

lemma usable_model_Some:
  "usable_model lm owner m = Some x \<Longrightarrow>
   m = Some (fst x) \<and> mp_state (fst x) = ''VALIDATED'' \<and> pp_id (snd x) = mp_provider_profile_id (fst x) \<and> provider_usable owner (snd x)"
  by (auto simp: usable_model_def provider_of_def dest: row_find_Some split: option.splits if_splits)

lemma usable_model_None [simp]: "usable_model lm owner None = None"
  by (simp add: usable_model_def)

lemma load_route_sound:
  assumes "load_route lm owner ids role = Inr b"
  shows "binding_sound lm owner role b"
proof -
  obtain r xs where r: "r \<in> set (lm_routes lm)" "fallback_ids r = Some xs" "route_usable owner role xs r"
    "bind_models lm owner role xs r = Inr b"
    using assms by (auto simp: load_route_def bind_eq_Some_conv dest: row_find_Some split: option.splits if_splits)
  obtain x where x: "usable_model lm owner (row_find mp_id (rr_primary_model_profile_id r) (lm_models lm)) = Some x"
    and b: "b = \<lparr>rb_route = r, rb_model = x, rb_fallback = usable_model lm owner (fallback_model lm xs)\<rparr>"
    and ok: "adapter_allowed (snd x)" "prompt_usable lm owner role r" "xs \<noteq> [] \<longrightarrow> usable_model lm owner (fallback_model lm xs) \<noteq> None"
      "pred_option (\<lambda>f. adapter_allowed (snd f)) (usable_model lm owner (fallback_model lm xs))"
    using r(4) by (auto simp: bind_models_def Let_def split: if_splits option.splits)
  have "pred_option (usable_pair owner) (usable_model lm owner (fallback_model lm xs))"
    using ok(4) by (auto simp: usable_pair_def option.pred_set dest: usable_model_Some)
  moreover have "xs = [] \<Longrightarrow> usable_model lm owner (fallback_model lm xs) = None" by (simp add: fallback_model_def)
  ultimately show ?thesis
    using r usable_model_Some [OF x] ok(1-3) unfolding b by (auto simp: binding_sound_def usable_pair_def)
qed

lemma load_each_Inr:
  "load_each f roles = Inr bs \<Longrightarrow> map fst bs = roles \<and> (\<forall>(role, b)\<in>set bs. f role = Inr b)"
proof (induction roles arbitrary: bs)
  case (Cons role roles)
  then obtain b bs' where "f role = Inr b" "load_each f roles = Inr bs'" "bs = (role, b) # bs'"
    by (cases "load_each f roles") (auto split: sum.splits)
  with Cons.IH show ?case by auto
qed simp

lemma load_routes_sound:
  assumes "load_routes lm owner ids = Inr bs"
  shows "map fst bs = route_roles" "(role, b) \<in> set bs \<Longrightarrow> binding_sound lm owner role b"
  using assms load_each_Inr [of "load_route lm owner ids" route_roles bs] load_route_sound
  by (auto simp: load_routes_def split: if_splits)

lemma run_inputs_bindings:
  assumes "run_inputs_of ac ad = Inr ri"
  shows "load_routes (ad_llm ad) (am_user ac) (am_route_ids ac) = Inr (ri_bindings ri)"
  using assms
  by (cases "load_routes (ad_llm ad) (am_user ac) (am_route_ids ac)")
    (auto simp: run_inputs_of_def Let_def split: option.splits if_splits)

section \<open>The rows of a new run\<close>

lemma stage_truncate_extend [simp]: "stage_row.truncate (stage_row.extend s x) = s"
  by (cases s) (simp add: stage_row.defs)

lemma create_runE:
  assumes "create_run env ac ad = (Inr (run, b), ad')"
  obtains (old) ri where "admission_refusal ac = None" "run_inputs_of ac ad = Inr ri" "\<not> b" "ad' = ad \<or> ad' = env ad"
      "row_find rx_idempotency_key (rx_idempotency_key run) (ad_runs ad') = Some run" "ar_owner_id run = am_user ac"
      "rx_idempotency_key run = run_key ac (input_record ac ri (route_versions (ad_llm ad) (ri_bindings ri)))"
  | (new) ri rec where "admission_refusal ac = None" "run_inputs_of ac ad = Inr ri" "b"
      "rec = input_record ac ri (route_versions (ad_llm ad) (ri_bindings ri))"
      "\<not> list_ex (run_clashes ac (run_key ac rec)) (ad_runs (env ad))"
      "store_run ac ri (route_versions (ad_llm ad) (ri_bindings ri)) rec (env ad) = (run, ad')"
proof -
  obtain ri where ri: "admission_refusal ac = None" "run_inputs_of ac ad = Inr ri"
    using assms by (auto simp: create_run_def split: option.splits sum.splits)
  define rec where "rec = input_record ac ri (route_versions (ad_llm ad) (ri_bindings ri))"
  note run = assms [unfolded create_run_def ri option.case sum.case Let_def rec_def [symmetric]]
  have found: thesis if "row_find rx_idempotency_key (run_key ac rec) (ad_runs ad') = Some r" "existing_run ac r = Inr (run, b)" "ad' = ad \<or> ad' = env ad" for r
    using that ri row_find_Some [OF that(1)] by (intro old [of ri]) (auto simp: existing_run_def rec_def split: if_splits)
  show thesis
  proof (cases "row_find rx_idempotency_key (run_key ac rec) (ad_runs ad)")
    case (Some r)
    then show thesis using run found [of r] by auto
  next
    case None
    show thesis
    proof (cases "list_ex (run_clashes ac (run_key ac rec)) (ad_runs (env ad))")
      case True
      then show thesis using run None found by (auto split: option.splits)
    next
      case False
      then show thesis using run None new [OF ri _ rec_def] by (auto simp: apfst_eq)
    qed
  qed
qed

lemma add_stages_rows:
  "add_stages mk k specs d =
     (map (\<lambda>j. mk (k + j) (uuid_seed d + j) (specs ! j)) [0..<length specs], d\<lparr>uuid_seed := uuid_seed d + length specs\<rparr>)"
proof (induction specs arbitrary: k d)
  case (Cons spec specs)
  have "[0..<length (spec # specs)] = 0 # map Suc [0..<length specs]" by (simp add: upt_conv_Cons map_Suc_upt del: upt_Suc)
  then show ?case by (simp add: Cons.IH uuid7_draw_def)
qed simp

lemma store_run_rows:
  assumes "store_run ac ri versions rec ad = (run, ad')"
  defines "i \<equiv> uuid_seed (ay_db (ad_analysis ad))"
  shows "run = new_run ac ri versions rec i" "ad_runs ad' = ad_runs ad @ [run]"
    "ad_stages ad' = ad_stages ad @
       map (\<lambda>j. admitted_stage_row ac (ri_bindings ri) rec i j (Suc (i + j)) (stage_dag ! j)) [0..<length stage_dag]"
    "ad_analysis ad' = (ad_analysis ad)\<lparr>ay_db := (ay_db (ad_analysis ad))\<lparr>uuid_seed := Suc (i + length stage_dag)\<rparr>\<rparr>"
    "ad_llm ad' = ad_llm ad" "ad_contexts ad' = ad_contexts ad"
  using assms by (auto simp: store_run_def add_stages_rows uuid7_draw_def Let_def)

section \<open>The stage machine takes a new run\<close>

lemma row_find_old: "row_find key k rs = Some r \<Longrightarrow> row_find key k (rs @ ss) = Some r"
  by (simp add: row_find_append)

lemma ready_add_run:
  assumes ready: "agent_ready ag" and fresh: "ar_id run \<notin> ar_id ` set (ag_runs ag)" "rn_state run \<notin> set final_run_states"
    and rows: "ag_runs ag' = ag_runs ag @ [run]" "ag_stages ag' = ag_stages ag @ ns"
    and ids: "distinct (map stg_id ns)" "stg_id ` set ns \<inter> stg_id ` set (ag_stages ag) = {}"
    and ns: "\<And>s. s \<in> set ns \<Longrightarrow> as_run_id s = ar_id run \<and> stage_inv s \<and> as_state s = ''PENDING''"
    and core: "\<exists>t\<in>set ns. as_role t = ''CORE''"
    and order: "\<And>s t. s \<in> set ns \<Longrightarrow> t \<in> set ns \<Longrightarrow> as_role t \<in> set (stg_dependency_roles s) \<Longrightarrow> stg_sequence t < stg_sequence s"
  shows "agent_ready ag'"
proof -
  have in_runs: "as_run_id s \<in> ar_id ` set (ag_runs ag)" if "s \<in> set (ag_stages ag)" for s
    using that ready by (auto simp: agent_ready_def run_known_def row_find_None_iff)
  have known: "as_run_id s \<in> ar_id ` set (ag_runs ag)" "as_run_id s \<noteq> ar_id run" if "s \<in> set (ag_stages ag)" for s
    using in_runs [OF that] fresh(1) by metis+
  have old_run: "row_find ar_id (as_run_id s) (ag_runs ag') = row_find ar_id (as_run_id s) (ag_runs ag)" if "s \<in> set (ag_stages ag)" for s
    using known(1) [OF that] by (auto simp: rows row_find_append row_find_None_iff split: option.split)
  have new_run: "row_find ar_id (ar_id run) (ag_runs ag') = Some run"
    unfolding rows(1) by (rule row_find_snoc_new [OF fresh(1)])
  have "stages_done ag' i = stages_done ag i" if "i \<noteq> ar_id run" for i using that ns by (auto simp: stages_done_def rows)
  moreover have "dependencies ag' s = dependencies ag s" if "s \<in> set (ag_stages ag)" for s
    using known(2) [OF that] ns by (auto simp: dependencies_def rows filter_empty_conv)
  moreover have "stg_sequence t < stg_sequence s" if "s \<in> set ns" "t \<in> set (dependencies ag' s)" for s t
    using known(2) ns [OF that(1)] that order by (auto simp: dependencies_def rows)
  moreover have "\<not> stages_done ag' (ar_id run)"
  proof -
    obtain t where t: "t \<in> set ns" using core by blast
    then have "as_run_id t = ar_id run" "as_state t \<notin> set terminal_states" using ns [OF t] by (simp_all add: terminal_cases)
    then show ?thesis using t by (auto simp: stages_done_def rows)
  qed
  ultimately show ?thesis
    using ready ids core ns order old_run new_run fresh(2) known(2)
    by (auto simp: agent_ready_def rows run_known_def run_final_def)
qed

section \<open>An admitted run is ready\<close>

definition ids_below :: "admission_db \<Rightarrow> bool" where
  "ids_below ad \<longleftrightarrow>
     (\<forall>r\<in>set (ad_runs ad). ar_id r < uuid_seed (ay_db (ad_analysis ad))) \<and>
     (\<forall>s\<in>set (ad_stages ad). stg_id s < uuid_seed (ay_db (ad_analysis ad)))"

definition stages_of :: "admission_call \<Rightarrow> run_inputs \<Rightarrow> uuid \<Rightarrow> stage_row list" where
  "stages_of ac ri i =
     map (\<lambda>j. new_stage i (am_now ac) (stage_binding (ri_bindings ri)) (am_created ac (Suc j)) (Suc (i + j)) (stage_dag ! j))
       [0..<length stage_dag]"

lemma new_stage_sel [simp]:
  "as_run_id (new_stage i t bs c k spec) = i" "stg_id (new_stage i t bs c k spec) = k" "as_role (new_stage i t bs c k spec) = fst spec"
  "as_state (new_stage i t bs c k spec) = ''PENDING''" "stg_sequence (new_stage i t bs c k spec) = fst (snd spec)"
  "stg_dependency_roles (new_stage i t bs c k spec) = snd (snd spec)" "stg_available_at (new_stage i t bs c k spec) = t"
  "stg_route_id (new_stage i t bs c k spec) = map_option fst (bs (fst spec))"
  by (simp_all add: new_stage_def split: prod.split)

lemma dag_length: "length stage_dag = 8"
  by (simp add: stage_dag_def)

text \<open>In the graph a stage depends on stages with a smaller sequence only.\<close>

lemma dag_ordered:
  "list_all (\<lambda>s. list_all (\<lambda>t. fst t \<in> set (snd (snd s)) \<longrightarrow> fst (snd t) < fst (snd s)) stage_dag) stage_dag"
  by code_simp

lemma dag_order: "s \<in> set stage_dag \<Longrightarrow> t \<in> set stage_dag \<Longrightarrow> fst t \<in> set (snd (snd s)) \<Longrightarrow> fst (snd t) < fst (snd s)"
  using dag_ordered by (auto simp: list_all_iff)

lemma stages_of_spec: "s \<in> set (stages_of ac ri i) \<Longrightarrow> \<exists>spec\<in>set stage_dag. as_role s = fst spec \<and> stg_sequence s = fst (snd spec) \<and>
  stg_dependency_roles s = snd (snd spec)"
  by (force simp: stages_of_def)

lemma stages_of_inv:
  assumes "\<And>role b. map_of (ri_bindings ri) role = Some b \<Longrightarrow> rr_max_attempts (rb_route b) = 1" "s \<in> set (stages_of ac ri i)"
  shows "as_run_id s = i \<and> stage_inv s \<and> as_state s = ''PENDING''"
  using assms by (auto simp: stages_of_def new_stage_def stage_inv_def stage_binding_def split: prod.splits option.splits)

lemma agents_of_stored:
  assumes "store_run ac ri versions rec ad = (run, ad')"
  shows "ag_runs (agents_of ad') = ag_runs (agents_of ad) @ [run_row.truncate run]"
    "ag_stages (agents_of ad') = ag_stages (agents_of ad) @ stages_of ac ri (ar_id run)"
    "ar_id run = uuid_seed (ay_db (ad_analysis ad))"
  by (simp_all add: agents_of_def store_run_rows(1-3) [OF assms] stages_of_def admitted_stage_row_def new_run_def Let_def comp_def)

lemma run_truncate_sel [simp]: "ar_id (run_row.truncate r) = ar_id r" "rn_state (run_row.truncate r) = rn_state r"
  "agent_run.truncate (run_row.truncate r) = agent_run.truncate r"
  by (simp_all add: run_row.defs agent_run.defs)

lemma stage_truncate_sel [simp]: "stg_id (stage_row.truncate s) = stg_id s"
  by (simp add: stage_row.defs)

lemma bindings_attempts:
  assumes "run_inputs_of ac ad = Inr ri" "map_of (ri_bindings ri) role = Some b"
  shows "rr_max_attempts (rb_route b) = 1"
  using load_routes_sound(2) [OF run_inputs_bindings [OF assms(1)] map_of_SomeD [OF assms(2)]]
  by (auto simp: binding_sound_def route_usable_def)

lemma stored_run_ready:
  assumes inputs: "run_inputs_of ac ad0 = Inr ri" and store: "store_run ac ri versions rec ad = (run, ad')"
    and ready: "agent_ready (agents_of ad)" and ids: "ids_below ad"
  shows "agent_ready (agents_of ad')"
proof (rule ready_add_run [OF ready _ _ agents_of_stored(1,2) [OF store]])
  note id = agents_of_stored(3) [OF store]
  show "ar_id (run_row.truncate run) \<notin> ar_id ` set (ag_runs (agents_of ad))"
    using ids by (auto simp: agents_of_def ids_below_def id)
  show "rn_state (run_row.truncate run) \<notin> set final_run_states"
    by (simp add: store_run_rows(1) [OF store] new_run_def final_run_states_def Let_def)
  show "distinct (map stg_id (stages_of ac ri (ar_id run)))"
    by (simp add: stages_of_def comp_def distinct_map inj_on_def)
  have "stg_id s < ar_id run" if "s \<in> set (ag_stages (agents_of ad))" for s
    using that ids by (auto simp: agents_of_def ids_below_def id)
  moreover have "ar_id run < stg_id s" if "s \<in> set (stages_of ac ri (ar_id run))" for s
    using that by (auto simp: stages_of_def)
  ultimately show "stg_id ` set (stages_of ac ri (ar_id run)) \<inter> stg_id ` set (ag_stages (agents_of ad)) = {}"
    by (fastforce dest: less_asym)
  show "as_run_id s = ar_id (run_row.truncate run) \<and> stage_inv s \<and> as_state s = ''PENDING''"
    if "s \<in> set (stages_of ac ri (ar_id run))" for s
    using stages_of_inv [OF bindings_attempts [OF inputs] that] by simp
  have "stage_dag ! 7 = last stage_dag" by (simp add: stage_dag_def)
  then show "\<exists>t\<in>set (stages_of ac ri (ar_id run)). as_role t = ''CORE''"
    by (force simp: stages_of_def dag_length stage_dag_def)
  show "stg_sequence t < stg_sequence s"
    if "s \<in> set (stages_of ac ri (ar_id run))" "t \<in> set (stages_of ac ri (ar_id run))" "as_role t \<in> set (stg_dependency_roles s)" for s t
    using that stages_of_spec [OF that(1)] stages_of_spec [OF that(2)] by (auto dest: dag_order)
qed

lemma stored_pending:
  assumes "store_run ac ri versions rec ad = (run, ad')"
  shows "pending_count (agents_of ad') = pending_count (agents_of ad) + 8"
proof -
  have "filter (\<lambda>s. as_state s = ''PENDING'') (stages_of ac ri (ar_id run)) = stages_of ac ri (ar_id run)"
    by (auto simp: stages_of_def intro: filter_True)
  then show ?thesis by (simp add: pending_count_def agents_of_stored [OF assms] stages_of_def dag_length)
qed

section \<open>The basis of an advisory run\<close>

lemma uuid_text_value: "foldl (\<lambda>a c. a * 10 + (of_char c - 48)) 0 (uuid_text n) = n"
proof (induction n rule: uuid_text.induct)
  case (1 n)
  show ?case
  proof (cases "n < 10")
    case False
    then have "of_char (char_of (48 + n mod 10) :: char) = 48 + n mod 10" by (simp add: of_char_of)
    then show ?thesis using 1 [OF False] False by (subst uuid_text.simps) simp
  qed (subst uuid_text.simps, simp add: of_char_of)
qed

lemma json_uuid_eq [simp]: "json_uuid i = json_uuid j \<longleftrightarrow> i = j"
  unfolding json_uuid_def by (metis json.inject(3) uuid_text_value)

lemma position_documents_differ:
  "position_document an v rp p pt m = position_document an' v' rp' q qt m' \<Longrightarrow> p_id p = p_id q"
  by (simp add: position_document_def)

lemma build_position_snapshot_Some:
  "build_position_snapshot an user p pt m d = Some j \<Longrightarrow> \<exists>v rp. j = position_document an v rp p pt m"
  by (auto simp: build_position_snapshot_def Let_def)

lemma input_payload_position:
  "is_dict (input_payload pp m s t st ind p)" "json_get ''position'' (input_payload pp m s t st ind p) = Some (json_opt id p)"
  by (simp_all add: input_payload_def is_dict_def json_get_def)

text \<open>What a new decision on a position is stored with.\<close>

lemma position_decisionE:
  assumes "create_mock_position_trading_decision an user p pt request sb market now ay = (Inr (dc, True), ay1)"
  obtains s m doc inp where "current_quote (ay_watch ay) market sb = Some (s, m)"
    "build_position_snapshot an user p pt m (ay_db ay) = Some doc" "inp \<in> set (ay_inputs ay1)" "di_user_id inp = user"
    "di_market_snapshot_id inp = m_id m" "is_dict (di_input_json inp)" "json_get ''position'' (di_input_json inp) = Some doc"
    "dr_decision_input_id dc = Some (di_id inp)" "dc_input_snapshot_id dc = m_id m" "dc_symbol dc = sb" "dc_market dc = market"
    "dr_decision_kind dc = ''POSITION''" "dc_purpose dc = ''TRADING''"
proof -
  let ?rq = "\<lparr>mr_user_id = user, mr_evaluation_request_id = request, mr_symbol = sb, mr_market = market, mr_purpose = ''TRADING'',
    mr_decision_kind = ''POSITION'', mr_position = Some (p, pt), mr_now = now\<rparr>"
  obtain s m where q: "current_quote (ay_watch ay) market sb = Some (s, m)" "create_new_decision an ?rq s m ay = (Inr dc, ay1)"
    using assms
    by (auto simp: create_mock_position_trading_decision_def create_mock_decision_def apfst_eq map_sum_Inr split: option.splits if_splits)
  obtain doc where doc: "build_position_snapshot an user p pt m (ay_db ay) = Some doc" "request_position an ?rq m ay = Inr (Some doc)"
    using q(2) by (auto simp: create_new_decision_def request_position_def position_kind_def split: if_splits option.splits)
  obtain inp payload ay2 out where new: "build_decision_input user ''TRADING'' m s now (an_quote_stale_seconds an) (Some doc) ay = Inr ((inp, payload), ay2)"
    "store_decision ?rq (di_id inp) (m_id m) out ay2 = (dc, ay1)"
    using q(2) doc(2) by (auto simp: create_new_decision_def apfst_eq split: sum.splits option.splits)
  have inp: "inp \<in> set (ay_inputs ay2) \<and> di_user_id inp = user \<and> di_market_snapshot_id inp = m_id m \<and>
      (\<exists>ind. di_input_json inp = input_payload ''TRADING'' m s now (an_quote_stale_seconds an) ind (Some doc))"
    using new(1)
    by (auto simp: build_decision_input_def input_existing_def input_row_def uuid7_draw_def find_Some_iff Let_def split: option.splits if_splits)
  obtain i where row: "ay_inputs ay1 = ay_inputs ay2" "dc = mock_decision_row ?rq i (di_id inp) (m_id m) out"
    using new(2) by (auto simp: store_decision_def uuid7_draw_def Let_def)
  have "dr_decision_input_id dc = Some (di_id inp)" by (simp add: row(2) mock_decision_row_def)
  then show thesis
    using q(1) doc(1) inp row(1) by (intro that [of s m doc inp]) (auto simp: row(2) input_payload_position json_opt_def)
qed

lemma run_position_document_of:
  assumes "run_inputs_of ac ad = Inr ri"
    "run_position (am_position_times ac) (am_symbol ac) (ay_db (ad_analysis ad)) = Some q"
  shows "map_option snd (current_quote (ay_watch (ad_analysis ad)) (am_market ac) (am_symbol ac)) = Some (ri_snapshot ri)" "ri_context ri = ''POSITION''"
    "build_position_snapshot (am_settings ac) (am_user ac) q (am_position_times ac (p_id q)) (ri_snapshot ri) (ay_db (ad_analysis ad)) =
      Some (ri_position_document ri)"
  using assms by (auto simp: run_inputs_of_def run_position_document_def map_sum_Inr Let_def split: option.splits if_splits)

lemma advisory_run_sel:
  assumes "create_position_advisory_run env ac dc ad = (Inr (run, True), ad')"
  defines "ac' \<equiv> ac\<lparr>am_purpose := ''TRADING_ADVISORY'', am_basis := Some dc, am_market := dc_market dc, am_symbol := dc_symbol dc\<rparr>"
  obtains ri where "run_inputs_of ac' ad = Inr ri" "ar_owner_id run = am_user ac" "ar_purpose run = ''TRADING_ADVISORY''"
    "ar_market run = dc_market dc" "ar_symbol run = dc_symbol dc" "ar_market_snapshot_id run = m_id (ri_snapshot ri)"
    "ar_analysis_context run = Some (ri_context ri)" "ar_position_snapshot_json run = Some (ri_position_document ri)"
    "ar_position_snapshot_hash run = Some (Sha256 (ri_position_document ri))" "ar_basis_decision_id run = Some (dc_id dc)"
    "ar_fusion_state run = Some ''PENDING''" "ar_fusion_policy_version run = Some fusion_policy_version"
proof -
  obtain ri rec versions where "run_inputs_of ac' ad = Inr ri" "store_run ac' ri versions rec (env ad) = (run, ad')"
    using assms(1) unfolding create_position_advisory_run_def ac'_def [symmetric] by (auto elim!: create_runE)
  with store_run_rows(1) [OF this(2)] show thesis
    by (intro that [of ri]) (simp_all add: new_run_def ac'_def Let_def)
qed

lemma agent_run_truncate_sel [simp]:
  "ar_id (agent_run.truncate r) = ar_id r" "ar_owner_id (agent_run.truncate r) = ar_owner_id r" "ar_purpose (agent_run.truncate r) = ar_purpose r"
  "ar_market (agent_run.truncate r) = ar_market r" "ar_symbol (agent_run.truncate r) = ar_symbol r"
  "ar_market_snapshot_id (agent_run.truncate r) = ar_market_snapshot_id r" "ar_analysis_context (agent_run.truncate r) = ar_analysis_context r"
  "ar_position_snapshot_json (agent_run.truncate r) = ar_position_snapshot_json r"
  "ar_position_snapshot_hash (agent_run.truncate r) = ar_position_snapshot_hash r"
  "ar_basis_decision_id (agent_run.truncate r) = ar_basis_decision_id r" "ar_fusion_state (agent_run.truncate r) = ar_fusion_state r"
  "ar_fusion_policy_version (agent_run.truncate r) = ar_fusion_policy_version r"
  by (simp_all add: agent_run.defs)

lemma input_truncate_sel [simp]:
  "di_id (decision_input_snapshot.truncate r) = di_id r" "di_user_id (decision_input_snapshot.truncate r) = di_user_id r"
  "di_market_snapshot_id (decision_input_snapshot.truncate r) = di_market_snapshot_id r"
  "di_input_json (decision_input_snapshot.truncate r) = di_input_json r"
  by (simp_all add: decision_input_snapshot.defs)

lemma position_document_dict: "is_dict (position_document an v rp p pt m)"
  by (simp add: position_document_def is_dict_def)

section \<open>Unique runs\<close>

definition runs_unique :: "admission_db \<Rightarrow> bool" where
  "runs_unique ad \<longleftrightarrow>
     distinct (map rx_idempotency_key (ad_runs ad)) \<and> distinct (List.map_filter ar_basis_decision_id (ad_runs ad))"

lemma map_filter_append: "List.map_filter f (xs @ ys) = List.map_filter f xs @ List.map_filter f ys"
  by (simp add: List.map_filter_def)

lemma map_filter_set: "i \<in> set (List.map_filter f xs) \<longleftrightarrow> (\<exists>x\<in>set xs. f x = Some i)"
  by (force simp: List.map_filter_def)

lemma same_call:
  "admission_refusal (ac\<lparr>am_now := t, am_created := c\<rparr>) = admission_refusal ac"
  "input_record (ac\<lparr>am_now := t, am_created := c\<rparr>) ri versions = input_record ac ri versions"
  "run_key (ac\<lparr>am_now := t, am_created := c\<rparr>) rec = run_key ac rec"
  by (simp_all add: admission_refusal_def basis_fits_def input_record_def run_key_def Let_def cong: if_cong option.case_cong)

section \<open>Work on the stages\<close>

lemma work_steps: "effect_ok (ac_effect c) \<Longrightarrow> agent_step\<^sup>*\<^sup>* ag (agent_work c ag)"
proof -
  assume ok: "effect_ok (ac_effect c)"
  let ?claim = "claim_next_stage (ac_claim c) [] (ac_worker c) (ac_lease c) ag"
  have claim: "agent_step ag (snd ?claim)" by (rule claims)
  show ?thesis
  proof (cases ?claim)
    case (Pair cl ag1)
    then show ?thesis
      using claim executes [OF ok, of ag1 "ac_execute c" _ "ac_worker c"]
      by (auto simp: agent_work_def process_agent_work_once_def split: option.split intro: rtranclp.rtrancl_into_rtrancl)
  qed
qed

lemma works_steps: "\<forall>c\<in>set cs. effect_ok (ac_effect c) \<Longrightarrow> agent_step\<^sup>*\<^sup>* ag (fold agent_work cs ag)"
proof (induction cs arbitrary: ag)
  case (Cons c cs)
  then show ?case using work_steps [of c ag] by (auto intro: rtranclp_trans)
qed simp

text \<open>The stage that stands for a row after the work.\<close>

lemma worked_stage:
  assumes "\<forall>c\<in>set cs. effect_ok (ac_effect c)" "distinct (map stg_id (ag_stages ag))" "s \<in> set (ag_stages ag)"
  obtains s' where "s' \<in> set (ag_stages (fold agent_work cs ag))" "stg_id s' = stg_id s" "as_run_id s' = as_run_id s"
proof -
  have "list_all2 stage_advance (ag_stages ag) (ag_stages (fold agent_work cs ag))"
    using agent_steps_advance [OF works_steps [OF assms(1)] assms(2)] by (simp add: stages_advance_def)
  then obtain s' where "s' \<in> set (ag_stages (fold agent_work cs ag))" "stage_advance s s'"
    using assms(3) by (metis list_all2_conv_all_nth in_set_conv_nth)
  then show thesis using that by (simp add: stage_advance_def)
qed

section \<open>A desk with routes\<close>

definition desk_route :: "uuid \<times> string \<Rightarrow> route_row" where
  "desk_route x =
     \<lparr>rr_id = fst x, rr_timeout_ms = 10000, rr_owner_id = 7, rr_role = snd x, rr_primary_model_profile_id = 31,
      rr_fallback_model_profile_ids = Some (JArr []), rr_fallback_policy = ''FAIL_STOP'', rr_execution_stage = ''SHADOW'',
      rr_service_tier = ''DEFAULT'', rr_max_attempts = 1, rr_prompt_profile_id = None,
      rr_output_schema_version = (if snd x = ''CORE'' then ''agent-core-v2'' else ''agent-assessment-v2''),
      rr_temperature_override = None, rr_top_p_override = None, rr_max_output_tokens_override = None, rr_reasoning_effort_override = None,
      rr_seed_override = None, rr_state = ''ACTIVE'', rr_version = 1\<rparr>"

definition desk_route_ids :: "(string \<times> uuid) list" where
  "desk_route_ids = zip route_roles [32, 33, 34, 35, 36]"

definition desk_llm :: llm_db where
  "desk_llm =
     \<lparr>lm_routes = map (\<lambda>(role, i). desk_route (i, role)) desk_route_ids,
      lm_models = [\<lparr>mp_id = 31, mp_provider_profile_id = 30, mp_max_output_tokens = 100, mp_temperature = None, mp_top_p = None,
        mp_reasoning_effort = None, mp_seed = None, mp_state = ''VALIDATED'', mp_version = 1\<rparr>],
      lm_providers = [\<lparr>pp_id = 30, pp_owner_id = 7, pp_adapter_type = ''MOCK'', pp_endpoint = None, pp_credential_secret_ref = None,
        pp_state = ''VALIDATED'', pp_deleted_at = None\<rparr>],
      lm_prompts = []\<rparr>"

text \<open>The broker's position of the symbol, and a paper position that was updated later.\<close>

definition desk_paper :: position where
  "desk_paper = fusion_position\<lparr>p_id := 6, p_account_alias := ''PAPER''\<rparr>"

definition desk_times :: "uuid \<Rightarrow> position_times" where
  "desk_times i = \<lparr>pt_created_at = 0, pt_updated_at = (if i = 6 then 3599000000 else 3590000000)\<rparr>"

definition desk :: "analysis_db \<Rightarrow> admission_db" where
  "desk ay =
     \<lparr>ad_analysis = ay, ad_runs = [], ad_stages = [], ad_invocations = [], ad_bundles = [], ad_llm = desk_llm, ad_contexts = []\<rparr>"

definition desk_start :: analysis_db where
  "desk_start = analysis_start\<lparr>ay_db := (ay_db analysis_start)\<lparr>positions := [fusion_position, desk_paper]\<rparr>\<rparr>"

definition desk_call :: admission_call where
  "desk_call =
     \<lparr>am_user = 7, am_market = ''KRX'', am_symbol = ''005930'', am_route_ids = desk_route_ids, am_purpose = ''DIAGNOSTIC'', am_basis = None,
      am_now = 3601000000, am_settings = analysis_config,
      am_evidence = \<lparr>es_dart_enabled = False, es_dart_key = None, es_krx_enabled = False, es_krx_key = None, es_naver_enabled = False, es_naver_keys = None\<rparr>,
      am_position_times = desk_times, am_created = (\<lambda>_. 3601000000)\<rparr>"

definition desk_work :: agent_call where
  "desk_work = fresh_call\<lparr>ac_claim := fresh_clock 3602000000, ac_execute := fresh_clock 3602000000\<rparr>"

lemma case_answer:
  "(case x of (Inr (r, new), y) \<Rightarrow> new \<and> P r y | _ \<Rightarrow> False) \<longleftrightarrow> (\<exists>r y. x = (Inr (r, True), y) \<and> P r y)"
  by (cases x; cases "fst x") auto

lemma desk_admits:
  "case create_run id desk_call (desk desk_start) of
     (Inr (run, new), ad') \<Rightarrow> new \<and> run_inputs_of desk_call ad' = run_inputs_of desk_call (desk desk_start) \<and> ad_llm ad' = desk_llm \<and>
       agent_fit desk_work (agents_of ad')
   | _ \<Rightarrow> False"
  by code_simp

lemma desk_ready: "agent_ready (agents_of (desk desk_start))" "ids_below (desk desk_start)" "pending_count (agents_of (desk desk_start)) = 0"
  by code_simp+

lemma desk_admitted:
  obtains run ad' where "create_run id desk_call (desk desk_start) = (Inr (run, True), ad')"
    "run_inputs_of desk_call ad' = run_inputs_of desk_call (desk desk_start)" "ad_llm ad' = desk_llm" "agent_fit desk_work (agents_of ad')"
  using desk_admits unfolding case_answer by blast

definition desk_decided :: "(mock_error + decision_row \<times> bool) \<times> analysis_db" where
  "desk_decided = create_mock_position_trading_decision analysis_config 7 fusion_position (desk_times 5) ''p'' ''005930'' ''KRX'' 3601000000 desk_start"

lemma desk_advises:
  "case desk_decided of
     (Inr (dc, new), ay1) \<Rightarrow>
       new \<and> run_position desk_times ''005930'' (ay_db ay1) = Some desk_paper \<and>
       current_quote (ay_watch ay1) ''KRX'' ''005930'' = current_quote (ay_watch desk_start) ''KRX'' ''005930'' \<and>
       active_risk_policy (ay_db ay1) (uuid_text 7) = active_risk_policy (ay_db desk_start) (uuid_text 7) \<and>
       (case create_position_advisory_run id desk_call dc (desk ay1) of
          (Inr (run, new), ad') \<Rightarrow>
            new \<and> list_all (\<lambda>r. row_find di_id (di_id r) (fx_inputs (fusion_view (agents_of ad'))) = Some (decision_input_snapshot.truncate r)) (ay_inputs ay1) \<and>
            row_find dc_id (dc_id dc) (fx_decisions (fusion_view (agents_of ad'))) = Some dc \<and> 3602000000 < dc_valid_until dc
        | _ \<Rightarrow> False)
   | _ \<Rightarrow> False"
  by code_simp

section \<open>Properties\<close>

text \<open>C38. An advisory run is fused only with the position its basis was decided on, and the admission may pick another one. Let a
  decision be made on an open position, and a run be admitted for it while quote, risk policy and settings are the same. If
  the run describes that position, its frozen input is the one of the decision and the fusion goes on to the stages. But the
  admission takes the position of the symbol that was updated last in any account: if that is another row, as a paper
  position of the same symbol is, the fusion fails safe whatever the agents advise.\<close>
theorem advisory_describes_basis_position:
  assumes "create_mock_position_trading_decision an user p pt request sb market now ay = (Inr (dc, True), ay1)"
    "create_position_advisory_run env ac dc ad = (Inr (run, True), ad')"
    "run_position (am_position_times ac) sb (ay_db (ad_analysis ad)) = Some q"
    "am_user ac = user" "am_settings ac = an" "am_position_times ac (p_id p) = pt"
    "current_quote (ay_watch (ad_analysis ad)) market sb = current_quote (ay_watch ay) market sb"
    "active_risk_policy (ay_db (ad_analysis ad)) (uuid_text user) = active_risk_policy (ay_db ay) (uuid_text user)"
    "\<forall>r\<in>set (ay_inputs ay1). row_find di_id (di_id r) (fx_inputs fx) = Some (decision_input_snapshot.truncate r)"
    "row_find dc_id (dc_id dc) (fx_decisions fx) = Some dc" "fc_now fc < dc_valid_until dc"
  shows "(q = p \<longrightarrow> (\<exists>frozen. validate_frozen_input fx (agent_run.truncate run) dc = Inr (Some frozen))) \<and>
    (p_id q \<noteq> p_id p \<longrightarrow>
      finalize_position_advisory fc (agent_run.truncate run) fx =
        (Inr None, run_upd (ar_id run) (fusion_finish ''FAILED_SAFE'' ''FUSION_INPUT_MISMATCH'') fx))"
proof -
  obtain s m doc inp where dc: "current_quote (ay_watch ay) market sb = Some (s, m)"
    "build_position_snapshot an user p pt m (ay_db ay) = Some doc" "inp \<in> set (ay_inputs ay1)" "di_user_id inp = user"
    "di_market_snapshot_id inp = m_id m" "is_dict (di_input_json inp)" "json_get ''position'' (di_input_json inp) = Some doc"
    "dr_decision_input_id dc = Some (di_id inp)" "dc_input_snapshot_id dc = m_id m" "dc_symbol dc = sb" "dc_market dc = market"
    "dr_decision_kind dc = ''POSITION''" "dc_purpose dc = ''TRADING''"
    by (rule position_decisionE [OF assms(1)])
  obtain ri where run: "run_inputs_of (ac\<lparr>am_purpose := ''TRADING_ADVISORY'', am_basis := Some dc, am_market := dc_market dc, am_symbol := dc_symbol dc\<rparr>) ad = Inr ri"
    "ar_owner_id run = am_user ac" "ar_purpose run = ''TRADING_ADVISORY''"
    "ar_market run = dc_market dc" "ar_symbol run = dc_symbol dc" "ar_market_snapshot_id run = m_id (ri_snapshot ri)"
    "ar_analysis_context run = Some (ri_context ri)" "ar_position_snapshot_json run = Some (ri_position_document ri)"
    "ar_position_snapshot_hash run = Some (Sha256 (ri_position_document ri))" "ar_basis_decision_id run = Some (dc_id dc)"
    "ar_fusion_state run = Some ''PENDING''" "ar_fusion_policy_version run = Some fusion_policy_version"
    by (rule advisory_run_sel [OF assms(2)])
  have q: "ri_snapshot ri = m" "ri_context ri = ''POSITION''"
    "build_position_snapshot an user q (am_position_times ac (p_id q)) m (ay_db (ad_analysis ad)) = Some (ri_position_document ri)"
    using run_position_document_of [OF run(1), of q] assms(3-5,7) dc(1,10,11) by simp_all
  obtain v rp where doc: "doc = position_document an v rp p pt m" using build_position_snapshot_Some [OF dc(2)] by blast
  have frozen: "validate_frozen_input fx (agent_run.truncate run) dc =
    Inr (if ri_position_document ri = doc then Some (doc, decision_input_snapshot.truncate inp) else None)"
    using assms(4,9) dc(3-13) run(2-10) q(1,2) position_document_dict [of an v rp p pt m]
    by (auto simp: validate_frozen_input_def doc [symmetric])
  have "ri_position_document ri = doc" if "q = p"
    using q(3) dc(2) that assms(6,8) by (simp add: build_position_snapshot_def)
  moreover have "ri_position_document ri \<noteq> doc" if "p_id q \<noteq> p_id p"
    using build_position_snapshot_Some [OF q(3)] position_documents_differ doc that by metis
  ultimately show ?thesis
    using frozen assms(10,11) run(3,10-12) by (auto simp: finalize_position_advisory_def fuse_pending_def)
qed

theorem advisory_describes_basis_position_witness:
  "\<exists>dc ay1 run ad'. desk_decided = (Inr (dc, True), ay1) \<and> create_position_advisory_run id desk_call dc (desk ay1) = (Inr (run, True), ad') \<and>
     finalize_position_advisory (fresh_clock 3602000000) (agent_run.truncate run) (fusion_view (agents_of ad')) =
       (Inr None, run_upd (ar_id run) (fusion_finish ''FAILED_SAFE'' ''FUSION_INPUT_MISMATCH'') (fusion_view (agents_of ad')))"
proof -
  obtain dc ay1 run ad' where w: "desk_decided = (Inr (dc, True), ay1)" "create_position_advisory_run id desk_call dc (desk ay1) = (Inr (run, True), ad')"
    "run_position desk_times ''005930'' (ay_db ay1) = Some desk_paper"
    "current_quote (ay_watch ay1) ''KRX'' ''005930'' = current_quote (ay_watch desk_start) ''KRX'' ''005930''"
    "active_risk_policy (ay_db ay1) (uuid_text 7) = active_risk_policy (ay_db desk_start) (uuid_text 7)"
    "\<forall>r\<in>set (ay_inputs ay1). row_find di_id (di_id r) (fx_inputs (fusion_view (agents_of ad'))) = Some (decision_input_snapshot.truncate r)"
    "row_find dc_id (dc_id dc) (fx_decisions (fusion_view (agents_of ad'))) = Some dc" "3602000000 < dc_valid_until dc"
    using desk_advises unfolding case_answer list_all_iff by blast
  have call: "am_user desk_call = 7" "am_settings desk_call = analysis_config" "am_position_times desk_call = desk_times"
    "p_id fusion_position = 5" "p_id desk_paper = 6" "ad_analysis (desk ay1) = ay1" "fc_now (fresh_clock 3602000000) = 3602000000"
    by (simp_all add: desk_call_def fusion_position_def desk_paper_def desk_def fresh_clock_def)
  have "finalize_position_advisory (fresh_clock 3602000000) (agent_run.truncate run) (fusion_view (agents_of ad')) =
       (Inr None, run_upd (ar_id run) (fusion_finish ''FAILED_SAFE'' ''FUSION_INPUT_MISMATCH'') (fusion_view (agents_of ad')))"
    using w advisory_describes_basis_position [OF w(1) [unfolded desk_decided_def] w(2), of desk_paper "fusion_view (agents_of ad')" "fresh_clock 3602000000"]
    by (simp add: call)
  then show ?thesis using w(1,2) by blast
qed

definition stages_of_run :: "admission_db \<Rightarrow> uuid \<Rightarrow> stage_row list" where
  "stages_of_run ad i = filter (\<lambda>s. as_run_id s = i) (ag_stages (agents_of ad))"

lemma stored_stages_of_run:
  assumes "store_run ac ri versions rec ad = (run, ad')" "agent_ready (agents_of ad)" "ids_below ad"
  shows "stages_of_run ad' (ar_id run) = stages_of ac ri (ar_id run)"
proof -
  have "as_run_id s \<noteq> ar_id run" if "s \<in> set (ag_stages (agents_of ad))" for s
  proof -
    have "as_run_id s \<in> ar_id ` set (ag_runs (agents_of ad))"
      using that assms(2) by (auto simp: agent_ready_def run_known_def row_find_None_iff)
    then show ?thesis using assms(3) agents_of_stored(3) [OF assms(1)] by (auto simp: agents_of_def ids_below_def)
  qed
  moreover have "filter (\<lambda>s. as_run_id s = ar_id run) (stages_of ac ri (ar_id run)) = stages_of ac ri (ar_id run)"
    by (auto simp: stages_of_def intro: filter_True)
  ultimately show ?thesis
    by (simp add: stages_of_run_def agents_of_stored(2) [OF assms(1)] filter_empty_conv)
qed

text \<open>C39. An admitted run is worked off. A new run has the eight stages of the graph, and every stage of a model role has a
  route of the owner that is validated or active, with a validated model of a provider of the owner that is not deleted and has its
  credential. Admission keeps the stage machine ready, so that as many uninterrupted calls of workers as there are pending
  stages conclude the run, whatever the stages return or raise.\<close>
theorem admitted_run_worked_off:
  assumes "create_run env ac ad = (Inr (run, True), ad')" "agent_ready (agents_of (env ad))" "ids_below (env ad)"
    "\<forall>c\<in>set cs. agent_fit c (agents_of ad')" "pending_count (agents_of (env ad)) + 8 \<le> length cs"
  shows "map as_role (stages_of_run ad' (ar_id run)) = map fst stage_dag \<and>
    (\<forall>s\<in>set (stages_of_run ad' (ar_id run)). as_role s \<in> set route_roles \<longrightarrow>
      (\<exists>b. binding_sound (ad_llm ad) (am_user ac) (as_role s) b \<and> stg_route_id s = Some (rr_id (rb_route b)))) \<and>
    agent_ready (agents_of ad') \<and> run_final (fold agent_work cs (agents_of ad')) (ar_id run)"
  using assms(1)
proof (cases rule: create_runE)
  case (new ri rec)
  note stored = stored_stages_of_run [OF new(6) assms(2,3)]
  have ready: "agent_ready (agents_of ad')" by (rule stored_run_ready [OF new(2,6) assms(2,3)])
  have roles: "map as_role (stages_of_run ad' (ar_id run)) = map fst stage_dag"
    unfolding stored stages_of_def by (rule nth_equalityI) simp_all
  have routed: "\<exists>b. binding_sound (ad_llm ad) (am_user ac) (as_role s) b \<and> stg_route_id s = Some (rr_id (rb_route b))"
    if s: "s \<in> set (stages_of ac ri (ar_id run))" "as_role s \<in> set route_roles" for s
  proof -
    note bs = load_routes_sound [OF run_inputs_bindings [OF new(2)]]
    have "as_role s \<in> fst ` set (ri_bindings ri)" using s(2) bs(1) by (metis list.set_map)
    then obtain b where b: "map_of (ri_bindings ri) (as_role s) = Some b" by (metis map_of_eq_None_iff not_None_eq)
    then show ?thesis using bs(2) [OF map_of_SomeD [OF b]] s(1) by (auto simp: stages_of_def stage_binding_def)
  qed
  have "stages_of ac ri (ar_id run) \<noteq> []" by (simp add: stages_of_def dag_length)
  then obtain s where s: "s \<in> set (stages_of ac ri (ar_id run))" using hd_in_set by blast
  then have s_run: "as_run_id s = ar_id run" "s \<in> set (ag_stages (agents_of ad'))"
    by (auto simp: stages_of_def agents_of_stored(2) [OF new(6)])
  have "\<forall>c\<in>set cs. effect_ok (ac_effect c)" using assms(4) by (simp add: agent_fit_def)
  moreover have "distinct (map stg_id (ag_stages (agents_of ad')))" using ready by (simp add: agent_ready_def)
  ultimately obtain s' where s': "s' \<in> set (ag_stages (fold agent_work cs (agents_of ad')))" "as_run_id s' = ar_id run"
    using worked_stage [OF _ _ s_run(2), of cs] s_run(1) by metis
  have "pending_count (agents_of ad') \<le> length cs" using assms(5) stored_pending [OF new(6)] by simp
  from drained_complete [OF ready assms(4) this s'(1)] s'(2) have "run_final (fold agent_work cs (agents_of ad')) (ar_id run)" by simp
  then show ?thesis using roles routed ready unfolding stored by blast
qed simp_all

theorem admitted_run_worked_off_witness:
  "\<exists>run ad'. create_run id desk_call (desk desk_start) = (Inr (run, True), ad') \<and>
     run_final (fold agent_work (replicate 8 desk_work) (agents_of ad')) (ar_id run)"
proof -
  obtain run ad' where run: "create_run id desk_call (desk desk_start) = (Inr (run, True), ad')" "agent_fit desk_work (agents_of ad')"
    by (rule desk_admitted)
  then show ?thesis using admitted_run_worked_off [OF run(1), of "replicate 8 desk_work"] desk_ready by auto
qed

text \<open>C40. An admission happens at most once. While quote, position, market context and routes are as they were, another admission for the same
  purpose returns the run that is stored and changes nothing, and no two runs ever have the same key or the same basis decision,
  also when another process admits a run in between.\<close>
theorem admission_at_most_once:
  assumes "create_run env ac ad = (Inr (run, b), ad')"
  shows "row_find rx_idempotency_key (rx_idempotency_key run) (ad_runs ad') = Some run \<and>
    (runs_unique ad \<and> runs_unique (env ad) \<longrightarrow> runs_unique ad') \<and>
    (\<forall>env2 ad2 t c. run_inputs_of (ac\<lparr>am_now := t, am_created := c\<rparr>) ad2 = run_inputs_of ac ad \<and> ad_llm ad2 = ad_llm ad \<and>
       row_find rx_idempotency_key (rx_idempotency_key run) (ad_runs ad2) = Some run \<longrightarrow>
       create_run env2 (ac\<lparr>am_now := t, am_created := c\<rparr>) ad2 = (Inr (run, False), ad2))"
proof -
  have again: "create_run env2 (ac\<lparr>am_now := t, am_created := c\<rparr>) ad2 = (Inr (run, False), ad2)"
    if "admission_refusal ac = None" "run_inputs_of ac ad = Inr ri" "ar_owner_id run = am_user ac"
      "rx_idempotency_key run = run_key ac (input_record ac ri (route_versions (ad_llm ad) (ri_bindings ri)))"
      "run_inputs_of (ac\<lparr>am_now := t, am_created := c\<rparr>) ad2 = run_inputs_of ac ad" "ad_llm ad2 = ad_llm ad"
      "row_find rx_idempotency_key (rx_idempotency_key run) (ad_runs ad2) = Some run" for env2 ad2 t c ri
    using that by (simp add: create_run_def same_call existing_run_def)
  show ?thesis
    using assms
  proof (cases rule: create_runE)
    case (old ri)
    then show ?thesis using again [OF old(1,2,6,7)] by auto
  next
    case (new ri rec)
    note rows = store_run_rows [OF new(6)]
    have run: "ar_owner_id run = am_user ac" "rx_idempotency_key run = run_key ac rec" "ar_basis_decision_id run = map_option dc_id (am_basis ac)"
      by (simp_all add: rows(1) new_run_def Let_def)
    have fresh: "rx_idempotency_key run \<notin> rx_idempotency_key ` set (ad_runs (env ad))"
      "\<And>i. ar_basis_decision_id run = Some i \<Longrightarrow> i \<notin> set (List.map_filter ar_basis_decision_id (ad_runs (env ad)))"
      using new(5) run(2,3) by (auto simp: list_ex_iff run_clashes_def map_filter_set)
    have "runs_unique (env ad) \<longrightarrow> runs_unique ad'"
      using fresh by (auto simp: runs_unique_def rows(2) map_filter_append split: option.splits)
    moreover have "row_find rx_idempotency_key (rx_idempotency_key run) (ad_runs ad') = Some run"
      unfolding rows(2) by (rule row_find_snoc_new [OF fresh(1)])
    ultimately show ?thesis using again [OF new(1,2) run(1)] run(2) new(4) by blast
  qed
qed

theorem admission_at_most_once_witness:
  "\<exists>run ad'. create_run id desk_call (desk desk_start) = (Inr (run, True), ad') \<and> create_run id desk_call ad' = (Inr (run, False), ad')"
proof -
  obtain run ad' where run: "create_run id desk_call (desk desk_start) = (Inr (run, True), ad')"
    "run_inputs_of desk_call ad' = run_inputs_of desk_call (desk desk_start)" "ad_llm ad' = desk_llm"
    by (rule desk_admitted)
  have same: "desk_call\<lparr>am_now := am_now desk_call, am_created := am_created desk_call\<rparr> = desk_call" "ad_llm (desk desk_start) = desk_llm"
    by (simp_all add: desk_def)
  have "create_run id (desk_call\<lparr>am_now := am_now desk_call, am_created := am_created desk_call\<rparr>) ad' = (Inr (run, False), ad')"
    using admission_at_most_once [OF run(1)] run(2,3) same by metis
  then show ?thesis using run(1) same(1) by auto
qed

end
