(* ===== verification/Analysis_Scheduler.thy ===== *)
theory Analysis_Scheduler
  imports Agent_Admission Worker_Lease Kiwoom_Wire "HOL-Library.Char_ord" "HOL-Library.List_Lexorder" "HOL-Library.Product_Lexorder"
begin

text \<open>
  \<open>app/analysis_scheduler.py\<close>: the slots of the trading day, the targets of a slot, the tick that decides and routes
  each target, and the loop of the scheduler under its lease. Seoul is nine hours ahead of UTC, as it has been since 1988.
  \<open>hx\<close> is the hexadecimal SHA-256 of a text. \<open>tc_env\<close> is what other processes commit while an agent run is admitted.
\<close>

section \<open>Slots\<close>

record slot =
  sl_key :: string
  sl_start_at :: instant
  sl_next_due_at :: instant

definition day_micros :: int where
  "day_micros = seconds 86400"

definition local_instant :: "date \<Rightarrow> int \<Rightarrow> instant" where
  "local_instant day tod = day * day_micros + tod - kst_offset"

definition time_of_day :: "instant \<Rightarrow> int" where
  "time_of_day t = (t + kst_offset) mod day_micros"

definition clock_hour :: "int \<Rightarrow> int" where
  "clock_hour h = seconds (h * 3600)"

text \<open>The loop of \<open>_next_weekday_start\<close> over the days of a weekend.\<close>

function next_weekday :: "date \<Rightarrow> date" where
  "next_weekday day = (if 5 \<le> weekday day then next_weekday (day + 1) else day)"
  by auto

termination next_weekday
proof (relation "measure (\<lambda>day. if 5 \<le> weekday day then nat (7 - weekday day) else 0)")
  fix day :: date
  assume "5 \<le> weekday day"
  then show "(day + 1, day) \<in> measure (\<lambda>day. if 5 \<le> weekday day then nat (7 - weekday day) else 0)"
    unfolding weekday_def by simp presburger
qed simp

declare next_weekday.simps [simp del]

definition next_weekday_start :: "instant \<Rightarrow> instant" where
  "next_weekday_start t =
     local_instant (next_weekday (if clock_hour 8 \<le> time_of_day t then kst_date t + 1 else kst_date t)) (clock_hour 8)"

definition two_digits :: "int \<Rightarrow> string" where
  "two_digits n = str_zfill 2 (int_text n)"

definition slot_key :: "date \<Rightarrow> int \<Rightarrow> string" where
  "slot_key day tod =
     (let (y, m, dd) = civil_of day; minutes = tod div seconds 60
      in str_zfill 4 (int_text y) @ two_digits m @ two_digits dd @ ''T'' @ two_digits (minutes div 60) @ two_digits (minutes mod 60) @ ''+0900'')"

definition outside_hours :: "instant \<Rightarrow> bool" where
  "outside_hours t \<longleftrightarrow> 5 \<le> weekday (kst_date t) \<or> time_of_day t < clock_hour 8 \<or> clock_hour 20 \<le> time_of_day t"

definition analysis_slot :: "instant \<Rightarrow> slot option \<times> instant" where
  "analysis_slot now =
     (if outside_hours now then (None, next_weekday_start now)
      else
        (let day = kst_date now; tod = time_of_day now;
             (base, interval) = (if tod < clock_hour 11 then (clock_hour 8, 5) else (clock_hour 11, 10));
             elapsed = (tod - base) div seconds 60;
             slot_local = base + seconds (60 * (elapsed div interval * interval));
             next_local = slot_local + seconds (60 * interval)
         in (Some \<lparr>sl_key = slot_key day slot_local, sl_start_at = local_instant day slot_local,
                   sl_next_due_at = local_instant day next_local\<rparr>, local_instant day next_local)))"

section \<open>Targets\<close>

definition evaluation_id :: "(string \<Rightarrow> string) \<Rightarrow> uuid \<Rightarrow> string \<Rightarrow> string \<Rightarrow> string \<Rightarrow> string" where
  "evaluation_id hx user market sb key =
     ''sched-'' @ take 58 (hx (uuid_text user @ '':'' @ market @ '':'' @ sb @ '':'' @ key @ '':deterministic-mock-v2:mock-entry-indicators-v2''))"

definition position_evaluation_id :: "(string \<Rightarrow> string) \<Rightarrow> uuid \<Rightarrow> string \<Rightarrow> string \<Rightarrow> string \<Rightarrow> string" where
  "position_evaluation_id hx user market sb key =
     ''sched-'' @ take 58 (hx (uuid_text user @ '':'' @ market @ '':'' @ sb @ '':'' @ key @
       '':POSITION:deterministic-position-v1:mock-position-policy-v1''))"

definition active_user_ids :: "analysis_db \<Rightarrow> uuid list" where
  "active_user_ids ay = map ur_id (filter (\<lambda>u. ur_status u = ''ACTIVE'') (ay_users ay))"

definition held_symbols :: "analysis_db \<Rightarrow> string list" where
  "held_symbols ay =
     map p_symbol (filter (\<lambda>p. p_account_alias p = kiwoom_account \<and> p_state p = PS_OPEN \<and> 0 < p_quantity p) (positions (ay_db ay)))"

definition watch_targets :: "analysis_db \<Rightarrow> (uuid \<times> string \<times> string) list" where
  "watch_targets ay =
     map (\<lambda>w. (w_user_id w, w_market w, w_symbol w)) (filter (\<lambda>w. w_user_id w \<in> set (active_user_ids ay)) (watchlist_items (ay_db ay)))"

definition analysis_targets :: "analysis_db \<Rightarrow> (uuid \<times> string \<times> string) list" where
  "analysis_targets ay =
     (let watched = watch_targets ay;
          held = (case active_user_ids ay of
             [user] \<Rightarrow> map (\<lambda>sb. (user, ''KRX'', sb)) (filter (\<lambda>sb. (user, sb) \<notin> set (map (\<lambda>(u, _, s). (u, s)) watched)) (held_symbols ay))
           | _ \<Rightarrow> [])
      in sort_key (\<lambda>(u, market, sb). (uuid_text u, market, sb)) (remdups (watched @ held)))"

section \<open>The tick\<close>

datatype target_outcome = TargetSkipped | TargetFailed | TargetDecided bool

record tick_result =
  tr_processed_count :: int
  tr_decision_count :: int
  tr_skipped_count :: int
  tr_failed_count :: int

record tick_call =
  tc_hex :: "string \<Rightarrow> string"
  tc_holidays :: "int \<Rightarrow> date list option"
  tc_settings :: settings
  tc_analysis :: analysis_settings
  tc_evidence :: evidence_settings
  tc_position_times :: "uuid \<Rightarrow> position_times"
  tc_created :: "nat \<Rightarrow> instant"
  tc_env :: "admission_db \<Rightarrow> admission_db"
  tc_now :: instant

definition held_position :: "analysis_db \<Rightarrow> string \<Rightarrow> position option" where
  "held_position ay sb =
     find (\<lambda>p. p_account_alias p = kiwoom_account \<and> p_symbol p = sb \<and> p_state p = PS_OPEN \<and> 0 < p_quantity p) (positions (ay_db ay))"

definition decide_target ::
  "tick_call \<Rightarrow> string \<Rightarrow> uuid \<times> string \<times> string \<Rightarrow> analysis_db \<Rightarrow> (mock_error + decision_row \<times> bool) \<times> analysis_db" where
  "decide_target tc key target ay =
     (case target of (user, market, sb) \<Rightarrow>
        (case held_position ay sb of
           None \<Rightarrow> create_mock_trading_decision (tc_analysis tc) user (evaluation_id (tc_hex tc) user market sb key) sb market (tc_now tc) ay
         | Some p \<Rightarrow> create_mock_position_trading_decision (tc_analysis tc) user p (tc_position_times tc (p_id p))
             (position_evaluation_id (tc_hex tc) user market sb key) sb market (tc_now tc) ay))"

text \<open>The active routes of a user by role, when every role has one; of two routes of a role the later counts.\<close>

definition active_agent_routes :: "llm_db \<Rightarrow> uuid \<Rightarrow> (string \<times> uuid) list option" where
  "active_agent_routes lm user =
     (let route_ids = rev (map (\<lambda>r. (rr_role r, rr_id r)) (filter (\<lambda>r. rr_owner_id r = user \<and> rr_role r \<in> set route_roles \<and>
            rr_state r = ''ACTIVE'' \<and> rr_execution_stage r = ''SHADOW'') (lm_routes lm)))
      in if set (map fst route_ids) = set route_roles then Some route_ids else None)"

text \<open>The admission at the end of a target; an error is an exception of the target.\<close>

definition admit_target :: "tick_call \<Rightarrow> uuid \<times> string \<times> string \<Rightarrow> bool \<Rightarrow> decision_row \<Rightarrow> admission_db \<Rightarrow> bool \<times> admission_db" where
  "admit_target tc target holding dc ad =
     (case target of (user, market, sb) \<Rightarrow>
        (case active_agent_routes (ad_llm ad) user of
           None \<Rightarrow> (True, ad)
         | Some ids \<Rightarrow>
             (let ac = \<lparr>am_user = user, am_market = market, am_symbol = sb, am_route_ids = ids, am_purpose = ''DIAGNOSTIC'', am_basis = None,
                    am_now = tc_now tc, am_settings = tc_analysis tc, am_evidence = tc_evidence tc,
                    am_position_times = tc_position_times tc, am_created = tc_created tc\<rparr>
              in apfst (\<lambda>r. case r of Inl _ \<Rightarrow> False | Inr _ \<Rightarrow> True)
                   (if holding then create_position_advisory_run (tc_env tc) ac dc ad else create_diagnostic_run (tc_env tc) ac ad))))"

text \<open>The decision is committed before it is routed, so a failing route does not undo it; nor does a refused admission.\<close>

definition route_target ::
  "tick_call \<Rightarrow> uuid \<times> string \<times> string \<Rightarrow> bool \<Rightarrow> decision_row \<Rightarrow> bool \<Rightarrow> admission_db \<Rightarrow> target_outcome \<times> admission_db" where
  "route_target tc target holding dc created ad =
     (let (cid, d1) = uuid7_draw (ay_db (ad_analysis ad))
      in case route_trading_decision (tc_holidays tc) (tc_settings tc)
             \<lparr>rt_user = fst target, rt_correlation_id = uuid_text cid, rt_now = tc_now tc\<rparr> (decision.truncate dc) d1 of
           (Inl e, d2) \<Rightarrow> (TargetFailed, ad\<lparr>ad_analysis := (ad_analysis ad)\<lparr>ay_db := d2\<rparr>\<rparr>)
         | (Inr _, d2) \<Rightarrow>
             (let (ok, ad1) = admit_target tc target holding dc (ad\<lparr>ad_analysis := (ad_analysis ad)\<lparr>ay_db := d2\<rparr>\<rparr>)
              in (if ok then TargetDecided created else TargetFailed, ad1)))"

definition analyse_target :: "tick_call \<Rightarrow> string \<Rightarrow> uuid \<times> string \<times> string \<Rightarrow> admission_db \<Rightarrow> target_outcome \<times> admission_db" where
  "analyse_target tc key target ad =
     (case target of (user, market, sb) \<Rightarrow>
        (let ay = ad_analysis ad
         in if (case stream_of (ay_watch ay) market sb of None \<Rightarrow> True | Some s \<Rightarrow> ms_current_snapshot_id s = None)
            then (TargetSkipped, ad)
            else if user \<notin> set (active_user_ids ay) then (TargetSkipped, ad)
            else case decide_target tc key target ay of
              (Inl e, ay1) \<Rightarrow> (TargetFailed, ad\<lparr>ad_analysis := ay1\<rparr>)
            | (Inr (dc, created), ay1) \<Rightarrow>
                route_target tc target (held_position ay sb \<noteq> None) dc created (ad\<lparr>ad_analysis := ay1\<rparr>)))"

definition count_outcome :: "target_outcome \<Rightarrow> tick_result \<Rightarrow> tick_result" where
  "count_outcome oc r =
     (let r1 = r\<lparr>tr_processed_count := tr_processed_count r + 1\<rparr>
      in case oc of
           TargetSkipped \<Rightarrow> r1\<lparr>tr_skipped_count := tr_skipped_count r + 1\<rparr>
         | TargetFailed \<Rightarrow> r1\<lparr>tr_failed_count := tr_failed_count r + 1\<rparr>
         | TargetDecided created \<Rightarrow> r1\<lparr>tr_decision_count := tr_decision_count r + (if created then 1 else 0)\<rparr>)"

primrec analyse_targets :: "tick_call \<Rightarrow> string \<Rightarrow> (uuid \<times> string \<times> string) list \<Rightarrow> tick_result \<Rightarrow> admission_db \<Rightarrow> tick_result \<times> admission_db" where
  "analyse_targets tc key [] r ad = (r, ad)"
| "analyse_targets tc key (x # xs) r ad =
     (let (oc, ad1) = analyse_target tc key x ad in analyse_targets tc key xs (count_outcome oc r) ad1)"

definition run_analysis_tick :: "tick_call \<Rightarrow> slot \<Rightarrow> admission_db \<Rightarrow> tick_result \<times> admission_db" where
  "run_analysis_tick tc s ad =
     analyse_targets tc (sl_key s) (analysis_targets (ad_analysis ad))
       \<lparr>tr_processed_count = 0, tr_decision_count = 0, tr_skipped_count = 0, tr_failed_count = 0\<rparr> ad"

section \<open>The loop\<close>

record scheduler_world =
  sc_lease :: scheduler_db
  sc_analysis :: admission_db

text \<open>One pass: the clock it reads, the clock when the tick has ended, and whether the tick raises as a whole, which it does
  only when its targets cannot be read.\<close>

record scheduler_pass_call =
  sp_tick :: tick_call
  sp_lease_seconds :: int
  sp_observed :: instant
  sp_finished :: instant
  sp_tick_raises :: bool

definition scheduler_publish :: "string \<Rightarrow> instant option \<Rightarrow> string option \<Rightarrow> scheduler_update" where
  "scheduler_publish s due code =
     \<lparr>su_state = s, su_slot_key = None, su_next_due_at = due, su_completed = False, su_processed_count = 0, su_decision_count = 0,
      su_skipped_count = 0, su_failed_count = 0, su_error_code = code\<rparr>"

definition completed_update :: "slot \<Rightarrow> tick_result \<Rightarrow> scheduler_update" where
  "completed_update s r =
     \<lparr>su_state = (if tr_failed_count r \<noteq> 0 then ''DEGRADED'' else ''RUNNING''), su_slot_key = Some (sl_key s),
      su_next_due_at = Some (sl_next_due_at s), su_completed = True, su_processed_count = tr_processed_count r,
      su_decision_count = tr_decision_count r, su_skipped_count = tr_skipped_count r, su_failed_count = tr_failed_count r,
      su_error_code = (if tr_failed_count r \<noteq> 0 then Some ''ITEM_FAILURE'' else None)\<rparr>"

definition work_slot :: "lease_identity \<Rightarrow> scheduler_pass_call \<Rightarrow> slot \<Rightarrow> scheduler_world \<Rightarrow> scheduler_world" where
  "work_slot i sp s w =
     (let l1 = snd (update_scheduler_state i (scheduler_publish ''RUNNING'' (Some (sl_next_due_at s)) None) (sp_observed sp) (sc_lease w))
      in if sp_tick_raises sp
         then w\<lparr>sc_lease := snd (update_scheduler_state i
                  (scheduler_publish ''DEGRADED'' (Some (sl_next_due_at s)) (Some ''SCHEDULER_TICK_FAILED'')) (sp_finished sp) l1)\<rparr>
         else (let (r, ay) = run_analysis_tick ((sp_tick sp)\<lparr>tc_now := sp_observed sp\<rparr>) s (sc_analysis w)
               in w\<lparr>sc_lease := snd (update_scheduler_state i (completed_update s r) (sp_finished sp) l1), sc_analysis := ay\<rparr>))"

text \<open>The value tells whether the loop goes on; otherwise the process ends with code 3.\<close>

definition scheduler_pass :: "lease_identity \<Rightarrow> scheduler_pass_call \<Rightarrow> scheduler_world \<Rightarrow> bool \<times> scheduler_world" where
  "scheduler_pass i sp w =
     (case renew_scheduler_lease i (sp_lease_seconds sp) (sp_observed sp) (sc_lease w) of
        (False, l) \<Rightarrow> (False, w\<lparr>sc_lease := l\<rparr>)
      | (True, l) \<Rightarrow>
          (let w1 = w\<lparr>sc_lease := l\<rparr>
           in (True, case analysis_slot (sp_observed sp) of
                (None, due) \<Rightarrow>
                  w1\<lparr>sc_lease := snd (update_scheduler_state i (scheduler_publish ''IDLE'' (Some due) None) (sp_observed sp) l)\<rparr>
              | (Some s, _) \<Rightarrow>
                  if Option.bind (scheduler_state_get l) ss_last_slot_key \<noteq> Some (sl_key s) then work_slot i sp s w1 else w1)))"

definition scheduler_start ::
  "(scheduler_db \<Rightarrow> scheduler_db) \<Rightarrow> string \<Rightarrow> int \<Rightarrow> instant \<Rightarrow> scheduler_world \<Rightarrow> lease_identity option \<times> scheduler_world" where
  "scheduler_start env owner secs now w =
     (case acquire_scheduler_lease env owner secs now (sc_lease w) of
        (None, l) \<Rightarrow> (None, w\<lparr>sc_lease := l\<rparr>)
      | (Some i, l) \<Rightarrow> (Some i, w\<lparr>sc_lease := snd (update_scheduler_state i (scheduler_publish ''STARTING'' None None) now l)\<rparr>))"

definition scheduler_stop :: "lease_identity \<Rightarrow> instant \<Rightarrow> scheduler_world \<Rightarrow> scheduler_world" where
  "scheduler_stop i now w = w\<lparr>sc_lease := snd (release_scheduler_lease i now (sc_lease w))\<rparr>"

end
