(* ===== verification/Scheduler_Properties.thy ===== *)
theory Scheduler_Properties
  imports Analysis_Scheduler
begin

text \<open>
  The slots of the scheduler tile the trading hours, and a tick that outlasts the lease is lost.
\<close>

section \<open>Local time\<close>

lemma local_split: "t = local_instant (kst_date t) (time_of_day t)" "0 \<le> time_of_day t" "time_of_day t < day_micros"
  by (simp_all add: local_instant_def kst_date_def time_of_day_def day_micros_def seconds_def)

lemma local_parts:
  assumes "0 \<le> tod" "tod < day_micros"
  shows "kst_date (local_instant day tod) = day" "time_of_day (local_instant day tod) = tod"
  using assms by (simp_all add: local_instant_def kst_date_def time_of_day_def day_micros_def seconds_def)

lemma local_order:
  assumes "0 \<le> a" "a < day_micros" "0 \<le> b" "b < day_micros"
  shows "local_instant d a < local_instant e b \<longleftrightarrow> d < e \<or> d = e \<and> a < b"
proof (cases d e rule: linorder_cases)
  case less
  then have "(d + 1) * day_micros \<le> e * day_micros" by (intro mult_right_mono) (simp_all add: day_micros_def seconds_def)
  then show ?thesis using assms less by (simp add: local_instant_def algebra_simps)
next
  case greater
  then have "(e + 1) * day_micros \<le> d * day_micros" by (intro mult_right_mono) (simp_all add: day_micros_def seconds_def)
  then show ?thesis using assms greater by (simp add: local_instant_def algebra_simps)
qed (simp add: local_instant_def)

lemma hours: "clock_hour 8 = 28800000000" "clock_hour 11 = 39600000000" "clock_hour 20 = 72000000000" "day_micros = 86400000000"
  by (simp_all add: clock_hour_def day_micros_def seconds_def)

section \<open>Outside the trading hours\<close>

lemma next_weekday_first:
  "day \<le> next_weekday day" "weekday (next_weekday day) < 5" "\<forall>e. day \<le> e \<longrightarrow> e < next_weekday day \<longrightarrow> 5 \<le> weekday e"
proof (induction day rule: next_weekday.induct)
  case (1 day)
  show "day \<le> next_weekday day" using 1(1) by (subst next_weekday.simps) auto
  show "weekday (next_weekday day) < 5" using 1(2) by (subst next_weekday.simps) auto
  show "\<forall>e. day \<le> e \<longrightarrow> e < next_weekday day \<longrightarrow> 5 \<le> weekday e"
  proof (cases "5 \<le> weekday day")
    case True
    then have n: "next_weekday day = next_weekday (day + 1)" by (subst next_weekday.simps) simp
    show ?thesis unfolding n using 1(3) [OF True] True by (metis add1_zle_eq order_le_less)
  next
    case False
    then have "next_weekday day = day" by (subst next_weekday.simps) simp
    then show ?thesis by simp
  qed
qed

lemma next_start:
  assumes "outside_hours now"
  shows "now < next_weekday_start now" "\<not> outside_hours (next_weekday_start now)"
    "now \<le> t \<Longrightarrow> t < next_weekday_start now \<Longrightarrow> outside_hours t"
proof -
  define first where "first = (if clock_hour 8 \<le> time_of_day now then kst_date now + 1 else kst_date now)"
  define day where "day = next_weekday first"
  have due: "next_weekday_start now = local_instant day (clock_hour 8)" by (simp add: next_weekday_start_def first_def day_def)
  note w = next_weekday_first [of first, folded day_def]
  note n = local_split [of now]
  have "local_instant (kst_date now) (time_of_day now) < local_instant day (clock_hour 8)"
    using n(2,3) w(1) by (subst local_order) (auto simp: first_def hours split: if_splits)
  then show "now < next_weekday_start now" using n(1) due by simp
  show "\<not> outside_hours (next_weekday_start now)"
    using w(2) local_parts [of "clock_hour 8" day] by (simp add: due outside_hours_def hours)
  assume t: "now \<le> t" "t < next_weekday_start now"
  note s = local_split [of t]
  have before: "kst_date t < day \<or> kst_date t = day \<and> time_of_day t < clock_hour 8"
    using t(2) s local_order [of "time_of_day t" "clock_hour 8" "kst_date t" day] due by (simp add: hours)
  have after: "kst_date now < kst_date t \<or> kst_date now = kst_date t \<and> time_of_day now \<le> time_of_day t"
    using t(1) s n local_order [of "time_of_day t" "time_of_day now" "kst_date t" "kst_date now"] by (metis linorder_not_less not_less_iff_gr_or_eq)
  show "outside_hours t"
  proof (cases "kst_date t < day \<and> first \<le> kst_date t")
    case True
    then show ?thesis using w(3) by (simp add: outside_hours_def)
  next
    case False
    then show ?thesis using before after w(1) assms by (auto simp: outside_hours_def first_def split: if_splits)
  qed
qed

section \<open>Inside the trading hours\<close>

text \<open>The part of the day an instant falls in: where it begins, and the width of its slots.\<close>

definition slot_grid :: "int \<Rightarrow> int \<times> int" where
  "slot_grid tod = (if tod < clock_hour 11 then (clock_hour 8, seconds 300) else (clock_hour 11, seconds 600))"

definition slot_begin :: "int \<Rightarrow> int" where
  "slot_begin tod = (let (base, width) = slot_grid tod in base + (tod - base) div width * width)"

lemma analysis_slot_inside:
  assumes "\<not> outside_hours t"
  shows "analysis_slot t =
    (let day = kst_date t; b = slot_begin (time_of_day t); e = b + snd (slot_grid (time_of_day t))
     in (Some \<lparr>sl_key = slot_key day b, sl_start_at = local_instant day b, sl_next_due_at = local_instant day e\<rparr>, local_instant day e))"
proof -
  have "(x div 60000000) div 5 = x div 300000000" "(x div 60000000) div 10 = x div 600000000" for x :: int
    by (simp_all add: div_mult2_eq [symmetric] zdiv_zmult2_eq [symmetric])
  then show ?thesis
    using assms by (simp add: analysis_slot_def slot_begin_def slot_grid_def seconds_def Let_def algebra_simps)
qed

lemma grid_cell:
  fixes x base width :: int
  assumes "0 < width" "base \<le> x" "x < base + n * width"
  defines "b \<equiv> base + (x - base) div width * width"
  shows "base \<le> b" "b \<le> x" "x < b + width" "b + width \<le> base + n * width"
    "b \<le> y \<Longrightarrow> y < b + width \<Longrightarrow> base + (y - base) div width * width = b"
proof -
  let ?q = "(x - base) div width"
  have split: "x - base = ?q * width + (x - base) mod width" by simp
  have m: "0 \<le> (x - base) mod width" "(x - base) mod width < width" using assms(1) by simp_all
  have q: "0 \<le> ?q" using assms(1,2) by (simp add: pos_imp_zdiv_nonneg_iff)
  then show "base \<le> b" using assms(1) by (simp add: b_def)
  show "b \<le> x" "x < b + width" unfolding b_def using split m by linarith+
  have "?q * width < n * width" using split m(1) assms(3) by linarith
  then have "?q + 1 \<le> n" using assms(1) by simp
  then have "(?q + 1) * width \<le> n * width" using assms(1) by (intro mult_right_mono) simp_all
  then show "b + width \<le> base + n * width" by (simp add: b_def algebra_simps)
  assume y: "b \<le> y" "y < b + width"
  have "(y - base) div width = ?q"
    by (rule int_div_pos_eq [where r = "y - b"]) (use y in \<open>simp_all add: b_def algebra_simps\<close>)
  then show "base + (y - base) div width * width = b" by (simp add: b_def)
qed

lemma slot_begin_cell:
  assumes "\<forall>x. base \<le> x \<longrightarrow> x < base + n * width \<longrightarrow> slot_grid x = (base, width)" "0 < width" "base \<le> tod" "tod < base + n * width"
  shows "slot_grid tod = (base, width)" "base \<le> slot_begin tod" "slot_begin tod \<le> tod" "tod < slot_begin tod + width"
    "slot_begin tod + width \<le> base + n * width"
    "slot_begin tod \<le> x \<Longrightarrow> x < slot_begin tod + width \<Longrightarrow> slot_begin x = slot_begin tod \<and> slot_grid x = slot_grid tod"
proof -
  have b: "slot_begin x = base + (x - base) div width * width" if "base \<le> x" "x < base + n * width" for x
    using assms(1) that by (simp add: slot_begin_def)
  note c = grid_cell [OF assms(2-4), folded b [OF assms(3,4)]]
  show g: "slot_grid tod = (base, width)" using assms(1,3,4) by blast
  show "base \<le> slot_begin tod" "slot_begin tod \<le> tod" "tod < slot_begin tod + width" "slot_begin tod + width \<le> base + n * width"
    by (fact c)+
  assume x: "slot_begin tod \<le> x" "x < slot_begin tod + width"
  then have "base \<le> x" "x < base + n * width" using c(1,4) by linarith+
  then show "slot_begin x = slot_begin tod \<and> slot_grid x = slot_grid tod" using b assms(1) g c(5) [OF x] by simp
qed

lemma slot_begin_bounds:
  assumes "clock_hour 8 \<le> tod" "tod < clock_hour 20"
  obtains width where "snd (slot_grid tod) = width" "clock_hour 8 \<le> slot_begin tod" "slot_begin tod \<le> tod"
    "tod < slot_begin tod + width" "slot_begin tod + width \<le> clock_hour 20"
    "width = (if tod < clock_hour 11 then seconds 300 else seconds 600)"
    "\<And>x. slot_begin tod \<le> x \<Longrightarrow> x < slot_begin tod + width \<Longrightarrow> slot_begin x = slot_begin tod \<and> slot_grid x = slot_grid tod"
proof (cases "tod < clock_hour 11")
  case True
  have h: "clock_hour 8 + 36 * seconds 300 = clock_hour 11" "0 < seconds 300" "clock_hour 11 \<le> clock_hour 20" by (simp_all add: seconds_def hours)
  have "\<forall>x. clock_hour 8 \<le> x \<longrightarrow> x < clock_hour 8 + 36 * seconds 300 \<longrightarrow> slot_grid x = (clock_hour 8, seconds 300)"
    unfolding h(1) slot_grid_def by simp
  note c = slot_begin_cell [OF this h(2) assms(1) True [folded h(1)]]
  show thesis
  proof (rule that [of "seconds 300"])
    show "snd (slot_grid tod) = seconds 300" using c(1) by simp
    show "seconds 300 = (if tod < clock_hour 11 then seconds 300 else seconds 600)" using True by (simp only: if_True)
    show "slot_begin tod + seconds 300 \<le> clock_hour 20" using c(5) h(3) unfolding h(1) by (rule order_trans)
  qed (fact c)+
next
  case False
  then have f: "clock_hour 11 \<le> tod" by (simp only: not_less)
  have h: "clock_hour 11 + 54 * seconds 600 = clock_hour 20" "0 < seconds 600" "clock_hour 8 \<le> clock_hour 11" by (simp_all add: seconds_def hours)
  have "\<forall>x. clock_hour 11 \<le> x \<longrightarrow> x < clock_hour 11 + 54 * seconds 600 \<longrightarrow> slot_grid x = (clock_hour 11, seconds 600)"
    unfolding slot_grid_def by simp
  note c = slot_begin_cell [OF this h(2) f assms(2) [folded h(1)]]
  show thesis
  proof (rule that [of "seconds 600"])
    show "snd (slot_grid tod) = seconds 600" using c(1) by simp
    show "seconds 600 = (if tod < clock_hour 11 then seconds 300 else seconds 600)" using False by (simp only: if_False)
    show "clock_hour 8 \<le> slot_begin tod" using h(3) c(2) by (rule order_trans)
    show "slot_begin tod + seconds 600 \<le> clock_hour 20" using c(5) unfolding h(1) .
  qed (fact c)+
qed

section \<open>Ticks and leases\<close>

definition recorded_slot :: "scheduler_db \<Rightarrow> string option" where
  "recorded_slot d = Option.bind (scheduler_state_get d) ss_last_slot_key"

lemma scheduler_state_upd_get:
  assumes "\<And>s. ss_scheduler_name (f s) = ss_scheduler_name s"
  shows "scheduler_state_get (scheduler_state_upd f d) = map_option f (scheduler_state_get d)"
  using assms by (simp add: scheduler_state_get_def scheduler_state_upd_def row_find_row_upd)

lemma published_scheduler_sel:
  "ss_scheduler_name (published_scheduler_state i u now s) = ss_scheduler_name s"
  "su_slot_key u = None \<Longrightarrow> ss_last_slot_key (published_scheduler_state i u now s) = ss_last_slot_key s"
  by (simp_all add: published_scheduler_state_def Let_def split: option.split)

lemma update_scheduler_frame:
  "scheduler_lease_get (snd (update_scheduler_state i u now d)) = scheduler_lease_get d"
  "su_slot_key u = None \<Longrightarrow> recorded_slot (snd (update_scheduler_state i u now d)) = recorded_slot d"
proof -
  show "scheduler_lease_get (snd (update_scheduler_state i u now d)) = scheduler_lease_get d"
    by (simp add: update_scheduler_state_def scheduler_state_upd_def scheduler_lease_get_def Let_def split: option.split)
  assume u: "su_slot_key u = None"
  show "recorded_slot (snd (update_scheduler_state i u now d)) = recorded_slot d"
  proof (cases "scheduler_state_get d")
    case None
    then have "scheduler_state_get (d\<lparr>scheduler_states := scheduler_states d @ [new_scheduler_state i u now]\<rparr>) = Some (new_scheduler_state i u now)"
      by (simp add: scheduler_state_get_def row_find_append new_scheduler_state_def)
    then show ?thesis
      using None u by (simp add: update_scheduler_state_def recorded_slot_def scheduler_state_upd_get published_scheduler_sel
          new_scheduler_state_def Let_def)
  next
    case (Some s)
    then show ?thesis
      using u by (simp add: update_scheduler_state_def recorded_slot_def scheduler_state_upd_get published_scheduler_sel Let_def)
  qed
qed

lemma renew_scheduler_frame:
  assumes "scheduler_lease_current d i now"
  obtains e where "renew_scheduler_lease i secs now d = (True, e)" "recorded_slot e = recorded_slot d"
    "\<And>t. scheduler_lease_current e i t \<longleftrightarrow> t < now + seconds secs"
proof -
  let ?l = "scheduler_lease_upd (\<lambda>l. l\<lparr>sl_expires_at := now + seconds secs, sl_version := sl_version l + 1\<rparr>) d"
  let ?e = "own_scheduler_state_upd i (\<lambda>s. s\<lparr>ss_last_heartbeat_at := now\<rparr>) ?l"
  obtain l where l: "scheduler_lease_get d = Some l" "scheduler_row_held i l"
    using assms by (auto simp: scheduler_lease_current_def split: option.splits)
  have "scheduler_lease_get ?e = Some (l\<lparr>sl_expires_at := now + seconds secs, sl_version := sl_version l + 1\<rparr>)"
    using l(1) by (simp add: own_scheduler_state_upd_def scheduler_lease_get_upd split: option.split)
  then have c: "scheduler_lease_current ?e i t \<longleftrightarrow> t < now + seconds secs" for t
    using l(2) by (simp add: scheduler_lease_current_def scheduler_row_held_def)
  have "scheduler_state_get ?l = scheduler_state_get d" by (simp add: scheduler_state_get_def scheduler_lease_upd_def)
  then have "recorded_slot ?e = recorded_slot d"
    by (auto simp: own_scheduler_state_upd_def recorded_slot_def scheduler_state_upd_get split: option.split)
  moreover have "renew_scheduler_lease i secs now d = (True, ?e)" using assms by (simp add: renew_scheduler_lease_def)
  ultimately show thesis using that c by blast
qed

lemma scheduler_current_cong:
  "scheduler_lease_get d' = scheduler_lease_get d \<Longrightarrow> scheduler_lease_current d' i now = scheduler_lease_current d i now"
  by (simp add: scheduler_lease_current_def)

section \<open>Properties\<close>

text \<open>C34. The slots of the scheduler tile the trading hours. On a weekday from 8 to 20 o'clock in Seoul every instant lies in exactly one slot,
  of five minutes before 11 o'clock and of ten afterwards, which starts no later than the instant, is due for its
  successor after it, and is the slot of each of its instants. At any other time there is no slot, and the time that is
  reported as due is the first instant of trading hours that follows.\<close>
theorem slots_tile_trading_hours:
  "case analysis_slot now of
     (Some s, due) \<Rightarrow>
       \<not> outside_hours now \<and> due = sl_next_due_at s \<and> sl_start_at s \<le> now \<and> now < due \<and>
       due - sl_start_at s = (if time_of_day now < clock_hour 11 then seconds 300 else seconds 600) \<and>
       (\<forall>t. sl_start_at s \<le> t \<longrightarrow> t < due \<longrightarrow> analysis_slot t = (Some s, due))
   | (None, due) \<Rightarrow>
       outside_hours now \<and> now < due \<and> \<not> outside_hours due \<and> (\<forall>t. now \<le> t \<longrightarrow> t < due \<longrightarrow> outside_hours t)"
proof (cases "outside_hours now")
  case True
  then show ?thesis using next_start [OF True] by (auto simp: analysis_slot_def)
next
  case inside: False
  define day b where "day = kst_date now" and "b = slot_begin (time_of_day now)"
  have h: "clock_hour 8 \<le> time_of_day now" "time_of_day now < clock_hour 20" "weekday day < 5"
    using inside by (auto simp: outside_hours_def day_def)
  obtain w where wd: "snd (slot_grid (time_of_day now)) = w"
    and c: "clock_hour 8 \<le> b" "b \<le> time_of_day now" "time_of_day now < b + w" "b + w \<le> clock_hour 20"
      "w = (if time_of_day now < clock_hour 11 then seconds 300 else seconds 600)"
    and cell: "\<And>x. b \<le> x \<Longrightarrow> x < b + w \<Longrightarrow> slot_begin x = b \<and> slot_grid x = slot_grid (time_of_day now)"
    using slot_begin_bounds [OF h(1,2)] unfolding b_def by metis
  have now: "analysis_slot now = (Some \<lparr>sl_key = slot_key day b, sl_start_at = local_instant day b, sl_next_due_at = local_instant day (b + w)\<rparr>,
      local_instant day (b + w))" "now = local_instant day (time_of_day now)"
    using analysis_slot_inside [OF inside] local_split(1) [of now] by (simp_all add: day_def b_def wd Let_def)
  have range: "0 \<le> b" "b < day_micros" "0 \<le> b + w" "b + w < day_micros" using c h(1) by (simp_all add: hours)
  have same: "analysis_slot t = analysis_slot now" if t: "local_instant day b \<le> t" "t < local_instant day (b + w)" for t
  proof -
    note s = local_split [of t]
    have "\<not> local_instant (kst_date t) (time_of_day t) < local_instant day b" "local_instant (kst_date t) (time_of_day t) < local_instant day (b + w)"
      using t s(1) by simp_all
    then have p: "kst_date t = day" "b \<le> time_of_day t" "time_of_day t < b + w"
      unfolding local_order [OF s(2,3) range(1,2)] local_order [OF s(2,3) range(3,4)] by auto
    then have "\<not> outside_hours t" using c h by (simp add: outside_hours_def)
    then show ?thesis
      using analysis_slot_inside [of t] now(1) p(1) cell [OF p(2,3)] wd by (simp add: Let_def)
  qed
  have "local_instant day b \<le> now" "now < local_instant day (b + w)"
    using c(2,3) now(2) unfolding local_instant_def by linarith+
  then show ?thesis
    using inside same now(1) c(5) by (simp add: local_instant_def)
qed

theorem slots_tile_trading_hours_witness:
  "\<exists>s due. analysis_slot (seconds 4000) = (Some s, due) \<and> sl_start_at s \<le> seconds 4000 \<and> analysis_slot (seconds 3999) = (Some s, due)"
proof -
  obtain s due where a: "analysis_slot (seconds 4000) = (Some s, due)" "sl_start_at s \<le> seconds 3999" "seconds 4000 < due"
    by (simp add: analysis_slot_def outside_hours_def time_of_day_def kst_date_def weekday_def kst_offset_def local_instant_def hours seconds_def)
  then show ?thesis using slots_tile_trading_hours [of "seconds 4000"] by (auto simp: seconds_def)
qed

text \<open>A tick that outlasts the lease is done but not recorded, and ends the scheduler: the lease is renewed only between passes,
  so when the tick ends after the expiry its decisions are stored, the slot is not marked as worked off, and the next
  pass stops the process with code 3.\<close>
theorem slow_tick_not_recorded:
  assumes "scheduler_lease_current (sc_lease w) i (sp_observed sp)" "analysis_slot (sp_observed sp) = (Some s, due)"
    "recorded_slot (sc_lease w) \<noteq> Some (sl_key s)" "\<not> sp_tick_raises sp"
    "sp_observed sp + seconds (sp_lease_seconds sp) \<le> sp_finished sp" "sp_finished sp \<le> sp_observed sp'"
  shows "\<exists>w'. scheduler_pass i sp w = (True, w') \<and>
    sc_analysis w' = snd (run_analysis_tick ((sp_tick sp)\<lparr>tc_now := sp_observed sp\<rparr>) s (sc_analysis w)) \<and>
    recorded_slot (sc_lease w') = recorded_slot (sc_lease w) \<and> fst (scheduler_pass i sp' w') = False"
proof -
  obtain e where e: "renew_scheduler_lease i (sp_lease_seconds sp) (sp_observed sp) (sc_lease w) = (True, e)"
    "recorded_slot e = recorded_slot (sc_lease w)" "\<And>t. scheduler_lease_current e i t \<longleftrightarrow> t < sp_observed sp + seconds (sp_lease_seconds sp)"
    using renew_scheduler_frame [OF assms(1)] by metis
  define run where "run = snd (update_scheduler_state i (scheduler_publish ''RUNNING'' (Some (sl_next_due_at s)) None) (sp_observed sp) e)"
  have r: "recorded_slot run = recorded_slot e" "\<And>t. scheduler_lease_current run i t = scheduler_lease_current e i t"
    unfolding run_def by (simp_all add: update_scheduler_frame scheduler_publish_def scheduler_current_cong [OF update_scheduler_frame(1)])
  have late: "\<not> scheduler_lease_current run i t" if "sp_finished sp \<le> t" for t using that assms(5) r(2) e(3) by simp
  obtain res ay where tick: "run_analysis_tick ((sp_tick sp)\<lparr>tc_now := sp_observed sp\<rparr>) s (sc_analysis w) = (res, ay)" by fastforce
  have "update_scheduler_state i u (sp_finished sp) run = (False, run)" for u using late by (simp add: update_scheduler_state_def)
  then have p: "scheduler_pass i sp w = (True, w\<lparr>sc_lease := run, sc_analysis := ay\<rparr>)"
    using e(1,2) assms(2-4) tick by (simp add: scheduler_pass_def work_slot_def run_def recorded_slot_def Let_def)
  have "fst (scheduler_pass i sp' (w\<lparr>sc_lease := run, sc_analysis := ay\<rparr>)) = False"
    using late [OF assms(6)] by (simp add: scheduler_pass_def renew_scheduler_lease_def)
  then show ?thesis using p tick r(1) e(2) by simp
qed

end
