(* ===== verification/Spec2Isabelle.thy ===== *)
theory Spec2Isabelle
  imports Paper_Properties Emergency_Stop Policy_Properties Market_Properties Execution_Properties
    Sender_Properties Stop_Properties Reconciliation_Properties Auth_Properties Quote_Properties Watchlist
    Kiwoom_Properties Feed_Properties Decision_Policy_Properties Agent_Liveness Worker_Gate Admission_Properties Scheduler_Properties
begin

text \<open>
  A verification development for the trading backend of Cresta (\<open>src/backend/app\<close>).

  \<^bold>\<open>The program.\<close> Cresta turns market data into decisions and decisions into broker orders. Quotes of the broker's
  websocket (\<open>broker/kiwoom_ws.py\<close>) are ingested into snapshots, minute bars and indicators (\<open>watch.py\<close>, \<open>indicators.py\<close>,
  \<open>watchlist.py\<close>). A deterministic policy (\<open>decision_inputs.py\<close>, \<open>agents/server_inputs.py\<close>, \<open>mock_ai.py\<close>) decides on
  entries and positions, asked by a scheduler slot by slot (\<open>analysis_scheduler.py\<close>); runs of agents are admitted with the market context of the symbol (\<open>agents/runtime.py\<close>, \<open>market_context.py\<close>), worked off stage by stage
  (\<open>agents/worker.py\<close>) and their advice can
  only make an exit more severe (\<open>position_agent_fusion.py\<close>). A decision is routed through a guard of risk
  rules (\<open>decision_execution.py\<close>, \<open>guard.py\<close>, \<open>risk_calc.py\<close>) to a shadow record, a manual approval
  (\<open>approvals.py\<close>) or an order (\<open>order_creation.py\<close>). One broker worker at a time (\<open>worker.py\<close>), fenced by a lease
  (\<open>broker/worker_state.py\<close>), transmits created orders (\<open>broker/order_sender.py\<close>) through the broker's HTTP interface
  (\<open>broker/kiwoom.py\<close>), projects the broker's account onto the ledger and compares the two (\<open>account_projection.py\<close>,
  \<open>reconciliation.py\<close>) and fires fixed stop losses (\<open>stop_trigger.py\<close>). Policies are versioned configuration
  (\<open>execution_policy.py\<close>, \<open>risk_policy.py\<close>), an operator can pause entries (\<open>emergency_stop.py\<close>), the trading calendar and the
  venue choice are in \<open>market_calendar.py\<close>, \<open>calendar_overrides.py\<close> and \<open>venue_selection.py\<close>, operators log in through
  \<open>auth/service.py\<close>, and \<open>trading/paper.py\<close> is a paper broker with the same ledger.

  \<^bold>\<open>State.\<close> \<open>Cresta_Schema\<close> declares one record per table of \<open>models.py\<close> and the record \<open>db\<close> of the trading tables; a
  table is the list of its rows in insertion order. An operation of a service module is a function from its
  arguments and a \<open>db\<close> to a result and a \<open>db\<close>; an exception is an \<open>Inl\<close> of an error type of the module.
  A raise leaves the database as it was unless the code commits first. Tables that only one component writes are
  its own record: \<open>scheduler_db\<close>, \<open>auth_db\<close>, \<open>watch_db\<close> (seen by the others through \<open>published\<close>), \<open>analysis_db\<close>,
  \<open>fusion_db\<close>, \<open>agent_db\<close>, \<open>admission_db\<close> (seen by the stage machine through \<open>agents_of\<close>), \<open>context_db\<close>. \<open>worker_world\<close> is the state of the broker worker: database and transmitted requests, ingestion state, HTTP
  client, websocket, lease identity.

  \<^bold>\<open>Theories, in import order.\<close>
  \<^item> \<open>Cresta_Prelude\<close>: identifiers, decimals and their rounding, instants, JSON documents, keyed rows, and the
    locale \<open>db_table\<close> of what a table promises; \<open>Cresta_Schema\<close>: tables, CHECK constraints, interpretations.
  \<^item> \<open>Paper_Broker\<close> (operations), \<open>Paper_Ledger\<close> (invariant and its preservation), \<open>Paper_Properties\<close>:
    quantities are conserved, positions are the net of fills, late fills are netted, replays change nothing.
  \<^item> \<open>Order_Creation\<close>: exactly-once creation under an idempotency key; \<open>Emergency_Stop\<close>: the stop machine.
  \<^item> \<open>Policy_Config\<close>, \<open>Policy_Properties\<close>: payload codecs and the draft, validate, activate lifecycle, proved
    once in the locale \<open>config_category\<close> for both policy kinds.
  \<^item> \<open>Market_Session\<close>, \<open>Market_Properties\<close>: trading days, operational closures, sessions, venue choice.
  \<^item> \<open>Risk_Guard\<close>: rule rows, risk events, risk measures; \<open>Decision_Guards\<close>: entry and exit guards;
    \<open>Approvals\<close>, \<open>Approval_Properties\<close>; \<open>Decision_Execution\<close>, \<open>Execution_Properties\<close>: what a routed or approved
    order has passed. \<open>Trading_Scenario\<close> is a concrete database for the witnesses.
  \<^item> \<open>Fenced_Lease\<close>: the abstract lease as a locale; \<open>Worker_Lease\<close>: broker and scheduler leases refine it.
  \<^item> \<open>Order_Sender\<close>, \<open>Sender_Properties\<close>: an order is transmitted at most once, and a ready worker drains the queue.
  \<^item> \<open>Stop_Trigger\<close>, \<open>Stop_Properties\<close>: what a stop may sell, and why it does not fire as configured.
  \<^item> \<open>Account_Projection\<close>, \<open>Reconciliation\<close>, \<open>Reconciliation_Properties\<close>: a run never opens the gate, the comparison
    is exact, positions become the broker's.
  \<^item> \<open>Auth_Service\<close>, \<open>Auth_Properties\<close>: login, sessions, one-time codes and proofs; a credential is used once.
  \<^item> \<open>Quote_Ingest\<close>, \<open>Quote_Properties\<close>, \<open>Watchlist\<close>: ingestion is idempotent, a gap stays latched, indicators stay
    within the session; the watchlist is limited.
  \<^item> \<open>Kiwoom_Wire\<close> (wire values and their normalisation), \<open>Kiwoom_Client\<close> (token, pages, limiter, orders),
    \<open>Kiwoom_Properties\<close>: one order request per call, well-formed snapshots; \<open>Kiwoom_Feed\<close>, \<open>Feed_Properties\<close>: the
    websocket and the quotes it yields.
  \<^item> \<open>Position_Fusion\<close>, \<open>Fusion_Properties\<close>: advice only escalates; \<open>Decision_Policy\<close>, \<open>Decision_Policy_Properties\<close>: when the
    policy buys, and that it exits no later the worse a position is.
  \<^item> \<open>Agent_Stages\<close>, \<open>Agent_Stage_Properties\<close>, \<open>Agent_Liveness\<close>: stages of agent runs as a fenced state machine, and that
    uninterrupted workers finish every run (locale \<open>draining\<close>).
  \<^item> \<open>Broker_Worker\<close>: the worker as a machine of phases over all components it calls; \<open>Worker_Frames\<close>: what those components
    leave alone; \<open>Worker_Properties\<close>: a Hoare-style predicate \<open>keeps\<close> carries the soundness of the gate and the list of
    transmitted orders through every operation; \<open>Worker_Gate\<close>: an open gate rests on a clean reconciliation, orders are only sent
    behind it, and a halted startup is not kept.
  \<^item> \<open>Market_Context\<close> (documents on index and sector), \<open>Agent_Admission\<close>, \<open>Admission_Properties\<close>: checks, routes, frozen inputs and
    rows of a new agent run; it is admitted once, the stage machine works it off, and it must describe the position of its basis.
  \<^item> \<open>Analysis_Scheduler\<close>, \<open>Scheduler_Properties\<close>: slots, targets, tick and loop of the scheduler; the slots tile the trading
    hours, and a tick that outlasts the lease is not recorded.

  \<^bold>\<open>Modelling decisions.\<close> Decimals are exact rationals; \<open>quantize\<close> is modelled, the 28-digit context and the
  rounding of NUMERIC columns are not; infinite decimals end an operation with an error value. Ids come from a counter, so they are
  fresh; their text is decimal. SHA-256 is a symbolic digest, or a parameter where its text matters. Instants are microseconds in UTC.
  Text is ASCII; decimal text in documents stands for its value; keys joined by colons are kept as text. Parameters named
  \<open>env\<close> are what other transactions commit at a point where the code does not hold the rows; an order created inside
  another operation sees no such interference. Columns that only record the wall clock are left out, unless a decision reads them.
  The identity map of a session is not modelled except for \<open>autoflush=False\<close> in the projection. Foreign keys are
  only a parameter of the stop trigger. Public holidays, password hashing and one-time codes (\<open>auth_crypto\<close>), the HTTP transport with
  its clocks (\<open>kiwoom_net\<close>), the frames of the websocket and the digest text are parameters; a JSON float is given by what
  the code observes of it. The body of an agent stage, which calls model providers, is described by its effect.
  In the broker worker a coroutine is an operation on the world, one step is one connection attempt or one pass of the receive
  loop, and the heartbeat runs between steps; what other processes commit is a parameter of every operation.
  Recursions are structural or have a measure; no fuel is used, and loops that serve for ever are step relations.

  \<^bold>\<open>Not modelled.\<close> HTTP routers, command line, configuration loading, migrations and the frontend carry no
  trading logic; the language model adapters, the editing of provider profiles and the collection of evidence are network and persistence
  code. The checks of model output inside a stage are left out with its body.
\<close>

end
